(* ===== verification/Go_Prelude.thy ===== *)
theory Go_Prelude
  imports Main "HOL-Library.Word" "HOL-Library.Char_ord" "HOL-Library.List_Lexorder"
begin

text \<open>
  Shared ground of the development: the Go types the service uses (machine words, strings as
  byte lists, instants and durations in nanoseconds), the string and slice helpers of Go's
  standard library the sources call, and the service's error vocabulary.  Error values are
  modelled by the sentinel that \<open>errors.Is\<close> sees and by the failure code some messages carry;
  the remaining message text is not observable by any caller and is dropped.
\<close>

named_theorems go_string \<open>facts about the modelled string helpers\<close>
named_theorems go_time \<open>unfolding of the modelled time operations\<close>

section \<open>Machine types\<close>

type_synonym u64 = "64 word"
type_synonym u32 = "32 word"
type_synonym bytes = string

text \<open>
  \<open>time.Time\<close> is an instant in nanoseconds since the Unix epoch; the zero value of Go's type is
  midnight of 1 January of year 1.  \<open>time.Duration\<close> is a signed 64-bit number of nanoseconds;
  \<open>Time.Sub\<close> saturates at its two ends.
\<close>

type_synonym time = int
type_synonym duration = int

definition zero_time :: time where
  "zero_time = - 62135596800 * 1000000000"

definition IsZero :: "time \<Rightarrow> bool" where
  "IsZero t \<longleftrightarrow> t = zero_time"

definition After :: "time \<Rightarrow> time \<Rightarrow> bool" where
  "After t u \<longleftrightarrow> u < t"

definition Before :: "time \<Rightarrow> time \<Rightarrow> bool" where
  "Before t u \<longleftrightarrow> t < u"

definition Add :: "time \<Rightarrow> duration \<Rightarrow> time" where
  "Add t d = t + d"

definition min_duration :: duration where
  "min_duration = - (2 ^ 63)"

definition max_duration :: duration where
  "max_duration = 2 ^ 63 - 1"

definition Sub :: "time \<Rightarrow> time \<Rightarrow> duration" where
  "Sub t u = (if t - u < min_duration then min_duration
              else if max_duration < t - u then max_duration else t - u)"

declare After_def [go_time] Before_def [go_time] Add_def [go_time]

text \<open>\<open>Truncate(time.Microsecond)\<close>, and what a \<open>timestamptz\<close> column keeps of an instant.\<close>

definition trunc_us :: "time \<Rightarrow> time" where
  "trunc_us t = t div 1000 * 1000"

abbreviation second :: duration where
  "second \<equiv> 1000000000"

lemma trunc_us_le: "trunc_us t \<le> t"
proof -
  have "t = t div 1000 * 1000 + t mod 1000" by simp
  moreover have "0 \<le> t mod 1000" by simp
  ultimately show ?thesis by (simp add: trunc_us_def)
qed

lemma trunc_us_gt: "t - 1000 < trunc_us t"
proof -
  have "t = t div 1000 * 1000 + t mod 1000" by simp
  moreover have "t mod 1000 < 1000" by simp
  ultimately show ?thesis unfolding trunc_us_def by linarith
qed

lemma trunc_us_idem [simp]: "trunc_us (trunc_us t) = trunc_us t"
  by (simp add: trunc_us_def)

lemma trunc_us_zero [simp]: "trunc_us zero_time = zero_time"
  by (simp add: trunc_us_def zero_time_def)

lemma trunc_us_mono: "t \<le> u \<Longrightarrow> trunc_us t \<le> trunc_us u"
  by (simp add: trunc_us_def zdiv_mono1)

lemma Sub_exact:
  "min_duration \<le> t - u \<Longrightarrow> t - u \<le> max_duration \<Longrightarrow> Sub t u = t - u"
  by (simp add: Sub_def)

section \<open>Strings and slices\<close>

text \<open>
  Strings and byte slices are lists of bytes.  \<open>strings.ToLower\<close>, \<open>strings.TrimSpace\<close> and
  \<open>strings.Fields\<close> are modelled on the ASCII range, which is where host names, roles, scopes
  and licence identifiers live.
\<close>

definition lower_char :: "char \<Rightarrow> char" where
  "lower_char c =
     (if CHR ''A'' \<le> c \<and> c \<le> CHR ''Z'' then char_of (of_char c + 32 :: nat) else c)"

definition ToLower :: "string \<Rightarrow> string" where
  "ToLower s = map lower_char s"

definition is_space :: "char \<Rightarrow> bool" where
  "is_space c \<longleftrightarrow> c \<in> {CHR '' '', CHR 0x09, CHR 0x0A, CHR 0x0B, CHR 0x0C, CHR 0x0D}"

definition TrimLeft :: "(char \<Rightarrow> bool) \<Rightarrow> string \<Rightarrow> string" where
  "TrimLeft p s = dropWhile p s"

definition TrimRight :: "(char \<Rightarrow> bool) \<Rightarrow> string \<Rightarrow> string" where
  "TrimRight p s = rev (dropWhile p (rev s))"

definition TrimFunc :: "(char \<Rightarrow> bool) \<Rightarrow> string \<Rightarrow> string" where
  "TrimFunc p s = TrimRight p (TrimLeft p s)"

definition TrimSpace :: "string \<Rightarrow> string" where
  "TrimSpace s = TrimFunc is_space s"

text \<open>\<open>strings.Trim(s, cutset)\<close>\<close>
definition Trim :: "string \<Rightarrow> string \<Rightarrow> string" where
  "Trim s cutset = TrimFunc (\<lambda>c. c \<in> set cutset) s"

definition HasPrefix :: "string \<Rightarrow> string \<Rightarrow> bool" where
  "HasPrefix s p \<longleftrightarrow> take (length p) s = p"

definition HasSuffix :: "string \<Rightarrow> string \<Rightarrow> bool" where
  "HasSuffix s p \<longleftrightarrow> length p \<le> length s \<and> drop (length s - length p) s = p"

definition TrimPrefix :: "string \<Rightarrow> string \<Rightarrow> string" where
  "TrimPrefix s p = (if HasPrefix s p then drop (length p) s else s)"

fun Join :: "string list \<Rightarrow> string \<Rightarrow> string" where
  "Join [] sep = []"
| "Join [x] sep = x"
| "Join (x # y # xs) sep = x @ sep @ Join (y # xs) sep"

text \<open>\<open>strings.Split(s, sep)\<close> for a one-byte separator.\<close>
fun Split :: "string \<Rightarrow> char \<Rightarrow> string list" where
  "Split [] sep = [[]]"
| "Split (c # s) sep =
     (if c = sep then [] # Split s sep
      else (case Split s sep of [] \<Rightarrow> [[c]] | w # ws \<Rightarrow> (c # w) # ws))"

text \<open>\<open>strings.Fields(s)\<close>: the maximal runs of non-space bytes.\<close>
function Fields :: "string \<Rightarrow> string list" where
  "Fields s =
     (let t = dropWhile is_space s in
      if t = [] then []
      else takeWhile (\<lambda>c. \<not> is_space c) t # Fields (dropWhile (\<lambda>c. \<not> is_space c) t))"
  by pat_completeness auto
termination
proof (relation "measure length", goal_cases)
  case (2 s t)
  have le: "length (dropWhile (\<lambda>c. \<not> is_space c) t) \<le> length t"
    by (rule length_dropWhile_le)
  obtain c t' where t: "t = c # t'" and c: "\<not> is_space c"
    using 2 by (metis hd_dropWhile list.sel(1) neq_Nil_conv)
  have "length (dropWhile (\<lambda>c. \<not> is_space c) t) \<le> length t'"
    using t c by (simp add: length_dropWhile_le)
  moreover have "length t \<le> length s"
    using 2 by (simp add: length_dropWhile_le)
  ultimately show ?case using t by simp
qed simp

declare Fields.simps [simp del]

text \<open>\<open>slices.Sort\<close> on strings is the bytewise lexicographic order; \<open>slices.Compact\<close> drops
  adjacent repetitions.\<close>

definition sort_strings :: "string list \<Rightarrow> string list" where
  "sort_strings xs = sort xs"

definition Compact :: "'a list \<Rightarrow> 'a list" where
  "Compact xs = remdups_adj xs"

lemma set_Compact [simp]: "set (Compact xs) = set xs"
  by (simp add: Compact_def)

lemma set_sort_strings [simp]: "set (sort_strings xs) = set xs"
  by (simp add: sort_strings_def)

lemma sorted_distinct_remdups_adj: "sorted xs \<Longrightarrow> distinct (remdups_adj xs)"
  by (induction xs rule: remdups_adj.induct) (auto simp: le_less)

lemma distinct_Compact_sort: "distinct (Compact (sort_strings xs))"
  by (simp add: Compact_def sort_strings_def sorted_distinct_remdups_adj)

lemma sorted_Compact_sort: "sorted (Compact (sort_strings xs))"
  by (simp add: Compact_def sort_strings_def)

lemma length_Compact_sort_iff:
  "length (Compact (sort_strings xs)) = length xs \<longleftrightarrow> distinct xs"
proof -
  have "length (Compact (sort_strings xs)) = card (set xs)"
    using distinct_card [OF distinct_Compact_sort [of xs]] by simp
  then show ?thesis by (metis card_distinct distinct_card)
qed

text \<open>Decimal rendering: \<open>%d\<close> and \<open>strconv.FormatUint\<close>/\<open>FormatInt\<close>.\<close>

function digits_int :: "int \<Rightarrow> string" where
  "digits_int n = (if n < 10 then [char_of (48 + n)]
                   else digits_int (n div 10) @ [char_of (48 + n mod 10)])"
  by pat_completeness auto
termination by (relation "measure nat") auto

declare digits_int.simps [simp del]

definition fmt_u64 :: "u64 \<Rightarrow> string" where
  "fmt_u64 w = digits_int (uint w)"

definition fmt_int :: "int \<Rightarrow> string" where
  "fmt_int i = (if i < 0 then CHR ''-'' # digits_int (- i) else digits_int i)"

text \<open>\<open>UTC().Format("2006-01-02T15:04:05.000000Z")\<close>: the civil date of an instant, with
  microseconds.\<close>

definition pad_digits :: "nat \<Rightarrow> int \<Rightarrow> string" where
  "pad_digits w n = (let d = digits_int n in replicate (w - length d) (CHR ''0'') @ d)"

definition civil_from_days :: "int \<Rightarrow> int \<times> int \<times> int" where
  "civil_from_days days =
     (let z = days + 719468;
          era = z div 146097;
          doe = z mod 146097;
          yoe = (doe - doe div 1460 + doe div 36524 - doe div 146096) div 365;
          doy = doe - (365 * yoe + yoe div 4 - yoe div 100);
          mp = (5 * doy + 2) div 153;
          d = doy - (153 * mp + 2) div 5 + 1;
          m = (if mp < 10 then mp + 3 else mp - 9)
      in (yoe + era * 400 + (if m \<le> 2 then 1 else 0), m, d))"

definition fmt_instant :: "time \<Rightarrow> string" where
  "fmt_instant t =
     (let us = t div 1000; s = us div 1000000; (y, m, d) = civil_from_days (s div 86400);
          r = s mod 86400
      in pad_digits 4 y @ ''-'' @ pad_digits 2 m @ ''-'' @ pad_digits 2 d @ ''T''
         @ pad_digits 2 (r div 3600) @ '':'' @ pad_digits 2 (r div 60 mod 60) @ '':''
         @ pad_digits 2 (r mod 60) @ ''.'' @ pad_digits 6 (us mod 1000000) @ ''Z'')"

text \<open>\<open>UTC().Format(time.RFC3339Nano)\<close>: the fraction without trailing zeros, and without a point
  when it is zero.\<close>

definition fmt_rfc3339nano :: "time \<Rightarrow> string" where
  "fmt_rfc3339nano t =
     (let ns = t mod second; frac = TrimRight (\<lambda>c. c = CHR ''0'') (pad_digits 9 ns) in
      take 19 (fmt_instant t) @ (if ns = 0 then [] else CHR ''.'' # frac) @ ''Z'')"

text \<open>Decimal text determines the number, and holds digits only.\<close>

definition is_digit :: "char \<Rightarrow> bool" where
  "is_digit c \<longleftrightarrow> CHR ''0'' \<le> c \<and> c \<le> CHR ''9''"

definition parse_digits :: "string \<Rightarrow> int" where
  "parse_digits s = foldl (\<lambda>n c. 10 * n + (of_char c - 48)) 0 s"

lemma parse_digits_snoc: "parse_digits (s @ [c]) = 10 * parse_digits s + (of_char c - 48)"
  by (simp add: parse_digits_def)

lemma of_char_digit: "0 \<le> d \<Longrightarrow> d < 10 \<Longrightarrow> (of_char (char_of (48 + d)) :: int) = 48 + d"
  by simp

lemma parse_digits_int: "0 \<le> n \<Longrightarrow> parse_digits (digits_int n) = n"
proof (induction n rule: digits_int.induct)
  case (1 n)
  show ?case
  proof (cases "n < 10")
    case True
    then show ?thesis using 1(2) by (simp add: digits_int.simps parse_digits_def)
  next
    case False
    then have "parse_digits (digits_int (n div 10)) = n div 10" using 1 by simp
    moreover have "(of_char (char_of (48 + n mod 10)) :: int) = 48 + n mod 10"
      by (rule of_char_digit) simp_all
    moreover have "digits_int n = digits_int (n div 10) @ [char_of (48 + n mod 10)]"
      using False by (simp add: digits_int.simps [of n])
    ultimately show ?thesis by (simp add: parse_digits_snoc)
  qed
qed

lemma digits_int_inj: "0 \<le> m \<Longrightarrow> 0 \<le> n \<Longrightarrow> digits_int m = digits_int n \<longleftrightarrow> m = n"
  by (metis parse_digits_int)

lemma fmt_u64_inj [simp]: "fmt_u64 v = fmt_u64 w \<longleftrightarrow> v = w"
  by (simp add: fmt_u64_def digits_int_inj word_uint_eq_iff)

lemma is_digit_char_of: "0 \<le> d \<Longrightarrow> d < 10 \<Longrightarrow> is_digit (char_of (48 + d :: int))"
proof -
  assume d: "0 \<le> d" "d < 10"
  let ?c = "char_of (48 + d) :: char"
  have "int (of_char ?c :: nat) = of_char ?c" by (cases ?c) (simp add: of_char_def)
  then have "int (of_char ?c :: nat) = 48 + d" using of_char_digit [OF d] by simp
  then have "48 \<le> (of_char ?c :: nat)" "(of_char ?c :: nat) \<le> 57" using d by linarith+
  then show ?thesis by (simp add: is_digit_def less_eq_char_def)
qed

lemma digits_int_digits: "0 \<le> n \<Longrightarrow> list_all is_digit (digits_int n)"
proof (induction n rule: digits_int.induct)
  case (1 n)
  then show ?case
    by (cases "n < 10") (simp_all add: digits_int.simps [of n] is_digit_char_of)
qed

section \<open>Error vocabulary\<close>

text \<open>
  The sentinel errors of \<open>internal/domain\<close>, \<open>internal/application\<close>,
  \<open>internal/adapters/{postgres,contextforge,upstream}\<close>, \<open>pgx.ErrNoRows\<close>, PostgreSQL's unique
  violation (code 23505), the two context errors, and \<open>ErrOther\<close> for an error no \<open>errors.Is\<close> test of the service recognises.
\<close>

datatype sentinel =
    ErrNotFound | ErrInvalid | ErrNotClaimable | ErrStaleExecution | ErrEffectUncertain
  | ErrProfileUnknown | ErrAlreadyClaimed | ErrInputTooLarge | ErrDuplicateClaimID
  | ErrDescriptorMismatch | DomainErrForbidden | ErrCommandConflict | ErrRevisionMismatch
  | ErrInvalidTransition
  | AppErrForbidden | ErrRefused | ErrShuttingDown
  | ErrDuplicateKey | ErrNoRows | PgUniqueViolation
  | ErrUnavailable | ErrUpstream
  | ErrEgress | ErrAuthority | ErrBodyTooLarge
  | CtxCanceled | CtxDeadlineExceeded
  | ErrOther

datatype err = Err (sentinel_of: sentinel) (code_of: string)

abbreviation err :: "sentinel \<Rightarrow> err" where
  "err s \<equiv> Err s []"

definition errors_Is :: "err \<Rightarrow> sentinel \<Rightarrow> bool" where
  "errors_Is e s \<longleftrightarrow> sentinel_of e = s"

lemma errors_Is_Err [simp]: "errors_Is (Err s c) s' \<longleftrightarrow> s = s'"
  by (simp add: errors_Is_def)

end
