(* ===== verification/Go_Digest.thy ===== *)
theory Go_Digest
  imports Go_Prelude
begin

text \<open>
  SHA-256 (\<open>crypto/sha256\<close>, FIPS 180-4) over 32-bit words and the canonical digest spelling
  \<open>"sha256:" + hex\<close> that every identity of the service uses: \<open>InputDigest\<close> and
  \<open>digestPattern\<close> of \<open>internal/domain/task.go\<close>, \<open>DigestBytes\<close> of \<open>internal/domain/grant.go\<close>
  and \<open>idOf\<close> of \<open>internal/application/catalog.go\<close>.  The hash is a total executable function:
  no property of this development assumes that it is injective; where a property needs that two
  particular inputs do not collide, that is a hypothesis about those two inputs.
\<close>

unbundle bit_operations_syntax

section \<open>SHA-256\<close>

definition rotr32 :: "nat \<Rightarrow> u32 \<Rightarrow> u32" where
  "rotr32 n x = drop_bit n x OR push_bit (32 - n) x"

definition sha_k :: "u32 list" where
  "sha_k =
    [1116352408, 1899447441, 3049323471, 3921009573, 961987163, 1508970993, 2453635748, 2870763221,
     3624381080, 310598401, 607225278, 1426881987, 1925078388, 2162078206, 2614888103, 3248222580,
     3835390401, 4022224774, 264347078, 604807628, 770255983, 1249150122, 1555081692, 1996064986,
     2554220882, 2821834349, 2952996808, 3210313671, 3336571891, 3584528711, 113926993, 338241895,
     666307205, 773529912, 1294757372, 1396182291, 1695183700, 1986661051, 2177026350, 2456956037,
     2730485921, 2820302411, 3259730800, 3345764771, 3516065817, 3600352804, 4094571909, 275423344,
     430227734, 506948616, 659060556, 883997877, 958139571, 1322822218, 1537002063, 1747873779,
     1955562222, 2024104815, 2227730452, 2361852424, 2428436474, 2756734187, 3204031479, 3329325298]"

definition sha_init :: "u32 list" where
  "sha_init = [1779033703, 3144134277, 1013904242, 2773480762,
               1359893119, 2600822924, 528734635, 1541459225]"

fun be_bytes :: "nat \<Rightarrow> int \<Rightarrow> int list" where
  "be_bytes 0 n = []"
| "be_bytes (Suc k) n = be_bytes k (n div 256) @ [n mod 256]"

text \<open>Padding: a one bit, zeros up to 56 modulo 64 bytes, the bit length in eight bytes.\<close>

definition sha_pad :: "int list \<Rightarrow> int list" where
  "sha_pad m = m @ [128] @ replicate ((119 - length m mod 64) mod 64) 0
                 @ be_bytes 8 (8 * int (length m))"

fun to_words :: "int list \<Rightarrow> u32 list" where
  "to_words (a # b # c # d # r) =
     word_of_int (((a * 256 + b) * 256 + c) * 256 + d) # to_words r"
| "to_words _ = []"

text \<open>The message schedule, newest word first.\<close>

fun sha_sched :: "nat \<Rightarrow> u32 list \<Rightarrow> u32 list" where
  "sha_sched 0 ws = ws"
| "sha_sched (Suc n) ws =
     (let w2 = ws ! 1; w7 = ws ! 6; w15 = ws ! 14; w16 = ws ! 15;
          s0 = rotr32 7 w15 XOR rotr32 18 w15 XOR drop_bit 3 w15;
          s1 = rotr32 17 w2 XOR rotr32 19 w2 XOR drop_bit 10 w2
      in sha_sched n ((w16 + s0 + w7 + s1) # ws))"

fun sha_round :: "u32 list \<Rightarrow> u32 \<times> u32 \<Rightarrow> u32 list" where
  "sha_round [a, b, c, d, e, f, g, h] (k, w) =
     (let s1 = rotr32 6 e XOR rotr32 11 e XOR rotr32 25 e;
          ch = (e AND f) XOR (NOT e AND g);
          t1 = h + s1 + ch + k + w;
          s0 = rotr32 2 a XOR rotr32 13 a XOR rotr32 22 a;
          maj = (a AND b) XOR (a AND c) XOR (b AND c);
          t2 = s0 + maj
      in [t1 + t2, a, b, c, d + t1, e, f, g])"
| "sha_round st _ = st"

definition sha_compress :: "u32 list \<Rightarrow> u32 list \<Rightarrow> u32 list" where
  "sha_compress st blk =
     map2 (+) st (foldl sha_round st (zip sha_k (rev (sha_sched 48 (rev blk)))))"

fun sha_blocks :: "nat \<Rightarrow> u32 list \<Rightarrow> u32 list \<Rightarrow> u32 list" where
  "sha_blocks 0 st ws = st"
| "sha_blocks (Suc n) st ws = sha_blocks n (sha_compress st (take 16 ws)) (drop 16 ws)"

definition sha256_words :: "bytes \<Rightarrow> u32 list" where
  "sha256_words m =
     (let p = to_words (sha_pad (map of_char m)) in sha_blocks (length p div 16) sha_init p)"

definition hex_digit :: "nat \<Rightarrow> char" where
  "hex_digit n = ''0123456789abcdef'' ! (n mod 16)"

definition hex_word :: "u32 \<Rightarrow> string" where
  "hex_word w = map (\<lambda>i. hex_digit (unat (drop_bit (4 * i) w AND 15))) [7, 6, 5, 4, 3, 2, 1, 0]"

text \<open>\<open>hex.EncodeToString(sha256.Sum256(b))\<close>\<close>
definition sha256_hex :: "bytes \<Rightarrow> string" where
  "sha256_hex b = concat (map hex_word (sha256_words b))"

section \<open>The canonical digest spelling\<close>

definition is_lower_hex :: "char \<Rightarrow> bool" where
  "is_lower_hex c \<longleftrightarrow> c \<in> set ''0123456789abcdef''"

text \<open>\<open>digestPattern = ^sha256:[0-9a-f]{64}$\<close>\<close>
definition digestPattern :: "string \<Rightarrow> bool" where
  "digestPattern s \<longleftrightarrow>
     HasPrefix s ''sha256:'' \<and> length s = 71 \<and> list_all is_lower_hex (drop 7 s)"

definition InputDigest :: "bytes \<Rightarrow> string" where
  "InputDigest input = ''sha256:'' @ sha256_hex input"

definition DigestBytes :: "bytes \<Rightarrow> string" where
  "DigestBytes b = ''sha256:'' @ sha256_hex b"

text \<open>\<open>idOf(prefix, parts...)\<close>: the first 32 hex digits over the parts, each terminated by a
  zero byte.\<close>

definition idOf :: "string \<Rightarrow> string list \<Rightarrow> string" where
  "idOf prefix parts = prefix @ take 32 (sha256_hex (concat (map (\<lambda>p. p @ [CHR 0x00]) parts)))"

lemma length_sha_round: "length st = 8 \<Longrightarrow> length (sha_round st x) = 8"
  by (cases "(st, x)" rule: sha_round.cases) (auto simp: Let_def)

lemma length_foldl_sha_round: "length st = 8 \<Longrightarrow> length (foldl sha_round st xs) = 8"
  by (induction xs arbitrary: st) (auto simp: length_sha_round)

lemma length_sha_compress: "length st = 8 \<Longrightarrow> length (sha_compress st blk) = 8"
  by (simp add: sha_compress_def length_foldl_sha_round)

lemma length_sha_blocks: "length st = 8 \<Longrightarrow> length (sha_blocks n st ws) = 8"
  by (induction n st ws rule: sha_blocks.induct) (auto simp: length_sha_compress)

lemma length_sha256_words: "length (sha256_words m) = 8"
  by (simp add: sha256_words_def Let_def length_sha_blocks sha_init_def)

lemma hex_digit_lower: "is_lower_hex (hex_digit n)"
  unfolding is_lower_hex_def hex_digit_def by (rule nth_mem) simp

lemma hex_word_lower: "list_all is_lower_hex (hex_word w)"
  by (simp add: hex_word_def hex_digit_lower)

lemma length_concat_hex_word: "length (concat (map hex_word ws)) = 8 * length ws"
  by (induction ws) (auto simp: hex_word_def)

lemma length_sha256_hex [simp]: "length (sha256_hex b) = 64"
  by (simp add: sha256_hex_def length_concat_hex_word length_sha256_words)

lemma sha256_hex_lower: "list_all is_lower_hex (sha256_hex b)"
  by (auto simp: sha256_hex_def list_all_iff hex_word_lower [unfolded list_all_iff])

lemma digestPattern_sha256 [simp]: "digestPattern (''sha256:'' @ sha256_hex b)"
  by (simp add: digestPattern_def HasPrefix_def sha256_hex_lower)

lemma digestPattern_InputDigest [simp]: "digestPattern (InputDigest b)"
  by (simp only: InputDigest_def digestPattern_sha256)

lemma digestPattern_DigestBytes [simp]: "digestPattern (DigestBytes b)"
  by (simp only: DigestBytes_def digestPattern_sha256)

lemma digestPattern_nonempty: "digestPattern s \<Longrightarrow> s \<noteq> []"
  by (auto simp: digestPattern_def)

lemma length_idOf: "length (idOf prefix parts) = length prefix + 32"
  by (simp add: idOf_def)

text \<open>
  \<open>idOf\<close> terminates every part by a zero byte, so for parts that contain none the hashed text
  determines the list of parts.
\<close>

lemma zero_terminated_inj:
  assumes "concat (map (\<lambda>p. p @ [CHR 0x00]) xs) = concat (map (\<lambda>p. p @ [CHR 0x00]) ys)"
    and "\<forall>p \<in> set xs \<union> set ys. CHR 0x00 \<notin> set p"
  shows "xs = ys"
  using assms
proof (induction xs arbitrary: ys)
  case Nil
  then show ?case by (cases ys) auto
next
  case (Cons x xs)
  then obtain y ys' where ys: "ys = y # ys'" by (cases ys) auto
  let ?f = "\<lambda>zs. concat (map (\<lambda>p. p @ [CHR 0x00]) zs)"
  have eq: "x @ CHR 0x00 # ?f xs = y @ CHR 0x00 # ?f ys'"
    using Cons.prems(1) ys by simp
  have "takeWhile (\<lambda>c. c \<noteq> CHR 0x00) (x @ CHR 0x00 # ?f xs) = x"
    using Cons.prems(2) by (subst takeWhile_append2) auto
  moreover have "takeWhile (\<lambda>c. c \<noteq> CHR 0x00) (y @ CHR 0x00 # ?f ys') = y"
    using Cons.prems(2) ys by (subst takeWhile_append2) auto
  ultimately have xy: "x = y" using eq by simp
  with eq have "?f xs = ?f ys'" by simp
  then have "xs = ys'" using Cons.IH [of ys'] Cons.prems(2) ys by simp
  with xy ys show ?case by simp
qed

end
