(* ===== verification/Go_Json.thy ===== *)
theory Go_Json
  imports Go_Prelude
begin

text \<open>
  The part of \<open>encoding/json\<close> and \<open>encoding/base64\<close> the service uses.  \<open>json_parse\<close> is the scanner
  behind \<open>json.Valid\<close> and \<open>json.Unmarshal\<close> (RFC 8259, nesting bounded by 10000, strings unquoted
  with surrogate pairs combined and invalid UTF-8 replaced by U+FFFD); numbers keep their text.
  \<open>json_encode\<close> is \<open>json.Marshal\<close> with its HTML-safe escaping.  The recursion of the parser is
  bounded by the length of the input, one unit per consumed byte.
\<close>

datatype json =
    JNull
  | JBool bool
  | JNum string
  | JStr string
  | JArr "json list"
  | JObj "(string \<times> json) list"

section \<open>UTF-8\<close>

definition byte_in :: "nat \<Rightarrow> nat \<Rightarrow> char \<Rightarrow> bool" where
  "byte_in lo hi c \<longleftrightarrow> lo \<le> (of_char c :: nat) \<and> (of_char c :: nat) \<le> hi"

text \<open>The length of the well-formed UTF-8 sequence at the head of a byte list, 0 when there is
  none (\<open>utf8.DecodeRune\<close> answers \<open>RuneError\<close> of width 1).\<close>

definition utf8_len :: "bytes \<Rightarrow> nat" where
  "utf8_len s =
     (case s of
        [] \<Rightarrow> 0
      | a # r1 \<Rightarrow>
         if byte_in 0 0x7F a then 1
         else (case r1 of
            [] \<Rightarrow> 0
          | b # r2 \<Rightarrow>
             if byte_in 0xC2 0xDF a \<and> byte_in 0x80 0xBF b then 2
             else (case r2 of
                [] \<Rightarrow> 0
              | c # r3 \<Rightarrow>
                 if byte_in 0x80 0xBF c \<and>
                    (byte_in 0xE0 0xE0 a \<and> byte_in 0xA0 0xBF b \<or>
                     (byte_in 0xE1 0xEC a \<or> byte_in 0xEE 0xEF a) \<and> byte_in 0x80 0xBF b \<or>
                     byte_in 0xED 0xED a \<and> byte_in 0x80 0x9F b) then 3
                 else (case r3 of
                    [] \<Rightarrow> 0
                  | d # _ \<Rightarrow>
                     if byte_in 0x80 0xBF c \<and> byte_in 0x80 0xBF d \<and>
                        (byte_in 0xF0 0xF0 a \<and> byte_in 0x90 0xBF b \<or>
                         byte_in 0xF1 0xF3 a \<and> byte_in 0x80 0xBF b \<or>
                         byte_in 0xF4 0xF4 a \<and> byte_in 0x80 0x8F b) then 4 else 0))))"

definition utf8_encode :: "nat \<Rightarrow> bytes" where
  "utf8_encode r =
     (if r < 0x80 then [char_of r]
      else if r < 0x800 then [char_of (0xC0 + r div 64), char_of (0x80 + r mod 64)]
      else if r < 0x10000 then
        [char_of (0xE0 + r div 4096), char_of (0x80 + r div 64 mod 64), char_of (0x80 + r mod 64)]
      else
        [char_of (0xF0 + r div 262144), char_of (0x80 + r div 4096 mod 64),
         char_of (0x80 + r div 64 mod 64), char_of (0x80 + r mod 64)])"

definition rune_error :: bytes where
  "rune_error = [CHR 0xEF, CHR 0xBF, CHR 0xBD]"

section \<open>Scanning\<close>

definition is_json_ws :: "char \<Rightarrow> bool" where
  "is_json_ws c \<longleftrightarrow> c \<in> {CHR '' '', CHR 0x09, CHR 0x0A, CHR 0x0D}"

definition skip_ws :: "bytes \<Rightarrow> bytes" where
  "skip_ws s = dropWhile is_json_ws s"

definition hex_val :: "char \<Rightarrow> nat option" where
  "hex_val c =
     (if is_digit c then Some (of_char c - 48)
      else if CHR ''a'' \<le> c \<and> c \<le> CHR ''f'' then Some (of_char c - 87)
      else if CHR ''A'' \<le> c \<and> c \<le> CHR ''F'' then Some (of_char c - 55)
      else None)"

definition hex4 :: "char \<Rightarrow> char \<Rightarrow> char \<Rightarrow> char \<Rightarrow> nat option" where
  "hex4 a b c d =
     (case (hex_val a, hex_val b, hex_val c, hex_val d) of
        (Some w, Some x, Some y, Some z) \<Rightarrow> Some (((w * 16 + x) * 16 + y) * 16 + z)
      | _ \<Rightarrow> None)"

text \<open>The raw text of a string literal up to its closing quote, and the rest of the input.\<close>

fun scan_string :: "bytes \<Rightarrow> (bytes \<times> bytes) option" where
  "scan_string [] = None"
| "scan_string (c # s) =
     (if c = CHR 0x22 then Some ([], s)
      else if c = CHR 0x5C then
        (case s of
           [] \<Rightarrow> None
         | e # s' \<Rightarrow>
            if e \<in> set ''bfnrt/'' \<union> {CHR 0x5C, CHR 0x22}
            then map_option (\<lambda>(r, t). (c # e # r, t)) (scan_string s')
            else if e = CHR ''u'' then
              (case s' of
                 h1 # h2 # h3 # h4 # s'' \<Rightarrow>
                   if hex4 h1 h2 h3 h4 = None then None
                   else map_option (\<lambda>(r, t). (c # e # h1 # h2 # h3 # h4 # r, t)) (scan_string s'')
               | _ \<Rightarrow> None)
            else None)
      else if (of_char c :: nat) < 32 then None
      else map_option (\<lambda>(r, t). (c # r, t)) (scan_string s))"

text \<open>\<open>unquote\<close>: escapes decoded, surrogate pairs combined, invalid UTF-8 replaced.\<close>

function unquote :: "bytes \<Rightarrow> bytes" where
  "unquote s =
     (case s of
        [] \<Rightarrow> []
      | c # r \<Rightarrow>
         if c = CHR 0x5C then
           (case r of
              [] \<Rightarrow> []
            | e # r' \<Rightarrow>
               if e = CHR ''u'' then
                 (case r' of
                    h1 # h2 # h3 # h4 # q \<Rightarrow>
                      (case hex4 h1 h2 h3 h4 of
                         None \<Rightarrow> []
                       | Some u \<Rightarrow>
                          if 0xD800 \<le> u \<and> u \<le> 0xDFFF then
                            (case q of
                               b # v # k1 # k2 # k3 # k4 # q' \<Rightarrow>
                                 (case hex4 k1 k2 k3 k4 of
                                    Some l \<Rightarrow>
                                      if b = CHR 0x5C \<and> v = CHR ''u'' \<and> u \<le> 0xDBFF
                                         \<and> 0xDC00 \<le> l \<and> l \<le> 0xDFFF
                                      then utf8_encode (0x10000 + (u - 0xD800) * 1024 + (l - 0xDC00))
                                             @ unquote q'
                                      else rune_error @ unquote q
                                  | None \<Rightarrow> rune_error @ unquote q)
                             | _ \<Rightarrow> rune_error @ unquote q)
                          else utf8_encode u @ unquote q)
                  | _ \<Rightarrow> [])
               else (if e = CHR ''b'' then CHR 0x08 else if e = CHR ''f'' then CHR 0x0C
                     else if e = CHR ''n'' then CHR 0x0A else if e = CHR ''r'' then CHR 0x0D
                     else if e = CHR ''t'' then CHR 0x09 else e) # unquote r')
         else if utf8_len s = 0 then rune_error @ unquote r
         else take (utf8_len s) s @ unquote (drop (utf8_len s) s))"
  by pat_completeness auto
termination by (relation "measure length") auto

declare unquote.simps [simp del]

text \<open>A number literal and the rest of the input.\<close>

definition scan_digits :: "bytes \<Rightarrow> (bytes \<times> bytes) option" where
  "scan_digits s = (let d = takeWhile is_digit s in if d = [] then None else Some (d, drop (length d) s))"

definition scan_int :: "bytes \<Rightarrow> (bytes \<times> bytes) option" where
  "scan_int s = (case s of [] \<Rightarrow> None
     | c # r \<Rightarrow> if c = CHR ''0'' then Some ([c], r) else scan_digits s)"

definition scan_frac :: "bytes \<Rightarrow> (bytes \<times> bytes) option" where
  "scan_frac s = (case s of [] \<Rightarrow> Some ([], [])
     | c # r \<Rightarrow> if c = CHR ''.'' then map_option (\<lambda>(d, t). (c # d, t)) (scan_digits r) else Some ([], s))"

definition scan_exp :: "bytes \<Rightarrow> (bytes \<times> bytes) option" where
  "scan_exp s = (case s of [] \<Rightarrow> Some ([], [])
     | c # r \<Rightarrow>
        if c \<in> {CHR ''e'', CHR ''E''} then
          (case r of [] \<Rightarrow> None
           | g # q \<Rightarrow> if g \<in> {CHR ''+'', CHR ''-''}
                     then map_option (\<lambda>(d, t). (c # g # d, t)) (scan_digits q)
                     else map_option (\<lambda>(d, t). (c # d, t)) (scan_digits r))
        else Some ([], s))"

definition scan_number :: "bytes \<Rightarrow> (bytes \<times> bytes) option" where
  "scan_number s =
     (let (sign, s0) = (case s of c # r \<Rightarrow> if c = CHR ''-'' then ([c], r) else ([], s) | [] \<Rightarrow> ([], s))
      in case scan_int s0 of None \<Rightarrow> None
         | Some (i, s1) \<Rightarrow> (case scan_frac s1 of None \<Rightarrow> None
            | Some (f, s2) \<Rightarrow> (case scan_exp s2 of None \<Rightarrow> None
               | Some (e, s3) \<Rightarrow> Some (sign @ i @ f @ e, s3))))"

definition max_nesting :: nat where
  "max_nesting = 10000"

text \<open>\<open>parse_value fuel depth s\<close>: one value at the head of \<open>s\<close>; \<open>depth\<close> containers are open.\<close>

fun parse_value :: "nat \<Rightarrow> nat \<Rightarrow> bytes \<Rightarrow> (json \<times> bytes) option"
and parse_elems :: "nat \<Rightarrow> nat \<Rightarrow> bytes \<Rightarrow> (json list \<times> bytes) option"
and parse_members :: "nat \<Rightarrow> nat \<Rightarrow> bytes \<Rightarrow> ((string \<times> json) list \<times> bytes) option" where
  "parse_value 0 d s = None"
| "parse_value (Suc f) d s =
     (case skip_ws s of
        [] \<Rightarrow> None
      | c # t \<Rightarrow>
         if c = CHR ''{'' then
           (if max_nesting \<le> d then None
            else (case skip_ws t of
                    [] \<Rightarrow> None
                  | e # r \<Rightarrow> if e = CHR ''}'' then Some (JObj [], r)
                            else map_option (\<lambda>(m, q). (JObj m, q)) (parse_members f (Suc d) t)))
         else if c = CHR ''['' then
           (if max_nesting \<le> d then None
            else (case skip_ws t of
                    [] \<Rightarrow> None
                  | e # r \<Rightarrow> if e = CHR '']'' then Some (JArr [], r)
                            else map_option (\<lambda>(m, q). (JArr m, q)) (parse_elems f (Suc d) t)))
         else if c = CHR 0x22 then map_option (\<lambda>(raw, q). (JStr (unquote raw), q)) (scan_string t)
         else if HasPrefix (c # t) ''true'' then Some (JBool True, drop 4 (c # t))
         else if HasPrefix (c # t) ''false'' then Some (JBool False, drop 5 (c # t))
         else if HasPrefix (c # t) ''null'' then Some (JNull, drop 4 (c # t))
         else map_option (\<lambda>(n, q). (JNum n, q)) (scan_number (c # t)))"
| "parse_elems 0 d s = None"
| "parse_elems (Suc f) d s =
     (case parse_value f d s of
        None \<Rightarrow> None
      | Some (v, t) \<Rightarrow>
         (case skip_ws t of
            [] \<Rightarrow> None
          | c # r \<Rightarrow> if c = CHR '']'' then Some ([v], r)
                    else if c = CHR '','' then map_option (\<lambda>(vs, q). (v # vs, q)) (parse_elems f d r)
                    else None))"
| "parse_members 0 d s = None"
| "parse_members (Suc f) d s =
     (case skip_ws s of
        [] \<Rightarrow> None
      | qt # s1 \<Rightarrow>
         if qt \<noteq> CHR 0x22 then None
         else (case scan_string s1 of
            None \<Rightarrow> None
          | Some (raw, s2) \<Rightarrow>
             (case skip_ws s2 of
                [] \<Rightarrow> None
              | cl # s3 \<Rightarrow>
                 if cl \<noteq> CHR '':'' then None
                 else (case parse_value f d s3 of
                    None \<Rightarrow> None
                  | Some (v, t) \<Rightarrow>
                     (case skip_ws t of
                        [] \<Rightarrow> None
                      | c # r \<Rightarrow>
                         if c = CHR ''}'' then Some ([(unquote raw, v)], r)
                         else if c = CHR '','' then
                           map_option (\<lambda>(m, q). ((unquote raw, v) # m, q)) (parse_members f d r)
                         else None)))))"

definition json_parse :: "bytes \<Rightarrow> json option" where
  "json_parse s =
     (case parse_value (2 * length s + 2) 0 s of
        Some (v, r) \<Rightarrow> if skip_ws r = [] then Some v else None
      | None \<Rightarrow> None)"

lemma skip_ws_length: "length (skip_ws s) \<le> length s"
  by (simp add: skip_ws_def length_dropWhile_le)

lemma skip_ws_shorter: "skip_ws s = c # t \<Longrightarrow> length t < length s"
  using skip_ws_length [of s] by simp

text \<open>\<open>json.Valid\<close>\<close>
definition json_Valid :: "bytes \<Rightarrow> bool" where
  "json_Valid s \<longleftrightarrow> json_parse s \<noteq> None"

text \<open>\<open>Decoder.Decode\<close>: the first value of the input; what follows it is not read.\<close>

definition json_decode_first :: "bytes \<Rightarrow> json option" where
  "json_decode_first s = map_option fst (parse_value (2 * length s + 2) 0 s)"

section \<open>Struct decoding\<close>

text \<open>
  \<open>json.Unmarshal\<close> into a struct: members in order, each matched by its exact name or, failing
  that, by its name up to case; \<open>null\<close> leaves a field alone; a member of the wrong type is an
  error; an unknown member is skipped, or an error under \<open>DisallowUnknownFields\<close>.
  A field is a name and the partial update that a member's value makes.
\<close>

type_synonym 'a json_field = "string \<times> (json \<Rightarrow> 'a \<Rightarrow> 'a option)"

definition find_field :: "'a json_field list \<Rightarrow> string \<Rightarrow> 'a json_field option" where
  "find_field fs name =
     (case find (\<lambda>f. fst f = name) fs of
        Some f \<Rightarrow> Some f
      | None \<Rightarrow> find (\<lambda>f. ToLower (fst f) = ToLower name) fs)"

fun decode_members :: "bool \<Rightarrow> 'a json_field list \<Rightarrow> (string \<times> json) list \<Rightarrow> 'a \<Rightarrow> 'a option" where
  "decode_members strict fs [] x = Some x"
| "decode_members strict fs ((k, v) # ms) x =
     (case find_field fs k of
        None \<Rightarrow> if strict then None else decode_members strict fs ms x
      | Some f \<Rightarrow> (case snd f v x of None \<Rightarrow> None | Some x' \<Rightarrow> decode_members strict fs ms x'))"

definition decode_struct :: "bool \<Rightarrow> 'a json_field list \<Rightarrow> 'a \<Rightarrow> json \<Rightarrow> 'a option" where
  "decode_struct strict fs x v =
     (case v of JObj ms \<Rightarrow> decode_members strict fs ms x | JNull \<Rightarrow> Some x | _ \<Rightarrow> None)"

text \<open>Values of the Go types the decoded structs use.\<close>

text \<open>\<open>strconv.ParseUint(s, 10, 64)\<close>\<close>
definition ParseUint64 :: "string \<Rightarrow> u64 option" where
  "ParseUint64 s =
     (if s \<noteq> [] \<and> list_all is_digit s \<and> parse_digits s < 2 ^ 64
      then Some (word_of_int (parse_digits s)) else None)"

text \<open>\<open>strconv.ParseInt(s, 10, 64)\<close>\<close>
definition ParseInt64 :: "string \<Rightarrow> int option" where
  "ParseInt64 s =
     (let neg = (HasPrefix s ''-''); d = (if HasPrefix s ''-'' \<or> HasPrefix s ''+'' then tl s else s);
          n = parse_digits d; v = (if neg then - n else n)
      in if d \<noteq> [] \<and> list_all is_digit d \<and> - (2 ^ 63) \<le> v \<and> v < 2 ^ 63 then Some v else None)"

definition fld_int :: "(int \<Rightarrow> 'a \<Rightarrow> 'a) \<Rightarrow> json \<Rightarrow> 'a \<Rightarrow> 'a option" where
  "fld_int upd v x = (case v of JNull \<Rightarrow> Some x
     | JNum n \<Rightarrow> map_option (\<lambda>i. upd i x) (ParseInt64 n) | _ \<Rightarrow> None)"

definition fld_u64 :: "(u64 \<Rightarrow> 'a \<Rightarrow> 'a) \<Rightarrow> json \<Rightarrow> 'a \<Rightarrow> 'a option" where
  "fld_u64 upd v x = (case v of JNull \<Rightarrow> Some x
     | JNum n \<Rightarrow> map_option (\<lambda>i. upd i x) (ParseUint64 n) | _ \<Rightarrow> None)"

definition fld_str :: "(string \<Rightarrow> 'a \<Rightarrow> 'a) \<Rightarrow> json \<Rightarrow> 'a \<Rightarrow> 'a option" where
  "fld_str upd v x = (case v of JNull \<Rightarrow> Some x | JStr s \<Rightarrow> Some (upd s x) | _ \<Rightarrow> None)"

definition fld_bool :: "(bool \<Rightarrow> 'a \<Rightarrow> 'a) \<Rightarrow> json \<Rightarrow> 'a \<Rightarrow> 'a option" where
  "fld_bool upd v x = (case v of JNull \<Rightarrow> Some x | JBool b \<Rightarrow> Some (upd b x) | _ \<Rightarrow> None)"

text \<open>A pointer field: \<open>null\<close> resets it to \<open>nil\<close>.\<close>

definition fld_opt :: "(json \<Rightarrow> 'b option) \<Rightarrow> ('b option \<Rightarrow> 'a \<Rightarrow> 'a) \<Rightarrow> json \<Rightarrow> 'a \<Rightarrow> 'a option" where
  "fld_opt rd upd v x = (case v of JNull \<Rightarrow> Some (upd None x)
     | _ \<Rightarrow> map_option (\<lambda>b. upd (Some b) x) (rd v))"

definition rd_str :: "json \<Rightarrow> string option" where
  "rd_str v = (case v of JStr s \<Rightarrow> Some s | _ \<Rightarrow> None)"

definition rd_bool :: "json \<Rightarrow> bool option" where
  "rd_bool v = (case v of JBool b \<Rightarrow> Some b | _ \<Rightarrow> None)"

section \<open>Encoding\<close>

definition hex_low :: "nat \<Rightarrow> char" where
  "hex_low n = ''0123456789abcdef'' ! (n mod 16)"

definition esc_byte :: "char \<Rightarrow> string" where
  "esc_byte c =
     (let n = of_char c in
      if c = CHR 0x22 then [CHR 0x5C, CHR 0x22]
      else if c = CHR 0x5C then [CHR 0x5C, CHR 0x5C]
      else if n = 8 then [CHR 0x5C, CHR ''b'']
      else if n = 12 then [CHR 0x5C, CHR ''f'']
      else if n = 10 then [CHR 0x5C, CHR ''n'']
      else if n = 13 then [CHR 0x5C, CHR ''r'']
      else if n = 9 then [CHR 0x5C, CHR ''t'']
      else if n < 32 \<or> c \<in> {CHR ''<'', CHR ''>'', CHR ''&''}
      then [CHR 0x5C, CHR ''u'', CHR ''0'', CHR ''0'', hex_low (n div 16), hex_low n]
      else [c])"

function esc_string :: "bytes \<Rightarrow> string" where
  "esc_string s =
     (case s of
        [] \<Rightarrow> []
      | c # r \<Rightarrow>
         let n = utf8_len s in
         if n = 0 then [CHR 0x5C] @ ''ufffd'' @ esc_string r
         else if n = 1 then esc_byte c @ esc_string r
         else if take 3 s = [CHR 0xE2, CHR 0x80, CHR 0xA8] then [CHR 0x5C] @ ''u2028'' @ esc_string (drop 3 s)
         else if take 3 s = [CHR 0xE2, CHR 0x80, CHR 0xA9] then [CHR 0x5C] @ ''u2029'' @ esc_string (drop 3 s)
         else take n s @ esc_string (drop n s))"
  by pat_completeness auto
termination by (relation "measure length") auto

declare esc_string.simps [simp del]

definition enc_string :: "bytes \<Rightarrow> string" where
  "enc_string s = CHR 0x22 # esc_string s @ [CHR 0x22]"

fun json_encode :: "json \<Rightarrow> string" where
  "json_encode JNull = ''null''"
| "json_encode (JBool b) = (if b then ''true'' else ''false'')"
| "json_encode (JNum n) = n"
| "json_encode (JStr s) = enc_string s"
| "json_encode (JArr vs) = ''['' @ Join (map json_encode vs) '','' @ '']''"
| "json_encode (JObj ms) =
     ''{'' @ Join (map (\<lambda>(k, v). enc_string k @ '':'' @ json_encode v) ms) '','' @ ''}''"

text \<open>A Go \<open>map[string]any\<close> is encoded with its keys in bytewise order.\<close>

definition jmap :: "(string \<times> json) list \<Rightarrow> json" where
  "jmap ms = JObj (sort_key fst ms)"

definition JU64 :: "u64 \<Rightarrow> json" where
  "JU64 w = JNum (fmt_u64 w)"

definition JInt :: "int \<Rightarrow> json" where
  "JInt i = JNum (fmt_int i)"

definition JStrs :: "string list \<Rightarrow> json" where
  "JStrs xs = JArr (map JStr xs)"

section \<open>Numbers as float64\<close>

text \<open>
  \<open>json.Unmarshal\<close> into \<open>any\<close> reads a number as the nearest \<open>float64\<close> (ties to even, an error
  beyond the range) and \<open>json.Marshal\<close> writes the shortest decimal that reads back as the same
  \<open>float64\<close>.  A positive double is \<open>m * 2 ^ e\<close> with \<open>m < 2 ^ 53\<close> and \<open>- 1074 \<le> e\<close>; positive
  rationals are pairs of numerator and denominator.
\<close>

type_synonym ratio = "int \<times> int"

definition ratio_scale :: "int \<Rightarrow> int \<Rightarrow> ratio \<Rightarrow> ratio" where
  "ratio_scale b k r = (if 0 \<le> k then (fst r * b ^ nat k, snd r) else (fst r, snd r * b ^ nat (- k)))"

text \<open>The number of digits of a positive integer in a base.\<close>

function num_digits :: "int \<Rightarrow> int \<Rightarrow> int" where
  "num_digits b n = (if n \<le> 0 \<or> b \<le> 1 then 0 else 1 + num_digits b (n div b))"
  by pat_completeness auto
termination
  by (relation "measure (\<lambda>(b, n). nat n)") (auto simp: int_div_less_self)

declare num_digits.simps [simp del]

definition round_even :: "ratio \<Rightarrow> int" where
  "round_even r =
     (let q = fst r div snd r; rest = 2 * (fst r mod snd r) in
      if rest < snd r then q else if snd r < rest then q + 1 else if even q then q else q + 1)"

text \<open>The nearest double of a positive rational: mantissa and exponent, or out of range.\<close>

definition to_double :: "ratio \<Rightarrow> (int \<times> int) option" where
  "to_double r =
     (let b = num_digits 2 (fst r) - num_digits 2 (snd r);
          e0 = b - 53;
          e1 = (if 2 ^ 53 * snd (ratio_scale 2 (- e0) r) \<le> fst (ratio_scale 2 (- e0) r) then e0 + 1 else e0);
          e = max e1 (- 1074);
          m = round_even (ratio_scale 2 (- e) r);
          (m', e') = (if m = 2 ^ 53 then (2 ^ 52, e + 1) else (m, e))
      in if 971 < e' then None else Some (m', e'))"

definition double_ratio :: "int \<times> int \<Rightarrow> ratio" where
  "double_ratio d = ratio_scale 2 (snd d) (fst d, 1)"

text \<open>The decimal point: the \<open>k\<close> with \<open>10 ^ (k - 1) \<le> r < 10 ^ k\<close>.\<close>

definition decimal_point :: "ratio \<Rightarrow> int" where
  "decimal_point r =
     (let k = num_digits 10 (fst r) - num_digits 10 (snd r);
          s = ratio_scale 10 (- k) r
      in if fst s < snd s then k else k + 1)"

text \<open>\<open>n\<close> digits of a double when some \<open>n\<close>-digit decimal reads back as it (\<open>roundShortest\<close>).\<close>

definition digits_with :: "int \<times> int \<Rightarrow> nat \<Rightarrow> int option" where
  "digits_with d n =
     (let r = double_ratio d; k = decimal_point r; s = ratio_scale 10 (int n - k) r;
          lo = fst s div snd s;
          ok = (\<lambda>x. 0 < x \<and> to_double (ratio_scale 10 (k - int n) (x, 1)) = Some d)
      in if ok lo \<and> ok (lo + 1) then Some (round_even s)
         else if ok lo then Some lo else if ok (lo + 1) then Some (lo + 1) else None)"

fun shortest_from :: "nat \<Rightarrow> nat \<Rightarrow> int \<times> int \<Rightarrow> int \<times> nat" where
  "shortest_from 0 n d = ((case digits_with d n of Some x \<Rightarrow> x | None \<Rightarrow> 0), n)"
| "shortest_from (Suc f) n d =
     (case digits_with d n of Some x \<Rightarrow> (x, n) | None \<Rightarrow> shortest_from f (Suc n) d)"

definition strip_zeros :: "string \<Rightarrow> string" where
  "strip_zeros s = TrimRight (\<lambda>c. c = CHR ''0'') s"

text \<open>\<open>strconv.AppendFloat\<close> with format \<open>f\<close> or \<open>e\<close> and shortest precision, as the JSON encoder
  calls it; the digits and the position of the decimal point come from \<open>shortest_from\<close>.\<close>

definition fmt_digits :: "string \<Rightarrow> int \<Rightarrow> string" where
  "fmt_digits ds dp =
     (if - 5 \<le> dp \<and> dp \<le> 21 then
        (if dp \<le> 0 then ''0.'' @ replicate (nat (- dp)) (CHR ''0'') @ ds
         else if int (length ds) \<le> dp then ds @ replicate (nat dp - length ds) (CHR ''0'')
         else take (nat dp) ds @ ''.'' @ drop (nat dp) ds)
      else
        (take 1 ds @ (if length ds = 1 then [] else ''.'' @ drop 1 ds) @ ''e''
         @ (if dp - 1 < 0 then ''-'' else ''+'') @ digits_int \<bar>dp - 1\<bar>))"

definition fmt_double :: "int \<times> int \<Rightarrow> string" where
  "fmt_double d =
     (let k = decimal_point (double_ratio d); (x, n) = shortest_from 16 1 d;
          raw = digits_int x;
          dp = k + (int (length raw) - int n)
      in fmt_digits (strip_zeros raw) dp)"

text \<open>A number literal as sign, digits and decimal exponent.\<close>

definition split_number :: "string \<Rightarrow> bool \<times> int \<times> int" where
  "split_number s =
     (let neg = HasPrefix s ''-''; t = TrimPrefix s ''-'';
          ip = takeWhile is_digit t; r = dropWhile is_digit t;
          fp = (if HasPrefix r ''.'' then takeWhile is_digit (tl r) else []);
          r2 = (if HasPrefix r ''.'' then dropWhile is_digit (tl r) else r);
          ex = (if r2 = [] then 0
                else let e = tl r2; g = HasPrefix e ''-'';
                         ds = (if g \<or> HasPrefix e ''+'' then tl e else e);
                         v = parse_digits ds
                     in if g then - v else v)
      in (neg, parse_digits (ip @ fp), ex - int (length fp)))"

text \<open>The text \<open>json.Marshal\<close> writes for the \<open>float64\<close> a number literal reads as.\<close>

definition float_text :: "string \<Rightarrow> string option" where
  "float_text s =
     (let (neg, d, ex) = split_number s; sgn = (if neg then ''-'' else []) in
      if d = 0 then Some (sgn @ ''0'')
      else (case to_double (ratio_scale 10 ex (d, 1)) of
              None \<Rightarrow> None
            | Some (m, e) \<Rightarrow> if m = 0 then Some (sgn @ ''0'') else Some (sgn @ fmt_double (m, e))))"

text \<open>
  \<open>json.Unmarshal\<close> into \<open>any\<close> followed by \<open>json.Marshal\<close>: numbers through \<open>float64\<close>, objects as maps
  (the last of equal keys wins, keys in bytewise order).
\<close>

fun last_wins :: "(string \<times> 'a) list \<Rightarrow> (string \<times> 'a) list" where
  "last_wins [] = []"
| "last_wins ((k, v) # r) = (if k \<in> fst ` set r then last_wins r else (k, v) # last_wins r)"

fun json_any :: "json \<Rightarrow> json option" where
  "json_any (JNum n) = map_option JNum (float_text n)"
| "json_any (JArr vs) = map_option JArr (those (map json_any vs))"
| "json_any (JObj ms) =
     map_option (\<lambda>vs. JObj (sort_key fst (last_wins (zip (map fst ms) vs)))) (those (map (\<lambda>(k, v). json_any v) ms))"
| "json_any JNull = Some JNull"
| "json_any (JBool b) = Some (JBool b)"
| "json_any (JStr s) = Some (JStr s)"

section \<open>Base 64\<close>

definition b64_val :: "char \<Rightarrow> nat option" where
  "b64_val c =
     (if CHR ''A'' \<le> c \<and> c \<le> CHR ''Z'' then Some (of_char c - 65)
      else if CHR ''a'' \<le> c \<and> c \<le> CHR ''z'' then Some (of_char c - 71)
      else if is_digit c then Some (of_char c + 4)
      else if c = CHR ''+'' then Some 62
      else if c = CHR ''/'' then Some 63 else None)"

fun b64_groups :: "string \<Rightarrow> bytes option" where
  "b64_groups [] = Some []"
| "b64_groups (a # b # c # d # r) =
     (case (b64_val a, b64_val b) of
        (Some w, Some x) \<Rightarrow>
          (if c = CHR ''='' then
             (if d = CHR ''='' \<and> r = [] then Some [char_of (w * 4 + x div 16)] else None)
           else (case b64_val c of
                   None \<Rightarrow> None
                 | Some y \<Rightarrow>
                    if d = CHR ''='' then
                      (if r = [] then Some [char_of (w * 4 + x div 16), char_of (x mod 16 * 16 + y div 4)]
                       else None)
                    else (case b64_val d of
                            None \<Rightarrow> None
                          | Some z \<Rightarrow>
                             map_option (\<lambda>t. [char_of (w * 4 + x div 16), char_of (x mod 16 * 16 + y div 4),
                                              char_of (y mod 4 * 64 + z)] @ t) (b64_groups r))))
      | _ \<Rightarrow> None)"
| "b64_groups _ = None"

text \<open>\<open>base64.StdEncoding.DecodeString\<close> (line breaks ignored, padding required)\<close>
definition b64_decode :: "string \<Rightarrow> bytes option" where
  "b64_decode s = b64_groups (filter (\<lambda>c. c \<noteq> CHR 0x0A \<and> c \<noteq> CHR 0x0D) s)"

text \<open>The text of the null value.\<close>

lemma json_null: "Option.bind (json_parse ''null'') json_any = Some JNull"
  by code_simp

end
