(* ===== verification/Task.thy ===== *)
theory Task
  imports Go_Digest Go_Json
begin

text \<open>
  The background-task rules of \<open>internal/domain/task.go\<close> and the background events of
  \<open>internal/domain/event.go\<close>: the request row of one generation, its attempts, and the pure
  decisions (request, supersede, claim, heartbeat, submit, cancel, expire).  The second half is
  the state machine these decisions induce on one generation, with its invariant and its
  reachable states; the third half of the file states what each decision guarantees.
\<close>

named_theorems task_decide \<open>the definitions of the task decisions\<close>

section \<open>Data\<close>

datatype TaskState =
    StatePending | StateLeased | StateResultSubmitted | StateAccepted | StateRetryScheduled
  | StateDead | StateStale | StateCanceled

definition Terminal :: "TaskState \<Rightarrow> bool" where
  "Terminal s = (case s of
      StateAccepted \<Rightarrow> True | StateDead \<Rightarrow> True | StateStale \<Rightarrow> True | StateCanceled \<Rightarrow> True
    | _ \<Rightarrow> False)"

text \<open>\<open>Effects\<close> is a string type; a value other than the two constants is kept as it is.\<close>

datatype Effects = EffectsReconstructible | EffectsExternal | EffectsOther string

abbreviation AttemptSubmitted :: string where "AttemptSubmitted \<equiv> ''submitted''"
abbreviation AttemptAccepted :: string where "AttemptAccepted \<equiv> ''accepted''"
abbreviation AttemptStale :: string where "AttemptStale \<equiv> ''stale''"
abbreviation AttemptExpired :: string where "AttemptExpired \<equiv> ''expired''"
abbreviation AttemptFailed :: string where "AttemptFailed \<equiv> ''failed''"

abbreviation FailureLeaseExpired :: string where "FailureLeaseExpired \<equiv> ''LEASE_EXPIRED''"
abbreviation FailureEffectUncertain :: string where "FailureEffectUncertain \<equiv> ''EFFECT_UNCERTAIN''"
abbreviation FailureProfileMismatch :: string where "FailureProfileMismatch \<equiv> ''PROFILE_MISMATCH''"
abbreviation FailureAuthorizationRevoked :: string where "FailureAuthorizationRevoked \<equiv> ''AUTHORIZATION_REVOKED''"
abbreviation FailureCanceled :: string where "FailureCanceled \<equiv> ''CANCELED''"
abbreviation FailureSuperseded :: string where "FailureSuperseded \<equiv> ''SUPERSEDED''"
abbreviation FailureAttemptsExhausted :: string where "FailureAttemptsExhausted \<equiv> ''ATTEMPTS_EXHAUSTED''"
abbreviation FailureHandler :: string where "FailureHandler \<equiv> ''HANDLER_FAILED''"

abbreviation KindCatalogRefresh :: string where "KindCatalogRefresh \<equiv> ''mcp-catalog-refresh''"
abbreviation KindLocalCheck :: string where "KindLocalCheck \<equiv> ''local-check''"
abbreviation LocalCheckProfile :: string where "LocalCheckProfile \<equiv> ''local-check-v1''"
abbreviation CatalogRefreshProfile :: string where "CatalogRefreshProfile \<equiv> ''mcp-catalog-refresh-v1''"

record CatalogRefreshInput =
  cri_SchemaVersion :: int
  cri_ServerID :: string
  cri_Revision :: u64
  cri_DescriptorDigest :: string

record LocalCheckInput =
  lci_SchemaVersion :: int
  lci_Computation :: string
  lci_Bytes :: string
  lci_HoldMs :: int
  lci_Fail :: bool
  lci_WrongDigest :: bool

record RecordedResult =
  rr_Ref :: string
  rr_Digest :: string

record Task =
  t_TaskID :: string
  t_Generation :: u64
  t_TenantID :: string
  t_Kind :: string
  t_InputDigest :: string
  t_Input :: bytes
  t_State :: TaskState
  t_WorkerID :: string
  t_LeaseUntil :: time
  t_AttemptCount :: u32
  t_MaxAttempts :: u32
  t_ResultProfile :: string
  t_Effects :: Effects
  t_DispatchID :: string
  t_AuthorizationRef :: string
  t_RetryAt :: "time option"
  t_ResultRef :: string
  t_ResultDigest :: string
  t_FailureCode :: string
  t_Revision :: u64
  t_CorrelationID :: string

record Attempt =
  a_Ordinal :: u32
  a_WorkerID :: string
  a_LeasedAt :: time
  a_LeaseUntil :: time
  a_Outcome :: string

text \<open>The zero value of \<open>Attempt\<close>.\<close>
definition no_attempt :: Attempt where
  "no_attempt = \<lparr>a_Ordinal = 0, a_WorkerID = [], a_LeasedAt = zero_time,
                 a_LeaseUntil = zero_time, a_Outcome = []\<rparr>"

record Bounds =
  b_MaxInputBytes :: int
  b_MaxLease :: duration
  b_RetryDelay :: duration
  b_MaxAttempts :: u32

section \<open>Requests\<close>

definition digestJSON :: "json \<Rightarrow> string" where
  "digestJSON v = ''sha256:'' @ sha256_hex (json_encode v)"

definition RefreshResult ::
  "string \<Rightarrow> u64 \<Rightarrow> string \<Rightarrow> u64 \<Rightarrow> string \<Rightarrow> string \<Rightarrow> bool \<Rightarrow> string \<times> string" where
  "RefreshResult taskID generation serverID revision reviewedDigest liveDigest drift =
     (''mcp-catalog-refresh:'' @ taskID @ '':'' @ fmt_u64 generation,
      digestJSON (jmap
        [(''schema'', JStr ''mcp-catalog-refresh-result-v1''), (''taskId'', JStr taskID),
         (''generation'', JU64 generation), (''serverId'', JStr serverID), (''revision'', JU64 revision),
         (''reviewedDigest'', JStr reviewedDigest), (''liveDigest'', JStr liveDigest),
         (''drift'', JBool drift)]))"

definition local_check_fields :: "LocalCheckInput json_field list" where
  "local_check_fields =
     [(''schemaVersion'', fld_int (\<lambda>v. lci_SchemaVersion_update (\<lambda>_. v))),
      (''computation'', fld_str (\<lambda>v. lci_Computation_update (\<lambda>_. v))),
      (''bytes'', fld_str (\<lambda>v. lci_Bytes_update (\<lambda>_. v))),
      (''holdMs'', fld_int (\<lambda>v. lci_HoldMs_update (\<lambda>_. v))),
      (''fail'', fld_bool (\<lambda>v. lci_Fail_update (\<lambda>_. v))),
      (''wrongDigest'', fld_bool (\<lambda>v. lci_WrongDigest_update (\<lambda>_. v)))]"

text \<open>\<open>json.Unmarshal(input, &in)\<close> into \<open>LocalCheckInput\<close>\<close>
definition unmarshal_local_check :: "bytes \<Rightarrow> LocalCheckInput option" where
  "unmarshal_local_check input =
     Option.bind (json_parse input)
       (decode_struct False local_check_fields
          \<lparr>lci_SchemaVersion = 0, lci_Computation = [], lci_Bytes = [], lci_HoldMs = 0,
           lci_Fail = False, lci_WrongDigest = False\<rparr>)"

definition catalog_refresh_fields :: "CatalogRefreshInput json_field list" where
  "catalog_refresh_fields =
     [(''schemaVersion'', fld_int (\<lambda>v. cri_SchemaVersion_update (\<lambda>_. v))),
      (''serverId'', fld_str (\<lambda>v. cri_ServerID_update (\<lambda>_. v))),
      (''revision'', fld_u64 (\<lambda>v. cri_Revision_update (\<lambda>_. v))),
      (''descriptorDigest'', fld_str (\<lambda>v. cri_DescriptorDigest_update (\<lambda>_. v)))]"

definition zero_refresh_input :: CatalogRefreshInput where
  "zero_refresh_input =
     \<lparr>cri_SchemaVersion = 0, cri_ServerID = [], cri_Revision = 0, cri_DescriptorDigest = []\<rparr>"

text \<open>\<open>Decoder.Decode\<close> under \<open>DisallowUnknownFields\<close> into \<open>CatalogRefreshInput\<close>\<close>
definition decode_refresh_input :: "bytes \<Rightarrow> CatalogRefreshInput option" where
  "decode_refresh_input input =
     Option.bind (json_decode_first input)
       (decode_struct True catalog_refresh_fields zero_refresh_input)"

definition checkProfileInput :: "string \<Rightarrow> bytes \<Rightarrow> err option" where
  "checkProfileInput profile input =
     (if profile = LocalCheckProfile then
        (case unmarshal_local_check input of
           None \<Rightarrow> Some (err ErrInvalid)
         | Some i \<Rightarrow>
            if lci_SchemaVersion i \<noteq> 1 \<or> lci_Computation i \<noteq> LocalCheckProfile
            then Some (err ErrInvalid)
            else if b64_decode (lci_Bytes i) = None then Some (err ErrInvalid)
            else None)
      else if profile = CatalogRefreshProfile then
        (case decode_refresh_input input of
           None \<Rightarrow> Some (err ErrInvalid)
         | Some i \<Rightarrow>
            if cri_SchemaVersion i \<noteq> 1 \<or> cri_ServerID i = [] \<or> cri_Revision i < 1
               \<or> \<not> digestPattern (cri_DescriptorDigest i)
            then Some (err ErrInvalid) else None)
      else Some (err ErrProfileUnknown))"

definition NewRequest ::
  "string \<Rightarrow> string \<Rightarrow> string \<Rightarrow> string \<Rightarrow> bytes \<Rightarrow> Effects \<Rightarrow> string \<Rightarrow> string \<Rightarrow> string \<Rightarrow> Bounds
     \<Rightarrow> err + Task" where
  "NewRequest taskID tenantID kind profile input effects dispatchID authorizationRef correlationID bounds =
     (if taskID = [] \<or> tenantID = [] \<or> correlationID = [] then Inl (err ErrInvalid)
      else if kind \<noteq> KindCatalogRefresh \<and> kind \<noteq> KindLocalCheck then Inl (err ErrInvalid)
      else if int (length input) > b_MaxInputBytes bounds then Inl (err ErrInputTooLarge)
      else if effects \<noteq> EffectsReconstructible \<and> effects \<noteq> EffectsExternal then Inl (err ErrInvalid)
      else if effects = EffectsExternal \<and> dispatchID = [] then Inl (err ErrInvalid)
      else if \<not> json_Valid input then Inl (err ErrInvalid)
      else (case checkProfileInput profile input of
              Some e \<Rightarrow> Inl e
            | None \<Rightarrow> Inr
               \<lparr>t_TaskID = taskID, t_Generation = 1, t_TenantID = tenantID, t_Kind = kind,
                t_InputDigest = InputDigest input, t_Input = input, t_State = StatePending,
                t_WorkerID = [], t_LeaseUntil = zero_time, t_AttemptCount = 0,
                t_MaxAttempts = b_MaxAttempts bounds, t_ResultProfile = profile, t_Effects = effects,
                t_DispatchID = dispatchID, t_AuthorizationRef = authorizationRef, t_RetryAt = None,
                t_ResultRef = [], t_ResultDigest = [], t_FailureCode = [], t_Revision = 1,
                t_CorrelationID = correlationID\<rparr>))"

text \<open>\<open>errNoRecord\<close> is told apart from the other failures by its own constructor.\<close>

datatype expectation = NoRecord | BadExpectation err | Expect string string

definition expectedResult :: "Task \<Rightarrow> RecordedResult option \<Rightarrow> expectation" where
  "expectedResult t recorded =
     (if t_ResultProfile t = CatalogRefreshProfile then
        (case recorded of None \<Rightarrow> NoRecord | Some r \<Rightarrow> Expect (rr_Ref r) (rr_Digest r))
      else if t_ResultProfile t = LocalCheckProfile then
        (case unmarshal_local_check (t_Input t) of
           None \<Rightarrow> BadExpectation (err ErrInvalid)
         | Some i \<Rightarrow>
            (case b64_decode (lci_Bytes i) of
               None \<Rightarrow> BadExpectation (err ErrInvalid)
             | Some raw \<Rightarrow>
                Expect (''local-check:'' @ t_TaskID t @ '':'' @ fmt_u64 (t_Generation t))
                       (''sha256:'' @ sha256_hex raw)))
      else BadExpectation (err ErrProfileUnknown))"

definition Supersede :: "Task \<Rightarrow> Task \<times> bool" where
  "Supersede prev =
     (if Terminal (t_State prev) then (prev, False)
      else (prev\<lparr>t_State := StateStale, t_FailureCode := FailureSuperseded,
                 t_Revision := t_Revision prev + 1\<rparr>, True))"

section \<open>Claim and heartbeat\<close>

record ClaimDecision =
  cd_Task :: Task
  cd_Attempt :: Attempt
  cd_ExpiredPrevious :: bool

text \<open>The accepted claim, once the guards have passed.\<close>

definition claimed :: "Task \<Rightarrow> string \<Rightarrow> duration \<Rightarrow> time \<Rightarrow> Task" where
  "claimed t workerID lease now =
     t\<lparr>t_State := StateLeased, t_WorkerID := workerID, t_LeaseUntil := Add now lease,
       t_AttemptCount := t_AttemptCount t + 1, t_RetryAt := None, t_FailureCode := [],
       t_Revision := t_Revision t + 1\<rparr>"

definition DecideClaim ::
  "Task \<Rightarrow> Attempt list \<Rightarrow> string \<Rightarrow> duration \<Rightarrow> time \<Rightarrow> Bounds \<Rightarrow> err + ClaimDecision" where
  "DecideClaim t previous workerID lease now bounds =
     (if lease \<le> 0 \<or> lease > b_MaxLease bounds then Inl (err ErrInvalid)
      else if list_ex (\<lambda>a. a_WorkerID a = workerID) previous then Inl (err ErrDuplicateClaimID)
      else
        (let gate =
           (case t_State t of
              StatePending \<Rightarrow> Inr False
            | StateRetryScheduled \<Rightarrow>
               (case t_RetryAt t of
                  Some at \<Rightarrow> if After at now then Inl (err ErrNotClaimable) else Inr False
                | None \<Rightarrow> Inr False)
            | StateLeased \<Rightarrow>
               if After (t_LeaseUntil t) now then Inl (err ErrAlreadyClaimed)
               else if t_Effects t \<noteq> EffectsReconstructible then Inl (err ErrEffectUncertain)
               else Inr True
            | _ \<Rightarrow> Inl (err ErrNotClaimable))
         in case gate of
              Inl e \<Rightarrow> Inl e
            | Inr expiredPrevious \<Rightarrow>
               if t_MaxAttempts t \<le> t_AttemptCount t then Inl (err ErrNotClaimable)
               else
                 let t' = claimed t workerID lease now
                 in Inr \<lparr>cd_Task = t',
                         cd_Attempt = \<lparr>a_Ordinal = t_AttemptCount t', a_WorkerID = workerID,
                                       a_LeasedAt = now, a_LeaseUntil = t_LeaseUntil t',
                                       a_Outcome = []\<rparr>,
                         cd_ExpiredPrevious = expiredPrevious\<rparr>))"

definition DecideHeartbeat :: "Task \<Rightarrow> Attempt \<Rightarrow> string \<Rightarrow> time \<Rightarrow> err + Task" where
  "DecideHeartbeat t current workerID now =
     (if t_State t \<noteq> StateLeased \<or> t_WorkerID t \<noteq> workerID \<or> a_WorkerID current \<noteq> workerID
      then Inl (err ErrStaleExecution)
      else if \<not> After (t_LeaseUntil t) now then Inl (err ErrStaleExecution)
      else Inr (t\<lparr>t_LeaseUntil := Add now (Sub (a_LeaseUntil current) (a_LeasedAt current)),
                  t_Revision := t_Revision t + 1\<rparr>))"

section \<open>Submit\<close>

record Submission =
  s_WorkerID :: string
  s_InputDigest :: string
  s_Succeeded :: bool
  s_ResultRef :: string
  s_ResultDigest :: string
  s_FailureCode :: string

datatype AuthorizationState = AuthorizationCurrent | AuthorizationRevoked

record SubmitDecision =
  sd_Task :: Task
  sd_AttemptOutcome :: string
  sd_Accepted :: bool
  sd_Existing :: bool
  sd_Changed :: bool

definition failAttempt :: "Task \<Rightarrow> string \<Rightarrow> time \<Rightarrow> Bounds \<Rightarrow> SubmitDecision" where
  "failAttempt t code now bounds =
     (let t = t\<lparr>t_FailureCode := code, t_Revision := t_Revision t + 1\<rparr> in
      \<lparr>sd_Task = (if t_MaxAttempts t \<le> t_AttemptCount t then t\<lparr>t_State := StateDead\<rparr>
                   else t\<lparr>t_State := StateRetryScheduled,
                          t_RetryAt := Some (Add now (b_RetryDelay bounds)), t_WorkerID := []\<rparr>),
       sd_AttemptOutcome = AttemptFailed, sd_Accepted = False, sd_Existing = False,
       sd_Changed = True\<rparr>)"

definition DecideSubmitRecorded ::
  "Task \<Rightarrow> Attempt \<Rightarrow> Submission \<Rightarrow> AuthorizationState \<Rightarrow> time \<Rightarrow> Bounds \<Rightarrow> RecordedResult option
     \<Rightarrow> err + SubmitDecision" where
  "DecideSubmitRecorded t current sub auth now bounds recorded =
     (if \<not> digestPattern (s_InputDigest sub) then Inl (err ErrInvalid)
      else if t_State t = StateAccepted then
        (if t_WorkerID t = s_WorkerID sub \<and> t_ResultDigest t = s_ResultDigest sub
            \<and> t_ResultRef t = s_ResultRef sub \<and> s_Succeeded sub
         then Inr \<lparr>sd_Task = t, sd_AttemptOutcome = [], sd_Accepted = True, sd_Existing = True,
                   sd_Changed = False\<rparr>
         else Inl (err ErrStaleExecution))
      else if t_State t \<noteq> StateLeased \<or> t_WorkerID t \<noteq> s_WorkerID sub
              \<or> a_WorkerID current \<noteq> s_WorkerID sub
      then Inl (err ErrStaleExecution)
      else if \<not> After (t_LeaseUntil t) now then Inl (err ErrStaleExecution)
      else if s_InputDigest sub \<noteq> t_InputDigest t then Inl (err ErrInvalid)
      else if auth = AuthorizationRevoked then
        Inr \<lparr>sd_Task = t\<lparr>t_State := StateCanceled, t_FailureCode := FailureAuthorizationRevoked,
                          t_Revision := t_Revision t + 1\<rparr>,
             sd_AttemptOutcome = AttemptStale, sd_Accepted = False, sd_Existing = False,
             sd_Changed = True\<rparr>
      else if \<not> s_Succeeded sub then
        Inr (failAttempt t (if s_FailureCode sub = [] then FailureHandler else s_FailureCode sub)
               now bounds)
      else if \<not> digestPattern (s_ResultDigest sub) then Inl (err ErrInvalid)
      else (case expectedResult t recorded of
              NoRecord \<Rightarrow> Inr (failAttempt t FailureProfileMismatch now bounds)
            | BadExpectation e \<Rightarrow> Inl e
            | Expect ref digest \<Rightarrow>
               if s_ResultRef sub \<noteq> ref \<or> s_ResultDigest sub \<noteq> digest
               then Inr (failAttempt t FailureProfileMismatch now bounds)
               else Inr \<lparr>sd_Task = t\<lparr>t_State := StateAccepted, t_ResultRef := s_ResultRef sub,
                                      t_ResultDigest := s_ResultDigest sub, t_FailureCode := [],
                                      t_Revision := t_Revision t + 1\<rparr>,
                         sd_AttemptOutcome = AttemptAccepted, sd_Accepted = True,
                         sd_Existing = False, sd_Changed = True\<rparr>))"

definition DecideSubmit ::
  "Task \<Rightarrow> Attempt \<Rightarrow> Submission \<Rightarrow> AuthorizationState \<Rightarrow> time \<Rightarrow> Bounds \<Rightarrow> err + SubmitDecision" where
  "DecideSubmit t current sub auth now bounds =
     DecideSubmitRecorded t current sub auth now bounds None"

section \<open>Cancel and expiry\<close>

definition DecideCancel :: "Task \<Rightarrow> Task \<times> string \<times> bool" where
  "DecideCancel t =
     (if Terminal (t_State t) then (t, [], False)
      else (t\<lparr>t_State := StateCanceled, t_FailureCode := FailureCanceled,
              t_Revision := t_Revision t + 1\<rparr>,
            if t_State t = StateLeased then AttemptStale else [], True))"

datatype DispatchOutcome = DispatchUnknown | DispatchNotSent | DispatchSent

definition DecideExpire ::
  "Task \<Rightarrow> DispatchOutcome \<Rightarrow> time \<Rightarrow> Bounds \<Rightarrow> Task \<times> string \<times> bool" where
  "DecideExpire t outcome now bounds =
     (if t_State t \<noteq> StateLeased \<or> After (t_LeaseUntil t) now then (t, [], False)
      else if t_Effects t = EffectsExternal \<and> outcome \<noteq> DispatchNotSent then
        (t\<lparr>t_State := StateDead, t_FailureCode := FailureEffectUncertain,
           t_Revision := t_Revision t + 1\<rparr>, AttemptExpired, True)
      else
        (let t = t\<lparr>t_Revision := t_Revision t + 1, t_WorkerID := []\<rparr> in
         if t_MaxAttempts t \<le> t_AttemptCount t then
           (t\<lparr>t_State := StateDead, t_FailureCode := FailureAttemptsExhausted\<rparr>, AttemptExpired, True)
         else
           (t\<lparr>t_State := StateRetryScheduled, t_RetryAt := Some (Add now (b_RetryDelay bounds)),
              t_FailureCode := FailureLeaseExpired\<rparr>, AttemptExpired, True)))"

lemmas task_decisions [task_decide] =
  DecideClaim_def claimed_def DecideHeartbeat_def DecideSubmitRecorded_def failAttempt_def
  DecideCancel_def DecideExpire_def Supersede_def

section \<open>Events\<close>

abbreviation Producer :: string where "Producer \<equiv> ''anvilkit-agent-mcp''"
abbreviation SubjectBackgroundRequested :: string where
  "SubjectBackgroundRequested \<equiv> ''anvilkit.mcp.background.requested''"
abbreviation AggregateBackgroundRequest :: string where
  "AggregateBackgroundRequest \<equiv> ''background_request''"

record Envelope =
  e_EventID :: string
  e_EventType :: string
  e_SchemaVersion :: int
  e_Producer :: string
  e_Subject :: string
  e_TenantID :: string
  e_AggregateType :: string
  e_AggregateID :: string
  e_AggregateRevision :: string
  e_OccurredAt :: string
  e_CorrelationID :: string
  e_Payload :: bytes

text \<open>\<open>aggregateEnvelope\<close>; \<open>eventID\<close> is the answer of \<open>uuid.NewString\<close>.\<close>

definition aggregateEnvelope ::
  "string \<Rightarrow> string \<Rightarrow> string \<Rightarrow> string \<Rightarrow> string \<Rightarrow> string \<Rightarrow> u64 \<Rightarrow> string \<Rightarrow> time \<Rightarrow> json \<Rightarrow> Envelope" where
  "aggregateEnvelope eventID tenantID eventType subject aggregateType aggregateID revision
     correlationID now payload =
     \<lparr>e_EventID = eventID, e_EventType = eventType, e_SchemaVersion = 1, e_Producer = Producer,
      e_Subject = subject, e_TenantID = tenantID, e_AggregateType = aggregateType,
      e_AggregateID = aggregateID, e_AggregateRevision = fmt_u64 revision,
      e_OccurredAt = fmt_instant now, e_CorrelationID = correlationID,
      e_Payload = json_encode payload\<rparr>"

text \<open>\<open>envelope\<close>: the revision of a background event is the generation.\<close>

definition envelope :: "string \<Rightarrow> Task \<Rightarrow> string \<Rightarrow> string \<Rightarrow> time \<Rightarrow> json \<Rightarrow> Envelope" where
  "envelope eventID t eventType subject now payload =
     \<lparr>e_EventID = eventID, e_EventType = eventType, e_SchemaVersion = 1, e_Producer = Producer,
      e_Subject = subject, e_TenantID = t_TenantID t, e_AggregateType = AggregateBackgroundRequest,
      e_AggregateID = t_TaskID t, e_AggregateRevision = fmt_u64 (t_Generation t),
      e_OccurredAt = fmt_instant now, e_CorrelationID = t_CorrelationID t,
      e_Payload = json_encode payload\<rparr>"

definition RequestedEvent :: "string \<Rightarrow> Task \<Rightarrow> time \<Rightarrow> Envelope" where
  "RequestedEvent eventID t now =
     envelope eventID t ''background.requested'' SubjectBackgroundRequested now
       (JObj [(''kind'', JStr ''background.requested''), (''taskId'', JStr (t_TaskID t)),
              (''generation'', JStr (fmt_u64 (t_Generation t))), (''taskKind'', JStr (t_Kind t)),
              (''inputDigest'', JStr (t_InputDigest t))])"

section \<open>One generation as a state machine\<close>

text \<open>
  What a later read of the row returns after a decided task was written: instants are kept to the
  microsecond, the lease instant only while the row is leased, and a zero instant not at all
  (\<open>UpdateParams\<close> and \<open>TaskFromRow\<close> of \<open>internal/adapters/postgres/store.go\<close>).
\<close>

definition stored_task :: "Task \<Rightarrow> Task" where
  "stored_task t =
     t\<lparr>t_LeaseUntil := (if t_State t = StateLeased \<and> \<not> IsZero (t_LeaseUntil t)
                        then trunc_us (t_LeaseUntil t) else zero_time),
       t_RetryAt := (case t_RetryAt t of
                       None \<Rightarrow> None
                     | Some at \<Rightarrow> if IsZero at then None else Some (trunc_us at))\<rparr>"

definition stored_attempt :: "Attempt \<Rightarrow> Attempt" where
  "stored_attempt a =
     a\<lparr>a_LeasedAt := trunc_us (a_LeasedAt a), a_LeaseUntil := trunc_us (a_LeaseUntil a)\<rparr>"

definition currentAttempt :: "Task \<Rightarrow> Attempt list \<Rightarrow> Attempt" where
  "currentAttempt t as =
     (case find (\<lambda>a. a_Ordinal a = t_AttemptCount t) as of Some a \<Rightarrow> a | None \<Rightarrow> no_attempt)"

text \<open>\<open>SetAttemptOutcome\<close> on the attempt with the given ordinal; \<open>apply\<close> calls it when an outcome
  is given and the task has an attempt.\<close>

definition set_outcome :: "u32 \<Rightarrow> string \<Rightarrow> Attempt list \<Rightarrow> Attempt list" where
  "set_outcome n out as = map (\<lambda>a. if a_Ordinal a = n then a\<lparr>a_Outcome := out\<rparr> else a) as"

definition record_outcome :: "Task \<Rightarrow> string \<Rightarrow> Attempt list \<Rightarrow> Attempt list" where
  "record_outcome t out as =
     (if out \<noteq> [] \<and> 0 < t_AttemptCount t then set_outcome (t_AttemptCount t) out as else as)"

type_synonym generation = "Task \<times> Attempt list"

inductive gen_step :: "generation \<Rightarrow> generation \<Rightarrow> bool" where
  claim: "DecideClaim t as w lease now b = Inr d \<Longrightarrow>
    gen_step (t, as)
      (stored_task (cd_Task d),
       (if cd_ExpiredPrevious d then set_outcome (t_AttemptCount t) AttemptExpired as else as)
         @ [stored_attempt (cd_Attempt d)])"
| heartbeat: "DecideHeartbeat t (currentAttempt t as) w now = Inr t' \<Longrightarrow>
    gen_step (t, as) (stored_task t', as)"
| submit: "DecideSubmitRecorded t (currentAttempt t as) sub auth now b rec = Inr d \<Longrightarrow>
    sd_Changed d \<Longrightarrow>
    gen_step (t, as) (stored_task (sd_Task d), record_outcome (sd_Task d) (sd_AttemptOutcome d) as)"
| cancel: "DecideCancel t = (t', out, True) \<Longrightarrow>
    gen_step (t, as) (stored_task t', record_outcome t' out as)"
| expire: "DecideExpire t out now b = (t', outcome, True) \<Longrightarrow>
    gen_step (t, as) (stored_task t', record_outcome t' outcome as)"
| supersede: "Supersede t = (t', True) \<Longrightarrow>
    gen_step (t, as)
      (stored_task t', record_outcome t' (if t_State t = StateLeased then AttemptStale else []) as)"

inductive gen_reachable :: "generation \<Rightarrow> bool" where
  new: "NewRequest tid ten kind profile input eff did aref cid b = Inr t \<Longrightarrow>
    gen_reachable (t\<lparr>t_Generation := g\<rparr>, [])"
| step: "gen_reachable x \<Longrightarrow> gen_step x y \<Longrightarrow> gen_reachable y"

inductive_cases gen_stepE: "gen_step (t, as) y"

text \<open>
  The invariant of a generation: as many attempts as the row counts, none beyond the frozen bound,
  each worker and each ordinal once, an attempt open exactly while it is the current one of a
  leased row, the lease held by the worker of the current attempt.
\<close>

definition gen_ok :: "generation \<Rightarrow> bool" where
  "gen_ok x = (case x of (t, as) \<Rightarrow>
     length as = unat (t_AttemptCount t) \<and> t_AttemptCount t \<le> t_MaxAttempts t \<and>
     distinct (map a_WorkerID as) \<and> distinct (map a_Ordinal as) \<and>
     (\<forall>a \<in> set as. 0 < a_Ordinal a \<and> a_Ordinal a \<le> t_AttemptCount t) \<and>
     (\<forall>a \<in> set as. a_Outcome a = [] \<longleftrightarrow> t_State t = StateLeased \<and> a_Ordinal a = t_AttemptCount t) \<and>
     (t_State t = StateLeased \<longrightarrow>
        (\<exists>a \<in> set as. a_Ordinal a = t_AttemptCount t \<and> a_WorkerID a = t_WorkerID t)))"

text \<open>What no step of a generation changes.\<close>

definition frozen ::
  "Task \<Rightarrow> string \<times> u64 \<times> string \<times> string \<times> string \<times> bytes \<times> u32 \<times> string \<times> Effects \<times> string \<times> string
     \<times> string" where
  "frozen t = (t_TaskID t, t_Generation t, t_TenantID t, t_Kind t, t_InputDigest t, t_Input t,
     t_MaxAttempts t, t_ResultProfile t, t_Effects t, t_DispatchID t, t_AuthorizationRef t,
     t_CorrelationID t)"

section \<open>Facts about the decisions\<close>

lemma stored_task_sel [simp]:
  "t_TaskID (stored_task t) = t_TaskID t"
  "t_Generation (stored_task t) = t_Generation t"
  "t_TenantID (stored_task t) = t_TenantID t"
  "t_Kind (stored_task t) = t_Kind t"
  "t_InputDigest (stored_task t) = t_InputDigest t"
  "t_Input (stored_task t) = t_Input t"
  "t_State (stored_task t) = t_State t"
  "t_WorkerID (stored_task t) = t_WorkerID t"
  "t_AttemptCount (stored_task t) = t_AttemptCount t"
  "t_MaxAttempts (stored_task t) = t_MaxAttempts t"
  "t_ResultProfile (stored_task t) = t_ResultProfile t"
  "t_Effects (stored_task t) = t_Effects t"
  "t_DispatchID (stored_task t) = t_DispatchID t"
  "t_AuthorizationRef (stored_task t) = t_AuthorizationRef t"
  "t_ResultRef (stored_task t) = t_ResultRef t"
  "t_ResultDigest (stored_task t) = t_ResultDigest t"
  "t_FailureCode (stored_task t) = t_FailureCode t"
  "t_Revision (stored_task t) = t_Revision t"
  "t_CorrelationID (stored_task t) = t_CorrelationID t"
  by (simp_all add: stored_task_def)

lemma stored_attempt_sel [simp]:
  "a_Ordinal (stored_attempt a) = a_Ordinal a" "a_WorkerID (stored_attempt a) = a_WorkerID a"
  "a_Outcome (stored_attempt a) = a_Outcome a"
  by (simp_all add: stored_attempt_def)

lemma Terminal_simps [simp]:
  "\<not> Terminal StatePending" "\<not> Terminal StateLeased" "\<not> Terminal StateResultSubmitted"
  "\<not> Terminal StateRetryScheduled" "Terminal StateAccepted" "Terminal StateDead"
  "Terminal StateStale" "Terminal StateCanceled"
  by (simp_all add: Terminal_def)

text \<open>An accepted claim: which rows admit it and what it writes.\<close>

lemma DecideClaim_InrD:
  assumes "DecideClaim t previous w lease now b = Inr d"
  shows "0 < lease" "lease \<le> b_MaxLease b" "w \<notin> a_WorkerID ` set previous"
    "t_AttemptCount t < t_MaxAttempts t"
    "t_State t \<in> {StatePending, StateRetryScheduled, StateLeased}"
    "t_State t = StateLeased \<Longrightarrow> t_LeaseUntil t \<le> now \<and> t_Effects t = EffectsReconstructible"
    "t_State t = StateRetryScheduled \<Longrightarrow> t_RetryAt t = Some at \<Longrightarrow> at \<le> now"
    "cd_ExpiredPrevious d \<longleftrightarrow> t_State t = StateLeased"
    "cd_Task d = claimed t w lease now"
    "cd_Attempt d = \<lparr>a_Ordinal = t_AttemptCount t + 1, a_WorkerID = w, a_LeasedAt = now,
                     a_LeaseUntil = now + lease, a_Outcome = []\<rparr>"
  using assms
  by (auto simp: DecideClaim_def Let_def list_ex_iff go_time claimed_def
      split: if_splits TaskState.splits option.splits)

lemma DecideHeartbeat_InrD:
  assumes "DecideHeartbeat t cur w now = Inr t'"
  shows "t_State t = StateLeased" "t_WorkerID t = w" "a_WorkerID cur = w" "now < t_LeaseUntil t"
    "t' = t\<lparr>t_LeaseUntil := now + Sub (a_LeaseUntil cur) (a_LeasedAt cur),
            t_Revision := t_Revision t + 1\<rparr>"
  using assms by (auto simp: DecideHeartbeat_def go_time split: if_splits)

text \<open>A changing submission comes from the live claimant of a leased row and leaves the lease.\<close>

lemma DecideSubmit_changedD:
  assumes "DecideSubmitRecorded t cur sub auth now b rec = Inr d" "sd_Changed d"
  shows "t_State t = StateLeased" "t_WorkerID t = s_WorkerID sub" "a_WorkerID cur = s_WorkerID sub"
    "now < t_LeaseUntil t" "s_InputDigest sub = t_InputDigest t"
    "t_State (sd_Task d) \<in> {StateCanceled, StateDead, StateRetryScheduled, StateAccepted}"
    "t_Revision (sd_Task d) = t_Revision t + 1" "frozen (sd_Task d) = frozen t"
    "t_AttemptCount (sd_Task d) = t_AttemptCount t" "sd_AttemptOutcome d \<noteq> []"
    "sd_Accepted d \<longleftrightarrow> t_State (sd_Task d) = StateAccepted"
  using assms
  by (auto simp: DecideSubmitRecorded_def failAttempt_def Let_def frozen_def go_time
      split: if_splits expectation.splits)

lemma DecideCancel_changedD:
  assumes "DecideCancel t = (t', out, True)"
  shows "\<not> Terminal (t_State t)" "t_State t' = StateCanceled" "t_Revision t' = t_Revision t + 1"
    "frozen t' = frozen t" "t_AttemptCount t' = t_AttemptCount t"
    "out = (if t_State t = StateLeased then AttemptStale else [])"
  using assms by (auto simp: DecideCancel_def frozen_def split: if_splits)

lemma DecideExpire_changedD:
  assumes "DecideExpire t o' now b = (t', out, True)"
  shows "t_State t = StateLeased" "t_LeaseUntil t \<le> now"
    "t_State t' \<in> {StateDead, StateRetryScheduled}" "t_Revision t' = t_Revision t + 1"
    "frozen t' = frozen t" "t_AttemptCount t' = t_AttemptCount t" "out = AttemptExpired"
  using assms by (auto simp: DecideExpire_def frozen_def Let_def go_time split: if_splits)

lemma Supersede_changedD:
  assumes "Supersede t = (t', True)"
  shows "\<not> Terminal (t_State t)" "t_State t' = StateStale" "t_Revision t' = t_Revision t + 1"
    "frozen t' = frozen t" "t_AttemptCount t' = t_AttemptCount t"
  using assms by (auto simp: Supersede_def frozen_def split: if_splits)

lemma frozen_claimed: "frozen (claimed t w lease now) = frozen t"
  by (simp add: frozen_def claimed_def)

lemma claimed_Revision: "t_Revision (claimed t w lease now) = t_Revision t + 1"
  by (simp add: claimed_def)

lemma DecideHeartbeat_frozen:
  "DecideHeartbeat t cur w now = Inr t' \<Longrightarrow> frozen t' = frozen t \<and> t_Revision t' = t_Revision t + 1"
  by (drule DecideHeartbeat_InrD(5)) (simp add: frozen_def)

lemma frozen_stored [simp]: "frozen (stored_task t) = frozen t"
  by (simp add: frozen_def)

section \<open>Invariant of a generation\<close>

lemma set_outcome_sel [simp]:
  "map a_WorkerID (set_outcome n out as) = map a_WorkerID as"
  "map a_Ordinal (set_outcome n out as) = map a_Ordinal as"
  "length (set_outcome n out as) = length as"
  by (simp_all add: set_outcome_def o_def if_distrib cong: if_cong)

lemma gen_ok_closed:
  assumes "gen_ok (t, as)" "t_State t = StateLeased" "out \<noteq> []"
    "t_State t' \<noteq> StateLeased" "t_AttemptCount t' = t_AttemptCount t"
    "t_MaxAttempts t' = t_MaxAttempts t"
  shows "gen_ok (stored_task t', record_outcome t' out as)"
proof -
  obtain a where a: "a \<in> set as" "a_Ordinal a = t_AttemptCount t" "0 < a_Ordinal a"
    using assms(1,2) by (auto simp: gen_ok_def)
  then have "0 < t_AttemptCount t" by simp
  then have rec: "record_outcome t' out as = set_outcome (t_AttemptCount t) out as"
    using assms by (simp add: record_outcome_def)
  have "\<forall>x \<in> set (set_outcome (t_AttemptCount t) out as). a_Outcome x \<noteq> []"
    using assms(1-3) by (auto simp: gen_ok_def set_outcome_def)
  moreover have "\<forall>x \<in> set (set_outcome (t_AttemptCount t) out as).
      0 < a_Ordinal x \<and> a_Ordinal x \<le> t_AttemptCount t"
    using assms(1) by (auto simp: gen_ok_def set_outcome_def)
  ultimately show ?thesis
    using assms rec by (auto simp: gen_ok_def)
qed

text \<open>A transition out of a state that is not leased, with no outcome, keeps every attempt.\<close>

lemma gen_ok_unleased:
  assumes "gen_ok (t, as)" "t_State t \<noteq> StateLeased" "t_State t' \<noteq> StateLeased"
    "t_AttemptCount t' = t_AttemptCount t" "t_MaxAttempts t' = t_MaxAttempts t"
  shows "gen_ok (stored_task t', record_outcome t' [] as)"
  using assms by (auto simp: gen_ok_def record_outcome_def)

lemma word_Suc_bound:
  fixes x y :: "'a :: len word"
  assumes "x < y"
  shows "unat (x + 1) = Suc (unat x)" "x + 1 \<le> y" "x < x + 1"
proof -
  have "1 + x \<noteq> 0"
  proof
    assume "1 + x = 0"
    then have "x = - 1" by (simp add: eq_neg_iff_add_eq_0 add.commute)
    then show False using assms word_n1_ge [of y] by simp
  qed
  then show u: "unat (x + 1) = Suc (unat x)" using unatSuc [of x] by (simp add: add.commute)
  show "x + 1 \<le> y" using assms by (rule inc_le)
  show "x < x + 1" using u by (simp add: word_less_nat_alt)
qed

lemma gen_ok_claim:
  assumes ok: "gen_ok (t, as)" and d: "DecideClaim t as w lease now b = Inr d"
  shows "gen_ok (stored_task (cd_Task d),
     (if cd_ExpiredPrevious d then set_outcome (t_AttemptCount t) AttemptExpired as else as)
       @ [stored_attempt (cd_Attempt d)])"
    (is "gen_ok (_, ?as @ _)")
proof -
  note D = DecideClaim_InrD [OF d]
  let ?n = "t_AttemptCount t"
  note n = word_Suc_bound [OF D(4)]
  have keep: "map a_WorkerID ?as = map a_WorkerID as" "map a_Ordinal ?as = map a_Ordinal as"
    "length ?as = length as" by simp_all
  have ids: "a_WorkerID ` set ?as = a_WorkerID ` set as" "a_Ordinal ` set ?as = a_Ordinal ` set as"
    using keep(1,2) by (metis image_set)+
  have old: "\<forall>a \<in> set ?as. 0 < a_Ordinal a \<and> a_Ordinal a \<le> ?n"
    using ok by (auto simp: gen_ok_def set_outcome_def)
  then have older: "\<forall>a \<in> set ?as. a_Ordinal a \<noteq> ?n + 1 \<and> a_Ordinal a \<le> ?n + 1"
    using n(3) by fastforce
  have closed: "\<forall>a \<in> set ?as. a_Outcome a \<noteq> []"
    using ok D(8) by (auto simp: gen_ok_def set_outcome_def)
  have ord: "?n + 1 \<notin> a_Ordinal ` set ?as" using older by auto
  have pos: "0 < ?n + 1" using n(1) by (simp add: word_less_nat_alt)
  show ?thesis
    using ok n pos older old closed ord keep ids D(3)
    by (auto simp: gen_ok_def D(9,10) claimed_def simp del: set_outcome_sel split del: if_split)
qed

theorem gen_ok_step: "gen_ok x \<Longrightarrow> gen_step x y \<Longrightarrow> gen_ok y"
proof (erule gen_step.cases, goal_cases)
  case (1 t as w lease now b d)
  then show ?case using gen_ok_claim by blast
next
  case (2 t as w now t')
  then show ?case using DecideHeartbeat_InrD [OF 2(4)] by (auto simp: gen_ok_def)
next
  case (3 t as sub auth now b rec d)
  note D = DecideSubmit_changedD [OF 3(4,5)]
  show ?case using 3 D by (auto intro!: gen_ok_closed [of t] simp: frozen_def)
next
  case (4 t t' out as)
  note D = DecideCancel_changedD [OF 4(4)]
  show ?case
    using 4 D by (cases "t_State t = StateLeased")
      (auto intro!: gen_ok_closed [of t] gen_ok_unleased [of t] simp: frozen_def)
next
  case (5 t out now b t' outcome as)
  note D = DecideExpire_changedD [OF 5(4)]
  show ?case using 5 D by (auto intro!: gen_ok_closed [of t] simp: frozen_def)
next
  case (6 t t' as)
  note D = Supersede_changedD [OF 6(4)]
  show ?case
    using 6 D by (cases "t_State t = StateLeased")
      (auto intro!: gen_ok_closed [of t] gen_ok_unleased [of t] simp: frozen_def)
qed

lemma NewRequest_InrD:
  assumes "NewRequest tid ten kind profile input eff did aref cid b = Inr t"
  shows "t_State t = StatePending" "t_AttemptCount t = 0" "t_MaxAttempts t = b_MaxAttempts b"
    "t_Revision t = 1" "t_Generation t = 1" "t_InputDigest t = InputDigest input" "t_Input t = input"
    "t_TaskID t = tid" "t_TenantID t = ten" "t_ResultProfile t = profile"
    "t_AuthorizationRef t = aref" "t_WorkerID t = []"
    "int (length input) \<le> b_MaxInputBytes b" "checkProfileInput profile input = None"
    "json_Valid input" "eff = EffectsReconstructible \<or> eff = EffectsExternal \<and> did \<noteq> []"
    "t_Effects t = eff" "t_DispatchID t = did" "t_LeaseUntil t = zero_time" "t_RetryAt t = None"
  using assms by (auto simp: NewRequest_def split: if_splits option.splits)

lemma gen_reachable_ok: "gen_reachable x \<Longrightarrow> gen_ok x"
proof (induction rule: gen_reachable.induct)
  case (new tid ten kind profile input eff did aref cid b t g)
  then show ?case using NewRequest_InrD [OF new] by (simp add: gen_ok_def)
next
  case (step x y)
  then show ?case using gen_ok_step by blast
qed

lemma gen_step_frozen: "gen_step (t, as) (t', as') \<Longrightarrow> frozen t' = frozen t \<and> t_Revision t' = t_Revision t + 1"
  by (erule gen_stepE)
    (auto dest: DecideHeartbeat_frozen DecideSubmit_changedD(7,8) DecideCancel_changedD(3,4)
      DecideExpire_changedD(4,5) Supersede_changedD(3,4)
      simp: DecideClaim_InrD(9) frozen_claimed claimed_Revision)

lemma gen_step_not_terminal: "gen_step (t, as) y \<Longrightarrow> \<not> Terminal (t_State t)"
  by (erule gen_stepE)
    (auto dest: DecideClaim_InrD(5) DecideHeartbeat_InrD(1) DecideSubmit_changedD(1)
      DecideCancel_changedD(1) DecideExpire_changedD(1) Supersede_changedD(1))

text \<open>The attempt the owner looks up is the one the invariant speaks of.\<close>

lemma gen_ok_current:
  assumes "gen_ok (t, as)" "t_State t = StateLeased"
  shows "currentAttempt t as \<in> set as" "a_WorkerID (currentAttempt t as) = t_WorkerID t"
    "a_Outcome (currentAttempt t as) = []"
proof -
  obtain a where a: "a \<in> set as" "a_Ordinal a = t_AttemptCount t" "a_WorkerID a = t_WorkerID t"
    using assms by (auto simp: gen_ok_def)
  have inj: "inj_on a_Ordinal (set as)" using assms by (simp add: gen_ok_def distinct_map)
  obtain c where c: "find (\<lambda>a. a_Ordinal a = t_AttemptCount t) as = Some c"
    using a by (metis (mono_tags, lifting) find_None_iff not_Some_eq)
  then have "c \<in> set as" "a_Ordinal c = t_AttemptCount t" by (auto simp: find_Some_iff)
  then have "c = a" using inj a by (auto simp: inj_on_def)
  then have "currentAttempt t as = a" using c by (simp add: currentAttempt_def)
  then show "currentAttempt t as \<in> set as" "a_WorkerID (currentAttempt t as) = t_WorkerID t"
    "a_Outcome (currentAttempt t as) = []"
    using a assms by (auto simp: gen_ok_def)
qed

section \<open>Concrete rows\<close>

definition sample_bounds :: Bounds where
  "sample_bounds = \<lparr>b_MaxInputBytes = 65536, b_MaxLease = 60 * second, b_RetryDelay = 5 * second,
                     b_MaxAttempts = 3\<rparr>"

definition sample_input :: bytes where
  "sample_input = concat [''{'', [CHR 0x22], ''schemaVersion'', [CHR 0x22], '':1,'',
     [CHR 0x22], ''serverId'', [CHR 0x22], '':'', [CHR 0x22], ''s1'', [CHR 0x22], '','',
     [CHR 0x22], ''revision'', [CHR 0x22], '':1,'',
     [CHR 0x22], ''descriptorDigest'', [CHR 0x22], '':'', [CHR 0x22], ''sha256:'',
     replicate 64 (CHR ''a''), [CHR 0x22], ''}'']"

definition sample_new :: "Effects \<Rightarrow> Task" where
  "sample_new eff =
     \<lparr>t_TaskID = ''t1'', t_Generation = 1, t_TenantID = ''ten'', t_Kind = KindCatalogRefresh,
      t_InputDigest = InputDigest sample_input, t_Input = sample_input, t_State = StatePending,
      t_WorkerID = [], t_LeaseUntil = zero_time, t_AttemptCount = 0, t_MaxAttempts = 3,
      t_ResultProfile = CatalogRefreshProfile, t_Effects = eff, t_DispatchID = ''d1'',
      t_AuthorizationRef = ''grant:g1'', t_RetryAt = None, t_ResultRef = [], t_ResultDigest = [],
      t_FailureCode = [], t_Revision = 1, t_CorrelationID = ''c1''\<rparr>"

definition sample_leased :: "Effects \<Rightarrow> Task" where
  "sample_leased eff = stored_task (claimed (sample_new eff) ''w1'' (30 * second) (1000 * second))"

definition sample_attempt :: Attempt where
  "sample_attempt = \<lparr>a_Ordinal = 1, a_WorkerID = ''w1'', a_LeasedAt = 1000 * second,
                      a_LeaseUntil = 1030 * second, a_Outcome = []\<rparr>"

definition sample_submission :: Submission where
  "sample_submission =
     \<lparr>s_WorkerID = ''w1'', s_InputDigest = InputDigest sample_input, s_Succeeded = True,
      s_ResultRef = ''r1'', s_ResultDigest = InputDigest ''result'', s_FailureCode = []\<rparr>"

definition sample_recorded :: RecordedResult where
  "sample_recorded = \<lparr>rr_Ref = ''r1'', rr_Digest = InputDigest ''result''\<rparr>"

definition sample_digest :: string where
  "sample_digest = ''sha256:'' @ replicate 64 (CHR ''a'')"

lemma sample_digest_ok: "digestPattern sample_digest"
  by code_simp

lemma sample_input_parse:
  "parse_value (2 * length sample_input + 2) 0 sample_input =
     Some (JObj [(''schemaVersion'', JNum ''1''), (''serverId'', JStr ''s1''), (''revision'', JNum ''1''),
                 (''descriptorDigest'', JStr sample_digest)], [])"
  by code_simp

lemma sample_input_valid: "json_Valid sample_input"
  using sample_input_parse by (simp add: json_Valid_def json_parse_def skip_ws_def)

lemma parse_one: "ParseInt64 ''1'' = Some 1" "ParseUint64 ''1'' = Some 1"
proof -
  have "list_all is_digit ''1''" "parse_digits ''1'' = 1" by code_simp+
  then show "ParseInt64 ''1'' = Some 1" "ParseUint64 ''1'' = Some 1"
    by (simp_all add: ParseInt64_def ParseUint64_def HasPrefix_def Let_def)
qed

lemma sample_input_decoded:
  "decode_refresh_input sample_input =
     Some \<lparr>cri_SchemaVersion = 1, cri_ServerID = ''s1'', cri_Revision = 1,
           cri_DescriptorDigest = sample_digest\<rparr>"
  using sample_input_parse
  by (simp add: decode_refresh_input_def json_decode_first_def decode_struct_def zero_refresh_input_def
      catalog_refresh_fields_def find_field_def fld_int_def fld_str_def fld_u64_def parse_one)

lemma sample_input_profile: "checkProfileInput CatalogRefreshProfile sample_input = None"
  by (simp add: checkProfileInput_def sample_input_decoded sample_digest_ok)

lemma sample_input_length: "length sample_input \<le> 65536"
  by (simp add: sample_input_def)

lemma sample_new_request:
  "NewRequest ''t1'' ''ten'' KindCatalogRefresh CatalogRefreshProfile sample_input
     EffectsReconstructible ''d1'' ''grant:g1'' ''c1'' sample_bounds = Inr (sample_new EffectsReconstructible)"
  by (simp add: NewRequest_def sample_input_valid sample_input_profile sample_input_length
      sample_new_def sample_bounds_def not_less)

lemma sample_leased_eq:
  "sample_leased eff = (sample_new eff)\<lparr>t_State := StateLeased, t_WorkerID := ''w1'',
     t_LeaseUntil := 1030 * second, t_AttemptCount := 1, t_Revision := 2\<rparr>"
  by (simp add: sample_leased_def stored_task_def claimed_def sample_new_def IsZero_def zero_time_def
      trunc_us_def go_time)

lemma sample_leased_sel [simp]:
  "t_State (sample_leased eff) = StateLeased" "t_WorkerID (sample_leased eff) = ''w1''"
  "t_LeaseUntil (sample_leased eff) = 1030 * second" "t_Effects (sample_leased eff) = eff"
  by (simp_all add: sample_leased_eq sample_new_def)

lemma sample_reachable: "gen_reachable (sample_leased EffectsReconstructible, [sample_attempt])"
proof -
  let ?n = "sample_new EffectsReconstructible"
  have new: "gen_reachable (?n, [])"
    using gen_reachable.new [OF sample_new_request, of 1] by (simp add: sample_new_def)
  have "gen_step (?n, []) (stored_task (claimed ?n ''w1'' (30 * second) (1000 * second)),
      [] @ [stored_attempt \<lparr>a_Ordinal = 1, a_WorkerID = ''w1'', a_LeasedAt = 1000 * second,
                      a_LeaseUntil = 1030 * second, a_Outcome = []\<rparr>])"
    using gen_step.claim [of ?n "[]" "''w1''" "30 * second" "1000 * second" sample_bounds]
    by (simp add: DecideClaim_def sample_bounds_def sample_new_def claimed_def go_time)
  then show ?thesis
    using gen_reachable.step [OF new]
    by (simp add: sample_leased_def sample_attempt_def stored_attempt_def trunc_us_def)
qed

definition sample_accepted :: SubmitDecision where
  "sample_accepted =
     \<lparr>sd_Task = (sample_leased EffectsReconstructible)\<lparr>t_State := StateAccepted,
        t_ResultRef := ''r1'', t_ResultDigest := InputDigest ''result'', t_Revision := 3\<rparr>,
      sd_AttemptOutcome = AttemptAccepted, sd_Accepted = True, sd_Existing = False,
      sd_Changed = True\<rparr>"

lemma sample_accepted_Accepted [simp]: "sd_Accepted sample_accepted"
  by (simp add: sample_accepted_def)

lemma sample_accepts:
  "DecideSubmitRecorded (sample_leased EffectsReconstructible) sample_attempt sample_submission
     AuthorizationCurrent (1001 * second) sample_bounds (Some sample_recorded) = Inr sample_accepted"
  by (simp add: DecideSubmitRecorded_def sample_leased_eq sample_new_def sample_submission_def
      sample_attempt_def sample_recorded_def expectedResult_def go_time sample_accepted_def)

section \<open>Properties\<close>

text \<open>
  C4. In every reachable generation the row counts exactly its attempts and never more than the
  bound frozen at creation; each worker identity and each ordinal occurs once; an attempt is open
  exactly while it is the current attempt of a leased row, and then the attempt the owner looks up
  belongs to the worker that holds the lease.
\<close>
theorem generation_invariant:
  assumes "gen_reachable (t, as)"
  shows "length as = unat (t_AttemptCount t) \<and> t_AttemptCount t \<le> t_MaxAttempts t
    \<and> distinct (map a_WorkerID as) \<and> distinct (map a_Ordinal as)
    \<and> (\<forall>a \<in> set as. a_Outcome a = [] \<longleftrightarrow> t_State t = StateLeased \<and> a_Ordinal a = t_AttemptCount t)
    \<and> (t_State t = StateLeased \<longrightarrow>
         currentAttempt t as \<in> set as \<and> a_WorkerID (currentAttempt t as) = t_WorkerID t)"
proof -
  have ok: "gen_ok (t, as)" using assms by (rule gen_reachable_ok)
  then have "t_State t = StateLeased \<longrightarrow>
      currentAttempt t as \<in> set as \<and> a_WorkerID (currentAttempt t as) = t_WorkerID t"
    using gen_ok_current by blast
  with ok show ?thesis by (simp add: gen_ok_def)
qed

theorem generation_invariant_witness:
  "a_WorkerID (currentAttempt (sample_leased EffectsReconstructible) [sample_attempt]) = ''w1''"
  using generation_invariant [OF sample_reachable] sample_leased_sel(1,2) by metis

text \<open>
  A terminal generation is final: no operation steps it, a claim and a heartbeat are refused,
  cancellation, expiry and supersession leave it as it is, and a submission changes nothing.
\<close>
theorem terminal_absorbing:
  assumes "Terminal (t_State t)"
  shows "(\<forall>y. \<not> gen_step (t, as) y)
    \<and> (\<forall>d. DecideClaim t as w lease now b \<noteq> Inr d)
    \<and> DecideHeartbeat t cur w now = Inl (err ErrStaleExecution)
    \<and> DecideCancel t = (t, [], False) \<and> DecideExpire t out now b = (t, [], False)
    \<and> Supersede t = (t, False)
    \<and> (\<forall>d. DecideSubmitRecorded t cur sub auth now b rec = Inr d \<longrightarrow>
           sd_Task d = t \<and> \<not> sd_Changed d \<and> sd_Existing d)"
proof -
  have neq: "t_State t \<notin> {StatePending, StateLeased, StateRetryScheduled}"
    using assms by (auto simp: Terminal_def)
  then have "\<forall>d. DecideSubmitRecorded t cur sub auth now b rec = Inr d \<longrightarrow>
      sd_Task d = t \<and> \<not> sd_Changed d \<and> sd_Existing d"
    by (auto simp: DecideSubmitRecorded_def)
  moreover have "\<forall>d. DecideClaim t as w lease now b \<noteq> Inr d"
    using neq DecideClaim_InrD(5) [of t as w lease now b] by blast
  ultimately show ?thesis
    using assms neq gen_step_not_terminal
    by (auto simp: DecideHeartbeat_def DecideCancel_def DecideExpire_def Supersede_def)
qed

theorem terminal_absorbing_witness:
  "DecideCancel ((sample_new EffectsExternal)\<lparr>t_State := StateDead\<rparr>)
     = ((sample_new EffectsExternal)\<lparr>t_State := StateDead\<rparr>, [], False)"
  using terminal_absorbing [of "(sample_new EffectsExternal)\<lparr>t_State := StateDead\<rparr>"
      "[]" "''w''" 1 0 sample_bounds sample_attempt DispatchSent sample_submission
      AuthorizationCurrent None]
  by simp

text \<open>
  Which submissions are newly accepted, exactly: those of the live claimant of a leased row,
  before its lease ends, bound to the frozen input, under a current authorization, reporting
  success with the very reference and digest the profile expects.  No other submission accepts.
\<close>
theorem submit_accepts_iff:
  "(\<exists>d. DecideSubmitRecorded t cur sub auth now b rec = Inr d \<and> sd_Accepted d \<and> sd_Changed d)
   \<longleftrightarrow> t_State t = StateLeased \<and> t_WorkerID t = s_WorkerID sub \<and> a_WorkerID cur = s_WorkerID sub
     \<and> now < t_LeaseUntil t \<and> s_InputDigest sub = t_InputDigest t \<and> digestPattern (t_InputDigest t)
     \<and> auth = AuthorizationCurrent \<and> s_Succeeded sub \<and> digestPattern (s_ResultDigest sub)
     \<and> expectedResult t rec = Expect (s_ResultRef sub) (s_ResultDigest sub)"
  by (cases auth)
    (auto simp: DecideSubmitRecorded_def failAttempt_def Let_def go_time split: expectation.splits)

text \<open>
  An accepted result stays accepted and is idempotent: the row records exactly what was
  submitted; the same submission later, whatever the clock, the authorization and the bounds,
  answers the existing acceptance without a change; a different result is refused as stale.
\<close>
theorem accepted_submission_idempotent:
  assumes "DecideSubmitRecorded t cur sub auth now b rec = Inr d" "sd_Accepted d"
  shows "t_ResultRef (sd_Task d) = s_ResultRef sub \<and> t_ResultDigest (sd_Task d) = s_ResultDigest sub
    \<and> t_State (sd_Task d) = StateAccepted
    \<and> DecideSubmitRecorded (stored_task (sd_Task d)) cur' sub auth' now' b' rec'
        = Inr \<lparr>sd_Task = stored_task (sd_Task d), sd_AttemptOutcome = [], sd_Accepted = True,
               sd_Existing = True, sd_Changed = False\<rparr>
    \<and> (s_ResultDigest sub' \<noteq> s_ResultDigest sub \<longrightarrow> digestPattern (s_InputDigest sub') \<longrightarrow>
         DecideSubmitRecorded (stored_task (sd_Task d)) cur' sub' auth' now' b' rec'
           = Inl (err ErrStaleExecution))"
  using assms
  by (auto simp: DecideSubmitRecorded_def failAttempt_def Let_def split: if_splits expectation.splits)

theorem accepted_submission_idempotent_witness:
  "DecideSubmitRecorded (stored_task (sd_Task sample_accepted)) no_attempt sample_submission
       AuthorizationRevoked (9999 * second) sample_bounds None
     = Inr \<lparr>sd_Task = stored_task (sd_Task sample_accepted), sd_AttemptOutcome = [],
            sd_Accepted = True, sd_Existing = True, sd_Changed = False\<rparr>"
  using accepted_submission_idempotent [OF sample_accepts, of no_attempt AuthorizationRevoked
      "9999 * second" sample_bounds None sample_submission]
  by simp

text \<open>
  A lease with external effects that ran out is never handed on without evidence: a claim is
  refused with \<open>EFFECT_UNCERTAIN\<close>, and expiry makes the request dead with that code, changing
  neither worker nor attempts, unless Control answered that the dispatch was not sent.
\<close>
theorem external_lease_not_reassigned:
  assumes "t_State t = StateLeased" "t_Effects t = EffectsExternal" "t_LeaseUntil t \<le> now"
  shows "(0 < lease \<and> lease \<le> b_MaxLease b \<and> w \<notin> a_WorkerID ` set as \<longrightarrow>
            DecideClaim t as w lease now b = Inl (err ErrEffectUncertain))
    \<and> (\<forall>d. DecideClaim t as w lease now b \<noteq> Inr d)
    \<and> (out \<noteq> DispatchNotSent \<longrightarrow>
         DecideExpire t out now b
           = (t\<lparr>t_State := StateDead, t_FailureCode := FailureEffectUncertain,
                t_Revision := t_Revision t + 1\<rparr>, AttemptExpired, True))
    \<and> (t_State (fst (DecideExpire t out now b)) = StateRetryScheduled \<longrightarrow>
         out = DispatchNotSent \<and> t_AttemptCount t < t_MaxAttempts t)"
proof -
  have "\<forall>d. DecideClaim t as w lease now b \<noteq> Inr d"
    using assms DecideClaim_InrD(6) [of t as w lease now b] by auto
  then show ?thesis
    using assms
    by (auto simp: DecideClaim_def DecideExpire_def list_ex_iff go_time Let_def not_le)
qed

theorem external_lease_not_reassigned_witness:
  "DecideClaim (sample_leased EffectsExternal) [sample_attempt] ''w2'' second (2000 * second) sample_bounds
     = Inl (err ErrEffectUncertain)"
  using external_lease_not_reassigned [of "sample_leased EffectsExternal" "2000 * second" second
      sample_bounds "''w2''" "[sample_attempt]" DispatchUnknown]
  by (simp add: sample_leased_eq sample_new_def sample_bounds_def sample_attempt_def)

text \<open>
  The lease of a row never reaches further than the configured bound: an accepted claim leases
  for at most \<open>MaxLease\<close> from now, and every heartbeat under that attempt, after the attempt went
  through the database, extends to at most \<open>MaxLease\<close> from the heartbeat, when the bound is a whole
  number of microseconds that fits a duration.
\<close>
theorem lease_within_bound:
  assumes d: "DecideClaim t as w lease now b = Inr d"
    and us: "b_MaxLease b mod 1000 = 0" "b_MaxLease b \<le> max_duration - 1000"
    and h: "DecideHeartbeat t' (stored_attempt (cd_Attempt d)) w' now' = Inr t''"
  shows "t_LeaseUntil (cd_Task d) \<le> now + b_MaxLease b \<and> now < t_LeaseUntil (cd_Task d)
    \<and> t_LeaseUntil t'' \<le> now' + b_MaxLease b \<and> now' \<le> t_LeaseUntil t''"
proof -
  note D = DecideClaim_InrD [OF d]
  obtain k where k: "b_MaxLease b = k * 1000" using us(1) by (metis mod_0_imp_dvd dvd_def mult.commute)
  have le: "trunc_us (now + lease) \<le> trunc_us now + b_MaxLease b"
    using trunc_us_mono [of "now + lease" "now + b_MaxLease b"] D(2) k by (simp add: trunc_us_def)
  have ge: "trunc_us now \<le> trunc_us (now + lease)" using D(1) by (intro trunc_us_mono) simp
  have "Sub (trunc_us (now + lease)) (trunc_us now) = trunc_us (now + lease) - trunc_us now"
    using le ge us(2) by (intro Sub_exact) (auto simp: min_duration_def max_duration_def)
  then have "t_LeaseUntil t'' = now' + (trunc_us (now + lease) - trunc_us now)"
    using DecideHeartbeat_InrD(5) [OF h] by (simp add: D(10) stored_attempt_def)
  then show ?thesis using le ge D(1,2) by (simp add: D(9) claimed_def go_time)
qed

theorem lease_within_bound_witness:
  "\<exists>t''. DecideHeartbeat (sample_leased EffectsReconstructible) sample_attempt ''w1'' (1010 * second) = Inr t''
     \<and> t_LeaseUntil t'' \<le> 1010 * second + 60 * second"
proof -
  let ?n = "sample_new EffectsReconstructible"
  let ?d = "\<lparr>cd_Task = claimed ?n ''w1'' (30 * second) (1000 * second),
             cd_Attempt = sample_attempt, cd_ExpiredPrevious = False\<rparr>"
  have d: "DecideClaim ?n [] ''w1'' (30 * second) (1000 * second) sample_bounds = Inr ?d"
    by (simp add: DecideClaim_def sample_bounds_def sample_new_def claimed_def go_time sample_attempt_def)
  have a: "stored_attempt (cd_Attempt ?d) = sample_attempt"
    by (simp add: stored_attempt_def sample_attempt_def trunc_us_def)
  obtain t'' where h: "DecideHeartbeat (sample_leased EffectsReconstructible) sample_attempt ''w1''
      (1010 * second) = Inr t''"
    by (simp add: DecideHeartbeat_def sample_leased_eq sample_new_def sample_attempt_def go_time)
  have "b_MaxLease sample_bounds = 60 * second" by (simp add: sample_bounds_def)
  then show ?thesis
    using h lease_within_bound [OF d, of "sample_leased EffectsReconstructible" "''w1''" "1010 * second" t'']
    by (simp only: a) (simp add: max_duration_def)
qed

text \<open>
  Every step of a generation advances the row revision by exactly one and leaves the frozen
  part of the request alone: identity, tenant, kind, input and its digest, attempt bound, profile,
  effects, dispatch, authorization reference and correlation.
\<close>
theorem step_keeps_frozen:
  assumes "gen_step (t, as) (t', as')"
  shows "frozen t' = frozen t \<and> t_Revision t' = t_Revision t + 1
    \<and> (\<exists>more. map a_WorkerID as' = map a_WorkerID as @ more)"
proof -
  have "\<exists>more. map a_WorkerID as' = map a_WorkerID as @ more"
    using assms by (cases rule: gen_step.cases) (auto simp: record_outcome_def)
  with gen_step_frozen [OF assms] show ?thesis by simp
qed

theorem step_keeps_frozen_witness:
  "\<exists>t'. gen_step (sample_new EffectsExternal, []) (t', [])
     \<and> frozen t' = frozen (sample_new EffectsExternal)"
proof -
  have "DecideCancel (sample_new EffectsExternal)
      = ((sample_new EffectsExternal)\<lparr>t_State := StateCanceled, t_FailureCode := FailureCanceled,
           t_Revision := 2\<rparr>, [], True)"
    by (simp add: DecideCancel_def sample_new_def)
  from gen_step.cancel [OF this, of "[]"] obtain t' where
    "gen_step (sample_new EffectsExternal, []) (t', [])"
    by (auto simp: record_outcome_def)
  then show ?thesis using step_keeps_frozen by blast
qed

end
