(* ===== verification/Go_Net.thy ===== *)
theory Go_Net
  imports Go_Json
begin

text \<open>
  The part of \<open>net/netip\<close> and \<open>net/url\<close> the service uses: IP addresses with their textual form and
  the classes the network policy tests, and \<open>url.Parse\<close> with \<open>URL.Hostname\<close>, \<open>URL.Port\<close> and
  \<open>URL.IsAbs\<close>.  Strings are scanned byte by byte as the library does; every loop consumes its
  input.
\<close>

unbundle bit_operations_syntax

section \<open>IP addresses\<close>

datatype Addr = V4 u32 | V6 "128 word" string

text \<open>\<open>parseIPv4Fields\<close>: four decimal octets without leading zeros.\<close>

definition parse_octet :: "string \<Rightarrow> int option" where
  "parse_octet s =
     (if s \<noteq> [] \<and> list_all is_digit s \<and> length s \<le> 3 \<and> \<not> (1 < length s \<and> hd s = CHR ''0'')
         \<and> parse_digits s \<le> 255 then Some (parse_digits s) else None)"

definition parse_ipv4 :: "string \<Rightarrow> int option" where
  "parse_ipv4 s =
     (case map parse_octet (Split s (CHR ''.'')) of
        [Some a, Some b, Some c, Some d] \<Rightarrow> Some (((a * 256 + b) * 256 + c) * 256 + d)
      | _ \<Rightarrow> None)"

definition is_hex :: "char \<Rightarrow> bool" where
  "is_hex c \<longleftrightarrow> hex_val c \<noteq> None"

definition hex_num :: "string \<Rightarrow> int" where
  "hex_num s = foldl (\<lambda>n c. 16 * n + (case hex_val c of Some v \<Rightarrow> int v | None \<Rightarrow> 0)) 0 s"

text \<open>
  The loop of \<open>parseIPv6\<close>: \<open>fuel\<close> groups at most, \<open>gs\<close> the 16-bit groups read so far and \<open>el\<close> the
  position of the double colon.  The result is the groups, the position and the unread input.
\<close>

fun parse_ipv6_groups ::
  "nat \<Rightarrow> string \<Rightarrow> int list \<Rightarrow> nat option \<Rightarrow> (int list \<times> nat option \<times> string) option" where
  "parse_ipv6_groups 0 s gs el = Some (gs, el, s)"
| "parse_ipv6_groups (Suc f) s gs el =
     (if 8 \<le> length gs then Some (gs, el, s)
      else
        (let h = takeWhile is_hex s; r = dropWhile is_hex s in
         if h = [] \<or> 4 < length h then None
         else if HasPrefix r ''.'' then
           (if (el = None \<and> length gs \<noteq> 6) \<or> 6 < length gs then None
            else (case parse_ipv4 s of
                    None \<Rightarrow> None
                  | Some v \<Rightarrow> Some (gs @ [v div 65536, v mod 65536], el, [])))
         else
           (let gs' = gs @ [hex_num h] in
            case r of
              [] \<Rightarrow> Some (gs', el, [])
            | c # r1 \<Rightarrow>
               if c \<noteq> CHR '':'' \<or> r1 = [] then None
               else if hd r1 = CHR '':'' then
                 (if el \<noteq> None then None
                  else if tl r1 = [] then Some (gs', Some (length gs'), [])
                  else parse_ipv6_groups f (tl r1) gs' (Some (length gs')))
               else parse_ipv6_groups f r1 gs' el)))"

definition ipv6_value :: "int list \<Rightarrow> int" where
  "ipv6_value gs = foldl (\<lambda>n g. 65536 * n + g) 0 gs"

definition parse_ipv6 :: "string \<Rightarrow> Addr option" where
  "parse_ipv6 s0 =
     (let s = takeWhile (\<lambda>c. c \<noteq> CHR ''%'') s0;
          hasz = CHR ''%'' \<in> set s0;
          zone = (if hasz then drop (Suc (length s)) s0 else [])
      in if hasz \<and> zone = [] then None
         else if s = ''::'' then Some (V6 0 zone)
         else
           (let (el, t) = (if HasPrefix s ''::'' then (Some 0, drop 2 s) else (None, s)) in
            case parse_ipv6_groups 8 t [] el of
              None \<Rightarrow> None
            | Some (gs, el', rest) \<Rightarrow>
               if rest \<noteq> [] then None
               else if length gs < 8 then
                 (case el' of
                    None \<Rightarrow> None
                  | Some k \<Rightarrow> Some (V6 (word_of_int
                      (ipv6_value (take k gs @ replicate (8 - length gs) 0 @ drop k gs))) zone))
               else if el' \<noteq> None then None
               else Some (V6 (word_of_int (ipv6_value gs)) zone)))"

text \<open>\<open>netip.ParseAddr\<close>: the first of dot, colon and percent decides.\<close>

definition ParseAddr :: "string \<Rightarrow> Addr option" where
  "ParseAddr s =
     (case find (\<lambda>c. c \<in> {CHR ''.'', CHR '':'', CHR ''%''}) s of
        Some c \<Rightarrow>
          if c = CHR ''.'' then map_option (\<lambda>v. V4 (word_of_int v)) (parse_ipv4 s)
          else if c = CHR '':'' then parse_ipv6 s else None
      | None \<Rightarrow> None)"

text \<open>\<open>Unmap\<close> and the address classes (an IPv4-mapped IPv6 address is its IPv4 address; the
  class tests of \<open>netip.Addr\<close> unmap it themselves).\<close>

definition Unmap :: "Addr \<Rightarrow> Addr" where
  "Unmap a =
     (case a of V4 w \<Rightarrow> V4 w
      | V6 w z \<Rightarrow> if drop_bit 32 w = 0xFFFF then V4 (ucast w) else V6 w z)"

definition octet :: "nat \<Rightarrow> u32 \<Rightarrow> int" where
  "octet i w = uint w div 256 ^ (3 - i) mod 256"

text \<open>The leading \<open>n\<close> bits of a 128-bit address.\<close>
definition prefix6 :: "nat \<Rightarrow> 128 word \<Rightarrow> int" where
  "prefix6 n w = uint w div 2 ^ (128 - n)"

definition IsLoopback :: "Addr \<Rightarrow> bool" where
  "IsLoopback a = (case Unmap a of V4 w \<Rightarrow> octet 0 w = 127 | V6 w _ \<Rightarrow> w = 1)"

definition IsPrivate :: "Addr \<Rightarrow> bool" where
  "IsPrivate a =
     (case Unmap a of
        V4 w \<Rightarrow> octet 0 w = 10 \<or> (octet 0 w = 172 \<and> octet 1 w div 16 = 1)
               \<or> (octet 0 w = 192 \<and> octet 1 w = 168)
      | V6 w _ \<Rightarrow> prefix6 7 w = 0x7E)"

definition IsLinkLocalUnicast :: "Addr \<Rightarrow> bool" where
  "IsLinkLocalUnicast a =
     (case Unmap a of V4 w \<Rightarrow> octet 0 w = 169 \<and> octet 1 w = 254 | V6 w _ \<Rightarrow> prefix6 10 w = 0x3FA)"

definition IsMulticast :: "Addr \<Rightarrow> bool" where
  "IsMulticast a =
     (case Unmap a of V4 w \<Rightarrow> octet 0 w div 16 = 14 | V6 w _ \<Rightarrow> prefix6 8 w = 0xFF)"

definition IsLinkLocalMulticast :: "Addr \<Rightarrow> bool" where
  "IsLinkLocalMulticast a =
     (case Unmap a of V4 w \<Rightarrow> octet 0 w = 224 \<and> octet 1 w = 0 \<and> octet 2 w = 0
      | V6 w _ \<Rightarrow> prefix6 8 w = 0xFF \<and> prefix6 16 w mod 16 = 2)"

definition IsInterfaceLocalMulticast :: "Addr \<Rightarrow> bool" where
  "IsInterfaceLocalMulticast a =
     (case Unmap a of V4 w \<Rightarrow> False | V6 w _ \<Rightarrow> prefix6 8 w = 0xFF \<and> prefix6 16 w mod 16 = 1)"

definition IsUnspecified :: "Addr \<Rightarrow> bool" where
  "IsUnspecified a = (case a of V4 w \<Rightarrow> w = 0 | V6 w z \<Rightarrow> w = 0 \<and> z = [])"

section \<open>URLs\<close>

record URL =
  u_Scheme :: string
  u_Opaque :: string
  u_User :: bool
  u_Host :: string
  u_Path :: string
  u_RawQuery :: string
  u_Fragment :: string

text \<open>\<open>strings.Cut\<close> at the first occurrence of a byte: before, after, found.\<close>

definition Cut :: "string \<Rightarrow> char \<Rightarrow> string \<times> string \<times> bool" where
  "Cut s c =
     (let a = takeWhile (\<lambda>x. x \<noteq> c) s in
      if a = s then (s, [], False) else (a, drop (Suc (length a)) s, True))"

text \<open>What precedes and what follows the last occurrence of a byte.\<close>

definition CutLast :: "string \<Rightarrow> char \<Rightarrow> (string \<times> string) option" where
  "CutLast s c =
     (if c \<in> set s
      then let b = takeWhile (\<lambda>x. x \<noteq> c) (rev s)
           in Some (take (length s - Suc (length b)) s, rev b)
      else None)"

definition is_alpha :: "char \<Rightarrow> bool" where
  "is_alpha c \<longleftrightarrow> (CHR ''a'' \<le> c \<and> c \<le> CHR ''z'') \<or> (CHR ''A'' \<le> c \<and> c \<le> CHR ''Z'')"

text \<open>\<open>getScheme\<close>\<close>
definition getScheme :: "string \<Rightarrow> (string \<times> string) option" where
  "getScheme s =
     (let a = takeWhile (\<lambda>c. is_alpha c \<or> is_digit c \<or> c \<in> set ''+-.'') s in
      case drop (length a) s of
        c # rest \<Rightarrow>
          if c = CHR '':'' then
            (if a = [] then None
             else if is_alpha (hd a) then Some (a, rest) else Some ([], s))
          else Some ([], s)
      | [] \<Rightarrow> Some ([], s))"

text \<open>\<open>unescape\<close> in path mode: every percent sign starts a hexadecimal pair.\<close>

fun unescape_path :: "string \<Rightarrow> string option" where
  "unescape_path [] = Some []"
| "unescape_path (c # s) =
     (if c = CHR ''%'' then
        (case s of
           x # y # r \<Rightarrow>
             (case (hex_val x, hex_val y) of
                (Some h, Some l) \<Rightarrow> map_option ((#) (char_of (16 * h + l))) (unescape_path r)
              | _ \<Rightarrow> None)
         | _ \<Rightarrow> None)
      else map_option ((#) c) (unescape_path s))"

text \<open>\<open>shouldEscape\<close> in the two host modes, for bytes below 128.\<close>

definition host_byte :: "char \<Rightarrow> bool" where
  "host_byte c \<longleftrightarrow> is_alpha c \<or> is_digit c \<or> c \<in> set ''!$&()*+,;=:[]<>-_.~'' \<or> c = CHR 0x27 \<or> c = CHR 0x22
     \<or> 128 \<le> (of_char c :: nat)"

fun unescape_host :: "bool \<Rightarrow> string \<Rightarrow> string option" where
  "unescape_host zone [] = Some []"
| "unescape_host zone (c # s) =
     (if c = CHR ''%'' then
        (case s of
           x # y # r \<Rightarrow>
             (case (hex_val x, hex_val y) of
                (Some h, Some l) \<Rightarrow>
                  (let v = char_of (16 * h + l) in
                   if (x = CHR ''2'' \<and> y = CHR ''5'')
                      \<or> (if zone then v = CHR '' '' \<or> host_byte v else 8 \<le> h)
                   then map_option ((#) v) (unescape_host zone r) else None)
              | _ \<Rightarrow> None)
         | _ \<Rightarrow> None)
      else if host_byte c then map_option ((#) c) (unescape_host zone s) else None)"

definition validOptionalPort :: "string \<Rightarrow> bool" where
  "validOptionalPort p \<longleftrightarrow> p = [] \<or> (hd p = CHR '':'' \<and> list_all is_digit (tl p))"

text \<open>Before and from the first occurrence of the zone escape.\<close>
fun split_zone :: "string \<Rightarrow> (string \<times> string) option" where
  "split_zone [] = None"
| "split_zone (c # s) =
     (if HasPrefix (c # s) ''%25'' then Some ([], c # s)
      else map_option (\<lambda>(a, b). (c # a, b)) (split_zone s))"

text \<open>\<open>parseHost\<close>: brackets hold an IPv6 address; for http and https the port follows the first
  colon, for other schemes the last.\<close>

definition parseHost :: "string \<Rightarrow> string \<Rightarrow> string option" where
  "parseHost scheme host =
     (case CutLast host (CHR ''['') of
        Some (pre, _) \<Rightarrow>
          if pre \<noteq> [] then None
          else (case CutLast host (CHR '']'') of
                  None \<Rightarrow> None
                | Some (lit, colonPort) \<Rightarrow>
                   if \<not> validOptionalPort colonPort then None
                   else
                     (let name = tl lit;
                          un = (case split_zone name of
                                  None \<Rightarrow> unescape_host False name
                                | Some (a, z) \<Rightarrow>
                                   (case (unescape_host False a, unescape_host True z) of
                                      (Some a', Some z') \<Rightarrow> Some (a' @ z') | _ \<Rightarrow> None))
                      in case un of
                           None \<Rightarrow> None
                         | Some h \<Rightarrow>
                            (case ParseAddr h of
                               Some (V6 _ _) \<Rightarrow> Some (''['' @ h @ '']'' @ colonPort)
                             | _ \<Rightarrow> None)))
      | None \<Rightarrow>
          (let colonPort =
             (if scheme = ''http'' \<or> scheme = ''https'' then dropWhile (\<lambda>c. c \<noteq> CHR '':'') host
              else (case CutLast host (CHR '':'') of Some (_, p) \<Rightarrow> CHR '':'' # p | None \<Rightarrow> []))
           in if validOptionalPort colonPort then unescape_host False host else None))"

definition userinfo_byte :: "char \<Rightarrow> bool" where
  "userinfo_byte c \<longleftrightarrow> is_alpha c \<or> is_digit c \<or> c \<in> set ''-._:~!$&()*+,;=%@'' \<or> c = CHR 0x27"

definition parseAuthority :: "string \<Rightarrow> string \<Rightarrow> (bool \<times> string) option" where
  "parseAuthority scheme authority =
     (case CutLast authority (CHR ''@'') of
        None \<Rightarrow> map_option (\<lambda>h. (False, h)) (parseHost scheme authority)
      | Some (userinfo, host) \<Rightarrow>
         (case parseHost scheme host of
            None \<Rightarrow> None
          | Some h \<Rightarrow>
             if list_all userinfo_byte userinfo \<and> unescape_path userinfo \<noteq> None
             then Some (True, h) else None))"

definition ctl_byte :: "char \<Rightarrow> bool" where
  "ctl_byte c \<longleftrightarrow> (of_char c :: nat) < 32 \<or> (of_char c :: nat) = 127"

definition zero_url :: URL where
  "zero_url = \<lparr>u_Scheme = [], u_Opaque = [], u_User = False, u_Host = [], u_Path = [],
               u_RawQuery = [], u_Fragment = []\<rparr>"

definition url_parse :: "string \<Rightarrow> URL option" where
  "url_parse raw =
     (if list_ex ctl_byte raw then None
      else if raw = ''*'' then Some (zero_url\<lparr>u_Path := ''*''\<rparr>)
      else (case getScheme raw of
        None \<Rightarrow> None
      | Some (scheme0, rest0) \<Rightarrow>
         (let scheme = ToLower scheme0; (rest, query, _) = Cut rest0 (CHR ''?'');
              u = zero_url\<lparr>u_Scheme := scheme, u_RawQuery := query\<rparr> in
          if \<not> HasPrefix rest ''/'' \<and> scheme \<noteq> [] then Some (u\<lparr>u_Opaque := rest\<rparr>)
          else if \<not> HasPrefix rest ''/'' \<and> CHR '':'' \<in> set (fst (Cut rest (CHR ''/''))) then None
          else if (scheme \<noteq> [] \<or> \<not> HasPrefix rest ''///'') \<and> HasPrefix rest ''//'' then
            (let auth = takeWhile (\<lambda>c. c \<noteq> CHR ''/'') (drop 2 rest);
                 path = drop (length auth) (drop 2 rest) in
             case parseAuthority scheme auth of
               None \<Rightarrow> None
             | Some (user, host) \<Rightarrow>
                map_option (\<lambda>p. u\<lparr>u_User := user, u_Host := host, u_Path := p\<rparr>) (unescape_path path))
          else map_option (\<lambda>p. u\<lparr>u_Path := p\<rparr>) (unescape_path rest))))"

definition url_Parse :: "string \<Rightarrow> URL option" where
  "url_Parse raw =
     (let (u, frag, _) = Cut raw (CHR ''#'') in
      case url_parse u of
        None \<Rightarrow> None
      | Some url \<Rightarrow>
         if frag = [] then Some url
         else map_option (\<lambda>f. url\<lparr>u_Fragment := f\<rparr>) (unescape_path frag))"

definition IsAbs :: "URL \<Rightarrow> bool" where
  "IsAbs u \<longleftrightarrow> u_Scheme u \<noteq> []"

text \<open>\<open>splitHostPort\<close>: the port after the last colon when it is a valid one, and brackets off.\<close>

definition split_host_port :: "string \<Rightarrow> string \<times> string" where
  "split_host_port hp =
     (let (host, port) =
        (case CutLast hp (CHR '':'') of
           Some (h, p) \<Rightarrow> if validOptionalPort (CHR '':'' # p) then (h, p) else (hp, [])
         | None \<Rightarrow> (hp, []))
      in (if HasPrefix host ''['' \<and> HasSuffix host '']'' then butlast (tl host) else host, port))"

definition Hostname :: "URL \<Rightarrow> string" where
  "Hostname u = fst (split_host_port (u_Host u))"

definition Port :: "URL \<Rightarrow> string" where
  "Port u = snd (split_host_port (u_Host u))"

end
