(* ===== verification/Catalog.thy ===== *)
theory Catalog
  imports Task Go_Net
begin

text \<open>
  The catalog rules of \<open>internal/domain/catalog.go\<close>: what a listing declares, what discovery read
  from the live server, the descriptor revision that binds both, its digest, and the review of a
  revision.  The catalog event of \<open>internal/domain/event.go\<close> is here as well.
\<close>

section \<open>Data\<close>

datatype CatalogState =
    CatalogDiscovered | CatalogReviewPending | CatalogApproved | CatalogRejected | CatalogDisabled

fun CatalogState_string :: "CatalogState \<Rightarrow> string" where
  "CatalogState_string CatalogDiscovered = ''discovered''"
| "CatalogState_string CatalogReviewPending = ''review_pending''"
| "CatalogState_string CatalogApproved = ''approved''"
| "CatalogState_string CatalogRejected = ''rejected''"
| "CatalogState_string CatalogDisabled = ''disabled''"

definition dataClasses :: "string list" where
  "dataClasses = [''public'', ''internal'', ''confidential'', ''restricted'']"

text \<open>\<open>slices.Index\<close>: the first position of an element, -1 when absent.\<close>
fun slices_Index :: "'a list \<Rightarrow> 'a \<Rightarrow> int" where
  "slices_Index [] x = -1"
| "slices_Index (y # ys) x =
     (if y = x then 0 else let i = slices_Index ys x in if i < 0 then -1 else i + 1)"

definition DataClassRank :: "string \<Rightarrow> int" where
  "DataClassRank c = slices_Index dataClasses c"

record Money =
  m_Currency :: string
  m_Amount :: int

record ToolDeclaration =
  td_Method :: string
  td_InputSchemaDigest :: string
  td_OutputSchemaDigest :: string
  td_SideEffecting :: bool
  td_UnitPrice :: Money
  td_Idempotent :: bool
  td_QuerySupported :: bool

record Declaration =
  dc_CanonicalResource :: string
  dc_Transport :: string
  dc_ProtocolVersion :: string
  dc_Provenance :: string
  dc_ExpectedDigest :: string
  dc_Tools :: "ToolDeclaration list"
  dc_DataClass :: string
  dc_NetworkScope :: "string list"
  dc_Licenses :: "string list"

record LiveTool =
  lt_Name :: string
  lt_InputSchema :: bytes
  lt_OutputSchema :: bytes
  lt_Annotations :: bytes

record LiveNamed =
  ln_Name :: string
  ln_URI :: string

record LiveServer =
  lv_Name :: string
  lv_Version :: string
  lv_ProtocolVersion :: string
  lv_Tools :: "LiveTool list"
  lv_Resources :: "LiveNamed list"
  lv_Prompts :: "LiveNamed list"
  lv_Evidence :: string
  lv_ConnectionRef :: string
  lv_Issuer :: string

record Tool =
  tl_Method :: string
  tl_InputSchemaDigest :: string
  tl_OutputSchemaDigest :: string
  tl_AnnotationsDigest :: string
  tl_SideEffecting :: bool
  tl_UnitPrice :: Money
  tl_Idempotent :: bool
  tl_QuerySupported :: bool

record Descriptor =
  d_ServerID :: string
  d_TenantID :: string
  d_Revision :: u64
  d_CanonicalResource :: string
  d_Transport :: string
  d_ProtocolVersion :: string
  d_Provenance :: string
  d_Digest :: string
  d_Tools :: "Tool list"
  d_Resources :: "LiveNamed list"
  d_Prompts :: "LiveNamed list"
  d_ResourcesDigest :: string
  d_PromptsDigest :: string
  d_ServerName :: string
  d_ServerVersion :: string
  d_DataClass :: string
  d_NetworkScope :: "string list"
  d_Licenses :: "string list"
  d_InputSchemas :: "(string \<times> bytes) list"
  d_Issuer :: string
  d_RevisionEvidence :: string
  d_ConnectionRef :: string
  d_State :: CatalogState
  d_DiscoveredBy :: string
  d_Reviewer :: string
  d_ReviewID :: string
  d_CreatedAt :: time
  d_UpdatedAt :: time

definition Method :: "Descriptor \<Rightarrow> string \<Rightarrow> Tool option" where
  "Method d name = find (\<lambda>t. tl_Method t = name) (d_Tools d)"

section \<open>Digests\<close>

definition CanonicalDigest :: "bytes \<Rightarrow> err + string" where
  "CanonicalDigest raw =
     (if raw = [] then Inr (digestJSON JNull)
      else (case Option.bind (json_parse raw) json_any of
              None \<Rightarrow> Inl (err ErrInvalid)
            | Some v \<Rightarrow> Inr (digestJSON v)))"

record Annotations =
  an_Title :: "string option"
  an_ReadOnlyHint :: "bool option"
  an_DestructiveHint :: "bool option"
  an_IdempotentHint :: "bool option"
  an_OpenWorldHint :: "bool option"

definition annotation_fields :: "Annotations json_field list" where
  "annotation_fields =
     [(''title'', fld_opt rd_str (\<lambda>v. an_Title_update (\<lambda>_. v))),
      (''readOnlyHint'', fld_opt rd_bool (\<lambda>v. an_ReadOnlyHint_update (\<lambda>_. v))),
      (''destructiveHint'', fld_opt rd_bool (\<lambda>v. an_DestructiveHint_update (\<lambda>_. v))),
      (''idempotentHint'', fld_opt rd_bool (\<lambda>v. an_IdempotentHint_update (\<lambda>_. v))),
      (''openWorldHint'', fld_opt rd_bool (\<lambda>v. an_OpenWorldHint_update (\<lambda>_. v)))]"

definition no_annotations :: Annotations where
  "no_annotations = \<lparr>an_Title = None, an_ReadOnlyHint = None, an_DestructiveHint = None,
                     an_IdempotentHint = None, an_OpenWorldHint = None\<rparr>"

definition or_default :: "bool option \<Rightarrow> bool \<Rightarrow> bool" where
  "or_default b def = (case b of None \<Rightarrow> def | Some v \<Rightarrow> v)"

definition annotations_json :: "Annotations \<Rightarrow> json" where
  "annotations_json a = jmap
     [(''schema'', JStr ''mcp-annotations-v1''),
      (''title'', JStr (case an_Title a of None \<Rightarrow> [] | Some t \<Rightarrow> t)),
      (''readOnlyHint'', JBool (or_default (an_ReadOnlyHint a) False)),
      (''destructiveHint'', JBool (or_default (an_DestructiveHint a) True)),
      (''idempotentHint'', JBool (or_default (an_IdempotentHint a) False)),
      (''openWorldHint'', JBool (or_default (an_OpenWorldHint a) True))]"

definition AnnotationsDigest :: "bytes \<Rightarrow> err + string" where
  "AnnotationsDigest raw =
     (case (if raw = [] then Some no_annotations
            else Option.bind (json_parse raw) (decode_struct False annotation_fields no_annotations)) of
        None \<Rightarrow> Inl (err ErrInvalid)
      | Some a \<Rightarrow> Inr (digestJSON (annotations_json a)))"

definition money_json :: "Money \<Rightarrow> json" where
  "money_json m = JObj [(''currency'', JStr (m_Currency m)), (''amount'', JInt (m_Amount m))]"

definition tool_json :: "Tool \<Rightarrow> json" where
  "tool_json t = JObj
     [(''method'', JStr (tl_Method t)), (''inputSchemaDigest'', JStr (tl_InputSchemaDigest t)),
      (''outputSchemaDigest'', JStr (tl_OutputSchemaDigest t)),
      (''annotationsDigest'', JStr (tl_AnnotationsDigest t)),
      (''sideEffecting'', JBool (tl_SideEffecting t)), (''unitPrice'', money_json (tl_UnitPrice t)),
      (''idempotent'', JBool (tl_Idempotent t)), (''querySupported'', JBool (tl_QuerySupported t))]"

text \<open>A nil slice is encoded as \<open>null\<close>; \<open>BuildDescriptor\<close> leaves the tools nil when there are none.\<close>
definition tools_json :: "Tool list \<Rightarrow> json" where
  "tools_json ts = (if ts = [] then JNull else JArr (map tool_json ts))"

definition named_json :: "LiveNamed \<Rightarrow> json" where
  "named_json n = JObj ((''name'', JStr (ln_Name n)) #
     (if ln_URI n = [] then [] else [(''uri'', JStr (ln_URI n))]))"

definition DescriptorDigest :: "Descriptor \<Rightarrow> string" where
  "DescriptorDigest d = digestJSON (jmap
     [(''schema'', JStr ''mcp-descriptor-v1''), (''canonicalResource'', JStr (d_CanonicalResource d)),
      (''transport'', JStr (d_Transport d)), (''protocolVersion'', JStr (d_ProtocolVersion d)),
      (''serverName'', JStr (d_ServerName d)), (''serverVersion'', JStr (d_ServerVersion d)),
      (''tools'', tools_json (d_Tools d)), (''resourcesDigest'', JStr (d_ResourcesDigest d)),
      (''promptsDigest'', JStr (d_PromptsDigest d)), (''dataClass'', JStr (d_DataClass d)),
      (''networkScope'', JStrs (d_NetworkScope d)), (''licenses'', JStrs (d_Licenses d)),
      (''issuer'', JStr (d_Issuer d))])"

section \<open>Building a descriptor\<close>

definition CheckResource :: "string \<Rightarrow> bool \<Rightarrow> err + string" where
  "CheckResource raw allowHTTP =
     (case url_Parse raw of
        None \<Rightarrow> Inl (err ErrInvalid)
      | Some u \<Rightarrow>
         if \<not> IsAbs u \<or> u_Host u = [] \<or> u_Opaque u \<noteq> [] then Inl (err ErrInvalid)
         else if u_User u \<or> u_Fragment u \<noteq> [] \<or> u_RawQuery u \<noteq> [] then Inl (err ErrInvalid)
         else if u_Scheme u = ''https'' then Inr (ToLower (Hostname u))
         else if u_Scheme u = ''http'' then
           (if \<not> allowHTTP then Inl (err DomainErrForbidden) else Inr (ToLower (Hostname u)))
         else Inl (err ErrInvalid))"

definition normalizeSet :: "string list \<Rightarrow> string list" where
  "normalizeSet xs =
     Compact (sort_strings (filter (\<lambda>x. x \<noteq> []) (map (\<lambda>x. ToLower (TrimSpace x)) xs)))"

text \<open>Equal keys keep their order here; \<open>slices.SortFunc\<close> leaves it open, which matters only for two
  different entries whose name and URI join to the same text around the zero byte.\<close>
definition sortNamed :: "LiveNamed list \<Rightarrow> LiveNamed list" where
  "sortNamed xs = sort_key (\<lambda>n. ln_Name n @ [CHR 0x00] @ ln_URI n) xs"

text \<open>The declared methods by name: no method is empty or declared twice, every price is sane.\<close>

fun check_declared :: "ToolDeclaration list \<Rightarrow> ToolDeclaration list \<Rightarrow> err + ToolDeclaration list" where
  "check_declared [] declared = Inr declared"
| "check_declared (t # ts) declared =
     (if td_Method t \<in> td_Method ` set declared \<or> td_Method t = [] then Inl (err ErrInvalid)
      else if m_Amount (td_UnitPrice t) < 0 \<or> length (m_Currency (td_UnitPrice t)) \<noteq> 3
      then Inl (err ErrInvalid)
      else check_declared ts (declared @ [t]))"

text \<open>The loop over the live methods: each consumes its declaration.\<close>

fun bind_live ::
  "LiveTool list \<Rightarrow> ToolDeclaration list \<Rightarrow> Tool list \<Rightarrow> (string \<times> bytes) list
     \<Rightarrow> err + (ToolDeclaration list \<times> Tool list \<times> (string \<times> bytes) list)" where
  "bind_live [] declared tools schemas = Inr (declared, tools, schemas)"
| "bind_live (lt # lts) declared tools schemas =
     (case find (\<lambda>t. td_Method t = lt_Name lt) declared of
        None \<Rightarrow> Inl (err ErrDescriptorMismatch)
      | Some decl \<Rightarrow>
         (case CanonicalDigest (lt_InputSchema lt) of Inl e \<Rightarrow> Inl e | Inr i \<Rightarrow>
         (case CanonicalDigest (lt_OutputSchema lt) of Inl e \<Rightarrow> Inl e | Inr out \<Rightarrow>
         (case AnnotationsDigest (lt_Annotations lt) of Inl e \<Rightarrow> Inl e | Inr ann \<Rightarrow>
           if (td_InputSchemaDigest decl \<noteq> [] \<and> td_InputSchemaDigest decl \<noteq> i)
              \<or> (td_OutputSchemaDigest decl \<noteq> [] \<and> td_OutputSchemaDigest decl \<noteq> out)
           then Inl (err ErrDescriptorMismatch)
           else bind_live lts (filter (\<lambda>t. td_Method t \<noteq> lt_Name lt) declared)
             (tools @ [\<lparr>tl_Method = lt_Name lt, tl_InputSchemaDigest = i, tl_OutputSchemaDigest = out,
                        tl_AnnotationsDigest = ann, tl_SideEffecting = td_SideEffecting decl,
                        tl_UnitPrice = td_UnitPrice decl, tl_Idempotent = td_Idempotent decl,
                        tl_QuerySupported = td_QuerySupported decl\<rparr>])
             (if lt_InputSchema lt = [] then schemas else schemas @ [(lt_Name lt, lt_InputSchema lt)])))))"

definition network_scope :: "string list \<Rightarrow> string \<Rightarrow> string list" where
  "network_scope declared host =
     (let scope = normalizeSet declared in
      if host \<in> set scope then scope else normalizeSet (scope @ [host]))"

text \<open>The descriptor literal of \<open>BuildDescriptor\<close>, before its digest is set.\<close>

definition bound_descriptor ::
  "Declaration \<Rightarrow> LiveServer \<Rightarrow> string \<Rightarrow> Tool list \<Rightarrow> (string \<times> bytes) list \<Rightarrow> Descriptor" where
  "bound_descriptor d live host tools schemas =
     (let resources = sortNamed (lv_Resources live); prompts = sortNamed (lv_Prompts live) in
      \<lparr>d_ServerID = [], d_TenantID = [], d_Revision = 0,
       d_CanonicalResource = dc_CanonicalResource d, d_Transport = dc_Transport d,
       d_ProtocolVersion = dc_ProtocolVersion d, d_Provenance = dc_Provenance d,
       d_Digest = [], d_Tools = sort_key tl_Method tools, d_Resources = resources,
       d_Prompts = prompts,
       d_ResourcesDigest = digestJSON (JArr (map named_json resources)),
       d_PromptsDigest = digestJSON (JArr (map named_json prompts)),
       d_ServerName = lv_Name live, d_ServerVersion = lv_Version live,
       d_DataClass = dc_DataClass d,
       d_NetworkScope = network_scope (dc_NetworkScope d) host,
       d_Licenses = normalizeSet (dc_Licenses d), d_InputSchemas = schemas,
       d_Issuer = lv_Issuer live, d_RevisionEvidence = lv_Evidence live,
       d_ConnectionRef = lv_ConnectionRef live, d_State = CatalogReviewPending,
       d_DiscoveredBy = [], d_Reviewer = [], d_ReviewID = [],
       d_CreatedAt = zero_time, d_UpdatedAt = zero_time\<rparr>)"

definition BuildDescriptor :: "Declaration \<Rightarrow> LiveServer \<Rightarrow> err + Descriptor" where
  "BuildDescriptor d live =
     (if dc_Transport d \<noteq> ''streamable-http'' then Inl (err DomainErrForbidden)
      else if DataClassRank (dc_DataClass d) < 0 then Inl (err ErrInvalid)
      else (case CheckResource (dc_CanonicalResource d) True of
        Inl e \<Rightarrow> Inl e
      | Inr host \<Rightarrow>
         if lv_ProtocolVersion live \<noteq> dc_ProtocolVersion d then Inl (err ErrDescriptorMismatch)
         else (case check_declared (dc_Tools d) [] of
           Inl e \<Rightarrow> Inl e
         | Inr declared \<Rightarrow>
            (case bind_live (lv_Tools live) declared [] [] of
               Inl e \<Rightarrow> Inl e
             | Inr (missing, tools, schemas) \<Rightarrow>
                if missing \<noteq> [] then Inl (err ErrDescriptorMismatch)
                else
                  (let desc = bound_descriptor d live host tools schemas;
                       digest = DescriptorDigest desc
                   in if dc_ExpectedDigest d \<noteq> [] \<and> dc_ExpectedDigest d \<noteq> digest
                      then Inl (err ErrDescriptorMismatch)
                      else Inr (desc\<lparr>d_Digest := digest\<rparr>))))))"

section \<open>Review\<close>

datatype ReviewDecision = ReviewApprove | ReviewReject | ReviewOther string

definition CheckReview :: "Descriptor \<Rightarrow> string \<Rightarrow> string \<Rightarrow> ReviewDecision \<Rightarrow> err + CatalogState" where
  "CheckReview d reviewer digest decision =
     (if d_Digest d \<noteq> digest then Inl (err ErrDescriptorMismatch)
      else if reviewer = d_DiscoveredBy d then Inl (err DomainErrForbidden)
      else if d_State d \<noteq> CatalogReviewPending then Inl (err ErrInvalidTransition)
      else (case decision of
              ReviewApprove \<Rightarrow> Inr CatalogApproved
            | ReviewReject \<Rightarrow> Inr CatalogRejected
            | ReviewOther _ \<Rightarrow> Inl (err ErrInvalid)))"

abbreviation SubjectCatalogReviewed :: string where
  "SubjectCatalogReviewed \<equiv> ''anvilkit.mcp.mcp.catalog-reviewed''"
abbreviation AggregateDescriptor :: string where "AggregateDescriptor \<equiv> ''descriptor''"

definition CatalogReviewedEvent :: "string \<Rightarrow> Descriptor \<Rightarrow> u64 \<Rightarrow> string \<Rightarrow> time \<Rightarrow> Envelope" where
  "CatalogReviewedEvent eventID d eventRevision correlationID now =
     aggregateEnvelope eventID (d_TenantID d) ''mcp.catalog-reviewed'' SubjectCatalogReviewed
       AggregateDescriptor (d_ServerID d) eventRevision correlationID now
       (JObj [(''kind'', JStr ''mcp.catalog-reviewed''), (''serverId'', JStr (d_ServerID d)),
              (''revision'', JStr (fmt_u64 (d_Revision d))),
              (''state'', JStr (CatalogState_string (d_State d)))])"

section \<open>Facts\<close>

lemma DataClassRank_range: "-1 \<le> DataClassRank c \<and> DataClassRank c \<le> 3"
  by (simp add: DataClassRank_def dataClasses_def Let_def)

lemma DataClassRank_known: "0 \<le> DataClassRank c \<longleftrightarrow> c \<in> set dataClasses"
  by (simp add: DataClassRank_def dataClasses_def Let_def)

lemma set_normalizeSet: "set (normalizeSet xs) = (\<lambda>x. ToLower (TrimSpace x)) ` set xs - {[]}"
  by (auto simp: normalizeSet_def)

lemma distinct_normalizeSet: "distinct (normalizeSet xs)"
  by (simp add: normalizeSet_def distinct_Compact_sort)

lemma sorted_normalizeSet: "sorted (normalizeSet xs)"
  by (simp add: normalizeSet_def sorted_Compact_sort)

lemma normalizeSet_eq_iff:
  "normalizeSet xs = normalizeSet ys \<longleftrightarrow> set (normalizeSet xs) = set (normalizeSet ys)"
  by (metis sorted_distinct_set_unique [OF sorted_normalizeSet distinct_normalizeSet
        sorted_normalizeSet distinct_normalizeSet])

lemma lower_char_idem [simp]: "lower_char (lower_char c) = lower_char c"
proof (cases "CHR ''A'' \<le> c \<and> c \<le> CHR ''Z''")
  case True
  then have "65 \<le> (of_char c :: nat) \<and> (of_char c :: nat) \<le> 90"
    by (simp add: less_eq_char_def)
  then have "(of_char (lower_char c) :: nat) = of_char c + 32"
    using True by (simp add: lower_char_def)
  then show ?thesis
    using \<open>65 \<le> of_char c \<and> of_char c \<le> 90\<close> by (simp add: lower_char_def less_eq_char_def)
next
  case False
  then have "lower_char c = c" unfolding lower_char_def by (rule if_not_P)
  then show ?thesis by simp
qed

lemma ToLower_idem [simp]: "ToLower (ToLower s) = ToLower s"
  by (simp add: ToLower_def)

text \<open>What \<open>check_declared\<close> and \<open>bind_live\<close> leave and build.\<close>

lemma check_declared_Inr:
  assumes "check_declared ts acc = Inr out" "distinct (map td_Method acc)"
  shows "out = acc @ ts" "distinct (map td_Method (acc @ ts))"
    "\<forall>t \<in> set ts. td_Method t \<noteq> [] \<and> 0 \<le> m_Amount (td_UnitPrice t) \<and> length (m_Currency (td_UnitPrice t)) = 3"
  using assms
proof (induction ts arbitrary: acc)
  case (Cons t ts)
  case 1
  then show ?case using Cons(1) [of "acc @ [t]"] by (auto split: if_splits)
next
  case (Cons t ts)
  case 2
  then show ?case using Cons(2) [of "acc @ [t]"] by (auto split: if_splits)
next
  case (Cons t ts)
  case 3
  then show ?case using Cons(3) [of "acc @ [t]"] by (auto split: if_splits)
qed simp_all

text \<open>How a bound tool relates to its declaration and to the live method.\<close>

definition tool_bound :: "ToolDeclaration list \<Rightarrow> LiveTool list \<Rightarrow> Tool \<Rightarrow> bool" where
  "tool_bound decls lives tool \<longleftrightarrow>
     (\<exists>decl \<in> set decls. \<exists>lt \<in> set lives. tl_Method tool = td_Method decl \<and> tl_Method tool = lt_Name lt
       \<and> CanonicalDigest (lt_InputSchema lt) = Inr (tl_InputSchemaDigest tool)
       \<and> CanonicalDigest (lt_OutputSchema lt) = Inr (tl_OutputSchemaDigest tool)
       \<and> AnnotationsDigest (lt_Annotations lt) = Inr (tl_AnnotationsDigest tool)
       \<and> td_InputSchemaDigest decl \<in> {[], tl_InputSchemaDigest tool}
       \<and> td_OutputSchemaDigest decl \<in> {[], tl_OutputSchemaDigest tool}
       \<and> tl_SideEffecting tool = td_SideEffecting decl \<and> tl_UnitPrice tool = td_UnitPrice decl
       \<and> tl_Idempotent tool = td_Idempotent decl \<and> tl_QuerySupported tool = td_QuerySupported decl)"

lemma tool_bound_mono:
  "tool_bound ds ls t \<Longrightarrow> set ds \<subseteq> set ds' \<Longrightarrow> set ls \<subseteq> set ls' \<Longrightarrow> tool_bound ds' ls' t"
  unfolding tool_bound_def by blast

lemma bind_live_Inr:
  assumes "bind_live lts declared tools schemas = Inr (missing, tools', schemas')"
    "distinct (map td_Method declared)"
  shows "\<exists>new. tools' = tools @ new \<and> map tl_Method new = map lt_Name lts \<and> distinct (map tl_Method new)
     \<and> set (map tl_Method new) \<subseteq> set (map td_Method declared)
     \<and> missing = filter (\<lambda>t. td_Method t \<notin> set (map tl_Method new)) declared
     \<and> (\<forall>t \<in> set new. tool_bound declared lts t)"
  using assms
proof (induction lts arbitrary: declared tools schemas)
  case Nil
  then show ?case by simp
next
  case (Cons lt lts)
  obtain decl where f: "find (\<lambda>t. td_Method t = lt_Name lt) declared = Some decl"
    using Cons.prems(1) by (auto split: option.splits)
  then have decl: "decl \<in> set declared" "td_Method decl = lt_Name lt"
    by (auto simp: find_Some_iff)
  obtain i out ann where dg: "CanonicalDigest (lt_InputSchema lt) = Inr i"
    "CanonicalDigest (lt_OutputSchema lt) = Inr out" "AnnotationsDigest (lt_Annotations lt) = Inr ann"
    using Cons.prems(1) f by (auto split: sum.splits)
  have ok: "td_InputSchemaDigest decl \<in> {[], i}" "td_OutputSchemaDigest decl \<in> {[], out}"
    using Cons.prems(1) f dg by (auto split: if_splits)
  let ?rest = "filter (\<lambda>t. td_Method t \<noteq> lt_Name lt) declared"
  let ?t = "\<lparr>tl_Method = lt_Name lt, tl_InputSchemaDigest = i, tl_OutputSchemaDigest = out,
             tl_AnnotationsDigest = ann, tl_SideEffecting = td_SideEffecting decl,
             tl_UnitPrice = td_UnitPrice decl, tl_Idempotent = td_Idempotent decl,
             tl_QuerySupported = td_QuerySupported decl\<rparr>"
  obtain schemas1 where rec: "bind_live lts ?rest (tools @ [?t]) schemas1 = Inr (missing, tools', schemas')"
    using Cons.prems(1) f dg by (auto split: if_splits)
  have "distinct (map td_Method ?rest)"
    using Cons.prems(2) by (simp add: distinct_map inj_on_def)
  from Cons.IH [OF rec this] obtain new where new: "tools' = (tools @ [?t]) @ new"
    "map tl_Method new = map lt_Name lts" "distinct (map tl_Method new)"
    "set (map tl_Method new) \<subseteq> set (map td_Method ?rest)"
    "missing = filter (\<lambda>t. td_Method t \<notin> set (map tl_Method new)) ?rest"
    "\<forall>t \<in> set new. tool_bound ?rest lts t" by blast
  have b: "tool_bound declared (lt # lts) ?t"
    using decl dg ok unfolding tool_bound_def by force
  have rest: "\<forall>t \<in> set new. tool_bound declared (lt # lts) t"
    using new(6) tool_bound_mono [of ?rest lts _ declared "lt # lts"] by auto
  have notin: "lt_Name lt \<notin> set (map tl_Method new)" using new(4) by auto
  have miss: "missing = filter (\<lambda>t. td_Method t \<notin> set (map tl_Method (?t # new))) declared"
    using new(5) by (auto simp: intro: filter_cong)
  have sub: "set (map tl_Method (?t # new)) \<subseteq> set (map td_Method declared)"
    using new(4) decl(1) decl(2) [symmetric] by auto
  show ?case
    using new(1,2,3) b rest notin miss sub by (intro exI [of _ "?t # new"]) auto
qed

lemma DescriptorDigest_ignores_Digest [simp]: "DescriptorDigest (d\<lparr>d_Digest := x\<rparr>) = DescriptorDigest d"
  by (simp add: DescriptorDigest_def)

lemma digestPattern_digestJSON [simp]: "digestPattern (digestJSON v)"
  by (simp only: digestJSON_def digestPattern_sha256)

lemma digestPattern_DescriptorDigest [simp]: "digestPattern (DescriptorDigest d)"
  by (simp add: DescriptorDigest_def)

lemma map_insort_key_same: "map f (insort_key f x ys) = insort (f x) (map f ys)"
  by (induction ys) simp_all

lemma map_sort_key_same: "map f (sort_key f xs) = sort (map f xs)"
  by (induction xs) (simp_all add: map_insort_key_same)

lemma bound_descriptor_sel [simp]:
  "d_NetworkScope (bound_descriptor d live host tools schemas) = network_scope (dc_NetworkScope d) host"
  "d_Tools (bound_descriptor d live host tools schemas) = sort_key tl_Method tools"
  "d_ProtocolVersion (bound_descriptor d live host tools schemas) = dc_ProtocolVersion d"
  "d_State (bound_descriptor d live host tools schemas) = CatalogReviewPending"
  "d_InputSchemas (bound_descriptor d live host tools schemas) = schemas"
  "d_CanonicalResource (bound_descriptor d live host tools schemas) = dc_CanonicalResource d"
  "d_DataClass (bound_descriptor d live host tools schemas) = dc_DataClass d"
  "d_Transport (bound_descriptor d live host tools schemas) = dc_Transport d"
  by (simp_all add: bound_descriptor_def Let_def)

lemma BuildDescriptor_InrD:
  assumes "BuildDescriptor d live = Inr desc"
  obtains host schemas tools where
    "CheckResource (dc_CanonicalResource d) True = Inr host"
    "d_NetworkScope desc = network_scope (dc_NetworkScope d) host"
    "check_declared (dc_Tools d) [] = Inr (dc_Tools d)" "distinct (map td_Method (dc_Tools d))"
    "bind_live (lv_Tools live) (dc_Tools d) [] [] = Inr ([], tools, schemas)"
    "d_Tools desc = sort_key tl_Method tools" "lv_ProtocolVersion live = dc_ProtocolVersion d"
    "d_ProtocolVersion desc = dc_ProtocolVersion d" "d_State desc = CatalogReviewPending"
    "d_Digest desc = DescriptorDigest desc" "dc_ExpectedDigest d \<in> {[], d_Digest desc}"
    "d_InputSchemas desc = schemas" "d_CanonicalResource desc = dc_CanonicalResource d"
    "0 \<le> DataClassRank (dc_DataClass d)" "d_DataClass desc = dc_DataClass d"
    "d_Transport desc = ''streamable-http''"
proof -
  obtain host declared where h: "CheckResource (dc_CanonicalResource d) True = Inr host"
    and c: "check_declared (dc_Tools d) [] = Inr declared"
    using assms by (auto simp: BuildDescriptor_def split: if_splits sum.splits)
  have declared: "declared = dc_Tools d" "distinct (map td_Method (dc_Tools d))"
    using check_declared_Inr [OF c] by simp_all
  obtain tools schemas where b: "bind_live (lv_Tools live) (dc_Tools d) [] [] = Inr ([], tools, schemas)"
    using assms h c declared
    by (auto simp: BuildDescriptor_def Let_def split: if_splits sum.splits prod.splits)
  let ?desc = "bound_descriptor d live host tools schemas"
  have "desc = ?desc\<lparr>d_Digest := DescriptorDigest ?desc\<rparr>"
    "dc_ExpectedDigest d \<in> {[], DescriptorDigest ?desc}" "lv_ProtocolVersion live = dc_ProtocolVersion d"
    "0 \<le> DataClassRank (dc_DataClass d)" "dc_Transport d = ''streamable-http''"
    using assms h c declared b by (auto simp: BuildDescriptor_def Let_def split: if_splits)
  then show ?thesis
    using h c declared b by (intro that) auto
qed

text \<open>Trimming and lower-casing commute with themselves, so normalisation is idempotent.\<close>

lemma is_space_lower [simp]: "is_space (lower_char c) = is_space c"
proof (cases "CHR ''A'' \<le> c \<and> c \<le> CHR ''Z''")
  case True
  then have n: "65 \<le> (of_char c :: nat) \<and> (of_char c :: nat) \<le> 90" by (simp add: less_eq_char_def)
  then have l: "(of_char (lower_char c) :: nat) = of_char c + 32" using True by (simp add: lower_char_def)
  have sp: "is_space x \<Longrightarrow> (of_char x :: nat) \<le> 32" for x by (auto simp: is_space_def)
  show ?thesis using n l sp [of c] sp [of "lower_char c"] by fastforce
next
  case False
  then have "lower_char c = c" unfolding lower_char_def by (rule if_not_P)
  then show ?thesis by simp
qed

lemma TrimSpace_ToLower: "TrimSpace (ToLower s) = ToLower (TrimSpace s)"
  by (simp add: TrimSpace_def TrimFunc_def TrimLeft_def TrimRight_def ToLower_def dropWhile_map
      o_def rev_map)

lemma TrimFunc_idem: "TrimFunc p (TrimFunc p s) = TrimFunc p s"
proof -
  let ?t = "dropWhile p s"
  let ?u = "rev (dropWhile p (rev ?t))"
  have idem: "dropWhile p (dropWhile p x) = dropWhile p x" for x :: string
    using hd_dropWhile [of p x] by (auto simp: dropWhile_eq_self_iff)
  have "dropWhile p ?u = ?u"
  proof (cases "?u = []")
    case False
    obtain v where v: "?t = ?u @ v"
      by (metis rev_append rev_rev_ident takeWhile_dropWhile_id)
    then have "hd ?u = hd ?t" "?t \<noteq> []" using False by (metis hd_append2, metis Nil_is_append_conv)
    then have "\<not> p (hd ?u)" using hd_dropWhile [of p s] by simp
    then show ?thesis by (simp add: dropWhile_eq_self_iff)
  next
    case True
    then show ?thesis by (metis dropWhile.simps(1))
  qed
  then show ?thesis by (simp add: TrimFunc_def TrimLeft_def TrimRight_def idem)
qed

lemma TrimSpace_idem [simp]: "TrimSpace (TrimSpace s) = TrimSpace s"
  by (simp add: TrimSpace_def TrimFunc_idem)

lemma normalizeSet_fix: "x \<in> set (normalizeSet xs) \<Longrightarrow> ToLower (TrimSpace x) = x"
  by (auto simp: set_normalizeSet TrimSpace_ToLower)

lemma normalizeSet_idem: "normalizeSet (normalizeSet xs) = normalizeSet xs"
proof -
  have "(\<lambda>x. ToLower (TrimSpace x)) ` set (normalizeSet xs) = set (normalizeSet xs)"
    using normalizeSet_fix by (metis (no_types, lifting) image_cong image_ident)
  moreover have "[] \<notin> set (normalizeSet xs)" by (simp add: set_normalizeSet)
  ultimately have "set (normalizeSet (normalizeSet xs)) = set (normalizeSet xs)"
    by (metis set_normalizeSet Diff_insert_absorb insert_Diff_single Diff_empty Diff_idemp)
  then show ?thesis by (simp only: normalizeSet_eq_iff)
qed

lemma network_scope_host:
  assumes "host \<noteq> []" "TrimSpace host = host" "ToLower host = host"
  shows "host \<in> set (network_scope declared host)"
  using assms by (auto simp: network_scope_def Let_def set_normalizeSet)

lemma CheckResource_InrD:
  assumes "CheckResource raw allow = Inr host"
  obtains u where "url_Parse raw = Some u" "host = ToLower (Hostname u)" "u_Host u \<noteq> []"
    "\<not> u_User u" "u_RawQuery u = []" "u_Fragment u = []" "u_Opaque u = []"
    "u_Scheme u = ''https'' \<or> (u_Scheme u = ''http'' \<and> allow)"
  using assms that by (auto simp: CheckResource_def split: option.splits if_splits)

section \<open>A concrete listing\<close>

definition sample_tool_decl :: "string \<Rightarrow> ToolDeclaration" where
  "sample_tool_decl m = \<lparr>td_Method = m, td_InputSchemaDigest = [], td_OutputSchemaDigest = [],
     td_SideEffecting = True, td_UnitPrice = \<lparr>m_Currency = ''EUR'', m_Amount = 5\<rparr>,
     td_Idempotent = False, td_QuerySupported = False\<rparr>"

definition sample_decl :: Declaration where
  "sample_decl = \<lparr>dc_CanonicalResource = ''https://Mcp.example/x'', dc_Transport = ''streamable-http'',
     dc_ProtocolVersion = ''2025-06-18'', dc_Provenance = ''registry'', dc_ExpectedDigest = [],
     dc_Tools = [sample_tool_decl ''read'', sample_tool_decl ''echo''], dc_DataClass = ''internal'',
     dc_NetworkScope = [], dc_Licenses = []\<rparr>"

definition sample_live :: LiveServer where
  "sample_live = \<lparr>lv_Name = ''demo'', lv_Version = ''1'', lv_ProtocolVersion = ''2025-06-18'',
     lv_Tools = map (\<lambda>n. \<lparr>lt_Name = n, lt_InputSchema = [], lt_OutputSchema = [], lt_Annotations = []\<rparr>)
                  [''read'', ''echo''],
     lv_Resources = [], lv_Prompts = [], lv_Evidence = ''e'', lv_ConnectionRef = ''c'', lv_Issuer = []\<rparr>"

lemma sample_resource: "CheckResource ''https://Mcp.example/x'' True = Inr ''mcp.example''"
  by code_simp

lemma sample_class: "DataClassRank ''internal'' = 1"
  by code_simp

lemma sample_build: "\<exists>desc. BuildDescriptor sample_decl sample_live = Inr desc"
  by (simp add: BuildDescriptor_def sample_decl_def sample_live_def sample_resource sample_class
      sample_tool_decl_def CanonicalDigest_def AnnotationsDigest_def Let_def)

section \<open>Properties\<close>

text \<open>
  A descriptor revision binds the listing to the live server exactly: it is built only when
  the live methods are the declared ones, each once and under its own schema, output and
  annotation digests and the declared price and effects; the protocol versions agree; the methods
  come sorted; the scope holds the resource's own host; and the digest that a reviewer approves is
  the digest of that revision and the one the listing expected.
\<close>
theorem descriptor_binds_live_server:
  assumes "BuildDescriptor d live = Inr desc"
  shows "map tl_Method (d_Tools desc) = sort (map lt_Name (lv_Tools live))
    \<and> set (map tl_Method (d_Tools desc)) = set (map td_Method (dc_Tools d))
    \<and> distinct (map tl_Method (d_Tools desc))
    \<and> (\<forall>t \<in> set (d_Tools desc). tool_bound (dc_Tools d) (lv_Tools live) t)
    \<and> d_ProtocolVersion desc = lv_ProtocolVersion live
    \<and> d_State desc = CatalogReviewPending
    \<and> d_Digest desc = DescriptorDigest desc \<and> dc_ExpectedDigest d \<in> {[], d_Digest desc}
    \<and> (\<forall>host. CheckResource (d_CanonicalResource desc) True = Inr host \<and> host \<noteq> []
          \<and> TrimSpace host = host \<longrightarrow> host \<in> set (d_NetworkScope desc))"
proof -
  obtain host schemas tools where B: "CheckResource (dc_CanonicalResource d) True = Inr host"
    "d_NetworkScope desc = network_scope (dc_NetworkScope d) host" "distinct (map td_Method (dc_Tools d))"
    "bind_live (lv_Tools live) (dc_Tools d) [] [] = Inr ([], tools, schemas)"
    "d_Tools desc = sort_key tl_Method tools"
    and rest: "d_ProtocolVersion desc = lv_ProtocolVersion live" "d_State desc = CatalogReviewPending"
    "d_Digest desc = DescriptorDigest desc" "dc_ExpectedDigest d \<in> {[], d_Digest desc}"
    "d_CanonicalResource desc = dc_CanonicalResource d"
    using assms by (elim BuildDescriptor_InrD) auto
  have low: "ToLower host = host" using B(1) by (elim CheckResource_InrD) simp
  from bind_live_Inr [OF B(4,3)] have new: "map tl_Method tools = map lt_Name (lv_Tools live)"
    "distinct (map tl_Method tools)" "set (map tl_Method tools) \<subseteq> set (map td_Method (dc_Tools d))"
    "[] = filter (\<lambda>t. td_Method t \<notin> set (map tl_Method tools)) (dc_Tools d)"
    "\<forall>t \<in> set tools. tool_bound (dc_Tools d) (lv_Tools live) t"
    unfolding append_Nil by metis+
  have sup: "set (map td_Method (dc_Tools d)) \<subseteq> set (map tl_Method tools)"
    using new(4) by (auto simp: filter_empty_conv dest: sym)
  have sorted: "map tl_Method (d_Tools desc) = sort (map lt_Name (lv_Tools live))"
    by (simp add: B(5) map_sort_key_same new(1))
  have set: "set (map tl_Method (d_Tools desc)) = set (map tl_Method tools)" by (simp add: B(5))
  have dist: "distinct (map tl_Method (d_Tools desc))"
    unfolding sorted using new(1,2) by simp
  have eq: "set (map tl_Method (d_Tools desc)) = set (map td_Method (dc_Tools d))"
    unfolding set using new(3) sup by (rule subset_antisym)
  have bound: "\<forall>t \<in> set (d_Tools desc). tool_bound (dc_Tools d) (lv_Tools live) t"
    using new(5) by (simp add: B(5))
  have scope: "\<forall>h. CheckResource (d_CanonicalResource desc) True = Inr h \<and> h \<noteq> []
      \<and> TrimSpace h = h \<longrightarrow> h \<in> set (d_NetworkScope desc)"
    using rest(5) B(1,2) low network_scope_host [of host] by auto
  show ?thesis using sorted eq dist bound rest(1-4) scope by blast
qed

theorem descriptor_binds_live_server_witness:
  "\<exists>desc. BuildDescriptor sample_decl sample_live = Inr desc
     \<and> map tl_Method (d_Tools desc) = [''echo'', ''read'']"
proof -
  obtain desc where b: "BuildDescriptor sample_decl sample_live = Inr desc" using sample_build by blast
  have "sort [''read'', ''echo''] = [''echo'', ''read'']" by code_simp
  then show ?thesis using b descriptor_binds_live_server [OF b] by (auto simp: sample_live_def)
qed

text \<open>
  Normalised host and licence sets are canonical: sorted, without repetition or empty entries,
  a fixed point of normalisation, and equal exactly when the underlying trimmed, lower-case sets
  are, so the descriptor digest does not depend on order, case, padding or repetition.
\<close>
theorem normalizeSet_canonical:
  "sorted (normalizeSet xs) \<and> distinct (normalizeSet xs) \<and> [] \<notin> set (normalizeSet xs)
   \<and> normalizeSet (normalizeSet xs) = normalizeSet xs
   \<and> (normalizeSet xs = normalizeSet ys \<longleftrightarrow>
        (\<lambda>x. ToLower (TrimSpace x)) ` set xs - {[]} = (\<lambda>x. ToLower (TrimSpace x)) ` set ys - {[]})"
  by (simp add: sorted_normalizeSet distinct_normalizeSet normalizeSet_idem)
    (simp add: normalizeSet_eq_iff set_normalizeSet)

end
