(* ===== verification/Grant.thy ===== *)
theory Grant
  imports Catalog
begin

text \<open>
  The grant rules of \<open>internal/domain/grant.go\<close>: a grant revision, its creation from an approved
  descriptor revision, the digests over its security dimensions, and when it is executable.
\<close>

section \<open>Data\<close>

datatype GrantState =
    GrantPending | GrantActive | GrantRevoking | GrantRevoked | GrantExpired
  | GrantRegistrationFailed

fun GrantState_string :: "GrantState \<Rightarrow> string" where
  "GrantState_string GrantPending = ''pending''"
| "GrantState_string GrantActive = ''active''"
| "GrantState_string GrantRevoking = ''revoking''"
| "GrantState_string GrantRevoked = ''revoked''"
| "GrantState_string GrantExpired = ''expired''"
| "GrantState_string GrantRegistrationFailed = ''registration_failed''"

record Grant =
  g_GrantID :: string
  g_Revision :: u64
  g_TenantID :: string
  g_SubjectType :: string
  g_SubjectID :: string
  g_ServerID :: string
  g_DescriptorRevision :: u64
  g_DescriptorDigest :: string
  g_CanonicalResource :: string
  g_Transport :: string
  g_ProtocolVersion :: string
  g_Issuer :: string
  g_Audience :: string
  g_Methods :: "string list"
  g_ResourceSelectors :: "string list"
  g_PromptSelectors :: "string list"
  g_Purpose :: string
  g_DataClass :: string
  g_CostCap :: Money
  g_ExpiresAt :: "time option"
  g_PolicyDigest :: string
  g_PolicyEpoch :: u64
  g_State :: GrantState
  g_ControlReceiptID :: string
  g_FailureCode :: string
  g_RegistrationCmdID :: string
  g_RevocationCmdID :: string
  g_FencedAt :: "time option"
  g_InFlightCalls :: u64
  g_UnknownCalls :: u64
  g_ControlState :: string
  g_RevokedAt :: "time option"
  g_CommandID :: string
  g_RequestDigest :: string
  g_CreatedAt :: time
  g_UpdatedAt :: time

record GrantRequest =
  gr_SubjectType :: string
  gr_SubjectID :: string
  gr_ServerID :: string
  gr_DescriptorRev :: u64
  gr_DescriptorDigest :: string
  gr_Methods :: "string list"
  gr_ResourceSelectors :: "string list"
  gr_PromptSelectors :: "string list"
  gr_Purpose :: string
  gr_DataClass :: string
  gr_CostCap :: Money
  gr_ExpiresAt :: "time option"

section \<open>Operations\<close>

definition normalizeExact :: "string list \<Rightarrow> string list" where
  "normalizeExact xs = Compact (sort_strings xs)"

text \<open>The subject check of \<open>NewGrant\<close>.\<close>
definition check_subject :: "string \<Rightarrow> string \<Rightarrow> GrantRequest \<Rightarrow> err option" where
  "check_subject tenantID projectID req =
     (if gr_SubjectType req = ''tenant'' then
        (if gr_SubjectID req \<noteq> tenantID then Some (err DomainErrForbidden) else None)
      else if gr_SubjectType req = ''project'' then
        (if projectID = [] \<or> gr_SubjectID req \<noteq> projectID then Some (err DomainErrForbidden) else None)
      else if gr_SubjectType req = ''actor'' \<or> gr_SubjectType req = ''role'' then None
      else Some (err ErrInvalid))"

text \<open>The grant literal of \<open>NewGrant\<close>; the expiry is truncated to the microsecond first.\<close>

definition bound_grant ::
  "string \<Rightarrow> GrantRequest \<Rightarrow> Descriptor \<Rightarrow> string list \<Rightarrow> string list \<Rightarrow> string list \<Rightarrow> string \<Rightarrow> Grant" where
  "bound_grant tenantID req d methods resources prompts cls =
     \<lparr>g_GrantID = [], g_Revision = 1, g_TenantID = tenantID,
      g_SubjectType = gr_SubjectType req, g_SubjectID = gr_SubjectID req,
      g_ServerID = d_ServerID d, g_DescriptorRevision = d_Revision d,
      g_DescriptorDigest = d_Digest d, g_CanonicalResource = d_CanonicalResource d,
      g_Transport = d_Transport d, g_ProtocolVersion = d_ProtocolVersion d,
      g_Issuer = d_Issuer d, g_Audience = d_CanonicalResource d, g_Methods = methods,
      g_ResourceSelectors = resources, g_PromptSelectors = prompts,
      g_Purpose = gr_Purpose req, g_DataClass = cls, g_CostCap = gr_CostCap req,
      g_ExpiresAt = map_option trunc_us (gr_ExpiresAt req), g_PolicyDigest = [],
      g_PolicyEpoch = 0, g_State = GrantPending, g_ControlReceiptID = [], g_FailureCode = [],
      g_RegistrationCmdID = [], g_RevocationCmdID = [], g_FencedAt = None,
      g_InFlightCalls = 0, g_UnknownCalls = 0, g_ControlState = ''none'', g_RevokedAt = None,
      g_CommandID = [], g_RequestDigest = [], g_CreatedAt = zero_time,
      g_UpdatedAt = zero_time\<rparr>"

definition NewGrant :: "string \<Rightarrow> string \<Rightarrow> GrantRequest \<Rightarrow> Descriptor \<Rightarrow> time \<Rightarrow> err + Grant" where
  "NewGrant tenantID projectID req d now =
     (if d_TenantID d \<noteq> tenantID \<or> d_ServerID d \<noteq> gr_ServerID req \<or> d_Revision d \<noteq> gr_DescriptorRev req
      then Inl (err ErrNotFound)
      else if d_Digest d \<noteq> gr_DescriptorDigest req then Inl (err ErrDescriptorMismatch)
      else if d_State d \<noteq> CatalogApproved then Inl (err DomainErrForbidden)
      else (case check_subject tenantID projectID req of
        Some e \<Rightarrow> Inl e
      | None \<Rightarrow>
         (let methods = normalizeExact (gr_Methods req);
              resources = normalizeExact (gr_ResourceSelectors req);
              prompts = normalizeExact (gr_PromptSelectors req);
              cls = (if gr_DataClass req = [] then d_DataClass d else gr_DataClass req) in
          if methods = [] \<or> length methods \<noteq> length (gr_Methods req) then Inl (err ErrInvalid)
          else if list_ex (\<lambda>m. Method d m = None) methods then Inl (err DomainErrForbidden)
          else if list_ex (\<lambda>r. r \<notin> ln_Name ` set (d_Resources d)) resources then Inl (err DomainErrForbidden)
          else if list_ex (\<lambda>p. p \<notin> ln_Name ` set (d_Prompts d)) prompts then Inl (err DomainErrForbidden)
          else if DataClassRank cls < 0 \<or> DataClassRank cls > DataClassRank (d_DataClass d)
          then Inl (err DomainErrForbidden)
          else if length (m_Currency (gr_CostCap req)) \<noteq> 3 \<or> m_Amount (gr_CostCap req) < 0
          then Inl (err ErrInvalid)
          else if (case gr_ExpiresAt req of None \<Rightarrow> False | Some ex \<Rightarrow> \<not> Before now ex)
          then Inl (err ErrInvalid)
          else if TrimSpace (gr_Purpose req) = [] then Inl (err ErrInvalid)
          else Inr (bound_grant tenantID req d methods resources prompts cls))))"

definition dimensions :: "Grant \<Rightarrow> string list" where
  "dimensions g =
     [''grant='' @ g_GrantID g, ''revision='' @ fmt_u64 (g_Revision g), ''tenant='' @ g_TenantID g,
      ''subject='' @ g_SubjectType g @ '':'' @ g_SubjectID g, ''server='' @ g_ServerID g,
      ''resource='' @ g_CanonicalResource g, ''issuer='' @ g_Issuer g, ''audience='' @ g_Audience g,
      ''protocol='' @ g_ProtocolVersion g, ''transport='' @ g_Transport g,
      ''descriptor='' @ fmt_u64 (g_DescriptorRevision g) @ ''@'' @ g_DescriptorDigest g,
      ''methods='' @ Join (g_Methods g) '','', ''resources='' @ Join (g_ResourceSelectors g) '','',
      ''prompts='' @ Join (g_PromptSelectors g) '','', ''purpose='' @ g_Purpose g,
      ''dataClass='' @ g_DataClass g,
      ''costCap='' @ m_Currency (g_CostCap g) @ '':'' @ fmt_int (m_Amount (g_CostCap g)),
      ''expires='' @ (case g_ExpiresAt g of None \<Rightarrow> [] | Some ex \<Rightarrow> fmt_rfc3339nano ex)]"

text \<open>The bytes \<open>digestLines\<close> writes into the hash.\<close>

definition lines_text :: "string \<Rightarrow> string list \<Rightarrow> bytes" where
  "lines_text prefix lines =
     prefix @ [CHR 0x0A] @
     concat (map (\<lambda>l. digits_int (int (length l)) @ '':'' @ l @ [CHR 0x0A]) lines)"

definition digestLines :: "string \<Rightarrow> string list \<Rightarrow> string" where
  "digestLines prefix lines = ''sha256:'' @ sha256_hex (lines_text prefix lines)"

definition ComputePolicyDigest :: "Grant \<Rightarrow> string" where
  "ComputePolicyDigest g = digestLines ''mcp-grant-policy-v1'' (dimensions g)"

definition CacheKey :: "Grant \<Rightarrow> string" where
  "CacheKey g = digestLines ''mcp-grant-cache-v1'' (dimensions g)"

definition Executable :: "Grant \<Rightarrow> time \<Rightarrow> bool" where
  "Executable g now \<longleftrightarrow> g_State g = GrantActive \<and> g_ControlReceiptID g \<noteq> []
     \<and> (case g_ExpiresAt g of None \<Rightarrow> True | Some ex \<Rightarrow> Before now ex)"

abbreviation SubjectGrantRevoked :: string where
  "SubjectGrantRevoked \<equiv> ''anvilkit.mcp.mcp.grant-revoked''"
abbreviation AggregateGrant :: string where "AggregateGrant \<equiv> ''grant''"

definition GrantRevokedEvent :: "string \<Rightarrow> Grant \<Rightarrow> u64 \<Rightarrow> string \<Rightarrow> time \<Rightarrow> Envelope" where
  "GrantRevokedEvent eventID g eventRevision correlationID now =
     aggregateEnvelope eventID (g_TenantID g) ''mcp.grant-revoked'' SubjectGrantRevoked AggregateGrant
       (g_GrantID g) eventRevision correlationID now
       (JObj [(''kind'', JStr ''mcp.grant-revoked''), (''grantId'', JStr (g_GrantID g)),
              (''revision'', JStr (fmt_u64 (g_Revision g))),
              (''state'', JStr (GrantState_string (g_State g)))])"

section \<open>Facts\<close>

lemma NewGrant_Inr_iff:
  "NewGrant tenantID projectID req d now = Inr g \<longleftrightarrow>
     (let cls = (if gr_DataClass req = [] then d_DataClass d else gr_DataClass req) in
      d_TenantID d = tenantID \<and> d_ServerID d = gr_ServerID req \<and> d_Revision d = gr_DescriptorRev req
      \<and> d_Digest d = gr_DescriptorDigest req \<and> d_State d = CatalogApproved
      \<and> check_subject tenantID projectID req = None
      \<and> gr_Methods req \<noteq> [] \<and> distinct (gr_Methods req)
      \<and> (\<forall>m \<in> set (gr_Methods req). Method d m \<noteq> None)
      \<and> set (gr_ResourceSelectors req) \<subseteq> ln_Name ` set (d_Resources d)
      \<and> set (gr_PromptSelectors req) \<subseteq> ln_Name ` set (d_Prompts d)
      \<and> 0 \<le> DataClassRank cls \<and> DataClassRank cls \<le> DataClassRank (d_DataClass d)
      \<and> length (m_Currency (gr_CostCap req)) = 3 \<and> 0 \<le> m_Amount (gr_CostCap req)
      \<and> (\<forall>ex. gr_ExpiresAt req = Some ex \<longrightarrow> now < ex) \<and> TrimSpace (gr_Purpose req) \<noteq> []
      \<and> g = bound_grant tenantID req d (normalizeExact (gr_Methods req))
              (normalizeExact (gr_ResourceSelectors req)) (normalizeExact (gr_PromptSelectors req)) cls)"
proof -
  have set: "set (normalizeExact xs) = set xs" for xs by (simp add: normalizeExact_def)
  have len: "length (normalizeExact xs) = length xs \<longleftrightarrow> distinct xs" for xs
    by (simp add: normalizeExact_def length_Compact_sort_iff)
  have nil: "normalizeExact xs = [] \<longleftrightarrow> xs = []" for xs by (metis set set_empty)
  have sub: "(\<exists>r \<in> set xs. r \<notin> A) \<longleftrightarrow> \<not> set xs \<subseteq> A" for xs :: "string list" and A by blast
  show ?thesis
    unfolding NewGrant_def Let_def list_ex_iff set nil len sub
    by (cases "gr_ExpiresAt req"; cases "check_subject tenantID projectID req") (simp_all add: go_time not_less not_le, blast+)
qed

lemma bound_grant_sel [simp]:
  "g_State (bound_grant ten req d ms rs ps cls) = GrantPending"
  "g_ControlReceiptID (bound_grant ten req d ms rs ps cls) = []"
  "g_Methods (bound_grant ten req d ms rs ps cls) = ms"
  "g_ResourceSelectors (bound_grant ten req d ms rs ps cls) = rs"
  "g_PromptSelectors (bound_grant ten req d ms rs ps cls) = ps"
  "g_DataClass (bound_grant ten req d ms rs ps cls) = cls"
  "g_CostCap (bound_grant ten req d ms rs ps cls) = gr_CostCap req"
  "g_TenantID (bound_grant ten req d ms rs ps cls) = ten"
  "g_DescriptorDigest (bound_grant ten req d ms rs ps cls) = d_Digest d"
  "g_DescriptorRevision (bound_grant ten req d ms rs ps cls) = d_Revision d"
  "g_ServerID (bound_grant ten req d ms rs ps cls) = d_ServerID d"
  "g_ExpiresAt (bound_grant ten req d ms rs ps cls) = map_option trunc_us (gr_ExpiresAt req)"
  "g_Revision (bound_grant ten req d ms rs ps cls) = 1"
  "g_CanonicalResource (bound_grant ten req d ms rs ps cls) = d_CanonicalResource d"
  "g_Audience (bound_grant ten req d ms rs ps cls) = d_CanonicalResource d"
  "g_ControlState (bound_grant ten req d ms rs ps cls) = ''none''"
  "g_SubjectType (bound_grant ten req d ms rs ps cls) = gr_SubjectType req"
  "g_SubjectID (bound_grant ten req d ms rs ps cls) = gr_SubjectID req"
  by (simp_all add: bound_grant_def)

text \<open>The length prefix makes the hashed text determine the lines.\<close>

lemma digits_no_colon: "0 \<le> n \<Longrightarrow> CHR '':'' \<notin> set (digits_int n)"
proof
  assume "0 \<le> n" "CHR '':'' \<in> set (digits_int n)"
  then have "is_digit CHR '':''" using digits_int_digits [of n] by (auto simp: list_all_iff)
  moreover have "\<not> is_digit CHR '':''" by code_simp
  ultimately show False by simp
qed

lemma takeWhile_not_colon:
  "0 \<le> n \<Longrightarrow> takeWhile (\<lambda>c. c \<noteq> CHR '':'') (digits_int n @ CHR '':'' # r) = digits_int n"
  using digits_no_colon [of n] by (subst takeWhile_append2) auto

lemma lines_body_inj:
  "concat (map (\<lambda>l. digits_int (int (length l)) @ '':'' @ l @ [CHR 0x0A]) xs) =
   concat (map (\<lambda>l. digits_int (int (length l)) @ '':'' @ l @ [CHR 0x0A]) ys) \<Longrightarrow> xs = ys"
proof (induction xs arbitrary: ys)
  case Nil
  then show ?case by (cases ys) auto
next
  case (Cons x xs)
  let ?f = "\<lambda>zs. concat (map (\<lambda>l. digits_int (int (length l)) @ '':'' @ l @ [CHR 0x0A]) zs)"
  obtain y ys' where ys: "ys = y # ys'" using Cons.prems by (cases ys) auto
  let ?dx = "digits_int (int (length x))" and ?dy = "digits_int (int (length y))"
  have eq: "?dx @ CHR '':'' # (x @ CHR 0x0A # ?f xs) = ?dy @ CHR '':'' # (y @ CHR 0x0A # ?f ys')"
    using Cons.prems ys by simp
  have "?dx = ?dy"
    using arg_cong [OF eq, of "takeWhile (\<lambda>c. c \<noteq> CHR '':'')"] by (simp add: takeWhile_not_colon)
  then have len: "length x = length y" using digits_int_inj [of "int (length x)" "int (length y)"] by simp
  have "x @ CHR 0x0A # ?f xs = y @ CHR 0x0A # ?f ys'" using eq \<open>?dx = ?dy\<close> by simp
  then have "x = y" "?f xs = ?f ys'" using len by (auto simp: append_eq_append_conv)
  then show ?case using Cons.IH ys by blast
qed

lemma lines_text_inj: "lines_text p xs = lines_text p ys \<longleftrightarrow> xs = ys"
  using lines_body_inj by (auto simp: lines_text_def)

lemma split_at_first:
  assumes "a @ c # b = a' @ c # b'" "c \<notin> set a" "c \<notin> set a'"
  shows "a = a'" "b = b'"
proof -
  have "takeWhile (\<lambda>x. x \<noteq> c) (a @ c # b) = a" using assms(2) by (subst takeWhile_append2) auto
  moreover have "takeWhile (\<lambda>x. x \<noteq> c) (a' @ c # b') = a'" using assms(3) by (subst takeWhile_append2) auto
  ultimately show "a = a'" using assms(1) by simp
  with assms(1) show "b = b'" by simp
qed

lemma fmt_u64_no_at: "CHR ''@'' \<notin> set (fmt_u64 w)"
proof
  assume "CHR ''@'' \<in> set (fmt_u64 w)"
  then have "is_digit CHR ''@''"
    using digits_int_digits [of "uint w"] by (auto simp: list_all_iff fmt_u64_def)
  moreover have "\<not> is_digit CHR ''@''" by code_simp
  ultimately show False by simp
qed

lemma dimensions_fields:
  assumes "dimensions g = dimensions g'"
  shows "g_GrantID g = g_GrantID g'" "g_Revision g = g_Revision g'" "g_TenantID g = g_TenantID g'"
    "g_ServerID g = g_ServerID g'" "g_CanonicalResource g = g_CanonicalResource g'"
    "g_Issuer g = g_Issuer g'" "g_Audience g = g_Audience g'"
    "g_ProtocolVersion g = g_ProtocolVersion g'" "g_Transport g = g_Transport g'"
    "g_DescriptorRevision g = g_DescriptorRevision g'" "g_DescriptorDigest g = g_DescriptorDigest g'"
    "g_Purpose g = g_Purpose g'" "g_DataClass g = g_DataClass g'"
    "Join (g_Methods g) '','' = Join (g_Methods g') '',''"
proof -
  have d: "fmt_u64 (g_DescriptorRevision g) @ CHR ''@'' # g_DescriptorDigest g
         = fmt_u64 (g_DescriptorRevision g') @ CHR ''@'' # g_DescriptorDigest g'"
    using assms by (simp add: dimensions_def)
  from split_at_first [OF this fmt_u64_no_at fmt_u64_no_at]
  show "g_DescriptorRevision g = g_DescriptorRevision g'" "g_DescriptorDigest g = g_DescriptorDigest g'"
    by simp_all
qed (use assms in \<open>simp_all add: dimensions_def\<close>)

text \<open>
  The list dimensions are joined with commas, so lists whose names contain commas are not told
  apart; the grant identity among the dimensions still separates two grants.
\<close>

lemma comma_joined_methods_collide:
  "ComputePolicyDigest (g\<lparr>g_Methods := [''a,b'']\<rparr>) = ComputePolicyDigest (g\<lparr>g_Methods := [''a'', ''b'']\<rparr>)"
  by (simp add: ComputePolicyDigest_def dimensions_def)

section \<open>A concrete grant\<close>

definition sample_descriptor :: Descriptor where
  "sample_descriptor =
     (bound_descriptor sample_decl sample_live ''mcp.example''
        [\<lparr>tl_Method = ''echo'', tl_InputSchemaDigest = [], tl_OutputSchemaDigest = [],
          tl_AnnotationsDigest = [], tl_SideEffecting = True,
          tl_UnitPrice = \<lparr>m_Currency = ''EUR'', m_Amount = 5\<rparr>, tl_Idempotent = False,
          tl_QuerySupported = False\<rparr>] [])
     \<lparr>d_ServerID := ''s1'', d_TenantID := ''ten'', d_Revision := 1, d_State := CatalogApproved,
      d_Digest := sample_digest, d_DiscoveredBy := ''op''\<rparr>"

definition sample_grant_request :: GrantRequest where
  "sample_grant_request =
     \<lparr>gr_SubjectType = ''tenant'', gr_SubjectID = ''ten'', gr_ServerID = ''s1'', gr_DescriptorRev = 1,
      gr_DescriptorDigest = sample_digest, gr_Methods = [''echo''], gr_ResourceSelectors = [],
      gr_PromptSelectors = [], gr_Purpose = ''demo'', gr_DataClass = [],
      gr_CostCap = \<lparr>m_Currency = ''EUR'', m_Amount = 100\<rparr>, gr_ExpiresAt = Some (5000 * second)\<rparr>"

definition sample_grant :: Grant where
  "sample_grant = bound_grant ''ten'' sample_grant_request sample_descriptor [''echo''] [] [] ''internal''"

lemma normalizeExact_single [simp]: "normalizeExact [x] = [x]" "normalizeExact [] = []"
  by (simp_all add: normalizeExact_def Compact_def sort_strings_def)

lemma sample_purpose: "TrimSpace ''demo'' \<noteq> []"
  by code_simp

lemma sample_grant_new:
  "NewGrant ''ten'' [] sample_grant_request sample_descriptor (1000 * second) = Inr sample_grant"
  unfolding NewGrant_Inr_iff
  by (simp add: sample_grant_def sample_grant_request_def sample_descriptor_def check_subject_def
      Method_def sample_class sample_decl_def sample_purpose)

section \<open>Properties\<close>

text \<open>
  C35. A grant never reaches beyond what was reviewed: it is created only on an approved revision of
  the tenant's own catalog at exactly the requested digest; every method and selector exists in
  that revision; its data class is known and not above the descriptor's; an expiry lies ahead; and
  it starts pending without a receipt, so nothing can execute under it.
\<close>
theorem grant_within_descriptor:
  assumes "NewGrant tenantID projectID req d now = Inr g"
  shows "d_State d = CatalogApproved \<and> d_TenantID d = g_TenantID g \<and> g_TenantID g = tenantID
    \<and> g_DescriptorDigest g = d_Digest d \<and> d_Digest d = gr_DescriptorDigest req
    \<and> g_ServerID g = d_ServerID d \<and> g_DescriptorRevision g = d_Revision d
    \<and> g_Methods g \<noteq> [] \<and> distinct (g_Methods g) \<and> sorted (g_Methods g)
    \<and> set (g_Methods g) = set (gr_Methods req)
    \<and> set (g_Methods g) \<subseteq> tl_Method ` set (d_Tools d)
    \<and> set (g_ResourceSelectors g) \<subseteq> ln_Name ` set (d_Resources d)
    \<and> set (g_PromptSelectors g) \<subseteq> ln_Name ` set (d_Prompts d)
    \<and> 0 \<le> DataClassRank (g_DataClass g) \<and> DataClassRank (g_DataClass g) \<le> DataClassRank (d_DataClass d)
    \<and> (\<forall>ex. gr_ExpiresAt req = Some ex \<longrightarrow> now < ex \<and> g_ExpiresAt g = Some (trunc_us ex))
    \<and> g_State g = GrantPending \<and> \<not> Executable g later"
proof -
  have m: "Method d m \<noteq> None \<Longrightarrow> m \<in> tl_Method ` set (d_Tools d)" for m
    by (auto simp: Method_def find_Some_iff)
  have "set (normalizeExact xs) = set xs" "distinct (normalizeExact xs)" "sorted (normalizeExact xs)" for xs
    by (simp_all add: normalizeExact_def distinct_Compact_sort sorted_Compact_sort)
  moreover have "normalizeExact xs = [] \<longleftrightarrow> xs = []" for xs
    by (metis calculation(1) set_empty)
  ultimately show ?thesis
    using assms m unfolding NewGrant_Inr_iff Let_def
    by (auto simp: Executable_def)
qed

theorem grant_within_descriptor_witness:
  "set (g_Methods sample_grant) \<subseteq> tl_Method ` set (d_Tools sample_descriptor)
   \<and> \<not> Executable sample_grant (2000 * second)"
  using grant_within_descriptor [OF sample_grant_new, of "2000 * second"] by blast

text \<open>
  Cached credentials and connections are never shared across a security boundary: when two
  grants have the same cache identity and the hash does not collide on their two texts, they are
  the same grant revision of the same tenant, for the same server, resource, issuer, audience,
  protocol, transport, descriptor revision and digest, purpose and data class.
\<close>
theorem cache_key_separates_grants:
  assumes "CacheKey g = CacheKey g'"
    and "inj_on sha256_hex {lines_text ''mcp-grant-cache-v1'' (dimensions g),
                            lines_text ''mcp-grant-cache-v1'' (dimensions g')}"
  shows "g_GrantID g = g_GrantID g' \<and> g_Revision g = g_Revision g' \<and> g_TenantID g = g_TenantID g'
    \<and> g_ServerID g = g_ServerID g' \<and> g_CanonicalResource g = g_CanonicalResource g'
    \<and> g_Issuer g = g_Issuer g' \<and> g_Audience g = g_Audience g'
    \<and> g_ProtocolVersion g = g_ProtocolVersion g' \<and> g_Transport g = g_Transport g'
    \<and> g_DescriptorRevision g = g_DescriptorRevision g' \<and> g_DescriptorDigest g = g_DescriptorDigest g'
    \<and> g_Purpose g = g_Purpose g' \<and> g_DataClass g = g_DataClass g'"
proof -
  have "sha256_hex (lines_text ''mcp-grant-cache-v1'' (dimensions g))
      = sha256_hex (lines_text ''mcp-grant-cache-v1'' (dimensions g'))"
    using assms(1) by (simp add: CacheKey_def digestLines_def)
  then have "lines_text ''mcp-grant-cache-v1'' (dimensions g) = lines_text ''mcp-grant-cache-v1'' (dimensions g')"
    by (rule inj_onD [OF assms(2)]) simp_all
  then have "dimensions g = dimensions g'" by (simp add: lines_text_inj)
  from dimensions_fields [OF this] show ?thesis by (intro conjI)
qed

theorem cache_key_separates_grants_witness:
  "CacheKey sample_grant = CacheKey (sample_grant\<lparr>g_State := GrantActive\<rparr>)
   \<and> g_TenantID sample_grant = g_TenantID (sample_grant\<lparr>g_State := GrantActive\<rparr>)"
proof -
  have "dimensions (sample_grant\<lparr>g_State := GrantActive\<rparr>) = dimensions sample_grant"
    by (simp add: dimensions_def)
  then show ?thesis
    using cache_key_separates_grants [of sample_grant "sample_grant\<lparr>g_State := GrantActive\<rparr>"]
    by (simp add: CacheKey_def)
qed

end
