(* ===== verification/Call.thy ===== *)
theory Call
  imports Grant
begin

text \<open>
  The tool-call rules of \<open>internal/domain/call.go\<close>: the tracked call and its states, and the
  stateless checks of a call request, among them the walk over the JSON tokens of the arguments
  that refuses duplicate keys.  \<open>json.Decoder.Token\<close> is modelled with its token state and stack.
\<close>

section \<open>Data\<close>

datatype CallState =
    CallAccepted | CallAdmitted | CallSent | CallSucceeded | CallFailed | CallDenied
  | CallUnknown | CallCanceled

abbreviation CallGrantNotExecutable :: string where "CallGrantNotExecutable \<equiv> ''GRANT_NOT_EXECUTABLE''"
abbreviation CallAuthorizationDenied :: string where "CallAuthorizationDenied \<equiv> ''AUTHORIZATION_DENIED''"
abbreviation CallRecoveryRestricted :: string where "CallRecoveryRestricted \<equiv> ''RECOVERY_RESTRICTED''"
abbreviation CallRouteUnqualified :: string where "CallRouteUnqualified \<equiv> ''PROFILE_UNQUALIFIED''"
abbreviation CallProtocolMismatch :: string where "CallProtocolMismatch \<equiv> ''PROTOCOL_MISMATCH''"
abbreviation CallSchemaDrift :: string where "CallSchemaDrift \<equiv> ''SCHEMA_DRIFT''"
abbreviation CallDescriptorDrift :: string where "CallDescriptorDrift \<equiv> ''DESCRIPTOR_DRIFT''"
abbreviation CallArgumentsInvalid :: string where "CallArgumentsInvalid \<equiv> ''ARGUMENTS_INVALID''"
abbreviation CallSchemaUnavailable :: string where "CallSchemaUnavailable \<equiv> ''SCHEMA_UNAVAILABLE''"
abbreviation CallAuthorization :: string where "CallAuthorization \<equiv> ''AUTHORIZATION_SUBSTITUTED''"
abbreviation CallEgressRefused :: string where "CallEgressRefused \<equiv> ''EGRESS_REFUSED''"
abbreviation CallUpstreamUnavailable :: string where "CallUpstreamUnavailable \<equiv> ''UPSTREAM_UNAVAILABLE''"
abbreviation CallNotSent :: string where "CallNotSent \<equiv> ''SEND_NOT_ATTEMPTED''"
abbreviation CallToolError :: string where "CallToolError \<equiv> ''TOOL_ERROR''"
abbreviation CallProtocolError :: string where "CallProtocolError \<equiv> ''UPSTREAM_REFUSED''"
abbreviation CallOutcomeUnknown :: string where "CallOutcomeUnknown \<equiv> ''OUTCOME_UNKNOWN''"
abbreviation CallResultTooLarge :: string where "CallResultTooLarge \<equiv> ''RESULT_TOO_LARGE''"

record Call =
  c_CallID :: string
  c_TenantID :: string
  c_GrantID :: string
  c_GrantRevision :: u64
  c_ServerID :: string
  c_DescriptorRevision :: u64
  c_DescriptorDigest :: string
  c_ProtocolVersion :: string
  c_Transport :: string
  c_Route :: string
  c_Method :: string
  c_SideEffecting :: bool
  c_Exposure :: Money
  c_ArgumentRef :: string
  c_ArgumentDigest :: string
  c_Arguments :: bytes
  c_OperationID :: string
  c_AttemptID :: string
  c_InstanceID :: string
  c_ExecutionEpoch :: u64
  c_State :: CallState
  c_DispatchID :: string
  c_FailureCode :: string
  c_Result :: bytes
  c_ResultDigest :: string
  c_ResultRef :: string
  c_UsageUnits :: "u64 option"
  c_SendMarkerAt :: "time option"
  c_ObservedAt :: "time option"
  c_ObservationSeq :: u64
  c_CommandID :: string
  c_RequestDigest :: string
  c_Deadline :: time
  c_CreatedAt :: time
  c_UpdatedAt :: time

definition call_state_terminal :: "CallState \<Rightarrow> bool" where
  "call_state_terminal s = (case s of
     CallSucceeded \<Rightarrow> True | CallFailed \<Rightarrow> True | CallDenied \<Rightarrow> True | CallCanceled \<Rightarrow> True | _ \<Rightarrow> False)"

definition Call_Terminal :: "Call \<Rightarrow> bool" where
  "Call_Terminal c = call_state_terminal (c_State c)"

record CallRequest =
  cr_GrantID :: string
  cr_GrantRevision :: u64
  cr_Method :: string
  cr_ArgumentRef :: string
  cr_ArgumentDigest :: string
  cr_Arguments :: bytes
  cr_OperationID :: string
  cr_AttemptID :: string
  cr_InstanceID :: string
  cr_ExecutionEpoch :: u64
  cr_Deadline :: time

section \<open>The token reader\<close>

datatype tokenState =
    tokenTopValue | tokenArrayStart | tokenArrayValue | tokenArrayComma
  | tokenObjectStart | tokenObjectKey | tokenObjectColon | tokenObjectValue | tokenObjectComma

record Decoder =
  dec_rest :: bytes
  dec_state :: tokenState
  dec_stack :: "tokenState list"

datatype token = TDelim char | TString string | TScalar json

datatype tok_result = TokEOF | TokErr | Tok token Decoder

definition tokenValueAllowed :: "tokenState \<Rightarrow> bool" where
  "tokenValueAllowed s \<longleftrightarrow> s \<in> {tokenTopValue, tokenArrayStart, tokenArrayValue, tokenObjectValue}"

fun tokenValueEnd :: "tokenState \<Rightarrow> tokenState" where
  "tokenValueEnd tokenArrayStart = tokenArrayComma"
| "tokenValueEnd tokenArrayValue = tokenArrayComma"
| "tokenValueEnd tokenObjectValue = tokenObjectComma"
| "tokenValueEnd s = s"

text \<open>A closing delimiter pops the state and ends the enclosing value.\<close>
definition tok_close :: "char \<Rightarrow> bytes \<Rightarrow> tokenState list \<Rightarrow> tok_result" where
  "tok_close c t stk =
     (case stk of
        [] \<Rightarrow> TokErr
      | st # stk' \<Rightarrow> Tok (TDelim c) \<lparr>dec_rest = t, dec_state = tokenValueEnd st, dec_stack = stk'\<rparr>)"

function Token :: "bytes \<Rightarrow> tokenState \<Rightarrow> tokenState list \<Rightarrow> tok_result" where
  "Token s st stk =
     (case skip_ws s of
        [] \<Rightarrow> TokEOF
      | c # t \<Rightarrow>
         if c = CHR ''['' then
           (if tokenValueAllowed st
            then Tok (TDelim c) \<lparr>dec_rest = t, dec_state = tokenArrayStart, dec_stack = st # stk\<rparr>
            else TokErr)
         else if c = CHR '']'' then
           (if st = tokenArrayStart \<or> st = tokenArrayComma then tok_close c t stk else TokErr)
         else if c = CHR ''{'' then
           (if tokenValueAllowed st
            then Tok (TDelim c) \<lparr>dec_rest = t, dec_state = tokenObjectStart, dec_stack = st # stk\<rparr>
            else TokErr)
         else if c = CHR ''}'' then
           (if st = tokenObjectStart \<or> st = tokenObjectComma then tok_close c t stk else TokErr)
         else if c = CHR '':'' then
           (if st = tokenObjectColon then Token t tokenObjectValue stk else TokErr)
         else if c = CHR '','' then
           (if st = tokenArrayComma then Token t tokenArrayValue stk
            else if st = tokenObjectComma then Token t tokenObjectKey stk else TokErr)
         else if c = CHR 0x22 \<and> (st = tokenObjectStart \<or> st = tokenObjectKey) then
           (case scan_string t of
              None \<Rightarrow> TokErr
            | Some (raw, r) \<Rightarrow>
               Tok (TString (unquote raw)) \<lparr>dec_rest = r, dec_state = tokenObjectColon, dec_stack = stk\<rparr>)
         else if tokenValueAllowed st then
           (case parse_value 1 0 (c # t) of
              None \<Rightarrow> TokErr
            | Some (v, r) \<Rightarrow>
               Tok (TScalar v) \<lparr>dec_rest = r, dec_state = tokenValueEnd st, dec_stack = stk\<rparr>)
         else TokErr)"
  by pat_completeness auto
termination
  by (relation "measure (\<lambda>(s, st, stk). length s)") (auto dest: skip_ws_shorter)

declare Token.simps [simp del]

definition dec_Token :: "Decoder \<Rightarrow> tok_result" where
  "dec_Token dec = Token (dec_rest dec) (dec_state dec) (dec_stack dec)"

definition dec_More :: "Decoder \<Rightarrow> bool" where
  "dec_More dec = (case skip_ws (dec_rest dec) of [] \<Rightarrow> False | c # _ \<Rightarrow> c \<noteq> CHR '']'' \<and> c \<noteq> CHR ''}'')"

section \<open>The walk over the arguments\<close>

text \<open>
  \<open>walkObject\<close>, its loop, \<open>walkValue\<close> and the loop over an array.  Every iteration consumes input, so
  the fuel given by \<open>checkObject\<close>, one unit per byte and one more, is never exhausted.
\<close>

fun walkValue :: "nat \<Rightarrow> Decoder \<Rightarrow> nat \<Rightarrow> Decoder option"
and walkMembers :: "nat \<Rightarrow> Decoder \<Rightarrow> nat \<Rightarrow> string list \<Rightarrow> Decoder option"
and walkElems :: "nat \<Rightarrow> Decoder \<Rightarrow> nat \<Rightarrow> Decoder option" where
  "walkValue 0 dec depth = None"
| "walkValue (Suc f) dec depth =
     (if 64 < depth then None
      else (case dec_Token dec of
              Tok tok dec' \<Rightarrow>
                if tok = TDelim (CHR ''{'') then
                  (if 64 < Suc depth then None else walkMembers f dec' (Suc depth) [])
                else if tok = TDelim (CHR ''['') then walkElems f dec' (Suc depth)
                else Some dec'
            | _ \<Rightarrow> None))"
| "walkMembers 0 dec depth seen = None"
| "walkMembers (Suc f) dec depth seen =
     (if dec_More dec then
        (case dec_Token dec of
           Tok tok dec1 \<Rightarrow>
             (let key = (case tok of TString k \<Rightarrow> k | TScalar (JStr k) \<Rightarrow> k | _ \<Rightarrow> []) in
              if key \<in> set seen then None
              else (case walkValue f dec1 depth of
                      None \<Rightarrow> None
                    | Some dec2 \<Rightarrow> walkMembers f dec2 depth (key # seen)))
         | _ \<Rightarrow> None)
      else (case dec_Token dec of Tok _ dec' \<Rightarrow> Some dec' | _ \<Rightarrow> None))"
| "walkElems 0 dec depth = None"
| "walkElems (Suc f) dec depth =
     (if dec_More dec then
        (case walkValue f dec depth of
           None \<Rightarrow> None
         | Some dec' \<Rightarrow> walkElems f dec' depth)
      else (case dec_Token dec of Tok _ dec' \<Rightarrow> Some dec' | _ \<Rightarrow> None))"

definition walkObject :: "nat \<Rightarrow> Decoder \<Rightarrow> nat \<Rightarrow> Decoder option" where
  "walkObject f dec depth = (if 64 < depth then None else walkMembers f dec depth [])"

definition checkObject :: "bytes \<Rightarrow> bool" where
  "checkObject raw =
     (case dec_Token \<lparr>dec_rest = raw, dec_state = tokenTopValue, dec_stack = []\<rparr> of
        Tok tok dec \<Rightarrow>
          if tok \<noteq> TDelim (CHR ''{'') then False
          else (case walkObject (Suc (length raw)) dec 1 of
                  None \<Rightarrow> False
                | Some dec' \<Rightarrow> dec_Token dec' = TokEOF)
      | _ \<Rightarrow> False)"

definition CheckCallRequest :: "CallRequest \<Rightarrow> time \<Rightarrow> err option" where
  "CheckCallRequest r now =
     (if cr_OperationID r = [] \<or> cr_AttemptID r = [] \<or> cr_ExecutionEpoch r = 0 then Some (err ErrInvalid)
      else if \<not> After (cr_Deadline r) now then Some (err ErrInvalid)
      else if DigestBytes (cr_Arguments r) \<noteq> cr_ArgumentDigest r then Some (err ErrInvalid)
      else if \<not> checkObject (cr_Arguments r) then Some (err ErrInvalid)
      else None)"

text \<open>
  The JSON schema library: whether a document loads and resolves as a schema, and whether it
  accepts an instance.
\<close>

record jsonschema =
  js_Resolve :: "bytes \<Rightarrow> bool"
  js_Validate :: "bytes \<Rightarrow> json \<Rightarrow> bool"

definition CheckArguments :: "jsonschema \<Rightarrow> bytes \<Rightarrow> bytes \<Rightarrow> err option" where
  "CheckArguments js schema args =
     (if schema = [] then Some (Err DomainErrForbidden CallSchemaUnavailable)
      else if \<not> js_Resolve js schema then Some (Err DomainErrForbidden CallSchemaUnavailable)
      else (case Option.bind (json_parse args) json_any of
              None \<Rightarrow> Some (Err ErrInvalid CallArgumentsInvalid)
            | Some instance' \<Rightarrow>
               if js_Validate js schema instance' then None
               else Some (Err ErrInvalid CallArgumentsInvalid)))"

end
