(* ===== verification/Store.thy ===== *)
theory Store
  imports Call
begin

text \<open>
  The owner's database and how the service runs against it: the rows of
  \<open>internal/adapters/postgres/sqlc/models.go\<close>, the tables as lists of rows, and the transaction of
  \<open>internal/adapters/postgres/store.go\<close>.

  An operation of the service is a function from a world (the database, a counter of interactions,
  the log of calls to other systems) to an error or a value and a new world.  Everything the service
  does not control is read from an environment indexed by that counter: the two clocks, a failing
  query, the fate of a commit, what other replicas did to the database between two of this replica's
  interactions, generated identifiers, PostgreSQL's \<open>jsonb\<close> normalisation and the unique
  constraints of the schema.  No property fixes these functions beyond the hypotheses it names.

  State columns hold the enumerated states (the schema admits no other value); \<open>bigint\<close> and
  \<open>integer\<close> columns are integers, converted by the two's-complement conversions of the code;
  a \<open>timestamptz\<close> keeps microseconds; a \<open>jsonb\<close> document column holds what \<open>json.Unmarshal\<close> reads
  from it, or is malformed.
\<close>

section \<open>Rows\<close>

datatype 'a jsonb = Jsonb 'a | Malformed

record BackgroundRequest =
  br_TaskID :: string
  br_Generation :: int
  br_TaskKind :: string
  br_InputDigest :: string
  br_Input :: bytes
  br_State :: TaskState
  br_WorkerID :: "string option"
  br_LeaseUntil :: "time option"
  br_AttemptCount :: int
  br_ResultRef :: "string option"
  br_ResultDigest :: "string option"
  br_FailureCode :: "string option"
  br_CreatedAt :: "time option"
  br_UpdatedAt :: "time option"
  br_TenantID :: string
  br_Revision :: int
  br_ResultProfile :: string
  br_Effects :: Effects
  br_DispatchID :: "string option"
  br_AuthorizationRef :: string
  br_MaxAttempts :: int
  br_RetryAt :: "time option"
  br_CorrelationID :: string
  br_CompletedAt :: "time option"

record TaskAttempt =
  ta_TaskID :: string
  ta_Generation :: int
  ta_Ordinal :: int
  ta_WorkerID :: string
  ta_LeasedAt :: "time option"
  ta_LeaseUntil :: "time option"
  ta_Outcome :: "string option"
  ta_SubmittedAt :: "time option"

record CatalogCommand =
  cc_TenantID :: string
  cc_CommandID :: string
  cc_CommandKind :: string
  cc_RequestDigest :: string
  cc_ServerID :: string
  cc_Revision :: int
  cc_CreatedAt :: "time option"

record CatalogRefresh =
  cf_TaskID :: string
  cf_Generation :: int
  cf_WorkerID :: string
  cf_ServerID :: string
  cf_Revision :: int
  cf_ReviewedDigest :: string
  cf_LiveDigest :: "string option"
  cf_Drift :: bool
  cf_DriftReason :: "string option"
  cf_ResultRef :: string
  cf_ResultDigest :: string
  cf_RefreshedAt :: "time option"

record DescriptorRow =
  dr_ServerID :: string
  dr_Revision :: int
  dr_ProtocolVersion :: string
  dr_Provenance :: string
  dr_DescriptorDigest :: string
  dr_Tools :: "Tool list jsonb"
  dr_State :: CatalogState
  dr_CommandID :: string
  dr_RequestDigest :: string
  dr_CreatedAt :: "time option"
  dr_UpdatedAt :: "time option"
  dr_ServerName :: string
  dr_ServerVersion :: string
  dr_Resources :: "LiveNamed list jsonb"
  dr_Prompts :: "LiveNamed list jsonb"
  dr_ResourcesDigest :: string
  dr_PromptsDigest :: string
  dr_DataClass :: string
  dr_NetworkScope :: "string list"
  dr_Licenses :: "string list"
  dr_Issuer :: string
  dr_RevisionEvidence :: string
  dr_ConnectionRef :: string
  dr_DiscoveredBy :: string
  dr_Reviewer :: "string option"
  dr_ReviewID :: "string option"
  dr_InputSchemas :: "(string \<times> bytes) list jsonb"

record EventRevision =
  er_AggregateType :: string
  er_AggregateID :: string
  er_Revision :: int

record GrantRow =
  gw_GrantID :: string
  gw_Revision :: int
  gw_TenantID :: string
  gw_SubjectType :: string
  gw_SubjectID :: string
  gw_ServerID :: string
  gw_DescriptorRevision :: int
  gw_DescriptorDigest :: string
  gw_Methods :: "string list"
  gw_Purpose :: string
  gw_CostCapCurrency :: string
  gw_CostCapAmount :: int
  gw_State :: GrantState
  gw_ControlReceiptID :: "string option"
  gw_ExpiresAt :: "time option"
  gw_CommandID :: string
  gw_RequestDigest :: string
  gw_CreatedAt :: "time option"
  gw_UpdatedAt :: "time option"
  gw_CanonicalResource :: string
  gw_Transport :: string
  gw_ProtocolVersion :: string
  gw_Issuer :: string
  gw_Audience :: string
  gw_ResourceSelectors :: "string list"
  gw_PromptSelectors :: "string list"
  gw_DataClass :: string
  gw_PolicyDigest :: string
  gw_PolicyEpoch :: "int option"
  gw_FailureCode :: "string option"
  gw_RegistrationCommandID :: string
  gw_RevocationCommandID :: "string option"
  gw_FencedAt :: "time option"
  gw_InFlightCalls :: int
  gw_UnknownCalls :: int
  gw_ControlState :: string
  gw_RevokedAt :: "time option"

record GrantDecision =
  gd_DecisionID :: string
  gd_GrantID :: string
  gd_FromRevision :: int
  gd_ToRevision :: int
  gd_Decision :: string
  gd_Decider :: string
  gd_ReasonCode :: "string option"
  gd_CommandID :: string
  gd_RequestDigest :: string
  gd_DecidedAt :: "time option"
  gd_TenantID :: string

record Review =
  rv_ReviewID :: string
  rv_ServerID :: string
  rv_Revision :: int
  rv_DescriptorDigest :: string
  rv_Reviewer :: string
  rv_Decision :: string
  rv_ReasonCode :: "string option"
  rv_CommandID :: string
  rv_RequestDigest :: string
  rv_DecidedAt :: "time option"
  rv_TenantID :: string

record Server =
  sv_ServerID :: string
  sv_TenantID :: string
  sv_CanonicalResource :: string
  sv_Transport :: string
  sv_CurrentRevision :: int
  sv_CreatedAt :: "time option"

record ToolRequest =
  tr_CallID :: string
  tr_TenantID :: string
  tr_GrantID :: string
  tr_GrantRevision :: int
  tr_ServerID :: string
  tr_DescriptorRevision :: int
  tr_Method :: string
  tr_ArgumentRef :: string
  tr_ArgumentDigest :: string
  tr_OperationID :: "string option"
  tr_AttemptID :: "string option"
  tr_State :: CallState
  tr_ControlDispatchID :: "string option"
  tr_ResultRef :: "string option"
  tr_ResultDigest :: "string option"
  tr_FailureCode :: "string option"
  tr_CommandID :: string
  tr_RequestDigest :: string
  tr_Deadline :: "time option"
  tr_CreatedAt :: "time option"
  tr_UpdatedAt :: "time option"
  tr_InstanceID :: string
  tr_ExecutionEpoch :: int
  tr_Arguments :: bytes
  tr_DescriptorDigest :: string
  tr_ProtocolVersion :: string
  tr_Transport :: string
  tr_Route :: string
  tr_SideEffecting :: bool
  tr_ExposureCurrency :: string
  tr_ExposureAmount :: int
  tr_SendMarkerAt :: "time option"
  tr_ObservedAt :: "time option"
  tr_ObservationSequence :: int
  tr_UsageUnits :: "int option"
  tr_NativeEvidence :: bytes
  tr_Result :: bytes

record db =
  db_requests :: "BackgroundRequest list"
  db_attempts :: "TaskAttempt list"
  db_commands :: "CatalogCommand list"
  db_refreshes :: "CatalogRefresh list"
  db_servers :: "Server list"
  db_descriptors :: "DescriptorRow list"
  db_reviews :: "Review list"
  db_grants :: "GrantRow list"
  db_decisions :: "GrantDecision list"
  db_calls :: "ToolRequest list"
  db_event_revisions :: "EventRevision list"
  db_outbox :: "Envelope list"

definition empty_db :: db where
  "empty_db = \<lparr>db_requests = [], db_attempts = [], db_commands = [], db_refreshes = [], db_servers = [],
     db_descriptors = [], db_reviews = [], db_grants = [], db_decisions = [], db_calls = [],
     db_event_revisions = [], db_outbox = []\<rparr>"

section \<open>World and environment\<close>

text \<open>Calls to other systems, in the order they happen.\<close>

datatype ext_event =
    EvRegister string          \<comment> \<open>Control: register a grant, by its command\<close>
  | EvBeginRevocation string   \<comment> \<open>Control: begin a revocation, by its command\<close>
  | EvRevocation string        \<comment> \<open>Control: read a revocation\<close>
  | EvAdmit string             \<comment> \<open>Control: admit a call\<close>
  | EvObserve string u64 CallState  \<comment> \<open>Control: report a call's state under a sequence\<close>
  | EvGetTool string           \<comment> \<open>Control: read a call's dispatch\<close>
  | EvOutcome string           \<comment> \<open>Control: the original dispatch of a task\<close>
  | EvOpen string              \<comment> \<open>upstream: open a session for a call\<close>
  | EvSend string              \<comment> \<open>upstream: send a call\<close>
  | EvDiscover string          \<comment> \<open>connection layer: read a live server\<close>
  | EvDispatch string          \<comment> \<open>the detached dispatch of a call starts\<close>
  | EvCounted                  \<comment> \<open>the increment of a pass's own counter\<close>

record world =
  w_db :: db
  w_tick :: nat
  w_log :: "ext_event list"

datatype commit_fate = Committed | CommitRefused | CommitLost

text \<open>The unique constraints of the schema: whether a row may not join the rows already there.\<close>

record schema =
  sc_request :: "BackgroundRequest \<Rightarrow> BackgroundRequest list \<Rightarrow> bool"
  sc_attempt :: "TaskAttempt \<Rightarrow> TaskAttempt list \<Rightarrow> bool"
  sc_command :: "CatalogCommand \<Rightarrow> CatalogCommand list \<Rightarrow> bool"
  sc_server :: "Server \<Rightarrow> Server list \<Rightarrow> bool"
  sc_descriptor :: "DescriptorRow \<Rightarrow> DescriptorRow list \<Rightarrow> bool"
  sc_review :: "Review \<Rightarrow> Review list \<Rightarrow> bool"
  sc_grant :: "GrantRow \<Rightarrow> GrantRow list \<Rightarrow> bool"
  sc_decision :: "GrantDecision \<Rightarrow> GrantDecision list \<Rightarrow> bool"
  sc_call :: "ToolRequest \<Rightarrow> ToolRequest list \<Rightarrow> bool"

record env =
  e_now :: "nat \<Rightarrow> time"
  e_dbnow :: "nat \<Rightarrow> time"
  e_fault :: "nat \<Rightarrow> bool"
  e_commit :: "nat \<Rightarrow> commit_fate"
  e_others :: "nat \<Rightarrow> db \<Rightarrow> db"
  e_uuid :: "nat \<Rightarrow> string"
  e_jsonb :: "bytes \<Rightarrow> bytes option"
  e_schema :: schema

section \<open>Operations as state transformers with errors\<close>

type_synonym ('s, 'a) eff = "'s \<Rightarrow> (err + 'a) \<times> 's"
type_synonym 'a act = "(world, 'a) eff"

definition ok :: "'a \<Rightarrow> ('s, 'a) eff" where
  "ok x w = (Inr x, w)"

definition fail :: "err \<Rightarrow> ('s, 'a) eff" where
  "fail e w = (Inl e, w)"

definition seq :: "('s, 'a) eff \<Rightarrow> ('a \<Rightarrow> ('s, 'b) eff) \<Rightarrow> ('s, 'b) eff" where
  "seq m f w = (case m w of (Inl e, w') \<Rightarrow> (Inl e, w') | (Inr x, w') \<Rightarrow> f x w')"

text \<open>The caller looks at the error: \<open>x, err := m(); if err != nil ...\<close>\<close>
definition recover :: "('s, 'a) eff \<Rightarrow> (err + 'a \<Rightarrow> ('s, 'b) eff) \<Rightarrow> ('s, 'b) eff" where
  "recover m f w = (case m w of (r, w') \<Rightarrow> f r w')"

definition lift :: "err + 'a \<Rightarrow> ('s, 'a) eff" where
  "lift r w = (r, w)"

definition guard :: "bool \<Rightarrow> err \<Rightarrow> ('s, unit) eff" where
  "guard b e w = (if b then (Inr (), w) else (Inl e, w))"

definition check :: "err option \<Rightarrow> ('s, unit) eff" where
  "check r w = (case r of None \<Rightarrow> (Inr (), w) | Some e \<Rightarrow> (Inl e, w))"

definition tick :: "world \<Rightarrow> world" where
  "tick w = w\<lparr>w_tick := Suc (w_tick w)\<rparr>"

text \<open>\<open>clock.Now()\<close> and \<open>uuid.NewString()\<close>\<close>
definition clock_now :: "env \<Rightarrow> time act" where
  "clock_now E w = (Inr (e_now E (w_tick w)), tick w)"

definition new_uuid :: "env \<Rightarrow> string act" where
  "new_uuid E w = (Inr (e_uuid E (w_tick w)), tick w)"

text \<open>A call to another system: logged, then answered.\<close>
definition ext :: "ext_event \<Rightarrow> (nat \<Rightarrow> 'a) \<Rightarrow> 'a act" where
  "ext ev answer w = (Inr (answer (w_tick w)), (tick w)\<lparr>w_log := w_log w @ [ev]\<rparr>)"

text \<open>
  One query: it may fail as a whole (a lost connection, a cancelled context); otherwise it reads
  the database and the database clock, answers a value or an SQL error, and may change the database.
\<close>
definition query :: "env \<Rightarrow> (time \<Rightarrow> db \<Rightarrow> (err + 'a) \<times> db) \<Rightarrow> 'a act" where
  "query E q w =
     (if e_fault E (w_tick w) then (Inl (err ErrOther), tick w)
      else case q (trunc_us (e_dbnow E (w_tick w))) (w_db w) of
             (Inl e, _) \<Rightarrow> (Inl e, tick w)
           | (Inr x, d) \<Rightarrow> (Inr x, (tick w)\<lparr>w_db := d\<rparr>))"

text \<open>What other replicas did since the last interaction.\<close>
definition interfere :: "env \<Rightarrow> world \<Rightarrow> world" where
  "interfere E w = (tick w)\<lparr>w_db := e_others E (w_tick w) (w_db w)\<rparr>"

text \<open>A query on the pool, outside a transaction (\<open>Store.Queries\<close>).\<close>
definition pool_query :: "env \<Rightarrow> (time \<Rightarrow> db \<Rightarrow> (err + 'a) \<times> db) \<Rightarrow> 'a act" where
  "pool_query E q w = query E q (interfere E w)"

text \<open>
  \<open>Store.InTx\<close>: the body runs under its row locks; an error rolls the database back, a unique
  violation is reported as \<open>ErrDuplicateKey\<close>; the commit may be refused, or its answer may be lost
  after it took effect.
\<close>
definition dup_key :: "err \<Rightarrow> err" where
  "dup_key e = (if sentinel_of e = PgUniqueViolation then err ErrDuplicateKey else e)"

definition InTx :: "env \<Rightarrow> 'a act \<Rightarrow> 'a act" where
  "InTx E body w =
     (let w0 = interfere E w in
      if e_fault E (w_tick w0) then (Inl (err ErrOther), tick w0)
      else case body w0 of
             (Inl e, w1) \<Rightarrow> (Inl (dup_key e), (tick w1)\<lparr>w_db := w_db w0\<rparr>)
           | (Inr x, w1) \<Rightarrow>
              (case e_commit E (w_tick w1) of
                 Committed \<Rightarrow> (Inr x, tick w1)
               | CommitRefused \<Rightarrow> (Inl (err ErrOther), (tick w1)\<lparr>w_db := w_db w0\<rparr>)
               | CommitLost \<Rightarrow> (Inl (err ErrOther), tick w1)))"

section \<open>Reasoning about operations\<close>

named_theorems act_defs \<open>the combinators of operations\<close>

lemmas act_basic [act_defs] = ok_def fail_def lift_def guard_def check_def clock_now_def new_uuid_def ext_def

lemma seq_Inr: "seq m f w = (Inr y, w'') \<longleftrightarrow> (\<exists>x w'. m w = (Inr x, w') \<and> f x w' = (Inr y, w''))"
  by (auto simp: seq_def split: prod.splits sum.splits)

lemma recover_Inr:
  "recover m f w = (Inr y, w'') \<longleftrightarrow>
     (\<exists>e w'. m w = (Inl e, w') \<and> f (Inl e) w' = (Inr y, w'')) \<or>
     (\<exists>x w'. m w = (Inr x, w') \<and> f (Inr x) w' = (Inr y, w''))"
proof -
  obtain r w' where m: "m w = (r, w')" by force
  show ?thesis by (cases r) (simp_all add: recover_def m)
qed

lemma seq_InrE:
  assumes "seq m f w = (Inr y, w'')"
  obtains x w' where "m w = (Inr x, w')" "f x w' = (Inr y, w'')"
  using assms by (auto simp: seq_Inr)

lemma ok_Inr [simp]: "ok x w = (Inr y, w') \<longleftrightarrow> x = y \<and> w = w'"
  by (auto simp: ok_def)

lemma fail_Inr [simp]: "fail e w \<noteq> (Inr y, w')" "fail e w = (Inl e', w') \<longleftrightarrow> e = e' \<and> w = w'"
  by (auto simp: fail_def)

lemma lift_Inr [simp]: "lift r w = (Inr y, w') \<longleftrightarrow> r = Inr y \<and> w = w'"
  by (auto simp: lift_def)

lemma guard_Inr [simp]: "guard b e w = (Inr u, w') \<longleftrightarrow> b \<and> w = w'"
  by (auto simp: guard_def)

lemma check_Inr [simp]: "check r w = (Inr u, w') \<longleftrightarrow> r = None \<and> w = w'"
  by (auto simp: check_def split: option.splits)

lemma clock_now_Inr [simp]: "clock_now E w = (Inr y, w') \<longleftrightarrow> y = e_now E (w_tick w) \<and> w' = tick w"
  by (auto simp: clock_now_def)

lemma new_uuid_Inr [simp]: "new_uuid E w = (Inr y, w') \<longleftrightarrow> y = e_uuid E (w_tick w) \<and> w' = tick w"
  by (auto simp: new_uuid_def)

lemma tick_db [simp]: "w_db (tick w) = w_db w" "w_log (tick w) = w_log w" "w_tick (tick w) = Suc (w_tick w)"
  by (simp_all add: tick_def)

lemma query_Inr:
  "query E q w = (Inr x, w') \<longleftrightarrow>
     \<not> e_fault E (w_tick w) \<and>
     (\<exists>d. q (trunc_us (e_dbnow E (w_tick w))) (w_db w) = (Inr x, d) \<and> w' = (tick w)\<lparr>w_db := d\<rparr>)"
  by (auto simp: query_def split: prod.splits sum.splits)

text \<open>A query that only reads.\<close>
definition reads :: "(time \<Rightarrow> db \<Rightarrow> (err + 'a) \<times> db) \<Rightarrow> bool" where
  "reads q \<longleftrightarrow> (\<forall>t d. snd (q t d) = d)"

definition read :: "(db \<Rightarrow> err + 'a) \<Rightarrow> time \<Rightarrow> db \<Rightarrow> (err + 'a) \<times> db" where
  "read f t d = (f d, d)"

lemma reads_read [simp]: "reads (read f)"
  by (simp add: reads_def read_def)

lemma query_read_Inr:
  "query E (read f) w = (Inr x, w') \<longleftrightarrow> \<not> e_fault E (w_tick w) \<and> f (w_db w) = Inr x \<and> w' = tick w"
  by (auto simp: query_Inr read_def tick_def)

text \<open>
  Rely and guarantee.  A relation that contains no change and is closed under composition is kept
  by every operation whose committed transactions and single statements stay inside it, whatever
  fails, as long as the other replicas stay inside it too.
\<close>

definition keeps :: "(db \<Rightarrow> db \<Rightarrow> bool) \<Rightarrow> 'a act \<Rightarrow> bool" where
  "keeps R m \<longleftrightarrow> (\<forall>w. R (w_db w) (w_db (snd (m w))))"

definition commits :: "(db \<Rightarrow> db \<Rightarrow> bool) \<Rightarrow> 'a act \<Rightarrow> bool" where
  "commits R body \<longleftrightarrow> (\<forall>w x w'. body w = (Inr x, w') \<longrightarrow> R (w_db w) (w_db w'))"

definition rely :: "(db \<Rightarrow> db \<Rightarrow> bool) \<Rightarrow> env \<Rightarrow> bool" where
  "rely R E \<longleftrightarrow> (\<forall>n d. R d (e_others E n d))"

locale evolution =
  fixes R :: "db \<Rightarrow> db \<Rightarrow> bool"
  assumes R_refl: "R d d"
    and R_trans: "R d d' \<Longrightarrow> R d' d'' \<Longrightarrow> R d d''"
begin

lemma keeps_ok: "keeps R (ok x)"
  by (simp add: keeps_def ok_def R_refl)

lemma keeps_fail: "keeps R (fail e)"
  by (simp add: keeps_def fail_def R_refl)

lemma keeps_lift: "keeps R (lift r)"
  by (simp add: keeps_def lift_def R_refl)

lemma keeps_guard: "keeps R (guard b e)"
  by (simp add: keeps_def guard_def R_refl)

lemma keeps_check: "keeps R (check r)"
  by (simp add: keeps_def check_def R_refl split: option.splits)

lemma keeps_clock: "keeps R (clock_now E)"
  by (simp add: keeps_def clock_now_def R_refl)

lemma keeps_uuid: "keeps R (new_uuid E)"
  by (simp add: keeps_def new_uuid_def R_refl)

lemma keeps_ext: "keeps R (ext ev answer)"
  by (simp add: keeps_def ext_def R_refl)

lemma keeps_seq: "keeps R m \<Longrightarrow> (\<And>x. keeps R (f x)) \<Longrightarrow> keeps R (seq m f)"
  unfolding keeps_def seq_def
  by (auto split: prod.splits sum.splits) (metis R_trans snd_conv)+

lemma keeps_recover: "keeps R m \<Longrightarrow> (\<And>r. keeps R (f r)) \<Longrightarrow> keeps R (recover m f)"
  unfolding keeps_def recover_def
  by (auto split: prod.splits) (metis R_trans snd_conv)

lemma keeps_read_query: "keeps R (query E (read f))"
  by (auto simp: keeps_def query_def read_def R_refl split: sum.splits)

lemma R_interfere: "rely R E \<Longrightarrow> R (w_db w) (w_db (interfere E w))"
  by (simp add: rely_def interfere_def)

lemma keeps_pool_read: "rely R E \<Longrightarrow> keeps R (pool_query E (read f))"
  unfolding pool_query_def keeps_def
  using R_interfere keeps_read_query [of E f, unfolded keeps_def] R_trans by blast

lemma keeps_InTx:
  assumes "rely R E" "commits R body"
  shows "keeps R (InTx E body)"
  unfolding keeps_def
proof
  fix w
  let ?w0 = "interfere E w"
  have 0: "R (w_db w) (w_db ?w0)" using assms(1) by (rule R_interfere)
  obtain r w1 where b: "body ?w0 = (r, w1)" by force
  have 1: "R (w_db ?w0) (w_db w1)" if "r = Inr x" for x
    using assms(2) b that by (auto simp: commits_def)
  show "R (w_db w) (w_db (snd (InTx E body w)))"
    using 0 1 b by (cases r) (auto simp: InTx_def Let_def split: commit_fate.splits intro: R_trans)
qed

lemmas keeps_intros =
  keeps_ok keeps_fail keeps_lift keeps_guard keeps_check keeps_clock keeps_uuid keeps_ext keeps_seq
  keeps_recover keeps_read_query keeps_pool_read keeps_InTx

end

text \<open>Equality is such a relation: operations that leave the database alone.\<close>

interpretation unchanged: evolution "(=)"
  by unfold_locales simp_all

lemma keeps_eqD: "keeps (=) m \<Longrightarrow> m w = (r, w') \<Longrightarrow> w_db w' = w_db w"
  unfolding keeps_def by (metis snd_conv)

text \<open>
  Atomicity of a transaction: either everything its body wrote is in the database, or nothing is;
  an error the service sees from its body means nothing is.
\<close>

lemma InTx_atomic:
  assumes "InTx E body w = (r, w')"
  shows "w_db w' = w_db (interfere E w) \<or>
         (\<exists>x w1. body (interfere E w) = (Inr x, w1) \<and> w_db w' = w_db w1)"
    and "r = Inr x \<Longrightarrow> \<exists>w1. body (interfere E w) = (Inr x, w1) \<and> w' = tick w1"
  using assms
  by (auto simp: InTx_def Let_def split: if_splits prod.splits sum.splits commit_fate.splits)


end
