(* ===== verification/Queries.thy ===== *)
theory Queries
  imports Store
begin

text \<open>
  The statements of \<open>internal/adapters/postgres/sqlc\<close> over the tables of \<open>Store\<close>, and the row
  mapping of \<open>internal/adapters/postgres/store.go\<close>.  A statement is a function of the database
  clock and the database.  Text columns are ordered bytewise; \<open>FOR UPDATE\<close> and \<open>FOR SHARE\<close> read like
  the plain statement, since a transaction is not interleaved with another one.
\<close>

named_theorems sql \<open>the statements\<close>

section \<open>Row mapping\<close>

definition str :: "string option \<Rightarrow> string" where
  "str p = (case p of None \<Rightarrow> [] | Some s \<Rightarrow> s)"

definition optStr :: "string \<Rightarrow> string option" where
  "optStr s = (if s = [] then None else Some s)"

definition ts :: "time option \<Rightarrow> time" where
  "ts t = (case t of None \<Rightarrow> zero_time | Some x \<Rightarrow> x)"

definition optTs :: "time option \<Rightarrow> time option" where
  "optTs t = (case t of None \<Rightarrow> None | Some x \<Rightarrow> if IsZero x then None else Some x)"

definition optTime :: "time option \<Rightarrow> time option" where
  "optTime t = t"

text \<open>The conversions between Go's unsigned and PostgreSQL's signed integers.\<close>

definition int64 :: "u64 \<Rightarrow> int" where "int64 w = sint w"
definition uint64 :: "int \<Rightarrow> u64" where "uint64 i = word_of_int i"
definition int32 :: "u32 \<Rightarrow> int" where "int32 w = sint w"
definition uint32 :: "int \<Rightarrow> u32" where "uint32 i = word_of_int i"

lemma uint64_int64 [simp]: "uint64 (int64 w) = w"
  by (simp add: uint64_def int64_def)

lemma uint32_int32 [simp]: "uint32 (int32 w) = w"
  by (simp add: uint32_def int32_def)

lemma int64_inj [simp]: "int64 v = int64 w \<longleftrightarrow> v = w"
  by (metis uint64_int64)

lemma int32_inj [simp]: "int32 v = int32 w \<longleftrightarrow> v = w"
  by (metis uint32_int32)

lemma str_optStr [simp]: "str (optStr s) = s"
  by (simp add: str_def optStr_def)

definition TaskFromRow :: "BackgroundRequest \<Rightarrow> Task" where
  "TaskFromRow r =
     \<lparr>t_TaskID = br_TaskID r, t_Generation = uint64 (br_Generation r), t_TenantID = br_TenantID r,
      t_Kind = br_TaskKind r, t_InputDigest = br_InputDigest r, t_Input = br_Input r,
      t_State = br_State r, t_WorkerID = str (br_WorkerID r), t_LeaseUntil = ts (br_LeaseUntil r),
      t_AttemptCount = uint32 (br_AttemptCount r), t_MaxAttempts = uint32 (br_MaxAttempts r),
      t_ResultProfile = br_ResultProfile r, t_Effects = br_Effects r,
      t_DispatchID = str (br_DispatchID r), t_AuthorizationRef = br_AuthorizationRef r,
      t_RetryAt = br_RetryAt r, t_ResultRef = str (br_ResultRef r),
      t_ResultDigest = str (br_ResultDigest r), t_FailureCode = str (br_FailureCode r),
      t_Revision = uint64 (br_Revision r), t_CorrelationID = br_CorrelationID r\<rparr>"

definition AttemptFromRow :: "TaskAttempt \<Rightarrow> Attempt" where
  "AttemptFromRow r =
     \<lparr>a_Ordinal = uint32 (ta_Ordinal r), a_WorkerID = ta_WorkerID r, a_LeasedAt = ts (ta_LeasedAt r),
      a_LeaseUntil = ts (ta_LeaseUntil r), a_Outcome = str (ta_Outcome r)\<rparr>"

record UpdateRequestParams =
  up_TaskID :: string
  up_Generation :: int
  up_State :: TaskState
  up_WorkerID :: "string option"
  up_LeaseUntil :: "time option"
  up_AttemptCount :: int
  up_RetryAt :: "time option"
  up_ResultRef :: "string option"
  up_ResultDigest :: "string option"
  up_FailureCode :: "string option"
  up_Revision :: int
  up_CompletedAt :: "time option"
  up_ExpectedRevision :: int

definition UpdateParams :: "Task \<Rightarrow> u64 \<Rightarrow> time \<Rightarrow> UpdateRequestParams" where
  "UpdateParams t readRevision now =
     \<lparr>up_TaskID = t_TaskID t, up_Generation = int64 (t_Generation t), up_State = t_State t,
      up_WorkerID = optStr (t_WorkerID t),
      up_LeaseUntil = (if \<not> IsZero (t_LeaseUntil t) \<and> t_State t = StateLeased
                       then Some (t_LeaseUntil t) else None),
      up_AttemptCount = int32 (t_AttemptCount t), up_RetryAt = optTs (t_RetryAt t),
      up_ResultRef = optStr (t_ResultRef t), up_ResultDigest = optStr (t_ResultDigest t),
      up_FailureCode = optStr (t_FailureCode t), up_Revision = int64 (t_Revision t),
      up_CompletedAt = (if Terminal (t_State t) then Some now else None),
      up_ExpectedRevision = int64 readRevision\<rparr>"

text \<open>\<open>InsertParams\<close> together with the constants of the \<open>INSERT\<close> statement: no attempts, revision 1.\<close>

definition InsertParams :: "Task \<Rightarrow> BackgroundRequest" where
  "InsertParams t =
     \<lparr>br_TaskID = t_TaskID t, br_Generation = int64 (t_Generation t), br_TaskKind = t_Kind t,
      br_InputDigest = t_InputDigest t, br_Input = t_Input t, br_State = t_State t,
      br_WorkerID = None, br_LeaseUntil = None, br_AttemptCount = 0, br_ResultRef = None,
      br_ResultDigest = None, br_FailureCode = None, br_CreatedAt = None, br_UpdatedAt = None,
      br_TenantID = t_TenantID t, br_Revision = 1, br_ResultProfile = t_ResultProfile t,
      br_Effects = t_Effects t, br_DispatchID = optStr (t_DispatchID t),
      br_AuthorizationRef = t_AuthorizationRef t, br_MaxAttempts = int32 (t_MaxAttempts t),
      br_RetryAt = None, br_CorrelationID = t_CorrelationID t, br_CompletedAt = None\<rparr>"

definition DescriptorFromRow :: "DescriptorRow \<Rightarrow> Server \<Rightarrow> err + Descriptor" where
  "DescriptorFromRow r s =
     (case (dr_Tools r, dr_Resources r, dr_Prompts r, dr_InputSchemas r) of
        (Jsonb tools, Jsonb resources, Jsonb prompts, Jsonb schemas) \<Rightarrow> Inr
          \<lparr>d_ServerID = dr_ServerID r, d_TenantID = sv_TenantID s, d_Revision = uint64 (dr_Revision r),
           d_CanonicalResource = sv_CanonicalResource s, d_Transport = sv_Transport s,
           d_ProtocolVersion = dr_ProtocolVersion r, d_Provenance = dr_Provenance r,
           d_Digest = dr_DescriptorDigest r, d_Tools = tools, d_Resources = resources,
           d_Prompts = prompts, d_ResourcesDigest = dr_ResourcesDigest r,
           d_PromptsDigest = dr_PromptsDigest r, d_ServerName = dr_ServerName r,
           d_ServerVersion = dr_ServerVersion r, d_DataClass = dr_DataClass r,
           d_NetworkScope = dr_NetworkScope r, d_Licenses = dr_Licenses r,
           d_InputSchemas = schemas, d_Issuer = dr_Issuer r,
           d_RevisionEvidence = dr_RevisionEvidence r, d_ConnectionRef = dr_ConnectionRef r,
           d_State = dr_State r, d_DiscoveredBy = dr_DiscoveredBy r, d_Reviewer = str (dr_Reviewer r),
           d_ReviewID = str (dr_ReviewID r), d_CreatedAt = ts (dr_CreatedAt r),
           d_UpdatedAt = ts (dr_UpdatedAt r)\<rparr>
      | _ \<Rightarrow> Inl (err ErrOther))"

definition GrantFromRow :: "GrantRow \<Rightarrow> Grant" where
  "GrantFromRow r =
     \<lparr>g_GrantID = gw_GrantID r, g_Revision = uint64 (gw_Revision r), g_TenantID = gw_TenantID r,
      g_SubjectType = gw_SubjectType r, g_SubjectID = gw_SubjectID r, g_ServerID = gw_ServerID r,
      g_DescriptorRevision = uint64 (gw_DescriptorRevision r),
      g_DescriptorDigest = gw_DescriptorDigest r, g_CanonicalResource = gw_CanonicalResource r,
      g_Transport = gw_Transport r, g_ProtocolVersion = gw_ProtocolVersion r,
      g_Issuer = gw_Issuer r, g_Audience = gw_Audience r, g_Methods = gw_Methods r,
      g_ResourceSelectors = gw_ResourceSelectors r, g_PromptSelectors = gw_PromptSelectors r,
      g_Purpose = gw_Purpose r, g_DataClass = gw_DataClass r,
      g_CostCap = \<lparr>m_Currency = gw_CostCapCurrency r, m_Amount = gw_CostCapAmount r\<rparr>,
      g_ExpiresAt = gw_ExpiresAt r, g_PolicyDigest = gw_PolicyDigest r,
      g_PolicyEpoch = (case gw_PolicyEpoch r of None \<Rightarrow> 0 | Some e \<Rightarrow> uint64 e),
      g_State = gw_State r, g_ControlReceiptID = str (gw_ControlReceiptID r),
      g_FailureCode = str (gw_FailureCode r), g_RegistrationCmdID = gw_RegistrationCommandID r,
      g_RevocationCmdID = str (gw_RevocationCommandID r), g_FencedAt = gw_FencedAt r,
      g_InFlightCalls = uint64 (gw_InFlightCalls r), g_UnknownCalls = uint64 (gw_UnknownCalls r),
      g_ControlState = gw_ControlState r, g_RevokedAt = gw_RevokedAt r,
      g_CommandID = gw_CommandID r, g_RequestDigest = gw_RequestDigest r,
      g_CreatedAt = ts (gw_CreatedAt r), g_UpdatedAt = ts (gw_UpdatedAt r)\<rparr>"

record UpdateGrantBarrierParams =
  bp_GrantID :: string
  bp_State :: GrantState
  bp_ControlReceiptID :: "string option"
  bp_PolicyEpoch :: "int option"
  bp_FailureCode :: "string option"
  bp_RevocationCommandID :: "string option"
  bp_FencedAt :: "time option"
  bp_InFlightCalls :: int
  bp_UnknownCalls :: int
  bp_ControlState :: string
  bp_RevokedAt :: "time option"
  bp_ExpectedState :: GrantState

definition BarrierParams :: "Grant \<Rightarrow> GrantState \<Rightarrow> UpdateGrantBarrierParams" where
  "BarrierParams g expected =
     \<lparr>bp_GrantID = g_GrantID g, bp_State = g_State g, bp_ControlReceiptID = optStr (g_ControlReceiptID g),
      bp_PolicyEpoch = (if g_PolicyEpoch g \<noteq> 0 then Some (int64 (g_PolicyEpoch g)) else None),
      bp_FailureCode = optStr (g_FailureCode g), bp_RevocationCommandID = optStr (g_RevocationCmdID g),
      bp_FencedAt = optTs (g_FencedAt g), bp_InFlightCalls = int64 (g_InFlightCalls g),
      bp_UnknownCalls = int64 (g_UnknownCalls g), bp_ControlState = g_ControlState g,
      bp_RevokedAt = optTs (g_RevokedAt g), bp_ExpectedState = expected\<rparr>"

definition CallFromRow :: "ToolRequest \<Rightarrow> Call" where
  "CallFromRow r =
     \<lparr>c_CallID = tr_CallID r, c_TenantID = tr_TenantID r, c_GrantID = tr_GrantID r,
      c_GrantRevision = uint64 (tr_GrantRevision r), c_ServerID = tr_ServerID r,
      c_DescriptorRevision = uint64 (tr_DescriptorRevision r),
      c_DescriptorDigest = tr_DescriptorDigest r, c_ProtocolVersion = tr_ProtocolVersion r,
      c_Transport = tr_Transport r, c_Route = tr_Route r, c_Method = tr_Method r,
      c_SideEffecting = tr_SideEffecting r,
      c_Exposure = \<lparr>m_Currency = tr_ExposureCurrency r, m_Amount = tr_ExposureAmount r\<rparr>,
      c_ArgumentRef = tr_ArgumentRef r, c_ArgumentDigest = tr_ArgumentDigest r,
      c_Arguments = tr_Arguments r, c_OperationID = str (tr_OperationID r),
      c_AttemptID = str (tr_AttemptID r), c_InstanceID = tr_InstanceID r,
      c_ExecutionEpoch = uint64 (tr_ExecutionEpoch r), c_State = tr_State r,
      c_DispatchID = str (tr_ControlDispatchID r), c_FailureCode = str (tr_FailureCode r),
      c_Result = tr_Result r, c_ResultDigest = str (tr_ResultDigest r),
      c_ResultRef = str (tr_ResultRef r), c_UsageUnits = map_option uint64 (tr_UsageUnits r),
      c_SendMarkerAt = optTime (tr_SendMarkerAt r), c_ObservedAt = optTime (tr_ObservedAt r),
      c_ObservationSeq = uint64 (tr_ObservationSequence r), c_CommandID = tr_CommandID r,
      c_RequestDigest = tr_RequestDigest r, c_Deadline = ts (tr_Deadline r),
      c_CreatedAt = ts (tr_CreatedAt r), c_UpdatedAt = ts (tr_UpdatedAt r)\<rparr>"

section \<open>Statement forms\<close>

definition one_row :: "'a list \<Rightarrow> err + 'a" where
  "one_row rows = (case rows of [] \<Rightarrow> Inl (err ErrNoRows) | r # _ \<Rightarrow> Inr r)"

definition update_where :: "('a \<Rightarrow> bool) \<Rightarrow> ('a \<Rightarrow> 'a) \<Rightarrow> 'a list \<Rightarrow> 'a list" where
  "update_where P f rows = map (\<lambda>r. if P r then f r else r) rows"

definition count_where :: "('a \<Rightarrow> bool) \<Rightarrow> 'a list \<Rightarrow> int" where
  "count_where P rows = int (length (filter P rows))"

text \<open>\<open>INSERT\<close>: a violated unique constraint is an error and adds nothing.\<close>
definition insert_row ::
  "('a \<Rightarrow> 'a list \<Rightarrow> bool) \<Rightarrow> 'a \<Rightarrow> (db \<Rightarrow> 'a list) \<Rightarrow> (('a list \<Rightarrow> 'a list) \<Rightarrow> db \<Rightarrow> db)
     \<Rightarrow> db \<Rightarrow> (err + unit) \<times> db" where
  "insert_row violates row get upd d =
     (if violates row (get d) then (Inl (err PgUniqueViolation), d)
      else (Inr (), upd (\<lambda>rows. rows @ [row]) d))"

text \<open>What an insertion does to the table it names.\<close>

lemma insert_row_table:
  shows "insert_row v0 row0 db_requests db_requests_update d = (if v0 row0 (db_requests d) then (Inl (err PgUniqueViolation), d)
       else (Inr (), d\<lparr>db_requests := db_requests d @ [row0]\<rparr>))"
    and "insert_row v1 row1 db_attempts db_attempts_update d = (if v1 row1 (db_attempts d) then (Inl (err PgUniqueViolation), d)
       else (Inr (), d\<lparr>db_attempts := db_attempts d @ [row1]\<rparr>))"
    and "insert_row v2 row2 db_commands db_commands_update d = (if v2 row2 (db_commands d) then (Inl (err PgUniqueViolation), d)
       else (Inr (), d\<lparr>db_commands := db_commands d @ [row2]\<rparr>))"
    and "insert_row v3 row3 db_servers db_servers_update d = (if v3 row3 (db_servers d) then (Inl (err PgUniqueViolation), d)
       else (Inr (), d\<lparr>db_servers := db_servers d @ [row3]\<rparr>))"
    and "insert_row v4 row4 db_descriptors db_descriptors_update d = (if v4 row4 (db_descriptors d) then (Inl (err PgUniqueViolation), d)
       else (Inr (), d\<lparr>db_descriptors := db_descriptors d @ [row4]\<rparr>))"
    and "insert_row v5 row5 db_reviews db_reviews_update d = (if v5 row5 (db_reviews d) then (Inl (err PgUniqueViolation), d)
       else (Inr (), d\<lparr>db_reviews := db_reviews d @ [row5]\<rparr>))"
    and "insert_row v6 row6 db_grants db_grants_update d = (if v6 row6 (db_grants d) then (Inl (err PgUniqueViolation), d)
       else (Inr (), d\<lparr>db_grants := db_grants d @ [row6]\<rparr>))"
    and "insert_row v7 row7 db_decisions db_decisions_update d = (if v7 row7 (db_decisions d) then (Inl (err PgUniqueViolation), d)
       else (Inr (), d\<lparr>db_decisions := db_decisions d @ [row7]\<rparr>))"
    and "insert_row v8 row8 db_calls db_calls_update d = (if v8 row8 (db_calls d) then (Inl (err PgUniqueViolation), d)
       else (Inr (), d\<lparr>db_calls := db_calls d @ [row8]\<rparr>))"
  by (simp_all add: insert_row_def)

lemma length_update_where [simp]: "length (update_where P f rows) = length rows"
  by (simp add: update_where_def)

lemma in_update_where:
  "r' \<in> set (update_where P f rows) \<longleftrightarrow> (\<exists>r \<in> set rows. r' = (if P r then f r else r))"
  by (auto simp: update_where_def)

section \<open>Background requests\<close>

definition request_key :: "string \<Rightarrow> int \<Rightarrow> BackgroundRequest \<Rightarrow> bool" where
  "request_key taskID gen r \<longleftrightarrow> br_TaskID r = taskID \<and> br_Generation r = gen"

definition attempt_key :: "string \<Rightarrow> int \<Rightarrow> TaskAttempt \<Rightarrow> bool" where
  "attempt_key taskID gen r \<longleftrightarrow> ta_TaskID r = taskID \<and> ta_Generation r = gen"

definition GetRequest :: "string \<Rightarrow> int \<Rightarrow> time \<Rightarrow> db \<Rightarrow> (err + BackgroundRequest) \<times> db" where
  "GetRequest taskID gen = read (\<lambda>d. one_row (filter (request_key taskID gen) (db_requests d)))"

definition GetRequestForUpdate :: "string \<Rightarrow> int \<Rightarrow> time \<Rightarrow> db \<Rightarrow> (err + BackgroundRequest) \<times> db" where
  "GetRequestForUpdate taskID gen = read (\<lambda>d. one_row (filter (request_key taskID gen) (db_requests d)))"

definition latest :: "string \<Rightarrow> db \<Rightarrow> BackgroundRequest list" where
  "latest taskID d =
     take 1 (rev (sort_key br_Generation (filter (\<lambda>r. br_TaskID r = taskID) (db_requests d))))"

definition GetLatestRequestForUpdate :: "string \<Rightarrow> time \<Rightarrow> db \<Rightarrow> (err + BackgroundRequest) \<times> db" where
  "GetLatestRequestForUpdate taskID = read (\<lambda>d. one_row (latest taskID d))"

definition GetLatestRequest :: "string \<Rightarrow> time \<Rightarrow> db \<Rightarrow> (err + BackgroundRequest) \<times> db" where
  "GetLatestRequest taskID = read (\<lambda>d. one_row (latest taskID d))"

definition InsertRequest :: "schema \<Rightarrow> BackgroundRequest \<Rightarrow> time \<Rightarrow> db \<Rightarrow> (err + unit) \<times> db" where
  "InsertRequest sc row t d =
     insert_row (sc_request sc) (row\<lparr>br_CreatedAt := Some t, br_UpdatedAt := Some t\<rparr>)
       db_requests db_requests_update d"

definition updated_request :: "UpdateRequestParams \<Rightarrow> time \<Rightarrow> BackgroundRequest \<Rightarrow> BackgroundRequest" where
  "updated_request p t r =
     r\<lparr>br_State := up_State p, br_WorkerID := up_WorkerID p,
       br_LeaseUntil := map_option trunc_us (up_LeaseUntil p), br_AttemptCount := up_AttemptCount p,
       br_RetryAt := map_option trunc_us (up_RetryAt p), br_ResultRef := up_ResultRef p,
       br_ResultDigest := up_ResultDigest p, br_FailureCode := up_FailureCode p,
       br_Revision := up_Revision p, br_CompletedAt := map_option trunc_us (up_CompletedAt p),
       br_UpdatedAt := Some t\<rparr>"

definition UpdateRequest :: "UpdateRequestParams \<Rightarrow> time \<Rightarrow> db \<Rightarrow> (err + int) \<times> db" where
  "UpdateRequest p t d =
     (let P = (\<lambda>r. request_key (up_TaskID p) (up_Generation p) r \<and> br_Revision r = up_ExpectedRevision p)
      in (Inr (count_where P (db_requests d)),
          d\<lparr>db_requests := update_where P (updated_request p t) (db_requests d)\<rparr>))"

definition ListAttempts :: "string \<Rightarrow> int \<Rightarrow> time \<Rightarrow> db \<Rightarrow> (err + TaskAttempt list) \<times> db" where
  "ListAttempts taskID gen =
     read (\<lambda>d. Inr (sort_key ta_Ordinal (filter (attempt_key taskID gen) (db_attempts d))))"

definition InsertAttempt ::
  "schema \<Rightarrow> string \<Rightarrow> int \<Rightarrow> int \<Rightarrow> string \<Rightarrow> time \<Rightarrow> time \<Rightarrow> time \<Rightarrow> db \<Rightarrow> (err + unit) \<times> db" where
  "InsertAttempt sc taskID gen ordinal workerID leasedAt leaseUntil t d =
     insert_row (sc_attempt sc)
       \<lparr>ta_TaskID = taskID, ta_Generation = gen, ta_Ordinal = ordinal, ta_WorkerID = workerID,
        ta_LeasedAt = Some (trunc_us leasedAt), ta_LeaseUntil = Some (trunc_us leaseUntil),
        ta_Outcome = None, ta_SubmittedAt = None\<rparr> db_attempts db_attempts_update d"

definition SetAttemptOutcome ::
  "string \<Rightarrow> int \<Rightarrow> int \<Rightarrow> string option \<Rightarrow> time \<Rightarrow> time \<Rightarrow> db \<Rightarrow> (err + unit) \<times> db" where
  "SetAttemptOutcome taskID gen ordinal outcome submittedAt t d =
     (Inr (), d\<lparr>db_attempts := update_where (\<lambda>r. attempt_key taskID gen r \<and> ta_Ordinal r = ordinal)
        (\<lambda>r. r\<lparr>ta_Outcome := outcome, ta_SubmittedAt := Some (trunc_us submittedAt)\<rparr>) (db_attempts d)\<rparr>)"

definition ListExpiredLeases :: "time \<Rightarrow> int \<Rightarrow> time \<Rightarrow> db \<Rightarrow> (err + (string \<times> int) list) \<times> db" where
  "ListExpiredLeases leaseUntil limit =
     read (\<lambda>d. Inr (map (\<lambda>r. (br_TaskID r, br_Generation r))
       (take (nat limit) (sort_key (\<lambda>r. ts (br_LeaseUntil r))
         (filter (\<lambda>r. br_State r = StateLeased \<and>
            (case br_LeaseUntil r of None \<Rightarrow> False | Some u \<Rightarrow> u < trunc_us leaseUntil)) (db_requests d))))))"

record GrantStateRow =
  gs_TenantID :: string
  gs_State :: GrantState
  gs_ExpiresAt :: "time option"
  gs_ControlReceiptID :: "string option"

definition GetGrantState :: "string \<Rightarrow> time \<Rightarrow> db \<Rightarrow> (err + GrantStateRow) \<times> db" where
  "GetGrantState grantID = read (\<lambda>d. one_row (map
     (\<lambda>r. \<lparr>gs_TenantID = gw_TenantID r, gs_State = gw_State r, gs_ExpiresAt = gw_ExpiresAt r,
           gs_ControlReceiptID = gw_ControlReceiptID r\<rparr>)
     (filter (\<lambda>r. gw_GrantID r = grantID) (db_grants d))))"

definition CountRequestsByState :: "time \<Rightarrow> db \<Rightarrow> (err + (TaskState \<times> int) list) \<times> db" where
  "CountRequestsByState = read (\<lambda>d. Inr
     (map (\<lambda>s. (s, count_where (\<lambda>r. br_State r = s) (db_requests d)))
       (remdups (map br_State (db_requests d)))))"

definition CountOverdueRetries :: "time \<Rightarrow> time \<Rightarrow> db \<Rightarrow> (err + int) \<times> db" where
  "CountOverdueRetries retryAt = read (\<lambda>d. Inr (count_where (\<lambda>r. br_State r = StateRetryScheduled \<and>
     (case br_RetryAt r of None \<Rightarrow> False | Some u \<Rightarrow> u < trunc_us retryAt)) (db_requests d)))"

definition CanonicalJSON :: "env \<Rightarrow> bytes \<Rightarrow> time \<Rightarrow> db \<Rightarrow> (err + bytes) \<times> db" where
  "CanonicalJSON E input = read (\<lambda>d. case e_jsonb E input of None \<Rightarrow> Inl (err ErrOther) | Some c \<Rightarrow> Inr c)"

section \<open>Catalog\<close>

definition GetServerByResourceForUpdate :: "string \<Rightarrow> string \<Rightarrow> time \<Rightarrow> db \<Rightarrow> (err + Server) \<times> db" where
  "GetServerByResourceForUpdate tenantID resource =
     read (\<lambda>d. one_row (filter (\<lambda>s. sv_TenantID s = tenantID \<and> sv_CanonicalResource s = resource) (db_servers d)))"

definition InsertServer :: "schema \<Rightarrow> string \<Rightarrow> string \<Rightarrow> string \<Rightarrow> string \<Rightarrow> time \<Rightarrow> db \<Rightarrow> (err + unit) \<times> db" where
  "InsertServer sc serverID tenantID resource transport t d =
     insert_row (sc_server sc)
       \<lparr>sv_ServerID = serverID, sv_TenantID = tenantID, sv_CanonicalResource = resource,
        sv_Transport = transport, sv_CurrentRevision = 0, sv_CreatedAt = Some t\<rparr>
       db_servers db_servers_update d"

definition SetServerRevision :: "string \<Rightarrow> int \<Rightarrow> time \<Rightarrow> db \<Rightarrow> (err + unit) \<times> db" where
  "SetServerRevision serverID revision t d =
     (Inr (), d\<lparr>db_servers := update_where (\<lambda>s. sv_ServerID s = serverID)
        (\<lambda>s. s\<lparr>sv_CurrentRevision := revision\<rparr>) (db_servers d)\<rparr>)"

definition GetServer :: "string \<Rightarrow> time \<Rightarrow> db \<Rightarrow> (err + Server) \<times> db" where
  "GetServer serverID = read (\<lambda>d. one_row (filter (\<lambda>s. sv_ServerID s = serverID) (db_servers d)))"

definition descriptor_key :: "string \<Rightarrow> int \<Rightarrow> DescriptorRow \<Rightarrow> bool" where
  "descriptor_key serverID revision r \<longleftrightarrow> dr_ServerID r = serverID \<and> dr_Revision r = revision"

definition GetDescriptor :: "string \<Rightarrow> int \<Rightarrow> time \<Rightarrow> db \<Rightarrow> (err + DescriptorRow) \<times> db" where
  "GetDescriptor serverID revision =
     read (\<lambda>d. one_row (filter (descriptor_key serverID revision) (db_descriptors d)))"

definition GetDescriptorForUpdate :: "string \<Rightarrow> int \<Rightarrow> time \<Rightarrow> db \<Rightarrow> (err + DescriptorRow) \<times> db" where
  "GetDescriptorForUpdate serverID revision =
     read (\<lambda>d. one_row (filter (descriptor_key serverID revision) (db_descriptors d)))"

definition GetDescriptorByDigest :: "string \<Rightarrow> string \<Rightarrow> time \<Rightarrow> db \<Rightarrow> (err + DescriptorRow) \<times> db" where
  "GetDescriptorByDigest serverID digest =
     read (\<lambda>d. one_row (filter (\<lambda>r. dr_ServerID r = serverID \<and> dr_DescriptorDigest r = digest) (db_descriptors d)))"

text \<open>The row of a new revision; reviewer, review and the timestamps are not inserted.\<close>
definition InsertDescriptor :: "schema \<Rightarrow> DescriptorRow \<Rightarrow> time \<Rightarrow> db \<Rightarrow> (err + unit) \<times> db" where
  "InsertDescriptor sc row t d =
     insert_row (sc_descriptor sc)
       (row\<lparr>dr_CreatedAt := Some t, dr_UpdatedAt := Some t, dr_Reviewer := None, dr_ReviewID := None\<rparr>)
       db_descriptors db_descriptors_update d"

definition UpdateDescriptorState ::
  "string \<Rightarrow> int \<Rightarrow> CatalogState \<Rightarrow> string option \<Rightarrow> string option \<Rightarrow> time \<Rightarrow> db \<Rightarrow> (err + unit) \<times> db" where
  "UpdateDescriptorState serverID revision state reviewer reviewID t d =
     (Inr (), d\<lparr>db_descriptors := update_where (descriptor_key serverID revision)
        (\<lambda>r. r\<lparr>dr_State := state,
               dr_Reviewer := (if reviewer = None then dr_Reviewer r else reviewer),
               dr_ReviewID := (if reviewID = None then dr_ReviewID r else reviewID),
               dr_UpdatedAt := Some t\<rparr>) (db_descriptors d)\<rparr>)"

definition ListDescriptors ::
  "string \<Rightarrow> string \<Rightarrow> bool \<Rightarrow> string \<Rightarrow> int \<Rightarrow> int \<Rightarrow> time \<Rightarrow> db \<Rightarrow> (err + DescriptorRow list) \<times> db" where
  "ListDescriptors tenantID state includePending afterServer afterRevision limit =
     read (\<lambda>d. Inr (take (nat limit) (sort_key dr_ServerID (sort_key dr_Revision
       (filter (\<lambda>r. (\<exists>s \<in> set (db_servers d). sv_ServerID s = dr_ServerID r \<and> sv_TenantID s = tenantID)
          \<and> (state = [] \<or> CatalogState_string (dr_State r) = state)
          \<and> (includePending \<or> dr_State r \<in> {CatalogApproved, CatalogDisabled})
          \<and> (afterServer < dr_ServerID r \<or> (afterServer = dr_ServerID r \<and> afterRevision < dr_Revision r)))
        (db_descriptors d))))))"

definition InsertReview :: "schema \<Rightarrow> Review \<Rightarrow> time \<Rightarrow> db \<Rightarrow> (err + unit) \<times> db" where
  "InsertReview sc row t d =
     insert_row (sc_review sc) (row\<lparr>rv_DecidedAt := Some t\<rparr>) db_reviews db_reviews_update d"

definition GetCatalogCommand :: "string \<Rightarrow> string \<Rightarrow> time \<Rightarrow> db \<Rightarrow> (err + CatalogCommand) \<times> db" where
  "GetCatalogCommand tenantID commandID =
     read (\<lambda>d. one_row (filter (\<lambda>c. cc_TenantID c = tenantID \<and> cc_CommandID c = commandID) (db_commands d)))"

definition InsertCatalogCommand :: "schema \<Rightarrow> CatalogCommand \<Rightarrow> time \<Rightarrow> db \<Rightarrow> (err + unit) \<times> db" where
  "InsertCatalogCommand sc row t d =
     insert_row (sc_command sc) (row\<lparr>cc_CreatedAt := Some t\<rparr>) db_commands db_commands_update d"

section \<open>Grants\<close>

definition GetGrant :: "string \<Rightarrow> time \<Rightarrow> db \<Rightarrow> (err + GrantRow) \<times> db" where
  "GetGrant grantID = read (\<lambda>d. one_row (filter (\<lambda>r. gw_GrantID r = grantID) (db_grants d)))"

definition GetGrantForUpdate :: "string \<Rightarrow> time \<Rightarrow> db \<Rightarrow> (err + GrantRow) \<times> db" where
  "GetGrantForUpdate grantID = read (\<lambda>d. one_row (filter (\<lambda>r. gw_GrantID r = grantID) (db_grants d)))"

definition GetGrantForShare :: "string \<Rightarrow> time \<Rightarrow> db \<Rightarrow> (err + GrantRow) \<times> db" where
  "GetGrantForShare grantID = read (\<lambda>d. one_row (filter (\<lambda>r. gw_GrantID r = grantID) (db_grants d)))"

definition GetGrantByCommand :: "string \<Rightarrow> string \<Rightarrow> time \<Rightarrow> db \<Rightarrow> (err + GrantRow) \<times> db" where
  "GetGrantByCommand tenantID commandID =
     read (\<lambda>d. one_row (filter (\<lambda>r. gw_TenantID r = tenantID \<and> gw_CommandID r = commandID) (db_grants d)))"

text \<open>The row of a new grant; the barrier columns start at their defaults.\<close>
definition InsertGrant :: "schema \<Rightarrow> GrantRow \<Rightarrow> time \<Rightarrow> db \<Rightarrow> (err + unit) \<times> db" where
  "InsertGrant sc row t d =
     insert_row (sc_grant sc)
       (row\<lparr>gw_CreatedAt := Some t, gw_UpdatedAt := Some t, gw_ExpiresAt := map_option trunc_us (gw_ExpiresAt row),
            gw_ControlReceiptID := None, gw_PolicyEpoch := None, gw_FailureCode := None,
            gw_RevocationCommandID := None, gw_FencedAt := None, gw_InFlightCalls := 0,
            gw_UnknownCalls := 0, gw_ControlState := ''none'', gw_RevokedAt := None\<rparr>)
       db_grants db_grants_update d"

definition barrier_row :: "UpdateGrantBarrierParams \<Rightarrow> time \<Rightarrow> GrantRow \<Rightarrow> GrantRow" where
  "barrier_row p t r =
     r\<lparr>gw_State := bp_State p, gw_ControlReceiptID := bp_ControlReceiptID p,
       gw_PolicyEpoch := bp_PolicyEpoch p, gw_FailureCode := bp_FailureCode p,
       gw_RevocationCommandID := bp_RevocationCommandID p,
       gw_FencedAt := map_option trunc_us (bp_FencedAt p), gw_InFlightCalls := bp_InFlightCalls p,
       gw_UnknownCalls := bp_UnknownCalls p, gw_ControlState := bp_ControlState p,
       gw_RevokedAt := map_option trunc_us (bp_RevokedAt p), gw_UpdatedAt := Some t\<rparr>"

definition UpdateGrantBarrier :: "UpdateGrantBarrierParams \<Rightarrow> time \<Rightarrow> db \<Rightarrow> (err + int) \<times> db" where
  "UpdateGrantBarrier p t d =
     (let P = (\<lambda>r. gw_GrantID r = bp_GrantID p \<and> gw_State r = bp_ExpectedState p)
      in (Inr (count_where P (db_grants d)),
          d\<lparr>db_grants := update_where P (barrier_row p t) (db_grants d)\<rparr>))"

definition InsertGrantDecision :: "schema \<Rightarrow> GrantDecision \<Rightarrow> time \<Rightarrow> db \<Rightarrow> (err + unit) \<times> db" where
  "InsertGrantDecision sc row t d =
     insert_row (sc_decision sc) (row\<lparr>gd_DecidedAt := Some t\<rparr>) db_decisions db_decisions_update d"

definition GetGrantDecisionByCommand ::
  "string \<Rightarrow> string \<Rightarrow> string \<Rightarrow> time \<Rightarrow> db \<Rightarrow> (err + GrantDecision) \<times> db" where
  "GetGrantDecisionByCommand tenantID commandID decision =
     read (\<lambda>d. one_row (filter (\<lambda>r. gd_TenantID r = tenantID \<and> gd_CommandID r = commandID
       \<and> gd_Decision r = decision) (db_decisions d)))"

text \<open>The first revoke decision of a grant revision (none: a null \<open>min\<close>) and the database clock.\<close>
definition GetRevocationRequest :: "string \<Rightarrow> int \<Rightarrow> time \<Rightarrow> db \<Rightarrow> (err + time option \<times> time) \<times> db" where
  "GetRevocationRequest grantID toRevision t d =
     (let at = List.map_filter gd_DecidedAt (filter (\<lambda>r. gd_GrantID r = grantID \<and> gd_ToRevision r = toRevision
          \<and> gd_Decision r = ''revoke'') (db_decisions d))
      in (Inr (if at = [] then None else Some (Min (set at)), t), d))"

text \<open>\<open>subject_type\<close> decides who may read a grant; an empty state filter matches every state.\<close>
definition ListGrants ::
  "string \<Rightarrow> string \<Rightarrow> bool \<Rightarrow> string \<Rightarrow> string \<Rightarrow> string \<Rightarrow> int \<Rightarrow> time \<Rightarrow> db
     \<Rightarrow> (err + GrantRow list) \<times> db" where
  "ListGrants tenantID state readAll projectID actorID afterGrant limit =
     read (\<lambda>d. Inr (take (nat limit) (sort_key gw_GrantID
       (filter (\<lambda>r. gw_TenantID r = tenantID \<and> (state = [] \<or> GrantState_string (gw_State r) = state)
          \<and> (readAll \<or> gw_SubjectType r = ''tenant''
             \<or> (gw_SubjectType r = ''project'' \<and> gw_SubjectID r = projectID)
             \<or> (gw_SubjectType r = ''actor'' \<and> gw_SubjectID r = actorID))
          \<and> afterGrant < gw_GrantID r) (db_grants d)))))"

definition ListOpenBarriers :: "duration \<Rightarrow> int \<Rightarrow> time \<Rightarrow> db \<Rightarrow> (err + string list) \<times> db" where
  "ListOpenBarriers age limit t d =
     (Inr (map gw_GrantID (take (nat limit) (sort_key (\<lambda>r. ts (gw_UpdatedAt r))
        (filter (\<lambda>r. gw_State r \<in> {GrantPending, GrantRevoking} \<and> ts (gw_UpdatedAt r) \<le> t - age)
          (db_grants d))))), d)"

definition ListGrantsOfDescriptor :: "string \<Rightarrow> int \<Rightarrow> time \<Rightarrow> db \<Rightarrow> (err + string list) \<times> db" where
  "ListGrantsOfDescriptor serverID revision =
     read (\<lambda>d. Inr (sort_strings (map gw_GrantID (filter (\<lambda>r. gw_ServerID r = serverID
       \<and> gw_DescriptorRevision r = revision \<and> gw_State r \<in> {GrantPending, GrantActive}) (db_grants d)))))"

definition ListExpiredGrants :: "time \<Rightarrow> int \<Rightarrow> time \<Rightarrow> db \<Rightarrow> (err + string list) \<times> db" where
  "ListExpiredGrants at limit =
     read (\<lambda>d. Inr (map gw_GrantID (take (nat limit) (sort_key (\<lambda>r. ts (gw_ExpiresAt r))
       (filter (\<lambda>r. gw_State r = GrantActive \<and>
          (case gw_ExpiresAt r of None \<Rightarrow> False | Some ex \<Rightarrow> ex \<le> trunc_us at)) (db_grants d))))))"

definition CountOpenToolRequests :: "string \<Rightarrow> int \<Rightarrow> time \<Rightarrow> db \<Rightarrow> (err + int) \<times> db" where
  "CountOpenToolRequests grantID revision =
     read (\<lambda>d. Inr (count_where (\<lambda>r. tr_GrantID r = grantID \<and> tr_GrantRevision r = revision
       \<and> tr_State r \<in> {CallAccepted, CallAdmitted, CallSent, CallUnknown}) (db_calls d)))"

definition NextEventRevision :: "string \<Rightarrow> string \<Rightarrow> time \<Rightarrow> db \<Rightarrow> (err + int) \<times> db" where
  "NextEventRevision aggregateType aggregateID t d =
     (let P = (\<lambda>r. er_AggregateType r = aggregateType \<and> er_AggregateID r = aggregateID) in
      case find P (db_event_revisions d) of
        None \<Rightarrow> (Inr 1, d\<lparr>db_event_revisions := db_event_revisions d @
                   [\<lparr>er_AggregateType = aggregateType, er_AggregateID = aggregateID, er_Revision = 1\<rparr>]\<rparr>)
      | Some r \<Rightarrow> (Inr (er_Revision r + 1), d\<lparr>db_event_revisions :=
                   update_where P (\<lambda>r. r\<lparr>er_Revision := er_Revision r + 1\<rparr>) (db_event_revisions d)\<rparr>))"

section \<open>Catalog refresh\<close>

record RefreshTarget =
  rt_ServerID :: string
  rt_Revision :: int
  rt_DescriptorDigest :: string
  rt_TenantID :: string
  rt_GrantID :: string

definition refresh_grants :: "time \<Rightarrow> DescriptorRow \<Rightarrow> db \<Rightarrow> GrantRow list" where
  "refresh_grants at r d =
     sort_key (\<lambda>g. ts (gw_CreatedAt g)) (sort_key gw_GrantID
       (filter (\<lambda>g. gw_ServerID g = dr_ServerID r \<and> gw_DescriptorRevision g = dr_Revision r
          \<and> gw_State g = GrantActive \<and> gw_ControlReceiptID g \<noteq> None
          \<and> (case gw_ExpiresAt g of None \<Rightarrow> True | Some ex \<Rightarrow> trunc_us at < ex)) (db_grants d)))"

text \<open>\<open>DISTINCT ON (server_id, revision)\<close>: the oldest such grant of each approved revision.\<close>
definition ListRefreshTargets :: "time \<Rightarrow> int \<Rightarrow> time \<Rightarrow> db \<Rightarrow> (err + RefreshTarget list) \<times> db" where
  "ListRefreshTargets at maxTargets =
     read (\<lambda>d. Inr (take (nat maxTargets) (concat (map (\<lambda>r.
        (case (find (\<lambda>s. sv_ServerID s = dr_ServerID r) (db_servers d), refresh_grants at r d) of
           (Some s, g # _) \<Rightarrow>
             [\<lparr>rt_ServerID = dr_ServerID r, rt_Revision = dr_Revision r,
               rt_DescriptorDigest = dr_DescriptorDigest r, rt_TenantID = sv_TenantID s,
               rt_GrantID = gw_GrantID g\<rparr>]
         | _ \<Rightarrow> []))
      (sort_key dr_ServerID (sort_key dr_Revision
        (filter (\<lambda>r. dr_State r = CatalogApproved) (db_descriptors d))))))))"

definition InsertRefresh :: "CatalogRefresh \<Rightarrow> time \<Rightarrow> db \<Rightarrow> (err + unit) \<times> db" where
  "InsertRefresh row t d =
     (if \<exists>r \<in> set (db_refreshes d). cf_TaskID r = cf_TaskID row \<and> cf_Generation r = cf_Generation row
      then (Inr (), d)
      else (Inr (), d\<lparr>db_refreshes := db_refreshes d @ [row\<lparr>cf_RefreshedAt := Some t\<rparr>]\<rparr>))"

definition GetRefresh :: "string \<Rightarrow> int \<Rightarrow> time \<Rightarrow> db \<Rightarrow> (err + CatalogRefresh) \<times> db" where
  "GetRefresh taskID gen =
     read (\<lambda>d. one_row (filter (\<lambda>r. cf_TaskID r = taskID \<and> cf_Generation r = gen) (db_refreshes d)))"

section \<open>Tool requests\<close>

definition GetToolRequest :: "string \<Rightarrow> time \<Rightarrow> db \<Rightarrow> (err + ToolRequest) \<times> db" where
  "GetToolRequest callID = read (\<lambda>d. one_row (filter (\<lambda>r. tr_CallID r = callID) (db_calls d)))"

definition GetToolRequestForUpdate :: "string \<Rightarrow> time \<Rightarrow> db \<Rightarrow> (err + ToolRequest) \<times> db" where
  "GetToolRequestForUpdate callID = read (\<lambda>d. one_row (filter (\<lambda>r. tr_CallID r = callID) (db_calls d)))"

definition GetToolRequestByCommand :: "string \<Rightarrow> string \<Rightarrow> time \<Rightarrow> db \<Rightarrow> (err + ToolRequest) \<times> db" where
  "GetToolRequestByCommand tenantID commandID =
     read (\<lambda>d. one_row (filter (\<lambda>r. tr_TenantID r = tenantID \<and> tr_CommandID r = commandID) (db_calls d)))"

definition HasUnknownToolRequest :: "string \<Rightarrow> string \<Rightarrow> time \<Rightarrow> db \<Rightarrow> (err + bool) \<times> db" where
  "HasUnknownToolRequest tenantID serverID =
     read (\<lambda>d. Inr (list_ex (\<lambda>r. tr_TenantID r = tenantID \<and> tr_ServerID r = serverID
       \<and> tr_State r = CallUnknown) (db_calls d)))"

text \<open>The inserted call starts accepted, without dispatch, marker, outcome or observation.\<close>
definition InsertToolRequest :: "schema \<Rightarrow> ToolRequest \<Rightarrow> time \<Rightarrow> db \<Rightarrow> (err + unit) \<times> db" where
  "InsertToolRequest sc row t d =
     insert_row (sc_call sc)
       (row\<lparr>tr_State := CallAccepted, tr_ControlDispatchID := None, tr_ResultRef := None,
            tr_ResultDigest := None, tr_FailureCode := None, tr_CreatedAt := Some t, tr_UpdatedAt := Some t,
            tr_Deadline := map_option trunc_us (tr_Deadline row), tr_SendMarkerAt := None,
            tr_ObservedAt := None, tr_ObservationSequence := 0, tr_UsageUnits := None,
            tr_NativeEvidence := [], tr_Result := []\<rparr>)
       db_calls db_calls_update d"

definition update_calls ::
  "(ToolRequest \<Rightarrow> bool) \<Rightarrow> (ToolRequest \<Rightarrow> ToolRequest) \<Rightarrow> db \<Rightarrow> (err + int) \<times> db" where
  "update_calls P f d =
     (Inr (count_where P (db_calls d)), d\<lparr>db_calls := update_where P f (db_calls d)\<rparr>)"

definition SetToolRequestAdmission ::
  "string \<Rightarrow> CallState \<Rightarrow> string option \<Rightarrow> string option \<Rightarrow> time \<Rightarrow> db \<Rightarrow> (err + int) \<times> db" where
  "SetToolRequestAdmission callID state dispatchID failureCode t =
     update_calls (\<lambda>r. tr_CallID r = callID \<and> tr_State r = CallAccepted)
       (\<lambda>r. r\<lparr>tr_State := state, tr_ControlDispatchID := dispatchID, tr_FailureCode := failureCode,
              tr_UpdatedAt := Some t\<rparr>)"

definition SetToolRequestMarker :: "string \<Rightarrow> time \<Rightarrow> db \<Rightarrow> (err + int) \<times> db" where
  "SetToolRequestMarker callID t =
     update_calls (\<lambda>r. tr_CallID r = callID \<and> tr_State r = CallAdmitted \<and> tr_SendMarkerAt r = None)
       (\<lambda>r. r\<lparr>tr_State := CallSent, tr_SendMarkerAt := Some t, tr_UpdatedAt := Some t\<rparr>)"

record ToolOutcome =
  to_State :: CallState
  to_FailureCode :: "string option"
  to_Result :: bytes
  to_ResultDigest :: "string option"
  to_ResultRef :: "string option"
  to_NativeEvidence :: bytes
  to_UsageUnits :: "int option"

definition SetToolRequestOutcome ::
  "string \<Rightarrow> ToolOutcome \<Rightarrow> CallState list \<Rightarrow> time \<Rightarrow> db \<Rightarrow> (err + int) \<times> db" where
  "SetToolRequestOutcome callID out expected t =
     update_calls (\<lambda>r. tr_CallID r = callID \<and> tr_State r \<in> set expected)
       (\<lambda>r. r\<lparr>tr_State := to_State out, tr_FailureCode := to_FailureCode out, tr_Result := to_Result out,
              tr_ResultDigest := to_ResultDigest out, tr_ResultRef := to_ResultRef out,
              tr_NativeEvidence := to_NativeEvidence out, tr_UsageUnits := to_UsageUnits out,
              tr_UpdatedAt := Some t\<rparr>)"

definition marker_before :: "time \<Rightarrow> ToolRequest \<Rightarrow> bool" where
  "marker_before t r = (case tr_SendMarkerAt r of None \<Rightarrow> False | Some m \<Rightarrow> m < t)"

definition SetAbandonedToolRequestUnknown ::
  "string \<Rightarrow> string option \<Rightarrow> duration \<Rightarrow> time \<Rightarrow> db \<Rightarrow> (err + int) \<times> db" where
  "SetAbandonedToolRequestUnknown callID failureCode sentAge t =
     update_calls (\<lambda>r. tr_CallID r = callID \<and> tr_State r = CallSent \<and> marker_before (t - sentAge) r)
       (\<lambda>r. r\<lparr>tr_State := CallUnknown, tr_FailureCode := failureCode, tr_UpdatedAt := Some t\<rparr>)"

definition SetToolRequestObserved :: "string \<Rightarrow> int \<Rightarrow> time \<Rightarrow> db \<Rightarrow> (err + unit) \<times> db" where
  "SetToolRequestObserved callID sequence t d =
     (case update_calls (\<lambda>r. tr_CallID r = callID \<and> tr_ObservationSequence r = sequence)
             (\<lambda>r. r\<lparr>tr_ObservedAt := Some t, tr_ObservationSequence := tr_ObservationSequence r + 1,
                    tr_UpdatedAt := Some t\<rparr>) d of
        (_, d') \<Rightarrow> (Inr (), d'))"

definition open_for_reconcile :: "duration \<Rightarrow> duration \<Rightarrow> time \<Rightarrow> ToolRequest \<Rightarrow> bool" where
  "open_for_reconcile age sentAge t r \<longleftrightarrow>
     ((tr_State r \<in> {CallAccepted, CallAdmitted, CallUnknown}
        \<or> (tr_ObservedAt r = None \<and> tr_ControlDispatchID r \<noteq> None
           \<and> tr_State r \<in> {CallSucceeded, CallFailed, CallCanceled}))
      \<and> ts (tr_UpdatedAt r) < t - age)
     \<or> (tr_State r = CallSent \<and> marker_before (t - sentAge) r)"

definition ListOpenToolRequests ::
  "duration \<Rightarrow> duration \<Rightarrow> time \<Rightarrow> string \<Rightarrow> int \<Rightarrow> time \<Rightarrow> db \<Rightarrow> (err + ToolRequest list) \<times> db" where
  "ListOpenToolRequests age sentAge afterAt afterID limit t d =
     (Inr (take (nat limit) (sort_key (\<lambda>r. ts (tr_UpdatedAt r)) (sort_key tr_CallID
        (filter (\<lambda>r. open_for_reconcile age sentAge t r
           \<and> (afterAt < ts (tr_UpdatedAt r) \<or> (afterAt = ts (tr_UpdatedAt r) \<and> afterID < tr_CallID r)))
         (db_calls d))))), d)"

text \<open>The unknown calls: how many, how many servers they restrict, the age of the oldest.\<close>
definition UnknownToolCallStats :: "time \<Rightarrow> db \<Rightarrow> (err + int \<times> int \<times> duration) \<times> db" where
  "UnknownToolCallStats t d =
     (let rs = filter (\<lambda>r. tr_State r = CallUnknown) (db_calls d)
      in (Inr (int (length rs), int (length (remdups (map (\<lambda>r. (tr_TenantID r, tr_ServerID r)) rs))),
           if rs = [] then 0 else t - Min (set (map (\<lambda>r. ts (tr_UpdatedAt r)) rs))), d))"

section \<open>Authorization of a task by a grant\<close>

definition GrantAuthorization :: "env \<Rightarrow> string \<Rightarrow> string \<Rightarrow> AuthorizationState act" where
  "GrantAuthorization E ref tenantID =
     (if length ref \<le> 6 \<or> take 6 ref \<noteq> ''grant:'' then fail (err ErrInvalid)
      else recover (query E (GetGrantState (drop 6 ref))) (\<lambda>r.
        case r of
          Inl e \<Rightarrow> if errors_Is e ErrNoRows then ok AuthorizationRevoked else fail e
        | Inr g \<Rightarrow>
           if gs_TenantID g = tenantID \<and> gs_State g = GrantActive \<and> gs_ControlReceiptID g \<noteq> None then
             (case gs_ExpiresAt g of
                None \<Rightarrow> ok AuthorizationCurrent
              | Some ex \<Rightarrow> seq (clock_now E) (\<lambda>t.
                  ok (if Before t ex then AuthorizationCurrent else AuthorizationRevoked)))
           else ok AuthorizationRevoked))"

text \<open>\<open>outbox.Publish\<close> on the transaction.\<close>
definition Publish :: "env \<Rightarrow> Envelope \<Rightarrow> unit act" where
  "Publish E ev = query E (\<lambda>t d. (Inr (), d\<lparr>db_outbox := db_outbox d @ [ev]\<rparr>))"

section \<open>A concrete environment\<close>

definition request_id :: "BackgroundRequest \<Rightarrow> string \<times> int" where
  "request_id r = (br_TaskID r, br_Generation r)"

text \<open>A concrete environment: no failures, no other replica, the primary keys of the schema.\<close>

definition sample_schema :: schema where
  "sample_schema =
     \<lparr>sc_request = (\<lambda>r rows. request_id r \<in> request_id ` set rows),
      sc_attempt = (\<lambda>a rows. (ta_TaskID a, ta_Generation a, ta_Ordinal a)
         \<in> (\<lambda>a. (ta_TaskID a, ta_Generation a, ta_Ordinal a)) ` set rows),
      sc_command = (\<lambda>c rows. (cc_TenantID c, cc_CommandID c) \<in> (\<lambda>c. (cc_TenantID c, cc_CommandID c)) ` set rows),
      sc_server = (\<lambda>s rows. sv_ServerID s \<in> sv_ServerID ` set rows),
      sc_descriptor = (\<lambda>r rows. (dr_ServerID r, dr_Revision r) \<in> (\<lambda>r. (dr_ServerID r, dr_Revision r)) ` set rows),
      sc_review = (\<lambda>r rows. rv_ReviewID r \<in> rv_ReviewID ` set rows),
      sc_grant = (\<lambda>g rows. gw_GrantID g \<in> gw_GrantID ` set rows),
      sc_decision = (\<lambda>g rows. gd_DecisionID g \<in> gd_DecisionID ` set rows),
      sc_call = (\<lambda>c rows. tr_CallID c \<in> tr_CallID ` set rows)\<rparr>"

definition sample_env :: env where
  "sample_env =
     \<lparr>e_now = (\<lambda>n. 1000000000 * int n), e_dbnow = (\<lambda>n. 1000000000 * int n), e_fault = (\<lambda>_. False),
      e_commit = (\<lambda>_. Committed), e_others = (\<lambda>_ d. d),
      e_uuid = (\<lambda>n. ''u'' @ fmt_int (int n)), e_jsonb = (\<lambda>x. Some x), e_schema = sample_schema\<rparr>"

definition sample_grant_row :: GrantRow where
  "sample_grant_row =
     \<lparr>gw_GrantID = ''g1'', gw_Revision = 1, gw_TenantID = ''ten'', gw_SubjectType = ''tenant'',
      gw_SubjectID = ''ten'', gw_ServerID = ''s1'', gw_DescriptorRevision = 1, gw_DescriptorDigest = [],
      gw_Methods = [''echo''], gw_Purpose = ''demo'', gw_CostCapCurrency = ''USD'', gw_CostCapAmount = 0,
      gw_State = GrantActive, gw_ControlReceiptID = Some ''r1'', gw_ExpiresAt = None, gw_CommandID = ''c0'',
      gw_RequestDigest = [], gw_CreatedAt = None, gw_UpdatedAt = None, gw_CanonicalResource = [],
      gw_Transport = [], gw_ProtocolVersion = [], gw_Issuer = [], gw_Audience = [],
      gw_ResourceSelectors = [], gw_PromptSelectors = [], gw_DataClass = ''internal'',
      gw_PolicyDigest = [], gw_PolicyEpoch = Some 1, gw_FailureCode = None,
      gw_RegistrationCommandID = ''reg'', gw_RevocationCommandID = None, gw_FencedAt = None,
      gw_InFlightCalls = 0, gw_UnknownCalls = 0, gw_ControlState = ''ACTIVE'', gw_RevokedAt = None\<rparr>"

end
