(* ===== verification/App_Tasks.thy ===== *)
theory App_Tasks
  imports Queries
begin

text \<open>
  The background-task use cases of \<open>internal/application/tasks.go\<close>: request, claim, heartbeat,
  submit, get, cancel and the expiry sweep, each one transaction over the statements of \<open>Queries\<close>,
  and the attempt pruning of \<open>internal/adapters/outbox/retention.go\<close>.  Metrics and logging are not
  part of the model.  The lemmas show that every handler, under any failure and any interference
  of other replicas that obey the same rules, moves each generation only along the state machine
  of \<open>Task\<close>.
\<close>

section \<open>The service\<close>

record ResultBinding =
  rb_Recorded :: "Task \<Rightarrow> RecordedResult option act"
  rb_Accepted :: "Task \<Rightarrow> unit act"

record Tasks =
  tk_bounds :: Bounds
  tk_expiresAt :: "time option"
  tk_bindings :: "string \<Rightarrow> ResultBinding option"

definition Ready :: "env \<Rightarrow> Tasks \<Rightarrow> bool act" where
  "Ready E svc =
     (case tk_expiresAt svc of
        None \<Rightarrow> ok True
      | Some expiry \<Rightarrow>
         if IsZero expiry then ok True
         else seq (clock_now E) (\<lambda>t. ok (Before t expiry)))"

definition admitConfiguration :: "env \<Rightarrow> Tasks \<Rightarrow> unit act" where
  "admitConfiguration E svc = seq (Ready E svc) (\<lambda>ready. guard ready (err ErrStaleExecution))"

record RequestInput =
  ri_TaskID :: string
  ri_TenantID :: string
  ri_Kind :: string
  ri_Profile :: string
  ri_Input :: bytes
  ri_Effects :: Effects
  ri_DispatchID :: string
  ri_AuthorizationRef :: string
  ri_CorrelationID :: string

definition attemptOutcomeIfLeased :: "Task \<Rightarrow> string \<Rightarrow> string" where
  "attemptOutcomeIfLeased prev outcome = (if t_State prev = StateLeased then outcome else [])"

text \<open>\<open>apply\<close>: the guarded update and the outcome of the current attempt.\<close>

definition apply_decision :: "env \<Rightarrow> Task \<Rightarrow> u64 \<Rightarrow> time \<Rightarrow> string \<Rightarrow> unit act" where
  "apply_decision E task readRevision at attemptOutcome =
     seq (query E (UpdateRequest (UpdateParams task readRevision at))) (\<lambda>n.
     seq (guard (n = 1) (err ErrStaleExecution)) (\<lambda>_.
     if attemptOutcome \<noteq> [] \<and> 0 < t_AttemptCount task
     then query E (SetAttemptOutcome (t_TaskID task) (int64 (t_Generation task))
            (int32 (t_AttemptCount task)) (Some attemptOutcome) at)
     else ok ()))"

definition attemptOf :: "Task \<Rightarrow> TaskAttempt list \<Rightarrow> Attempt" where
  "attemptOf task attempts = currentAttempt task (map AttemptFromRow attempts)"

text \<open>The end of \<open>Request\<close>: authorization, the durable row and its event.\<close>

definition commit_request :: "env \<Rightarrow> Tasks \<Rightarrow> time \<Rightarrow> Task \<Rightarrow> (Task \<times> bool) act" where
  "commit_request E svc at candidate =
     seq (GrantAuthorization E (t_AuthorizationRef candidate) (t_TenantID candidate)) (\<lambda>auth.
     seq (guard (auth = AuthorizationCurrent) (err AppErrForbidden)) (\<lambda>_.
     seq (admitConfiguration E svc) (\<lambda>_.
     seq (query E (InsertRequest (e_schema E) (InsertParams candidate))) (\<lambda>_.
     seq (new_uuid E) (\<lambda>eventID.
     seq (Publish E (RequestedEvent eventID candidate at)) (\<lambda>_.
     ok (candidate, False)))))))"

text \<open>\<open>Request\<close> once the latest generation of the task is locked: a replay, a supersession, or the first
  generation.\<close>

definition request_latest ::
  "env \<Rightarrow> Tasks \<Rightarrow> RequestInput \<Rightarrow> Task \<Rightarrow> time \<Rightarrow> err + BackgroundRequest \<Rightarrow> (Task \<times> bool) act" where
  "request_latest E svc i candidate at l =
     (case l of
       Inr row \<Rightarrow>
         (let prev = TaskFromRow row in
          if t_TenantID prev \<noteq> ri_TenantID i then fail (err AppErrForbidden)
          else if t_InputDigest prev = t_InputDigest candidate then ok (prev, True)
          else
            (case Supersede prev of (fenced, changed) \<Rightarrow>
               seq (if changed
                    then apply_decision E fenced (t_Revision prev) at
                           (attemptOutcomeIfLeased prev AttemptStale)
                    else ok ()) (\<lambda>_.
               commit_request E svc at (candidate\<lparr>t_Generation := t_Generation prev + 1\<rparr>))))
     | Inl e \<Rightarrow> if errors_Is e ErrNoRows then commit_request E svc at candidate else fail e)"

definition request_body :: "env \<Rightarrow> Tasks \<Rightarrow> RequestInput \<Rightarrow> (Task \<times> bool) act" where
  "request_body E svc i =
     seq (admitConfiguration E svc) (\<lambda>_.
     seq (guard (int (length (ri_Input i)) \<le> b_MaxInputBytes (tk_bounds svc)) (err ErrInputTooLarge)) (\<lambda>_.
     recover (query E (CanonicalJSON E (ri_Input i))) (\<lambda>c.
     case c of Inl _ \<Rightarrow> fail (err ErrInvalid) | Inr canonical \<Rightarrow>
     seq (lift (NewRequest (ri_TaskID i) (ri_TenantID i) (ri_Kind i) (ri_Profile i) canonical
            (ri_Effects i) (ri_DispatchID i) (ri_AuthorizationRef i) (ri_CorrelationID i)
            (tk_bounds svc))) (\<lambda>candidate.
     seq (clock_now E) (\<lambda>at.
     recover (query E (GetLatestRequestForUpdate (ri_TaskID i))) (\<lambda>l.
     request_latest E svc i candidate at l))))))"

definition Request :: "env \<Rightarrow> Tasks \<Rightarrow> RequestInput \<Rightarrow> (Task \<times> bool) act" where
  "Request E svc i = InTx E (request_body E svc i)"

text \<open>The row of a generation under its lock; a missing row is \<open>NOT_FOUND\<close>.\<close>
definition locked_request :: "env \<Rightarrow> string \<Rightarrow> u64 \<Rightarrow> BackgroundRequest act" where
  "locked_request E taskID generation =
     recover (query E (GetRequestForUpdate taskID (int64 generation))) (\<lambda>r.
       case r of
         Inl e \<Rightarrow> fail (if errors_Is e ErrNoRows then err ErrNotFound else e)
       | Inr row \<Rightarrow> ok row)"

definition claim_body :: "env \<Rightarrow> Tasks \<Rightarrow> string \<Rightarrow> u64 \<Rightarrow> string \<Rightarrow> duration \<Rightarrow> (Task \<times> bytes) act" where
  "claim_body E svc taskID generation workerID lease =
     seq (admitConfiguration E svc) (\<lambda>_.
     seq (locked_request E taskID generation) (\<lambda>row.
     seq (query E (ListAttempts taskID (int64 generation))) (\<lambda>attemptRows.
     let current = TaskFromRow row in
     seq (admitConfiguration E svc) (\<lambda>_.
     seq (clock_now E) (\<lambda>at.
     seq (lift (DecideClaim current (map AttemptFromRow attemptRows) workerID lease at (tk_bounds svc))) (\<lambda>d.
     seq (if cd_ExpiredPrevious d
          then query E (SetAttemptOutcome taskID (int64 generation) (int32 (t_AttemptCount current))
                 (Some AttemptExpired) at)
          else ok ()) (\<lambda>_.
     seq (apply_decision E (cd_Task d) (t_Revision current) at []) (\<lambda>_.
     seq (query E (InsertAttempt (e_schema E) taskID (int64 generation) (int32 (a_Ordinal (cd_Attempt d)))
            workerID at (a_LeaseUntil (cd_Attempt d)))) (\<lambda>_.
     ok (cd_Task d, t_Input current))))))))))"

definition Claim :: "env \<Rightarrow> Tasks \<Rightarrow> string \<Rightarrow> u64 \<Rightarrow> string \<Rightarrow> duration \<Rightarrow> (Task \<times> bytes) act" where
  "Claim E svc taskID generation workerID lease = InTx E (claim_body E svc taskID generation workerID lease)"

definition heartbeat_body :: "env \<Rightarrow> string \<Rightarrow> u64 \<Rightarrow> string \<Rightarrow> Task act" where
  "heartbeat_body E taskID generation workerID =
     seq (locked_request E taskID generation) (\<lambda>row.
     seq (query E (ListAttempts taskID (int64 generation))) (\<lambda>attempts.
     let current = TaskFromRow row in
     seq (clock_now E) (\<lambda>at.
     seq (lift (DecideHeartbeat current (attemptOf current attempts) workerID at)) (\<lambda>extended.
     seq (clock_now E) (\<lambda>at'.
     seq (apply_decision E extended (t_Revision current) at' []) (\<lambda>_.
     ok extended))))))"

definition Heartbeat :: "env \<Rightarrow> string \<Rightarrow> u64 \<Rightarrow> string \<Rightarrow> Task act" where
  "Heartbeat E taskID generation workerID = InTx E (heartbeat_body E taskID generation workerID)"

definition submit_body :: "env \<Rightarrow> Tasks \<Rightarrow> string \<Rightarrow> u64 \<Rightarrow> Submission \<Rightarrow> SubmitDecision act" where
  "submit_body E svc taskID generation sub =
     seq (locked_request E taskID generation) (\<lambda>row.
     seq (query E (ListAttempts taskID (int64 generation))) (\<lambda>attempts.
     let current = TaskFromRow row in
     seq (GrantAuthorization E (t_AuthorizationRef current) (t_TenantID current)) (\<lambda>auth.
     seq (clock_now E) (\<lambda>at.
     let binding = tk_bindings svc (t_ResultProfile current) in
     seq (case binding of None \<Rightarrow> ok None | Some b \<Rightarrow> rb_Recorded b current) (\<lambda>recorded.
     seq (lift (DecideSubmitRecorded current (attemptOf current attempts) sub auth at (tk_bounds svc) recorded)) (\<lambda>d.
     seq (if sd_Changed d
          then seq (apply_decision E (sd_Task d) (t_Revision current) at (sd_AttemptOutcome d)) (\<lambda>_.
               case binding of
                 Some b \<Rightarrow> if sd_Accepted d then rb_Accepted b (sd_Task d) else ok ()
               | None \<Rightarrow> ok ())
          else ok ()) (\<lambda>_.
     ok d)))))))"

definition Submit :: "env \<Rightarrow> Tasks \<Rightarrow> string \<Rightarrow> u64 \<Rightarrow> Submission \<Rightarrow> SubmitDecision act" where
  "Submit E svc taskID generation sub = InTx E (submit_body E svc taskID generation sub)"

definition Get :: "env \<Rightarrow> string \<Rightarrow> Task act" where
  "Get E taskID =
     recover (pool_query E (GetLatestRequest taskID)) (\<lambda>r.
       case r of
         Inl e \<Rightarrow> fail (if errors_Is e ErrNoRows then err ErrNotFound else e)
       | Inr row \<Rightarrow> ok ((TaskFromRow row)\<lparr>t_Input := []\<rparr>))"

definition cancel_body :: "env \<Rightarrow> string \<Rightarrow> (Task \<times> bool) act" where
  "cancel_body E taskID =
     recover (query E (GetLatestRequestForUpdate taskID)) (\<lambda>r.
       case r of
         Inl e \<Rightarrow> fail (if errors_Is e ErrNoRows then err ErrNotFound else e)
       | Inr row \<Rightarrow>
          (let current = TaskFromRow row in
           case DecideCancel current of (canceled, outcome, did) \<Rightarrow>
             seq (if did
                  then seq (clock_now E) (\<lambda>at. apply_decision E canceled (t_Revision current) at outcome)
                  else ok ()) (\<lambda>_.
             ok (canceled, did))))"

definition Cancel :: "env \<Rightarrow> string \<Rightarrow> (Task \<times> bool) act" where
  "Cancel E taskID = InTx E (cancel_body E taskID)"

text \<open>Control's answer about the original dispatch, by interaction, tenant and dispatch.\<close>
type_synonym DispatchQuery = "nat \<Rightarrow> string \<Rightarrow> string \<Rightarrow> err + DispatchOutcome"

definition NoDispatchQuery :: DispatchQuery where
  "NoDispatchQuery n tenantID dispatchID = Inr DispatchUnknown"

definition counted :: "unit act" where
  "counted w = (Inr (), w\<lparr>w_log := w_log w @ [EvCounted]\<rparr>)"

definition expire_body :: "env \<Rightarrow> Tasks \<Rightarrow> string \<Rightarrow> int \<Rightarrow> DispatchOutcome \<Rightarrow> unit act" where
  "expire_body E svc taskID gen outcome =
     seq (query E (GetRequestForUpdate taskID gen)) (\<lambda>locked.
     let current = TaskFromRow locked in
     seq (clock_now E) (\<lambda>at.
     case DecideExpire current outcome at (tk_bounds svc) of (decided, attemptOutcome, changed) \<Rightarrow>
       if \<not> changed then ok ()
       else seq counted (\<lambda>_.
            seq (clock_now E) (\<lambda>at'.
            apply_decision E decided (t_Revision current) at' attemptOutcome))))"

text \<open>One expired lease: Control is asked first when the effects are external; an error of the query
  or of the transaction skips the lease.\<close>

definition sweep_one :: "env \<Rightarrow> Tasks \<Rightarrow> DispatchQuery \<Rightarrow> string \<times> int \<Rightarrow> unit act" where
  "sweep_one E svc dispatch e =
     recover (pool_query E (GetRequest (fst e) (snd e))) (\<lambda>r.
       case r of
         Inl _ \<Rightarrow> ok ()
       | Inr row \<Rightarrow>
          (let task = TaskFromRow row in
           seq (if t_Effects task = EffectsExternal
                then ext (EvOutcome (t_DispatchID task)) (\<lambda>n. dispatch n (t_TenantID task) (t_DispatchID task))
                else ok (Inr DispatchUnknown)) (\<lambda>answer.
           case answer of
             Inl _ \<Rightarrow> ok ()
           | Inr outcome \<Rightarrow>
              recover (InTx E (expire_body E svc (fst e) (snd e) outcome)) (\<lambda>_. ok ()))))"

fun sweep_all :: "env \<Rightarrow> Tasks \<Rightarrow> DispatchQuery \<Rightarrow> (string \<times> int) list \<Rightarrow> unit act" where
  "sweep_all E svc dispatch [] = ok ()"
| "sweep_all E svc dispatch (e # es) = seq (sweep_one E svc dispatch e) (\<lambda>_. sweep_all E svc dispatch es)"

definition SweepExpired :: "env \<Rightarrow> Tasks \<Rightarrow> DispatchQuery \<Rightarrow> int \<Rightarrow> nat act" where
  "SweepExpired E svc dispatch limit w =
     (let before = length (filter (\<lambda>ev. ev = EvCounted) (w_log w)) in
      seq (clock_now E) (\<lambda>at.
      seq (pool_query E (ListExpiredLeases at limit)) (\<lambda>expired.
      seq (sweep_all E svc dispatch expired) (\<lambda>_.
      (\<lambda>w'. (Inr (length (filter (\<lambda>ev. ev = EvCounted) (w_log w')) - before), w'))))) w)"

text \<open>
  The attempt pruning of \<open>Retain\<close>: at most \<open>batch\<close> attempts of terminal requests last changed before
  the bound, in table order.  (Its two other statements prune tables this model does not have.)
\<close>

definition prunable :: "time \<Rightarrow> db \<Rightarrow> TaskAttempt \<Rightarrow> bool" where
  "prunable bound d a \<longleftrightarrow>
     list_ex (\<lambda>r. request_key (ta_TaskID a) (ta_Generation a) r \<and> Terminal (br_State r)
        \<and> (case br_UpdatedAt r of None \<Rightarrow> False | Some c \<Rightarrow> c < trunc_us bound)) (db_requests d)"

fun delete_first :: "nat \<Rightarrow> ('a \<Rightarrow> bool) \<Rightarrow> 'a list \<Rightarrow> 'a list" where
  "delete_first n P [] = []"
| "delete_first n P (x # xs) =
     (if 0 < n \<and> P x then delete_first (n - 1) P xs else x # delete_first n P xs)"

definition Retain :: "env \<Rightarrow> time \<Rightarrow> nat \<Rightarrow> int act" where
  "Retain E bound batch =
     pool_query E (\<lambda>t d.
       let kept = delete_first batch (prunable bound d) (db_attempts d) in
       (Inr (int (length (db_attempts d)) - int (length kept)), d\<lparr>db_attempts := kept\<rparr>))"

end
