(* ===== verification/Task_Refinement.thy ===== *)
theory Task_Refinement
  imports App_Tasks
begin

text \<open>
  The task handlers refine the state machine of a generation.  \<open>gen_of\<close> reads a generation out of
  the tables; \<open>tasks_inv\<close> is the invariant of the two tables; \<open>tasks_R\<close> says that the tables keep it
  and that every generation only moves along the machine (or loses attempts once it is terminal, by
  retention).  \<open>tasks_R\<close> interprets the locale \<open>evolution\<close>, which carries each handler's transaction
  over failures, lost commits and interference.
\<close>

section \<open>Generations in the tables\<close>

definition attempts_of :: "db \<Rightarrow> string \<Rightarrow> int \<Rightarrow> Attempt list" where
  "attempts_of d tid g = map AttemptFromRow (filter (attempt_key tid g) (db_attempts d))"

definition gen_of :: "db \<Rightarrow> string \<Rightarrow> int \<Rightarrow> generation option" where
  "gen_of d tid g =
     map_option (\<lambda>r. (TaskFromRow r, attempts_of d tid g)) (find (request_key tid g) (db_requests d))"

inductive gen_live :: "generation \<Rightarrow> generation \<Rightarrow> bool" where
  op: "gen_step x y \<Longrightarrow> gen_live x y"
| prune: "Terminal (t_State t) \<Longrightarrow> set as' \<subseteq> set as \<Longrightarrow> gen_live (t, as) (t, as')"

inductive gen_possible :: "generation \<Rightarrow> bool" where
  new: "NewRequest tid ten kind profile input eff did aref cid b = Inr t \<Longrightarrow>
    gen_possible (t\<lparr>t_Generation := g\<rparr>, [])"
| live: "gen_possible x \<Longrightarrow> gen_live x y \<Longrightarrow> gen_possible y"

fun gen_evolves :: "generation option \<Rightarrow> generation option \<Rightarrow> bool" where
  "gen_evolves None None = True"
| "gen_evolves None (Some y) = gen_possible y"
| "gen_evolves (Some x) (Some y) = gen_live\<^sup>*\<^sup>* x y"
| "gen_evolves (Some x) None = False"

definition sound_gen :: "generation \<Rightarrow> bool" where
  "sound_gen x \<longleftrightarrow> Terminal (t_State (fst x)) \<or> gen_ok x"

definition wf_request :: "BackgroundRequest \<Rightarrow> bool" where
  "wf_request r \<longleftrightarrow> int64 (uint64 (br_Generation r)) = br_Generation r
     \<and> int64 (uint64 (br_Revision r)) = br_Revision r"

definition wf_attempt :: "TaskAttempt \<Rightarrow> bool" where
  "wf_attempt a \<longleftrightarrow> int32 (uint32 (ta_Ordinal a)) = ta_Ordinal a"

definition requests_wf :: "db \<Rightarrow> bool" where
  "requests_wf d \<longleftrightarrow> distinct (map request_id (db_requests d)) \<and> (\<forall>r \<in> set (db_requests d). wf_request r)"

definition tasks_inv :: "db \<Rightarrow> bool" where
  "tasks_inv d \<longleftrightarrow> requests_wf d \<and> (\<forall>a \<in> set (db_attempts d). wf_attempt a)
     \<and> (\<forall>a \<in> set (db_attempts d). (ta_TaskID a, ta_Generation a) \<in> request_id ` set (db_requests d))
     \<and> (\<forall>tid g x. gen_of d tid g = Some x \<longrightarrow> sound_gen x)"

definition tasks_R :: "db \<Rightarrow> db \<Rightarrow> bool" where
  "tasks_R d d' \<longleftrightarrow> (tasks_inv d \<longrightarrow>
     tasks_inv d' \<and> (\<forall>tid g. gen_evolves (gen_of d tid g) (gen_of d' tid g)))"

lemma sound_gen_live: "sound_gen x \<Longrightarrow> gen_live x y \<Longrightarrow> sound_gen y"
  by (erule gen_live.cases)
    (auto simp: sound_gen_def dest: gen_step_not_terminal gen_ok_step split: prod.splits)

lemma sound_gen_lives: "gen_live\<^sup>*\<^sup>* x y \<Longrightarrow> sound_gen x \<Longrightarrow> sound_gen y"
  by (induction rule: rtranclp_induct) (auto intro: sound_gen_live)

lemma gen_possible_lives: "gen_live\<^sup>*\<^sup>* x y \<Longrightarrow> gen_possible x \<Longrightarrow> gen_possible y"
  by (induction rule: rtranclp_induct) (auto intro: gen_possible.live)

lemma gen_evolves_refl: "gen_evolves x x"
  by (cases x) auto

lemma gen_evolves_trans: "gen_evolves x y \<Longrightarrow> gen_evolves y z \<Longrightarrow> gen_evolves x z"
  by (cases x; cases y; cases z) (auto intro: gen_possible_lives)

interpretation tasks: evolution tasks_R
proof
  show "tasks_R d d" for d by (simp add: tasks_R_def gen_evolves_refl)
  show "tasks_R d d''" if "tasks_R d d'" "tasks_R d' d''" for d d' d''
    using that unfolding tasks_R_def by (meson gen_evolves_trans)
qed

text \<open>The relation looks at the two task tables only.\<close>

lemma gen_of_cong:
  "db_requests d' = db_requests d \<Longrightarrow> db_attempts d' = db_attempts d \<Longrightarrow> gen_of d' = gen_of d"
  by (intro ext) (simp add: gen_of_def attempts_of_def)

lemma tasks_R_same:
  assumes "db_requests d' = db_requests d" "db_attempts d' = db_attempts d"
  shows "tasks_R d d'" "tasks_R d' d"
  using assms gen_of_cong [OF assms] by (auto simp: tasks_R_def tasks_inv_def requests_wf_def gen_evolves_refl)

section \<open>Table lemmas\<close>

lemma find_request_iff:
  assumes "distinct (map request_id (db_requests d))"
  shows "find (request_key tid g) (db_requests d) = Some r
     \<longleftrightarrow> r \<in> set (db_requests d) \<and> request_key tid g r"
proof
  assume "find (request_key tid g) (db_requests d) = Some r"
  then show "r \<in> set (db_requests d) \<and> request_key tid g r" by (auto simp: find_Some_iff)
next
  assume r: "r \<in> set (db_requests d) \<and> request_key tid g r"
  then obtain r' where f: "find (request_key tid g) (db_requests d) = Some r'"
    by (metis find_None_iff option.exhaust)
  then have "r' \<in> set (db_requests d)" "request_key tid g r'" by (auto simp: find_Some_iff)
  moreover have "inj_on request_id (set (db_requests d))"
    using assms by (simp add: distinct_map)
  ultimately have "r' = r" using r by (auto simp: inj_on_def request_key_def request_id_def)
  with f show "find (request_key tid g) (db_requests d) = Some r" by simp
qed

lemma TaskFromRow_updated:
  assumes "frozen t' = frozen (TaskFromRow r)"
  shows "TaskFromRow (updated_request (UpdateParams t' rd at) now r) = stored_task t'"
  using assms
  by (cases t')
    (auto simp: TaskFromRow_def updated_request_def UpdateParams_def stored_task_def frozen_def ts_def
      optTs_def split: option.splits)

lemma updated_request_id [simp]: "request_id (updated_request p now r) = request_id r"
  by (simp add: request_id_def updated_request_def)

lemma wf_updated: "wf_request r \<Longrightarrow> wf_request (updated_request (UpdateParams t rd at) now r)"
  by (simp add: wf_request_def updated_request_def UpdateParams_def)

text \<open>An update of one generation of the tables, with its attempts rewritten.\<close>

definition put_task :: "string \<Rightarrow> int \<Rightarrow> (BackgroundRequest \<Rightarrow> BackgroundRequest) \<Rightarrow> TaskAttempt list \<Rightarrow> db \<Rightarrow> db" where
  "put_task tid g f as d =
     d\<lparr>db_requests := update_where (request_key tid g) f (db_requests d), db_attempts := as\<rparr>"

lemma find_update_where:
  "(\<And>r. P (f r) = P r) \<Longrightarrow>
   find P (update_where P f rows) = map_option f (find P rows)"
  by (induction rows) (auto simp: update_where_def)

lemma find_update_where_other:
  "(\<And>r. P r \<Longrightarrow> \<not> Q r) \<Longrightarrow> (\<And>r. Q (f r) = Q r) \<Longrightarrow> find P (update_where Q f rows) = find P rows"
  by (induction rows) (auto simp: update_where_def)

lemma find_snoc: "find P (xs @ [x]) = (case find P xs of None \<Rightarrow> if P x then Some x else None | r \<Rightarrow> r)"
  by (induction xs) auto

lemma map_update_where: "(\<And>r. h (f r) = h r) \<Longrightarrow> map h (update_where P f rows) = map h rows"
  by (simp add: update_where_def)

lemma put_task_R:
  assumes inv: "tasks_inv d" and r: "find (request_key tid g) (db_requests d) = Some r"
    and live: "gen_live (TaskFromRow r, attempts_of d tid g)
      (TaskFromRow (f r), map AttemptFromRow (filter (attempt_key tid g) as))"
    and key: "\<And>r. request_id (f r) = request_id r" and wf: "\<And>r. wf_request r \<Longrightarrow> wf_request (f r)"
    and other: "\<And>tid' g'. (tid', g') \<noteq> (tid, g) \<Longrightarrow>
      filter (attempt_key tid' g') as = filter (attempt_key tid' g') (db_attempts d)"
    and was: "\<forall>a \<in> set as. wf_attempt a"
  shows "tasks_inv (put_task tid g f as d)
    \<and> (\<forall>tid' g'. gen_evolves (gen_of d tid' g') (gen_of (put_task tid g f as d) tid' g'))"
proof -
  let ?d = "put_task tid g f as d"
  have fk: "request_key tid' g' (f r) = request_key tid' g' r" for tid' g' r
    using key [of r] by (auto simp: request_key_def request_id_def)
  have here: "gen_of ?d tid g = Some (TaskFromRow (f r), map AttemptFromRow (filter (attempt_key tid g) as))"
    using r by (simp add: gen_of_def put_task_def attempts_of_def find_update_where fk)
  have there: "gen_of ?d tid' g' = gen_of d tid' g'" if ne: "(tid', g') \<noteq> (tid, g)" for tid' g'
  proof -
    have "find (request_key tid' g') (update_where (request_key tid g) f (db_requests d))
        = find (request_key tid' g') (db_requests d)"
    proof (rule find_update_where_other)
      show "request_key tid' g' r \<Longrightarrow> \<not> request_key tid g r" for r
        using ne by (auto simp: request_key_def)
      show "request_key tid g (f r) = request_key tid g r" for r by (rule fk)
    qed
    then show ?thesis using other [OF ne] by (simp add: gen_of_def put_task_def attempts_of_def)
  qed
  have was0: "gen_of d tid g = Some (TaskFromRow r, attempts_of d tid g)"
    using r by (simp add: gen_of_def)
  have ids: "map request_id (db_requests ?d) = map request_id (db_requests d)"
    by (simp add: put_task_def map_update_where key)
  have rwf: "\<forall>r \<in> set (db_requests ?d). wf_request r"
    using inv wf by (auto simp: put_task_def in_update_where tasks_inv_def requests_wf_def)
  have rid: "request_id ` set (db_requests ?d) = request_id ` set (db_requests d)"
    using ids by (metis image_set)
  have idr: "(tid, g) \<in> request_id ` set (db_requests d)"
    using r by (force simp: find_Some_iff request_key_def request_id_def)
  have aid: "(ta_TaskID a, ta_Generation a) \<in> request_id ` set (db_requests d)" if "a \<in> set as" for a
  proof (cases "(ta_TaskID a, ta_Generation a) = (tid, g)")
    case True
    with idr show ?thesis by simp
  next
    case False
    have "a \<in> set (filter (attempt_key (ta_TaskID a) (ta_Generation a)) as)"
      using that by (simp add: attempt_key_def)
    then have "a \<in> set (db_attempts d)" using other [OF False] by auto
    then show ?thesis using inv by (simp add: tasks_inv_def)
  qed
  have sound: "sound_gen x" if "gen_of ?d tid' g' = Some x" for tid' g' x
  proof (cases "(tid', g') = (tid, g)")
    case True
    have "sound_gen (TaskFromRow r, attempts_of d tid g)" using inv was0 by (simp add: tasks_inv_def)
    then show ?thesis using sound_gen_live [OF _ live] that True here by auto
  next
    case False
    have "gen_of d tid' g' = Some x" using there [OF False] that by simp
    then show ?thesis using inv unfolding tasks_inv_def by blast
  qed
  have inv': "tasks_inv ?d"
    unfolding tasks_inv_def requests_wf_def
    using inv ids rwf was aid sound rid by (auto simp: tasks_inv_def requests_wf_def put_task_def)
  have "gen_evolves (gen_of d tid' g') (gen_of ?d tid' g')" for tid' g'
    using there [of tid' g'] here was0 live
    by (cases "(tid', g') = (tid, g)") (auto simp: gen_evolves_refl)
  with inv' show ?thesis by blast
qed

lemma tasks_RI:
  "(tasks_inv d \<Longrightarrow> tasks_inv d' \<and> (\<forall>tid g. gen_evolves (gen_of d tid g) (gen_of d' tid g))) \<Longrightarrow> tasks_R d d'"
  by (simp add: tasks_R_def)

text \<open>\<open>SetAttemptOutcome\<close> on the attempts of one generation.\<close>

definition outcome_rows :: "string \<Rightarrow> int \<Rightarrow> int \<Rightarrow> string \<Rightarrow> time \<Rightarrow> TaskAttempt list \<Rightarrow> TaskAttempt list" where
  "outcome_rows tid g n out at as =
     update_where (\<lambda>r. attempt_key tid g r \<and> ta_Ordinal r = n)
       (\<lambda>r. r\<lparr>ta_Outcome := Some out, ta_SubmittedAt := Some (trunc_us at)\<rparr>) as"

lemma outcome_rows_other:
  "(tid', g') \<noteq> (tid, g) \<Longrightarrow>
   filter (attempt_key tid' g') (outcome_rows tid g n out at as) = filter (attempt_key tid' g') as"
  by (induction as) (auto simp: outcome_rows_def update_where_def attempt_key_def)

lemma outcome_rows_wf: "\<forall>a \<in> set as. wf_attempt a \<Longrightarrow> \<forall>a \<in> set (outcome_rows tid g n out at as). wf_attempt a"
  by (auto simp: outcome_rows_def in_update_where wf_attempt_def)

lemma outcome_rows_here:
  assumes "\<forall>a \<in> set as. wf_attempt a"
  shows "map AttemptFromRow (filter (attempt_key tid g) (outcome_rows tid g (int32 n) out at as))
       = set_outcome n out (map AttemptFromRow (filter (attempt_key tid g) as))"
proof -
  have eq: "ta_Ordinal a = int32 n \<longleftrightarrow> uint32 (ta_Ordinal a) = n" if "wf_attempt a" for a
    using that by (metis wf_attempt_def uint32_int32)
  show ?thesis
    using assms
    by (induction as)
      (auto simp: outcome_rows_def update_where_def set_outcome_def attempt_key_def AttemptFromRow_def
        str_def eq)
qed

section \<open>What the pieces of a handler do\<close>

lemma admitConfiguration_keeps: "keeps (=) (admitConfiguration E svc)"
  by (auto simp: admitConfiguration_def Ready_def intro!: unchanged.keeps_intros split: option.split)

lemma GrantAuthorization_keeps: "keeps (=) (GrantAuthorization E ref ten)"
  by (auto simp: GrantAuthorization_def GetGrantState_def intro!: unchanged.keeps_intros
      split: option.split sum.split)

lemmas admitConfiguration_db = keeps_eqD [OF admitConfiguration_keeps]
lemmas GrantAuthorization_db = keeps_eqD [OF GrantAuthorization_keeps]

lemma one_row_find: "one_row (filter P xs) = Inr r \<longleftrightarrow> find P xs = Some r"
  by (induction xs) (auto simp: one_row_def)

lemma one_row_map: "one_row (map f (filter P xs)) = Inr y \<Longrightarrow> \<exists>x \<in> set xs. P x \<and> y = f x"
  by (induction xs) (auto simp: one_row_def split: if_splits)

lemma locked_request_Inr:
  assumes "locked_request E tid g w = (Inr row, w')"
  shows "w_db w' = w_db w \<and> find (request_key tid (int64 g)) (db_requests (w_db w)) = Some row"
  using assms
  by (auto simp: locked_request_def recover_Inr GetRequestForUpdate_def query_read_Inr one_row_find)

text \<open>The database after \<open>apply\<close> on the row it read.\<close>

lemma apply_decision_db:
  assumes a: "apply_decision E t' (t_Revision (TaskFromRow r)) at out w = (Inr u, w')"
    and inv: "requests_wf (w_db w)" and r: "find (request_key tid g) (db_requests (w_db w)) = Some r"
    and key: "t_TaskID t' = tid" "int64 (t_Generation t') = g"
  obtains now where "w_db w' = put_task tid g
      (updated_request (UpdateParams t' (t_Revision (TaskFromRow r)) at) now)
      (if out \<noteq> [] \<and> 0 < t_AttemptCount t'
       then outcome_rows tid g (int32 (t_AttemptCount t')) out at (db_attempts (w_db w))
       else db_attempts (w_db w)) (w_db w)"
proof -
  let ?p = "UpdateParams t' (t_Revision (TaskFromRow r)) at"
  have sel: "up_TaskID ?p = tid" "up_Generation ?p = g" "up_ExpectedRevision ?p = br_Revision r"
    using key r inv
    by (auto simp: UpdateParams_def TaskFromRow_def find_request_iff requests_wf_def wf_request_def)
  have same: "update_where (\<lambda>x. request_key (up_TaskID ?p) (up_Generation ?p) x
        \<and> br_Revision x = up_ExpectedRevision ?p) h (db_requests (w_db w))
      = update_where (request_key tid g) h (db_requests (w_db w))" for h
  proof -
    have "x = r" if "x \<in> set (db_requests (w_db w))" "request_key tid g x" for x
      using that r inv find_request_iff [of "w_db w" tid g x] by (simp add: requests_wf_def)
    then show ?thesis unfolding update_where_def sel by (intro map_cong) auto
  qed
  show thesis
    using a key that
    by (auto simp: apply_decision_def seq_Inr query_Inr UpdateRequest_def Let_def same put_task_def
        SetAttemptOutcome_def outcome_rows_def split: if_splits)
qed

text \<open>A decided row that steps the generation is a step of the tables.\<close>

lemma apply_decision_R:
  assumes a: "apply_decision E t' (t_Revision (TaskFromRow r)) at out w = (Inr u, w')"
    and inv: "tasks_inv (w_db w)" and r: "find (request_key tid g) (db_requests (w_db w)) = Some r"
    and step: "gen_step (TaskFromRow r, attempts_of (w_db w) tid g)
      (stored_task t', record_outcome t' out (attempts_of (w_db w) tid g))"
  shows "tasks_R (w_db w) (w_db w')"
proof -
  have fr: "frozen t' = frozen (TaskFromRow r)" using gen_step_frozen [OF step] by simp
  have rk: "br_TaskID r = tid" "br_Generation r = g" "wf_request r"
    using r inv by (auto simp: find_request_iff request_key_def tasks_inv_def requests_wf_def)
  have key: "t_TaskID t' = tid" "int64 (t_Generation t') = g"
    using fr rk by (auto simp: frozen_def TaskFromRow_def wf_request_def)
  obtain now where w': "w_db w' = put_task tid g
      (updated_request (UpdateParams t' (t_Revision (TaskFromRow r)) at) now)
      (if out \<noteq> [] \<and> 0 < t_AttemptCount t'
       then outcome_rows tid g (int32 (t_AttemptCount t')) out at (db_attempts (w_db w))
       else db_attempts (w_db w)) (w_db w)" (is "_ = put_task tid g ?f ?as _")
    using apply_decision_db [OF a _ r key] inv unfolding tasks_inv_def by blast
  have wfa: "\<forall>a \<in> set (db_attempts (w_db w)). wf_attempt a" using inv by (simp add: tasks_inv_def)
  have "map AttemptFromRow (filter (attempt_key tid g) ?as) = record_outcome t' out (attempts_of (w_db w) tid g)"
    using outcome_rows_here [OF wfa] by (simp add: record_outcome_def attempts_of_def)
  then have "gen_live (TaskFromRow r, attempts_of (w_db w) tid g)
      (TaskFromRow (?f r), map AttemptFromRow (filter (attempt_key tid g) ?as))"
    using step fr by (simp add: TaskFromRow_updated gen_live.op)
  then show ?thesis
    unfolding w'
    using put_task_R [OF inv r, of ?f ?as] wfa
    by (intro tasks_RI) (auto simp: outcome_rows_other outcome_rows_wf wf_updated)
qed

text \<open>The handlers read the attempts in order; the decisions do not depend on it.\<close>

lemma find_same_set:
  assumes "set xs = set ys" "\<forall>x \<in> set xs. \<forall>y \<in> set xs. P x \<longrightarrow> P y \<longrightarrow> x = y"
  shows "find P xs = find P ys"
proof (cases "find P xs")
  case None
  then show ?thesis using assms(1) by (metis find_None_iff)
next
  case (Some x)
  then have x: "x \<in> set ys" "P x" using assms(1) by (auto simp: find_Some_iff)
  then obtain y where y: "find P ys = Some y" by (metis find_None_iff option.exhaust)
  then have "y \<in> set ys" "P y" by (auto simp: find_Some_iff)
  then show ?thesis using x assms Some y by auto
qed

lemma attemptOf_current:
  assumes "gen_ok (t, attempts_of d tid g)"
  shows "attemptOf t (sort_key ta_Ordinal (filter (attempt_key tid g) (db_attempts d)))
       = currentAttempt t (attempts_of d tid g)"
proof -
  have inj: "inj_on a_Ordinal (set (attempts_of d tid g))"
    using assms by (simp add: gen_ok_def distinct_map)
  have "find (\<lambda>a. a_Ordinal a = t_AttemptCount t)
          (map AttemptFromRow (sort_key ta_Ordinal (filter (attempt_key tid g) (db_attempts d))))
      = find (\<lambda>a. a_Ordinal a = t_AttemptCount t) (attempts_of d tid g)"
    using inj by (intro find_same_set) (auto simp: attempts_of_def inj_on_def)
  then show ?thesis by (simp add: attemptOf_def currentAttempt_def)
qed

lemma DecideClaim_same_set:
  "set as = set bs \<Longrightarrow> DecideClaim t as w lease now b = DecideClaim t bs w lease now b"
  by (simp add: DecideClaim_def list_ex_iff)

lemma live_gen_ok:
  assumes "tasks_inv d" "find (request_key tid g) (db_requests d) = Some r"
    "\<not> Terminal (t_State (TaskFromRow r))"
  shows "gen_ok (TaskFromRow r, attempts_of d tid g)"
proof -
  have "gen_of d tid g = Some (TaskFromRow r, attempts_of d tid g)" using assms(2) by (simp add: gen_of_def)
  then have "sound_gen (TaskFromRow r, attempts_of d tid g)"
    using assms(1) unfolding tasks_inv_def by blast
  then show ?thesis using assms(3) by (simp add: sound_gen_def)
qed

lemma ListAttempts_Inr:
  "query E (ListAttempts tid g) w = (Inr as, w') \<Longrightarrow>
   w_db w' = w_db w \<and> as = sort_key ta_Ordinal (filter (attempt_key tid g) (db_attempts (w_db w)))"
  by (auto simp: ListAttempts_def query_read_Inr)

section \<open>The handlers\<close>

lemma commitsI: "(\<And>w x w'. body w = (Inr x, w') \<Longrightarrow> tasks_inv (w_db w) \<Longrightarrow> tasks_R (w_db w) (w_db w')) \<Longrightarrow>
  commits tasks_R body"
  by (auto simp: commits_def tasks_R_def)

lemma heartbeat_commits: "commits tasks_R (heartbeat_body E tid g worker)"
proof (rule commitsI)
  fix w x w'
  assume b: "heartbeat_body E tid g worker w = (Inr x, w')" and inv: "tasks_inv (w_db w)"
  obtain row w1 as w2 at t' at' w3 where
    1: "locked_request E tid g w = (Inr row, w1)"
    and 2: "query E (ListAttempts tid (int64 g)) w1 = (Inr as, w2)"
    and 3: "DecideHeartbeat (TaskFromRow row) (attemptOf (TaskFromRow row) as) worker at = Inr t'"
    and 4: "apply_decision E t' (t_Revision (TaskFromRow row)) at' [] w3 = (Inr (), w')"
    and w3: "w_db w3 = w_db w2"
    using b by (auto simp: heartbeat_body_def Let_def seq_Inr)
  have r: "find (request_key tid (int64 g)) (db_requests (w_db w)) = Some row" and w1: "w_db w1 = w_db w"
    using locked_request_Inr [OF 1] by auto
  have w2: "w_db w2 = w_db w"
    and as: "as = sort_key ta_Ordinal (filter (attempt_key tid (int64 g)) (db_attempts (w_db w)))"
    using ListAttempts_Inr [OF 2] w1 by auto
  have ok: "gen_ok (TaskFromRow row, attempts_of (w_db w) tid (int64 g))"
    using DecideHeartbeat_InrD(1) [OF 3] by (intro live_gen_ok [OF inv r]) simp
  then have "attemptOf (TaskFromRow row) as = currentAttempt (TaskFromRow row) (attempts_of (w_db w) tid (int64 g))"
    unfolding as by (rule attemptOf_current)
  then have "gen_step (TaskFromRow row, attempts_of (w_db w) tid (int64 g))
      (stored_task t', record_outcome t' [] (attempts_of (w_db w) tid (int64 g)))"
    using 3 gen_step.heartbeat by (simp add: record_outcome_def)
  then show "tasks_R (w_db w) (w_db w')"
    using apply_decision_R [OF 4] inv r w2 w3 by simp
qed

lemma latest_in: "one_row (latest tid d) = Inr row \<Longrightarrow> row \<in> set (db_requests d) \<and> br_TaskID row = tid"
proof -
  assume "one_row (latest tid d) = Inr row"
  then have "row \<in> set (latest tid d)" by (auto simp: one_row_def split: list.splits)
  then have "row \<in> set (rev (sort_key br_Generation (filter (\<lambda>r. br_TaskID r = tid) (db_requests d))))"
    unfolding latest_def by (rule in_set_takeD)
  then show ?thesis by auto
qed

lemma latest_Inr:
  assumes "query E (GetLatestRequestForUpdate tid) w = (Inr row, w')" "tasks_inv (w_db w)"
  shows "w_db w' = w_db w \<and> find (request_key tid (br_Generation row)) (db_requests (w_db w)) = Some row"
  using assms latest_in [of tid "w_db w" row]
  by (auto simp: GetLatestRequestForUpdate_def query_read_Inr find_request_iff request_key_def
      tasks_inv_def requests_wf_def)

lemma cancel_commits: "commits tasks_R (cancel_body E tid)"
proof (rule commitsI)
  fix w x w'
  assume b: "cancel_body E tid w = (Inr x, w')" and inv: "tasks_inv (w_db w)"
  obtain row w1 where 1: "query E (GetLatestRequestForUpdate tid) w = (Inr row, w1)"
    and rest: "(case DecideCancel (TaskFromRow row) of (canceled, outcome, did) \<Rightarrow>
             seq (if did
                  then seq (clock_now E) (\<lambda>at. apply_decision E canceled (t_Revision (TaskFromRow row)) at outcome)
                  else ok ()) (\<lambda>_.
             ok (canceled, did))) w1 = (Inr x, w')"
    using b by (auto simp: cancel_body_def Let_def recover_Inr)
  have w1: "w_db w1 = w_db w"
    and r: "find (request_key tid (br_Generation row)) (db_requests (w_db w)) = Some row"
    using latest_Inr [OF 1 inv] by auto
  obtain t' out did where d: "DecideCancel (TaskFromRow row) = (t', out, did)" by (metis prod_cases3)
  show "tasks_R (w_db w) (w_db w')"
  proof (cases did)
    case False
    then show ?thesis using rest d w1 by (auto simp: seq_Inr intro: tasks_R_same)
  next
    case True
    then obtain at u w2 where a: "apply_decision E t' (t_Revision (TaskFromRow row)) at out w2 = (Inr u, w')"
      and w2: "w_db w2 = w_db w"
      using rest d w1 by (auto simp: seq_Inr)
    have "gen_step (TaskFromRow row, attempts_of (w_db w) tid (br_Generation row))
        (stored_task t', record_outcome t' out (attempts_of (w_db w) tid (br_Generation row)))"
      using d True by (intro gen_step.cancel) simp
    then show ?thesis using apply_decision_R [OF a] inv r w2 by simp
  qed
qed

lemma expire_commits: "commits tasks_R (expire_body E svc tid g o')"
proof (rule commitsI)
  fix w x w'
  assume b: "expire_body E svc tid g o' w = (Inr x, w')" and inv: "tasks_inv (w_db w)"
  obtain row w1 at where 1: "query E (GetRequestForUpdate tid g) w = (Inr row, w1)"
    and rest: "(case DecideExpire (TaskFromRow row) o' at (tk_bounds svc) of (decided, attemptOutcome, changed) \<Rightarrow>
       if \<not> changed then ok ()
       else seq counted (\<lambda>_. seq (clock_now E) (\<lambda>at'.
            apply_decision E decided (t_Revision (TaskFromRow row)) at' attemptOutcome))) (tick w1) = (Inr x, w')"
    using b by (auto simp: expire_body_def Let_def seq_Inr)
  have w1: "w_db w1 = w_db w" and r: "find (request_key tid g) (db_requests (w_db w)) = Some row"
    using 1 by (auto simp: GetRequestForUpdate_def query_read_Inr one_row_find)
  obtain t' out ch where d: "DecideExpire (TaskFromRow row) o' at (tk_bounds svc) = (t', out, ch)"
    by (metis prod_cases3)
  show "tasks_R (w_db w) (w_db w')"
  proof (cases ch)
    case False
    then show ?thesis using rest d w1 by (auto intro: tasks_R_same)
  next
    case True
    then obtain at' u w2 where a: "apply_decision E t' (t_Revision (TaskFromRow row)) at' out w2 = (Inr u, w')"
      and w2: "w_db w2 = w_db w"
      using rest d w1 by (auto simp: seq_Inr counted_def)
    have "gen_step (TaskFromRow row, attempts_of (w_db w) tid g)
        (stored_task t', record_outcome t' out (attempts_of (w_db w) tid g))"
      using d True by (intro gen_step.expire) simp
    then show ?thesis using apply_decision_R [OF a] inv r w2 by simp
  qed
qed

text \<open>Operations that leave the two task tables alone.\<close>

definition same_tasks :: "db \<Rightarrow> db \<Rightarrow> bool" where
  "same_tasks d d' \<longleftrightarrow> db_requests d' = db_requests d \<and> db_attempts d' = db_attempts d"

interpretation task_tables: evolution same_tasks
  by unfold_locales (simp_all add: same_tasks_def)

lemma same_tasks_R: "same_tasks d d' \<Longrightarrow> tasks_R d d'"
  by (simp add: same_tasks_def tasks_R_same)

lemma keeps_weaken: "keeps R m \<Longrightarrow> (\<And>d d'. R d d' \<Longrightarrow> S d d') \<Longrightarrow> keeps S m"
  by (auto simp: keeps_def)

text \<open>What the tasks rely on of a result binding.\<close>

definition bindings_keep_tasks :: "Tasks \<Rightarrow> bool" where
  "bindings_keep_tasks svc \<longleftrightarrow> (\<forall>profile b t. tk_bindings svc profile = Some b \<longrightarrow>
     keeps same_tasks (rb_Recorded b t) \<and> keeps same_tasks (rb_Accepted b t))"

lemma keeps_same_tasksD: "keeps same_tasks m \<Longrightarrow> m w = (r, w') \<Longrightarrow> same_tasks (w_db w) (w_db w')"
  unfolding keeps_def by (metis snd_conv)

lemma submit_commits:
  assumes bk: "bindings_keep_tasks svc"
  shows "commits tasks_R (submit_body E svc tid g sub)"
proof (rule commitsI)
  fix w x w'
  assume b: "submit_body E svc tid g sub w = (Inr x, w')" and inv: "tasks_inv (w_db w)"
  obtain row w1 as w2 auth w3 at recorded w4 d u w5 where
    1: "locked_request E tid g w = (Inr row, w1)"
    and 2: "query E (ListAttempts tid (int64 g)) w1 = (Inr as, w2)"
    and 3: "GrantAuthorization E (t_AuthorizationRef (TaskFromRow row)) (t_TenantID (TaskFromRow row)) w2 = (Inr auth, w3)"
    and 4: "(case tk_bindings svc (t_ResultProfile (TaskFromRow row)) of None \<Rightarrow> ok None
             | Some b \<Rightarrow> rb_Recorded b (TaskFromRow row)) (tick w3) = (Inr recorded, w4)"
    and 5: "DecideSubmitRecorded (TaskFromRow row) (attemptOf (TaskFromRow row) as) sub auth at (tk_bounds svc)
              recorded = Inr d"
    and 6: "(if sd_Changed d
          then seq (apply_decision E (sd_Task d) (t_Revision (TaskFromRow row)) at (sd_AttemptOutcome d)) (\<lambda>_.
               case tk_bindings svc (t_ResultProfile (TaskFromRow row)) of
                 Some b \<Rightarrow> if sd_Accepted d then rb_Accepted b (sd_Task d) else ok ()
               | None \<Rightarrow> ok ())
          else ok ()) w4 = (Inr u, w5)"
    and w5: "w' = w5"
    using b unfolding submit_body_def Let_def seq_Inr by auto
  have r: "find (request_key tid (int64 g)) (db_requests (w_db w)) = Some row" and w1: "w_db w1 = w_db w"
    using locked_request_Inr [OF 1] by auto
  have w3: "w_db w3 = w_db w"
    and as: "as = sort_key ta_Ordinal (filter (attempt_key tid (int64 g)) (db_attempts (w_db w)))"
    using ListAttempts_Inr [OF 2] w1 GrantAuthorization_db [OF 3] by auto
  have "keeps same_tasks (case tk_bindings svc (t_ResultProfile (TaskFromRow row)) of None \<Rightarrow> ok None
      | Some b \<Rightarrow> rb_Recorded b (TaskFromRow row))"
    using bk by (auto simp: bindings_keep_tasks_def intro: task_tables.keeps_ok split: option.split)
  from keeps_same_tasksD [OF this 4] have same: "same_tasks (w_db w) (w_db w4)" using w3 by simp
  show "tasks_R (w_db w) (w_db w')"
  proof (cases "sd_Changed d")
    case False
    then show ?thesis using 6 w5 same by (auto intro: same_tasks_R)
  next
    case True
    note D = DecideSubmit_changedD [OF 5 True]
    obtain u' w6 where a: "apply_decision E (sd_Task d) (t_Revision (TaskFromRow row)) at (sd_AttemptOutcome d) w4 = (Inr u', w6)"
      and acc: "(case tk_bindings svc (t_ResultProfile (TaskFromRow row)) of
                 Some b \<Rightarrow> if sd_Accepted d then rb_Accepted b (sd_Task d) else ok ()
               | None \<Rightarrow> ok ()) w6 = (Inr u, w5)"
      using 6 True by (auto simp: seq_Inr)
    have "keeps same_tasks (case tk_bindings svc (t_ResultProfile (TaskFromRow row)) of
        Some b \<Rightarrow> if sd_Accepted d then rb_Accepted b (sd_Task d) else ok () | None \<Rightarrow> ok ())"
      using bk by (auto simp: bindings_keep_tasks_def intro: task_tables.keeps_ok split: option.split)
    from keeps_same_tasksD [OF this acc] have same': "same_tasks (w_db w6) (w_db w5)" .
    have inv4: "tasks_inv (w_db w4)" using same_tasks_R [OF same] inv by (simp add: tasks_R_def)
    have at4: "attempts_of (w_db w4) tid (int64 g) = attempts_of (w_db w) tid (int64 g)"
      "find (request_key tid (int64 g)) (db_requests (w_db w4)) = Some row"
      using same r by (simp_all add: same_tasks_def attempts_of_def)
    have "gen_ok (TaskFromRow row, attempts_of (w_db w) tid (int64 g))"
      using D(1) by (intro live_gen_ok [OF inv r]) simp
    then have "attemptOf (TaskFromRow row) as = currentAttempt (TaskFromRow row) (attempts_of (w_db w) tid (int64 g))"
      unfolding as by (rule attemptOf_current)
    then have "gen_step (TaskFromRow row, attempts_of (w_db w) tid (int64 g)) (stored_task (sd_Task d),
        record_outcome (sd_Task d) (sd_AttemptOutcome d) (attempts_of (w_db w) tid (int64 g)))"
      using 5 True gen_step.submit by simp
    then have "tasks_R (w_db w4) (w_db w6)"
      using apply_decision_R [OF a inv4 at4(2)] at4(1) by simp
    then show ?thesis
      using same_tasks_R [OF same] same_tasks_R [OF same'] w5 by (metis tasks.R_trans)
  qed
qed

lemma InsertAttempt_Inr:
  assumes "query E (InsertAttempt sc tid g n worker at until) w = (Inr u, w')"
  shows "\<exists>row. w_db w' = (w_db w)\<lparr>db_attempts := db_attempts (w_db w) @ [row]\<rparr> \<and> attempt_key tid g row
    \<and> ta_Ordinal row = n
    \<and> AttemptFromRow row = stored_attempt \<lparr>a_Ordinal = uint32 n, a_WorkerID = worker, a_LeasedAt = at,
                                           a_LeaseUntil = until, a_Outcome = []\<rparr>"
proof -
  obtain row where row: "w_db w' = (w_db w)\<lparr>db_attempts := db_attempts (w_db w) @ [row]\<rparr>"
    and sel: "ta_TaskID row = tid" "ta_Generation row = g" "ta_Ordinal row = n" "ta_WorkerID row = worker"
      "ta_LeasedAt row = Some (trunc_us at)" "ta_LeaseUntil row = Some (trunc_us until)" "ta_Outcome row = None"
    using assms unfolding query_Inr InsertAttempt_def insert_row_table by (auto split: if_splits)
  then show ?thesis
    by (intro exI [of _ row])
      (simp add: attempt_key_def AttemptFromRow_def stored_attempt_def ts_def str_def)
qed

lemma claim_commits: "commits tasks_R (claim_body E svc tid g worker lease)"
proof (rule commitsI)
  fix w x w'
  assume b: "claim_body E svc tid g worker lease w = (Inr x, w')" and inv: "tasks_inv (w_db w)"
  obtain u0 w0 row w1 as w2 u1 w3 at d u2 w4 u3 w5 u4 where
    0: "admitConfiguration E svc w = (Inr u0, w0)"
    and 1: "locked_request E tid g w0 = (Inr row, w1)"
    and 2: "query E (ListAttempts tid (int64 g)) w1 = (Inr as, w2)"
    and 3: "admitConfiguration E svc w2 = (Inr u1, w3)"
    and 4: "DecideClaim (TaskFromRow row) (map AttemptFromRow as) worker lease at (tk_bounds svc) = Inr d"
    and 5: "(if cd_ExpiredPrevious d
          then query E (SetAttemptOutcome tid (int64 g) (int32 (t_AttemptCount (TaskFromRow row)))
                 (Some AttemptExpired) at)
          else ok ()) (tick w3) = (Inr u2, w4)"
    and 6: "apply_decision E (cd_Task d) (t_Revision (TaskFromRow row)) at [] w4 = (Inr u3, w5)"
    and 7: "query E (InsertAttempt (e_schema E) tid (int64 g) (int32 (a_Ordinal (cd_Attempt d)))
            worker at (a_LeaseUntil (cd_Attempt d))) w5 = (Inr u4, w')"
    using b unfolding claim_body_def Let_def seq_Inr by auto
  let ?t = "TaskFromRow row" and ?g = "int64 g"
  have w0: "w_db w0 = w_db w" using admitConfiguration_db [OF 0] .
  have r: "find (request_key tid ?g) (db_requests (w_db w)) = Some row" and w1: "w_db w1 = w_db w"
    using locked_request_Inr [OF 1] w0 by auto
  have w3: "w_db w3 = w_db w"
    and as: "as = sort_key ta_Ordinal (filter (attempt_key tid ?g) (db_attempts (w_db w)))"
    using ListAttempts_Inr [OF 2] w1 admitConfiguration_db [OF 3] by auto
  have dec: "DecideClaim ?t (attempts_of (w_db w) tid ?g) worker lease at (tk_bounds svc) = Inr d"
    using 4 by (subst DecideClaim_same_set [of _ "map AttemptFromRow as"]) (auto simp: attempts_of_def as)
  note D = DecideClaim_InrD [OF dec]
  let ?as = "if cd_ExpiredPrevious d
    then outcome_rows tid ?g (int32 (t_AttemptCount ?t)) AttemptExpired at (db_attempts (w_db w))
    else db_attempts (w_db w)"
  have w4: "w_db w4 = (w_db w)\<lparr>db_attempts := ?as\<rparr>"
    using 5 w3 by (auto simp: query_Inr SetAttemptOutcome_def outcome_rows_def split: if_splits)
  have rk: "br_TaskID row = tid" "br_Generation row = ?g"
    using r inv by (auto simp: find_request_iff request_key_def tasks_inv_def requests_wf_def)
  have fr: "frozen (cd_Task d) = frozen ?t" by (simp add: D(9) frozen_claimed)
  have key: "t_TaskID (cd_Task d) = tid" "int64 (t_Generation (cd_Task d)) = ?g"
    using fr rk by (auto simp: frozen_def TaskFromRow_def)
  have wf4: "requests_wf (w_db w4)" "find (request_key tid ?g) (db_requests (w_db w4)) = Some row"
    using inv r by (auto simp: w4 tasks_inv_def requests_wf_def)
  obtain now where w5: "w_db w5 = put_task tid ?g
      (updated_request (UpdateParams (cd_Task d) (t_Revision ?t) at) now) ?as ((w_db w)\<lparr>db_attempts := ?as\<rparr>)"
    using apply_decision_db [OF 6 wf4 key] unfolding w4 by (auto simp: if_distrib)
  obtain new where new: "w_db w' = (w_db w5)\<lparr>db_attempts := db_attempts (w_db w5) @ [new]\<rparr>"
    "attempt_key tid ?g new" "ta_Ordinal new = int32 (a_Ordinal (cd_Attempt d))"
    "AttemptFromRow new = stored_attempt (cd_Attempt d)"
    using InsertAttempt_Inr [OF 7] by (auto simp: D(10))
  let ?f = "updated_request (UpdateParams (cd_Task d) (t_Revision ?t) at) now"
  have w': "w_db w' = put_task tid ?g ?f (?as @ [new]) (w_db w)"
    unfolding new(1) w5 by (simp add: put_task_def)
  have wfa: "\<forall>a \<in> set (db_attempts (w_db w)). wf_attempt a" using inv by (simp add: tasks_inv_def)
  then have was: "\<forall>a \<in> set (?as @ [new]). wf_attempt a"
    using outcome_rows_wf [OF wfa] new(3) by (auto simp: wf_attempt_def)
  have "map AttemptFromRow (filter (attempt_key tid ?g) (?as @ [new]))
      = (if cd_ExpiredPrevious d then set_outcome (t_AttemptCount ?t) AttemptExpired (attempts_of (w_db w) tid ?g)
         else attempts_of (w_db w) tid ?g) @ [stored_attempt (cd_Attempt d)]"
    using outcome_rows_here [OF wfa] new(2,4) by (simp add: attempts_of_def)
  then have live: "gen_live (?t, attempts_of (w_db w) tid ?g)
      (TaskFromRow (?f row), map AttemptFromRow (filter (attempt_key tid ?g) (?as @ [new])))"
    using gen_step.claim [OF dec] fr by (simp add: TaskFromRow_updated gen_live.op)
  have other: "filter (attempt_key tid' g') (?as @ [new]) = filter (attempt_key tid' g') (db_attempts (w_db w))"
    if "(tid', g') \<noteq> (tid, ?g)" for tid' g'
    using that new(2) outcome_rows_other [OF that] by (auto simp: attempt_key_def)
  show "tasks_R (w_db w) (w_db w')"
    unfolding w'
    using put_task_R [of "w_db w" tid ?g row ?f "?as @ [new]", OF inv r live updated_request_id wf_updated other was]
    by (intro tasks_RI) blast
qed

text \<open>The primary key of the request table.\<close>

definition request_pk :: "env \<Rightarrow> bool" where
  "request_pk E \<longleftrightarrow> (\<forall>row rows. request_id row \<in> request_id ` set rows \<longrightarrow> sc_request (e_schema E) row rows)"

lemma TaskFromRow_inserted:
  assumes "NewRequest tid ten kind profile input eff did aref cid b = Inr t"
  shows "TaskFromRow ((InsertParams (t\<lparr>t_Generation := g\<rparr>))\<lparr>br_CreatedAt := c, br_UpdatedAt := c'\<rparr>)
    = t\<lparr>t_Generation := g\<rparr>"
proof -
  have [simp]: "str None = []" "ts None = zero_time" "uint32 0 = 0" "uint64 1 = 1"
    by (simp_all add: str_def ts_def uint32_def uint64_def)
  show ?thesis using assms
    by (auto simp: NewRequest_def TaskFromRow_def InsertParams_def split: if_splits option.splits)
qed

lemma insert_request_gen:
  assumes pk: "request_pk E" and n: "NewRequest tid ten kind profile input eff did aref cid b = Inr t"
    and q: "query E (InsertRequest (e_schema E) (InsertParams (t\<lparr>t_Generation := g\<rparr>))) w = (Inr u, w')"
    and inv: "tasks_inv (w_db w)"
  shows "tasks_inv (w_db w') \<and> (\<forall>tid g. gen_evolves (gen_of (w_db w) tid g) (gen_of (w_db w') tid g))"
    and "gen_of (w_db w') (t_TaskID t) (int64 g) = Some (t\<lparr>t_Generation := g\<rparr>, [])"
proof -
  let ?d = "w_db w"
  obtain c where w': "w_db w' = ?d\<lparr>db_requests := db_requests ?d @
      [(InsertParams (t\<lparr>t_Generation := g\<rparr>))\<lparr>br_CreatedAt := c, br_UpdatedAt := c\<rparr>]\<rparr>"
    and fresh: "\<not> sc_request (e_schema E)
      ((InsertParams (t\<lparr>t_Generation := g\<rparr>))\<lparr>br_CreatedAt := c, br_UpdatedAt := c\<rparr>) (db_requests ?d)"
    using q unfolding query_Inr InsertRequest_def insert_row_table by (auto split: if_splits)
  let ?row = "(InsertParams (t\<lparr>t_Generation := g\<rparr>))\<lparr>br_CreatedAt := c, br_UpdatedAt := c\<rparr>"
  have id: "request_id ?row = (t_TaskID t, int64 g)" by (simp add: request_id_def InsertParams_def)
  have notin: "request_id ?row \<notin> request_id ` set (db_requests ?d)"
    using pk fresh unfolding request_pk_def by blast
  have wf: "wf_request ?row"
    by (simp add: wf_request_def InsertParams_def) (simp add: int64_def uint64_def)
  have same: "gen_of (w_db w') tid' g' = gen_of ?d tid' g'" if "(tid', g') \<noteq> request_id ?row" for tid' g'
  proof -
    have "\<not> request_key tid' g' ?row" using that by (auto simp: request_key_def request_id_def)
    then have "find (request_key tid' g') (db_requests ?d @ [?row]) = find (request_key tid' g') (db_requests ?d)"
      by (simp add: find_snoc split: option.split)
    then show ?thesis by (simp add: gen_of_def w' attempts_of_def)
  qed
  have none: "find (request_key tid' g') (db_requests ?d) = None" if "(tid', g') = request_id ?row" for tid' g'
  proof -
    have "request_id x \<noteq> (tid', g')" if "x \<in> set (db_requests ?d)" for x
      using notin that \<open>(tid', g') = request_id ?row\<close> by (metis imageI)
    then show ?thesis by (auto simp: find_None_iff request_key_def request_id_def)
  qed
  have noatt: "attempts_of ?d tid' g' = []" if "(tid', g') = request_id ?row" for tid' g'
  proof -
    have "\<not> attempt_key tid' g' a" if "a \<in> set (db_attempts ?d)" for a
    proof
      assume "attempt_key tid' g' a"
      then have "(ta_TaskID a, ta_Generation a) = request_id ?row"
        using \<open>(tid', g') = request_id ?row\<close> by (simp add: attempt_key_def)
      moreover have "(ta_TaskID a, ta_Generation a) \<in> request_id ` set (db_requests ?d)"
        using inv that by (simp add: tasks_inv_def)
      ultimately show False using notin by simp
    qed
    then show ?thesis by (simp add: attempts_of_def)
  qed
  have here: "gen_of (w_db w') tid' g' = Some (t\<lparr>t_Generation := g\<rparr>, [])" if "(tid', g') = request_id ?row" for tid' g'
  proof -
    have "find (request_key tid' g') (db_requests ?d @ [?row]) = Some ?row"
      using none [OF that] that by (auto simp: find_snoc request_key_def request_id_def)
    then show ?thesis
      using noatt [OF that] TaskFromRow_inserted [OF n] by (simp add: gen_of_def w' attempts_of_def)
  qed
  have poss: "gen_possible (t\<lparr>t_Generation := g\<rparr>, [])" using n by (rule gen_possible.new)
  have ok: "gen_ok (t\<lparr>t_Generation := g\<rparr>, [])"
    using NewRequest_InrD [OF n] by (simp add: gen_ok_def)
  have sound: "sound_gen x" if "gen_of (w_db w') tid' g' = Some x" for tid' g' x
  proof (cases "(tid', g') = request_id ?row")
    case True
    then show ?thesis using here that ok by (auto simp: sound_gen_def)
  next
    case False
    then have "gen_of ?d tid' g' = Some x" using same that by simp
    then show ?thesis using inv unfolding tasks_inv_def by blast
  qed
  have "tasks_inv (w_db w')"
    unfolding tasks_inv_def requests_wf_def
    using inv notin wf sound by (auto simp: w' tasks_inv_def requests_wf_def)
  moreover have "gen_evolves (gen_of ?d tid' g') (gen_of (w_db w') tid' g')" for tid' g'
  proof (cases "(tid', g') = request_id ?row")
    case True
    then have "gen_of ?d tid' g' = None" by (simp add: gen_of_def none)
    then show ?thesis using here [OF True] poss by simp
  next
    case False
    then show ?thesis using same by (simp add: gen_evolves_refl)
  qed
  ultimately show "tasks_inv (w_db w') \<and> (\<forall>tid g. gen_evolves (gen_of ?d tid g) (gen_of (w_db w') tid g))"
    by blast
  show "gen_of (w_db w') (t_TaskID t) (int64 g) = Some (t\<lparr>t_Generation := g\<rparr>, [])"
    using here id by simp
qed

lemma insert_request_R:
  assumes "request_pk E" "NewRequest tid ten kind profile input eff did aref cid b = Inr t"
    "query E (InsertRequest (e_schema E) (InsertParams (t\<lparr>t_Generation := g\<rparr>))) w = (Inr u, w')"
  shows "tasks_R (w_db w) (w_db w')"
  using insert_request_gen(1) [OF assms] by (rule tasks_RI)

lemma Publish_same_tasks: "Publish E ev w = (r, w') \<Longrightarrow> same_tasks (w_db w) (w_db w')"
  by (auto simp: Publish_def query_def same_tasks_def split: if_splits)

lemma commit_request_R:
  assumes pk: "request_pk E" and n: "NewRequest tid ten kind profile input eff did aref cid b = Inr t"
    and c: "commit_request E svc at (t\<lparr>t_Generation := g\<rparr>) w = (Inr x, w')"
  shows "tasks_R (w_db w) (w_db w')"
proof -
  obtain auth w1 u2 w2 u3 w3 u4 where
    1: "GrantAuthorization E (t_AuthorizationRef t) (t_TenantID t) w = (Inr auth, w1)"
    and 2: "admitConfiguration E svc w1 = (Inr u2, w2)"
    and 3: "query E (InsertRequest (e_schema E) (InsertParams (t\<lparr>t_Generation := g\<rparr>))) w2 = (Inr u3, w3)"
    and 4: "Publish E (RequestedEvent (e_uuid E (w_tick w3)) (t\<lparr>t_Generation := g\<rparr>) at) (tick w3) = (Inr u4, w')"
    using c unfolding commit_request_def seq_Inr by auto
  have w2: "w_db w2 = w_db w"
    using GrantAuthorization_db [OF 1] admitConfiguration_db [OF 2] by simp
  show ?thesis
    using insert_request_R [OF pk n 3] same_tasks_R [OF Publish_same_tasks [OF 4]] w2
    by (auto intro: tasks.R_trans)
qed

lemma NewRequest_generation: "NewRequest tid ten kind profile input eff did aref cid b = Inr t \<Longrightarrow> t_Generation t = 1"
  by (auto simp: NewRequest_def split: if_splits option.splits)

text \<open>The superseded generation: fenced as one step, then the next generation is inserted.\<close>

lemma supersede_R:
  assumes inv: "tasks_inv (w_db w)"
    and r: "find (request_key tid g) (db_requests (w_db w)) = Some row"
    and d: "Supersede (TaskFromRow row) = (fenced, changed)"
    and a: "(if changed then apply_decision E fenced (t_Revision (TaskFromRow row)) at
               (attemptOutcomeIfLeased (TaskFromRow row) AttemptStale) else ok ()) w = (Inr u, w')"
  shows "tasks_R (w_db w) (w_db w')"
proof (cases changed)
  case False
  then show ?thesis using a by (auto intro: tasks_R_same)
next
  case True
  have "gen_step (TaskFromRow row, attempts_of (w_db w) tid g)
      (stored_task fenced, record_outcome fenced (attemptOutcomeIfLeased (TaskFromRow row) AttemptStale)
         (attempts_of (w_db w) tid g))"
    using gen_step.supersede [of "TaskFromRow row" fenced] d True by (simp add: attemptOutcomeIfLeased_def)
  then show ?thesis using apply_decision_R [OF _ inv r, of E fenced at _ u w'] a True by simp
qed

lemma request_body_InrE:
  assumes "request_body E svc i w = (Inr x, w')"
  obtains canonical cand at l wl w2 where
    "NewRequest (ri_TaskID i) (ri_TenantID i) (ri_Kind i) (ri_Profile i) canonical
       (ri_Effects i) (ri_DispatchID i) (ri_AuthorizationRef i) (ri_CorrelationID i) (tk_bounds svc) = Inr cand"
    "query E (GetLatestRequestForUpdate (ri_TaskID i)) wl = (l, w2)" "w_db wl = w_db w"
    "request_latest E svc i cand at l w2 = (Inr x, w')" "w_db w2 = w_db w"
proof -
  obtain u0 w0 canonical w1 cand at l w2 where
    0: "admitConfiguration E svc w = (Inr u0, w0)"
    and 1: "query E (CanonicalJSON E (ri_Input i)) w0 = (Inr canonical, w1)"
    and n: "NewRequest (ri_TaskID i) (ri_TenantID i) (ri_Kind i) (ri_Profile i) canonical
            (ri_Effects i) (ri_DispatchID i) (ri_AuthorizationRef i) (ri_CorrelationID i)
            (tk_bounds svc) = Inr cand"
    and 2: "query E (GetLatestRequestForUpdate (ri_TaskID i)) (tick w1) = (l, w2)"
    and rest: "request_latest E svc i cand at l w2 = (Inr x, w')"
    using assms unfolding request_body_def by (auto simp: seq_Inr recover_Inr)
  have w1: "w_db (tick w1) = w_db w"
    using admitConfiguration_db [OF 0] 1 by (auto simp: CanonicalJSON_def query_read_Inr)
  have w2: "w_db w2 = w_db w"
    using 2 w1 by (auto simp: GetLatestRequestForUpdate_def query_def read_def split: if_splits sum.splits)
  show thesis using that [OF n 2 w1 rest w2] .
qed

lemma request_commits:
  assumes pk: "request_pk E"
  shows "commits tasks_R (request_body E svc i)"
proof (rule commitsI)
  fix w x w'
  assume b: "request_body E svc i w = (Inr x, w')" and inv: "tasks_inv (w_db w)"
  obtain canonical cand at l wl w2 where
    n: "NewRequest (ri_TaskID i) (ri_TenantID i) (ri_Kind i) (ri_Profile i) canonical
          (ri_Effects i) (ri_DispatchID i) (ri_AuthorizationRef i) (ri_CorrelationID i) (tk_bounds svc) = Inr cand"
    and 2: "query E (GetLatestRequestForUpdate (ri_TaskID i)) wl = (l, w2)" and wl: "w_db wl = w_db w"
    and rest: "request_latest E svc i cand at l w2 = (Inr x, w')" and w2: "w_db w2 = w_db w"
    using b by (rule request_body_InrE)
  show "tasks_R (w_db w) (w_db w')"
  proof (cases l)
    case (Inl e)
    then have "commit_request E svc at (cand\<lparr>t_Generation := 1\<rparr>) w2 = (Inr x, w')"
      using rest NewRequest_generation [OF n] by (cases cand) (auto simp: request_latest_def split: if_splits)
    then show ?thesis using commit_request_R [OF pk n] w2 by metis
  next
    case (Inr row)
    have r: "find (request_key (ri_TaskID i) (br_Generation row)) (db_requests (w_db w2)) = Some row"
      using latest_Inr [of E "ri_TaskID i" wl row w2] 2 Inr inv wl w2 by simp
    obtain fenced changed where s: "Supersede (TaskFromRow row) = (fenced, changed)" by force
    show ?thesis
    proof (cases "t_InputDigest (TaskFromRow row) = t_InputDigest cand")
      case True
      then show ?thesis using rest Inr w2 by (auto simp: request_latest_def Let_def intro: tasks_R_same split: if_splits)
    next
      case False
      then obtain u w3 where
        a: "(if changed then apply_decision E fenced (t_Revision (TaskFromRow row)) at
             (attemptOutcomeIfLeased (TaskFromRow row) AttemptStale) else ok ()) w2 = (Inr u, w3)"
        and c: "commit_request E svc at (cand\<lparr>t_Generation := t_Generation (TaskFromRow row) + 1\<rparr>) w3 = (Inr x, w')"
        using rest Inr s by (auto simp: request_latest_def Let_def seq_Inr split: if_splits)
      have "tasks_R (w_db w2) (w_db w3)" using supersede_R [OF _ r s a] inv w2 by simp
      then show ?thesis using commit_request_R [OF pk n c] w2 by (auto intro: tasks.R_trans)
    qed
  qed
qed

text \<open>Retention removes attempts of terminal generations only.\<close>

lemma set_delete_first: "set (delete_first n P xs) \<subseteq> set xs"
  by (induction n P xs rule: delete_first.induct) auto

lemma filter_delete_first: "(\<And>x. Q x \<Longrightarrow> \<not> P x) \<Longrightarrow> filter Q (delete_first n P xs) = filter Q xs"
  by (induction n P xs rule: delete_first.induct) auto

lemma retain_R: "tasks_R d (d\<lparr>db_attempts := delete_first n (prunable bound d) (db_attempts d)\<rparr>)"
proof (rule tasks_RI)
  assume inv: "tasks_inv d"
  let ?d = "d\<lparr>db_attempts := delete_first n (prunable bound d) (db_attempts d)\<rparr>"
  have sub: "set (db_attempts ?d) \<subseteq> set (db_attempts d)" by (simp add: set_delete_first)
  have live: "gen_live\<^sup>*\<^sup>* (TaskFromRow r, attempts_of d tid g) (TaskFromRow r, attempts_of ?d tid g)"
    if r: "find (request_key tid g) (db_requests d) = Some r" for tid g r
  proof (cases "Terminal (br_State r)")
    case True
    have "set (attempts_of ?d tid g) \<subseteq> set (attempts_of d tid g)" using sub by (auto simp: attempts_of_def)
    then show ?thesis using True by (intro r_into_rtranclp gen_live.prune) (simp_all add: TaskFromRow_def)
  next
    case False
    have "\<not> prunable bound d a" if "attempt_key tid g a" for a
    proof -
      have "r' = r" if "r' \<in> set (db_requests d)" "request_key tid g r'" for r'
        using that r inv find_request_iff [of d tid g r'] by (simp add: tasks_inv_def requests_wf_def)
      then show ?thesis using False that by (auto simp: prunable_def list_ex_iff attempt_key_def)
    qed
    then have "attempts_of ?d tid g = attempts_of d tid g"
      by (simp add: attempts_of_def filter_delete_first)
    then show ?thesis by simp
  qed
  have ev: "gen_evolves (gen_of d tid g) (gen_of ?d tid g)" for tid g
    using live by (cases "find (request_key tid g) (db_requests d)") (auto simp: gen_of_def)
  have "sound_gen y" if y: "gen_of ?d tid g = Some y" for tid g y
  proof -
    obtain x where x: "gen_of d tid g = Some x" "gen_live\<^sup>*\<^sup>* x y"
      using y live by (auto simp: gen_of_def)
    moreover have "sound_gen x" using inv x(1) unfolding tasks_inv_def by blast
    ultimately show ?thesis by (blast intro: sound_gen_lives)
  qed
  then have "tasks_inv ?d" using inv sub by (auto simp: tasks_inv_def requests_wf_def)
  with ev show "tasks_inv ?d \<and> (\<forall>tid g. gen_evolves (gen_of d tid g) (gen_of ?d tid g))" by blast
qed

section \<open>Every handler\<close>

text \<open>What the tasks rely on: the primary key of the request table, result bindings that leave the
  task tables alone, and other replicas that run the same code.\<close>

definition tasks_env :: "env \<Rightarrow> Tasks \<Rightarrow> bool" where
  "tasks_env E svc \<longleftrightarrow> request_pk E \<and> bindings_keep_tasks svc \<and> rely tasks_R E"

datatype task_call =
    DoRequest RequestInput
  | DoClaim string u64 string duration
  | DoHeartbeat string u64 string
  | DoSubmit string u64 Submission
  | DoGet string
  | DoCancel string
  | DoSweep DispatchQuery int
  | DoRetain time nat

fun run_call :: "env \<Rightarrow> Tasks \<Rightarrow> task_call \<Rightarrow> world \<Rightarrow> world" where
  "run_call E svc (DoRequest i) w = snd (Request E svc i w)"
| "run_call E svc (DoClaim tid g worker lease) w = snd (Claim E svc tid g worker lease w)"
| "run_call E svc (DoHeartbeat tid g worker) w = snd (Heartbeat E tid g worker w)"
| "run_call E svc (DoSubmit tid g sub) w = snd (Submit E svc tid g sub w)"
| "run_call E svc (DoGet tid) w = snd (Get E tid w)"
| "run_call E svc (DoCancel tid) w = snd (Cancel E tid w)"
| "run_call E svc (DoSweep dispatch limit) w = snd (SweepExpired E svc dispatch limit w)"
| "run_call E svc (DoRetain bound batch) w = snd (Retain E bound batch w)"

lemma keeps_Get: "rely tasks_R E \<Longrightarrow> keeps tasks_R (Get E tid)"
  unfolding Get_def GetLatestRequest_def
  by (auto intro!: tasks.keeps_intros split: sum.split)

lemma keeps_sweep_one: "rely tasks_R E \<Longrightarrow> keeps tasks_R (sweep_one E svc dispatch e)"
  unfolding sweep_one_def GetRequest_def Let_def
  by (auto intro!: tasks.keeps_intros expire_commits split: sum.split)

lemma keeps_sweep_all: "rely tasks_R E \<Longrightarrow> keeps tasks_R (sweep_all E svc dispatch es)"
  by (induction es) (auto intro!: tasks.keeps_intros keeps_sweep_one)

lemma keeps_SweepExpired:
  assumes "rely tasks_R E"
  shows "keeps tasks_R (SweepExpired E svc dispatch limit)"
proof -
  have "keeps tasks_R (\<lambda>w'. (Inr (f w'), w'))" for f :: "world \<Rightarrow> nat"
    by (simp add: keeps_def tasks.R_refl)
  then have "keeps tasks_R (seq (clock_now E) (\<lambda>at.
      seq (pool_query E (ListExpiredLeases at limit)) (\<lambda>expired.
      seq (sweep_all E svc dispatch expired) (\<lambda>_. (\<lambda>w'. (Inr (f w'), w'))))))" for f :: "world \<Rightarrow> nat"
    unfolding ListExpiredLeases_def
    by (intro tasks.keeps_intros keeps_sweep_all assms)
  then show ?thesis unfolding keeps_def SweepExpired_def Let_def by (intro allI) (rule spec)
qed

lemma keeps_Retain:
  assumes "rely tasks_R E"
  shows "keeps tasks_R (Retain E bound batch)"
  unfolding keeps_def Retain_def pool_query_def query_def Let_def
  using tasks.R_interfere [OF assms] by (auto intro: tasks.R_trans retain_R)

lemma run_call_R:
  assumes "tasks_env E svc"
  shows "tasks_R (w_db w) (w_db (run_call E svc c w))"
proof -
  have a: "rely tasks_R E" "request_pk E" "bindings_keep_tasks svc" using assms by (simp_all add: tasks_env_def)
  note tx = tasks.keeps_InTx [OF a(1)]
  show ?thesis
  proof (cases c)
    case DoRequest
    then show ?thesis using tx [OF request_commits [OF a(2)]] by (simp add: keeps_def Request_def)
  next
    case DoClaim
    then show ?thesis using tx [OF claim_commits] by (simp add: keeps_def Claim_def)
  next
    case DoHeartbeat
    then show ?thesis using tx [OF heartbeat_commits] by (simp add: keeps_def Heartbeat_def)
  next
    case DoSubmit
    then show ?thesis using tx [OF submit_commits [OF a(3)]] by (simp add: keeps_def Submit_def)
  next
    case DoCancel
    then show ?thesis using tx [OF cancel_commits] by (simp add: keeps_def Cancel_def)
  next
    case DoGet
    then show ?thesis using keeps_Get [OF a(1)] by (simp add: keeps_def)
  next
    case DoSweep
    then show ?thesis using keeps_SweepExpired [OF a(1)] by (simp add: keeps_def)
  next
    case DoRetain
    then show ?thesis using keeps_Retain [OF a(1)] by (simp add: keeps_def)
  qed
qed

lemma fold_run_call_R:
  assumes "tasks_env E svc"
  shows "tasks_R (w_db w) (w_db (fold (run_call E svc) calls w))"
proof (induction calls arbitrary: w)
  case Nil
  then show ?case by (simp add: tasks.R_refl)
next
  case (Cons c calls)
  show ?case using tasks.R_trans [OF run_call_R [OF assms] Cons.IH] by simp
qed

lemma terminal_gen_lives:
  assumes "gen_live\<^sup>*\<^sup>* x y" "Terminal (t_State (fst x))"
  shows "fst y = fst x \<and> set (snd y) \<subseteq> set (snd x)"
  using assms
proof (induction rule: rtranclp_induct)
  case (step y z)
  then have "Terminal (t_State (fst y))" by simp
  with step.hyps(2) have "fst z = fst y \<and> set (snd z) \<subseteq> set (snd y)"
    by (cases y; cases z) (auto elim!: gen_live.cases dest: gen_step_not_terminal)
  with step.IH step.prems show ?case by auto
qed simp

text \<open>A concrete service.\<close>

definition sample_tasks :: Tasks where
  "sample_tasks = \<lparr>tk_bounds = sample_bounds, tk_expiresAt = None, tk_bindings = (\<lambda>_. None)\<rparr>"

lemma sample_tasks_env: "tasks_env sample_env sample_tasks"
  by (simp add: tasks_env_def sample_env_def sample_tasks_def sample_schema_def request_pk_def
      bindings_keep_tasks_def rely_def tasks.R_refl)

lemma empty_tasks_inv: "tasks_inv empty_db"
  by (simp add: tasks_inv_def requests_wf_def gen_of_def empty_db_def)

section \<open>Properties\<close>

text \<open>
  C2. Whatever sequence of task calls a replica runs (request, claim, heartbeat, submit, get, cancel,
  the expiry sweep, retention), with any query failing, any commit refused or its answer lost, and
  other replicas changing the tables by the same rules in between, the tables keep their invariant
  and every generation that was there has only moved along the state machine of a generation; a
  generation that appeared is one the machine can produce from a new request.
\<close>
theorem task_handlers_refine_machine:
  assumes "tasks_env E svc" "tasks_inv (w_db w)"
  shows "tasks_inv (w_db (fold (run_call E svc) calls w))
    \<and> gen_evolves (gen_of (w_db w) tid g) (gen_of (w_db (fold (run_call E svc) calls w)) tid g)"
  using fold_run_call_R [OF assms(1), of w calls] assms(2) by (simp add: tasks_R_def)

theorem task_handlers_refine_machine_witness:
  "let w' = fold (run_call sample_env sample_tasks) [DoCancel ''t'', DoSweep NoDispatchQuery 10]
       \<lparr>w_db = empty_db, w_tick = 0, w_log = []\<rparr>
   in tasks_inv (w_db w') \<and> gen_evolves None (gen_of (w_db w') ''t'' 1)"
  using task_handlers_refine_machine [OF sample_tasks_env,
      of "\<lparr>w_db = empty_db, w_tick = 0, w_log = []\<rparr>" "[DoCancel ''t'', DoSweep NoDispatchQuery 10]" "''t''" 1]
    empty_tasks_inv
  by (simp add: Let_def gen_of_def empty_db_def)

text \<open>
  C31. A finished generation stays finished: once a request is succeeded, failed, canceled or
  superseded, no sequence of task calls, failures and interference changes its row again; at most its attempts
  are pruned.
\<close>
theorem finished_generation_is_final:
  assumes "tasks_env E svc" "tasks_inv (w_db w)" "gen_of (w_db w) tid g = Some (t, as)" "Terminal (t_State t)"
  shows "\<exists>as'. gen_of (w_db (fold (run_call E svc) calls w)) tid g = Some (t, as') \<and> set as' \<subseteq> set as"
proof -
  let ?d = "w_db (fold (run_call E svc) calls w)"
  have "gen_evolves (gen_of (w_db w) tid g) (gen_of ?d tid g)"
    using fold_run_call_R [OF assms(1), of w calls] assms(2) unfolding tasks_R_def by blast
  then have ev: "gen_evolves (Some (t, as)) (gen_of ?d tid g)" using assms(3) by simp
  then obtain y where y: "gen_of ?d tid g = Some y" "gen_live\<^sup>*\<^sup>* (t, as) y"
    by (cases "gen_of ?d tid g") auto
  then show ?thesis using terminal_gen_lives [OF y(2)] assms(4) by (cases y) auto
qed

definition sample_canceled_row :: BackgroundRequest where
  "sample_canceled_row = (InsertParams (sample_new EffectsReconstructible))\<lparr>br_State := StateCanceled\<rparr>"

lemma sample_canceled:
  "request_key ''t1'' 1 sample_canceled_row" "Terminal (t_State (TaskFromRow sample_canceled_row))"
  "wf_request sample_canceled_row" "request_id sample_canceled_row = (''t1'', 1)"
  by (simp_all add: sample_canceled_row_def InsertParams_def sample_new_def request_key_def request_id_def
      TaskFromRow_def wf_request_def int64_def uint64_def)

lemma sample_canceled_inv: "tasks_inv (empty_db\<lparr>db_requests := [sample_canceled_row]\<rparr>)"
  using sample_canceled by (simp add: tasks_inv_def requests_wf_def gen_of_def empty_db_def sound_gen_def)

theorem finished_generation_is_final_witness:
  "\<exists>as'. gen_of (w_db (fold (run_call sample_env sample_tasks) [DoCancel ''t1'', DoSweep NoDispatchQuery 10]
      \<lparr>w_db = empty_db\<lparr>db_requests := [sample_canceled_row]\<rparr>, w_tick = 0, w_log = []\<rparr>)) ''t1'' 1
    = Some (TaskFromRow sample_canceled_row, as') \<and> set as' \<subseteq> {}"
  using finished_generation_is_final [OF sample_tasks_env,
      of "\<lparr>w_db = empty_db\<lparr>db_requests := [sample_canceled_row]\<rparr>, w_tick = 0, w_log = []\<rparr>" "''t1''" 1
        "TaskFromRow sample_canceled_row" "[]" "[DoCancel ''t1'', DoSweep NoDispatchQuery 10]"]
    sample_canceled_inv sample_canceled
  by (simp add: gen_of_def attempts_of_def empty_db_def)

lemma GrantAuthorization_current:
  assumes "GrantAuthorization E ref ten w = (Inr AuthorizationCurrent, w')"
  shows "take 6 ref = ''grant:'' \<and> (\<exists>r \<in> set (db_grants (w_db w)). gw_GrantID r = drop 6 ref
    \<and> gw_TenantID r = ten \<and> gw_State r = GrantActive \<and> gw_ControlReceiptID r \<noteq> None)"
proof -
  obtain g where ref: "take 6 ref = ''grant:''"
    and g: "one_row (map (\<lambda>r. \<lparr>gs_TenantID = gw_TenantID r, gs_State = gw_State r, gs_ExpiresAt = gw_ExpiresAt r,
           gs_ControlReceiptID = gw_ControlReceiptID r\<rparr>)
       (filter (\<lambda>r. gw_GrantID r = drop 6 ref) (db_grants (w_db w)))) = Inr g"
    and ok: "gs_TenantID g = ten \<and> gs_State g = GrantActive \<and> gs_ControlReceiptID g \<noteq> None"
    using assms
    by (auto simp: GrantAuthorization_def GetGrantState_def query_read_Inr seq_Inr recover_Inr split: if_splits)
  from one_row_map [OF g] show ?thesis using ref ok by auto
qed

lemma commit_request_new:
  assumes pk: "request_pk E" and inv: "tasks_inv (w_db w)"
    and n: "NewRequest tid ten kind profile input eff did aref cid b = Inr t"
    and c: "commit_request E svc at (t\<lparr>t_Generation := g\<rparr>) w = (Inr (t', replayed), w')"
  shows "t' = t\<lparr>t_Generation := g\<rparr> \<and> \<not> replayed \<and> gen_of (w_db w') (t_TaskID t) (int64 g) = Some (t', [])
    \<and> (\<exists>eventID. db_outbox (w_db w') = db_outbox (w_db w) @ [RequestedEvent eventID t' at])
    \<and> (\<exists>r \<in> set (db_grants (w_db w)). gw_GrantID r = drop 6 (t_AuthorizationRef t)
         \<and> gw_TenantID r = t_TenantID t \<and> gw_State r = GrantActive \<and> gw_ControlReceiptID r \<noteq> None)"
proof -
  obtain w1 u2 w2 u3 w3 u4 where
    1: "GrantAuthorization E (t_AuthorizationRef t) (t_TenantID t) w = (Inr AuthorizationCurrent, w1)"
    and 2: "admitConfiguration E svc w1 = (Inr u2, w2)"
    and 3: "query E (InsertRequest (e_schema E) (InsertParams (t\<lparr>t_Generation := g\<rparr>))) w2 = (Inr u3, w3)"
    and 4: "Publish E (RequestedEvent (e_uuid E (w_tick w3)) (t\<lparr>t_Generation := g\<rparr>) at) (tick w3) = (Inr u4, w')"
    and t': "t' = t\<lparr>t_Generation := g\<rparr>" "\<not> replayed"
    using c unfolding commit_request_def seq_Inr by auto
  have w2: "w_db w2 = w_db w"
    using GrantAuthorization_db [OF 1] admitConfiguration_db [OF 2] by simp
  note ins = insert_request_gen [OF pk n 3] 
  have "gen_of (w_db w3) (t_TaskID t) (int64 g) = Some (t', [])" using ins inv w2 t' by simp
  moreover have "w_db w' = (w_db w3)\<lparr>db_outbox := db_outbox (w_db w3) @
      [RequestedEvent (e_uuid E (w_tick w3)) (t\<lparr>t_Generation := g\<rparr>) at]\<rparr>"
    using 4 by (auto simp: Publish_def query_Inr)
  moreover have "db_outbox (w_db w3) = db_outbox (w_db w)"
    using 3 w2 by (auto simp: query_Inr InsertRequest_def insert_row_table split: if_splits)
  ultimately show ?thesis
    using t' GrantAuthorization_current [OF 1] by (auto simp: gen_of_def attempts_of_def)
qed

lemma apply_decision_other:
  "apply_decision E t rd at out w = (Inr u, w') \<Longrightarrow>
   db_outbox (w_db w') = db_outbox (w_db w) \<and> db_grants (w_db w') = db_grants (w_db w)"
  by (auto simp: apply_decision_def seq_Inr query_Inr UpdateRequest_def SetAttemptOutcome_def Let_def split: if_splits)

lemma request_body_commit:
  assumes b: "request_body E svc i w = (Inr (t, False), w')" and inv: "tasks_inv (w_db w)"
  obtains canonical cand g at w3 where
    "NewRequest (ri_TaskID i) (ri_TenantID i) (ri_Kind i) (ri_Profile i) canonical
       (ri_Effects i) (ri_DispatchID i) (ri_AuthorizationRef i) (ri_CorrelationID i) (tk_bounds svc) = Inr cand"
    "commit_request E svc at (cand\<lparr>t_Generation := g\<rparr>) w3 = (Inr (t, False), w')"
    "tasks_inv (w_db w3)" "db_outbox (w_db w3) = db_outbox (w_db w)" "db_grants (w_db w3) = db_grants (w_db w)"
proof -
  obtain canonical cand at l wl w2 where
    n: "NewRequest (ri_TaskID i) (ri_TenantID i) (ri_Kind i) (ri_Profile i) canonical
          (ri_Effects i) (ri_DispatchID i) (ri_AuthorizationRef i) (ri_CorrelationID i) (tk_bounds svc) = Inr cand"
    and 2: "query E (GetLatestRequestForUpdate (ri_TaskID i)) wl = (l, w2)" and wl: "w_db wl = w_db w"
    and rest: "request_latest E svc i cand at l w2 = (Inr (t, False), w')" and w2: "w_db w2 = w_db w"
    using b by (rule request_body_InrE)
  show thesis
  proof (cases l)
    case (Inl e)
    then have "commit_request E svc at (cand\<lparr>t_Generation := 1\<rparr>) w2 = (Inr (t, False), w')"
      using rest NewRequest_generation [OF n] by (cases cand) (auto simp: request_latest_def split: if_splits)
    then show thesis using that [OF n] inv w2 by auto
  next
    case (Inr row)
    have r: "find (request_key (ri_TaskID i) (br_Generation row)) (db_requests (w_db w2)) = Some row"
      using latest_Inr [of E "ri_TaskID i" wl row w2] 2 Inr inv wl w2 by simp
    obtain fenced changed where s: "Supersede (TaskFromRow row) = (fenced, changed)" by force
    obtain u w3 where
      a: "(if changed then apply_decision E fenced (t_Revision (TaskFromRow row)) at
           (attemptOutcomeIfLeased (TaskFromRow row) AttemptStale) else ok ()) w2 = (Inr u, w3)"
      and c: "commit_request E svc at (cand\<lparr>t_Generation := t_Generation (TaskFromRow row) + 1\<rparr>) w3
        = (Inr (t, False), w')"
      using rest Inr s by (auto simp: request_latest_def Let_def seq_Inr split: if_splits)
    have "tasks_inv (w_db w3)"
      using supersede_R [OF _ r s a] inv w2 by (simp add: tasks_R_def)
    moreover have "db_outbox (w_db w3) = db_outbox (w_db w)" "db_grants (w_db w3) = db_grants (w_db w)"
      using a w2 by (auto split: if_splits dest: apply_decision_other)
    ultimately show thesis using that [OF n c] by simp
  qed
qed

text \<open>
  A request that is not a replay: what the table now holds for the generation of the returned
  task is that task, pending and without attempts; the grant that authorizes it was active,
  receipted and of the same tenant in the transaction; and the outbox gained exactly the requested
  event of that task, in the same transaction.
\<close>
theorem request_stores_and_announces:
  assumes "request_pk E" "tasks_inv (w_db (interfere E w))" "Request E svc i w = (Inr (t, False), w')"
  shows "gen_of (w_db w') (ri_TaskID i) (int64 (t_Generation t)) = Some (t, []) \<and> t_State t = StatePending
    \<and> (\<exists>eventID at. db_outbox (w_db w') = db_outbox (w_db (interfere E w)) @ [RequestedEvent eventID t at])
    \<and> (\<exists>r \<in> set (db_grants (w_db (interfere E w))). gw_GrantID r = drop 6 (ri_AuthorizationRef i)
         \<and> gw_TenantID r = ri_TenantID i \<and> gw_State r = GrantActive \<and> gw_ControlReceiptID r \<noteq> None)"
proof -
  obtain w1 where b: "request_body E svc i (interfere E w) = (Inr (t, False), w1)" and w': "w' = tick w1"
    using InTx_atomic(2) [of E "request_body E svc i" w _ w'] assms(3) unfolding Request_def by blast
  obtain canonical cand g at w3 where
    n: "NewRequest (ri_TaskID i) (ri_TenantID i) (ri_Kind i) (ri_Profile i) canonical
       (ri_Effects i) (ri_DispatchID i) (ri_AuthorizationRef i) (ri_CorrelationID i) (tk_bounds svc) = Inr cand"
    and c: "commit_request E svc at (cand\<lparr>t_Generation := g\<rparr>) w3 = (Inr (t, False), w1)"
    and inv3: "tasks_inv (w_db w3)"
    and same: "db_outbox (w_db w3) = db_outbox (w_db (interfere E w))"
      "db_grants (w_db w3) = db_grants (w_db (interfere E w))"
    using b assms(2) by (rule request_body_commit)
  have cand: "t_TaskID cand = ri_TaskID i" "t_State cand = StatePending" "t_TenantID cand = ri_TenantID i"
    "t_AuthorizationRef cand = ri_AuthorizationRef i"
    using n by (auto simp: NewRequest_def split: if_splits option.splits)
  show ?thesis using commit_request_new [OF assms(1) inv3 n c] cand same w' by auto
qed

definition sample_request :: RequestInput where
  "sample_request =
     \<lparr>ri_TaskID = ''t1'', ri_TenantID = ''ten'', ri_Kind = KindCatalogRefresh,
      ri_Profile = CatalogRefreshProfile, ri_Input = sample_input, ri_Effects = EffectsReconstructible,
      ri_DispatchID = ''d1'', ri_AuthorizationRef = ''grant:g1'', ri_CorrelationID = ''c1''\<rparr>"

definition sample_world :: world where
  "sample_world = \<lparr>w_db = empty_db\<lparr>db_grants := [sample_grant_row]\<rparr>, w_tick = 0, w_log = []\<rparr>"

lemma sample_max_input: "b_MaxInputBytes sample_bounds = 65536"
  by (simp add: sample_bounds_def)

lemma sample_request_runs:
  "\<exists>w'. Request sample_env sample_tasks sample_request sample_world
     = (Inr (sample_new EffectsReconstructible, False), w')"
  using sample_input_length
  by (simp add: Request_def InTx_def interfere_def Let_def request_body_def seq_def recover_def act_defs
      admitConfiguration_def Ready_def query_def read_def CanonicalJSON_def GetLatestRequestForUpdate_def
      latest_def one_row_def request_latest_def commit_request_def GrantAuthorization_def GetGrantState_def
      InsertRequest_def insert_row_table Publish_def sample_env_def sample_tasks_def sample_request_def
      sample_new_request sample_world_def empty_db_def sample_max_input
      sample_grant_row_def sample_new_def sample_schema_def errors_Is_def)

theorem request_stores_and_announces_witness:
  "\<exists>t w'. Request sample_env sample_tasks sample_request sample_world = (Inr (t, False), w')
    \<and> gen_of (w_db w') ''t1'' (int64 (t_Generation t)) = Some (t, []) \<and> t_State t = StatePending
    \<and> (\<exists>eventID at. db_outbox (w_db w') = [RequestedEvent eventID t at])"
proof -
  obtain w' where run: "Request sample_env sample_tasks sample_request sample_world
      = (Inr (sample_new EffectsReconstructible, False), w')" using sample_request_runs by blast
  have "request_pk sample_env" using sample_tasks_env by (simp add: tasks_env_def)
  moreover have "tasks_inv (w_db (interfere sample_env sample_world))"
    by (simp add: interfere_def sample_env_def sample_world_def tasks_inv_def requests_wf_def gen_of_def empty_db_def)
  ultimately have "gen_of (w_db w') (ri_TaskID sample_request)
      (int64 (t_Generation (sample_new EffectsReconstructible))) = Some (sample_new EffectsReconstructible, [])
    \<and> t_State (sample_new EffectsReconstructible) = StatePending
    \<and> (\<exists>eventID at. db_outbox (w_db w') = db_outbox (w_db (interfere sample_env sample_world))
        @ [RequestedEvent eventID (sample_new EffectsReconstructible) at])"
    using request_stores_and_announces [OF _ _ run] by blast
  moreover have "db_outbox (w_db (interfere sample_env sample_world)) = []" "ri_TaskID sample_request = ''t1''"
    by (simp_all add: interfere_def sample_env_def sample_world_def empty_db_def sample_request_def)
  ultimately show ?thesis using run by auto
qed

end
