(* ===== verification/App_Authz.thy ===== *)
theory App_Authz
  imports Queries
begin

text \<open>
  The local authorization of \<open>internal/application/authz.go\<close>: actions, roles, the reviewed
  policies, the role bindings and the authorizer, and the command identity and scope every
  management call carries (\<open>internal/application/catalog.go\<close>).

  The enforcer is a library of the program (Casbin) and a parameter here: a function of the policies
  and the role bindings.  \<open>casbin_rbac\<close> is what the model text of the program asks of it, by its
  documented role manager with domains: a name has itself and everything its bindings in the domain
  lead to, ten levels deep.
\<close>

section \<open>Commands and scopes\<close>

record Command =
  cmd_TenantID :: string
  cmd_CommandID :: string
  cmd_ActorID :: string
  cmd_RequestDigest :: string

record Scope =
  sc_TenantID :: string
  sc_ProjectID :: string
  sc_ActorID :: string
  sc_Roles :: "string list"

definition checkCommand :: "Command \<Rightarrow> Scope \<Rightarrow> unit act" where
  "checkCommand cmd scope =
     guard (cmd_TenantID cmd = sc_TenantID scope \<and> cmd_ActorID cmd = sc_ActorID scope) (err AppErrForbidden)"

definition optional :: "string \<Rightarrow> string option" where
  "optional s = (if s = [] then None else Some s)"

definition nextEventRevision :: "env \<Rightarrow> string \<Rightarrow> string \<Rightarrow> u64 act" where
  "nextEventRevision E aggregateType aggregateID =
     seq (query E (NextEventRevision aggregateType aggregateID)) (\<lambda>r. ok (uint64 r))"

section \<open>Actions, roles and policies\<close>

definition ActCatalogDiscover :: string where "ActCatalogDiscover = ''catalog.discover''"
definition ActCatalogReview :: string where "ActCatalogReview = ''catalog.review''"
definition ActCatalogDisable :: string where "ActCatalogDisable = ''catalog.disable''"
definition ActCatalogReadPending :: string where "ActCatalogReadPending = ''catalog.read_pending''"
definition ActGrantCreate :: string where "ActGrantCreate = ''grant.create''"
definition ActGrantRevoke :: string where "ActGrantRevoke = ''grant.revoke''"
definition ActGrantReadAll :: string where "ActGrantReadAll = ''grant.read_all''"
definition ActCallReconcile :: string where "ActCallReconcile = ''call.reconcile''"

definition RoleCatalogManager :: string where "RoleCatalogManager = ''catalog_manager''"
definition RoleCatalogReviewer :: string where "RoleCatalogReviewer = ''catalog_reviewer''"
definition RoleGrantManager :: string where "RoleGrantManager = ''grant_manager''"
definition RoleCallOperator :: string where "RoleCallOperator = ''call_operator''"

lemmas authz_names =
  ActCatalogDiscover_def ActCatalogReview_def ActCatalogDisable_def ActCatalogReadPending_def
  ActGrantCreate_def ActGrantRevoke_def ActGrantReadAll_def ActCallReconcile_def
  RoleCatalogManager_def RoleCatalogReviewer_def RoleGrantManager_def RoleCallOperator_def

definition role_names :: "string list" where
  "role_names = [RoleCatalogManager, RoleCatalogReviewer, RoleGrantManager, RoleCallOperator]"

definition authzPolicies :: "(string \<times> string) list" where
  "authzPolicies =
     [(RoleCatalogManager, ActCatalogDiscover), (RoleCatalogManager, ActCatalogDisable),
      (RoleCatalogManager, ActCatalogReadPending),
      (RoleCatalogReviewer, ActCatalogReview), (RoleCatalogReviewer, ActCatalogDisable),
      (RoleCatalogReviewer, ActCatalogReadPending),
      (RoleGrantManager, ActGrantCreate), (RoleGrantManager, ActGrantRevoke),
      (RoleGrantManager, ActGrantReadAll),
      (RoleCallOperator, ActCallReconcile)]"

record RoleBinding =
  b_TenantID :: string
  b_ActorID :: string
  b_Role :: string

section \<open>The authorizer\<close>

text \<open>The enforcer over \<open>authzModel\<close>: policies (role, action), groupings (subject, role, domain), and a
  request (subject, domain, action).\<close>
type_synonym enforcer =
  "(string \<times> string) list \<Rightarrow> (string \<times> string \<times> string) list \<Rightarrow> string \<Rightarrow> string \<Rightarrow> string \<Rightarrow> err + bool"

record Authorizer =
  az_Enforce :: enforcer
  az_groupings :: "(string \<times> string \<times> string) list"

text \<open>The loop over the bindings: \<open>held\<close> maps tenant and actor to the roles seen so far.\<close>

definition held_key :: "RoleBinding \<Rightarrow> string" where
  "held_key b = b_TenantID b @ [CHR 0x00] @ b_ActorID b"

fun add_bindings ::
  "(string \<Rightarrow> string list) \<Rightarrow> (string \<times> string \<times> string) list \<Rightarrow> RoleBinding list
     \<Rightarrow> err + (string \<times> string \<times> string) list" where
  "add_bindings held groups [] = Inr groups"
| "add_bindings held groups (b # bs) =
     (if b_TenantID b = [] \<or> b_ActorID b = [] then Inl (err ErrOther)
      else if b_Role b \<notin> set role_names then Inl (err ErrOther)
      else
        let roles = held (held_key b) @ [b_Role b] in
        if RoleCatalogReviewer \<in> set roles \<and> RoleGrantManager \<in> set roles then Inl (err ErrOther)
        else add_bindings (held(held_key b := roles)) (groups @ [(b_ActorID b, b_Role b, b_TenantID b)]) bs)"

definition NewAuthorizer :: "enforcer \<Rightarrow> RoleBinding list \<Rightarrow> err + Authorizer" where
  "NewAuthorizer enf bindings =
     (case add_bindings (\<lambda>_. []) [] bindings of
        Inl e \<Rightarrow> Inl e
      | Inr groups \<Rightarrow> Inr \<lparr>az_Enforce = enf, az_groupings = groups\<rparr>)"

text \<open>A nil authorizer allows nothing, and neither does one whose enforcer fails.\<close>
definition Allowed :: "Authorizer option \<Rightarrow> string \<Rightarrow> string \<Rightarrow> string \<Rightarrow> bool" where
  "Allowed a tenantID actorID action =
     (case a of
        None \<Rightarrow> False
      | Some a \<Rightarrow> az_Enforce a authzPolicies (az_groupings a) actorID tenantID action = Inr True)"

definition Require :: "Authorizer option \<Rightarrow> string \<Rightarrow> string \<Rightarrow> string \<Rightarrow> unit act" where
  "Require a tenantID actorID action = guard (Allowed a tenantID actorID action) (err AppErrForbidden)"

section \<open>What the enforcer is relied on for\<close>

fun has_link :: "nat \<Rightarrow> (string \<times> string \<times> string) list \<Rightarrow> string \<Rightarrow> string \<Rightarrow> string \<Rightarrow> bool" where
  "has_link 0 groups dm a b \<longleftrightarrow> a = b"
| "has_link (Suc n) groups dm a b \<longleftrightarrow>
     a = b \<or> list_ex (\<lambda>(s, r, d). s = a \<and> d = dm \<and> has_link n groups dm r b) groups"

lemma has_link_refl: "has_link n groups dm a a"
  by (cases n) simp_all

definition rbac_enforce :: enforcer where
  "rbac_enforce policies groups sub dm act =
     Inr (list_ex (\<lambda>(role, a). a = act \<and> has_link 10 groups dm sub role) policies)"

definition casbin_rbac :: "enforcer \<Rightarrow> bool" where
  "casbin_rbac enf \<longleftrightarrow> (\<forall>policies groups sub dm act.
     enf policies groups sub dm act = rbac_enforce policies groups sub dm act)"

lemma Allowed_iff:
  assumes "casbin_rbac (az_Enforce a)"
  shows "Allowed (Some a) t x act \<longleftrightarrow>
    (\<exists>role. (role, act) \<in> set authzPolicies \<and> has_link 10 (az_groupings a) t x role)"
  using assms by (auto simp: Allowed_def casbin_rbac_def rbac_enforce_def list_ex_iff)

section \<open>The bindings that are accepted\<close>

definition binding_of :: "RoleBinding \<Rightarrow> string \<times> string \<times> string" where
  "binding_of b = (b_ActorID b, b_Role b, b_TenantID b)"

lemma add_bindings_groups:
  "add_bindings held groups bs = Inr gs \<Longrightarrow>
   gs = groups @ map binding_of bs \<and> (\<forall>b \<in> set bs. b_TenantID b \<noteq> [] \<and> b_ActorID b \<noteq> [] \<and> b_Role b \<in> set role_names)"
proof (induction bs arbitrary: held groups)
  case (Cons b bs)
  let ?h = "held(held_key b := held (held_key b) @ [b_Role b])"
  have "add_bindings ?h (groups @ [binding_of b]) bs = Inr gs"
    and "b_TenantID b \<noteq> [] \<and> b_ActorID b \<noteq> [] \<and> b_Role b \<in> set role_names"
    using Cons.prems by (simp_all add: Let_def binding_of_def split: if_splits)
  then show ?case using Cons.IH by fastforce
qed simp

text \<open>No tenant and actor ends with both roles.\<close>

lemma add_bindings_separate:
  assumes "add_bindings held groups bs = Inr gs"
    "\<not> (RoleCatalogReviewer \<in> set (held k) \<and> RoleGrantManager \<in> set (held k))"
  shows "\<not> (RoleCatalogReviewer \<in> set (held k @ map b_Role (filter (\<lambda>b. held_key b = k) bs))
          \<and> RoleGrantManager \<in> set (held k @ map b_Role (filter (\<lambda>b. held_key b = k) bs)))"
  using assms
proof (induction bs arbitrary: held groups)
  case (Cons b bs)
  let ?h = "held(held_key b := held (held_key b) @ [b_Role b])"
  have "held k @ map b_Role (filter (\<lambda>b. held_key b = k) (b # bs))
      = ?h k @ map b_Role (filter (\<lambda>b. held_key b = k) bs)" by simp
  moreover have "\<not> (RoleCatalogReviewer \<in> set (?h k) \<and> RoleGrantManager \<in> set (?h k))"
    using Cons.prems by (auto simp: Let_def split: if_splits)
  moreover have "add_bindings ?h (groups @ [(b_ActorID b, b_Role b, b_TenantID b)]) bs = Inr gs"
    using Cons.prems(1) by (simp add: Let_def split: if_splits)
  ultimately show ?case using Cons.IH by metis
qed simp

text \<open>A binding of an actor whose name is no role's name leads to that role only.\<close>

definition plain_actors :: "Authorizer \<Rightarrow> bool" where
  "plain_actors a \<longleftrightarrow> (\<forall>(s, r, d) \<in> set (az_groupings a). s \<notin> set role_names)"

lemma has_link_role:
  assumes "plain_actors a" "r \<in> set role_names" "has_link n (az_groupings a) t r role"
  shows "role = r"
  using assms by (cases n) (auto simp: plain_actors_def list_ex_iff)

lemma NewAuthorizer_InrD:
  assumes "NewAuthorizer enf bindings = Inr a"
  shows "az_Enforce a = enf" "az_groupings a = map binding_of bindings"
    "\<forall>b \<in> set bindings. b_TenantID b \<noteq> [] \<and> b_ActorID b \<noteq> [] \<and> b_Role b \<in> set role_names"
    "\<And>b c. b \<in> set bindings \<Longrightarrow> c \<in> set bindings \<Longrightarrow> b_TenantID b = b_TenantID c \<Longrightarrow> b_ActorID b = b_ActorID c \<Longrightarrow>
       \<not> (b_Role b = RoleCatalogReviewer \<and> b_Role c = RoleGrantManager)"
proof -
  obtain gs where gs: "add_bindings (\<lambda>_. []) [] bindings = Inr gs" "a = \<lparr>az_Enforce = enf, az_groupings = gs\<rparr>"
    using assms by (auto simp: NewAuthorizer_def split: sum.splits)
  show "az_Enforce a = enf" "az_groupings a = map binding_of bindings"
    "\<forall>b \<in> set bindings. b_TenantID b \<noteq> [] \<and> b_ActorID b \<noteq> [] \<and> b_Role b \<in> set role_names"
    using gs add_bindings_groups [OF gs(1)] by auto
  fix b c
  assume bc: "b \<in> set bindings" "c \<in> set bindings" "b_TenantID b = b_TenantID c" "b_ActorID b = b_ActorID c"
  then have "held_key c = held_key b" by (simp add: held_key_def)
  then show "\<not> (b_Role b = RoleCatalogReviewer \<and> b_Role c = RoleGrantManager)"
    using add_bindings_separate [OF gs(1), of "held_key b"] bc by force
qed

lemma allowed_by_binding:
  assumes n: "NewAuthorizer enf bindings = Inr a" and enf: "casbin_rbac enf"
    and plain: "plain_actors a" and x: "x \<notin> set role_names"
  shows "Allowed (Some a) t x act \<longleftrightarrow>
    (\<exists>b \<in> set bindings. b_TenantID b = t \<and> b_ActorID b = x \<and> (b_Role b, act) \<in> set authzPolicies)"
proof -
  note D = NewAuthorizer_InrD [OF n]
  have roles: "(role, act) \<in> set authzPolicies \<Longrightarrow> role \<in> set role_names" for role
    by (auto simp: authzPolicies_def role_names_def)
  have link: "has_link 10 (az_groupings a) t x role \<longleftrightarrow>
      (\<exists>b \<in> set bindings. b_TenantID b = t \<and> b_ActorID b = x \<and> b_Role b = role)"
    if "role \<in> set role_names" for role
  proof -
    have ten: "10 = Suc (Suc 8)" by simp
    have "has_link (Suc (Suc 8)) (az_groupings a) t x role \<longleftrightarrow>
        (\<exists>b \<in> set bindings. b_ActorID b = x \<and> b_TenantID b = t \<and> has_link (Suc 8) (az_groupings a) t (b_Role b) role)"
      using x that unfolding has_link.simps(2) [of "Suc 8"] D(2) by (auto simp: list_ex_iff binding_of_def)
    moreover have "has_link (Suc 8) (az_groupings a) t (b_Role b) role \<longleftrightarrow> b_Role b = role"
      if "b \<in> set bindings" for b
    proof
      show "has_link (Suc 8) (az_groupings a) t (b_Role b) role \<Longrightarrow> b_Role b = role"
        using that D(3) has_link_role [OF plain, of "b_Role b" "Suc 8" t role] by blast
    qed (simp add: has_link_refl)
    ultimately show ?thesis unfolding ten by auto
  qed
  show ?thesis
    using Allowed_iff [of a t x act] enf D(1) link roles by auto
qed

section \<open>Properties\<close>


definition sample_bindings :: "RoleBinding list" where
  "sample_bindings =
     [\<lparr>b_TenantID = ''ten'', b_ActorID = ''alice'', b_Role = ''catalog_reviewer''\<rparr>,
      \<lparr>b_TenantID = ''ten'', b_ActorID = ''bob'', b_Role = ''grant_manager''\<rparr>,
      \<lparr>b_TenantID = ''ten'', b_ActorID = ''carol'', b_Role = ''catalog_manager''\<rparr>]"

definition sample_authz :: Authorizer where
  "sample_authz = \<lparr>az_Enforce = rbac_enforce, az_groupings = map binding_of sample_bindings\<rparr>"

lemma sample_authorizer: "NewAuthorizer rbac_enforce sample_bindings = Inr sample_authz"
  by (simp add: NewAuthorizer_def sample_bindings_def sample_authz_def role_names_def authz_names
      held_key_def binding_of_def)

lemma rbac_enforce_casbin: "casbin_rbac rbac_enforce"
  by (simp add: casbin_rbac_def)


text \<open>
  C33. An actor whose identifier is the name of a role is allowed that role's actions in every tenant,
  with no binding at all: the enforcer's role manager answers that a name has itself.
\<close>
theorem role_named_actor_is_allowed:
  assumes "NewAuthorizer enf bindings = Inr a" "casbin_rbac enf" "(role, act) \<in> set authzPolicies"
  shows "Allowed (Some a) tenant role act"
proof -
  have "has_link 10 (az_groupings a) tenant role role" by (rule has_link_refl)
  then show ?thesis
    using Allowed_iff [of a tenant role act] NewAuthorizer_InrD(1) [OF assms(1)] assms(2,3) by auto
qed

theorem role_named_actor_is_allowed_witness:
  "Allowed (Some \<lparr>az_Enforce = rbac_enforce, az_groupings = []\<rparr>) ''any'' ''grant_manager'' ''grant.create''"
  using role_named_actor_is_allowed [of rbac_enforce "[]" "\<lparr>az_Enforce = rbac_enforce, az_groupings = []\<rparr>"
      "''grant_manager''" "''grant.create''" "''any''"] rbac_enforce_casbin
  by (simp add: NewAuthorizer_def authzPolicies_def authz_names)

end
