(* ===== verification/Go_Base64.thy ===== *)
theory Go_Base64
  imports Go_Prelude
begin

text \<open>
  \<open>base64.RawURLEncoding\<close> of the Go standard library: the alphabet with \<open>-\<close> and \<open>_\<close>, no padding.
  The page cursors of the catalog and of the grants are encoded with it; the theory shows the round
  trip.
\<close>

definition url64_alphabet :: string where
  "url64_alphabet = ''ABCDEFGHIJKLMNOPQRSTUVWXYZabcdefghijklmnopqrstuvwxyz0123456789-_''"

definition url64_char :: "nat \<Rightarrow> char" where
  "url64_char v = url64_alphabet ! v"

definition url64_val :: "char \<Rightarrow> nat option" where
  "url64_val c =
     (if c \<in> set url64_alphabet then Some (length (takeWhile (\<lambda>x. x \<noteq> c) url64_alphabet)) else None)"

fun url64_encode :: "bytes \<Rightarrow> string" where
  "url64_encode [] = []"
| "url64_encode [a] = (let x = of_char a :: nat in [url64_char (x div 4), url64_char (x mod 4 * 16)])"
| "url64_encode [a, b] =
     (let x = of_char a :: nat; y = of_char b :: nat in
      [url64_char (x div 4), url64_char (x mod 4 * 16 + y div 16), url64_char (y mod 16 * 4)])"
| "url64_encode (a # b # c # r) =
     (let x = of_char a :: nat; y = of_char b :: nat; z = of_char c :: nat in
      [url64_char (x div 4), url64_char (x mod 4 * 16 + y div 16), url64_char (y mod 16 * 4 + z div 64),
       url64_char (z mod 64)] @ url64_encode r)"

fun url64_groups :: "string \<Rightarrow> bytes option" where
  "url64_groups [] = Some []"
| "url64_groups [_] = None"
| "url64_groups [a, b] =
     (case (url64_val a, url64_val b) of
        (Some w, Some x) \<Rightarrow> Some [char_of (w * 4 + x div 16)]
      | _ \<Rightarrow> None)"
| "url64_groups [a, b, c] =
     (case (url64_val a, url64_val b, url64_val c) of
        (Some w, Some x, Some y) \<Rightarrow> Some [char_of (w * 4 + x div 16), char_of (x mod 16 * 16 + y div 4)]
      | _ \<Rightarrow> None)"
| "url64_groups (a # b # c # d # r) =
     (case (url64_val a, url64_val b, url64_val c, url64_val d) of
        (Some w, Some x, Some y, Some z) \<Rightarrow>
          map_option (\<lambda>t. [char_of (w * 4 + x div 16), char_of (x mod 16 * 16 + y div 4),
                           char_of (y mod 4 * 64 + z)] @ t) (url64_groups r)
      | _ \<Rightarrow> None)"

text \<open>\<open>DecodeString\<close> (line breaks are ignored)\<close>
definition url64_decode :: "string \<Rightarrow> bytes option" where
  "url64_decode s = url64_groups (filter (\<lambda>c. c \<noteq> CHR 0x0A \<and> c \<noteq> CHR 0x0D) s)"

lemma length_takeWhile_nth: "distinct xs \<Longrightarrow> v < length xs \<Longrightarrow> length (takeWhile (\<lambda>x. x \<noteq> xs ! v) xs) = v"
proof (induction xs arbitrary: v)
  case (Cons x xs)
  then show ?case by (cases v) auto
qed simp

lemma alphabet_facts:
  "distinct url64_alphabet" "length url64_alphabet = 64" "CHR 0x0A \<notin> set url64_alphabet" "CHR 0x0D \<notin> set url64_alphabet"
  by code_simp+

lemma url64_val_char [simp]: "v < 64 \<Longrightarrow> url64_val (url64_char v) = Some v"
  using alphabet_facts by (simp add: url64_val_def url64_char_def length_takeWhile_nth)

lemma url64_char_in: "v < 64 \<Longrightarrow> url64_char v \<in> set url64_alphabet"
  using alphabet_facts(2) by (simp add: url64_char_def)

lemma byte_lt: "(of_char c :: nat) < 256"
  by (metis of_char_mod_256 mod_less_divisor zero_less_numeral)

lemma url64_pieces:
  fixes x y z :: nat
  shows "x < 256 \<Longrightarrow> x div 4 < 64" "x mod 4 * 16 < 64"
    "y < 256 \<Longrightarrow> x mod 4 * 16 + y div 16 < 64" "y mod 16 * 4 < 64"
    "z < 256 \<Longrightarrow> y mod 16 * 4 + z div 64 < 64" "z mod 64 < 64"
proof -
  have "x mod 4 < 4" "y mod 16 < 16" by simp_all
  then show "x mod 4 * 16 < 64" "y mod 16 * 4 < 64" by simp_all
  show "x < 256 \<Longrightarrow> x div 4 < 64" by (simp add: less_mult_imp_div_less)
  show "x mod 4 * 16 + y div 16 < 64" if "y < 256"
  proof -
    have "y div 16 < 16" using that by (simp add: less_mult_imp_div_less)
    then show ?thesis using \<open>x mod 4 < 4\<close> by linarith
  qed
  show "y mod 16 * 4 + z div 64 < 64" if "z < 256"
  proof -
    have "z div 64 < 4" using that by (simp add: less_mult_imp_div_less)
    then show ?thesis using \<open>y mod 16 < 16\<close> by linarith
  qed
qed simp

lemma url64_joins:
  fixes y z :: nat
  shows "y < 256 \<Longrightarrow> y div 16 div 16 = 0" "y < 256 \<Longrightarrow> y div 16 mod 16 = y div 16"
    "z < 256 \<Longrightarrow> z div 64 div 4 = 0" "z < 256 \<Longrightarrow> z div 64 mod 4 = z div 64"
  by (simp_all add: less_mult_imp_div_less)

lemma url64_groups_encode: "url64_groups (url64_encode xs) = Some xs"
proof (induction xs rule: url64_encode.induct)
  case (2 a)
  then show ?case using byte_lt [of a] by (simp add: Let_def url64_pieces url64_joins)
next
  case (3 a b)
  then show ?case using byte_lt [of a] byte_lt [of b] by (simp add: Let_def url64_pieces url64_joins)
next
  case (4 a b c r)
  then show ?case using byte_lt [of a] byte_lt [of b] byte_lt [of c]
    by (simp add: Let_def url64_pieces url64_joins)
qed simp

lemma url64_encode_alphabet: "set (url64_encode xs) \<subseteq> set url64_alphabet"
  using byte_lt by (induction xs rule: url64_encode.induct) (auto simp: Let_def url64_pieces url64_char_in)

lemma url64_round_trip: "url64_decode (url64_encode xs) = Some xs"
proof -
  have "c \<noteq> CHR 0x0A \<and> c \<noteq> CHR 0x0D" if "c \<in> set (url64_encode xs)" for c
    using that url64_encode_alphabet [of xs] alphabet_facts(3,4) by auto
  then show ?thesis using url64_groups_encode [of xs] by (simp add: url64_decode_def)
qed

end
