(* ===== verification/App_Grants.thy ===== *)
theory App_Grants
  imports App_Authz Go_Base64
begin

text \<open>
  Grant management and MCP's side of the revocation barrier with Control
  (\<open>internal/application/grants.go\<close>).  Control (\<open>PolicyRegistry\<close>) is a parameter: its answers by the
  number of the interaction.  Metrics and logging are not modelled.
\<close>

section \<open>The service\<close>

record Barrier =
  ba_State :: string
  ba_InFlight :: u64
  ba_Unknown :: u64
  ba_FencedAt :: "time option"

record ControlCommand =
  cn_TenantID :: string
  cn_CommandID :: string
  cn_ActorID :: string
  cn_RequestDigest :: string

record PolicyRegistry =
  pr_Register :: "nat \<Rightarrow> ControlCommand \<Rightarrow> Grant \<Rightarrow> err + (string \<times> u64)"
  pr_BeginRevocation :: "nat \<Rightarrow> ControlCommand \<Rightarrow> string \<Rightarrow> u64 \<Rightarrow> err + Barrier"
  pr_Revocation :: "nat \<Rightarrow> string \<Rightarrow> u64 \<Rightarrow> err + Barrier"

definition Owner :: string where
  "Owner = ''anvilkit-agent-mcp''"

record Grants =
  gm_authz :: "Authorizer option"
  gm_registry :: PolicyRegistry

text \<open>\<open>load\<close> and \<open>lock\<close>: a missing row is \<open>NOT_FOUND\<close>.\<close>

definition found :: "err + GrantRow \<Rightarrow> Grant act" where
  "found r =
     (case r of
        Inl e \<Rightarrow> fail (if errors_Is e ErrNoRows then err ErrNotFound else e)
      | Inr row \<Rightarrow> ok (GrantFromRow row))"

definition load_grant :: "env \<Rightarrow> string \<Rightarrow> Grant act" where
  "load_grant E grantID = recover (pool_query E (GetGrant grantID)) found"

definition lock_grant :: "env \<Rightarrow> string \<Rightarrow> Grant act" where
  "lock_grant E grantID = recover (query E (GetGrantForUpdate grantID)) found"

definition update_grant :: "env \<Rightarrow> Grant \<Rightarrow> GrantState \<Rightarrow> unit act" where
  "update_grant E next expected =
     seq (query E (UpdateGrantBarrier (BarrierParams next expected))) (\<lambda>n.
     guard (n = 1) (err ErrStaleExecution))"

definition decide ::
  "env \<Rightarrow> Grant \<Rightarrow> string \<Rightarrow> string \<Rightarrow> string \<Rightarrow> string \<Rightarrow> string \<Rightarrow> unit act" where
  "decide E gr decision decider reason commandID requestDigest =
     query E (InsertGrantDecision (e_schema E)
       \<lparr>gd_DecisionID = idOf ''gd-'' [g_GrantID gr, decision, commandID], gd_GrantID = g_GrantID gr,
        gd_FromRevision = int64 (g_Revision gr), gd_ToRevision = int64 (g_Revision gr),
        gd_Decision = decision, gd_Decider = decider, gd_ReasonCode = optional reason,
        gd_CommandID = commandID, gd_RequestDigest = requestDigest, gd_DecidedAt = None,
        gd_TenantID = g_TenantID gr\<rparr>)"

section \<open>Registration\<close>

definition activated :: "Grant \<Rightarrow> string \<Rightarrow> u64 \<Rightarrow> Grant" where
  "activated cur receipt epoch =
     cur\<lparr>g_State := GrantActive, g_ControlReceiptID := receipt, g_PolicyEpoch := epoch, g_FailureCode := []\<rparr>"

definition registration_failed :: "Grant \<Rightarrow> Grant" where
  "registration_failed cur = cur\<lparr>g_State := GrantRegistrationFailed, g_FailureCode := ''REGISTRATION_REFUSED''\<rparr>"

text \<open>The decision on a pending grant once Control answered, and the transaction of \<open>register\<close> around it.\<close>

definition settle_registration :: "env \<Rightarrow> Grant \<Rightarrow> err + (string \<times> u64) \<Rightarrow> Grant act" where
  "settle_registration E cur answer =
     (case answer of
        Inr (receipt, epoch) \<Rightarrow>
          seq (decide E (activated cur receipt epoch) ''activate'' Owner [] (g_RegistrationCmdID cur)
                 (g_PolicyDigest cur)) (\<lambda>_.
          ok (activated cur receipt epoch))
      | Inl e \<Rightarrow>
          if errors_Is e ErrRefused then
            seq (decide E (registration_failed cur) ''registration_failed'' Owner ''REGISTRATION_REFUSED''
                   (g_RegistrationCmdID cur) (g_PolicyDigest cur)) (\<lambda>_.
            ok (registration_failed cur))
          else ok (cur\<lparr>g_FailureCode := ''REGISTRATION_UNCERTAIN''\<rparr>))"

definition register_body :: "env \<Rightarrow> string \<Rightarrow> err + (string \<times> u64) \<Rightarrow> Grant act" where
  "register_body E grantID answer =
     seq (lock_grant E grantID) (\<lambda>cur.
       if g_State cur \<noteq> GrantPending then ok cur
       else
         seq (settle_registration E cur answer) (\<lambda>next.
         seq (update_grant E next (g_State cur)) (\<lambda>_.
         ok next)))"

definition register :: "env \<Rightarrow> Grants \<Rightarrow> string \<Rightarrow> Grant act" where
  "register E svc grantID =
     seq (load_grant E grantID) (\<lambda>gr.
       if g_State gr \<noteq> GrantPending then ok gr
       else
         seq (ext (EvRegister (g_RegistrationCmdID gr)) (\<lambda>n. pr_Register (gm_registry svc) n
                \<lparr>cn_TenantID = g_TenantID gr, cn_CommandID = g_RegistrationCmdID gr, cn_ActorID = Owner,
                 cn_RequestDigest = g_PolicyDigest gr\<rparr> gr)) (\<lambda>answer.
         seq (InTx E (register_body E grantID answer)) (\<lambda>out.
         case answer of
           Inl e \<Rightarrow> if errors_Is e ErrRefused then ok out else fail e
         | Inr _ \<Rightarrow> ok out)))"

section \<open>Creation\<close>

definition replay_create :: "env \<Rightarrow> Grants \<Rightarrow> Command \<Rightarrow> Grant option act" where
  "replay_create E svc cmd =
     recover (pool_query E (GetGrantByCommand (cmd_TenantID cmd) (cmd_CommandID cmd))) (\<lambda>r.
       case r of
         Inl e \<Rightarrow> if errors_Is e ErrNoRows then ok None else fail e
       | Inr row \<Rightarrow>
          if gw_RequestDigest row \<noteq> cmd_RequestDigest cmd then fail (err ErrCommandConflict)
          else if g_State (GrantFromRow row) = GrantPending
          then seq (register E svc (gw_GrantID row)) (\<lambda>gr. ok (Some gr))
          else ok (Some (GrantFromRow row)))"

text \<open>The grant \<open>Create\<close> records: \<open>NewGrant\<close> with its identity, digest and registration command.\<close>

definition created_grant :: "Command \<Rightarrow> Grant \<Rightarrow> Grant" where
  "created_grant cmd gr =
     (let gr1 = gr\<lparr>g_GrantID := idOf ''grt-'' [cmd_TenantID cmd, cmd_CommandID cmd]\<rparr>;
          gr2 = gr1\<lparr>g_PolicyDigest := ComputePolicyDigest gr1\<rparr>
      in gr2\<lparr>g_RegistrationCmdID := ''register:'' @ g_GrantID gr2 @ '':r'' @ fmt_u64 (g_Revision gr2),
             g_CommandID := cmd_CommandID cmd, g_RequestDigest := cmd_RequestDigest cmd\<rparr>)"

text \<open>The columns \<open>InsertGrant\<close> writes (the statement sets the others).\<close>

definition grant_row :: "Grant \<Rightarrow> Command \<Rightarrow> GrantRow" where
  "grant_row gr cmd =
     \<lparr>gw_GrantID = g_GrantID gr, gw_Revision = int64 (g_Revision gr), gw_TenantID = g_TenantID gr,
      gw_SubjectType = g_SubjectType gr, gw_SubjectID = g_SubjectID gr, gw_ServerID = g_ServerID gr,
      gw_DescriptorRevision = int64 (g_DescriptorRevision gr), gw_DescriptorDigest = g_DescriptorDigest gr,
      gw_Methods = g_Methods gr, gw_Purpose = g_Purpose gr, gw_CostCapCurrency = m_Currency (g_CostCap gr),
      gw_CostCapAmount = m_Amount (g_CostCap gr), gw_State = g_State gr, gw_ControlReceiptID = None,
      gw_ExpiresAt = g_ExpiresAt gr, gw_CommandID = cmd_CommandID cmd,
      gw_RequestDigest = cmd_RequestDigest cmd, gw_CreatedAt = None, gw_UpdatedAt = None,
      gw_CanonicalResource = g_CanonicalResource gr, gw_Transport = g_Transport gr,
      gw_ProtocolVersion = g_ProtocolVersion gr, gw_Issuer = g_Issuer gr, gw_Audience = g_Audience gr,
      gw_ResourceSelectors = g_ResourceSelectors gr, gw_PromptSelectors = g_PromptSelectors gr,
      gw_DataClass = g_DataClass gr, gw_PolicyDigest = g_PolicyDigest gr, gw_PolicyEpoch = None,
      gw_FailureCode = None, gw_RegistrationCommandID = g_RegistrationCmdID gr,
      gw_RevocationCommandID = None, gw_FencedAt = None, gw_InFlightCalls = 0, gw_UnknownCalls = 0,
      gw_ControlState = [], gw_RevokedAt = None\<rparr>"

text \<open>A server of the caller's tenant; another tenant's is \<open>NOT_FOUND\<close>.\<close>

definition own_server :: "env \<Rightarrow> Scope \<Rightarrow> string \<Rightarrow> Server act" where
  "own_server E scope serverID =
     recover (query E (GetServer serverID)) (\<lambda>r.
       case r of
         Inl e \<Rightarrow> fail (if errors_Is e ErrNoRows then err ErrNotFound else e)
       | Inr s \<Rightarrow> if sv_TenantID s \<noteq> sc_TenantID scope then fail (err ErrNotFound) else ok s)"

definition locked_descriptor :: "env \<Rightarrow> Server \<Rightarrow> string \<Rightarrow> u64 \<Rightarrow> Descriptor act" where
  "locked_descriptor E s serverID revision =
     recover (query E (GetDescriptorForUpdate serverID (int64 revision))) (\<lambda>r.
       case r of
         Inl e \<Rightarrow> fail (if errors_Is e ErrNoRows then err ErrNotFound else e)
       | Inr row \<Rightarrow> lift (DescriptorFromRow row s))"

definition create_body :: "env \<Rightarrow> Command \<Rightarrow> Scope \<Rightarrow> GrantRequest \<Rightarrow> Grant act" where
  "create_body E cmd scope req =
     seq (own_server E scope (gr_ServerID req)) (\<lambda>s.
     seq (locked_descriptor E s (gr_ServerID req) (gr_DescriptorRev req)) (\<lambda>d.
     seq (clock_now E) (\<lambda>at.
     seq (lift (NewGrant (sc_TenantID scope) (sc_ProjectID scope) req d at)) (\<lambda>new.
     let gr = created_grant cmd new in
     seq (query E (InsertGrant (e_schema E) (grant_row gr cmd))) (\<lambda>_.
     seq (decide E gr ''create'' (sc_ActorID scope) [] (cmd_CommandID cmd) (cmd_RequestDigest cmd)) (\<lambda>_.
     ok gr))))))"

definition Create :: "env \<Rightarrow> Grants \<Rightarrow> Command \<Rightarrow> Scope \<Rightarrow> GrantRequest \<Rightarrow> (Grant \<times> bool) act" where
  "Create E svc cmd scope req =
     seq (checkCommand cmd scope) (\<lambda>_.
     seq (Require (gm_authz svc) (sc_TenantID scope) (sc_ActorID scope) ActGrantCreate) (\<lambda>_.
     seq (replay_create E svc cmd) (\<lambda>replayed.
     case replayed of
       Some gr \<Rightarrow> ok (gr, True)
     | None \<Rightarrow>
        recover (InTx E (create_body E cmd scope req)) (\<lambda>r.
          case r of
            Inl e \<Rightarrow>
              if errors_Is e ErrDuplicateKey then
                recover (replay_create E svc cmd) (\<lambda>again.
                  case again of Inr (Some gr) \<Rightarrow> ok (gr, True) | _ \<Rightarrow> fail e)
              else fail e
          | Inr created \<Rightarrow>
              recover (register E svc (g_GrantID created)) (\<lambda>reg.
                case reg of
                  Inl _ \<Rightarrow> seq (load_grant E (g_GrantID created)) (\<lambda>gr. ok (gr, False))
                | Inr gr \<Rightarrow> ok (gr, False))))))"

section \<open>Revocation\<close>

definition revocation_command :: "Grant \<Rightarrow> string" where
  "revocation_command cur = ''revoke:'' @ g_GrantID cur @ '':r'' @ fmt_u64 (g_Revision cur)"

definition revoking :: "Grant \<Rightarrow> string \<Rightarrow> Grant" where
  "revoking cur reason =
     cur\<lparr>g_State := GrantRevoking, g_RevocationCmdID := revocation_command cur,
         g_FailureCode := (if reason \<noteq> [] then reason else g_FailureCode cur)\<rparr>"

text \<open>The event of a grant under its next event revision.\<close>

definition publish_revoked :: "env \<Rightarrow> Grant \<Rightarrow> string \<Rightarrow> time \<Rightarrow> unit act" where
  "publish_revoked E next correlation at =
     seq (nextEventRevision E AggregateGrant (g_GrantID next)) (\<lambda>r.
     seq (new_uuid E) (\<lambda>eventID.
     Publish E (GrantRevokedEvent eventID next r correlation at)))"

definition revokeLocked :: "env \<Rightarrow> Grant \<Rightarrow> string \<Rightarrow> string \<Rightarrow> string \<Rightarrow> string \<Rightarrow> unit act" where
  "revokeLocked E cur commandID requestDigest decider reason =
     seq (update_grant E (revoking cur reason) (g_State cur)) (\<lambda>_.
     seq (decide E (revoking cur reason) ''revoke'' decider reason commandID requestDigest) (\<lambda>_.
     seq (nextEventRevision E AggregateGrant (g_GrantID cur)) (\<lambda>r.
     seq (clock_now E) (\<lambda>at.
     seq (new_uuid E) (\<lambda>eventID.
     Publish E (GrantRevokedEvent eventID (revoking cur reason) r commandID at))))))"

definition revokeIn ::
  "env \<Rightarrow> string \<Rightarrow> string \<Rightarrow> string \<Rightarrow> string \<Rightarrow> string \<Rightarrow> unit act" where
  "revokeIn E grantID commandID requestLabel decider reason =
     seq (lock_grant E grantID) (\<lambda>cur.
       if g_State cur = GrantRevoking \<or> g_State cur = GrantRevoked then ok ()
       else revokeLocked E cur (commandID @ '':'' @ grantID)
              (DigestBytes (requestLabel @ [CHR 0x00] @ grantID)) decider reason)"

definition revoke_body ::
  "env \<Rightarrow> Command \<Rightarrow> Scope \<Rightarrow> string \<Rightarrow> u64 \<Rightarrow> string \<Rightarrow> bool act" where
  "revoke_body E cmd scope grantID expectedRevision reason =
     seq (lock_grant E grantID) (\<lambda>cur.
     if g_TenantID cur \<noteq> sc_TenantID scope then fail (err ErrNotFound)
     else if g_Revision cur \<noteq> expectedRevision then fail (err ErrRevisionMismatch)
     else if g_State cur = GrantRevoking \<or> g_State cur = GrantRevoked then
       seq (decide E cur ''revoke'' (sc_ActorID scope) reason (cmd_CommandID cmd) (cmd_RequestDigest cmd)) (\<lambda>_.
       ok True)
     else
       seq (revokeLocked E cur (cmd_CommandID cmd) (cmd_RequestDigest cmd) (sc_ActorID scope) reason) (\<lambda>_.
       ok False))"

definition since :: "time \<Rightarrow> time \<Rightarrow> duration" where
  "since requested at = max (at - requested) 0"

text \<open>The milestones a commit reaches, as durations; reading them can fail the transaction.\<close>

definition revocationMilestones :: "env \<Rightarrow> Grant \<Rightarrow> Grant \<Rightarrow> (string \<times> duration) list act" where
  "revocationMilestones E cur next =
     (let fenced = (g_ControlState cur = ''none''); converged = (g_State next = GrantRevoked) in
      if \<not> fenced \<and> \<not> converged then ok []
      else
        seq (query E (GetRevocationRequest (g_GrantID cur) (int64 (g_Revision cur)))) (\<lambda>r.
        case r of
          (None, _) \<Rightarrow> ok []
        | (Some requested, observed) \<Rightarrow>
           ok ((if fenced
                then [(''fenced'', since requested (case g_FencedAt next of None \<Rightarrow> observed | Some f \<Rightarrow> f))]
                else [])
             @ (if converged then [(''converged'', since requested observed)] else []))))"

definition barrier_read :: "Grant \<Rightarrow> Barrier \<Rightarrow> Grant" where
  "barrier_read cur b =
     cur\<lparr>g_ControlState := ba_State b, g_InFlightCalls := ba_InFlight b, g_UnknownCalls := ba_Unknown b,
         g_FencedAt := (if ba_FencedAt b \<noteq> None then ba_FencedAt b else g_FencedAt cur)\<rparr>"

text \<open>The barrier as read, and \<open>REVOKED\<close> when it converged and no call of the grant is open; the
  transaction of \<open>advance\<close> around it.\<close>

definition revoked :: "Grant \<Rightarrow> Barrier \<Rightarrow> time \<Rightarrow> Grant" where
  "revoked cur b at = (barrier_read cur b)\<lparr>g_State := GrantRevoked, g_RevokedAt := Some at\<rparr>"

definition settle_revocation :: "env \<Rightarrow> Grant \<Rightarrow> Barrier \<Rightarrow> int \<Rightarrow> Grant act" where
  "settle_revocation E cur b open_calls =
     (if ba_State b = ''converged'' \<and> open_calls = 0 then
        seq (clock_now E) (\<lambda>at.
        seq (decide E (revoked cur b at) ''converge'' Owner [] (''converge:'' @ g_RevocationCmdID cur)
               (g_PolicyDigest cur)) (\<lambda>_.
        seq (publish_revoked E (revoked cur b at) (g_RevocationCmdID cur) at) (\<lambda>_.
        ok (revoked cur b at))))
      else ok (barrier_read cur b))"

definition advance_body :: "env \<Rightarrow> string \<Rightarrow> Barrier \<Rightarrow> int \<Rightarrow> Grant act" where
  "advance_body E grantID b open_calls =
     seq (lock_grant E grantID) (\<lambda>cur.
     if g_State cur \<noteq> GrantRevoking then ok cur
     else
       seq (settle_revocation E cur b open_calls) (\<lambda>next.
       seq (update_grant E next (g_State cur)) (\<lambda>_.
       seq (revocationMilestones E cur next) (\<lambda>_.
       ok next))))"

definition advance :: "env \<Rightarrow> Grants \<Rightarrow> string \<Rightarrow> Grant act" where
  "advance E svc grantID =
     seq (load_grant E grantID) (\<lambda>gr.
     if g_State gr = GrantPending then register E svc grantID
     else if g_State gr \<noteq> GrantRevoking then ok gr
     else
       seq (if g_ControlState gr = ''none''
            then ext (EvBeginRevocation (g_RevocationCmdID gr)) (\<lambda>n. pr_BeginRevocation (gm_registry svc) n
                   \<lparr>cn_TenantID = g_TenantID gr, cn_CommandID = g_RevocationCmdID gr, cn_ActorID = Owner,
                    cn_RequestDigest = g_PolicyDigest gr\<rparr> (g_GrantID gr) (g_Revision gr))
            else ext (EvRevocation (g_GrantID gr)) (\<lambda>n. pr_Revocation (gm_registry svc) n (g_GrantID gr) (g_Revision gr)))
         (\<lambda>first.
       case first of
         Inl e \<Rightarrow> fail e
       | Inr b0 \<Rightarrow>
          seq (if ba_State b0 \<noteq> ''converged'' \<and> g_ControlState gr = ''none''
               then seq (ext (EvRevocation (g_GrantID gr))
                          (\<lambda>n. pr_Revocation (gm_registry svc) n (g_GrantID gr) (g_Revision gr))) (\<lambda>again.
                    ok (case again of Inr b \<Rightarrow> b | Inl _ \<Rightarrow> b0))
               else ok b0) (\<lambda>b.
          seq (pool_query E (CountOpenToolRequests (g_GrantID gr) (int64 (g_Revision gr)))) (\<lambda>open_calls.
          InTx E (advance_body E grantID b open_calls)))))"

text \<open>An unanswered barrier call leaves the grant revoking: the caller sees it as recorded.\<close>

definition advance_or_load :: "env \<Rightarrow> Grants \<Rightarrow> string \<Rightarrow> Grant act" where
  "advance_or_load E svc grantID =
     recover (advance E svc grantID) (\<lambda>r. case r of Inl _ \<Rightarrow> load_grant E grantID | Inr gr \<Rightarrow> ok gr)"

definition Revoke ::
  "env \<Rightarrow> Grants \<Rightarrow> Command \<Rightarrow> Scope \<Rightarrow> string \<Rightarrow> u64 \<Rightarrow> string \<Rightarrow> (Grant \<times> bool) act" where
  "Revoke E svc cmd scope grantID expectedRevision reason =
     seq (checkCommand cmd scope) (\<lambda>_.
     seq (Require (gm_authz svc) (sc_TenantID scope) (sc_ActorID scope) ActGrantRevoke) (\<lambda>_.
     recover (pool_query E (GetGrantDecisionByCommand (cmd_TenantID cmd) (cmd_CommandID cmd) ''revoke'')) (\<lambda>r.
     case r of
       Inr d \<Rightarrow>
         if gd_GrantID d \<noteq> grantID \<or> gd_RequestDigest d \<noteq> cmd_RequestDigest cmd
         then fail (err ErrCommandConflict)
         else seq (advance_or_load E svc grantID) (\<lambda>gr. ok (gr, True))
     | Inl e \<Rightarrow>
         if \<not> errors_Is e ErrNoRows then fail e
         else
           seq (InTx E (revoke_body E cmd scope grantID expectedRevision reason)) (\<lambda>existing.
           seq (advance_or_load E svc grantID) (\<lambda>gr. ok (gr, existing))))))"

section \<open>Reads\<close>

definition visible_grant :: "Grants \<Rightarrow> Scope \<Rightarrow> Grant \<Rightarrow> bool" where
  "visible_grant svc scope gr =
     (if g_TenantID gr \<noteq> sc_TenantID scope then False
      else if Allowed (gm_authz svc) (sc_TenantID scope) (sc_ActorID scope) ActGrantReadAll then True
      else if g_SubjectType gr = ''tenant'' then True
      else if g_SubjectType gr = ''project'' then g_SubjectID gr = sc_ProjectID scope
      else if g_SubjectType gr = ''actor'' then g_SubjectID gr = sc_ActorID scope
      else False)"

definition Get_grant :: "env \<Rightarrow> Grants \<Rightarrow> Scope \<Rightarrow> string \<Rightarrow> Grant act" where
  "Get_grant E svc scope grantID =
     seq (load_grant E grantID) (\<lambda>gr.
     if \<not> visible_grant svc scope gr then fail (err ErrNotFound) else ok gr)"

record Progress =
  p_Grant :: Grant
  p_NewAdmissionBlocked :: bool
  p_SendersConverged :: bool
  p_OpenCalls :: u64

definition Progress_grant :: "env \<Rightarrow> Grants \<Rightarrow> Scope \<Rightarrow> string \<Rightarrow> Progress act" where
  "Progress_grant E svc scope grantID =
     seq (Get_grant E svc scope grantID) (\<lambda>gr.
     seq (pool_query E (CountOpenToolRequests (g_GrantID gr) (int64 (g_Revision gr)))) (\<lambda>open_calls.
     seq (clock_now E) (\<lambda>at.
     ok \<lparr>p_Grant = gr, p_NewAdmissionBlocked = (\<not> Executable gr at),
         p_SendersConverged = (g_ControlState gr = ''converged'' \<and> open_calls = 0),
         p_OpenCalls = uint64 open_calls\<rparr>)))"

text \<open>A page of at most \<open>limit\<close> grants and the cursor of the next one; \<open>int32(limit+1)\<close> keeps its width.\<close>

definition List_grants ::
  "env \<Rightarrow> Grants \<Rightarrow> Scope \<Rightarrow> string \<Rightarrow> string \<Rightarrow> int \<Rightarrow> (Grant list \<times> string) act" where
  "List_grants E svc scope state cursor limit0 =
     (let limit = (if limit0 \<le> 0 then 50 else limit0) in
      case (if cursor = [] then Some [] else url64_decode cursor) of
        None \<Rightarrow> fail (err ErrInvalid)
      | Some after \<Rightarrow>
         seq (pool_query E (ListGrants (sc_TenantID scope) state
                (Allowed (gm_authz svc) (sc_TenantID scope) (sc_ActorID scope) ActGrantReadAll)
                (sc_ProjectID scope) (sc_ActorID scope) after (int32 (word_of_int (limit + 1))))) (\<lambda>rows.
         let out = map GrantFromRow rows in
         if limit < int (length out)
         then ok (take (nat limit) out, url64_encode (g_GrantID (out ! nat (limit - 1))))
         else ok (out, [])))"

section \<open>Reconciliation\<close>

text \<open>One open barrier: whether the grant's state moved (an unreadable grant before counts as the
  empty state).\<close>

definition reconcile_one :: "env \<Rightarrow> Grants \<Rightarrow> string \<Rightarrow> bool act" where
  "reconcile_one E svc grantID =
     recover (load_grant E grantID) (\<lambda>before.
     recover (advance E svc grantID) (\<lambda>after.
     case after of
       Inl _ \<Rightarrow> ok False
     | Inr a \<Rightarrow> ok (case before of Inl _ \<Rightarrow> True | Inr b \<Rightarrow> g_State a \<noteq> g_State b)))"

fun reconcile_all :: "env \<Rightarrow> Grants \<Rightarrow> string list \<Rightarrow> nat \<Rightarrow> nat act" where
  "reconcile_all E svc [] moved = ok moved"
| "reconcile_all E svc (i # is) moved =
     seq (reconcile_one E svc i) (\<lambda>m. reconcile_all E svc is (if m then moved + 1 else moved))"

definition expire_body_grant :: "env \<Rightarrow> string \<Rightarrow> unit act" where
  "expire_body_grant E grantID =
     seq (lock_grant E grantID) (\<lambda>cur.
     if g_State cur \<noteq> GrantActive then ok ()
     else case g_ExpiresAt cur of
       None \<Rightarrow> ok ()
     | Some ex \<Rightarrow>
        seq (clock_now E) (\<lambda>at.
        if Before at ex then ok ()
        else
          seq (decide E (cur\<lparr>g_State := GrantExpired\<rparr>) ''expire'' Owner ''EXPIRED'' (''expire:'' @ g_GrantID cur)
                 (g_PolicyDigest cur)) (\<lambda>_.
          update_grant E (cur\<lparr>g_State := GrantExpired\<rparr>) (g_State cur))))"

fun expire_all :: "env \<Rightarrow> string list \<Rightarrow> nat \<Rightarrow> nat act" where
  "expire_all E [] moved = ok moved"
| "expire_all E (i # is) moved =
     recover (InTx E (expire_body_grant E i)) (\<lambda>r.
       expire_all E is (case r of Inl _ \<Rightarrow> moved | Inr _ \<Rightarrow> moved + 1))"

definition Reconcile_grants :: "env \<Rightarrow> Grants \<Rightarrow> duration \<Rightarrow> int \<Rightarrow> nat act" where
  "Reconcile_grants E svc olderThan limit =
     seq (pool_query E (ListOpenBarriers olderThan (int32 (word_of_int limit)))) (\<lambda>ids.
     seq (reconcile_all E svc ids 0) (\<lambda>moved.
     seq (clock_now E) (\<lambda>at.
     seq (pool_query E (ListExpiredGrants at (int32 (word_of_int limit)))) (\<lambda>expired.
     expire_all E expired moved))))"

end
