(* ===== verification/App_Catalog.thy ===== *)
theory App_Catalog
  imports App_Grants Go_Net
begin

text \<open>
  The catalog use cases of \<open>internal/application/catalog.go\<close>: the network policy of discovery targets,
  discovery, review, disabling (which revokes the grants of the revision) and the reads.  The
  connection layer, the issuer source and the resolver are parameters: their answers by the number
  of the interaction.  \<open>None\<close> as the descriptor of an answer stands for the empty
  \<open>domain.Descriptor{}\<close>.
\<close>

section \<open>Network policy\<close>

record NetworkPolicy =
  np_AllowedHosts :: "string list"
  np_PrivateHosts :: "string list"

definition hostAllowed :: "string \<Rightarrow> string list \<Rightarrow> bool" where
  "hostAllowed host patterns \<longleftrightarrow>
     list_ex (\<lambda>p. let p = ToLower p in host = p \<or> (HasPrefix p ''.'' \<and> HasSuffix host p)) patterns"

definition HostInScope :: "string \<Rightarrow> string list \<Rightarrow> bool" where
  "HostInScope host scope = hostAllowed (ToLower (Trim host ''[]'')) scope"

text \<open>\<open>169.254.169.254\<close> and \<open>fd00:ec2::254\<close>\<close>
definition metadataAddrs :: "Addr list" where
  "metadataAddrs = [V4 0xA9FEA9FE, V6 0xFD000EC2000000000000000000000254 []]"

definition CheckAddr :: "Addr \<Rightarrow> bool \<Rightarrow> err + unit" where
  "CheckAddr a0 private =
     (let a = Unmap a0 in
      if a \<in> set metadataAddrs \<or> IsLinkLocalUnicast a \<or> IsLinkLocalMulticast a \<or> IsMulticast a
         \<or> IsUnspecified a \<or> IsInterfaceLocalMulticast a then Inl (err AppErrForbidden)
      else if (IsLoopback a \<or> IsPrivate a) \<and> \<not> private then Inl (err AppErrForbidden)
      else Inr ())"

definition CheckHost :: "NetworkPolicy \<Rightarrow> string \<Rightarrow> err + bool" where
  "CheckHost p host0 =
     (let host = ToLower (Trim host0 ''[]''); private = hostAllowed host (np_PrivateHosts p) in
      if \<not> private \<and> \<not> hostAllowed host (np_AllowedHosts p) then Inl (err AppErrForbidden) else Inr private)"

fun check_addrs :: "Addr list \<Rightarrow> bool \<Rightarrow> err + unit" where
  "check_addrs [] private = Inr ()"
| "check_addrs (a # as) private =
     (case CheckAddr a private of Inl e \<Rightarrow> Inl e | Inr _ \<Rightarrow> check_addrs as private)"

text \<open>The resolver's answer by interaction and host.\<close>
type_synonym Resolver = "nat \<Rightarrow> string \<Rightarrow> err + Addr list"

definition ask :: "(nat \<Rightarrow> 'a) \<Rightarrow> 'a act" where
  "ask answer w = (Inr (answer (w_tick w)), tick w)"

definition CheckTarget :: "NetworkPolicy \<Rightarrow> Resolver \<Rightarrow> string \<Rightarrow> unit act" where
  "CheckTarget p resolver resource =
     seq (lift (CheckResource resource True)) (\<lambda>host.
     seq (lift (CheckHost p host)) (\<lambda>private.
     seq (if private then ok [] else lift (CheckResource resource False)) (\<lambda>_.
     seq (case ParseAddr (Trim host ''[]'') of
            Some a \<Rightarrow> ok (Inr [a])
          | None \<Rightarrow> ask (\<lambda>n. resolver n host)) (\<lambda>answer.
     case answer of
       Inl _ \<Rightarrow> fail (err AppErrForbidden)
     | Inr [] \<Rightarrow> fail (err AppErrForbidden)
     | Inr addrs \<Rightarrow> lift (check_addrs addrs private)))))"

section \<open>The service\<close>

record Catalog =
  ct_issuers :: "(nat \<Rightarrow> string \<Rightarrow> err + string) option"
  ct_conn :: "nat \<Rightarrow> string \<Rightarrow> string \<Rightarrow> err + LiveServer"
  ct_authz :: "Authorizer option"
  ct_policy :: NetworkPolicy
  ct_resolver :: Resolver

definition load_descriptor :: "env \<Rightarrow> string \<Rightarrow> u64 \<Rightarrow> Descriptor act" where
  "load_descriptor E serverID revision0 =
     recover (pool_query E (GetServer serverID)) (\<lambda>r.
     case r of
       Inl e \<Rightarrow> fail (if errors_Is e ErrNoRows then err ErrNotFound else e)
     | Inr s \<Rightarrow>
        (let revision = (if revision0 = 0 then uint64 (sv_CurrentRevision s) else revision0) in
         recover (pool_query E (GetDescriptor serverID (int64 revision))) (\<lambda>r.
         case r of
           Inl e \<Rightarrow> fail (if errors_Is e ErrNoRows then err ErrNotFound else e)
         | Inr row \<Rightarrow> lift (DescriptorFromRow row s))))"

text \<open>
  A recorded command: no pointer, or a pointer to the loaded descriptor, together with the error.  The
  pointer is there, to an empty descriptor, when the load failed.
\<close>

definition replayCommand :: "env \<Rightarrow> Command \<Rightarrow> string \<Rightarrow> (Descriptor option option \<times> err option) act" where
  "replayCommand E cmd kind =
     recover (pool_query E (GetCatalogCommand (cmd_TenantID cmd) (cmd_CommandID cmd))) (\<lambda>r.
     case r of
       Inl e \<Rightarrow> ok (None, if errors_Is e ErrNoRows then None else Some e)
     | Inr c \<Rightarrow>
        if cc_CommandKind c \<noteq> kind \<or> cc_RequestDigest c \<noteq> cmd_RequestDigest cmd
        then ok (None, Some (err ErrCommandConflict))
        else
          recover (load_descriptor E (cc_ServerID c) (uint64 (cc_Revision c))) (\<lambda>l.
          ok (case l of Inl e \<Rightarrow> (Some None, Some e) | Inr d \<Rightarrow> (Some (Some d), None))))"

text \<open>The callers' use of it: a pointer answers, an error without one fails, neither goes on.\<close>

definition unless_replayed ::
  "env \<Rightarrow> Command \<Rightarrow> string \<Rightarrow> (Descriptor option \<times> bool) act \<Rightarrow> (Descriptor option \<times> bool) act" where
  "unless_replayed E cmd kind go =
     seq (replayCommand E cmd kind) (\<lambda>r.
     case r of
       (Some d, _) \<Rightarrow> ok (d, True)
     | (None, Some e) \<Rightarrow> fail e
     | (None, None) \<Rightarrow> go)"

definition record_command :: "env \<Rightarrow> Command \<Rightarrow> string \<Rightarrow> string \<Rightarrow> u64 \<Rightarrow> unit act" where
  "record_command E cmd kind serverID revision =
     query E (InsertCatalogCommand (e_schema E)
       \<lparr>cc_TenantID = cmd_TenantID cmd, cc_CommandID = cmd_CommandID cmd, cc_CommandKind = kind,
        cc_RequestDigest = cmd_RequestDigest cmd, cc_ServerID = serverID, cc_Revision = int64 revision,
        cc_CreatedAt = None\<rparr>)"

section \<open>Discovery\<close>

definition readLive :: "Catalog \<Rightarrow> string \<Rightarrow> string \<Rightarrow> LiveServer act" where
  "readLive c resource protocolVersion =
     seq (CheckTarget (ct_policy c) (ct_resolver c) resource) (\<lambda>_.
     seq (ext (EvDiscover resource) (\<lambda>n. ct_conn c n resource protocolVersion)) (\<lambda>answer.
     case answer of
       Inl e \<Rightarrow> fail e
     | Inr live \<Rightarrow>
        (case ct_issuers c of
           None \<Rightarrow> ok live
         | Some issuer \<Rightarrow>
            seq (ask (\<lambda>n. issuer n resource)) (\<lambda>i.
            case i of
              Inl _ \<Rightarrow> fail (err AppErrForbidden)
            | Inr name \<Rightarrow> ok (live\<lparr>lv_Issuer := name\<rparr>)))))"

definition jsonb_schemas :: "env \<Rightarrow> (string \<times> bytes) list \<Rightarrow> (string \<times> bytes) list" where
  "jsonb_schemas E schemas = map (\<lambda>(k, v). (k, case e_jsonb E v of None \<Rightarrow> v | Some c \<Rightarrow> c)) schemas"

text \<open>The columns \<open>InsertDescriptor\<close> writes (the statement sets the others).\<close>

definition descriptor_row :: "env \<Rightarrow> Descriptor \<Rightarrow> Command \<Rightarrow> DescriptorRow" where
  "descriptor_row E desc cmd =
     \<lparr>dr_ServerID = d_ServerID desc, dr_Revision = int64 (d_Revision desc),
      dr_ProtocolVersion = d_ProtocolVersion desc, dr_Provenance = d_Provenance desc,
      dr_DescriptorDigest = d_Digest desc, dr_Tools = Jsonb (d_Tools desc), dr_State = d_State desc,
      dr_CommandID = cmd_CommandID cmd, dr_RequestDigest = cmd_RequestDigest cmd, dr_CreatedAt = None,
      dr_UpdatedAt = None, dr_ServerName = d_ServerName desc, dr_ServerVersion = d_ServerVersion desc,
      dr_Resources = Jsonb (d_Resources desc), dr_Prompts = Jsonb (d_Prompts desc),
      dr_ResourcesDigest = d_ResourcesDigest desc, dr_PromptsDigest = d_PromptsDigest desc,
      dr_DataClass = d_DataClass desc, dr_NetworkScope = d_NetworkScope desc,
      dr_Licenses = d_Licenses desc, dr_Issuer = d_Issuer desc,
      dr_RevisionEvidence = d_RevisionEvidence desc, dr_ConnectionRef = d_ConnectionRef desc,
      dr_DiscoveredBy = d_DiscoveredBy desc, dr_Reviewer = None, dr_ReviewID = None,
      dr_InputSchemas = Jsonb (jsonb_schemas E (d_InputSchemas desc))\<rparr>"

definition server_for_update :: "env \<Rightarrow> Scope \<Rightarrow> Declaration \<Rightarrow> Server act" where
  "server_for_update E scope decl =
     recover (query E (GetServerByResourceForUpdate (sc_TenantID scope) (dc_CanonicalResource decl))) (\<lambda>r.
     case r of
       Inr s \<Rightarrow> ok s
     | Inl e \<Rightarrow>
        if errors_Is e ErrNoRows then
          seq (query E (InsertServer (e_schema E) (idOf ''srv-'' [sc_TenantID scope, dc_CanonicalResource decl])
                 (sc_TenantID scope) (dc_CanonicalResource decl) (dc_Transport decl))) (\<lambda>_.
          query E (GetServerByResourceForUpdate (sc_TenantID scope) (dc_CanonicalResource decl)))
        else fail e)"

definition insert_revision :: "env \<Rightarrow> Command \<Rightarrow> Scope \<Rightarrow> Descriptor \<Rightarrow> Server \<Rightarrow> Descriptor act" where
  "insert_revision E cmd scope desc0 s =
     (let desc = desc0\<lparr>d_ServerID := sv_ServerID s, d_TenantID := sc_TenantID scope,
                       d_Revision := uint64 (sv_CurrentRevision s) + 1, d_DiscoveredBy := sc_ActorID scope\<rparr> in
      seq (guard (list_all (\<lambda>(k, v). json_Valid v) (d_InputSchemas desc)) (err ErrOther)) (\<lambda>_.
      seq (query E (InsertDescriptor (e_schema E) (descriptor_row E desc cmd))) (\<lambda>_.
      seq (query E (SetServerRevision (d_ServerID desc) (int64 (d_Revision desc)))) (\<lambda>_.
      ok desc))))"

definition discover_body ::
  "env \<Rightarrow> Command \<Rightarrow> Scope \<Rightarrow> Declaration \<Rightarrow> Descriptor \<Rightarrow> (Descriptor \<times> bool) act" where
  "discover_body E cmd scope decl desc =
     seq (server_for_update E scope decl) (\<lambda>s.
     seq (recover (query E (GetDescriptorByDigest (sv_ServerID s) (d_Digest desc))) (\<lambda>r.
          case r of
            Inr row \<Rightarrow> seq (lift (DescriptorFromRow row s)) (\<lambda>out. ok (out, True))
          | Inl e \<Rightarrow>
             if \<not> errors_Is e ErrNoRows then fail e
             else seq (insert_revision E cmd scope desc s) (\<lambda>out. ok (out, False)))) (\<lambda>out.
     seq (record_command E cmd ''discover'' (d_ServerID (fst out)) (d_Revision (fst out))) (\<lambda>_.
     ok out)))"

text \<open>The transaction of \<open>Discover\<close>; a duplicate key answers what a concurrent identical command recorded.\<close>

definition record_discovery ::
  "env \<Rightarrow> Command \<Rightarrow> Scope \<Rightarrow> Declaration \<Rightarrow> Descriptor \<Rightarrow> (Descriptor option \<times> bool) act" where
  "record_discovery E cmd scope decl desc =
     recover (InTx E (discover_body E cmd scope decl desc)) (\<lambda>r.
     case r of
       Inr (out, existing) \<Rightarrow> ok (Some out, existing)
     | Inl e \<Rightarrow>
        if errors_Is e ErrDuplicateKey then
          seq (replayCommand E cmd ''discover'') (\<lambda>again.
          case again of (Some d, None) \<Rightarrow> ok (d, True) | _ \<Rightarrow> fail e)
        else fail e)"

definition Discover :: "env \<Rightarrow> Catalog \<Rightarrow> Command \<Rightarrow> Scope \<Rightarrow> Declaration \<Rightarrow> (Descriptor option \<times> bool) act" where
  "Discover E c cmd scope decl =
     seq (checkCommand cmd scope) (\<lambda>_.
     seq (Require (ct_authz c) (sc_TenantID scope) (sc_ActorID scope) ActCatalogDiscover) (\<lambda>_.
     unless_replayed E cmd ''discover'' (
     seq (guard (dc_DataClass decl \<noteq> []) (err ErrInvalid)) (\<lambda>_.
     seq (guard (dc_Transport decl = ''streamable-http'') (err AppErrForbidden)) (\<lambda>_.
     seq (readLive c (dc_CanonicalResource decl) (dc_ProtocolVersion decl)) (\<lambda>live.
     seq (lift (BuildDescriptor decl live)) (\<lambda>desc.
     record_discovery E cmd scope decl desc)))))))"

section \<open>Review and disabling\<close>

definition lockOwn :: "env \<Rightarrow> Scope \<Rightarrow> string \<Rightarrow> u64 \<Rightarrow> Descriptor act" where
  "lockOwn E scope serverID revision =
     seq (own_server E scope serverID) (\<lambda>s. locked_descriptor E s serverID revision)"

definition publish_descriptor :: "env \<Rightarrow> Descriptor \<Rightarrow> string \<Rightarrow> unit act" where
  "publish_descriptor E d correlation =
     seq (nextEventRevision E AggregateDescriptor (d_ServerID d)) (\<lambda>r.
     seq (clock_now E) (\<lambda>at.
     seq (new_uuid E) (\<lambda>eventID.
     Publish E (CatalogReviewedEvent eventID d r correlation at))))"

definition ReviewDecision_string :: "ReviewDecision \<Rightarrow> string" where
  "ReviewDecision_string d =
     (case d of ReviewApprove \<Rightarrow> ''approve'' | ReviewReject \<Rightarrow> ''reject'' | ReviewOther s \<Rightarrow> s)"

definition review_row ::
  "string \<Rightarrow> Descriptor \<Rightarrow> string \<Rightarrow> string \<Rightarrow> string \<Rightarrow> string \<Rightarrow> string \<Rightarrow> string \<Rightarrow> Review" where
  "review_row reviewID d reviewer decision reason commandID requestDigest tenantID =
     \<lparr>rv_ReviewID = reviewID, rv_ServerID = d_ServerID d, rv_Revision = int64 (d_Revision d),
      rv_DescriptorDigest = d_Digest d, rv_Reviewer = reviewer, rv_Decision = decision,
      rv_ReasonCode = optional reason, rv_CommandID = commandID, rv_RequestDigest = requestDigest,
      rv_DecidedAt = None, rv_TenantID = tenantID\<rparr>"

definition review_body ::
  "env \<Rightarrow> Command \<Rightarrow> Scope \<Rightarrow> string \<Rightarrow> u64 \<Rightarrow> string \<Rightarrow> ReviewDecision \<Rightarrow> string \<Rightarrow> Descriptor act" where
  "review_body E cmd scope serverID revision digest decision reason =
     seq (lockOwn E scope serverID revision) (\<lambda>d.
     seq (lift (CheckReview d (sc_ActorID scope) digest decision)) (\<lambda>next.
     let reviewID = idOf ''rev-'' [cmd_TenantID cmd, cmd_CommandID cmd];
         d' = d\<lparr>d_State := next, d_Reviewer := sc_ActorID scope, d_ReviewID := reviewID\<rparr> in
     seq (query E (InsertReview (e_schema E)
            ((review_row reviewID d (sc_ActorID scope) (ReviewDecision_string decision) reason
                (cmd_CommandID cmd) (cmd_RequestDigest cmd) (cmd_TenantID cmd))
               \<lparr>rv_ServerID := serverID, rv_Revision := int64 revision\<rparr>))) (\<lambda>_.
     seq (query E (UpdateDescriptorState serverID (int64 revision) next (Some (sc_ActorID scope)) (Some reviewID))) (\<lambda>_.
     seq (publish_descriptor E d' (cmd_CommandID cmd)) (\<lambda>_.
     seq (record_command E cmd ''review'' serverID revision) (\<lambda>_.
     ok d'))))))"

definition Review_descriptor ::
  "env \<Rightarrow> Catalog \<Rightarrow> Command \<Rightarrow> Scope \<Rightarrow> string \<Rightarrow> u64 \<Rightarrow> string \<Rightarrow> ReviewDecision \<Rightarrow> string
     \<Rightarrow> (Descriptor option \<times> bool) act" where
  "Review_descriptor E c cmd scope serverID revision digest decision reason =
     seq (checkCommand cmd scope) (\<lambda>_.
     seq (Require (ct_authz c) (sc_TenantID scope) (sc_ActorID scope) ActCatalogReview) (\<lambda>_.
     unless_replayed E cmd ''review'' (
     seq (InTx E (review_body E cmd scope serverID revision digest decision reason)) (\<lambda>out.
     ok (Some out, False)))))"

fun revoke_each :: "env \<Rightarrow> string \<Rightarrow> string \<Rightarrow> string list \<Rightarrow> unit act" where
  "revoke_each E commandID actor [] = ok ()"
| "revoke_each E commandID actor (i # is) =
     seq (revokeIn E i (''disable:'' @ commandID) ''descriptor-disabled'' actor ''DESCRIPTOR_DISABLED'') (\<lambda>_.
     revoke_each E commandID actor is)"

definition disableLocked ::
  "env \<Rightarrow> Descriptor \<Rightarrow> string \<Rightarrow> string \<Rightarrow> string \<Rightarrow> string \<Rightarrow> string \<Rightarrow> Descriptor act" where
  "disableLocked E d actor tenantID commandID requestDigest reason =
     (let d' = d\<lparr>d_State := CatalogDisabled\<rparr> in
      seq (query E (InsertReview (e_schema E) (review_row (idOf ''rev-'' [tenantID, commandID]) d actor ''disable''
             reason commandID requestDigest tenantID))) (\<lambda>_.
      seq (query E (UpdateDescriptorState (d_ServerID d) (int64 (d_Revision d)) CatalogDisabled None None)) (\<lambda>_.
      seq (publish_descriptor E d' commandID) (\<lambda>_.
      seq (query E (ListGrantsOfDescriptor (d_ServerID d) (int64 (d_Revision d)))) (\<lambda>ids.
      seq (revoke_each E commandID actor ids) (\<lambda>_.
      ok d'))))))"

definition disable_body ::
  "env \<Rightarrow> Command \<Rightarrow> Scope \<Rightarrow> string \<Rightarrow> u64 \<Rightarrow> string \<Rightarrow> (Descriptor \<times> bool) act" where
  "disable_body E cmd scope serverID revision reason =
     seq (lockOwn E scope serverID revision) (\<lambda>d.
     seq (if d_State d = CatalogDisabled then ok (d, True)
          else seq (disableLocked E d (sc_ActorID scope) (cmd_TenantID cmd) (cmd_CommandID cmd)
                      (cmd_RequestDigest cmd) reason) (\<lambda>d'. ok (d', False))) (\<lambda>out.
     seq (record_command E cmd ''disable'' serverID revision) (\<lambda>_.
     ok out)))"

definition Disable ::
  "env \<Rightarrow> Catalog \<Rightarrow> Command \<Rightarrow> Scope \<Rightarrow> string \<Rightarrow> u64 \<Rightarrow> string \<Rightarrow> (Descriptor option \<times> bool) act" where
  "Disable E c cmd scope serverID revision reason =
     seq (checkCommand cmd scope) (\<lambda>_.
     seq (Require (ct_authz c) (sc_TenantID scope) (sc_ActorID scope) ActCatalogDisable) (\<lambda>_.
     unless_replayed E cmd ''disable'' (
     seq (InTx E (disable_body E cmd scope serverID revision reason)) (\<lambda>out.
     ok (Some (fst out), snd out)))))"

section \<open>Reads\<close>

definition visible_descriptor :: "Catalog \<Rightarrow> Scope \<Rightarrow> Descriptor \<Rightarrow> bool" where
  "visible_descriptor c scope d =
     (if d_TenantID d \<noteq> sc_TenantID scope then False
      else if d_State d = CatalogApproved \<or> d_State d = CatalogDisabled then True
      else Allowed (ct_authz c) (sc_TenantID scope) (sc_ActorID scope) ActCatalogReadPending)"

definition Get_descriptor :: "env \<Rightarrow> Catalog \<Rightarrow> Scope \<Rightarrow> string \<Rightarrow> u64 \<Rightarrow> Descriptor act" where
  "Get_descriptor E c scope serverID revision =
     seq (load_descriptor E serverID revision) (\<lambda>d.
     if \<not> visible_descriptor c scope d then fail (err ErrNotFound) else ok d)"

text \<open>\<open>fmt.Sscanf(raw, "%s %d", ...)\<close>: a word, then a decimal integer that fits 64 bits; what follows is
  ignored, a line break is an error.\<close>

definition scan_blank :: "char \<Rightarrow> bool" where
  "scan_blank ch \<longleftrightarrow> ch = CHR '' '' \<or> ch = CHR 0x09 \<or> ch = CHR 0x0B \<or> ch = CHR 0x0C \<or> ch = CHR 0x0D"

definition scan_cursor :: "string \<Rightarrow> (string \<times> int) option" where
  "scan_cursor raw =
     (let s = dropWhile scan_blank raw;
          word = takeWhile (\<lambda>ch. \<not> scan_blank ch \<and> ch \<noteq> CHR 0x0A) s;
          r = dropWhile scan_blank (drop (length word) s);
          neg = HasPrefix r ''-'';
          r1 = (if neg \<or> HasPrefix r ''+'' then drop 1 r else r);
          ds = takeWhile is_digit r1;
          v = (if neg then - parse_digits ds else parse_digits ds)
      in if word = [] \<or> ds = [] \<or> v < - (2 ^ 63) \<or> 2 ^ 63 \<le> v then None else Some (word, v))"

fun rows_to_descriptors :: "env \<Rightarrow> DescriptorRow list \<Rightarrow> Descriptor list \<Rightarrow> Descriptor list act" where
  "rows_to_descriptors E [] out = ok out"
| "rows_to_descriptors E (r # rs) out =
     seq (pool_query E (GetServer (dr_ServerID r))) (\<lambda>s.
     seq (lift (DescriptorFromRow r s)) (\<lambda>d.
     rows_to_descriptors E rs (out @ [d])))"

definition List_descriptors ::
  "env \<Rightarrow> Catalog \<Rightarrow> Scope \<Rightarrow> string \<Rightarrow> string \<Rightarrow> int \<Rightarrow> (Descriptor list \<times> string) act" where
  "List_descriptors E c scope state cursor limit0 =
     (let limit = (if limit0 \<le> 0 then 50 else limit0) in
      case (if cursor = [] then Some ([], 0) else Option.bind (url64_decode cursor) scan_cursor) of
        None \<Rightarrow> fail (err ErrInvalid)
      | Some (afterServer, afterRevision) \<Rightarrow>
         seq (pool_query E (ListDescriptors (sc_TenantID scope) state
                (Allowed (ct_authz c) (sc_TenantID scope) (sc_ActorID scope) ActCatalogReadPending)
                afterServer afterRevision (int32 (word_of_int (limit + 1))))) (\<lambda>rows.
         seq (rows_to_descriptors E rows []) (\<lambda>out.
         if limit < int (length out)
         then (let l = out ! nat (limit - 1) in
               ok (take (nat limit) out, url64_encode (d_ServerID l @ '' '' @ fmt_u64 (d_Revision l))))
         else ok (out, []))))"

end
