(* ===== verification/App_Calls.thy ===== *)
theory App_Calls
  imports App_Catalog
begin

text \<open>
  Guarded tool execution (\<open>internal/application/calls.go\<close>): a call is recorded, admitted by Control,
  marked under its executable grant and then sent once.  Control, the access tokens and the upstream
  connections are parameters whose answers depend on the number of the interaction.  The detached
  dispatch that \<open>Create\<close> starts is the operation \<open>advance_call\<close>, run at any later moment; what the
  two see of each other is the interference of the store.  Metrics and logging are not modelled.
\<close>

section \<open>Types\<close>

record ToolAdmit =
  ta_Command :: ControlCommand
  ta_CallID :: string
  ta_OperationID :: string
  ta_AttemptID :: string
  ta_InstanceID :: string
  ta_ExecutionEpoch :: u64
  ta_GrantID :: string
  ta_GrantRevision :: u64
  ta_ServerID :: string
  ta_Method :: string
  ta_ArgumentDigest :: string
  ta_SideEffecting :: bool
  ta_MaxExposure :: Money
  ta_Deadline :: time

record ToolAdmission =
  ad_DispatchID :: string
  ad_Allowed :: bool
  ad_DenialCode :: string
  ad_State :: string

record DispatchView =
  dv_State :: string
  dv_Outcome :: string

record ExecutionDecision =
  ed_Allowed :: bool
  ed_Revision :: string
  ed_Reason :: string

abbreviation OutcomeSucceeded :: string where "OutcomeSucceeded \<equiv> ''succeeded''"
abbreviation OutcomeFailed :: string where "OutcomeFailed \<equiv> ''failed''"
abbreviation OutcomeCanceled :: string where "OutcomeCanceled \<equiv> ''canceled''"
abbreviation OutcomeUnknown :: string where "OutcomeUnknown \<equiv> ''unknown''"

record ToolDispatcher =
  td_CheckExecution :: "nat \<Rightarrow> Scope \<Rightarrow> string \<Rightarrow> string \<Rightarrow> string \<Rightarrow> err + ExecutionDecision"
  td_AdmitTool :: "nat \<Rightarrow> ToolAdmit \<Rightarrow> err + ToolAdmission"
  td_ObserveTool :: "nat \<Rightarrow> string \<Rightarrow> u64 \<Rightarrow> string \<Rightarrow> u64 option \<Rightarrow> time \<Rightarrow> err + unit"
  td_GetTool :: "nat \<Rightarrow> string \<Rightarrow> string \<Rightarrow> err + DispatchView"

record UpstreamTarget =
  ut_Resource :: string
  ut_ProtocolVersion :: string
  ut_Transport :: string
  ut_Method :: string
  ut_InputSchemaDigest :: string
  ut_OutputSchemaDigest :: string
  ut_AnnotationsDigest :: string
  ut_ServerName :: string
  ut_ServerVersion :: string
  ut_NetworkScope :: "string list"
  ut_Token :: string

text \<open>A nil \<open>Result\<close> is \<open>None\<close>.\<close>

record UpstreamReply =
  ur_Result :: "bytes option"
  ur_Native :: bytes
  ur_IsError :: bool

text \<open>
  An error of a send by what \<open>errors.As\<close> finds in its chain: the code of an \<open>AnsweredError\<close> and of
  an \<open>UnknownError\<close>.  An error of \<open>Open\<close> is the code of the \<open>NotSentError\<close> in its chain, if any.
\<close>

record SendError =
  se_answered :: "string option"
  se_unknown :: "string option"

record UpstreamSession =
  us_Send :: "nat \<Rightarrow> string \<Rightarrow> bytes \<Rightarrow> UpstreamReply \<times> SendError option"

record Upstream =
  up_Open :: "nat \<Rightarrow> UpstreamTarget \<Rightarrow> string option + UpstreamSession"

record QualifiedRoute =
  qr_Resource :: string
  qr_ProtocolVersion :: string
  qr_Transport :: string
  qr_Route :: string

record CallOptions =
  co_SendTimeout :: duration
  co_ReconcileAge :: duration
  co_ReconcileBatch :: int
  co_ResolveInterval :: duration

text \<open>
  The service.  \<open>cl_closing\<close> is the value of the closing flag and \<open>cl_elapsed\<close> whether the send
  bound has elapsed, by interaction.
\<close>

record Calls =
  cl_dispatch :: ToolDispatcher
  cl_upstream :: "(string \<times> Upstream) list"
  cl_tokens :: "nat \<Rightarrow> Grant \<Rightarrow> err + string"
  cl_routes :: "QualifiedRoute list"
  cl_opts :: CallOptions
  cl_authz :: "Authorizer option"
  cl_schemas :: jsonschema
  cl_closing :: "nat \<Rightarrow> bool"
  cl_elapsed :: "nat \<Rightarrow> bool"

definition NewCalls :: "Calls \<Rightarrow> Calls" where
  "NewCalls c =
     (if co_ReconcileBatch (cl_opts c) \<le> 0
      then c\<lparr>cl_opts := (cl_opts c)\<lparr>co_ReconcileBatch := 50\<rparr>\<rparr> else c)"

definition routeOf :: "Calls \<Rightarrow> Grant \<Rightarrow> string option" where
  "routeOf c g =
     map_option qr_Route (find (\<lambda>r. qr_Resource r = g_CanonicalResource g
       \<and> qr_ProtocolVersion r = g_ProtocolVersion g \<and> qr_Transport r = g_Transport g
       \<and> map_of (cl_upstream c) (qr_Route r) \<noteq> None) (cl_routes c))"

definition callerMaySend :: "Scope \<Rightarrow> Grant \<Rightarrow> bool" where
  "callerMaySend scope g =
     (if g_SubjectType g = ''tenant'' then True
      else if g_SubjectType g = ''project'' then sc_ProjectID scope \<noteq> [] \<and> g_SubjectID g = sc_ProjectID scope
      else if g_SubjectType g = ''actor'' then g_SubjectID g = sc_ActorID scope
      else if g_SubjectType g = ''role'' then g_SubjectID g \<in> set (sc_Roles scope)
      else False)"

section \<open>Reading\<close>

definition load_call :: "env \<Rightarrow> string \<Rightarrow> Call act" where
  "load_call E callID =
     recover (pool_query E (GetToolRequest callID)) (\<lambda>r.
     case r of
       Inl e \<Rightarrow> fail (if errors_Is e ErrNoRows then err ErrNotFound else e)
     | Inr row \<Rightarrow> ok (CallFromRow row))"

definition Get_call :: "env \<Rightarrow> Scope \<Rightarrow> string \<Rightarrow> Call act" where
  "Get_call E scope callID =
     seq (load_call E callID) (\<lambda>call.
     seq (guard (c_TenantID call = sc_TenantID scope) (err ErrNotFound)) (\<lambda>_.
     ok call))"

section \<open>Recording and dispatching\<close>

text \<open>The commercial authorization, asked only for a grant of the caller's tenant.\<close>

definition authorize_execution :: "env \<Rightarrow> Calls \<Rightarrow> Scope \<Rightarrow> CallRequest \<Rightarrow> unit act" where
  "authorize_execution E c scope req =
     recover (pool_query E (GetGrant (cr_GrantID req))) (\<lambda>r.
     case r of
       Inr gr \<Rightarrow>
         if gw_TenantID gr = sc_TenantID scope then
           seq (ask (\<lambda>n. td_CheckExecution (cl_dispatch c) n scope ''mcp-tool''
                       (gw_ServerID gr @ ''/'' @ cr_Method req) ''execute'')) (\<lambda>decision.
           case decision of
             Inl e \<Rightarrow> fail e
           | Inr d \<Rightarrow> guard (ed_Allowed d) (Err AppErrForbidden CallAuthorizationDenied))
         else ok ()
     | Inl e \<Rightarrow> if errors_Is e ErrNoRows then ok () else fail e)"

definition call_row ::
  "Command \<Rightarrow> CallRequest \<Rightarrow> string \<Rightarrow> Grant \<Rightarrow> Tool \<Rightarrow> string \<Rightarrow> ToolRequest" where
  "call_row cmd req callID g tool route =
     \<lparr>tr_CallID = callID, tr_TenantID = g_TenantID g, tr_GrantID = g_GrantID g,
      tr_GrantRevision = int64 (g_Revision g), tr_ServerID = g_ServerID g,
      tr_DescriptorRevision = int64 (g_DescriptorRevision g), tr_Method = cr_Method req,
      tr_ArgumentRef = cr_ArgumentRef req, tr_ArgumentDigest = cr_ArgumentDigest req,
      tr_OperationID = Some (cr_OperationID req), tr_AttemptID = Some (cr_AttemptID req),
      tr_State = CallAccepted, tr_ControlDispatchID = None, tr_ResultRef = None, tr_ResultDigest = None,
      tr_FailureCode = None, tr_CommandID = cmd_CommandID cmd, tr_RequestDigest = cmd_RequestDigest cmd,
      tr_Deadline = Some (trunc_us (cr_Deadline req)), tr_CreatedAt = None, tr_UpdatedAt = None,
      tr_InstanceID = cr_InstanceID req, tr_ExecutionEpoch = int64 (cr_ExecutionEpoch req),
      tr_Arguments = cr_Arguments req, tr_DescriptorDigest = g_DescriptorDigest g,
      tr_ProtocolVersion = g_ProtocolVersion g, tr_Transport = g_Transport g, tr_Route = route,
      tr_SideEffecting = tl_SideEffecting tool, tr_ExposureCurrency = m_Currency (tl_UnitPrice tool),
      tr_ExposureAmount = m_Amount (tl_UnitPrice tool), tr_SendMarkerAt = None, tr_ObservedAt = None,
      tr_ObservationSequence = 0, tr_UsageUnits = None, tr_NativeEvidence = [], tr_Result = []\<rparr>"

text \<open>The grant of the request, executable for the caller and the method.\<close>

definition usable_grant :: "env \<Rightarrow> Scope \<Rightarrow> CallRequest \<Rightarrow> time \<Rightarrow> Grant act" where
  "usable_grant E scope req now =
     recover (query E (GetGrantForShare (cr_GrantID req))) (\<lambda>r.
     case r of
       Inl e \<Rightarrow> fail (if errors_Is e ErrNoRows then err ErrNotFound else e)
     | Inr gr \<Rightarrow>
        let g = GrantFromRow gr in
        seq (guard (gw_TenantID gr = sc_TenantID scope) (err ErrNotFound)) (\<lambda>_.
        seq (guard (callerMaySend scope g) (err ErrNotFound)) (\<lambda>_.
        seq (guard (g_Revision g = cr_GrantRevision req) (err ErrRevisionMismatch)) (\<lambda>_.
        seq (guard (Executable g now) (Err AppErrForbidden CallGrantNotExecutable)) (\<lambda>_.
        seq (guard (cr_Method req \<in> set (g_Methods g)) (Err AppErrForbidden CallGrantNotExecutable)) (\<lambda>_.
        ok g))))))"

text \<open>The reviewed descriptor the grant is bound to, still approved at its digest.\<close>

definition approved_descriptor :: "env \<Rightarrow> Grant \<Rightarrow> Descriptor act" where
  "approved_descriptor E g =
     seq (query E (GetDescriptor (g_ServerID g) (int64 (g_DescriptorRevision g)))) (\<lambda>dr.
     seq (guard (dr_State dr = CatalogApproved \<and> dr_DescriptorDigest dr = g_DescriptorDigest g)
            (Err AppErrForbidden CallGrantNotExecutable)) (\<lambda>_.
     seq (query E (GetServer (g_ServerID g))) (\<lambda>srv.
     lift (DescriptorFromRow dr srv))))"

definition record_call ::
  "env \<Rightarrow> Calls \<Rightarrow> Command \<Rightarrow> Scope \<Rightarrow> CallRequest \<Rightarrow> string \<Rightarrow> time \<Rightarrow> unit act" where
  "record_call E c cmd scope req callID now =
     seq (usable_grant E scope req now) (\<lambda>g.
     seq (approved_descriptor E g) (\<lambda>desc.
     case Method desc (cr_Method req) of
       None \<Rightarrow> fail (Err AppErrForbidden CallSchemaDrift)
     | Some tool \<Rightarrow>
        seq (check (CheckArguments (cl_schemas c)
               (case map_of (d_InputSchemas desc) (cr_Method req) of None \<Rightarrow> [] | Some s \<Rightarrow> s)
               (cr_Arguments req))) (\<lambda>_.
        case routeOf c g of
          None \<Rightarrow> fail (Err AppErrForbidden CallRouteUnqualified)
        | Some route \<Rightarrow>
           seq (query E (HasUnknownToolRequest (g_TenantID g) (g_ServerID g))) (\<lambda>restricted.
           seq (guard (\<not> restricted) (Err AppErrForbidden CallRecoveryRestricted)) (\<lambda>_.
           query E (InsertToolRequest (e_schema E) (call_row cmd req callID g tool route)))))))"

text \<open>
  One round of \<open>Create\<close>: the earlier call of the same command, or a newly recorded call whose
  dispatch is started.  \<open>None\<close>: a concurrent command won the insert and \<open>Create\<close> calls itself.
\<close>

definition create_round ::
  "env \<Rightarrow> Calls \<Rightarrow> Command \<Rightarrow> Scope \<Rightarrow> CallRequest \<Rightarrow> (Call \<times> bool) option act" where
  "create_round E c cmd scope req =
     seq (checkCommand cmd scope) (\<lambda>_.
     seq (ask (cl_closing c)) (\<lambda>closing.
     seq (guard (\<not> closing) (err ErrShuttingDown)) (\<lambda>_.
     recover (pool_query E (GetToolRequestByCommand (cmd_TenantID cmd) (cmd_CommandID cmd))) (\<lambda>r.
     case r of
       Inr prev \<Rightarrow>
         if tr_RequestDigest prev \<noteq> cmd_RequestDigest cmd then fail (err ErrCommandConflict)
         else ok (Some (CallFromRow prev, True))
     | Inl e \<Rightarrow>
        if \<not> errors_Is e ErrNoRows then fail e
        else
          seq (clock_now E) (\<lambda>now.
          seq (check (CheckCallRequest req now)) (\<lambda>_.
          let callID = idOf ''call-'' [cmd_TenantID cmd, cmd_CommandID cmd] in
          seq (authorize_execution E c scope req) (\<lambda>_.
          recover (InTx E (record_call E c cmd scope req callID now)) (\<lambda>tx.
          case tx of
            Inl e \<Rightarrow> if errors_Is e ErrDuplicateKey then ok None else fail e
          | Inr _ \<Rightarrow>
             seq (ext (EvDispatch callID) (\<lambda>_. ())) (\<lambda>_.
             seq (load_call E callID) (\<lambda>call.
             ok (Some (call, False))))))))))))"

text \<open>\<open>Create\<close> with at most \<open>n\<close> further rounds; \<open>None\<close> if it still calls itself then.\<close>

fun Create_call ::
  "nat \<Rightarrow> env \<Rightarrow> Calls \<Rightarrow> Command \<Rightarrow> Scope \<Rightarrow> CallRequest \<Rightarrow> (Call \<times> bool) option act" where
  "Create_call 0 E c cmd scope req = create_round E c cmd scope req"
| "Create_call (Suc n) E c cmd scope req =
     seq (create_round E c cmd scope req) (\<lambda>r.
     case r of Some answer \<Rightarrow> ok (Some answer) | None \<Rightarrow> Create_call n E c cmd scope req)"

section \<open>Outcomes\<close>

text \<open>What is reported to Control: the outcome and its usage; \<open>None\<close> while there is no outcome.\<close>

definition observation :: "Call \<Rightarrow> (string \<times> u64 option) option" where
  "observation call =
     (let units = (case c_UsageUnits call of None \<Rightarrow> Some 0 | Some u \<Rightarrow> Some u) in
      case c_State call of
        CallSucceeded \<Rightarrow> Some (OutcomeSucceeded, units)
      | CallFailed \<Rightarrow> Some (OutcomeFailed, units)
      | CallCanceled \<Rightarrow> Some (OutcomeCanceled, units)
      | CallUnknown \<Rightarrow> Some (OutcomeUnknown, None)
      | _ \<Rightarrow> None)"

definition observe :: "env \<Rightarrow> Calls \<Rightarrow> Call \<Rightarrow> unit act" where
  "observe E c call =
     (case observation call of
        None \<Rightarrow> ok ()
      | Some (outcome, units) \<Rightarrow>
         seq (clock_now E) (\<lambda>now.
         seq (ext (EvObserve (c_CallID call) (c_ObservationSeq call) (c_State call))
                (\<lambda>n. td_ObserveTool (cl_dispatch c) n (c_DispatchID call) (c_ObservationSeq call) outcome units now)) (\<lambda>r.
         case r of
           Inl _ \<Rightarrow> ok ()
         | Inr _ \<Rightarrow>
            recover (pool_query E (SetToolRequestObserved (c_CallID call) (int64 (c_ObservationSeq call)))) (\<lambda>_.
            ok ()))))"

text \<open>\<open>if call, err = c.load(...); err == nil { c.observe(...) }\<close>\<close>

definition observe_current :: "env \<Rightarrow> Calls \<Rightarrow> string \<Rightarrow> unit act" where
  "observe_current E c callID =
     recover (load_call E callID) (\<lambda>r. case r of Inl _ \<Rightarrow> ok () | Inr call \<Rightarrow> observe E c call)"

definition outcome :: "CallState \<Rightarrow> string option \<Rightarrow> int option \<Rightarrow> ToolOutcome" where
  "outcome state code units =
     \<lparr>to_State = state, to_FailureCode = code, to_Result = [], to_ResultDigest = None, to_ResultRef = None,
      to_NativeEvidence = [], to_UsageUnits = units\<rparr>"

text \<open>An update that took effect on its one row.\<close>

definition updated_one :: "env \<Rightarrow> (time \<Rightarrow> db \<Rightarrow> (err + int) \<times> db) \<Rightarrow> unit act \<Rightarrow> unit act" where
  "updated_one E q k =
     recover (pool_query E q) (\<lambda>r. if r = Inr 1 then k else ok ())"

definition cancel_call :: "env \<Rightarrow> Calls \<Rightarrow> Call \<Rightarrow> string \<Rightarrow> unit act" where
  "cancel_call E c call code =
     updated_one E (SetToolRequestOutcome (c_CallID call) (outcome CallCanceled (Some code) (Some 0)) [CallAdmitted])
       (observe_current E c (c_CallID call))"

section \<open>Sending\<close>

text \<open>The transaction of the send marker: whether this request set it.\<close>

definition marker_body :: "env \<Rightarrow> Call \<Rightarrow> bool act" where
  "marker_body E call =
     seq (query E (GetGrantForShare (c_GrantID call))) (\<lambda>gr.
     let cur = GrantFromRow gr in
     if g_Revision cur \<noteq> c_GrantRevision call then ok False
     else
       seq (clock_now E) (\<lambda>now.
       if \<not> Executable cur now then ok False
       else
         seq (query E (SetToolRequestMarker (c_CallID call))) (\<lambda>n.
         ok (n = 1))))"

definition classify_reply :: "UpstreamReply \<Rightarrow> SendError option \<Rightarrow> CallState \<times> string" where
  "classify_reply reply e =
     (case e of
        None \<Rightarrow> if ur_IsError reply then (CallFailed, CallToolError) else (CallSucceeded, [])
      | Some se \<Rightarrow>
         (case se_answered se of
            Some code \<Rightarrow> (CallFailed, code)
          | None \<Rightarrow>
             (case se_unknown se of
                Some code \<Rightarrow> (CallUnknown, code)
              | None \<Rightarrow> (CallUnknown, CallOutcomeUnknown))))"

definition reply_outcome :: "Call \<Rightarrow> UpstreamReply \<Rightarrow> SendError option \<Rightarrow> ToolOutcome" where
  "reply_outcome call reply e =
     (let (state, code) = classify_reply reply e;
          out = (outcome state (if code \<noteq> [] then Some code else None)
                   (if state \<noteq> CallUnknown then Some 1 else None))\<lparr>to_NativeEvidence := ur_Native reply\<rparr>
      in case ur_Result reply of
           None \<Rightarrow> out
         | Some result \<Rightarrow>
            if state = CallUnknown then out
            else out\<lparr>to_Result := result, to_ResultDigest := Some (DigestBytes result),
                     to_ResultRef := Some (''mcp-result:'' @ c_CallID call)\<rparr>)"

text \<open>The one \<open>tools/call\<close> of a marked call and the recording of its outcome.\<close>

definition send_marked :: "env \<Rightarrow> Calls \<Rightarrow> Call \<Rightarrow> UpstreamSession \<Rightarrow> unit act" where
  "send_marked E c call sess =
     seq (ext (EvSend (c_CallID call)) (\<lambda>n. us_Send sess n (c_Method call) (c_Arguments call))) (\<lambda>(reply, e).
     updated_one E (SetToolRequestOutcome (c_CallID call) (reply_outcome call reply e) [CallSent])
       (observe_current E c (c_CallID call)))"

definition upstream_target :: "Call \<Rightarrow> Grant \<Rightarrow> Descriptor \<Rightarrow> string \<Rightarrow> UpstreamTarget" where
  "upstream_target call g desc token =
     (let tool = Method desc (c_Method call);
          dig = (\<lambda>f. case tool of None \<Rightarrow> [] | Some t \<Rightarrow> f t) in
      \<lparr>ut_Resource = g_CanonicalResource g, ut_ProtocolVersion = c_ProtocolVersion call,
       ut_Transport = c_Transport call, ut_Method = c_Method call,
       ut_InputSchemaDigest = dig tl_InputSchemaDigest, ut_OutputSchemaDigest = dig tl_OutputSchemaDigest,
       ut_AnnotationsDigest = dig tl_AnnotationsDigest, ut_ServerName = d_ServerName desc,
       ut_ServerVersion = d_ServerVersion desc, ut_NetworkScope = d_NetworkScope desc, ut_Token = token\<rparr>)"

text \<open>What \<open>send\<close> reads before it connects; any failure cancels the call.\<close>

definition send_context :: "env \<Rightarrow> Call \<Rightarrow> (Grant \<times> Descriptor) act" where
  "send_context E call =
     seq (pool_query E (GetGrant (c_GrantID call))) (\<lambda>gr.
     seq (pool_query E (GetDescriptor (c_ServerID call) (int64 (c_DescriptorRevision call)))) (\<lambda>dr.
     seq (pool_query E (GetServer (c_ServerID call))) (\<lambda>srv.
     seq (lift (DescriptorFromRow dr srv)) (\<lambda>desc.
     ok (GrantFromRow gr, desc)))))"

definition send_opened :: "env \<Rightarrow> Calls \<Rightarrow> Call \<Rightarrow> UpstreamSession \<Rightarrow> unit act" where
  "send_opened E c call sess =
     seq (ask (cl_elapsed c)) (\<lambda>elapsed.
     if elapsed then cancel_call E c call CallNotSent
     else
       recover (InTx E (marker_body E call)) (\<lambda>r.
       case r of
         Inl _ \<Rightarrow> ok ()
       | Inr marked \<Rightarrow>
          if marked then send_marked E c call sess else cancel_call E c call CallGrantNotExecutable))"

definition send_call :: "env \<Rightarrow> Calls \<Rightarrow> Call \<Rightarrow> unit act" where
  "send_call E c call =
     recover (send_context E call) (\<lambda>r.
     case r of
       Inl _ \<Rightarrow> cancel_call E c call CallGrantNotExecutable
     | Inr (g, desc) \<Rightarrow>
        seq (ask (\<lambda>n. cl_tokens c n g)) (\<lambda>t.
        case t of
          Inl _ \<Rightarrow> cancel_call E c call CallAuthorization
        | Inr token \<Rightarrow>
           (case map_of (cl_upstream c) (c_Route call) of
              None \<Rightarrow> cancel_call E c call CallRouteUnqualified
            | Some up \<Rightarrow>
               seq (ext (EvOpen (c_CallID call)) (\<lambda>n. up_Open up n (upstream_target call g desc token))) (\<lambda>s.
               case s of
                 Inl code \<Rightarrow>
                   cancel_call E c call (case code of None \<Rightarrow> CallUpstreamUnavailable | Some x \<Rightarrow> x)
               | Inr sess \<Rightarrow> send_opened E c call sess))))"

section \<open>Admission\<close>

definition tool_admit :: "Call \<Rightarrow> ToolAdmit" where
  "tool_admit call =
     \<lparr>ta_Command = \<lparr>cn_TenantID = c_TenantID call, cn_CommandID = ''admit:'' @ c_CallID call,
        cn_ActorID = Owner, cn_RequestDigest = c_RequestDigest call\<rparr>,
      ta_CallID = c_CallID call, ta_OperationID = c_OperationID call, ta_AttemptID = c_AttemptID call,
      ta_InstanceID = c_InstanceID call, ta_ExecutionEpoch = c_ExecutionEpoch call,
      ta_GrantID = c_GrantID call, ta_GrantRevision = c_GrantRevision call, ta_ServerID = c_ServerID call,
      ta_Method = c_Method call, ta_ArgumentDigest = c_ArgumentDigest call,
      ta_SideEffecting = c_SideEffecting call, ta_MaxExposure = c_Exposure call, ta_Deadline = c_Deadline call\<rparr>"

definition admit :: "env \<Rightarrow> Calls \<Rightarrow> Call \<Rightarrow> unit act" where
  "admit E c call =
     seq (ext (EvAdmit (c_CallID call)) (\<lambda>n. td_AdmitTool (cl_dispatch c) n (tool_admit call))) (\<lambda>r.
     case r of
       Inl _ \<Rightarrow> ok ()
     | Inr adm \<Rightarrow>
        let admitted = call\<lparr>c_State := CallAdmitted, c_DispatchID := ad_DispatchID adm\<rparr> in
        if \<not> ad_Allowed adm \<and> ad_State adm = ''denied'' then
          updated_one E (SetToolRequestAdmission (c_CallID call) CallDenied (Some (ad_DispatchID adm))
             (Some (ad_DenialCode adm))) (ok ())
        else
          updated_one E (SetToolRequestAdmission (c_CallID call) CallAdmitted (Some (ad_DispatchID adm)) None)
            (if ad_Allowed adm then send_call E c admitted else cancel_call E c admitted CallNotSent))"

definition advance_call :: "env \<Rightarrow> Calls \<Rightarrow> string \<Rightarrow> unit act" where
  "advance_call E c callID =
     recover (load_call E callID) (\<lambda>r.
     case r of
       Inl _ \<Rightarrow> ok ()
     | Inr call \<Rightarrow>
        if c_State call = CallAccepted then admit E c call
        else if c_State call \<in> {CallSucceeded, CallFailed, CallCanceled, CallUnknown}
             \<and> c_ObservedAt call = None \<and> c_DispatchID call \<noteq> []
        then observe E c call
        else ok ())"

section \<open>Shutdown\<close>

text \<open>
  The calls still in flight when the drain ends, in order: each one still marked as sent becomes
  UNKNOWN.  The answer is how many.
\<close>

fun shutdown_calls :: "env \<Rightarrow> Calls \<Rightarrow> string list \<Rightarrow> nat \<Rightarrow> nat act" where
  "shutdown_calls E c [] recorded = ok recorded"
| "shutdown_calls E c (i # ids) recorded =
     recover (pool_query E (SetToolRequestOutcome i (outcome CallUnknown (Some CallOutcomeUnknown) None) [CallSent])) (\<lambda>r.
     if r = Inr 1 then seq (observe_current E c i) (\<lambda>_. shutdown_calls E c ids (Suc recorded))
     else shutdown_calls E c ids recorded)"

text \<open>\<open>live\<close> are the dispatches this process still runs when \<open>ctx\<close> ends; \<open>drained\<close>: none is left.\<close>

definition Shutdown :: "env \<Rightarrow> Calls \<Rightarrow> bool \<Rightarrow> string list \<Rightarrow> nat act" where
  "Shutdown E c drained live = (if drained then ok 0 else shutdown_calls E c (sort live) 0)"

section \<open>Reconciliation\<close>

definition resolved :: "DispatchView \<Rightarrow> (CallState \<times> string) option" where
  "resolved v =
     (if dv_State v = ''confirmed_not_sent'' then Some (CallFailed, ''CONFIRMED_NOT_SENT'')
      else if dv_State v = ''observed'' \<and> dv_Outcome v = OutcomeSucceeded then Some (CallSucceeded, [])
      else if dv_State v = ''observed'' then Some (CallFailed, ''RESOLVED_'' @ dv_Outcome v)
      else None)"

definition resolve :: "env \<Rightarrow> Calls \<Rightarrow> Call \<Rightarrow> unit act" where
  "resolve E c call =
     seq (ext (EvGetTool (c_CallID call)) (\<lambda>n. td_GetTool (cl_dispatch c) n (c_TenantID call) (c_DispatchID call))) (\<lambda>r.
     case r of
       Inl _ \<Rightarrow> ok ()
     | Inr v \<Rightarrow>
        (case resolved v of
           None \<Rightarrow> ok ()
         | Some (state, code) \<Rightarrow>
            updated_one E (SetToolRequestOutcome (c_CallID call)
               (outcome state (if code \<noteq> [] then Some code else None) None) [CallUnknown]) (ok ())))"

definition sentAge :: "CallOptions \<Rightarrow> duration" where
  "sentAge o' = min (co_SendTimeout o' + 5 * 1000000000) (co_ReconcileAge o')"

text \<open>The throttle of the Control queries per call, kept by the process between passes.\<close>

type_synonym throttle = "string \<rightharpoonup> time"

definition dueForResolve :: "env \<Rightarrow> Calls \<Rightarrow> throttle \<Rightarrow> string \<Rightarrow> (bool \<times> throttle) act" where
  "dueForResolve E c nextResolve callID =
     (if co_ResolveInterval (cl_opts c) \<le> 0 then ok (True, nextResolve)
      else
        seq (clock_now E) (\<lambda>now.
        case nextResolve callID of
          Some t \<Rightarrow>
            if Before now t then ok (False, nextResolve)
            else ok (True, nextResolve(callID \<mapsto> Add now (co_ResolveInterval (cl_opts c))))
        | None \<Rightarrow> ok (True, nextResolve(callID \<mapsto> Add now (co_ResolveInterval (cl_opts c))))))"

definition reconcileOne :: "env \<Rightarrow> Calls \<Rightarrow> throttle \<Rightarrow> Call \<Rightarrow> throttle act" where
  "reconcileOne E c nextResolve call =
     (case c_State call of
        CallAccepted \<Rightarrow> seq (admit E c call) (\<lambda>_. ok nextResolve)
      | CallAdmitted \<Rightarrow> seq (cancel_call E c call CallNotSent) (\<lambda>_. ok nextResolve)
      | CallSent \<Rightarrow>
         seq (updated_one E (SetAbandonedToolRequestUnknown (c_CallID call) (Some CallOutcomeUnknown)
                (sentAge (cl_opts c))) (observe_current E c (c_CallID call))) (\<lambda>_.
         ok nextResolve)
      | CallUnknown \<Rightarrow>
         if c_ObservedAt call = None then seq (observe E c call) (\<lambda>_. ok nextResolve)
         else
           seq (dueForResolve E c nextResolve (c_CallID call)) (\<lambda>(due, nr).
           if due then seq (resolve E c call) (\<lambda>_. ok nr) else ok nr)
      | _ \<Rightarrow> seq (observe E c call) (\<lambda>_. ok nextResolve))"

fun reconcile_rows :: "env \<Rightarrow> Calls \<Rightarrow> throttle \<Rightarrow> ToolRequest list \<Rightarrow> throttle act" where
  "reconcile_rows E c nr [] = ok nr"
| "reconcile_rows E c nr (r # rs) =
     seq (reconcileOne E c nr (CallFromRow r)) (\<lambda>nr'. reconcile_rows E c nr' rs)"

text \<open>
  The loop of a pass over the pages: the number of rows, the throttle the process keeps, and the
  error, if any.  The context of the pass ends after \<open>pages\<close> iterations at the latest; the loop then
  returns its error, as the code does when it tests \<open>ctx.Err()\<close>.
\<close>

fun reconcile_pages ::
  "nat \<Rightarrow> env \<Rightarrow> Calls \<Rightarrow> throttle \<Rightarrow> time \<Rightarrow> string \<Rightarrow> string list \<Rightarrow> int \<Rightarrow> (int \<times> throttle \<times> err option) act" where
  "reconcile_pages 0 E c nr afterAt afterID seen cnt = ok (cnt, nr, Some (err CtxCanceled))"
| "reconcile_pages (Suc pages) E c nr afterAt afterID seen cnt =
     recover (pool_query E (ListOpenToolRequests (co_ReconcileAge (cl_opts c)) (sentAge (cl_opts c)) afterAt afterID
            (co_ReconcileBatch (cl_opts c)))) (\<lambda>answer.
     case answer of
       Inl e \<Rightarrow> ok (cnt, nr, Some e)
     | Inr rows \<Rightarrow>
        if rows = [] then ok (cnt, nr |` set seen, None)
        else
          let cnt' = cnt + int (length rows); row = last rows; seen' = seen @ map tr_CallID rows in
          seq (reconcile_rows E c nr rows) (\<lambda>nr'.
          if int (length rows) < co_ReconcileBatch (cl_opts c) then ok (cnt', nr' |` set seen', None)
          else reconcile_pages pages E c nr' (ts (tr_UpdatedAt row)) (tr_CallID row) seen' cnt'))"

definition Reconcile_calls :: "nat \<Rightarrow> env \<Rightarrow> Calls \<Rightarrow> throttle \<Rightarrow> (int \<times> throttle \<times> err option) act" where
  "Reconcile_calls pages E c nr = reconcile_pages pages E c nr zero_time [] [] 0"

definition ReconcileCall :: "env \<Rightarrow> Calls \<Rightarrow> string \<Rightarrow> Call act" where
  "ReconcileCall E c callID =
     seq (load_call E callID) (\<lambda>call.
     seq (case c_State call of
            CallUnknown \<Rightarrow>
              seq (if c_ObservedAt call = None then observe E c call else ok ()) (\<lambda>_.
              resolve E c call)
          | CallSent \<Rightarrow> seq (reconcileOne E c Map.empty call) (\<lambda>_. ok ())
          | s \<Rightarrow>
             if s \<in> {CallSucceeded, CallFailed, CallCanceled} \<and> c_ObservedAt call = None \<and> c_DispatchID call \<noteq> []
             then observe E c call else ok ()) (\<lambda>_.
     load_call E callID))"

definition ReconcileCallAs :: "env \<Rightarrow> Calls \<Rightarrow> Scope \<Rightarrow> string \<Rightarrow> Call act" where
  "ReconcileCallAs E c scope callID =
     seq (Require (cl_authz c) (sc_TenantID scope) (sc_ActorID scope) ActCallReconcile) (\<lambda>_.
     seq (load_call E callID) (\<lambda>call.
     seq (guard (c_TenantID call = sc_TenantID scope) (err ErrNotFound)) (\<lambda>_.
     ReconcileCall E c callID)))"

end
