(* ===== verification/Rows.thy ===== *)
theory Rows
  imports Queries
begin

text \<open>
  How the rows of one table may change, by key: a row that is there only takes steps of \<open>live\<close>, is
  never deleted, and a row that appears is one that steps can reach from a \<open>fresh\<close> row.  Every such
  relation interprets the locale \<open>evolution\<close> of \<open>Store\<close>, so a component only has to show it for the
  bodies of its transactions.
\<close>

definition row_of :: "('r \<Rightarrow> 'k) \<Rightarrow> 'r list \<Rightarrow> 'k \<Rightarrow> 'r option" where
  "row_of key rows k = find (\<lambda>r. key r = k) rows"

definition row_possible :: "('r \<Rightarrow> 'r \<Rightarrow> bool) \<Rightarrow> ('r \<Rightarrow> bool) \<Rightarrow> 'r \<Rightarrow> bool" where
  "row_possible live fresh r \<longleftrightarrow> (\<exists>r0. fresh r0 \<and> live\<^sup>*\<^sup>* r0 r)"

fun row_evolves :: "('r \<Rightarrow> 'r \<Rightarrow> bool) \<Rightarrow> ('r \<Rightarrow> bool) \<Rightarrow> 'r option \<Rightarrow> 'r option \<Rightarrow> bool" where
  "row_evolves live fresh None None = True"
| "row_evolves live fresh None (Some r') = row_possible live fresh r'"
| "row_evolves live fresh (Some r) (Some r') = live\<^sup>*\<^sup>* r r'"
| "row_evolves live fresh (Some r) None = False"

definition rows_R ::
  "(db \<Rightarrow> 'r list) \<Rightarrow> ('r \<Rightarrow> 'k) \<Rightarrow> ('r \<Rightarrow> 'r \<Rightarrow> bool) \<Rightarrow> ('r \<Rightarrow> bool) \<Rightarrow> db \<Rightarrow> db \<Rightarrow> bool" where
  "rows_R rows key live fresh d d' \<longleftrightarrow>
     (\<forall>k. row_evolves live fresh (row_of key (rows d) k) (row_of key (rows d') k))"

lemma row_evolves_refl: "row_evolves live fresh x x"
  by (cases x) auto

lemma row_evolves_trans:
  assumes "row_evolves live fresh x y" "row_evolves live fresh y z"
  shows "row_evolves live fresh x z"
  using assms by (cases x; cases y; cases z) (auto simp: row_possible_def intro: rtranclp_trans)

lemma rows_R_evolution: "evolution (rows_R rows key live fresh)"
proof
  show "rows_R rows key live fresh d d" for d by (simp add: rows_R_def row_evolves_refl)
  show "rows_R rows key live fresh d d''"
    if "rows_R rows key live fresh d d'" "rows_R rows key live fresh d' d''" for d d' d''
    using that unfolding rows_R_def by (blast intro: row_evolves_trans)
qed

lemma rows_R_same: "rows d' = rows d \<Longrightarrow> rows_R rows key live fresh d d'"
  by (simp add: rows_R_def row_evolves_refl)

lemma row_of_snoc:
  "row_of key (rows @ [r]) k = (case row_of key rows k of None \<Rightarrow> if key r = k then Some r else None | x \<Rightarrow> x)"
  unfolding row_of_def by (induction rows) auto

lemma rows_R_insert:
  assumes "rows d' = rows d @ [r]" "fresh r"
  shows "rows_R rows key live fresh d d'"
  using assms
  by (auto simp: rows_R_def row_of_snoc row_evolves_refl row_possible_def split: option.split intro: rtranclp.rtrancl_refl)

text \<open>An update of some rows: the first row of each key decides.\<close>

lemma row_of_update:
  assumes "\<And>r. key (f r) = key r"
  shows "row_of key (update_where P f rows) k = map_option (\<lambda>r. if P r then f r else r) (row_of key rows k)"
proof -
  have "key (if P r then f r else r) = key r" for r using assms by simp
  then show ?thesis unfolding row_of_def update_where_def by (induction rows) auto
qed

lemma rows_R_update:
  assumes "rows d' = update_where P f (rows d)" "\<And>r. key (f r) = key r"
    and "\<And>r. row_of key (rows d) (key r) = Some r \<Longrightarrow> P r \<Longrightarrow> live r (f r)"
  shows "rows_R rows key live fresh d d'"
proof -
  have "row_evolves live fresh (row_of key (rows d) k) (row_of key (rows d') k)" for k
  proof (cases "row_of key (rows d) k")
    case None
    then show ?thesis using assms(1,2) by (simp add: row_of_update)
  next
    case (Some r)
    then have "key r = k" by (auto simp: row_of_def find_Some_iff)
    then show ?thesis using Some assms by (auto simp: row_of_update)
  qed
  then show ?thesis by (simp add: rows_R_def)
qed

lemma row_of_key: "row_of key rows k = Some r \<Longrightarrow> key r = k \<and> r \<in> set rows"
  by (auto simp: row_of_def find_Some_iff)

lemma one_row_row_of: "one_row (filter (\<lambda>r. key r = k) rows) = Inr r \<longleftrightarrow> row_of key rows k = Some r"
  unfolding row_of_def by (induction rows) (auto simp: one_row_def)

text \<open>What stays of a row along steps.\<close>

lemma live_invariant:
  assumes "live\<^sup>*\<^sup>* r r'" "I r" "\<And>r r'. live r r' \<Longrightarrow> I r \<Longrightarrow> I r'"
  shows "I r'"
  using assms(1,2) by (induction rule: rtranclp_induct) (auto intro: assms(3))

lemma rows_R_SomeD:
  assumes "rows_R rows key live fresh d d'" "row_of key (rows d) k = Some r"
  shows "\<exists>r'. row_of key (rows d') k = Some r' \<and> live\<^sup>*\<^sup>* r r'"
  using assms by (cases "row_of key (rows d') k") (auto simp: rows_R_def dest: spec [of _ k])

section \<open>Operations that leave a table alone\<close>

definition same :: "(db \<Rightarrow> 'a) \<Rightarrow> db \<Rightarrow> db \<Rightarrow> bool" where
  "same f d d' \<longleftrightarrow> f d' = f d"

lemma same_evolution: "evolution (same f)"
  by unfold_locales (simp_all add: same_def)

lemma keeps_query: "(\<And>t d. R d (snd (q t d))) \<Longrightarrow> (\<And>d. R d d) \<Longrightarrow> keeps R (query E q)"
  unfolding keeps_def query_def by (auto split: prod.splits sum.splits) (metis snd_conv)

lemma keeps_pool_query:
  assumes "evolution R" "rely R E" "\<And>t d. R d (snd (q t d))"
  shows "keeps R (pool_query E q)"
proof -
  have q: "keeps R (query E q)"
    using assms(3) evolution.R_refl [OF assms(1)] by (rule keeps_query)
  have "R (w_db w) (w_db (snd (query E q (interfere E w))))" for w
    using evolution.R_trans [OF assms(1) evolution.R_interfere [OF assms(1,2)]] q
    by (simp add: keeps_def)
  then show ?thesis by (simp add: keeps_def pool_query_def)
qed

lemma keeps_sameD: "keeps (same f) m \<Longrightarrow> m w = (r, w') \<Longrightarrow> f (w_db w') = f (w_db w)"
  unfolding keeps_def same_def by (metis snd_conv)

lemma commits_rowsI:
  "(\<And>w x w'. body w = (Inr x, w') \<Longrightarrow> R (w_db w) (w_db w')) \<Longrightarrow> commits R body"
  by (auto simp: commits_def)

lemma keeps_commits: "keeps R m \<Longrightarrow> commits R m"
  unfolding keeps_def commits_def by (metis snd_conv)

section \<open>Bodies of transactions, composed\<close>

context evolution
begin

lemma commits_seq: "commits R m \<Longrightarrow> (\<And>x. commits R (f x)) \<Longrightarrow> commits R (seq m f)"
  unfolding commits_def seq_Inr by (meson R_trans)

lemma commits_recover: "keeps R m \<Longrightarrow> (\<And>r. commits R (f r)) \<Longrightarrow> commits R (recover m f)"
  unfolding commits_def keeps_def recover_Inr by (metis R_trans snd_conv)

lemma commits_fail: "commits R (fail e)"
  by (simp add: commits_def)

lemma commits_query: "(\<And>t d. R d (snd (q t d))) \<Longrightarrow> commits R (query E q)"
  using keeps_query [OF _ R_refl] by (rule keeps_commits)

lemma commits_read: "commits R (query E (read f))"
  by (rule keeps_commits [OF keeps_read_query])

lemmas commits_basic =
  keeps_ok [THEN keeps_commits] commits_fail keeps_lift [THEN keeps_commits] keeps_guard [THEN keeps_commits]
  keeps_check [THEN keeps_commits] keeps_clock [THEN keeps_commits] keeps_uuid [THEN keeps_commits] commits_read

lemmas commits_intros = commits_basic commits_seq commits_recover keeps_read_query

end

end
