(* ===== verification/Grant_Barrier.thy ===== *)
theory Grant_Barrier
  imports App_Grants Rows
begin

text \<open>
  The state machine of a grant row and that every operation of \<open>App_Grants\<close> stays inside it, under
  any failure and interference: no grant is deleted, its terms never change, a pending grant becomes
  active or failed, an active one expires, any grant that is not being revoked can start revoking,
  and a revoking one becomes revoked, never anything else.
\<close>

section \<open>The machine of a grant row\<close>

definition grant_edge :: "GrantState \<Rightarrow> GrantState \<Rightarrow> bool" where
  "grant_edge s s' \<longleftrightarrow>
     s' = s \<or> (s = GrantPending \<and> s' \<in> {GrantActive, GrantRegistrationFailed})
     \<or> (s = GrantActive \<and> s' = GrantExpired)
     \<or> (s \<notin> {GrantRevoking, GrantRevoked} \<and> s' = GrantRevoking)
     \<or> (s = GrantRevoking \<and> s' = GrantRevoked)"

text \<open>The terms of a grant: everything but the columns of the barrier.\<close>

definition grant_terms :: "GrantRow \<Rightarrow> GrantRow" where
  "grant_terms r =
     r\<lparr>gw_State := GrantPending, gw_ControlReceiptID := None, gw_PolicyEpoch := None,
       gw_FailureCode := None, gw_RevocationCommandID := None, gw_FencedAt := None,
       gw_InFlightCalls := 0, gw_UnknownCalls := 0, gw_ControlState := [], gw_RevokedAt := None,
       gw_UpdatedAt := None\<rparr>"

definition grant_wf :: "GrantRow \<Rightarrow> bool" where
  "grant_wf r \<longleftrightarrow>
     (gw_State r \<in> {GrantRevoking, GrantRevoked} \<longrightarrow>
        gw_RevocationCommandID r = Some (revocation_command (GrantFromRow r)))
     \<and> (gw_State r = GrantRevoked \<longrightarrow> gw_ControlState r = ''converged'')
     \<and> (gw_ControlState r \<noteq> ''none'' \<longrightarrow> gw_State r \<in> {GrantRevoking, GrantRevoked})
     \<and> (gw_State r = GrantPending \<longrightarrow> gw_ControlReceiptID r = None)"

definition grant_live :: "GrantRow \<Rightarrow> GrantRow \<Rightarrow> bool" where
  "grant_live r r' \<longleftrightarrow> grant_terms r' = grant_terms r \<and> grant_edge (gw_State r) (gw_State r')
     \<and> (grant_wf r \<longrightarrow> grant_wf r')"

definition grant_fresh :: "GrantRow \<Rightarrow> bool" where
  "grant_fresh r \<longleftrightarrow> gw_State r = GrantPending \<and> grant_wf r"

abbreviation grants_R :: "db \<Rightarrow> db \<Rightarrow> bool" where
  "grants_R \<equiv> rows_R db_grants gw_GrantID grant_live grant_fresh"

abbreviation grant_at :: "db \<Rightarrow> string \<Rightarrow> GrantRow option" where
  "grant_at d \<equiv> row_of gw_GrantID (db_grants d)"

interpretation grants: evolution grants_R
  by (rule rows_R_evolution)

interpretation same_grants: evolution "same db_grants"
  by (rule same_evolution)

lemma same_grants_R: "db_grants d' = db_grants d \<Longrightarrow> grants_R d d'"
  by (rule rows_R_same)

section \<open>Statements\<close>

lemma lock_grant_Inr:
  assumes "lock_grant E grantID w = (Inr cur, w')"
  shows "w_db w' = w_db w \<and> (\<exists>row. grant_at (w_db w) grantID = Some row \<and> cur = GrantFromRow row)"
  using assms
  by (auto simp: lock_grant_def recover_Inr found_def GetGrantForUpdate_def query_read_Inr one_row_row_of)

lemma barrier_row_id [simp]: "gw_GrantID (barrier_row p t r) = gw_GrantID r"
  by (simp add: barrier_row_def)

lemma grant_terms_barrier [simp]: "grant_terms (barrier_row p t r) = grant_terms r"
  by (simp add: grant_terms_def barrier_row_def)

lemma update_grant_R:
  assumes "update_grant E next s w = (Inr u, w')" "grant_at (w_db w) (g_GrantID next) = Some row"
    and "s = gw_State row" "\<And>t. grant_live row (barrier_row (BarrierParams next s) t row)"
  shows "grants_R (w_db w) (w_db w')"
proof -
  obtain t where d: "db_grants (w_db w') = update_where
      (\<lambda>r. gw_GrantID r = g_GrantID next \<and> gw_State r = s) (barrier_row (BarrierParams next s) t) (db_grants (w_db w))"
    using assms(1)
    by (auto simp: update_grant_def seq_Inr query_Inr UpdateGrantBarrier_def Let_def BarrierParams_def)
  show ?thesis
  proof (rule rows_R_update [OF d])
    fix r assume "grant_at (w_db w) (gw_GrantID r) = Some r" "gw_GrantID r = g_GrantID next \<and> gw_State r = s"
    then have "r = row" using assms(2) by simp
    then show "grant_live r (barrier_row (BarrierParams next s) t r)" using assms(4) by simp
  qed simp
qed

lemma update_grant_row:
  assumes "update_grant E next s w = (Inr u, w')" "grant_at (w_db w) (g_GrantID next) = Some row" "s = gw_State row"
  obtains t where "grant_at (w_db w') (g_GrantID next) = Some (barrier_row (BarrierParams next s) t row)"
proof -
  obtain t where d: "db_grants (w_db w') = update_where
      (\<lambda>r. gw_GrantID r = g_GrantID next \<and> gw_State r = s) (barrier_row (BarrierParams next s) t) (db_grants (w_db w))"
    using assms(1)
    by (auto simp: update_grant_def seq_Inr query_Inr UpdateGrantBarrier_def Let_def BarrierParams_def)
  show thesis using that [of t] assms(2,3) row_of_key [OF assms(2)] by (simp add: d row_of_update)
qed

lemma keeps_decide: "keeps (same db_grants) (decide E gr decision decider reason c rd)"
  unfolding decide_def InsertGrantDecision_def
  by (rule keeps_query) (auto simp: insert_row_table same_def)

lemma keeps_Publish: "keeps (same db_grants) (Publish E ev)"
  unfolding Publish_def by (rule keeps_query) (auto simp: same_def)

lemma keeps_nextEventRevision: "keeps (same db_grants) (nextEventRevision E ty i)"
  unfolding nextEventRevision_def NextEventRevision_def
  by (intro same_grants.keeps_intros keeps_query) (auto simp: same_def Let_def split: option.splits)

lemma keeps_publish_revoked: "keeps (same db_grants) (publish_revoked E next c at)"
  unfolding publish_revoked_def
  by (intro same_grants.keeps_intros keeps_nextEventRevision keeps_Publish)

section \<open>Steps of a row\<close>

lemma GrantFromRow_sel [simp]:
  "g_State (GrantFromRow r) = gw_State r" "g_GrantID (GrantFromRow r) = gw_GrantID r"
  "g_ControlState (GrantFromRow r) = gw_ControlState r" "g_Revision (GrantFromRow r) = uint64 (gw_Revision r)"
  "g_RevocationCmdID (GrantFromRow r) = str (gw_RevocationCommandID r)"
  by (simp_all add: GrantFromRow_def)

text \<open>The columns a barrier update writes, of a grant read from the row itself.\<close>

lemma barrier_row_sel:
  "gw_State (barrier_row (BarrierParams next s) t r) = g_State next"
  "gw_RevocationCommandID (barrier_row (BarrierParams next s) t r) = optStr (g_RevocationCmdID next)"
  "gw_ControlState (barrier_row (BarrierParams next s) t r) = g_ControlState next"
  "gw_ControlReceiptID (barrier_row (BarrierParams next s) t r) = optStr (g_ControlReceiptID next)"
  "revocation_command (GrantFromRow (barrier_row (BarrierParams next s) t r)) = revocation_command (GrantFromRow r)"
  by (simp_all add: barrier_row_def BarrierParams_def revocation_command_def)

lemma optStr_str [simp]: "x \<noteq> [] \<Longrightarrow> optStr (str (Some x)) = Some x"
  by (simp add: optStr_def str_def)

lemma revocation_command_nonempty [simp]: "revocation_command g \<noteq> []"
  by (simp add: revocation_command_def)

lemmas grant_step_defs = grant_live_def grant_edge_def grant_wf_def barrier_row_sel

lemma live_activated:
  "gw_State row = GrantPending \<Longrightarrow>
   grant_live row (barrier_row (BarrierParams (activated (GrantFromRow row) receipt epoch) s) t row)"
  by (auto simp: grant_step_defs activated_def)

lemma live_failed:
  "gw_State row = GrantPending \<Longrightarrow>
   grant_live row (barrier_row (BarrierParams (registration_failed (GrantFromRow row)) s) t row)"
  by (auto simp: grant_step_defs registration_failed_def)

lemma live_uncertain:
  "gw_State row = GrantPending \<Longrightarrow>
   grant_live row (barrier_row (BarrierParams ((GrantFromRow row)\<lparr>g_FailureCode := c\<rparr>) s) t row)"
  by (auto simp: grant_step_defs) (simp add: GrantFromRow_def optStr_def str_def)

lemma live_revoking:
  "gw_State row \<notin> {GrantRevoking, GrantRevoked} \<Longrightarrow>
   grant_live row (barrier_row (BarrierParams (revoking (GrantFromRow row) reason) s) t row)"
  by (auto simp: grant_step_defs revoking_def optStr_def)

lemma live_expired:
  "gw_State row = GrantActive \<Longrightarrow>
   grant_live row (barrier_row (BarrierParams ((GrantFromRow row)\<lparr>g_State := GrantExpired\<rparr>) s) t row)"
  by (auto simp: grant_step_defs)

lemma live_barrier:
  "gw_State row = GrantRevoking \<Longrightarrow>
   grant_live row (barrier_row (BarrierParams (barrier_read (GrantFromRow row) b) s) t row)"
  by (auto simp: grant_step_defs barrier_read_def)

lemma live_revoked:
  "gw_State row = GrantRevoking \<Longrightarrow> ba_State b = ''converged'' \<Longrightarrow>
   grant_live row (barrier_row (BarrierParams
     (revoked (GrantFromRow row) b at) s) t row)"
  by (auto simp: grant_step_defs barrier_read_def revoked_def)

lemma settled_id [simp]:
  "g_GrantID (activated c r e) = g_GrantID c" "g_GrantID (registration_failed c) = g_GrantID c"
  "g_GrantID (revoking c reason) = g_GrantID c" "g_GrantID (barrier_read c b) = g_GrantID c"
  "g_GrantID (revoked c b at) = g_GrantID c"
  by (simp_all add: activated_def registration_failed_def revoking_def barrier_read_def revoked_def)

section \<open>The transactions\<close>

lemma grants_R_step:
  assumes "w_db w1 = w_db w" "db_grants (w_db w2) = db_grants (w_db w1)" "grants_R (w_db w2) (w_db w3)"
    "db_grants (w_db w') = db_grants (w_db w3)"
  shows "grants_R (w_db w) (w_db w')"
  using assms by (simp add: rows_R_def)

lemma revokeLocked_R:
  assumes "revokeLocked E (GrantFromRow row) c rd decider reason w = (Inr u, w')"
    "grant_at (w_db w) (gw_GrantID row) = Some row" "gw_State row \<notin> {GrantRevoking, GrantRevoked}"
  shows "grants_R (w_db w) (w_db w')"
proof -
  obtain w1 w2 r w3 eventID at where
    1: "update_grant E (revoking (GrantFromRow row) reason) (gw_State row) w = (Inr (), w1)"
    and 2: "decide E (revoking (GrantFromRow row) reason) ''revoke'' decider reason c rd w1 = (Inr (), w2)"
    and 3: "nextEventRevision E AggregateGrant (gw_GrantID row) w2 = (Inr r, w3)"
    and 4: "Publish E (GrantRevokedEvent eventID (revoking (GrantFromRow row) reason) r c at) (tick (tick w3)) = (Inr u, w')"
    using assms(1) by (auto simp: revokeLocked_def seq_Inr)
  have "grants_R (w_db w) (w_db w1)"
    using assms(2,3) by (intro update_grant_R [OF 1]) (auto intro: live_revoking)
  then show ?thesis
    using grants_R_step [OF refl refl] keeps_sameD [OF keeps_decide 2]
      keeps_sameD [OF keeps_nextEventRevision 3] keeps_sameD [OF keeps_Publish 4] by simp
qed

lemma revokeIn_commits: "commits grants_R (revokeIn E grantID c label decider reason)"
proof (rule commits_rowsI)
  fix w x w'
  assume b: "revokeIn E grantID c label decider reason w = (Inr x, w')"
  obtain cur w1 where 1: "lock_grant E grantID w = (Inr cur, w1)"
    and rest: "(if g_State cur = GrantRevoking \<or> g_State cur = GrantRevoked then ok ()
       else revokeLocked E cur (c @ '':'' @ grantID) (DigestBytes (label @ [CHR 0x00] @ grantID)) decider reason) w1
       = (Inr x, w')"
    using b unfolding revokeIn_def seq_Inr by auto
  obtain row where row: "grant_at (w_db w) grantID = Some row" "cur = GrantFromRow row" and w1: "w_db w1 = w_db w"
    using lock_grant_Inr [OF 1] by auto
  then show "grants_R (w_db w) (w_db w')"
    using rest revokeLocked_R [of E row _ _ _ _ w1 x w'] row_of_key [OF row(1)]
    by (auto split: if_splits intro: same_grants_R)
qed

lemma revoke_commits: "commits grants_R (revoke_body E cmd scope grantID rev' reason)"
proof (rule commits_rowsI)
  fix w x w'
  assume b: "revoke_body E cmd scope grantID rev' reason w = (Inr x, w')"
  obtain cur w1 where 1: "lock_grant E grantID w = (Inr cur, w1)"
    and rest: "(if g_State cur = GrantRevoking \<or> g_State cur = GrantRevoked then
       seq (decide E cur ''revoke'' (sc_ActorID scope) reason (cmd_CommandID cmd) (cmd_RequestDigest cmd)) (\<lambda>_.
       ok True)
     else
       seq (revokeLocked E cur (cmd_CommandID cmd) (cmd_RequestDigest cmd) (sc_ActorID scope) reason) (\<lambda>_.
       ok False)) w1 = (Inr x, w')"
    using b unfolding revoke_body_def seq_Inr by (auto split: if_splits)
  obtain row where row: "grant_at (w_db w) grantID = Some row" "cur = GrantFromRow row" and w1: "w_db w1 = w_db w"
    using lock_grant_Inr [OF 1] by auto
  show "grants_R (w_db w) (w_db w')"
  proof (cases "gw_State row \<in> {GrantRevoking, GrantRevoked}")
    case True
    then show ?thesis
      using rest row w1 keeps_sameD [OF keeps_decide, of E cur _ _ _ _ _ w1] by (force simp: seq_Inr intro: same_grants_R)
  next
    case False
    then obtain u where "revokeLocked E cur (cmd_CommandID cmd) (cmd_RequestDigest cmd) (sc_ActorID scope) reason w1 = (Inr u, w')"
      using rest row by (auto simp: seq_Inr)
    then show ?thesis using revokeLocked_R [of E row _ _ _ _ w1 u w'] row w1 row_of_key [OF row(1)] False by auto
  qed
qed

lemma settle_registration_Inr:
  assumes "settle_registration E cur answer w = (Inr nxt, w')"
  shows "db_grants (w_db w') = db_grants (w_db w) \<and>
    ((\<exists>r e. nxt = activated cur r e) \<or> nxt = registration_failed cur
     \<or> nxt = cur\<lparr>g_FailureCode := ''REGISTRATION_UNCERTAIN''\<rparr>)"
  using assms keeps_sameD [OF keeps_decide]
  by (fastforce simp: settle_registration_def seq_Inr split: sum.splits prod.splits if_splits)

lemma register_commits: "commits grants_R (register_body E grantID answer)"
proof (rule commits_rowsI)
  fix w x w'
  assume b: "register_body E grantID answer w = (Inr x, w')"
  obtain cur w1 where 1: "lock_grant E grantID w = (Inr cur, w1)" using b by (auto simp: register_body_def seq_Inr)
  obtain row where row: "grant_at (w_db w) grantID = Some row" "cur = GrantFromRow row" and w1: "w_db w1 = w_db w"
    using lock_grant_Inr [OF 1] by auto
  show "grants_R (w_db w) (w_db w')"
  proof (cases "gw_State row = GrantPending")
    case False
    then show ?thesis using b 1 row w1 by (auto simp: register_body_def seq_Inr intro: same_grants_R)
  next
    case True
    obtain nxt w2 where 2: "settle_registration E cur answer w1 = (Inr nxt, w2)"
      and 3: "update_grant E nxt (gw_State row) w2 = (Inr (), w')"
      using b 1 row True by (auto simp: register_body_def seq_Inr)
    note S = settle_registration_Inr [OF 2]
    have "grant_live row (barrier_row (BarrierParams nxt (gw_State row)) t row)" and "g_GrantID nxt = grantID" for t
      using S row True row_of_key [OF row(1)] by (auto intro: live_activated live_failed live_uncertain)
    then have "grants_R (w_db w2) (w_db w')"
      using update_grant_R [OF 3] row S w1 by auto
    then show ?thesis using grants_R_step [of w w w2 w' w'] S w1 by simp
  qed
qed

lemma settle_revocation_Inr:
  assumes "settle_revocation E cur b n w = (Inr nxt, w')"
  shows "db_grants (w_db w') = db_grants (w_db w) \<and>
    (nxt = barrier_read cur b \<or> (ba_State b = ''converged'' \<and> n = 0 \<and> (\<exists>at. nxt = revoked cur b at)))"
  using assms keeps_sameD [OF keeps_decide] keeps_sameD [OF keeps_publish_revoked]
  by (fastforce simp: settle_revocation_def seq_Inr split: if_splits)

lemma keeps_milestones: "keeps (same db_grants) (revocationMilestones E cur nxt)"
  unfolding revocationMilestones_def Let_def GetRevocationRequest_def
  by (auto intro!: same_grants.keeps_intros keeps_query simp: same_def split: prod.split option.split)

lemma advance_commits: "commits grants_R (advance_body E grantID b n)"
proof (rule commits_rowsI)
  fix w x w'
  assume a: "advance_body E grantID b n w = (Inr x, w')"
  obtain cur w1 where 1: "lock_grant E grantID w = (Inr cur, w1)" using a by (auto simp: advance_body_def seq_Inr)
  obtain row where row: "grant_at (w_db w) grantID = Some row" "cur = GrantFromRow row" and w1: "w_db w1 = w_db w"
    using lock_grant_Inr [OF 1] by auto
  show "grants_R (w_db w) (w_db w')"
  proof (cases "gw_State row = GrantRevoking")
    case False
    then show ?thesis using a 1 row w1 by (auto simp: advance_body_def seq_Inr intro: same_grants_R)
  next
    case True
    obtain nxt w2 w3 ms where 2: "settle_revocation E cur b n w1 = (Inr nxt, w2)"
      and 3: "update_grant E nxt (gw_State row) w2 = (Inr (), w3)"
      and 4: "revocationMilestones E cur nxt w3 = (Inr ms, w')"
      using a 1 row True by (auto simp: advance_body_def seq_Inr)
    note S = settle_revocation_Inr [OF 2]
    have "grant_live row (barrier_row (BarrierParams nxt (gw_State row)) t row)" and "g_GrantID nxt = grantID" for t
      using S row True row_of_key [OF row(1)] by (auto intro: live_barrier live_revoked)
    then have "grants_R (w_db w2) (w_db w3)"
      using update_grant_R [OF 3] row S w1 by auto
    then show ?thesis using grants_R_step [of w w w2 w3 w'] S w1 keeps_sameD [OF keeps_milestones 4] by simp
  qed
qed

lemma expire_commits_grant: "commits grants_R (expire_body_grant E grantID)"
proof (rule commits_rowsI)
  fix w x w'
  assume a: "expire_body_grant E grantID w = (Inr x, w')"
  obtain cur w1 where 1: "lock_grant E grantID w = (Inr cur, w1)" using a by (auto simp: expire_body_grant_def seq_Inr)
  obtain row where row: "grant_at (w_db w) grantID = Some row" "cur = GrantFromRow row" and w1: "w_db w1 = w_db w"
    using lock_grant_Inr [OF 1] by auto
  consider (same) "w_db w' = w_db w1"
    | (expired) c rd u w2 w2' where "decide E (cur\<lparr>g_State := GrantExpired\<rparr>) ''expire'' Owner ''EXPIRED'' c rd w2 = (Inr u, w2')"
      "w_db w2 = w_db w1" "update_grant E (cur\<lparr>g_State := GrantExpired\<rparr>) (gw_State row) w2' = (Inr x, w')" "gw_State row = GrantActive"
    using a 1 row by (auto simp: expire_body_grant_def seq_Inr split: if_splits option.splits)
  then show "grants_R (w_db w) (w_db w')"
  proof cases
    case same
    then show ?thesis using w1 by (simp add: same_grants_R)
  next
    case expired
    have "db_grants (w_db w2') = db_grants (w_db w)"
      using keeps_sameD [OF keeps_decide expired(1)] expired(2) w1 by simp
    moreover from this have "grants_R (w_db w2') (w_db w')"
      using row row_of_key [OF row(1)] expired(4)
      by (intro update_grant_R [OF expired(3)]) (auto intro: live_expired)
    ultimately show ?thesis using grants_R_step [of w w w2' w' w'] by simp
  qed
qed

lemma create_commits: "commits grants_R (create_body E cmd scope req)"
proof (rule commits_rowsI)
  fix w x w'
  assume a: "create_body E cmd scope req w = (Inr x, w')"
  obtain s w1 d w2 at new w3 w4 where
    1: "own_server E scope (gr_ServerID req) w = (Inr s, w1)"
    and 2: "locked_descriptor E s (gr_ServerID req) (gr_DescriptorRev req) w1 = (Inr d, w2)"
    and n: "NewGrant (sc_TenantID scope) (sc_ProjectID scope) req d at = Inr new"
    and 3: "query E (InsertGrant (e_schema E) (grant_row (created_grant cmd new) cmd)) w3 = (Inr (), w4)"
    and 4: "decide E (created_grant cmd new) ''create'' (sc_ActorID scope) [] (cmd_CommandID cmd) (cmd_RequestDigest cmd) w4 = (Inr (), w')"
    and w3: "w_db w3 = w_db w2"
    using a unfolding create_body_def Let_def seq_Inr by auto
  have w2: "w_db w2 = w_db w"
    using 1 2 by (auto simp: own_server_def locked_descriptor_def recover_Inr GetServer_def
        GetDescriptorForUpdate_def query_read_Inr split: if_splits)
  have st: "g_State new = GrantPending" using n by (auto simp: NewGrant_Inr_iff bound_grant_def Let_def)
  have "grants_R (w_db w3) (w_db w4)"
    using 3 st unfolding query_Inr InsertGrant_def insert_row_table
    by (auto split: if_splits intro!: rows_R_insert
        simp: grant_fresh_def grant_wf_def grant_row_def created_grant_def Let_def)
  then show "grants_R (w_db w) (w_db w')"
    using grants_R_step [of w w w3 w4 w'] w2 w3 keeps_sameD [OF keeps_decide 4] by simp
qed

section \<open>The operations\<close>

lemmas pool_reads =
  GetGrant_def GetGrantByCommand_def GetGrantDecisionByCommand_def CountOpenToolRequests_def ListGrants_def
  ListExpiredGrants_def

lemma keeps_found: "keeps grants_R (found r)"
  unfolding found_def by (auto intro!: grants.keeps_intros split: sum.split)

lemma keeps_load: "rely grants_R E \<Longrightarrow> keeps grants_R (load_grant E grantID)"
  unfolding load_grant_def pool_reads by (intro grants.keeps_intros keeps_found)

lemma keeps_register: "rely grants_R E \<Longrightarrow> keeps grants_R (register E svc grantID)"
  unfolding register_def
  by (auto intro!: grants.keeps_intros keeps_load register_commits split: sum.split)

lemma keeps_advance: "rely grants_R E \<Longrightarrow> keeps grants_R (advance E svc grantID)"
  unfolding advance_def pool_reads
  by (auto intro!: grants.keeps_intros keeps_load keeps_register advance_commits split: sum.split)

lemma keeps_advance_or_load: "rely grants_R E \<Longrightarrow> keeps grants_R (advance_or_load E svc grantID)"
  unfolding advance_or_load_def
  by (auto intro!: grants.keeps_intros keeps_advance keeps_load split: sum.split)

lemma keeps_checks: "keeps grants_R (checkCommand cmd scope)" "keeps grants_R (Require a t x act)"
  unfolding checkCommand_def Require_def by (rule grants.keeps_guard)+

lemma keeps_replay: "rely grants_R E \<Longrightarrow> keeps grants_R (replay_create E svc cmd)"
  unfolding replay_create_def pool_reads
  by (auto intro!: grants.keeps_intros keeps_register split: sum.split)

lemma keeps_Create: "rely grants_R E \<Longrightarrow> keeps grants_R (Create E svc cmd scope req)"
  unfolding Create_def
  by (auto intro!: grants.keeps_intros keeps_checks keeps_replay create_commits keeps_register keeps_load
      split: sum.split option.split)

lemma keeps_Revoke: "rely grants_R E \<Longrightarrow> keeps grants_R (Revoke E svc cmd scope grantID rev' reason)"
  unfolding Revoke_def pool_reads
  by (auto intro!: grants.keeps_intros keeps_checks revoke_commits keeps_advance_or_load split: sum.split)

lemma keeps_Get_grant: "rely grants_R E \<Longrightarrow> keeps grants_R (Get_grant E svc scope grantID)"
  unfolding Get_grant_def by (auto intro!: grants.keeps_intros keeps_load)

lemma keeps_Progress: "rely grants_R E \<Longrightarrow> keeps grants_R (Progress_grant E svc scope grantID)"
  unfolding Progress_grant_def pool_reads by (intro grants.keeps_intros keeps_Get_grant)

lemma keeps_List: "rely grants_R E \<Longrightarrow> keeps grants_R (List_grants E svc scope state cursor limit)"
  unfolding List_grants_def Let_def pool_reads by (auto intro!: grants.keeps_intros split: option.split)

lemma keeps_reconcile_all: "rely grants_R E \<Longrightarrow> keeps grants_R (reconcile_all E svc ids n)"
proof (induction ids arbitrary: n)
  case (Cons i ids)
  then show ?case
    by (auto simp: reconcile_one_def intro!: grants.keeps_intros keeps_load keeps_advance split: sum.split)
qed (simp add: grants.keeps_ok)

lemma keeps_expire_all: "rely grants_R E \<Longrightarrow> keeps grants_R (expire_all E ids n)"
  by (induction ids arbitrary: n) (auto intro!: grants.keeps_intros expire_commits_grant)

lemma keeps_Reconcile: "rely grants_R E \<Longrightarrow> keeps grants_R (Reconcile_grants E svc age limit)"
  unfolding Reconcile_grants_def ListExpiredGrants_def ListOpenBarriers_def
  by (intro grants.keeps_intros keeps_reconcile_all keeps_expire_all keeps_pool_query grants.evolution_axioms)
    (auto simp: grants.R_refl)

section \<open>Runs\<close>

datatype grant_call =
    DoCreate Command Scope GrantRequest
  | DoRevoke Command Scope string u64 string
  | DoGetGrant Scope string
  | DoProgress Scope string
  | DoListGrants Scope string string int
  | DoReconcileGrants duration int

fun run_grant :: "env \<Rightarrow> Grants \<Rightarrow> grant_call \<Rightarrow> world \<Rightarrow> world" where
  "run_grant E svc (DoCreate cmd scope req) w = snd (Create E svc cmd scope req w)"
| "run_grant E svc (DoRevoke cmd scope i n reason) w = snd (Revoke E svc cmd scope i n reason w)"
| "run_grant E svc (DoGetGrant scope i) w = snd (Get_grant E svc scope i w)"
| "run_grant E svc (DoProgress scope i) w = snd (Progress_grant E svc scope i w)"
| "run_grant E svc (DoListGrants scope state cursor n) w = snd (List_grants E svc scope state cursor n w)"
| "run_grant E svc (DoReconcileGrants age n) w = snd (Reconcile_grants E svc age n w)"

lemma run_grant_R: "rely grants_R E \<Longrightarrow> grants_R (w_db w) (w_db (run_grant E svc c w))"
  using keeps_Create keeps_Revoke keeps_Get_grant keeps_Progress keeps_List keeps_Reconcile
  by (cases c) (simp_all add: keeps_def)

lemma run_grants_R: "rely grants_R E \<Longrightarrow> grants_R (w_db w) (w_db (fold (run_grant E svc) calls w))"
proof (induction calls arbitrary: w)
  case (Cons c calls)
  show ?case using grants.R_trans [OF run_grant_R [OF Cons.prems] Cons.IH [OF Cons.prems]] by simp
qed (simp add: grants.R_refl)

definition grant_progress :: "GrantState \<Rightarrow> GrantState \<Rightarrow> bool" where
  "grant_progress s s' \<longleftrightarrow>
     (s = GrantRevoked \<longrightarrow> s' = GrantRevoked)
     \<and> (s = GrantRevoking \<longrightarrow> s' \<in> {GrantRevoking, GrantRevoked})
     \<and> (s' = GrantPending \<longrightarrow> s = GrantPending)
     \<and> (s' = GrantActive \<longrightarrow> s \<in> {GrantPending, GrantActive})"

lemma grant_progress_edge: "grant_progress s s' \<Longrightarrow> grant_edge s' s'' \<Longrightarrow> grant_progress s s''"
  by (cases s; cases s'; cases s'') (simp_all add: grant_progress_def grant_edge_def)

lemma grant_lives:
  assumes "grant_live\<^sup>*\<^sup>* r r'"
  shows "grant_terms r' = grant_terms r \<and> (grant_wf r \<longrightarrow> grant_wf r') \<and> grant_progress (gw_State r) (gw_State r')"
  using assms
proof (induction rule: rtranclp_induct)
  case base
  then show ?case by (simp add: grant_progress_def)
next
  case (step y z)
  then have "grant_edge (gw_State y) (gw_State z)" "grant_terms z = grant_terms y" "grant_wf y \<longrightarrow> grant_wf z"
    by (simp_all add: grant_live_def)
  with step.IH show ?case using grant_progress_edge by auto
qed

text \<open>The first revocation of a grant leaves it revoking or revoked.\<close>

definition fenced_grant :: "db \<Rightarrow> string \<Rightarrow> bool" where
  "fenced_grant d grantID \<longleftrightarrow>
     (\<exists>r. grant_at d grantID = Some r \<and> gw_State r \<in> {GrantRevoking, GrantRevoked})"

lemma fenced_grant_stays: "grants_R d d' \<Longrightarrow> fenced_grant d grantID \<Longrightarrow> fenced_grant d' grantID"
  unfolding fenced_grant_def
  by (fastforce dest!: rows_R_SomeD dest: grant_lives simp: grant_progress_def)

lemma revokeLocked_fences:
  assumes "revokeLocked E (GrantFromRow row) c rd decider reason w = (Inr u, w')"
    "grant_at (w_db w) (gw_GrantID row) = Some row"
  shows "fenced_grant (w_db w') (gw_GrantID row)"
proof -
  obtain w1 w2 r w3 eventID at where
    1: "update_grant E (revoking (GrantFromRow row) reason) (gw_State row) w = (Inr (), w1)"
    and 2: "decide E (revoking (GrantFromRow row) reason) ''revoke'' decider reason c rd w1 = (Inr (), w2)"
    and 3: "nextEventRevision E AggregateGrant (gw_GrantID row) w2 = (Inr r, w3)"
    and 4: "Publish E (GrantRevokedEvent eventID (revoking (GrantFromRow row) reason) r c at) (tick (tick w3)) = (Inr u, w')"
    using assms(1) by (auto simp: revokeLocked_def seq_Inr)
  obtain t where "grant_at (w_db w1) (gw_GrantID row)
      = Some (barrier_row (BarrierParams (revoking (GrantFromRow row) reason) (gw_State row)) t row)"
    using update_grant_row [OF 1] assms(2) by auto
  moreover have "db_grants (w_db w') = db_grants (w_db w1)"
    using keeps_sameD [OF keeps_decide 2] keeps_sameD [OF keeps_nextEventRevision 3]
      keeps_sameD [OF keeps_Publish 4] by simp
  ultimately show ?thesis by (simp add: fenced_grant_def barrier_row_sel revoking_def)
qed

lemma revoke_body_fences:
  assumes "revoke_body E cmd scope grantID n reason w = (Inr x, w')"
  shows "fenced_grant (w_db w') grantID"
proof -
  obtain cur w1 where 1: "lock_grant E grantID w = (Inr cur, w1)" using assms by (auto simp: revoke_body_def seq_Inr)
  obtain row where row: "grant_at (w_db w) grantID = Some row" "cur = GrantFromRow row" and w1: "w_db w1 = w_db w"
    using lock_grant_Inr [OF 1] by auto
  have id: "gw_GrantID row = grantID" using row_of_key [OF row(1)] by simp
  show ?thesis
  proof (cases "gw_State row \<in> {GrantRevoking, GrantRevoked}")
    case True
    then obtain u where "decide E cur ''revoke'' (sc_ActorID scope) reason (cmd_CommandID cmd) (cmd_RequestDigest cmd) w1 = (Inr u, w')"
      using assms 1 row by (auto simp: revoke_body_def seq_Inr split: if_splits)
    then have "db_grants (w_db w') = db_grants (w_db w)" using keeps_sameD [OF keeps_decide] w1 by auto
    then show ?thesis using True row by (simp add: fenced_grant_def)
  next
    case False
    then obtain u where "revokeLocked E cur (cmd_CommandID cmd) (cmd_RequestDigest cmd) (sc_ActorID scope) reason w1 = (Inr u, w')"
      using assms 1 row by (auto simp: revoke_body_def seq_Inr split: if_splits)
    then show ?thesis using revokeLocked_fences [of E row] row w1 id by auto
  qed
qed

section \<open>Properties\<close>

text \<open>
  C6. The barrier of a grant: along any sequence of grant operations (create, revoke, reads, the
  reconciliation pass), whatever fails and whatever other replicas do by the same rules, a recorded
  grant is never deleted and its terms never change; it becomes active only from pending; once
  revoking it is only ever revoking or revoked, and revoked is final; and its row keeps the shape of
  its state (a revoking or revoked grant carries its revocation command, a revoked one a converged
  barrier, and Control's barrier state is set only after the revocation committed).
\<close>
theorem grant_operations_keep_machine:
  assumes "rely grants_R E" "grant_at (w_db w) grantID = Some r"
  shows "\<exists>r'. grant_at (w_db (fold (run_grant E svc) calls w)) grantID = Some r'
    \<and> grant_terms r' = grant_terms r \<and> (grant_wf r \<longrightarrow> grant_wf r')
    \<and> grant_progress (gw_State r) (gw_State r')"
  using rows_R_SomeD [OF run_grants_R [OF assms(1)] assms(2)] grant_lives by blast

text \<open>
  C3. A revocation denies from its return: when \<open>Revoke\<close> answers for a command that no earlier
  decision recorded, the grant is revoking or revoked in the database from then on, even if Control
  never answered the barrier calls.
\<close>
theorem revoke_fences_grant:
  assumes "rely grants_R E" "Revoke E svc cmd scope grantID n reason w = (Inr x, w')"
    and "\<forall>d \<in> set (db_decisions (w_db (interfere E w))).
      \<not> (gd_TenantID d = cmd_TenantID cmd \<and> gd_CommandID d = cmd_CommandID cmd \<and> gd_Decision d = ''revoke'')"
  shows "fenced_grant (w_db (fold (run_grant E svc) calls w')) grantID"
proof -
  have none: "one_row (filter (\<lambda>r. gd_TenantID r = cmd_TenantID cmd \<and> gd_CommandID r = cmd_CommandID cmd
      \<and> gd_Decision r = ''revoke'') (db_decisions (w_db (interfere E w)))) = Inl (err ErrNoRows)"
    using assms(3) by (simp add: one_row_def filter_False)
  obtain w1 existing w2 gr where
    1: "InTx E (revoke_body E cmd scope grantID n reason) w1 = (Inr existing, w2)"
    and 2: "advance_or_load E svc grantID w2 = (Inr gr, w')"
    using assms(2) none
    by (auto simp: Revoke_def checkCommand_def Require_def seq_Inr recover_Inr pool_query_def
        GetGrantDecisionByCommand_def query_read_Inr split: if_splits)
  have "fenced_grant (w_db w2) grantID"
    using InTx_atomic(2) [OF 1 refl] revoke_body_fences by force
  moreover have "grants_R (w_db w2) (w_db w')"
    using keeps_advance_or_load [OF assms(1), of svc grantID] 2 unfolding keeps_def by (metis snd_conv)
  ultimately show ?thesis
    using fenced_grant_stays run_grants_R [OF assms(1)] by blast
qed

section \<open>Witnesses\<close>

definition silent_control :: PolicyRegistry where
  "silent_control =
     \<lparr>pr_Register = (\<lambda>_ _ _. Inl (err ErrOther)), pr_BeginRevocation = (\<lambda>_ _ _ _. Inl (err ErrOther)),
      pr_Revocation = (\<lambda>_ _ _. Inl (err ErrOther))\<rparr>"

definition sample_grants :: Grants where
  "sample_grants = \<lparr>gm_authz = Some sample_authz, gm_registry = silent_control\<rparr>"

definition bob :: Scope where
  "bob = \<lparr>sc_TenantID = ''ten'', sc_ProjectID = [], sc_ActorID = ''bob'', sc_Roles = []\<rparr>"

definition bob_command :: Command where
  "bob_command = \<lparr>cmd_TenantID = ''ten'', cmd_CommandID = ''c9'', cmd_ActorID = ''bob'', cmd_RequestDigest = ''d''\<rparr>"

definition grant_world :: world where
  "grant_world = \<lparr>w_db = empty_db\<lparr>db_grants := [sample_grant_row]\<rparr>, w_tick = 0, w_log = []\<rparr>"

lemma sample_rely_grants: "rely grants_R sample_env"
  by (simp add: rely_def sample_env_def grants.R_refl)

lemma bob_allowed: "Allowed (Some sample_authz) ''ten'' ''bob'' ActGrantRevoke"
proof -
  have "plain_actors sample_authz"
    by (simp add: plain_actors_def sample_authz_def sample_bindings_def binding_of_def role_names_def authz_names)
  then show ?thesis
    using allowed_by_binding [OF sample_authorizer rbac_enforce_casbin, of "''bob''" "''ten''" ActGrantRevoke]
    by (simp add: role_names_def authz_names sample_bindings_def authzPolicies_def)
qed

theorem grant_operations_keep_machine_witness:
  "\<exists>r'. grant_at (w_db (fold (run_grant sample_env sample_grants)
      [DoRevoke bob_command bob ''g1'' 1 [], DoReconcileGrants 0 10] grant_world)) ''g1'' = Some r'
    \<and> grant_terms r' = grant_terms sample_grant_row \<and> grant_progress GrantActive (gw_State r')"
  using grant_operations_keep_machine [OF sample_rely_grants, of grant_world "''g1''" sample_grant_row sample_grants
      "[DoRevoke bob_command bob ''g1'' 1 [], DoReconcileGrants 0 10]"]
  by (auto simp: grant_world_def row_of_def sample_grant_row_def)

lemma revoke_runs:
  "\<exists>x w'. Revoke sample_env sample_grants bob_command bob ''g1'' 1 [] grant_world = (Inr x, w')"
  using bob_allowed
  by (simp add: Revoke_def checkCommand_def Require_def bob_def bob_command_def sample_grants_def silent_control_def
      seq_def recover_def act_defs pool_query_def query_def interfere_def read_def sample_env_def sample_schema_def
      grant_world_def empty_db_def one_row_def GetGrantDecisionByCommand_def InTx_def Let_def revoke_body_def lock_grant_def
      found_def GetGrantForUpdate_def GrantFromRow_def sample_grant_row_def uint64_def revokeLocked_def update_grant_def
      UpdateGrantBarrier_def count_where_def BarrierParams_def revoking_def update_where_def decide_def
      InsertGrantDecision_def insert_row_table nextEventRevision_def NextEventRevision_def Publish_def
      advance_or_load_def advance_def load_grant_def GetGrant_def barrier_row_def str_def revocation_command_def optStr_def) blast

theorem revoke_fences_grant_witness:
  "\<exists>x w'. Revoke sample_env sample_grants bob_command bob ''g1'' 1 [] grant_world = (Inr x, w')
    \<and> fenced_grant (w_db (fold (run_grant sample_env sample_grants) [DoReconcileGrants 0 10] w')) ''g1''"
proof -
  obtain x w' where run: "Revoke sample_env sample_grants bob_command bob ''g1'' 1 [] grant_world = (Inr x, w')"
    using revoke_runs by blast
  have "\<forall>d \<in> set (db_decisions (w_db (interfere sample_env grant_world))).
      \<not> (gd_TenantID d = cmd_TenantID bob_command \<and> gd_CommandID d = cmd_CommandID bob_command \<and> gd_Decision d = ''revoke'')"
    by (simp add: interfere_def sample_env_def grant_world_def empty_db_def)
  from revoke_fences_grant [OF sample_rely_grants run this] run show ?thesis by blast
qed

end
