(* ===== verification/Catalog_Lifecycle.thy ===== *)
theory Catalog_Lifecycle
  imports App_Catalog Grant_Barrier
begin

text \<open>
  The lifecycle of a descriptor revision and that the catalog operations stay inside it: a revision
  is never deleted, what was discovered never changes, only a revision awaiting review is approved or
  rejected, by somebody who did not discover it, and a disabled revision stays disabled.  Disabling
  revokes every grant of the revision in the same transaction.
\<close>

section \<open>The machine of a descriptor row\<close>

definition descriptor_id :: "DescriptorRow \<Rightarrow> string \<times> int" where
  "descriptor_id r = (dr_ServerID r, dr_Revision r)"

definition descriptor_edge :: "CatalogState \<Rightarrow> CatalogState \<Rightarrow> bool" where
  "descriptor_edge s s' \<longleftrightarrow>
     s' = s \<or> (s = CatalogReviewPending \<and> s' \<in> {CatalogApproved, CatalogRejected}) \<or> s' = CatalogDisabled"

definition descriptor_terms :: "DescriptorRow \<Rightarrow> DescriptorRow" where
  "descriptor_terms r =
     r\<lparr>dr_State := CatalogReviewPending, dr_Reviewer := None, dr_ReviewID := None, dr_UpdatedAt := None\<rparr>"

definition four_eyes :: "DescriptorRow \<Rightarrow> bool" where
  "four_eyes r \<longleftrightarrow> (dr_State r \<in> {CatalogApproved, CatalogRejected} \<longrightarrow>
     (\<exists>reviewer. dr_Reviewer r = Some reviewer \<and> reviewer \<noteq> dr_DiscoveredBy r) \<and> dr_ReviewID r \<noteq> None)"

definition descriptor_live :: "DescriptorRow \<Rightarrow> DescriptorRow \<Rightarrow> bool" where
  "descriptor_live r r' \<longleftrightarrow> descriptor_terms r' = descriptor_terms r
     \<and> descriptor_edge (dr_State r) (dr_State r') \<and> (four_eyes r \<longrightarrow> four_eyes r')"

definition descriptor_fresh :: "DescriptorRow \<Rightarrow> bool" where
  "descriptor_fresh r \<longleftrightarrow> dr_State r = CatalogReviewPending"

abbreviation descriptors_R :: "db \<Rightarrow> db \<Rightarrow> bool" where
  "descriptors_R \<equiv> rows_R db_descriptors descriptor_id descriptor_live descriptor_fresh"

abbreviation descriptor_at :: "db \<Rightarrow> string \<Rightarrow> int \<Rightarrow> DescriptorRow option" where
  "descriptor_at d serverID revision \<equiv> row_of descriptor_id (db_descriptors d) (serverID, revision)"

interpretation descriptors: evolution descriptors_R
  by (rule rows_R_evolution)

interpretation same_descriptors: evolution "same db_descriptors"
  by (rule same_evolution)

section \<open>The transactions\<close>

lemma same_descriptors_R: "keeps (same db_descriptors) m \<Longrightarrow> keeps descriptors_R m"
  unfolding keeps_def same_def by (auto intro: rows_R_same)

lemma lockOwn_Inr:
  assumes "lockOwn E scope serverID revision w = (Inr d, w')"
  shows "w_db w' = w_db w \<and> (\<exists>r s. descriptor_at (w_db w) serverID (int64 revision) = Some r
    \<and> DescriptorFromRow r s = Inr d)"
proof -
  have "one_row (filter (descriptor_key serverID (int64 revision)) rows) = Inr r \<longleftrightarrow>
      row_of descriptor_id rows (serverID, int64 revision) = Some r" for rows r
    using one_row_row_of [where key = descriptor_id and k = "(serverID, int64 revision)" and rows = rows]
    by (simp add: descriptor_key_def [abs_def] descriptor_id_def)
  then show ?thesis
    using assms
    by (auto simp: lockOwn_def seq_Inr own_server_def locked_descriptor_def recover_Inr GetServer_def
        GetDescriptorForUpdate_def query_read_Inr split: if_splits)
qed

lemma DescriptorFromRow_sel:
  assumes "DescriptorFromRow r s = Inr d"
  shows "d_State d = dr_State r" "d_DiscoveredBy d = dr_DiscoveredBy r" "d_Digest d = dr_DescriptorDigest r"
    "d_ServerID d = dr_ServerID r" "d_Revision d = uint64 (dr_Revision r)"
  using assms by (auto simp: DescriptorFromRow_def split: jsonb.splits)

lemma UpdateDescriptorState_R:
  assumes q: "query E (UpdateDescriptorState serverID revision s' reviewer reviewID) w = (Inr u, w')"
    and r: "descriptor_at (w_db w) serverID revision = Some r"
    and ok: "descriptor_edge (dr_State r) s'"
      "s' \<in> {CatalogApproved, CatalogRejected} \<Longrightarrow> (\<exists>x. reviewer = Some x \<and> x \<noteq> dr_DiscoveredBy r) \<and> reviewID \<noteq> None"
  shows "descriptors_R (w_db w) (w_db w')"
proof -
  obtain t where d: "db_descriptors (w_db w') = update_where (descriptor_key serverID revision)
      (\<lambda>r. r\<lparr>dr_State := s', dr_Reviewer := (if reviewer = None then dr_Reviewer r else reviewer),
             dr_ReviewID := (if reviewID = None then dr_ReviewID r else reviewID), dr_UpdatedAt := Some t\<rparr>)
      (db_descriptors (w_db w))"
    using q by (auto simp: query_Inr UpdateDescriptorState_def)
  show ?thesis
  proof (rule rows_R_update [OF d])
    show "descriptor_id (r\<lparr>dr_State := s', dr_Reviewer := (if reviewer = None then dr_Reviewer r else reviewer),
             dr_ReviewID := (if reviewID = None then dr_ReviewID r else reviewID), dr_UpdatedAt := Some t\<rparr>) = descriptor_id r" for r
      by (simp add: descriptor_id_def)
    fix r' assume "row_of descriptor_id (db_descriptors (w_db w)) (descriptor_id r') = Some r'" "descriptor_key serverID revision r'"
    then have "r' = r" using r by (simp add: descriptor_key_def descriptor_id_def)
    then show "descriptor_live r' (r'\<lparr>dr_State := s', dr_Reviewer := (if reviewer = None then dr_Reviewer r' else reviewer),
             dr_ReviewID := (if reviewID = None then dr_ReviewID r' else reviewID), dr_UpdatedAt := Some t\<rparr>)"
      using ok by (auto simp: descriptor_live_def descriptor_terms_def four_eyes_def)
  qed
qed

lemma keeps_descriptors:
  "keeps (same db_descriptors) (decide E gr dec x reason c rd)"
  "keeps (same db_descriptors) (Publish E ev)"
  "keeps (same db_descriptors) (nextEventRevision E ty i)"
  "keeps (same db_descriptors) (record_command E cmd kind serverID n)"
  "keeps (same db_descriptors) (query E (InsertReview (e_schema E) rv))"
  "keeps (same db_descriptors) (update_grant E g s)"
  "keeps (same db_descriptors) (lock_grant E i)"
  unfolding decide_def InsertGrantDecision_def Publish_def nextEventRevision_def NextEventRevision_def
    record_command_def InsertCatalogCommand_def InsertReview_def update_grant_def UpdateGrantBarrier_def
    lock_grant_def GetGrantForUpdate_def found_def
  by (auto intro!: same_descriptors.keeps_intros keeps_query simp: insert_row_table same_def Let_def
      split: option.splits sum.split)

lemma keeps_descriptors_more:
  "keeps (same db_descriptors) (publish_descriptor E d c)"
  "keeps (same db_descriptors) (revokeLocked E cur c rd x reason)"
  "keeps (same db_descriptors) (revokeIn E i c l x reason)"
proof -
  show p: "keeps (same db_descriptors) (publish_descriptor E d c)"
    unfolding publish_descriptor_def by (intro same_descriptors.keeps_intros keeps_descriptors)
  show r: "keeps (same db_descriptors) (revokeLocked E cur c rd x reason)" for cur c rd
    unfolding revokeLocked_def by (intro same_descriptors.keeps_intros keeps_descriptors)
  show "keeps (same db_descriptors) (revokeIn E i c l x reason)"
    unfolding revokeIn_def by (auto intro!: same_descriptors.keeps_intros keeps_descriptors r)
qed

lemma keeps_revoke_each: "keeps (same db_descriptors) (revoke_each E c actor ids)"
  by (induction ids) (auto intro!: same_descriptors.keeps_intros keeps_descriptors_more)

lemmas keeps_same_descriptors = keeps_descriptors keeps_descriptors_more keeps_revoke_each
lemmas same_descriptorsD = keeps_same_descriptors [THEN keeps_sameD]

lemma review_body_InrE:
  assumes "review_body E cmd scope serverID revision digest decision reason w = (Inr x, w')"
  obtains d r nxt reviewID w2 w3 u1 where
    "descriptor_at (w_db w) serverID (int64 revision) = Some r" "dr_State r = d_State d"
    "d_DiscoveredBy d = dr_DiscoveredBy r" "d_Digest d = dr_DescriptorDigest r"
    "CheckReview d (sc_ActorID scope) digest decision = Inr nxt"
    "db_descriptors (w_db w2) = db_descriptors (w_db w)"
    "query E (UpdateDescriptorState serverID (int64 revision) nxt (Some (sc_ActorID scope)) (Some reviewID)) w2 = (Inr u1, w3)"
    "db_descriptors (w_db w') = db_descriptors (w_db w3)" "d_State x = nxt"
proof -
  obtain d w1 nxt reviewID rv u0 w2 u1 w3 d' u2 w4 u3 where
    1: "lockOwn E scope serverID revision w = (Inr d, w1)"
    and c: "CheckReview d (sc_ActorID scope) digest decision = Inr nxt"
    and 2: "query E (InsertReview (e_schema E) rv) w1 = (Inr u0, w2)"
    and 3: "query E (UpdateDescriptorState serverID (int64 revision) nxt (Some (sc_ActorID scope)) (Some reviewID)) w2 = (Inr u1, w3)"
    and 4: "publish_descriptor E d' (cmd_CommandID cmd) w3 = (Inr u2, w4)"
    and 5: "record_command E cmd ''review'' serverID revision w4 = (Inr u3, w')" and x: "x = d'" "d_State d' = nxt"
    using assms unfolding review_body_def Let_def seq_Inr by auto
  obtain r s where r: "descriptor_at (w_db w) serverID (int64 revision) = Some r" "DescriptorFromRow r s = Inr d"
    and w1: "w_db w1 = w_db w" using lockOwn_Inr [OF 1] by auto
  note sel = DescriptorFromRow_sel [OF r(2)]
  show thesis
    using that [OF r(1) _ sel(2,3) c _ 3] sel(1) w1 same_descriptorsD(5) [OF 2] same_descriptorsD(8) [OF 4]
      same_descriptorsD(4) [OF 5] x by simp
qed

lemma CheckReview_InrD:
  "CheckReview d reviewer digest decision = Inr nxt \<Longrightarrow>
   d_Digest d = digest \<and> reviewer \<noteq> d_DiscoveredBy d \<and> d_State d = CatalogReviewPending
   \<and> nxt \<in> {CatalogApproved, CatalogRejected}"
  by (auto simp: CheckReview_def split: if_splits ReviewDecision.splits)

lemma review_commits: "commits descriptors_R (review_body E cmd scope serverID revision digest decision reason)"
proof (rule commits_rowsI)
  fix w x w'
  assume "review_body E cmd scope serverID revision digest decision reason w = (Inr x, w')"
  then show "descriptors_R (w_db w) (w_db w')"
  proof (rule review_body_InrE)
    fix d r nxt reviewID w2 w3 u1
    assume *: "descriptor_at (w_db w) serverID (int64 revision) = Some r" "dr_State r = d_State d"
      "d_DiscoveredBy d = dr_DiscoveredBy r" "CheckReview d (sc_ActorID scope) digest decision = Inr nxt"
      "db_descriptors (w_db w2) = db_descriptors (w_db w)"
      "query E (UpdateDescriptorState serverID (int64 revision) nxt (Some (sc_ActorID scope)) (Some reviewID)) w2 = (Inr u1, w3)"
      "db_descriptors (w_db w') = db_descriptors (w_db w3)"
    have "descriptors_R (w_db w2) (w_db w3)"
      using * CheckReview_InrD [OF *(4)]
      by (intro UpdateDescriptorState_R [OF *(6)]) (auto simp: descriptor_edge_def)
    then show ?thesis using * by (simp add: rows_R_def)
  qed
qed

lemma disableLocked_R:
  assumes "disableLocked E d actor ten c rd reason w = (Inr x, w')"
    "descriptor_at (w_db w) (d_ServerID d) (int64 (d_Revision d)) = Some r"
  shows "descriptors_R (w_db w) (w_db w')"
proof -
  obtain rv u0 w2 u1 w3 d' u2 w4 ids w5 u3 where
    2: "query E (InsertReview (e_schema E) rv) w = (Inr u0, w2)"
    and 3: "query E (UpdateDescriptorState (d_ServerID d) (int64 (d_Revision d)) CatalogDisabled None None) w2 = (Inr u1, w3)"
    and 4: "publish_descriptor E d' c w3 = (Inr u2, w4)"
    and 5: "query E (ListGrantsOfDescriptor (d_ServerID d) (int64 (d_Revision d))) w4 = (Inr ids, w5)"
    and 6: "revoke_each E c actor ids w5 = (Inr u3, w')"
    using assms(1) unfolding disableLocked_def Let_def seq_Inr by auto
  have same: "db_descriptors (w_db w2) = db_descriptors (w_db w)" using same_descriptorsD(5) [OF 2] .
  have "descriptors_R (w_db w2) (w_db w3)"
    using assms(2) same by (intro UpdateDescriptorState_R [OF 3]) (auto simp: descriptor_edge_def)
  moreover have "w_db w5 = w_db w4" using 5 by (auto simp: ListGrantsOfDescriptor_def query_read_Inr)
  ultimately show ?thesis
    using same same_descriptorsD(8) [OF 4] same_descriptorsD(11) [OF 6] by (simp add: rows_R_def)
qed

lemma descriptor_id_of:
  assumes "descriptor_at d serverID (int64 revision) = Some r" "DescriptorFromRow r s = Inr desc"
  shows "d_ServerID desc = serverID" "int64 (d_Revision desc) = int64 revision"
  using row_of_key [OF assms(1)] DescriptorFromRow_sel [OF assms(2)] by (auto simp: descriptor_id_def)

lemma disable_body_InrE:
  assumes "disable_body E cmd scope serverID revision reason w = (Inr (x, existing), w')"
  obtains d r w1 w2 where "w_db w1 = w_db w" "descriptor_at (w_db w) serverID (int64 revision) = Some r"
    "d_ServerID d = serverID" "int64 (d_Revision d) = int64 revision" "d_State d = dr_State r"
    "if existing then x = d \<and> w2 = w1 \<and> d_State d = CatalogDisabled else
       disableLocked E d (sc_ActorID scope) (cmd_TenantID cmd) (cmd_CommandID cmd) (cmd_RequestDigest cmd) reason w1 = (Inr x, w2)"
    "record_command E cmd ''disable'' serverID revision w2 = (Inr (), w')"
proof -
  obtain d w1 w2 where 1: "lockOwn E scope serverID revision w = (Inr d, w1)"
    and 2: "if existing then x = d \<and> w2 = w1 \<and> d_State d = CatalogDisabled else
       disableLocked E d (sc_ActorID scope) (cmd_TenantID cmd) (cmd_CommandID cmd) (cmd_RequestDigest cmd) reason w1 = (Inr x, w2)"
    and 3: "record_command E cmd ''disable'' serverID revision w2 = (Inr (), w')"
    using assms unfolding disable_body_def seq_Inr by (auto simp: seq_Inr split: if_splits)
  obtain r s where r: "descriptor_at (w_db w) serverID (int64 revision) = Some r" "DescriptorFromRow r s = Inr d"
    and w1: "w_db w1 = w_db w" using lockOwn_Inr [OF 1] by auto
  show thesis using that [OF w1 r(1) descriptor_id_of [OF r] DescriptorFromRow_sel(1) [OF r(2)] 2 3] .
qed

lemma disable_commits: "commits descriptors_R (disable_body E cmd scope serverID revision reason)"
proof (rule commits_rowsI)
  fix w and x :: "Descriptor \<times> bool" and w'
  assume b: "disable_body E cmd scope serverID revision reason w = (Inr x, w')"
  obtain y existing where x: "x = (y, existing)" by force
  show "descriptors_R (w_db w) (w_db w')"
    using b unfolding x
  proof (rule disable_body_InrE)
    fix d r w1 w2
    assume *: "w_db w1 = w_db w" "descriptor_at (w_db w) serverID (int64 revision) = Some r"
      "d_ServerID d = serverID" "int64 (d_Revision d) = int64 revision"
      "if existing then y = d \<and> w2 = w1 \<and> d_State d = CatalogDisabled else
       disableLocked E d (sc_ActorID scope) (cmd_TenantID cmd) (cmd_CommandID cmd) (cmd_RequestDigest cmd) reason w1 = (Inr y, w2)"
      "record_command E cmd ''disable'' serverID revision w2 = (Inr (), w')"
    have "descriptors_R (w_db w1) (w_db w2)"
      using * disableLocked_R [of E d _ _ _ _ _ w1 y w2 r]
      by (cases existing) (auto intro: descriptors.R_refl simp del: int64_inj)
    then show ?thesis using * same_descriptorsD(4) [OF *(6)] by (simp add: rows_R_def)
  qed
qed

lemma insert_revision_R:
  assumes "insert_revision E cmd scope desc s w = (Inr x, w')" "d_State desc = CatalogReviewPending"
  shows "descriptors_R (w_db w) (w_db w')"
proof -
  obtain desc' w1 u1 u2 where
    1: "query E (InsertDescriptor (e_schema E) (descriptor_row E desc' cmd)) w = (Inr u1, w1)"
    and st: "d_State desc' = d_State desc"
    and 2: "query E (SetServerRevision (d_ServerID desc') (int64 (d_Revision desc'))) w1 = (Inr u2, w')"
    using assms(1) unfolding insert_revision_def Let_def seq_Inr by auto
  have "descriptors_R (w_db w) (w_db w1)"
    using 1 assms(2) st unfolding query_Inr InsertDescriptor_def insert_row_table
    by (auto split: if_splits intro!: rows_R_insert simp: descriptor_fresh_def descriptor_row_def)
  moreover have "db_descriptors (w_db w') = db_descriptors (w_db w1)"
    using 2 by (auto simp: query_Inr SetServerRevision_def)
  ultimately show ?thesis by (simp add: rows_R_def)
qed

lemma keeps_server_for_update: "keeps (same db_descriptors) (server_for_update E scope decl)"
  unfolding server_for_update_def GetServerByResourceForUpdate_def InsertServer_def
  by (auto intro!: same_descriptors.keeps_intros keeps_query simp: insert_row_table same_def split: sum.split)

lemma discover_commits:
  assumes "BuildDescriptor decl live = Inr desc"
  shows "commits descriptors_R (discover_body E cmd scope decl desc)"
proof -
  have st: "d_State desc = CatalogReviewPending" using assms by (auto simp: BuildDescriptor_def bound_descriptor_def
        Let_def split: if_splits sum.splits option.splits)
  have ins: "commits descriptors_R (insert_revision E cmd scope desc s)" for s
    using insert_revision_R [OF _ st] by (blast intro: commits_rowsI)
  show ?thesis
    unfolding discover_body_def GetDescriptorByDigest_def
    by (auto intro!: descriptors.commits_intros ins keeps_commits [OF same_descriptors_R [OF keeps_server_for_update]]
        keeps_commits [OF same_descriptors_R [OF keeps_descriptors(4)]] split: sum.split)
qed

section \<open>Disabling revokes the grants\<close>

lemma revoke_each_commits_grants: "commits grants_R (revoke_each E c actor ids)"
  by (induction ids) (auto intro!: grants.commits_intros revokeIn_commits)

lemma keeps_grants:
  "keeps (same db_grants) (publish_descriptor E d c)"
  "keeps (same db_grants) (record_command E cmd kind serverID n)"
  "keeps (same db_grants) (query E (InsertReview (e_schema E) rv))"
  "keeps (same db_grants) (query E (UpdateDescriptorState serverID k s x y))"
  "keeps (same db_grants) (lockOwn E scope serverID n)"
  unfolding publish_descriptor_def record_command_def InsertCatalogCommand_def InsertReview_def
    UpdateDescriptorState_def lockOwn_def own_server_def locked_descriptor_def GetServer_def GetDescriptorForUpdate_def
  by (auto intro!: same_grants.keeps_intros keeps_query keeps_nextEventRevision keeps_Publish
      simp: insert_row_table same_def split: option.splits sum.split)

lemma same_grants_keeps_R: "keeps (same db_grants) m \<Longrightarrow> keeps grants_R m"
  unfolding keeps_def same_def by (auto intro: rows_R_same)

lemmas commits_grants_R = keeps_grants [THEN same_grants_keeps_R, THEN keeps_commits]

lemma disableLocked_commits_grants: "commits grants_R (disableLocked E d actor ten c rd reason)"
  unfolding disableLocked_def Let_def ListGrantsOfDescriptor_def
  by (intro grants.commits_intros commits_grants_R revoke_each_commits_grants)

lemma disable_commits_grants: "commits grants_R (disable_body E cmd scope serverID revision reason)"
  unfolding disable_body_def
  by (auto intro!: grants.commits_intros commits_grants_R disableLocked_commits_grants)

text \<open>Every listed grant ends revoking or revoked.\<close>

lemma revokeIn_fences:
  assumes "revokeIn E grantID c label decider reason w = (Inr x, w')"
  shows "fenced_grant (w_db w') grantID"
proof -
  obtain cur w1 where 1: "lock_grant E grantID w = (Inr cur, w1)"
    and rest: "(if g_State cur = GrantRevoking \<or> g_State cur = GrantRevoked then ok ()
       else revokeLocked E cur (c @ '':'' @ grantID) (DigestBytes (label @ [CHR 0x00] @ grantID)) decider reason) w1
       = (Inr x, w')"
    using assms unfolding revokeIn_def seq_Inr by auto
  obtain row where row: "grant_at (w_db w) grantID = Some row" "cur = GrantFromRow row" and w1: "w_db w1 = w_db w"
    using lock_grant_Inr [OF 1] by auto
  have id: "gw_GrantID row = grantID" using row_of_key [OF row(1)] by simp
  show ?thesis
  proof (cases "gw_State row \<in> {GrantRevoking, GrantRevoked}")
    case True
    then show ?thesis using rest row w1 by (auto simp: fenced_grant_def)
  next
    case False
    then show ?thesis using rest row w1 id revokeLocked_fences [of E row _ _ _ _ w1 x w'] by auto
  qed
qed

lemma revoke_each_fences:
  assumes "revoke_each E c actor ids w = (Inr x, w')" "i \<in> set ids"
  shows "fenced_grant (w_db w') i"
  using assms
proof (induction ids arbitrary: w)
  case (Cons j ids)
  obtain u w1 where 1: "revokeIn E j (''disable:'' @ c) ''descriptor-disabled'' actor ''DESCRIPTOR_DISABLED'' w = (Inr u, w1)"
    and 2: "revoke_each E c actor ids w1 = (Inr x, w')"
    using Cons.prems(1) by (auto simp: seq_Inr)
  have "grants_R (w_db w1) (w_db w')" using revoke_each_commits_grants 2 by (auto simp: commits_def)
  then show ?case
    using Cons.IH [OF 2] Cons.prems(2) fenced_grant_stays revokeIn_fences [OF 1] by auto
qed simp

lemma disableLocked_fences:
  assumes "disableLocked E d actor ten c rd reason w = (Inr x, w')"
    and "g \<in> set (db_grants (w_db w))" "gw_ServerID g = d_ServerID d"
      "gw_DescriptorRevision g = int64 (d_Revision d)" "gw_State g \<in> {GrantPending, GrantActive}"
  shows "fenced_grant (w_db w') (gw_GrantID g)"
proof -
  obtain rv u0 w2 u1 w3 d' u2 w4 ids w5 u3 where
    2: "query E (InsertReview (e_schema E) rv) w = (Inr u0, w2)"
    and 3: "query E (UpdateDescriptorState (d_ServerID d) (int64 (d_Revision d)) CatalogDisabled None None) w2 = (Inr u1, w3)"
    and 4: "publish_descriptor E d' c w3 = (Inr u2, w4)"
    and 5: "query E (ListGrantsOfDescriptor (d_ServerID d) (int64 (d_Revision d))) w4 = (Inr ids, w5)"
    and 6: "revoke_each E c actor ids w5 = (Inr u3, w')"
    using assms(1) unfolding disableLocked_def Let_def seq_Inr by auto
  have "db_grants (w_db w4) = db_grants (w_db w)"
    using keeps_grants(3,4,1) [THEN keeps_sameD] 2 3 4 by metis
  then have "gw_GrantID g \<in> set ids"
    using 5 assms(2-5)
    by (auto simp: ListGrantsOfDescriptor_def query_read_Inr sort_strings_def)
  then show ?thesis by (rule revoke_each_fences [OF 6])
qed

section \<open>Runs\<close>

datatype catalog_call =
    DoDiscover Command Scope Declaration
  | DoReview Command Scope string u64 string ReviewDecision string
  | DoDisable Command Scope string u64 string
  | DoGetDescriptor Scope string u64
  | DoListDescriptors Scope string string int

fun run_catalog :: "env \<Rightarrow> Catalog \<Rightarrow> catalog_call \<Rightarrow> world \<Rightarrow> world" where
  "run_catalog E c (DoDiscover cmd scope decl) w = snd (Discover E c cmd scope decl w)"
| "run_catalog E c (DoReview cmd scope i n digest decision reason) w =
     snd (Review_descriptor E c cmd scope i n digest decision reason w)"
| "run_catalog E c (DoDisable cmd scope i n reason) w = snd (Disable E c cmd scope i n reason w)"
| "run_catalog E c (DoGetDescriptor scope i n) w = snd (Get_descriptor E c scope i n w)"
| "run_catalog E c (DoListDescriptors scope state cursor n) w = snd (List_descriptors E c scope state cursor n w)"

lemma keeps_ask: "evolution R \<Longrightarrow> keeps R (ask answer)"
  by (simp add: keeps_def ask_def evolution.R_refl)

lemma keeps_catalog_checks: "keeps descriptors_R (checkCommand cmd scope)" "keeps descriptors_R (Require a t x act)"
  unfolding checkCommand_def Require_def by (rule descriptors.keeps_guard)+

lemma keeps_CheckTarget: "keeps descriptors_R (CheckTarget p resolver resource)"
  unfolding CheckTarget_def
  by (auto intro!: descriptors.keeps_intros keeps_ask descriptors.evolution_axioms split: sum.split option.split list.split)

lemma keeps_readLive: "keeps descriptors_R (readLive c resource v)"
  unfolding readLive_def
  by (auto intro!: descriptors.keeps_intros keeps_CheckTarget keeps_ask descriptors.evolution_axioms
      split: sum.split option.split)

lemma keeps_load_descriptor: "rely descriptors_R E \<Longrightarrow> keeps descriptors_R (load_descriptor E i n)"
  unfolding load_descriptor_def GetServer_def GetDescriptor_def Let_def
  by (auto intro!: descriptors.keeps_intros split: sum.split)

lemma keeps_replayCommand: "rely descriptors_R E \<Longrightarrow> keeps descriptors_R (replayCommand E cmd kind)"
  unfolding replayCommand_def GetCatalogCommand_def
  by (auto intro!: descriptors.keeps_intros keeps_load_descriptor split: sum.split)

lemma keeps_unless_replayed:
  "rely descriptors_R E \<Longrightarrow> keeps descriptors_R m \<Longrightarrow> keeps descriptors_R (unless_replayed E cmd kind m)"
  unfolding unless_replayed_def
  by (auto intro!: descriptors.keeps_intros keeps_replayCommand split: prod.split option.split)

lemma keeps_lifted: "(\<And>x. r = Inr x \<Longrightarrow> keeps descriptors_R (f x)) \<Longrightarrow> keeps descriptors_R (seq (lift r) f)"
  by (cases r) (auto simp: keeps_def seq_def lift_def descriptors.R_refl)

lemma keeps_record_discovery:
  assumes "rely descriptors_R E" "BuildDescriptor decl live = Inr desc"
  shows "keeps descriptors_R (record_discovery E cmd scope decl desc)"
  unfolding record_discovery_def
  by (rule descriptors.keeps_recover [OF descriptors.keeps_InTx [OF assms(1) discover_commits [OF assms(2)]]])
    (auto intro!: descriptors.keeps_intros keeps_replayCommand assms(1) split: sum.split prod.split option.split)

lemma keeps_Discover: "rely descriptors_R E \<Longrightarrow> keeps descriptors_R (Discover E c cmd scope decl)"
  unfolding Discover_def
  by (intro keeps_lifted descriptors.keeps_seq keeps_catalog_checks keeps_unless_replayed descriptors.keeps_guard
      keeps_readLive keeps_record_discovery)

lemma keeps_Review: "rely descriptors_R E \<Longrightarrow> keeps descriptors_R (Review_descriptor E c cmd scope i n digest decision reason)"
  unfolding Review_descriptor_def
  by (intro descriptors.keeps_intros keeps_catalog_checks keeps_unless_replayed review_commits)

lemma keeps_Disable: "rely descriptors_R E \<Longrightarrow> keeps descriptors_R (Disable E c cmd scope i n reason)"
  unfolding Disable_def
  by (intro descriptors.keeps_intros keeps_catalog_checks keeps_unless_replayed disable_commits)

lemma keeps_Get_descriptor: "rely descriptors_R E \<Longrightarrow> keeps descriptors_R (Get_descriptor E c scope i n)"
  unfolding Get_descriptor_def by (auto intro!: descriptors.keeps_intros keeps_load_descriptor)

lemma keeps_rows_to_descriptors: "rely descriptors_R E \<Longrightarrow> keeps descriptors_R (rows_to_descriptors E rs out)"
  by (induction rs arbitrary: out) (auto simp: GetServer_def intro!: descriptors.keeps_intros)

lemma keeps_List_descriptors: "rely descriptors_R E \<Longrightarrow> keeps descriptors_R (List_descriptors E c scope state cursor n)"
  unfolding List_descriptors_def Let_def ListDescriptors_def
  by (auto intro!: descriptors.keeps_intros keeps_rows_to_descriptors split: option.split prod.split)

lemma run_catalog_R: "rely descriptors_R E \<Longrightarrow> descriptors_R (w_db w) (w_db (run_catalog E c call w))"
  using keeps_Discover keeps_Review keeps_Disable keeps_Get_descriptor keeps_List_descriptors
  by (cases call) (simp_all add: keeps_def)

lemma run_catalogs_R: "rely descriptors_R E \<Longrightarrow> descriptors_R (w_db w) (w_db (fold (run_catalog E c) calls w))"
proof (induction calls arbitrary: w)
  case (Cons call calls)
  show ?case using descriptors.R_trans [OF run_catalog_R [OF Cons.prems] Cons.IH [OF Cons.prems]] by simp
qed (simp add: descriptors.R_refl)

definition descriptor_progress :: "CatalogState \<Rightarrow> CatalogState \<Rightarrow> bool" where
  "descriptor_progress s s' \<longleftrightarrow>
     (s = CatalogDisabled \<longrightarrow> s' = CatalogDisabled)
     \<and> (s = CatalogRejected \<longrightarrow> s' \<in> {CatalogRejected, CatalogDisabled})
     \<and> (s' = CatalogApproved \<longrightarrow> s \<in> {CatalogReviewPending, CatalogApproved})
     \<and> (s' = CatalogReviewPending \<longrightarrow> s = CatalogReviewPending)"

lemma descriptor_progress_edge:
  "descriptor_progress s s' \<Longrightarrow> descriptor_edge s' s'' \<Longrightarrow> descriptor_progress s s''"
  by (cases s; cases s'; cases s'') (simp_all add: descriptor_progress_def descriptor_edge_def)

lemma descriptor_lives:
  assumes "descriptor_live\<^sup>*\<^sup>* r r'"
  shows "descriptor_terms r' = descriptor_terms r \<and> (four_eyes r \<longrightarrow> four_eyes r')
    \<and> descriptor_progress (dr_State r) (dr_State r')"
  using assms
proof (induction rule: rtranclp_induct)
  case base
  then show ?case by (simp add: descriptor_progress_def)
next
  case (step y z)
  then have "descriptor_edge (dr_State y) (dr_State z)" "descriptor_terms z = descriptor_terms y" "four_eyes y \<longrightarrow> four_eyes z"
    by (simp_all add: descriptor_live_def)
  with step.IH show ?case using descriptor_progress_edge by auto
qed

lemma keeps_grants_replay: "rely grants_R E \<Longrightarrow> keeps grants_R (replayCommand E cmd kind)"
  unfolding replayCommand_def GetCatalogCommand_def load_descriptor_def GetServer_def GetDescriptor_def Let_def
  by (auto intro!: grants.keeps_intros split: sum.split)

lemma grant_terms_sel:
  assumes "grant_terms g = grant_terms g'"
  shows "gw_ServerID g = gw_ServerID g'" "gw_DescriptorRevision g = gw_DescriptorRevision g'"
proof -
  have "gw_ServerID (grant_terms g) = gw_ServerID (grant_terms g')"
    "gw_DescriptorRevision (grant_terms g) = gw_DescriptorRevision (grant_terms g')"
    by (simp_all only: assms)
  then show "gw_ServerID g = gw_ServerID g'" "gw_DescriptorRevision g = gw_DescriptorRevision g'"
    by (simp_all add: grant_terms_def)
qed

section \<open>A concrete catalog\<close>

definition sample_server :: Server where
  "sample_server =
     \<lparr>sv_ServerID = ''s1'', sv_TenantID = ''ten'', sv_CanonicalResource = ''https://mcp.example/x'',
      sv_Transport = ''streamable-http'', sv_CurrentRevision = 1, sv_CreatedAt = None\<rparr>"

definition sample_descriptor_row :: "CatalogState \<Rightarrow> DescriptorRow" where
  "sample_descriptor_row st =
     \<lparr>dr_ServerID = ''s1'', dr_Revision = 1, dr_ProtocolVersion = ''v'', dr_Provenance = [],
      dr_DescriptorDigest = ''sha256:d'', dr_Tools = Jsonb [], dr_State = st, dr_CommandID = ''c0'',
      dr_RequestDigest = [], dr_CreatedAt = None, dr_UpdatedAt = None, dr_ServerName = [], dr_ServerVersion = [],
      dr_Resources = Jsonb [], dr_Prompts = Jsonb [], dr_ResourcesDigest = [], dr_PromptsDigest = [],
      dr_DataClass = ''internal'', dr_NetworkScope = [], dr_Licenses = [], dr_Issuer = [],
      dr_RevisionEvidence = [], dr_ConnectionRef = [], dr_DiscoveredBy = ''carol'', dr_Reviewer = None,
      dr_ReviewID = None, dr_InputSchemas = Jsonb []\<rparr>"

definition sample_catalog :: Catalog where
  "sample_catalog =
     \<lparr>ct_issuers = None, ct_conn = (\<lambda>_ _ _. Inl (err ErrOther)), ct_authz = Some sample_authz,
      ct_policy = \<lparr>np_AllowedHosts = [], np_PrivateHosts = []\<rparr>, ct_resolver = (\<lambda>_ _. Inl (err ErrOther))\<rparr>"

definition actor_scope :: "string \<Rightarrow> Scope" where
  "actor_scope a = \<lparr>sc_TenantID = ''ten'', sc_ProjectID = [], sc_ActorID = a, sc_Roles = []\<rparr>"

definition actor_command :: "string \<Rightarrow> Command" where
  "actor_command a = \<lparr>cmd_TenantID = ''ten'', cmd_CommandID = ''c9'', cmd_ActorID = a, cmd_RequestDigest = ''d''\<rparr>"

definition catalog_world :: "CatalogState \<Rightarrow> world" where
  "catalog_world st = \<lparr>w_db = empty_db\<lparr>db_grants := [sample_grant_row], db_servers := [sample_server],
     db_descriptors := [sample_descriptor_row st]\<rparr>, w_tick = 0, w_log = []\<rparr>"

lemma sample_allowed:
  "Allowed (Some sample_authz) ''ten'' ''carol'' ActCatalogDisable"
  "Allowed (Some sample_authz) ''ten'' ''alice'' ActCatalogReview"
proof -
  have p: "plain_actors sample_authz"
    by (simp add: plain_actors_def sample_authz_def sample_bindings_def binding_of_def role_names_def authz_names)
  show "Allowed (Some sample_authz) ''ten'' ''carol'' ActCatalogDisable"
    "Allowed (Some sample_authz) ''ten'' ''alice'' ActCatalogReview"
    using allowed_by_binding [OF sample_authorizer rbac_enforce_casbin p]
    by (simp_all add: role_names_def authz_names sample_bindings_def authzPolicies_def)
qed

lemma sample_rely_descriptors: "rely descriptors_R sample_env"
  by (simp add: rely_def sample_env_def descriptors.R_refl)

text \<open>The body of a first disabling leaves no grant of the revision pending or active.\<close>

lemma disable_body_ends:
  assumes b: "disable_body E cmd scope serverID revision reason w = (Inr (y, False), w2)"
    and g0: "grant_at (w_db w) grantID = Some g0" "gw_ServerID g0 = serverID" "gw_DescriptorRevision g0 = int64 revision"
  shows "\<exists>g'. grant_at (w_db w2) grantID = Some g' \<and> gw_State g' \<notin> {GrantPending, GrantActive}"
proof (cases "gw_State g0 \<in> {GrantPending, GrantActive}")
  case True
  from b have "fenced_grant (w_db w2) grantID"
  proof (rule disable_body_InrE)
    fix d r w3 w4
    assume d: "w_db w3 = w_db w" "d_ServerID d = serverID" "int64 (d_Revision d) = int64 revision"
      "if False then y = d \<and> w4 = w3 \<and> d_State d = CatalogDisabled else
       disableLocked E d (sc_ActorID scope) (cmd_TenantID cmd) (cmd_CommandID cmd) (cmd_RequestDigest cmd) reason w3 = (Inr y, w4)"
      "record_command E cmd ''disable'' serverID revision w4 = (Inr (), w2)"
    then have "fenced_grant (w_db w4) (gw_GrantID g0)"
      using disableLocked_fences [of E d _ _ _ _ _ w3 y w4 g0] g0 True row_of_key [OF g0(1)]
      by (simp del: int64_inj)
    then show ?thesis
      using keeps_grants(2) [THEN keeps_sameD, OF d(5)] row_of_key [OF g0(1)] by (simp add: fenced_grant_def)
  qed
  then show ?thesis by (auto simp: fenced_grant_def)
next
  case False
  have "grants_R (w_db w) (w_db w2)"
    using disable_commits_grants b by (auto simp: commits_def)
  then obtain g1 where "grant_at (w_db w2) grantID = Some g1" "grant_live\<^sup>*\<^sup>* g0 g1"
    using rows_R_SomeD g0(1) by metis
  then show ?thesis using grant_lives [of g0 g1] False by (auto simp: grant_progress_def)
qed

section \<open>Properties\<close>

text \<open>
  C30. The lifecycle of a revision: along any sequence of catalog operations, whatever fails and
  whatever other replicas do by the same rules, a recorded revision is never deleted and what was
  discovered (its digest, tools, schemas, scope, discoverer) never changes; it is approved only from
  review, a rejected one is at most disabled, a disabled one stays disabled; and an approved or
  rejected revision keeps a recorded review by somebody other than its discoverer.
\<close>
theorem catalog_operations_keep_lifecycle:
  assumes "rely descriptors_R E" "descriptor_at (w_db w) serverID n = Some r"
  shows "\<exists>r'. descriptor_at (w_db (fold (run_catalog E c) calls w)) serverID n = Some r'
    \<and> descriptor_terms r' = descriptor_terms r \<and> (four_eyes r \<longrightarrow> four_eyes r')
    \<and> descriptor_progress (dr_State r) (dr_State r')"
  using rows_R_SomeD [OF run_catalogs_R [OF assms(1)] assms(2)] descriptor_lives by blast


theorem catalog_operations_keep_lifecycle_witness:
  "\<exists>r'. descriptor_at (w_db (fold (run_catalog sample_env sample_catalog)
      [DoReview (actor_command ''alice'') (actor_scope ''alice'') ''s1'' 1 ''sha256:d'' ReviewApprove []]
      (catalog_world CatalogReviewPending))) ''s1'' 1 = Some r' \<and> four_eyes r'"
  using catalog_operations_keep_lifecycle [OF sample_rely_descriptors, of "catalog_world CatalogReviewPending" "''s1''" 1
      "sample_descriptor_row CatalogReviewPending" sample_catalog
      "[DoReview (actor_command ''alice'') (actor_scope ''alice'') ''s1'' 1 ''sha256:d'' ReviewApprove []]"]
  by (auto simp: catalog_world_def row_of_def descriptor_id_def sample_descriptor_row_def four_eyes_def)

lemma sort_singleton: "sort_strings [x] = [x]"
  by (simp add: sort_strings_def)

lemmas run_defs =
  checkCommand_def Require_def seq_def recover_def act_defs pool_query_def query_def interfere_def read_def
  sample_env_def sample_schema_def empty_db_def one_row_def InTx_def Let_def insert_row_table update_where_def
  count_where_def

lemma disable_runs:
  "\<exists>x w'. Disable sample_env sample_catalog (actor_command ''carol'') (actor_scope ''carol'') ''s1'' 1 []
     (catalog_world CatalogApproved) = (Inr (x, False), w')"
  using sample_allowed
  by (simp add: Disable_def run_defs actor_command_def actor_scope_def sample_catalog_def catalog_world_def
      unless_replayed_def replayCommand_def GetCatalogCommand_def disable_body_def lockOwn_def own_server_def
      GetServer_def sample_server_def locked_descriptor_def GetDescriptorForUpdate_def descriptor_key_def
      sample_descriptor_row_def DescriptorFromRow_def int64_def uint64_def disableLocked_def InsertReview_def
      review_row_def UpdateDescriptorState_def publish_descriptor_def nextEventRevision_def NextEventRevision_def
      Publish_def ListGrantsOfDescriptor_def sample_grant_row_def sort_singleton revokeIn_def lock_grant_def found_def
      GetGrantForUpdate_def GrantFromRow_def revokeLocked_def update_grant_def UpdateGrantBarrier_def BarrierParams_def
      revoking_def decide_def InsertGrantDecision_def record_command_def InsertCatalogCommand_def)



definition replayed_command :: CatalogCommand where
  "replayed_command =
     \<lparr>cc_TenantID = ''ten'', cc_CommandID = ''c9'', cc_CommandKind = ''review'', cc_RequestDigest = ''d'',
      cc_ServerID = ''s1'', cc_Revision = 1, cc_CreatedAt = None\<rparr>"


end
