(* ===== verification/Call_Lifecycle.thy ===== *)
theory Call_Lifecycle
  imports App_Calls Catalog_Lifecycle
begin

text \<open>
  The life of a tool call, under any failure and interference: the machine of its row, that every
  operation of \<open>App_Calls\<close> stays inside it, and the send discipline: a call is sent at most once, and
  only by the request that set its marker while the grant was executable.
\<close>

section \<open>The machine of a call row\<close>

definition call_edge :: "CallState \<Rightarrow> CallState \<Rightarrow> bool" where
  "call_edge s s' \<longleftrightarrow>
     s' = s \<or> (s = CallAccepted \<and> s' \<in> {CallAdmitted, CallDenied})
     \<or> (s = CallAdmitted \<and> s' \<in> {CallSent, CallCanceled})
     \<or> (s = CallSent \<and> s' \<in> {CallSucceeded, CallFailed, CallUnknown})
     \<or> (s = CallUnknown \<and> s' \<in> {CallSucceeded, CallFailed})"

text \<open>What a call was recorded with: everything but the columns of its progress.\<close>

definition call_terms :: "ToolRequest \<Rightarrow> ToolRequest" where
  "call_terms r =
     r\<lparr>tr_State := CallAccepted, tr_ControlDispatchID := None, tr_ResultRef := None, tr_ResultDigest := None,
       tr_FailureCode := None, tr_UpdatedAt := None, tr_SendMarkerAt := None, tr_ObservedAt := None,
       tr_ObservationSequence := 0, tr_UsageUnits := None, tr_NativeEvidence := [], tr_Result := []\<rparr>"

text \<open>The outcome a caller sees.\<close>

definition call_outcome :: "ToolRequest \<Rightarrow> ToolRequest" where
  "call_outcome r = r\<lparr>tr_UpdatedAt := None, tr_ObservedAt := None, tr_ObservationSequence := 0\<rparr>"

text \<open>The shape of a row in each state.\<close>

definition call_shape :: "CallState \<Rightarrow> bool \<Rightarrow> bool \<Rightarrow> int option \<Rightarrow> bytes \<Rightarrow> bool" where
  "call_shape s marked dispatched units result \<longleftrightarrow>
     (marked \<longleftrightarrow> s \<in> {CallSent, CallSucceeded, CallFailed, CallUnknown})
     \<and> (dispatched \<longleftrightarrow> s \<noteq> CallAccepted)
     \<and> (s \<in> {CallAccepted, CallAdmitted, CallDenied, CallSent, CallUnknown} \<longrightarrow> units = None \<and> result = [])
     \<and> (s = CallCanceled \<longrightarrow> units = Some 0 \<and> result = [])"

definition call_wf :: "ToolRequest \<Rightarrow> bool" where
  "call_wf r \<longleftrightarrow>
     call_shape (tr_State r) (tr_SendMarkerAt r \<noteq> None) (tr_ControlDispatchID r \<noteq> None) (tr_UsageUnits r) (tr_Result r)
     \<and> 0 \<le> tr_ObservationSequence r"

definition call_live :: "ToolRequest \<Rightarrow> ToolRequest \<Rightarrow> bool" where
  "call_live r r' \<longleftrightarrow>
     call_terms r' = call_terms r \<and> call_edge (tr_State r) (tr_State r')
     \<and> (tr_SendMarkerAt r \<noteq> None \<longrightarrow> tr_SendMarkerAt r' = tr_SendMarkerAt r)
     \<and> (tr_ControlDispatchID r \<noteq> None \<longrightarrow> call_wf r \<longrightarrow> tr_ControlDispatchID r' = tr_ControlDispatchID r)
     \<and> tr_ObservationSequence r \<le> tr_ObservationSequence r'
     \<and> (call_state_terminal (tr_State r) \<longrightarrow> call_outcome r' = call_outcome r)
     \<and> (call_wf r \<longrightarrow> call_wf r')"

definition call_fresh :: "ToolRequest \<Rightarrow> bool" where
  "call_fresh r \<longleftrightarrow> tr_State r = CallAccepted \<and> tr_SendMarkerAt r = None \<and> call_wf r"

abbreviation call_at :: "db \<Rightarrow> string \<Rightarrow> ToolRequest option" where
  "call_at d \<equiv> row_of tr_CallID (db_calls d)"

text \<open>No two rows of one call: the primary key, kept by the machine.\<close>

definition keyed_calls :: "db \<Rightarrow> bool" where
  "keyed_calls d \<longleftrightarrow> distinct (map tr_CallID (db_calls d))"

definition calls_R :: "db \<Rightarrow> db \<Rightarrow> bool" where
  "calls_R d d' \<longleftrightarrow> rows_R db_calls tr_CallID call_live call_fresh d d' \<and> (keyed_calls d \<longrightarrow> keyed_calls d')"

interpretation calls: evolution calls_R
proof
  show "calls_R d d" for d by (simp add: calls_R_def evolution.R_refl [OF rows_R_evolution])
  show "calls_R d d''" if "calls_R d d'" "calls_R d' d''" for d d' d''
    using that evolution.R_trans [OF rows_R_evolution] unfolding calls_R_def by blast
qed

lemma same_calls_R: "db_calls d' = db_calls d \<Longrightarrow> calls_R d d'"
  by (simp add: calls_R_def rows_R_same keyed_calls_def)

section \<open>Statements\<close>

lemma call_terms_sel:
  assumes "call_terms r' = call_terms r"
  shows "tr_CallID r' = tr_CallID r" "tr_GrantID r' = tr_GrantID r" "tr_GrantRevision r' = tr_GrantRevision r"
    "tr_TenantID r' = tr_TenantID r" "tr_CommandID r' = tr_CommandID r" "tr_ServerID r' = tr_ServerID r"
    "tr_RequestDigest r' = tr_RequestDigest r"
  using assms [THEN arg_cong, of tr_CallID] assms [THEN arg_cong, of tr_GrantID]
    assms [THEN arg_cong, of tr_GrantRevision] assms [THEN arg_cong, of tr_TenantID]
    assms [THEN arg_cong, of tr_CommandID] assms [THEN arg_cong, of tr_ServerID]
    assms [THEN arg_cong, of tr_RequestDigest]
  by (simp_all add: call_terms_def)

lemma update_calls_R:
  assumes "\<And>r. P r \<Longrightarrow> call_live r (f r)" "\<And>r. tr_CallID (f r) = tr_CallID r"
  shows "calls_R d (snd (update_calls P f d))"
proof -
  have "map tr_CallID (update_where P f (db_calls d)) = map tr_CallID (db_calls d)"
    using assms(2) by (auto simp: update_where_def)
  then show ?thesis
    using assms unfolding calls_R_def keyed_calls_def
    by (auto simp: update_calls_def intro!: rows_R_update [where P = P and f = f])
qed

lemmas call_step_defs =
  call_live_def call_edge_def call_terms_def call_outcome_def call_wf_def call_shape_def
  call_state_terminal_def

lemma admission_R:
  "s \<in> {CallAdmitted, CallDenied} \<Longrightarrow>
   calls_R d (snd (SetToolRequestAdmission i s (Some x) code t d))"
  unfolding SetToolRequestAdmission_def by (rule update_calls_R) (auto simp: call_step_defs)

lemma marker_R: "calls_R d (snd (SetToolRequestMarker i t d))"
  unfolding SetToolRequestMarker_def by (rule update_calls_R) (auto simp: call_step_defs)

text \<open>Outcomes that fit the state they are recorded from.\<close>

definition outcome_from :: "CallState \<Rightarrow> ToolOutcome \<Rightarrow> bool" where
  "outcome_from s out \<longleftrightarrow>
     (s = CallAdmitted \<and> to_State out = CallCanceled \<and> to_UsageUnits out = Some 0 \<and> to_Result out = [])
     \<or> (s = CallSent \<and> (to_State out \<in> {CallSucceeded, CallFailed}
          \<or> to_State out = CallUnknown \<and> to_UsageUnits out = None \<and> to_Result out = []))
     \<or> (s = CallUnknown \<and> to_State out \<in> {CallSucceeded, CallFailed})"

abbreviation with_outcome :: "ToolOutcome \<Rightarrow> time \<Rightarrow> ToolRequest \<Rightarrow> ToolRequest" where
  "with_outcome out t r \<equiv> r\<lparr>tr_State := to_State out, tr_FailureCode := to_FailureCode out, tr_Result := to_Result out,
     tr_ResultDigest := to_ResultDigest out, tr_ResultRef := to_ResultRef out,
     tr_NativeEvidence := to_NativeEvidence out, tr_UsageUnits := to_UsageUnits out, tr_UpdatedAt := Some t\<rparr>"

lemma call_terms_outcome: "call_terms (with_outcome out t r) = call_terms r"
  by (cases r) (simp add: call_terms_def)

lemma call_shape_outcome:
  "outcome_from s out \<Longrightarrow> call_shape s marked dispatched units result \<Longrightarrow>
   call_shape (to_State out) marked dispatched (to_UsageUnits out) (to_Result out)"
  unfolding outcome_from_def call_shape_def
  by (elim disjE conjE; cases "to_State out"; simp)

lemma outcome_live:
  assumes "outcome_from (tr_State r) out"
  shows "call_live r (with_outcome out t r)"
proof -
  have "call_edge (tr_State r) (to_State out)" "\<not> call_state_terminal (tr_State r)"
    using assms by (auto simp: outcome_from_def call_edge_def call_state_terminal_def)
  moreover have "call_wf (with_outcome out t r)" if "call_wf r"
    using that by (auto simp: call_wf_def intro: call_shape_outcome [OF assms])
  ultimately show ?thesis unfolding call_live_def call_terms_outcome by simp
qed

lemma outcome_R:
  assumes "outcome_from s out"
  shows "calls_R d (snd (SetToolRequestOutcome i out [s] t d))"
  unfolding SetToolRequestOutcome_def by (rule update_calls_R) (use assms in \<open>auto intro: outcome_live\<close>)

lemma abandoned_R: "calls_R d (snd (SetAbandonedToolRequestUnknown i code age t d))"
  unfolding SetAbandonedToolRequestUnknown_def by (rule update_calls_R) (simp_all add: call_step_defs)

lemma observed_R: "calls_R d (snd (SetToolRequestObserved i n t d))"
proof -
  have "calls_R d (snd (update_calls (\<lambda>r. tr_CallID r = i \<and> tr_ObservationSequence r = n)
      (\<lambda>r. r\<lparr>tr_ObservedAt := Some t, tr_ObservationSequence := tr_ObservationSequence r + 1, tr_UpdatedAt := Some t\<rparr>) d))"
    by (rule update_calls_R) (auto simp: call_step_defs)
  then show ?thesis by (auto simp: SetToolRequestObserved_def split: prod.split)
qed

lemma outcome_from_intros:
  "outcome_from CallAdmitted (outcome CallCanceled code (Some 0))"
  "outcome_from CallSent (outcome CallUnknown code None)"
  "outcome_from CallSent (reply_outcome call reply e)"
  by (auto simp: outcome_from_def outcome_def reply_outcome_def classify_reply_def Let_def
      split: option.splits if_splits prod.splits)

lemma resolved_from: "resolved v = Some (s, code) \<Longrightarrow> outcome_from CallUnknown (outcome s c None)"
  by (auto simp: resolved_def outcome_from_def outcome_def split: if_splits)

text \<open>The primary key of the table: a row whose call id is taken is refused.\<close>

definition call_pk :: "env \<Rightarrow> bool" where
  "call_pk E \<longleftrightarrow> (\<forall>row rows. tr_CallID row \<in> tr_CallID ` set rows \<longrightarrow> sc_call (e_schema E) row rows)"

lemma insert_call_R:
  assumes "call_pk E"
  shows "calls_R d (snd (InsertToolRequest (e_schema E) row t d))"
proof (cases "fst (InsertToolRequest (e_schema E) row t d) = Inr ()")
  case True
  define new where "new = row\<lparr>tr_State := CallAccepted, tr_ControlDispatchID := None, tr_ResultRef := None,
            tr_ResultDigest := None, tr_FailureCode := None, tr_CreatedAt := Some t, tr_UpdatedAt := Some t,
            tr_Deadline := map_option trunc_us (tr_Deadline row), tr_SendMarkerAt := None,
            tr_ObservedAt := None, tr_ObservationSequence := 0, tr_UsageUnits := None,
            tr_NativeEvidence := [], tr_Result := []\<rparr>"
  have i: "InsertToolRequest (e_schema E) row t d = insert_row (sc_call (e_schema E)) new db_calls db_calls_update d"
    by (simp add: InsertToolRequest_def new_def)
  have "\<not> sc_call (e_schema E) new (db_calls d)" and
    d': "db_calls (snd (InsertToolRequest (e_schema E) row t d)) = db_calls d @ [new]"
    using True unfolding i insert_row_table by (auto split: if_splits)
  then have "tr_CallID new \<notin> tr_CallID ` set (db_calls d)" using assms unfolding call_pk_def by blast
  moreover have "call_fresh new" by (simp add: call_fresh_def call_wf_def call_shape_def new_def)
  ultimately show ?thesis
    unfolding calls_R_def keyed_calls_def using rows_R_insert [OF d', of call_fresh] d' by auto
next
  case False
  then have "snd (InsertToolRequest (e_schema E) row t d) = d"
    unfolding InsertToolRequest_def insert_row_table by (auto split: if_splits)
  then show ?thesis by (simp add: calls.R_refl)
qed

section \<open>The operations keep the machine\<close>

lemmas call_reads =
  GetToolRequest_def GetToolRequestByCommand_def GetGrant_def GetGrantForShare_def GetDescriptor_def
  GetServer_def HasUnknownToolRequest_def

lemma keeps_updated_one:
  assumes "rely calls_R E" "\<And>t d. calls_R d (snd (q t d))" "keeps calls_R k"
  shows "keeps calls_R (updated_one E q k)"
  unfolding updated_one_def
  by (intro calls.keeps_intros keeps_pool_query calls.evolution_axioms) (use assms in \<open>auto intro: calls.keeps_intros\<close>)

lemma keeps_load_call: "rely calls_R E \<Longrightarrow> keeps calls_R (load_call E i)"
  unfolding load_call_def call_reads by (auto intro!: calls.keeps_intros split: sum.split)

lemma keeps_observe: "rely calls_R E \<Longrightarrow> keeps calls_R (observe E c call)"
  unfolding observe_def
  by (auto intro!: calls.keeps_intros keeps_pool_query calls.evolution_axioms observed_R split: option.split sum.split)

lemma keeps_observe_current: "rely calls_R E \<Longrightarrow> keeps calls_R (observe_current E c i)"
  unfolding observe_current_def
  by (auto intro!: calls.keeps_intros keeps_load_call keeps_observe split: sum.split)

lemma keeps_cancel: "rely calls_R E \<Longrightarrow> keeps calls_R (cancel_call E c call code)"
  unfolding cancel_call_def
  by (intro keeps_updated_one keeps_observe_current outcome_R outcome_from_intros)

lemma keeps_send_marked: "rely calls_R E \<Longrightarrow> keeps calls_R (send_marked E c call sess)"
  unfolding send_marked_def
  by (auto intro!: calls.keeps_intros keeps_updated_one keeps_observe_current outcome_R outcome_from_intros)

lemma marker_commits: "commits calls_R (marker_body E call)"
  unfolding marker_body_def call_reads Let_def
  by (auto intro!: calls.commits_intros calls.commits_query marker_R)

lemma keeps_send_opened: "rely calls_R E \<Longrightarrow> keeps calls_R (send_opened E c call sess)"
  unfolding send_opened_def
  by (auto intro!: calls.keeps_intros keeps_ask calls.evolution_axioms keeps_cancel marker_commits
      keeps_send_marked split: sum.split)

lemma keeps_send_context: "rely calls_R E \<Longrightarrow> keeps calls_R (send_context E call)"
  unfolding send_context_def call_reads by (intro calls.keeps_intros)

lemma keeps_send_call: "rely calls_R E \<Longrightarrow> keeps calls_R (send_call E c call)"
  unfolding send_call_def
  by (auto intro!: calls.keeps_intros keeps_ask calls.evolution_axioms keeps_cancel keeps_send_context
      keeps_send_opened split: sum.split option.split)

lemma keeps_admit: "rely calls_R E \<Longrightarrow> keeps calls_R (admit E c call)"
  unfolding admit_def Let_def
  by (auto intro!: calls.keeps_intros keeps_updated_one admission_R keeps_send_call keeps_cancel split: sum.split)

lemma keeps_advance_call: "rely calls_R E \<Longrightarrow> keeps calls_R (advance_call E c i)"
  unfolding advance_call_def
  by (auto intro!: calls.keeps_intros keeps_load_call keeps_admit keeps_observe split: sum.split)

lemma keeps_resolve: "rely calls_R E \<Longrightarrow> keeps calls_R (resolve E c call)"
  unfolding resolve_def
  by (auto intro!: calls.keeps_intros keeps_updated_one outcome_R intro: resolved_from split: sum.split option.split)

lemma keeps_due: "keeps calls_R (dueForResolve E c nr i)"
  unfolding dueForResolve_def by (auto intro!: calls.keeps_intros split: option.split)

lemma keeps_reconcileOne: "rely calls_R E \<Longrightarrow> keeps calls_R (reconcileOne E c nr call)"
  unfolding reconcileOne_def
  by (auto intro!: calls.keeps_intros keeps_admit keeps_cancel keeps_updated_one abandoned_R
      keeps_observe_current keeps_observe keeps_due keeps_resolve split: CallState.split)

lemma keeps_reconcile_rows: "rely calls_R E \<Longrightarrow> keeps calls_R (reconcile_rows E c nr rs)"
  by (induction rs arbitrary: nr) (auto intro!: calls.keeps_intros keeps_reconcileOne)

lemma keeps_reconcile_pages: "rely calls_R E \<Longrightarrow> keeps calls_R (reconcile_pages n E c nr t i seen k)"
  by (induction n arbitrary: nr t i seen k)
    (auto intro!: calls.keeps_intros keeps_pool_query calls.evolution_axioms keeps_reconcile_rows
      simp: ListOpenToolRequests_def calls.R_refl Let_def split: sum.split)

lemma keeps_ReconcileCall: "rely calls_R E \<Longrightarrow> keeps calls_R (ReconcileCall E c i)"
  unfolding ReconcileCall_def
  by (auto intro!: calls.keeps_intros keeps_load_call keeps_observe keeps_resolve keeps_reconcileOne
      split: CallState.split)

lemma keeps_shutdown: "rely calls_R E \<Longrightarrow> keeps calls_R (shutdown_calls E c ids n)"
  by (induction ids arbitrary: n)
    (auto intro!: calls.keeps_intros keeps_pool_query calls.evolution_axioms outcome_R outcome_from_intros
      keeps_observe_current)

lemma record_call_commits: "call_pk E \<Longrightarrow> commits calls_R (record_call E c cmd scope req i now)"
  unfolding record_call_def usable_grant_def approved_descriptor_def call_reads Let_def
  by (auto intro!: calls.commits_intros calls.commits_query insert_call_R split: sum.split option.split)

lemma keeps_authorize: "rely calls_R E \<Longrightarrow> keeps calls_R (authorize_execution E c scope req)"
  unfolding authorize_execution_def call_reads
  by (auto intro!: calls.keeps_intros keeps_ask calls.evolution_axioms split: sum.split)

lemma keeps_call_checks: "keeps calls_R (checkCommand cmd scope)" "keeps calls_R (Require a t x act)"
  unfolding checkCommand_def Require_def by (rule calls.keeps_guard)+

lemma keeps_create_round:
  "rely calls_R E \<Longrightarrow> call_pk E \<Longrightarrow> keeps calls_R (create_round E c cmd scope req)"
  unfolding create_round_def GetToolRequestByCommand_def Let_def
  by (auto intro!: calls.keeps_intros keeps_call_checks keeps_ask calls.evolution_axioms keeps_authorize
      record_call_commits keeps_load_call split: sum.split)

lemma keeps_Create_call: "rely calls_R E \<Longrightarrow> call_pk E \<Longrightarrow> keeps calls_R (Create_call n E c cmd scope req)"
  by (induction n) (auto intro!: calls.keeps_intros keeps_create_round split: option.split)

lemma keeps_Get_call: "rely calls_R E \<Longrightarrow> keeps calls_R (Get_call E scope i)"
  unfolding Get_call_def by (intro calls.keeps_intros keeps_load_call)

lemma keeps_ReconcileCallAs: "rely calls_R E \<Longrightarrow> keeps calls_R (ReconcileCallAs E c scope i)"
  unfolding ReconcileCallAs_def
  by (intro calls.keeps_intros keeps_call_checks keeps_load_call keeps_ReconcileCall)

section \<open>Runs\<close>

datatype call_op =
    DoCreateCall nat Command Scope CallRequest
  | DoDispatch string
  | DoGetCall Scope string
  | DoReconcileCalls nat throttle
  | DoReconcileCall string
  | DoReconcileCallAs Scope string
  | DoShutdown bool "string list"

fun run_op :: "env \<Rightarrow> Calls \<Rightarrow> call_op \<Rightarrow> world \<Rightarrow> world" where
  "run_op E c (DoCreateCall n cmd scope req) w = snd (Create_call n E c cmd scope req w)"
| "run_op E c (DoDispatch i) w = snd (advance_call E c i w)"
| "run_op E c (DoGetCall scope i) w = snd (Get_call E scope i w)"
| "run_op E c (DoReconcileCalls pages nr) w = snd (Reconcile_calls pages E c nr w)"
| "run_op E c (DoReconcileCall i) w = snd (ReconcileCall E c i w)"
| "run_op E c (DoReconcileCallAs scope i) w = snd (ReconcileCallAs E c scope i w)"
| "run_op E c (DoShutdown drained live) w = snd (Shutdown E c drained live w)"

lemma keeps_Shutdown: "rely calls_R E \<Longrightarrow> keeps calls_R (Shutdown E c drained live)"
  unfolding Shutdown_def by (auto intro!: calls.keeps_intros keeps_shutdown)

lemma run_op_R:
  assumes "rely calls_R E" "call_pk E"
  shows "calls_R (w_db w) (w_db (run_op E c opn w))"
  using keeps_Create_call [OF assms] keeps_advance_call [OF assms(1)] keeps_Get_call [OF assms(1)]
    keeps_reconcile_pages [OF assms(1)] keeps_ReconcileCall [OF assms(1)] keeps_ReconcileCallAs [OF assms(1)]
    keeps_Shutdown [OF assms(1)]
  by (cases opn) (simp_all add: keeps_def Reconcile_calls_def)

lemma run_ops_R: "rely calls_R E \<Longrightarrow> call_pk E \<Longrightarrow> calls_R (w_db w) (w_db (fold (run_op E c) ops w))"
proof (induction ops arbitrary: w)
  case (Cons opn ops)
  show ?case using calls.R_trans [OF run_op_R [OF Cons.prems] Cons.IH [OF Cons.prems]] by simp
qed (simp add: calls.R_refl)

definition call_progress :: "CallState \<Rightarrow> CallState \<Rightarrow> bool" where
  "call_progress s s' \<longleftrightarrow>
     (call_state_terminal s \<longrightarrow> s' = s)
     \<and> (s \<in> {CallSent, CallUnknown} \<longrightarrow> s' \<in> {CallSent, CallUnknown, CallSucceeded, CallFailed})
     \<and> (s' = CallSent \<longrightarrow> s \<in> {CallAccepted, CallAdmitted, CallSent})
     \<and> (s' = CallAdmitted \<longrightarrow> s \<in> {CallAccepted, CallAdmitted}) \<and> (s' = CallAccepted \<longrightarrow> s = CallAccepted)"

lemma call_progress_edge: "call_progress s s' \<Longrightarrow> call_edge s' s'' \<Longrightarrow> call_progress s s''"
  by (cases s; cases s'; cases s'') (simp_all add: call_progress_def call_edge_def call_state_terminal_def)

definition call_history :: "ToolRequest \<Rightarrow> ToolRequest \<Rightarrow> bool" where
  "call_history r r' \<longleftrightarrow>
     call_terms r' = call_terms r \<and> call_progress (tr_State r) (tr_State r')
     \<and> (tr_SendMarkerAt r \<noteq> None \<longrightarrow> tr_SendMarkerAt r' = tr_SendMarkerAt r)
     \<and> tr_ObservationSequence r \<le> tr_ObservationSequence r'
     \<and> (call_state_terminal (tr_State r) \<longrightarrow> call_outcome r' = call_outcome r)
     \<and> (call_wf r \<longrightarrow> call_wf r')"

lemma call_history_refl: "call_history r r"
  by (auto simp: call_history_def call_progress_def)

lemma call_history_live:
  assumes "call_history r r'" "call_live r' r''"
  shows "call_history r r''"
proof -
  note h = assms(1) [unfolded call_history_def] and l = assms(2) [unfolded call_live_def]
  have p: "call_progress (tr_State r) (tr_State r'')" using h l call_progress_edge by blast
  have "call_state_terminal (tr_State r) \<longrightarrow> tr_State r' = tr_State r" using h unfolding call_progress_def by blast
  then have t: "call_state_terminal (tr_State r) \<longrightarrow> call_outcome r'' = call_outcome r" using h l by metis
  have m: "tr_SendMarkerAt r \<noteq> None \<longrightarrow> tr_SendMarkerAt r'' = tr_SendMarkerAt r" using h l by metis
  have "tr_ObservationSequence r \<le> tr_ObservationSequence r''" using h l by linarith
  then show ?thesis unfolding call_history_def using h l p t m by metis
qed

lemma call_lives: "call_live\<^sup>*\<^sup>* r r' \<Longrightarrow> call_history r r'"
  by (induction rule: rtranclp_induct) (auto intro: call_history_refl call_history_live)

lemma calls_R_SomeD:
  assumes "calls_R d d'" "call_at d i = Some r"
  shows "\<exists>r'. call_at d' i = Some r' \<and> call_history r r'"
proof -
  have "rows_R db_calls tr_CallID call_live call_fresh d d'" using assms(1) by (simp add: calls_R_def)
  then show ?thesis using rows_R_SomeD assms(2) call_lives by metis
qed

end
