(* ===== verification/Call_Sends.thy ===== *)
theory Call_Sends
  imports Call_Lifecycle
begin

text \<open>
  The send discipline.  An effect outside the database happens at most once per key if every
  occurrence follows a claim, a committed change of the database that cannot be made twice; the
  locale \<open>claims\<close> shows it for sequences of operations.  Its interpretation is the send of a tool
  call, claimed by the marker transaction under an executable grant.
\<close>

section \<open>Effects under a claim\<close>

definition quiet :: "('i \<Rightarrow> ext_event) \<Rightarrow> 'a act \<Rightarrow> bool" where
  "quiet ev m \<longleftrightarrow> (\<forall>w. \<exists>new. w_log (snd (m w)) = w_log w @ new \<and> (\<forall>i. ev i \<notin> set new))"

definition once_claimed ::
  "(db \<Rightarrow> db \<Rightarrow> bool) \<Rightarrow> ('i \<Rightarrow> ext_event) \<Rightarrow> (db \<Rightarrow> db \<Rightarrow> 'i \<Rightarrow> bool) \<Rightarrow> ext_event list \<Rightarrow> 'i \<Rightarrow> db \<Rightarrow> db \<Rightarrow> bool" where
  "once_claimed R ev claim new i d d' \<longleftrightarrow>
     count_list new (ev i) = 0
     \<or> (count_list new (ev i) = 1 \<and> (\<exists>d0 d1. R d d0 \<and> claim d0 d1 i \<and> R d1 d'))"

text \<open>From a state with \<open>P\<close>, the operation stays inside \<open>R\<close> and every effect it has is claimed.\<close>

definition disciplined ::
  "(db \<Rightarrow> db \<Rightarrow> bool) \<Rightarrow> ('i \<Rightarrow> ext_event) \<Rightarrow> (db \<Rightarrow> db \<Rightarrow> 'i \<Rightarrow> bool) \<Rightarrow> (db \<Rightarrow> bool) \<Rightarrow> 'a act \<Rightarrow> bool" where
  "disciplined R ev claim P m \<longleftrightarrow>
     (\<forall>w. P (w_db w) \<longrightarrow> R (w_db w) (w_db (snd (m w))) \<and>
        (\<exists>new. w_log (snd (m w)) = w_log w @ new
           \<and> (\<forall>i. once_claimed R ev claim new i (w_db w) (w_db (snd (m w))))))"

lemma quietI: "(\<And>w. \<exists>new. w_log (snd (m w)) = w_log w @ new \<and> (\<forall>i. ev i \<notin> set new)) \<Longrightarrow> quiet ev m"
  by (simp add: quiet_def)

lemma quiet_same: "(\<And>w. w_log (snd (m w)) = w_log w) \<Longrightarrow> quiet ev m"
  by (simp add: quiet_def)

lemma quiet_basic:
  "quiet ev (ok x)" "quiet ev (fail e)" "quiet ev (lift r)" "quiet ev (guard b e)" "quiet ev (check c)"
  "quiet ev (clock_now E)" "quiet ev (new_uuid E)" "quiet ev (ask f)" "quiet ev (query E q)" "quiet ev (pool_query E q)"
  by (auto intro!: quiet_same simp: act_defs ask_def query_def pool_query_def interfere_def
      split: option.split sum.split prod.split)

lemma quiet_ext: "(\<And>i. ev i \<noteq> x) \<Longrightarrow> quiet ev (ext x f)"
  by (auto simp: quiet_def ext_def)

lemma quiet_then:
  assumes "quiet ev m" "\<And>r. quiet ev (f r)" "m w = (r, w1)"
  shows "\<exists>new. w_log (snd (f r w1)) = w_log w @ new \<and> (\<forall>i. ev i \<notin> set new)"
proof -
  obtain n1 where 1: "w_log w1 = w_log w @ n1" "\<forall>i. ev i \<notin> set n1"
    using assms(1,3) unfolding quiet_def by (metis snd_conv)
  obtain n2 where 2: "w_log (snd (f r w1)) = w_log w1 @ n2" "\<forall>i. ev i \<notin> set n2"
    using assms(2) unfolding quiet_def by metis
  show ?thesis using 1 2 by (intro exI [of _ "n1 @ n2"]) auto
qed

lemma quiet_recover:
  assumes "quiet ev m" "\<And>r. quiet ev (f r)"
  shows "quiet ev (recover m f)"
proof (rule quietI)
  fix w
  obtain r w1 where m: "m w = (r, w1)" by force
  show "\<exists>new. w_log (snd (recover m f w)) = w_log w @ new \<and> (\<forall>i. ev i \<notin> set new)"
    using quiet_then [OF assms m] m by (simp add: recover_def)
qed

lemma seq_recover: "seq m f = recover m (\<lambda>r. case r of Inl e \<Rightarrow> fail e | Inr x \<Rightarrow> f x)"
  by (rule ext) (auto simp: seq_def recover_def fail_def split: prod.split sum.split)

lemma quiet_seq: "quiet ev m \<Longrightarrow> (\<And>x. quiet ev (f x)) \<Longrightarrow> quiet ev (seq m f)"
  unfolding seq_recover by (rule quiet_recover) (auto intro: quiet_basic split: sum.split)

lemma quiet_InTx:
  assumes "quiet ev body"
  shows "quiet ev (InTx E body)"
proof (rule quietI)
  fix w
  have "w_log (interfere E w) = w_log w" by (simp add: interfere_def)
  then obtain new where new: "w_log (snd (body (interfere E w))) = w_log w @ new" "\<forall>i. ev i \<notin> set new"
    using assms unfolding quiet_def by metis
  obtain r w1 where b: "body (interfere E w) = (r, w1)" by force
  show "\<exists>new. w_log (snd (InTx E body w)) = w_log w @ new \<and> (\<forall>i. ev i \<notin> set new)"
    using new b \<open>w_log (interfere E w) = w_log w\<close>
    by (cases r) (auto simp: InTx_def Let_def split: commit_fate.splits)
qed

lemmas quiet_intros = quiet_basic quiet_seq quiet_recover quiet_InTx

locale claims = evolution R for R :: "db \<Rightarrow> db \<Rightarrow> bool" +
  fixes ev :: "'i \<Rightarrow> ext_event"
    and claim :: "db \<Rightarrow> db \<Rightarrow> 'i \<Rightarrow> bool"
  assumes claim_R: "claim d d' i \<Longrightarrow> R d d'"
    and claim_once: "claim d0 d1 i \<Longrightarrow> R d1 d2 \<Longrightarrow> \<not> claim d2 d3 i"
begin

text \<open>Two pieces of history: a key claimed in the first is not claimed in the second.\<close>

lemma once_claimed_append:
  assumes "once_claimed R ev claim n1 i d d'" "once_claimed R ev claim n2 i d' d''" "R d d'" "R d' d''"
  shows "once_claimed R ev claim (n1 @ n2) i d d''"
proof -
  consider "count_list n1 (ev i) = 0" | "count_list n2 (ev i) = 0" "count_list n1 (ev i) = 1"
    | "count_list n1 (ev i) = 1" "count_list n2 (ev i) = 1"
    using assms(1,2) unfolding once_claimed_def by metis
  then show ?thesis
  proof cases
    case 1
    then show ?thesis using assms(2,3) R_trans unfolding once_claimed_def by fastforce
  next
    case 2
    then obtain d0 d1 where "R d d0" "claim d0 d1 i" "R d1 d'" using assms(1) unfolding once_claimed_def by auto
    then show ?thesis using 2 R_trans [OF _ assms(4)] unfolding once_claimed_def by auto
  next
    case 3
    then obtain a b a' b' where "claim a b i" "R b d'" "R d' a'" "claim a' b' i"
      using assms(1,2) unfolding once_claimed_def by auto
    then show ?thesis using claim_once R_trans by blast
  qed
qed

lemma disciplined_quiet: "quiet ev m \<Longrightarrow> keeps R m \<Longrightarrow> disciplined R ev claim P m"
  unfolding disciplined_def quiet_def keeps_def once_claimed_def by (metis count_list_0_iff)

lemma disciplined_weaken: "disciplined R ev claim P m \<Longrightarrow> (\<And>d. Q d \<Longrightarrow> P d) \<Longrightarrow> disciplined R ev claim Q m"
  unfolding disciplined_def by blast

lemma disciplined_then:
  assumes "disciplined R ev claim P m" "P (w_db w)" "m w = (r, w1)"
    "disciplined R ev claim Q f" "Q (w_db w1)"
  shows "R (w_db w) (w_db (snd (f w1))) \<and>
    (\<exists>new. w_log (snd (f w1)) = w_log w @ new \<and> (\<forall>i. once_claimed R ev claim new i (w_db w) (w_db (snd (f w1)))))"
proof -
  obtain n1 where 1: "R (w_db w) (w_db w1)" "w_log w1 = w_log w @ n1"
      "\<And>i. once_claimed R ev claim n1 i (w_db w) (w_db w1)"
    using assms(1,2,3) unfolding disciplined_def by (metis snd_conv)
  obtain n2 where 2: "R (w_db w1) (w_db (snd (f w1)))" "w_log (snd (f w1)) = w_log w1 @ n2"
      "\<And>i. once_claimed R ev claim n2 i (w_db w1) (w_db (snd (f w1)))"
    using assms(4,5) unfolding disciplined_def by metis
  show ?thesis using 1 2 once_claimed_append R_trans by (metis append_assoc)
qed

text \<open>\<open>Q\<close> is what is known of the state when the first operation answered.\<close>

lemma disciplined_recover_post:
  assumes "disciplined R ev claim P m" "\<And>r. disciplined R ev claim (Q r) (f r)"
    and "\<And>w r w1. P (w_db w) \<Longrightarrow> m w = (r, w1) \<Longrightarrow> Q r (w_db w1)"
  shows "disciplined R ev claim P (recover m f)"
  unfolding disciplined_def
proof (intro allI impI)
  fix w :: world assume P: "P (w_db w)"
  obtain r w1 where m: "m w = (r, w1)" by force
  show "R (w_db w) (w_db (snd (recover m f w))) \<and>
      (\<exists>new. w_log (snd (recover m f w)) = w_log w @ new
         \<and> (\<forall>i. once_claimed R ev claim new i (w_db w) (w_db (snd (recover m f w)))))"
    using disciplined_then [OF assms(1) P m assms(2), of r] assms(3) [OF P m] m by (simp add: recover_def)
qed

lemma disciplined_recover:
  assumes "disciplined R ev claim P m" "\<And>r. disciplined R ev claim P (f r)" "\<And>d d'. P d \<Longrightarrow> R d d' \<Longrightarrow> P d'"
  shows "disciplined R ev claim P (recover m f)"
proof (rule disciplined_recover_post [OF assms(1), of "\<lambda>_. P"])
  show "P (w_db w1)" if "P (w_db w)" "m w = (r, w1)" for w r w1
    using assms(1,3) that unfolding disciplined_def by (metis snd_conv)
qed (rule assms(2))

lemma disciplined_seq:
  assumes "disciplined R ev claim P m" "\<And>x. disciplined R ev claim P (f x)" "\<And>d d'. P d \<Longrightarrow> R d d' \<Longrightarrow> P d'"
  shows "disciplined R ev claim P (seq m f)"
  unfolding seq_recover
  by (rule disciplined_recover [OF assms(1) _ assms(3)])
    (auto split: sum.split intro: assms(2) disciplined_quiet quiet_basic keeps_fail)

end

section \<open>The marker claims the send\<close>

text \<open>
  The marker transaction of a call: the call is admitted and unmarked, its grant is executable at
  the revision the call was recorded under, and the transaction sets the marker.
\<close>

definition marks :: "db \<Rightarrow> db \<Rightarrow> string \<Rightarrow> bool" where
  "marks d d' i \<longleftrightarrow>
     (\<exists>r gr now t. call_at d i = Some r \<and> tr_State r = CallAdmitted \<and> tr_SendMarkerAt r = None
        \<and> grant_at d (tr_GrantID r) = Some gr \<and> Executable (GrantFromRow gr) now
        \<and> uint64 (gw_Revision gr) = uint64 (tr_GrantRevision r)
        \<and> d' = snd (SetToolRequestMarker i t d))"

lemma marked_row:
  assumes "call_at d i = Some r" "tr_State r = CallAdmitted" "tr_SendMarkerAt r = None"
  shows "\<exists>r'. call_at (snd (SetToolRequestMarker i t d)) i = Some r' \<and> tr_SendMarkerAt r' = Some t"
  using assms row_of_key [OF assms(1)]
  by (auto simp: SetToolRequestMarker_def update_calls_def row_of_update)

interpretation sends: claims calls_R EvSend marks
proof
  show "calls_R d d'" if "marks d d' i" for d d' i using that marker_R by (auto simp: marks_def)
  fix d0 d1 d2 d3 i
  assume m: "marks d0 d1 i" and R: "calls_R d1 d2"
  obtain r' t where r': "call_at d1 i = Some r'" "tr_SendMarkerAt r' = Some t"
    using m marked_row unfolding marks_def by blast
  obtain r'' where "call_at d2 i = Some r''" "call_history r' r''" using calls_R_SomeD [OF R r'(1)] by blast
  then show "\<not> marks d2 d3 i" using r'(2) by (auto simp: marks_def call_history_def)
qed

text \<open>What an operation that holds a call knows of its row.\<close>

definition snapshot :: "Call \<Rightarrow> db \<Rightarrow> bool" where
  "snapshot call d \<longleftrightarrow> keyed_calls d \<and>
     (\<exists>r. call_at d (c_CallID call) = Some r \<and> c_GrantID call = tr_GrantID r
        \<and> c_GrantRevision call = uint64 (tr_GrantRevision r))"

lemma snapshot_stable:
  assumes "snapshot call d" "calls_R d d'"
  shows "snapshot call d'"
proof -
  obtain r where r: "call_at d (c_CallID call) = Some r" "c_GrantID call = tr_GrantID r"
      "c_GrantRevision call = uint64 (tr_GrantRevision r)"
    using assms(1) unfolding snapshot_def by blast
  obtain r' where r': "call_at d' (c_CallID call) = Some r'" "call_terms r' = call_terms r"
    using calls_R_SomeD [OF assms(2) r(1)] unfolding call_history_def by blast
  show ?thesis
    using assms r r'(1) call_terms_sel [OF r'(2)] unfolding snapshot_def calls_R_def by auto
qed

lemma keyed_stable: "keyed_calls d \<Longrightarrow> calls_R d d' \<Longrightarrow> keyed_calls d'"
  by (simp add: calls_R_def)

lemma keyed_row_of: "keyed_calls d \<Longrightarrow> r \<in> set (db_calls d) \<Longrightarrow> call_at d (tr_CallID r) = Some r"
  unfolding keyed_calls_def row_of_def
  by (induction "db_calls d" arbitrary: d) (auto simp: find_Some_iff in_set_conv_nth distinct_conv_nth)

abbreviation "sends_once \<equiv> disciplined calls_R EvSend marks"

lemma quiet_load_call: "quiet EvSend (load_call E i)"
  unfolding load_call_def by (auto intro!: quiet_intros split: sum.split)

lemma quiet_observe: "quiet EvSend (observe E c call)"
  unfolding observe_def by (auto intro!: quiet_intros quiet_ext split: sum.split option.split)

lemma quiet_observe_current: "quiet EvSend (observe_current E c i)"
  unfolding observe_current_def by (auto intro!: quiet_intros quiet_load_call quiet_observe split: sum.split)

lemma quiet_updated_one: "quiet EvSend k \<Longrightarrow> quiet EvSend (updated_one E q k)"
  unfolding updated_one_def by (auto intro!: quiet_intros)

lemma quiet_cancel: "quiet EvSend (cancel_call E c call code)"
  unfolding cancel_call_def by (intro quiet_updated_one quiet_observe_current)

lemma quiet_marker: "quiet EvSend (marker_body E call)"
  unfolding marker_body_def Let_def by (auto intro!: quiet_intros)

lemma quiet_send_context: "quiet EvSend (send_context E call)"
  unfolding send_context_def by (intro quiet_intros)

lemma quiet_resolve: "quiet EvSend (resolve E c call)"
  unfolding resolve_def by (auto intro!: quiet_intros quiet_ext quiet_updated_one split: sum.split option.split)

lemma quiet_due: "quiet EvSend (dueForResolve E c nr i)"
  unfolding dueForResolve_def by (auto intro!: quiet_intros split: option.split)

section \<open>The operations send under the claim\<close>

lemma marker_body_True:
  assumes "marker_body E call w = (Inr True, w')"
  shows "\<exists>gr now t. grant_at (w_db w) (c_GrantID call) = Some gr \<and> g_Revision (GrantFromRow gr) = c_GrantRevision call
    \<and> Executable (GrantFromRow gr) now \<and> SetToolRequestMarker (c_CallID call) t (w_db w) = (Inr 1, w_db w')"
proof -
  obtain gr where gr: "grant_at (w_db w) (c_GrantID call) = Some gr"
    and rest: "(if g_Revision (GrantFromRow gr) \<noteq> c_GrantRevision call then ok False
      else seq (clock_now E) (\<lambda>now. if \<not> Executable (GrantFromRow gr) now then ok False
        else seq (query E (SetToolRequestMarker (c_CallID call))) (\<lambda>n. ok (n = 1)))) (tick w) = (Inr True, w')"
    using assms unfolding marker_body_def GetGrantForShare_def Let_def seq_Inr [of "query E (read f)" for f]
      query_read_Inr one_row_row_of by blast
  then have "g_Revision (GrantFromRow gr) = c_GrantRevision call"
    and 2: "\<exists>now w1. Executable (GrantFromRow gr) now \<and> w_db w1 = w_db w
      \<and> seq (query E (SetToolRequestMarker (c_CallID call))) (\<lambda>n. ok (n = 1)) w1 = (Inr True, w')"
    by (auto simp: seq_Inr [of "clock_now E"] split: if_splits intro!: exI [of _ "tick (tick w)"])
  moreover have "\<exists>t. SetToolRequestMarker (c_CallID call) t (w_db w) = (Inr 1, w_db w')"
    using 2 by (auto simp: seq_Inr query_Inr)
  ultimately show ?thesis using gr by blast
qed

lemma marker_claims:
  assumes "InTx E (marker_body E call) w = (Inr True, w1)" "snapshot call (w_db (interfere E w))"
  shows "marks (w_db (interfere E w)) (w_db w1) (c_CallID call)"
proof -
  let ?d = "w_db (interfere E w)"
  obtain r where r: "call_at ?d (c_CallID call) = Some r" "c_GrantID call = tr_GrantID r"
      "c_GrantRevision call = uint64 (tr_GrantRevision r)" and keyed: "keyed_calls ?d"
    using assms(2) unfolding snapshot_def by blast
  obtain w2 where b: "marker_body E call (interfere E w) = (Inr True, w2)" "w1 = tick w2"
    using InTx_atomic(2) [OF assms(1) refl] by blast
  obtain gr now t where gr: "grant_at ?d (c_GrantID call) = Some gr" "g_Revision (GrantFromRow gr) = c_GrantRevision call"
      "Executable (GrantFromRow gr) now" and n: "SetToolRequestMarker (c_CallID call) t ?d = (Inr 1, w_db w2)"
    using marker_body_True [OF b(1)] by blast
  have "filter (\<lambda>r. tr_CallID r = c_CallID call \<and> tr_State r = CallAdmitted \<and> tr_SendMarkerAt r = None) (db_calls ?d) \<noteq> []"
    using n by (auto simp: SetToolRequestMarker_def update_calls_def count_where_def)
  then obtain r' where r': "r' \<in> set (db_calls ?d)" "tr_CallID r' = c_CallID call" "tr_State r' = CallAdmitted" "tr_SendMarkerAt r' = None"
    by (auto simp: filter_empty_conv)
  then have "r' = r" using keyed_row_of [OF keyed r'(1)] r(1) by simp
  then show ?thesis
    unfolding marks_def using r r' gr n b(2) by (intro exI [of _ r] exI [of _ gr] exI [of _ now] exI [of _ t]) auto
qed

lemma send_marked_log:
  "\<exists>new. w_log (snd (send_marked E c call sess w)) = w_log w @ EvSend (c_CallID call) # new \<and> (\<forall>i. EvSend i \<notin> set new)"
proof -
  obtain reply e where a: "us_Send sess (w_tick w) (c_Method call) (c_Arguments call) = (reply, e)" by force
  let ?w = "(tick w)\<lparr>w_log := w_log w @ [EvSend (c_CallID call)]\<rparr>"
  have "quiet EvSend (updated_one E (SetToolRequestOutcome (c_CallID call) (reply_outcome call reply e) [CallSent])
       (observe_current E c (c_CallID call)))" by (intro quiet_updated_one quiet_observe_current)
  then obtain new where "w_log (snd (updated_one E (SetToolRequestOutcome (c_CallID call) (reply_outcome call reply e) [CallSent])
       (observe_current E c (c_CallID call)) ?w)) = w_log ?w @ new" "\<forall>i. EvSend i \<notin> set new"
    unfolding quiet_def by metis
  then show ?thesis by (auto simp: send_marked_def seq_def ext_def a)
qed

lemma disciplined_marked:
  assumes "rely calls_R E"
  shows "sends_once (snapshot call) (recover (InTx E (marker_body E call)) (\<lambda>r.
       case r of Inl _ \<Rightarrow> ok ()
       | Inr marked \<Rightarrow> if marked then send_marked E c call sess else cancel_call E c call CallGrantNotExecutable))"
    (is "sends_once _ (recover ?tx ?f)")
  unfolding disciplined_def
proof (intro allI impI)
  fix w :: world
  assume P: "snapshot call (w_db w)"
  obtain r w1 where t: "?tx w = (r, w1)" by force
  have kt: "keeps calls_R ?tx" using calls.keeps_InTx [OF assms marker_commits] .
  have qt: "quiet EvSend ?tx" by (intro quiet_InTx quiet_marker)
  have run: "recover ?tx ?f w = ?f r w1" by (simp add: recover_def t)
  show "calls_R (w_db w) (w_db (snd (recover ?tx ?f w))) \<and>
      (\<exists>new. w_log (snd (recover ?tx ?f w)) = w_log w @ new
         \<and> (\<forall>i. once_claimed calls_R EvSend marks new i (w_db w) (w_db (snd (recover ?tx ?f w)))))"
  proof (cases "r = Inr True")
    case True
    have R1: "calls_R (w_db w) (w_db (interfere E w))" by (rule calls.R_interfere [OF assms])
    have m: "marks (w_db (interfere E w)) (w_db w1) (c_CallID call)"
      using marker_claims [of E call w w1] t True snapshot_stable [OF P R1] by simp
    have R2: "calls_R (w_db w1) (w_db (snd (send_marked E c call sess w1)))"
      using keeps_send_marked [OF assms, of c call sess] by (simp add: keeps_def)
    obtain new where new: "w_log (snd (send_marked E c call sess w1)) = w_log w1 @ EvSend (c_CallID call) # new"
      "\<forall>i. EvSend i \<notin> set new" using send_marked_log by metis
    obtain n1 where n1: "w_log w1 = w_log w @ n1" "\<forall>i. EvSend i \<notin> set n1"
      using qt t unfolding quiet_def by (metis snd_conv)
    have "once_claimed calls_R EvSend marks (n1 @ EvSend (c_CallID call) # new) i (w_db w)
        (w_db (snd (send_marked E c call sess w1)))" for i
      using n1(2) new(2) R1 R2 m unfolding once_claimed_def by (auto simp: count_list_0_iff)
    moreover have "calls_R (w_db w) (w_db (snd (send_marked E c call sess w1)))"
      using R1 m R2 sends.claim_R calls.R_trans by blast
    ultimately show ?thesis using run True n1 new by (intro conjI exI [of _ "n1 @ EvSend (c_CallID call) # new"]) simp_all
  next
    case False
    define g where "g = (if r = Inr False then cancel_call E c call CallGrantNotExecutable else ok ())"
    have "?f r = g" using False by (auto simp: g_def split: sum.split)
    moreover have "quiet EvSend g" "keeps calls_R g"
      using quiet_cancel keeps_cancel [OF assms] calls.keeps_ok quiet_basic(1) by (auto simp: g_def)
    then have "disciplined calls_R EvSend marks (\<lambda>_. True) g" by (rule sends.disciplined_quiet)
    moreover have "disciplined calls_R EvSend marks (\<lambda>_. True) ?tx" by (rule sends.disciplined_quiet [OF qt kt])
    ultimately show ?thesis using sends.disciplined_then [of "\<lambda>_. True" ?tx w r w1 "\<lambda>_. True" g] t run by simp
  qed
qed

lemma sends_quiet: "quiet EvSend m \<Longrightarrow> keeps calls_R m \<Longrightarrow> sends_once P m"
  by (rule sends.disciplined_quiet)

lemma sends_recover:
  "sends_once (snapshot call) m \<Longrightarrow> (\<And>r. sends_once (snapshot call) (f r)) \<Longrightarrow> sends_once (snapshot call) (recover m f)"
  by (rule sends.disciplined_recover) (auto intro: snapshot_stable)

lemma sends_seq:
  "sends_once (snapshot call) m \<Longrightarrow> (\<And>x. sends_once (snapshot call) (f x)) \<Longrightarrow> sends_once (snapshot call) (seq m f)"
  by (rule sends.disciplined_seq) (auto intro: snapshot_stable)

lemma sends_conj:
  "sends_once P m \<Longrightarrow> sends_once (\<lambda>d. K d \<and> P d) m" "sends_once K m \<Longrightarrow> sends_once (\<lambda>d. K d \<and> P d) m"
  by (auto simp: disciplined_def)

lemma sends_cancel: "rely calls_R E \<Longrightarrow> sends_once P (cancel_call E c call code)"
  by (intro sends_quiet quiet_cancel keeps_cancel)

lemma sends_ask: "sends_once P (ask f)"
  by (intro sends_quiet quiet_basic keeps_ask calls.evolution_axioms)

lemma sends_ok: "sends_once P (ok x)"
  by (intro sends_quiet quiet_basic calls.keeps_ok)

lemma sends_send_opened: "rely calls_R E \<Longrightarrow> sends_once (snapshot call) (send_opened E c call sess)"
  unfolding send_opened_def
  by (intro sends_seq sends_ask) (auto intro: sends_cancel disciplined_marked)

lemma sends_send_call: "rely calls_R E \<Longrightarrow> sends_once (snapshot call) (send_call E c call)"
  unfolding send_call_def
  by (auto intro!: sends_recover sends_seq sends_ask sends_cancel sends_send_opened
      sends_quiet [OF quiet_send_context keeps_send_context] sends_quiet [OF quiet_ext calls.keeps_ext]
      split: sum.split option.split)

lemma snapshot_admitted: "snapshot (call\<lparr>c_State := s, c_DispatchID := i\<rparr>) = snapshot call"
  by (auto simp: snapshot_def fun_eq_iff)

lemma sends_updated_one:
  assumes "rely calls_R E" "\<And>t d. calls_R d (snd (q t d))" "sends_once (snapshot call) k"
  shows "sends_once (snapshot call) (updated_one E q k)"
  unfolding updated_one_def
proof (rule sends_recover)
  show "sends_once (snapshot call) (pool_query E q)"
    by (intro sends_quiet quiet_basic keeps_pool_query calls.evolution_axioms assms)
qed (auto intro: assms sends_ok)

lemma sends_admit:
  assumes "rely calls_R E"
  shows "sends_once (snapshot call) (admit E c call)"
proof -
  let ?adm = "\<lambda>adm. call\<lparr>c_State := CallAdmitted, c_DispatchID := ad_DispatchID adm\<rparr>"
  have "sends_once (snapshot call) (send_call E c (?adm adm))" for adm
    using sends_send_call [OF assms, of "?adm adm"] by (simp add: snapshot_admitted)
  then show ?thesis
    unfolding admit_def Let_def
    by (intro sends_seq sends_quiet [OF quiet_ext calls.keeps_ext])
      (auto intro!: sends_updated_one admission_R sends_ok sends_cancel assms split: sum.split)
qed

text \<open>A call read from the database is a snapshot of its row.\<close>

lemma snapshot_of_row: "keyed_calls d \<Longrightarrow> call_at d (tr_CallID r) = Some r \<Longrightarrow> snapshot (CallFromRow r) d"
  by (auto simp: snapshot_def CallFromRow_def)

lemma load_call_snapshot:
  assumes "load_call E i w = (Inr call, w')" "rely calls_R E" "keyed_calls (w_db w)"
  shows "snapshot call (w_db w')"
proof -
  obtain r where "call = CallFromRow r" "w_db w' = w_db (interfere E w)" "call_at (w_db (interfere E w)) i = Some r"
    using assms(1)
    by (auto simp: load_call_def recover_Inr pool_query_def GetToolRequest_def query_read_Inr one_row_row_of split: sum.splits)
  then show ?thesis
    using snapshot_of_row row_of_key keyed_stable [OF assms(3) calls.R_interfere [OF assms(2)]] by metis
qed

lemma sends_load:
  assumes "rely calls_R E" "\<And>call. sends_once (snapshot call) (f (Inr call))" "\<And>e. sends_once keyed_calls (f (Inl e))"
  shows "sends_once keyed_calls (recover (load_call E i) f)"
proof (rule sends.disciplined_recover_post [where Q = "\<lambda>r d. keyed_calls d \<and> (\<forall>call. r = Inr call \<longrightarrow> snapshot call d)"])
  show "sends_once keyed_calls (load_call E i)" by (intro sends_quiet quiet_load_call keeps_load_call assms(1))
  show "sends_once (\<lambda>d. keyed_calls d \<and> (\<forall>call. r = Inr call \<longrightarrow> snapshot call d)) (f r)" for r
    using assms(2,3) by (cases r) (auto intro: sends_conj)
  fix w r w1
  assume k: "keyed_calls (w_db w)" and l: "load_call E i w = (r, w1)"
  have "calls_R (w_db w) (w_db w1)" using keeps_load_call [OF assms(1), of i] l unfolding keeps_def by (metis snd_conv)
  then show "keyed_calls (w_db w1) \<and> (\<forall>call. r = Inr call \<longrightarrow> snapshot call (w_db w1))"
    using keyed_stable [OF k] load_call_snapshot [OF _ assms(1) k] l by blast
qed

lemma sends_advance_call: "rely calls_R E \<Longrightarrow> sends_once keyed_calls (advance_call E c i)"
  unfolding advance_call_def
  by (rule sends_load) (auto intro: sends_admit sends_ok sends_quiet [OF quiet_observe keeps_observe])

lemma sends_reconcileOne:
  assumes "rely calls_R E"
  shows "sends_once (snapshot call) (reconcileOne E c nr call)"
proof (cases "c_State call = CallAccepted")
  case True
  then show ?thesis by (simp add: reconcileOne_def sends_seq sends_admit sends_ok assms)
next
  case False
  then have "quiet EvSend (reconcileOne E c nr call)"
    unfolding reconcileOne_def
    by (auto intro!: quiet_intros quiet_cancel quiet_updated_one quiet_observe_current quiet_observe quiet_due
        quiet_resolve split: CallState.split)
  then show ?thesis using keeps_reconcileOne [OF assms] by (rule sends_quiet)
qed

definition snapshots :: "ToolRequest list \<Rightarrow> db \<Rightarrow> bool" where
  "snapshots rs d \<longleftrightarrow> keyed_calls d \<and> (\<forall>r \<in> set rs. snapshot (CallFromRow r) d)"

lemma snapshots_stable: "snapshots rs d \<Longrightarrow> calls_R d d' \<Longrightarrow> snapshots rs d'"
  unfolding snapshots_def using keyed_stable snapshot_stable by blast

lemma sends_seq_rows:
  "sends_once (snapshots rs) m \<Longrightarrow> (\<And>x. sends_once (snapshots rs) (f x)) \<Longrightarrow> sends_once (snapshots rs) (seq m f)"
  by (rule sends.disciplined_seq) (auto intro: snapshots_stable)

lemma sends_reconcile_rows: "rely calls_R E \<Longrightarrow> sends_once (snapshots rs) (reconcile_rows E c nr rs)"
proof (induction rs arbitrary: nr)
  case (Cons r rs)
  have "sends_once (snapshots (r # rs)) (reconcileOne E c nr (CallFromRow r))"
    using sends_reconcileOne [OF Cons.prems] by (rule sends.disciplined_weaken) (simp add: snapshots_def)
  moreover have "sends_once (snapshots (r # rs)) (reconcile_rows E c nr' rs)" for nr'
    using Cons.IH [OF Cons.prems] by (rule sends.disciplined_weaken) (simp add: snapshots_def)
  ultimately show ?case by (simp add: sends_seq_rows)
qed (simp add: sends_ok)

lemma listed_snapshots:
  assumes "pool_query E (ListOpenToolRequests age sent at i limit) w = (Inr rows, w1)" "rely calls_R E" "keyed_calls (w_db w)"
  shows "snapshots rows (w_db w1)"
proof -
  have d: "w_db w1 = w_db (interfere E w)" and "set rows \<subseteq> set (db_calls (w_db (interfere E w)))"
    using assms(1) by (auto simp: pool_query_def query_Inr ListOpenToolRequests_def dest: in_set_takeD)
  moreover have "keyed_calls (w_db (interfere E w))"
    using keyed_stable [OF assms(3) calls.R_interfere [OF assms(2)]] .
  ultimately show ?thesis
    unfolding snapshots_def using snapshot_of_row keyed_row_of by auto
qed

lemma keeps_list_open: "rely calls_R E \<Longrightarrow> keeps calls_R (pool_query E (ListOpenToolRequests age sent at i limit))"
  by (intro keeps_pool_query calls.evolution_axioms) (simp_all add: ListOpenToolRequests_def calls.R_refl)

lemma sends_reconcile_pages:
  assumes "rely calls_R E"
  shows "sends_once keyed_calls (reconcile_pages n E c nr at i seen k)"
proof (induction n arbitrary: nr at i seen k)
  case (Suc n)
  let ?list = "pool_query E (ListOpenToolRequests (co_ReconcileAge (cl_opts c)) (sentAge (cl_opts c)) at i (co_ReconcileBatch (cl_opts c)))"
  let ?Q = "\<lambda>r d. keyed_calls d \<and> (\<forall>rows. r = Inr rows \<longrightarrow> snapshots rows d)"
  have more: "sends_once (snapshots rows) (reconcile_pages n E c nr' at' i' seen' k')" for rows nr' at' i' seen' k'
    using Suc.IH by (rule sends.disciplined_weaken) (simp add: snapshots_def)
  have post: "?Q r (w_db w1)" if "keyed_calls (w_db w)" "?list w = (r, w1)" for w r w1
    using that listed_snapshots [OF _ assms] keeps_list_open [OF assms] keyed_stable
    unfolding keeps_def by (metis snd_conv)
  show ?case
    unfolding reconcile_pages.simps
  proof (rule sends.disciplined_recover_post [where Q = ?Q])
    show "sends_once keyed_calls ?list" by (intro sends_quiet quiet_basic keeps_list_open assms)
    show "?Q r (w_db w1)" if "keyed_calls (w_db w)" "?list w = (r, w1)" for w r w1 using post that .
    show "sends_once (?Q r) (case r of Inl e \<Rightarrow> ok (k, nr, Some e)
       | Inr rows \<Rightarrow> if rows = [] then ok (k, nr |` set seen, None)
          else let cnt' = k + int (length rows); row = last rows; seen' = seen @ map tr_CallID rows
            in seq (reconcile_rows E c nr rows) (\<lambda>nr'. if int (length rows) < co_ReconcileBatch (cl_opts c)
               then ok (cnt', nr' |` set seen', None)
               else reconcile_pages n E c nr' (ts (tr_UpdatedAt row)) (tr_CallID row) seen' cnt'))" for r
    proof (cases r)
      case (Inr rows)
      have "sends_once (snapshots rows) (seq (reconcile_rows E c nr rows) (\<lambda>nr'.
          if int (length rows) < co_ReconcileBatch (cl_opts c) then ok (k', nr' |` set seen', None)
          else reconcile_pages n E c nr' at' i' seen' k'))" for k' seen' at' i'
        by (rule sends_seq_rows) (auto intro: sends_reconcile_rows [OF assms] more sends_ok)
      then show ?thesis
        using Inr by (auto simp: Let_def intro: sends_ok sends_conj)
    qed (simp add: sends_ok)
  qed
qed (simp add: sends_ok)

section \<open>The other operations never send\<close>

lemma quiet_ReconcileCall: "quiet EvSend (ReconcileCall E c i)"
proof -
  have "quiet EvSend (reconcileOne E c nr call)" if "c_State call = CallSent" for nr call
    using that unfolding reconcileOne_def by (auto intro!: quiet_intros quiet_updated_one quiet_observe_current)
  then show ?thesis
    unfolding ReconcileCall_def
    by (auto intro!: quiet_intros quiet_load_call quiet_observe quiet_resolve split: CallState.split)
qed

lemma quiet_guards: "quiet ev (checkCommand cmd scope)" "quiet ev (Require a t x act)"
  unfolding checkCommand_def Require_def by (rule quiet_basic)+

lemma quiet_ReconcileCallAs: "quiet EvSend (ReconcileCallAs E c scope i)"
  unfolding ReconcileCallAs_def by (intro quiet_intros quiet_guards quiet_load_call quiet_ReconcileCall)

lemma quiet_Shutdown: "quiet EvSend (Shutdown E c drained live)"
proof -
  have "quiet EvSend (shutdown_calls E c ids n)" for ids n
    by (induction ids arbitrary: n) (auto intro!: quiet_intros quiet_observe_current)
  then show ?thesis by (auto simp: Shutdown_def intro: quiet_basic)
qed

lemma quiet_Create_call: "quiet EvSend (Create_call n E c cmd scope req)"
proof -
  have "quiet EvSend (create_round E c cmd scope req)"
    unfolding create_round_def authorize_execution_def record_call_def usable_grant_def approved_descriptor_def Let_def
    by (auto intro!: quiet_intros quiet_guards quiet_ext quiet_load_call split: sum.split option.split)
  then show ?thesis by (induction n) (auto intro!: quiet_intros split: option.split)
qed

section \<open>Runs\<close>

lemma sends_run_op:
  assumes "rely calls_R E" "call_pk E" "keyed_calls (w_db w)"
  shows "\<exists>new. w_log (run_op E c opn w) = w_log w @ new
    \<and> (\<forall>i. once_claimed calls_R EvSend marks new i (w_db w) (w_db (run_op E c opn w)))"
proof -
  have q: "quiet EvSend (Get_call E scope i)" for scope i
    unfolding Get_call_def by (intro quiet_intros quiet_load_call)
  have "sends_once keyed_calls (Create_call n E c cmd scope req)" "sends_once keyed_calls (advance_call E c i)"
    "sends_once keyed_calls (Get_call E scope i)" "sends_once keyed_calls (Reconcile_calls n E c nr)"
    "sends_once keyed_calls (ReconcileCall E c i)" "sends_once keyed_calls (ReconcileCallAs E c scope i)"
    "sends_once keyed_calls (Shutdown E c drained live)" for n cmd scope req i nr drained live
    unfolding Reconcile_calls_def
    by (intro sends_quiet quiet_Create_call keeps_Create_call sends_advance_call q keeps_Get_call sends_reconcile_pages
        quiet_ReconcileCall keeps_ReconcileCall quiet_ReconcileCallAs keeps_ReconcileCallAs quiet_Shutdown
        keeps_Shutdown assms)+
  then show ?thesis using assms(3) by (cases opn) (simp_all add: disciplined_def)
qed

lemma sends_run_ops:
  assumes "rely calls_R E" "call_pk E" "keyed_calls (w_db w)"
  shows "\<exists>new. w_log (fold (run_op E c) ops w) = w_log w @ new
    \<and> (\<forall>i. once_claimed calls_R EvSend marks new i (w_db w) (w_db (fold (run_op E c) ops w)))"
  using assms(3)
proof (induction ops arbitrary: w)
  case Nil
  then show ?case by (auto simp: once_claimed_def)
next
  case (Cons opn ops)
  let ?w1 = "run_op E c opn w" and ?w2 = "fold (run_op E c) ops (run_op E c opn w)"
  have R1: "calls_R (w_db w) (w_db ?w1)" by (rule run_op_R [OF assms(1,2)])
  obtain n1 where 1: "w_log ?w1 = w_log w @ n1"
      "\<And>i. once_claimed calls_R EvSend marks n1 i (w_db w) (w_db ?w1)"
    using sends_run_op [OF assms(1,2) Cons.prems] by blast
  obtain n2 where 2: "w_log ?w2 = w_log ?w1 @ n2"
      "\<And>i. once_claimed calls_R EvSend marks n2 i (w_db ?w1) (w_db ?w2)"
    using Cons.IH [OF keyed_stable [OF Cons.prems R1]] by blast
  have "once_claimed calls_R EvSend marks (n1 @ n2) i (w_db w) (w_db ?w2)" for i
    using sends.once_claimed_append [OF 1(2) 2(2) R1 run_ops_R [OF assms(1,2)]] .
  then show ?case using 1(1) 2(1) by (intro exI [of _ "n1 @ n2"]) simp
qed

section \<open>Properties\<close>

text \<open>
  C5. The life of a call: along any sequence of operations (create, detached dispatch, reads, the
  reconciler's passes, the operator's reconciliation, shutdown), whatever fails and whatever other
  replicas do by the same rules, a recorded call is never deleted, what it was recorded with never
  changes, its state only moves forward (a terminal state and its outcome are final, a marked call
  only becomes succeeded, failed or unknown), its marker is never cleared or moved, its observation
  sequence never decreases, and its row keeps the shape of its state: marked exactly when it may have
  been sent, cancelled with zero usage and no result.
\<close>
theorem call_operations_keep_lifecycle:
  assumes "rely calls_R E" "call_pk E" "call_at (w_db w) callID = Some r"
  shows "\<exists>r'. call_at (w_db (fold (run_op E c) ops w)) callID = Some r' \<and> call_history r r'"
  using calls_R_SomeD [OF run_ops_R [OF assms(1,2)] assms(3)] .

text \<open>
  C1. A call is sent at most once, and only under an executable grant: however often it is
  dispatched, reconciled or recreated, the log of this process gains at most one send of it; and if
  it gains one, then between the two states this process committed the marker of that call, in a
  database where the call was admitted and unmarked and its grant was executable at the very revision
  the call was recorded under.  As a marker is set once, no other replica can have committed it.
\<close>
theorem call_sent_at_most_once:
  assumes "rely calls_R E" "call_pk E" "keyed_calls (w_db w)"
  shows "\<exists>new. w_log (fold (run_op E c) ops w) = w_log w @ new
    \<and> (count_list new (EvSend callID) = 0
       \<or> (count_list new (EvSend callID) = 1
          \<and> (\<exists>d d'. calls_R (w_db w) d \<and> marks d d' callID \<and> calls_R d' (w_db (fold (run_op E c) ops w)))))"
  using sends_run_ops [OF assms, of c ops] unfolding once_claimed_def by blast

text \<open>
  A call that was marked before is never sent again, by any later sequence of operations: an
  UNKNOWN outcome is not retried.
\<close>
theorem marked_call_never_resent:
  assumes "rely calls_R E" "call_pk E" "keyed_calls (w_db w)"
    and "call_at (w_db w) callID = Some r" "tr_SendMarkerAt r \<noteq> None"
  shows "count_list (w_log (fold (run_op E c) ops w)) (EvSend callID) = count_list (w_log w) (EvSend callID)"
proof -
  obtain new where new: "w_log (fold (run_op E c) ops w) = w_log w @ new"
    and once: "once_claimed calls_R EvSend marks new callID (w_db w) (w_db (fold (run_op E c) ops w))"
    using sends_run_ops [OF assms(1-3)] by blast
  have "\<not> marks d d' callID" if "calls_R (w_db w) d" for d d'
    using calls_R_SomeD [OF that assms(4)] assms(5) by (auto simp: marks_def call_history_def)
  then show ?thesis using once new unfolding once_claimed_def by auto
qed

end
