(* ===== verification/Call_Dispatch.thy ===== *)
theory Call_Dispatch
  imports Call_Sends
begin

text \<open>
  What a dispatch achieves.  Without failures and interference, one dispatch of an accepted call
  whose grant is executable sends it and records its result; and \<open>Create\<close> always answers.
\<close>

section \<open>A calm environment\<close>

definition calm :: "env \<Rightarrow> bool" where
  "calm E \<longleftrightarrow> (\<forall>n. \<not> e_fault E n) \<and> (\<forall>n. e_commit E n = Committed) \<and> (\<forall>n d. e_others E n d = d)"

lemma calm_interfere: "calm E \<Longrightarrow> interfere E w = tick w"
  by (simp add: calm_def interfere_def)

lemma calm_read: "calm E \<Longrightarrow> query E (read f) w = (f (w_db w), tick w)"
  by (simp add: calm_def query_def read_def split: sum.split)

lemma calm_pool_read: "calm E \<Longrightarrow> pool_query E (read f) w = (f (w_db w), tick (tick w))"
  by (simp add: pool_query_def calm_interfere calm_read)

lemma calm_query: "calm E \<Longrightarrow> q (trunc_us (e_dbnow E (w_tick w))) (w_db w) = (Inr x, d) \<Longrightarrow>
   query E q w = (Inr x, (tick w)\<lparr>w_db := d\<rparr>)"
  by (simp add: calm_def query_def)

lemma calm_InTx: "calm E \<Longrightarrow> body (tick w) = (Inr x, w') \<Longrightarrow> InTx E body w = (Inr x, tick w')"
  by (simp add: InTx_def calm_interfere) (simp add: calm_def)

lemma calm_rely: "evolution R \<Longrightarrow> calm E \<Longrightarrow> rely R E"
  by (simp add: calm_def rely_def evolution.R_refl)

text \<open>An update of the one row of a call.\<close>

lemma update_one_call:
  assumes "keyed_calls d" "call_at d i = Some r" "P r" "\<And>r. P r \<Longrightarrow> tr_CallID r = i" "\<And>r. tr_CallID (f r) = tr_CallID r"
  shows "\<exists>d'. update_calls P f d = (Inr 1, d') \<and> d' = d\<lparr>db_calls := db_calls d'\<rparr> \<and> keyed_calls d' \<and> call_at d' i = Some (f r)"
proof -
  have r: "r \<in> set (db_calls d)" "tr_CallID r = i" using row_of_key [OF assms(2)] by auto
  have "r' = r" if "r' \<in> set (db_calls d)" "P r'" for r'
    using keyed_row_of [OF assms(1) that(1)] assms(2,4) that(2) by auto
  then have "filter P (db_calls d) = filter (\<lambda>x. x = r) (db_calls d)"
    using assms(3) by (intro filter_cong) auto
  moreover have "length (filter (\<lambda>x. x = r) (db_calls d)) = 1"
    using assms(1) r(1) by (simp add: keyed_calls_def distinct_map distinct_length_filter Int_insert_left)
  ultimately have "count_where P (db_calls d) = 1" by (simp add: count_where_def)
  moreover have "map tr_CallID (update_where P f (db_calls d)) = map tr_CallID (db_calls d)"
    using assms(5) by (auto simp: update_where_def)
  ultimately show ?thesis
    using assms(1,2,3,5) by (simp add: update_calls_def keyed_calls_def row_of_update)
qed

lemma calm_updated_one:
  "calm E \<Longrightarrow> q (trunc_us (e_dbnow E (Suc (w_tick w)))) (w_db w) = (Inr 1, d) \<Longrightarrow>
   updated_one E q k w = k ((tick (tick w))\<lparr>w_db := d\<rparr>)"
  by (simp add: updated_one_def recover_def pool_query_def calm_interfere calm_query)

lemma calm_load_call: "calm E \<Longrightarrow> call_at (w_db w) i = Some r \<Longrightarrow> load_call E i w = (Inr (CallFromRow r), tick (tick w))"
  by (simp add: load_call_def recover_def GetToolRequest_def calm_pool_read one_row_row_of [THEN iffD2] ok_def)

section \<open>The send\<close>

definition answers :: "UpstreamSession \<Rightarrow> bool" where
  "answers sess \<longleftrightarrow>
     (\<forall>n m a. \<exists>reply result. us_Send sess n m a = (reply, None) \<and> \<not> ur_IsError reply \<and> ur_Result reply = Some result)"

text \<open>A completed call: succeeded, billed one unit, its result under its digest.\<close>

definition completed :: "ToolRequest \<Rightarrow> bool" where
  "completed r \<longleftrightarrow> tr_State r = CallSucceeded \<and> tr_SendMarkerAt r \<noteq> None \<and> tr_UsageUnits r = Some 1
     \<and> tr_FailureCode r = None \<and> tr_ResultDigest r = Some (DigestBytes (tr_Result r))
     \<and> tr_ResultRef r = Some (''mcp-result:'' @ tr_CallID r)"

lemma completed_call_outcome: "completed (call_outcome r) = completed r"
  by (simp add: completed_def call_outcome_def)

lemma completed_outcome: "call_outcome r' = call_outcome r \<Longrightarrow> completed r \<Longrightarrow> completed r'"
  by (metis completed_call_outcome)

lemma completed_stays:
  assumes "calls_R d d'" "call_at d i = Some r" "completed r"
  shows "\<exists>r'. call_at d' i = Some r' \<and> completed r'"
proof -
  obtain r' where r': "call_at d' i = Some r'" "call_history r r'" using calls_R_SomeD [OF assms(1,2)] by blast
  then have "call_outcome r' = call_outcome r"
    using assms(3) unfolding call_history_def completed_def call_state_terminal_def by simp
  then show ?thesis using r'(1) completed_outcome assms(3) by blast
qed

lemma send_marked_completes:
  assumes "calm E" "keyed_calls (w_db w)" "call_at (w_db w) (c_CallID call) = Some r"
    "tr_State r = CallSent" "tr_SendMarkerAt r \<noteq> None" "answers sess"
  shows "\<exists>r'. call_at (w_db (snd (send_marked E c call sess w))) (c_CallID call) = Some r' \<and> completed r'"
proof -
  let ?i = "c_CallID call"
  obtain reply result where a: "us_Send sess (w_tick w) (c_Method call) (c_Arguments call) = (reply, None)"
    "\<not> ur_IsError reply" "ur_Result reply = Some result"
    using assms(6) unfolding answers_def by blast
  let ?out = "reply_outcome call reply None"
  have out: "to_State ?out = CallSucceeded" "to_UsageUnits ?out = Some 1" "to_FailureCode ?out = None"
    "to_Result ?out = result" "to_ResultDigest ?out = Some (DigestBytes result)" "to_ResultRef ?out = Some (''mcp-result:'' @ ?i)"
    using a by (simp_all add: reply_outcome_def classify_reply_def outcome_def)
  let ?w = "(tick w)\<lparr>w_log := w_log w @ [EvSend ?i]\<rparr>"
  define t where "t = trunc_us (e_dbnow E (Suc (Suc (w_tick w))))"
  have id: "tr_CallID r = ?i" using row_of_key [OF assms(3)] by simp
  obtain d' where d': "SetToolRequestOutcome ?i ?out [CallSent] t (w_db w) = (Inr 1, d')"
    "call_at d' ?i = Some (with_outcome ?out t r)"
    using update_one_call [OF assms(2,3), of "\<lambda>r. tr_CallID r = ?i \<and> tr_State r \<in> set [CallSent]" "with_outcome ?out t"]
      assms(4) id unfolding SetToolRequestOutcome_def by auto
  have run: "send_marked E c call sess w = observe_current E c ?i ((tick (tick ?w))\<lparr>w_db := d'\<rparr>)"
    using calm_updated_one [OF assms(1), of "SetToolRequestOutcome ?i ?out [CallSent]" ?w d'] d'(1)
    by (simp add: send_marked_def seq_def ext_def a t_def)
  have "completed (with_outcome ?out t r)" using out assms(5) id by (simp add: completed_def)
  moreover have "calls_R d' (w_db (snd (send_marked E c call sess w)))"
    using keeps_observe_current [OF calm_rely [OF calls.evolution_axioms assms(1)], of c ?i] unfolding run keeps_def
    by (metis world.select_convs(1) world.surjective world.update_convs(1))
  ultimately show ?thesis using completed_stays d'(2) by blast
qed

section \<open>From acceptance to the marker\<close>

text \<open>What the call needs of the database: its grant executable at any time, its reviewed descriptor.\<close>

definition ready :: "env \<Rightarrow> db \<Rightarrow> Call \<Rightarrow> bool" where
  "ready E d call \<longleftrightarrow>
     (\<exists>gr dr srv desc. grant_at d (c_GrantID call) = Some gr \<and> (\<forall>n. Executable (GrantFromRow gr) (e_now E n))
        \<and> g_Revision (GrantFromRow gr) = c_GrantRevision call
        \<and> one_row (filter (descriptor_key (c_ServerID call) (int64 (c_DescriptorRevision call))) (db_descriptors d)) = Inr dr
        \<and> one_row (filter (\<lambda>s. sv_ServerID s = c_ServerID call) (db_servers d)) = Inr srv
        \<and> DescriptorFromRow dr srv = Inr desc)"

text \<open>What it needs of the other systems: Control admits, a token is issued, the route answers.\<close>

definition obliging :: "Calls \<Rightarrow> string \<Rightarrow> bool" where
  "obliging c route \<longleftrightarrow>
     (\<forall>n a. \<exists>adm. td_AdmitTool (cl_dispatch c) n a = Inr adm \<and> ad_Allowed adm)
     \<and> (\<forall>n g. \<exists>token. cl_tokens c n g = Inr token) \<and> (\<forall>n. \<not> cl_elapsed c n)
     \<and> (\<exists>up. map_of (cl_upstream c) route = Some up \<and> (\<forall>n t. \<exists>sess. up_Open up n t = Inr sess \<and> answers sess))"

lemma send_opened_completes:
  assumes "calm E" "keyed_calls (w_db w)" "call_at (w_db w) (c_CallID call) = Some r"
    "tr_State r = CallAdmitted" "tr_SendMarkerAt r = None" "ready E (w_db w) call" "answers sess" "\<And>n. \<not> cl_elapsed c n"
  shows "\<exists>r'. call_at (w_db (snd (send_opened E c call sess w))) (c_CallID call) = Some r' \<and> completed r'"
proof -
  let ?i = "c_CallID call"
  obtain gr where gr: "grant_at (w_db w) (c_GrantID call) = Some gr" "\<And>n. Executable (GrantFromRow gr) (e_now E n)"
    "g_Revision (GrantFromRow gr) = c_GrantRevision call" using assms(6) unfolding ready_def by blast
  let ?w = "tick (tick (tick (tick w)))"
  define t where "t = trunc_us (e_dbnow E (w_tick ?w))"
  obtain d' where d': "SetToolRequestMarker ?i t (w_db w) = (Inr 1, d')" "keyed_calls d'"
    "call_at d' ?i = Some (r\<lparr>tr_State := CallSent, tr_SendMarkerAt := Some t, tr_UpdatedAt := Some t\<rparr>)"
    using update_one_call [OF assms(2,3), of "\<lambda>r. tr_CallID r = ?i \<and> tr_State r = CallAdmitted \<and> tr_SendMarkerAt r = None"
        "\<lambda>r. r\<lparr>tr_State := CallSent, tr_SendMarkerAt := Some t, tr_UpdatedAt := Some t\<rparr>"]
      assms(4,5) row_of_key [OF assms(3)] unfolding SetToolRequestMarker_def by auto
  have q: "query E (SetToolRequestMarker ?i) ?w = (Inr 1, (tick ?w)\<lparr>w_db := d'\<rparr>)"
    using calm_query [OF assms(1), of "SetToolRequestMarker ?i" ?w 1 d'] d'(1) by (simp add: t_def)
  have "marker_body E call (tick (tick w)) = (Inr True, (tick ?w)\<lparr>w_db := d'\<rparr>)"
    using gr q by (simp add: marker_body_def seq_def GetGrantForShare_def calm_read [OF assms(1)]
        one_row_row_of [THEN iffD2] Let_def clock_now_def ok_def)
  then have "InTx E (marker_body E call) (tick w) = (Inr True, tick ((tick ?w)\<lparr>w_db := d'\<rparr>))"
    by (rule calm_InTx [OF assms(1)])
  then have "send_opened E c call sess w = send_marked E c call sess (tick ((tick ?w)\<lparr>w_db := d'\<rparr>))"
    using assms(8) by (simp add: send_opened_def seq_def ask_def recover_def)
  then show ?thesis
    using send_marked_completes [OF assms(1), of "tick ((tick ?w)\<lparr>w_db := d'\<rparr>)" call _ sess c] d' assms(7) by simp
qed

lemma send_context_ready:
  assumes "calm E" "ready E (w_db w) call"
  shows "\<exists>x w'. send_context E call w = (Inr x, w') \<and> w_db w' = w_db w"
  using assms(2) unfolding ready_def
  by (auto simp: send_context_def seq_def GetGrant_def GetDescriptor_def GetServer_def calm_pool_read [OF assms(1)]
      one_row_row_of [THEN iffD2] lift_def ok_def)

lemma send_call_completes:
  assumes "calm E" "keyed_calls (w_db w)" "call_at (w_db w) (c_CallID call) = Some r"
    "tr_State r = CallAdmitted" "tr_SendMarkerAt r = None" "ready E (w_db w) call" "obliging c (c_Route call)"
  shows "\<exists>r'. call_at (w_db (snd (send_call E c call w))) (c_CallID call) = Some r' \<and> completed r'"
proof -
  obtain g desc w1 where 1: "send_context E call w = (Inr (g, desc), w1)" "w_db w1 = w_db w"
    using send_context_ready [OF assms(1,6)] by force
  obtain token where 2: "cl_tokens c (w_tick w1) g = Inr token" using assms(7) unfolding obliging_def by blast
  obtain up where 3: "map_of (cl_upstream c) (c_Route call) = Some up" "\<And>n t. \<exists>sess. up_Open up n t = Inr sess \<and> answers sess"
    using assms(7) unfolding obliging_def by blast
  obtain sess where 4: "up_Open up (Suc (w_tick w1)) (upstream_target call g desc token) = Inr sess" "answers sess"
    using 3(2) by blast
  let ?w = "(tick (tick w1))\<lparr>w_log := w_log w1 @ [EvOpen (c_CallID call)]\<rparr>"
  have "send_call E c call w = send_opened E c call sess ?w"
    using 1 2 3 4 by (simp add: send_call_def recover_def seq_def ask_def ext_def)
  then show ?thesis
    using send_opened_completes [OF assms(1), of ?w call r sess c] assms 1(2) 4(2) by (simp add: obliging_def)
qed

lemma admit_completes:
  assumes "calm E" "keyed_calls (w_db w)" "call_at (w_db w) (c_CallID call) = Some r"
    "tr_State r = CallAccepted" "tr_SendMarkerAt r = None" "ready E (w_db w) call" "obliging c (c_Route call)"
  shows "\<exists>r'. call_at (w_db (snd (admit E c call w))) (c_CallID call) = Some r' \<and> completed r'"
proof -
  let ?i = "c_CallID call"
  obtain adm where adm: "td_AdmitTool (cl_dispatch c) (w_tick w) (tool_admit call) = Inr adm" "ad_Allowed adm"
    using assms(7) unfolding obliging_def by blast
  let ?call = "call\<lparr>c_State := CallAdmitted, c_DispatchID := ad_DispatchID adm\<rparr>"
  let ?w = "(tick w)\<lparr>w_log := w_log w @ [EvAdmit ?i]\<rparr>"
  define t where "t = trunc_us (e_dbnow E (Suc (w_tick ?w)))"
  define r1 where "r1 = r\<lparr>tr_State := CallAdmitted, tr_ControlDispatchID := Some (ad_DispatchID adm),
     tr_FailureCode := None, tr_UpdatedAt := Some t\<rparr>"
  let ?q = "SetToolRequestAdmission ?i CallAdmitted (Some (ad_DispatchID adm)) None"
  obtain d' where d': "?q t (w_db w) = (Inr 1, d')" "d' = (w_db w)\<lparr>db_calls := db_calls d'\<rparr>" "keyed_calls d'"
    "call_at d' ?i = Some r1"
    using update_one_call [OF assms(2,3), of "\<lambda>r. tr_CallID r = ?i \<and> tr_State r = CallAccepted"
        "\<lambda>r. r\<lparr>tr_State := CallAdmitted, tr_ControlDispatchID := Some (ad_DispatchID adm), tr_FailureCode := None,
               tr_UpdatedAt := Some t\<rparr>"]
      assms(4) row_of_key [OF assms(3)] unfolding SetToolRequestAdmission_def r1_def by auto
  have "db_grants d' = db_grants (w_db w)" "db_descriptors d' = db_descriptors (w_db w)" "db_servers d' = db_servers (w_db w)"
    using arg_cong [OF d'(2), of db_grants] arg_cong [OF d'(2), of db_descriptors] arg_cong [OF d'(2), of db_servers] by simp_all
  then have ready: "ready E d' ?call" using assms(6) by (simp add: ready_def)
  have "admit E c call w = send_call E c ?call ((tick (tick ?w))\<lparr>w_db := d'\<rparr>)"
    using calm_updated_one [OF assms(1), of ?q ?w d'] d'(1) adm
    by (simp add: admit_def seq_def ext_def Let_def t_def)
  then show ?thesis
    using send_call_completes [OF assms(1), of "(tick (tick ?w))\<lparr>w_db := d'\<rparr>" ?call r1 c] d' ready assms(5,7)
    by (simp add: r1_def)
qed

section \<open>Create answers\<close>

text \<open>The unique constraints of the table: the call id, and the command of a tenant.\<close>

definition call_unique :: "env \<Rightarrow> bool" where
  "call_unique E \<longleftrightarrow> (\<forall>row rows. sc_call (e_schema E) row rows \<longrightarrow>
     (\<exists>r \<in> set rows. tr_CallID r = tr_CallID row
        \<or> (tr_TenantID r = tr_TenantID row \<and> tr_CommandID r = tr_CommandID row)))"

definition has_command :: "db \<Rightarrow> Command \<Rightarrow> bool" where
  "has_command d cmd \<longleftrightarrow> (\<exists>r \<in> set (db_calls d). tr_TenantID r = cmd_TenantID cmd \<and> tr_CommandID r = cmd_CommandID cmd)"

definition call_id :: "Command \<Rightarrow> string" where
  "call_id cmd = idOf ''call-'' [cmd_TenantID cmd, cmd_CommandID cmd]"

text \<open>The identifier derived from the command belongs to the call of another command.\<close>

definition collides :: "db \<Rightarrow> Command \<Rightarrow> bool" where
  "collides d cmd \<longleftrightarrow> (\<exists>r. call_at d (call_id cmd) = Some r
     \<and> (tr_TenantID r, tr_CommandID r) \<noteq> (cmd_TenantID cmd, cmd_CommandID cmd))"

lemma collides_stays:
  assumes "collides d cmd" "calls_R d d'"
  shows "collides d' cmd"
proof -
  obtain r where r: "call_at d (call_id cmd) = Some r" "(tr_TenantID r, tr_CommandID r) \<noteq> (cmd_TenantID cmd, cmd_CommandID cmd)"
    using assms(1) unfolding collides_def by blast
  obtain r' where "call_at d' (call_id cmd) = Some r'" "call_terms r' = call_terms r"
    using calls_R_SomeD [OF assms(2) r(1)] unfolding call_history_def by blast
  then show ?thesis using r(2) call_terms_sel [of r' r] unfolding collides_def by auto
qed

lemma has_command_stays:
  assumes "keyed_calls d" "has_command d cmd" "calls_R d d'"
  shows "has_command d' cmd"
proof -
  obtain r where r: "r \<in> set (db_calls d)" "tr_TenantID r = cmd_TenantID cmd" "tr_CommandID r = cmd_CommandID cmd"
    using assms(2) unfolding has_command_def by blast
  obtain r' where r': "call_at d' (tr_CallID r) = Some r'" "call_terms r' = call_terms r"
    using calls_R_SomeD [OF assms(3) keyed_row_of [OF assms(1) r(1)]] unfolding call_history_def by blast
  then show ?thesis using r row_of_key [OF r'(1)] call_terms_sel [OF r'(2)] unfolding has_command_def by metis
qed

text \<open>The errors an operation answers: none of them is a duplicate key.\<close>

definition dup :: "err \<Rightarrow> bool" where
  "dup e \<longleftrightarrow> sentinel_of e = PgUniqueViolation \<or> sentinel_of e = ErrDuplicateKey"

definition no_dup :: "'a act \<Rightarrow> bool" where
  "no_dup m \<longleftrightarrow> (\<forall>w e w'. m w = (Inl e, w') \<longrightarrow> \<not> dup e)"

lemma no_dup_basic:
  "no_dup (ok x)" "\<not> dup e \<Longrightarrow> no_dup (fail e)" "\<not> dup e \<Longrightarrow> no_dup (guard b e)"
  "(\<And>e. r = Inl e \<Longrightarrow> \<not> dup e) \<Longrightarrow> no_dup (lift r)"
  "(\<And>e. r' = Some e \<Longrightarrow> \<not> dup e) \<Longrightarrow> no_dup (check r')"
  "(\<And>d e. f d = Inl e \<Longrightarrow> \<not> dup e) \<Longrightarrow> no_dup (query E (read f))"
  by (auto simp: no_dup_def act_defs query_def read_def dup_def split: if_splits sum.splits option.splits)

lemma no_dup_recover:
  assumes "no_dup m" "\<And>x. no_dup (f (Inr x))" "\<And>e. \<not> dup e \<Longrightarrow> no_dup (f (Inl e))"
  shows "no_dup (recover m f)"
  unfolding no_dup_def
proof (intro allI impI)
  fix w e w'
  assume r: "recover m f w = (Inl e, w')"
  obtain x w1 where m: "m w = (x, w1)" by force
  then have f: "f x w1 = (Inl e, w')" using r by (simp add: recover_def)
  show "\<not> dup e" using m f assms unfolding no_dup_def by (cases x) metis+
qed

lemma no_dup_seq: "no_dup m \<Longrightarrow> (\<And>x. no_dup (f x)) \<Longrightarrow> no_dup (seq m f)"
  unfolding seq_recover by (rule no_dup_recover) (auto intro: no_dup_basic)

lemma no_dup_one_row: "one_row rs = Inl e \<Longrightarrow> \<not> dup e"
  by (auto simp: one_row_def dup_def split: list.splits)

lemma no_dup_parts:
  "no_dup (usable_grant E scope req now)" "no_dup (approved_descriptor E g)"
  "no_dup (check (CheckArguments js schema args))" "no_dup (query E (HasUnknownToolRequest t i))"
  unfolding usable_grant_def approved_descriptor_def call_reads
  by (auto intro!: no_dup_recover no_dup_seq no_dup_basic dest!: no_dup_one_row
      simp: Let_def dup_def CheckArguments_def DescriptorFromRow_def split: if_splits option.splits jsonb.splits)

lemma seq_Inl:
  "seq m f w = (Inl e, w') \<longleftrightarrow> m w = (Inl e, w') \<or> (\<exists>x w1. m w = (Inr x, w1) \<and> f x w1 = (Inl e, w'))"
  by (auto simp: seq_def split: prod.splits sum.splits)

lemma usable_grant_Inr:
  assumes "usable_grant E scope req now w = (Inr g, w')"
  shows "w_db w' = w_db w \<and> (\<exists>gr. grant_at (w_db w) (cr_GrantID req) = Some gr \<and> g = GrantFromRow gr
    \<and> gw_TenantID gr = sc_TenantID scope \<and> callerMaySend scope g \<and> g_Revision g = cr_GrantRevision req
    \<and> Executable g now \<and> cr_Method req \<in> set (g_Methods g))"
  using assms
  by (auto simp: usable_grant_def recover_Inr GetGrantForShare_def query_read_Inr one_row_row_of Let_def seq_Inr)

lemma approved_descriptor_Inr:
  assumes "approved_descriptor E g w = (Inr desc, w')"
  shows "w_db w' = w_db w \<and> (\<exists>dr srv. dr \<in> set (db_descriptors (w_db w)) \<and> dr_State dr = CatalogApproved
    \<and> dr_DescriptorDigest dr = g_DescriptorDigest g \<and> DescriptorFromRow dr srv = Inr desc)"
  using assms
  by (auto simp: approved_descriptor_def seq_Inr GetDescriptor_def GetServer_def query_read_Inr one_row_def
      filter_eq_Cons_iff split: list.splits)

lemma option_Inr:
  "(case x of None \<Rightarrow> fail e | Some y \<Rightarrow> f y) w = (Inr z, w') \<longleftrightarrow> (\<exists>y. x = Some y \<and> f y w = (Inr z, w'))"
  by (cases x) simp_all

lemma record_call_Inr:
  assumes "record_call E c cmd scope req i now w = (Inr u, w')"
  obtains g w1 desc w2 tool where "usable_grant E scope req now w = (Inr g, w1)" "approved_descriptor E g w1 = (Inr desc, w2)"
    "Method desc (cr_Method req) = Some tool"
    "CheckArguments (cl_schemas c) (case map_of (d_InputSchemas desc) (cr_Method req) of None \<Rightarrow> [] | Some s \<Rightarrow> s)
       (cr_Arguments req) = None"
    "\<not> list_ex (\<lambda>r. tr_TenantID r = g_TenantID g \<and> tr_ServerID r = g_ServerID g \<and> tr_State r = CallUnknown) (db_calls (w_db w2))"
  using assms unfolding record_call_def seq_Inr option_Inr check_Inr HasUnknownToolRequest_def query_read_Inr guard_Inr
  by fastforce

lemma GrantFromRow_tenant: "g_TenantID (GrantFromRow gr) = gw_TenantID gr"
  by (simp add: GrantFromRow_def)

lemma record_call_dup:
  assumes "record_call E c cmd scope req i now w = (Inl e, w')" "dup e" "call_unique E"
    "cmd_TenantID cmd = sc_TenantID scope"
  shows "has_command (w_db w) cmd \<or> i \<in> tr_CallID ` set (db_calls (w_db w))"
proof -
  note parts = no_dup_parts [unfolded no_dup_def, rule_format]
  obtain g w1 desc w2 where 1: "usable_grant E scope req now w = (Inr g, w1)"
    and 2: "approved_descriptor E g w1 = (Inr desc, w2)"
    and 3: "(case Method desc (cr_Method req) of None \<Rightarrow> fail (Err AppErrForbidden CallSchemaDrift)
     | Some tool \<Rightarrow>
        seq (check (CheckArguments (cl_schemas c)
               (case map_of (d_InputSchemas desc) (cr_Method req) of None \<Rightarrow> [] | Some s \<Rightarrow> s) (cr_Arguments req))) (\<lambda>_.
        case routeOf c g of None \<Rightarrow> fail (Err AppErrForbidden CallRouteUnqualified)
        | Some route \<Rightarrow>
           seq (query E (HasUnknownToolRequest (g_TenantID g) (g_ServerID g))) (\<lambda>restricted.
           seq (guard (\<not> restricted) (Err AppErrForbidden CallRecoveryRestricted)) (\<lambda>_.
           query E (InsertToolRequest (e_schema E) (call_row cmd req i g tool route)))))) w2 = (Inl e, w')"
    using assms(1,2) parts(1,2) unfolding record_call_def seq_Inl [of "usable_grant E scope req now"]
      seq_Inl [of "approved_descriptor E g" for g] by blast
  obtain tool w3 route where 4: "w_db w3 = w_db w2"
    and 5: "seq (query E (HasUnknownToolRequest (g_TenantID g) (g_ServerID g))) (\<lambda>restricted.
           seq (guard (\<not> restricted) (Err AppErrForbidden CallRecoveryRestricted)) (\<lambda>_.
           query E (InsertToolRequest (e_schema E) (call_row cmd req i g tool route)))) w3 = (Inl e, w')"
    using 3 assms(2) parts(3)
    by (auto simp: seq_Inl [of "check x" for x] dup_def fail_def split: option.splits)
  define w4 where "w4 = tick w3"
  have 6: "w_db w4 = w_db w3" "query E (InsertToolRequest (e_schema E) (call_row cmd req i g tool route)) w4 = (Inl e, w')"
    unfolding w4_def using 5 assms(2) parts(4)
    by (auto simp: seq_Inl HasUnknownToolRequest_def query_read_Inr guard_def dup_def split: if_splits)
  have "\<exists>row. sc_call (e_schema E) row (db_calls (w_db w4)) \<and> tr_TenantID row = g_TenantID g
      \<and> tr_CommandID row = cmd_CommandID cmd \<and> tr_CallID row = i"
    using 6(2) assms(2)
    by (auto simp: query_def InsertToolRequest_def insert_row_table dup_def call_row_def split: if_splits)
  moreover have "w_db w4 = w_db w" "g_TenantID g = cmd_TenantID cmd"
    using usable_grant_Inr [OF 1] approved_descriptor_Inr [OF 2] 4 6(1) assms(4) GrantFromRow_tenant by auto
  ultimately show ?thesis using assms(3) unfolding call_unique_def has_command_def image_iff by metis
qed

lemma create_round_None:
  assumes "create_round E c cmd scope req w = (Inr None, w')" "call_unique E" "keyed_calls (w_db w')"
  shows "has_command (w_db w') cmd \<or> collides (w_db w') cmd"
proof -
  have t: "cmd_TenantID cmd = sc_TenantID scope" using assms(1) by (auto simp: create_round_def checkCommand_def seq_Inr)
  obtain w1 now e where tx: "InTx E (record_call E c cmd scope req (call_id cmd) now) w1 = (Inl e, w')" "sentinel_of e = ErrDuplicateKey"
    using assms(1)
    by (auto simp: create_round_def seq_Inr recover_Inr Let_def errors_Is_def call_id_def split: sum.splits if_splits)
  then obtain e0 w2 where b: "record_call E c cmd scope req (call_id cmd) now (interfere E w1) = (Inl e0, w2)" "dup e0"
    and d: "w_db w' = w_db (interfere E w1)"
    by (auto simp: InTx_def Let_def dup_key_def dup_def split: if_splits prod.splits sum.splits commit_fate.splits)
  consider "has_command (w_db w') cmd" | r where "r \<in> set (db_calls (w_db w'))" "tr_CallID r = call_id cmd"
    using record_call_dup [OF b assms(2) t] d by auto
  then show ?thesis
  proof cases
    case 2
    then have "call_at (w_db w') (call_id cmd) = Some r" using keyed_row_of [OF assms(3)] by metis
    then show ?thesis using 2(1) by (auto simp: collides_def has_command_def)
  qed simp
qed

lemma create_round_known:
  assumes "has_command (w_db (interfere E w')) cmd" "w' = tick w"
  shows "fst (create_round E c cmd scope req w) \<noteq> Inr None"
proof -
  have "\<exists>r. one_row (filter (\<lambda>r. tr_TenantID r = cmd_TenantID cmd \<and> tr_CommandID r = cmd_CommandID cmd)
      (db_calls (w_db (interfere E w')))) = Inr r"
    using assms(1) by (auto simp: has_command_def one_row_def filter_empty_conv split: list.splits)
  then show ?thesis
    using assms(2)
    by (auto simp: create_round_def checkCommand_def seq_def recover_def guard_def ask_def pool_query_def query_def
        GetToolRequestByCommand_def read_def fail_def ok_def split: if_splits sum.splits)
qed

section \<open>Properties\<close>

text \<open>
  C27. One dispatch completes a call: without failures and interference, when the grant stays
  executable at the recorded revision, the reviewed descriptor is there, Control admits, a token is
  issued and the upstream answers within the send bound, dispatching an accepted call leaves it
  succeeded and billed one unit, with its marker set and its result under its digest.
\<close>
theorem dispatch_completes_call:
  assumes "calm E" "call_pk E" "keyed_calls (w_db w)" "call_at (w_db w) callID = Some r"
    and "tr_State r = CallAccepted" "tr_SendMarkerAt r = None"
    and "ready E (w_db w) (CallFromRow r)" "obliging c (tr_Route r)"
  shows "\<exists>r'. call_at (w_db (run_op E c (DoDispatch callID) w)) callID = Some r' \<and> completed r'"
proof -
  let ?w = "tick (tick w)" and ?call = "CallFromRow r"
  have id: "c_CallID ?call = callID" "c_Route ?call = tr_Route r" "c_State ?call = CallAccepted"
    using row_of_key [OF assms(4)] assms(5) by (simp_all add: CallFromRow_def)
  have "advance_call E c callID w = admit E c ?call ?w"
    using id by (simp add: advance_call_def recover_def calm_load_call [OF assms(1,4)])
  then show ?thesis using admit_completes [OF assms(1), of ?w ?call r c] assms id by simp
qed

text \<open>
  C40. \<open>Create\<close> answers: it calls itself again only after a concurrent command took its place, and that
  command's call is then found, so one further round is always enough, whatever fails and whatever
  the other replicas do by the rules of the calls table; the only exception is that the call
  identifier derived from the command already names the call of a different command.
\<close>
theorem create_call_answers:
  assumes "rely calls_R E" "call_pk E" "call_unique E" "keyed_calls (w_db w)" "Create_call (Suc n) E c cmd scope req w = (Inr answer, w')"
  shows "answer \<noteq> None \<or> collides (w_db w') cmd"
proof -
  have two: "fst (Create_call n E c cmd scope req w1) \<noteq> Inr None" if "has_command (w_db w1) cmd" "keyed_calls (w_db w1)" for w1 n
  proof -
    have "has_command (w_db (interfere E (tick w1))) cmd"
      using has_command_stays [OF that(2,1)] calls.R_interfere [OF assms(1), of "tick w1"] by simp
    then have "fst (create_round E c cmd scope req w1) \<noteq> Inr None" using create_round_known by blast
    then show ?thesis by (cases n) (auto simp: seq_def ok_def split: prod.splits sum.splits option.splits)
  qed
  show ?thesis
  proof (cases "fst (create_round E c cmd scope req w)")
    case (Inr a)
    then obtain w1 where r: "create_round E c cmd scope req w = (Inr a, w1)" by (cases "create_round E c cmd scope req w") auto
    show ?thesis
    proof (cases a)
      case None
      have "keyed_calls (w_db w1)"
        using keyed_stable [OF assms(4)] keeps_create_round [OF assms(1,2), of c cmd scope req] r
        unfolding keeps_def by (metis snd_conv)
      then consider "has_command (w_db w1) cmd" | "collides (w_db w1) cmd"
        using create_round_None [of E c cmd scope req w w1] r None assms(3) by blast
      then show ?thesis
      proof cases
        case 1
        then show ?thesis using two [OF 1 \<open>keyed_calls (w_db w1)\<close>, of n] r None assms(5) by (auto simp: seq_def)
      next
        case 2
        have "calls_R (w_db w1) (w_db w')"
          using keeps_Create_call [OF assms(1,2), of n c cmd scope req] r None assms(5)
          unfolding keeps_def by (auto simp: seq_def) (metis snd_conv)
        then show ?thesis using collides_stays [OF 2] by blast
      qed
    qed (use assms(5) r in \<open>auto simp: seq_def\<close>)
  qed (use assms(5) in \<open>auto simp: seq_def split: prod.splits sum.splits\<close>)
qed


section \<open>Witnesses\<close>

definition echo_session :: UpstreamSession where
  "echo_session = \<lparr>us_Send = (\<lambda>_ _ a. (\<lparr>ur_Result = Some a, ur_Native = a, ur_IsError = False\<rparr>, None))\<rparr>"

definition friendly_control :: ToolDispatcher where
  "friendly_control =
     \<lparr>td_CheckExecution = (\<lambda>_ _ _ _ _. Inr \<lparr>ed_Allowed = True, ed_Revision = ''1'', ed_Reason = []\<rparr>),
      td_AdmitTool = (\<lambda>_ _. Inr \<lparr>ad_DispatchID = ''d1'', ad_Allowed = True, ad_DenialCode = [], ad_State = ''authorized''\<rparr>),
      td_ObserveTool = (\<lambda>_ _ _ _ _ _. Inr ()),
      td_GetTool = (\<lambda>_ _ _. Inr \<lparr>dv_State = ''observed'', dv_Outcome = OutcomeSucceeded\<rparr>)\<rparr>"

definition sample_calls :: Calls where
  "sample_calls =
     \<lparr>cl_dispatch = friendly_control, cl_upstream = [(''direct'', \<lparr>up_Open = (\<lambda>_ _. Inr echo_session)\<rparr>)],
      cl_tokens = (\<lambda>_ _. Inr []),
      cl_routes = [\<lparr>qr_Resource = [], qr_ProtocolVersion = [], qr_Transport = [], qr_Route = ''direct''\<rparr>],
      cl_opts = \<lparr>co_SendTimeout = 1000000000, co_ReconcileAge = 60000000000, co_ReconcileBatch = 50, co_ResolveInterval = 0\<rparr>,
      cl_authz = None, cl_schemas = \<lparr>js_Resolve = (\<lambda>_. True), js_Validate = (\<lambda>_ _. True)\<rparr>,
      cl_closing = (\<lambda>_. False), cl_elapsed = (\<lambda>_. False)\<rparr>"

definition sample_call_row :: "CallState \<Rightarrow> ToolRequest" where
  "sample_call_row s =
     \<lparr>tr_CallID = ''k1'', tr_TenantID = ''ten'', tr_GrantID = ''g1'', tr_GrantRevision = 1, tr_ServerID = ''s1'',
      tr_DescriptorRevision = 1, tr_Method = ''echo'', tr_ArgumentRef = [], tr_ArgumentDigest = [],
      tr_OperationID = Some ''op'', tr_AttemptID = Some ''at'', tr_State = s,
      tr_ControlDispatchID = (if s = CallAccepted then None else Some ''d1''), tr_ResultRef = None,
      tr_ResultDigest = None, tr_FailureCode = None, tr_CommandID = ''c1'', tr_RequestDigest = ''d'',
      tr_Deadline = None, tr_CreatedAt = None, tr_UpdatedAt = None, tr_InstanceID = [], tr_ExecutionEpoch = 1,
      tr_Arguments = ''{}'', tr_DescriptorDigest = [], tr_ProtocolVersion = [], tr_Transport = [],
      tr_Route = ''direct'', tr_SideEffecting = False, tr_ExposureCurrency = ''USD'', tr_ExposureAmount = 0,
      tr_SendMarkerAt = (if s = CallUnknown then Some 5 else None), tr_ObservedAt = None,
      tr_ObservationSequence = 0, tr_UsageUnits = None, tr_NativeEvidence = [], tr_Result = []\<rparr>"

definition call_world :: "CallState \<Rightarrow> world" where
  "call_world s = \<lparr>w_db = (w_db (catalog_world CatalogApproved))\<lparr>db_calls := [sample_call_row s]\<rparr>, w_tick = 0, w_log = []\<rparr>"

lemma sample_calm: "calm sample_env"
  by (simp add: calm_def sample_env_def)

lemma sample_call_schema: "call_pk sample_env"
  by (simp add: call_pk_def sample_env_def sample_schema_def)

lemmas sample_rely_calls = calm_rely [OF calls.evolution_axioms sample_calm]

lemma call_world_row: "call_at (w_db (call_world s)) ''k1'' = Some (sample_call_row s)" "keyed_calls (w_db (call_world s))"
  by (simp_all add: call_world_def row_of_def sample_call_row_def keyed_calls_def)

lemma sample_ready: "ready sample_env (w_db (call_world s)) (CallFromRow (sample_call_row s))"
  by (simp add: ready_def call_world_def catalog_world_def row_of_def sample_grant_row_def sample_call_row_def CallFromRow_def
      GrantFromRow_def Executable_def one_row_def descriptor_key_def sample_descriptor_row_def sample_server_def
      DescriptorFromRow_def uint64_def int64_def str_def)

lemma sample_obliging: "obliging sample_calls ''direct''"
  by (simp add: obliging_def sample_calls_def friendly_control_def answers_def echo_session_def)

theorem dispatch_completes_call_witness:
  "\<exists>r'. call_at (w_db (run_op sample_env sample_calls (DoDispatch ''k1'') (call_world CallAccepted))) ''k1'' = Some r'
     \<and> completed r'"
  using dispatch_completes_call [OF sample_calm sample_call_schema call_world_row(2) call_world_row(1) _ _ sample_ready,
      of CallAccepted sample_calls] sample_obliging
  by (simp add: sample_call_row_def)

theorem call_operations_keep_lifecycle_witness:
  "\<exists>r'. call_at (w_db (fold (run_op sample_env sample_calls) [DoDispatch ''k1'', DoShutdown False [''k1'']] (call_world CallAccepted))) ''k1''
      = Some r' \<and> call_history (sample_call_row CallAccepted) r'"
  using call_operations_keep_lifecycle [OF sample_rely_calls sample_call_schema call_world_row(1)] .

theorem call_sent_at_most_once_witness:
  "\<exists>new. w_log (fold (run_op sample_env sample_calls) [DoDispatch ''k1'', DoDispatch ''k1''] (call_world CallAccepted)) = new
    \<and> count_list new (EvSend ''k1'') \<le> 1"
  using call_sent_at_most_once [OF sample_rely_calls sample_call_schema call_world_row(2), of sample_calls
      "[DoDispatch ''k1'', DoDispatch ''k1'']" CallAccepted "''k1''"]
  by (auto simp: call_world_def)

theorem marked_call_never_resent_witness:
  "count_list (w_log (fold (run_op sample_env sample_calls) [DoDispatch ''k1'', DoReconcileCall ''k1''] (call_world CallUnknown))) (EvSend ''k1'') = 0"
  using marked_call_never_resent [OF sample_rely_calls sample_call_schema call_world_row(2) call_world_row(1), of CallUnknown
      sample_calls "[DoDispatch ''k1'', DoReconcileCall ''k1'']"]
  by (simp add: sample_call_row_def call_world_def)

text \<open>A command that was answered before.\<close>

definition known_command :: Command where
  "known_command = \<lparr>cmd_TenantID = ''ten'', cmd_CommandID = ''c1'', cmd_ActorID = ''bob'', cmd_RequestDigest = ''d''\<rparr>"

definition sample_call_request :: CallRequest where
  "sample_call_request =
     \<lparr>cr_GrantID = ''g1'', cr_GrantRevision = 1, cr_Method = ''echo'', cr_ArgumentRef = [],
      cr_ArgumentDigest = DigestBytes ''{}'', cr_Arguments = ''{}'', cr_OperationID = ''op'', cr_AttemptID = ''at'',
      cr_InstanceID = [], cr_ExecutionEpoch = 1, cr_Deadline = 1000000000000\<rparr>"

lemma create_known_runs:
  "\<exists>w'. Create_call (Suc 0) sample_env sample_calls known_command bob sample_call_request (call_world CallAccepted)
    = (Inr (Some (CallFromRow (sample_call_row CallAccepted), True)), w')"
  by (simp add: create_round_def run_defs known_command_def bob_def ask_def sample_calls_def call_world_def
      catalog_world_def GetToolRequestByCommand_def sample_call_row_def)

theorem create_call_answers_witness:
  "\<exists>answer w'. Create_call (Suc 0) sample_env sample_calls known_command bob sample_call_request (call_world CallAccepted) = (Inr answer, w')
    \<and> (answer \<noteq> None \<or> collides (w_db w') known_command)"
proof -
  obtain w' where run: "Create_call (Suc 0) sample_env sample_calls known_command bob sample_call_request (call_world CallAccepted)
      = (Inr (Some (CallFromRow (sample_call_row CallAccepted), True)), w')" using create_known_runs by blast
  have "call_unique sample_env" by (auto simp: call_unique_def sample_env_def sample_schema_def)
  from create_call_answers [OF sample_rely_calls sample_call_schema this call_world_row(2) run] run show ?thesis by blast
qed

text \<open>A world in which a call is recorded.\<close>

definition echo_tool :: Tool where
  "echo_tool =
     \<lparr>tl_Method = ''echo'', tl_InputSchemaDigest = [], tl_OutputSchemaDigest = [], tl_AnnotationsDigest = [],
      tl_SideEffecting = False, tl_UnitPrice = \<lparr>m_Currency = ''USD'', m_Amount = 0\<rparr>,
      tl_Idempotent = False, tl_QuerySupported = False\<rparr>"

definition open_world :: world where
  "open_world = \<lparr>w_db = empty_db\<lparr>db_grants := [sample_grant_row], db_servers := [sample_server],
     db_descriptors := [(sample_descriptor_row CatalogApproved)\<lparr>dr_DescriptorDigest := [], dr_Tools := Jsonb [echo_tool],
       dr_InputSchemas := Jsonb [(''echo'', ''{}'')]\<rparr>]\<rparr>, w_tick = 0, w_log = []\<rparr>"

lemma empty_object: "checkObject ''{}''" "Option.bind (json_parse ''{}'') json_any \<noteq> None"
  by code_simp+

lemma create_runs:
  "\<exists>call w'. Create_call 0 sample_env sample_calls known_command bob sample_call_request open_world = (Inr (Some (call, False)), w')"
proof -
  obtain j where j: "Option.bind (json_parse ''{}'') json_any = Some j" using empty_object(2) by auto
  show ?thesis
    using empty_object(1) j
    by (simp add: create_round_def run_defs known_command_def bob_def ask_def sample_calls_def open_world_def
        GetToolRequestByCommand_def CheckCallRequest_def sample_call_request_def go_time authorize_execution_def
        GetGrant_def sample_grant_row_def friendly_control_def record_call_def usable_grant_def GetGrantForShare_def
        GrantFromRow_def callerMaySend_def uint64_def Executable_def str_def approved_descriptor_def GetDescriptor_def
        descriptor_key_def sample_descriptor_row_def int64_def GetServer_def sample_server_def DescriptorFromRow_def
        Method_def echo_tool_def CheckArguments_def routeOf_def HasUnknownToolRequest_def InsertToolRequest_def
        call_row_def load_call_def GetToolRequest_def)
qed


end
