(* ===== verification/Network_Policy.thy ===== *)
theory Network_Policy
  imports App_Catalog
begin

text \<open>
  The address and host rules of the network policy against a reference in terms of address ranges:
  which IPv4 and IPv6 addresses a discovery target or a connection may have, that an IPv4-mapped
  address is judged as its IPv4 address, and what a checked target implies.
\<close>

section \<open>Ranges\<close>

text \<open>Addresses that are never allowed, and those only a private host may have, as numbers.\<close>

definition routable4 :: "int \<Rightarrow> bool" where
  "routable4 n \<longleftrightarrow> n \<noteq> 0 \<and> \<not> (0xA9FE0000 \<le> n \<and> n \<le> 0xA9FEFFFF) \<and> \<not> (0xE0000000 \<le> n \<and> n \<le> 0xEFFFFFFF)"

definition internal4 :: "int \<Rightarrow> bool" where
  "internal4 n \<longleftrightarrow> (0x0A000000 \<le> n \<and> n \<le> 0x0AFFFFFF) \<or> (0x7F000000 \<le> n \<and> n \<le> 0x7FFFFFFF)
     \<or> (0xAC100000 \<le> n \<and> n \<le> 0xAC1FFFFF) \<or> (0xC0A80000 \<le> n \<and> n \<le> 0xC0A8FFFF)"

text \<open>An IPv6 address with a zone differs from the unspecified and the metadata address.\<close>

definition routable6 :: "int \<Rightarrow> string \<Rightarrow> bool" where
  "routable6 n z \<longleftrightarrow> (z \<noteq> [] \<or> n \<noteq> 0 \<and> n \<noteq> 0xFD000EC2000000000000000000000254)
     \<and> \<not> (0xFE80 * 2 ^ 112 \<le> n \<and> n < 0xFEC0 * 2 ^ 112) \<and> n < 0xFF * 2 ^ 120"

definition internal6 :: "int \<Rightarrow> bool" where
  "internal6 n \<longleftrightarrow> n = 1 \<or> (0xFC * 2 ^ 120 \<le> n \<and> n < 0xFE * 2 ^ 120)"

definition mapped :: "int \<Rightarrow> bool" where
  "mapped n \<longleftrightarrow> 0xFFFF * 2 ^ 32 \<le> n \<and> n < 0x10000 * 2 ^ 32"

text \<open>The reference verdict.\<close>

definition reachable_addr :: "Addr \<Rightarrow> bool \<Rightarrow> bool" where
  "reachable_addr a p =
     (case a of
        V4 w \<Rightarrow> routable4 (uint w) \<and> (p \<or> \<not> internal4 (uint w))
      | V6 w z \<Rightarrow>
         if mapped (uint w)
         then (let n = uint w mod 2 ^ 32 in routable4 n \<and> (p \<or> \<not> internal4 n))
         else routable6 (uint w) z \<and> (p \<or> \<not> internal6 (uint w)))"

lemma div_eq_range:
  assumes "0 < (k :: int)"
  shows "n div k = q \<longleftrightarrow> q * k \<le> n \<and> n < (q + 1) * k"
proof
  show "q * k \<le> n \<and> n < (q + 1) * k" if "n div k = q"
    using that div_mult_mod_eq [of n k] pos_mod_bound [OF assms, of n] pos_mod_sign [OF assms, of n]
    by (auto simp: algebra_simps)
  show "n div k = q" if "q * k \<le> n \<and> n < (q + 1) * k"
    using that assms by (intro int_div_pos_eq [where r = "n - q * k"]) (auto simp: algebra_simps)
qed

section \<open>IPv4\<close>

lemma uint32_bounds: "0 \<le> uint (w :: u32)" "uint w < 4294967296"
  using uint_lt2p [of w] by simp_all

lemma uint128_bounds: "0 \<le> uint (w :: 128 word)" "uint w < 2 ^ 128"
  using uint_lt2p [of w] by simp_all

lemma octets:
  fixes w :: u32
  defines "n \<equiv> uint w"
  shows "octet 0 w = n div 16777216" "octet 1 w = n div 65536 mod 256"
    "octet 2 w = n div 256 mod 256"
proof -
  have "0 \<le> n div 16777216" "n div 16777216 < 256"
    using uint32_bounds [of w] by (simp_all add: n_def pos_imp_zdiv_nonneg_iff)
  then show "octet 0 w = n div 16777216" by (simp add: octet_def n_def)
qed (simp_all add: octet_def n_def)

lemma quotients4:
  fixes n :: int
  defines "h \<equiv> n div 65536"
  shows "n div 16777216 = h div 256" "n div 1048576 = h div 16" "n div 268435456 = h div 4096"
  by (simp_all add: h_def zdiv_zmult2_eq [symmetric])

lemma digits:
  "0 \<le> b \<Longrightarrow> b < k \<Longrightarrow> h div k = a \<and> h mod k = b \<longleftrightarrow> (h :: int) = a * k + b"
  using div_mult_mod_eq [of h k] by auto

lemma classes4:
  fixes w :: u32
  defines "n \<equiv> uint w"
  shows "IsLoopback (V4 w) \<longleftrightarrow> n div 16777216 = 127"
    and "IsPrivate (V4 w) \<longleftrightarrow> n div 16777216 = 10 \<or> n div 1048576 = 2753 \<or> n div 65536 = 49320"
    and "IsLinkLocalUnicast (V4 w) \<longleftrightarrow> n div 65536 = 43518"
    and "IsMulticast (V4 w) \<longleftrightarrow> n div 268435456 = 14"
    and "IsLinkLocalMulticast (V4 w) \<Longrightarrow> n div 268435456 = 14"
proof -
  define h where "h = n div 65536"
  note defs = IsLoopback_def IsPrivate_def IsLinkLocalUnicast_def IsMulticast_def
    IsLinkLocalMulticast_def Unmap_def Addr.case octets n_def [symmetric] quotients4 h_def [symmetric]
  show "IsLoopback (V4 w) \<longleftrightarrow> n div 16777216 = 127" unfolding defs by (rule refl)
  have "h mod 256 div 16 = h div 16 mod 16" using zmod_zmult2_eq [of 16 h 16] by simp
  moreover have "h div 256 = h div 16 div 16" by (simp add: zdiv_zmult2_eq [symmetric])
  ultimately have "h div 256 = 172 \<and> h mod 256 div 16 = 1 \<longleftrightarrow> h div 16 = 2753"
    using digits [of 1 16 "h div 16" 172] by simp
  then show "IsPrivate (V4 w) \<longleftrightarrow> n div 16777216 = 10 \<or> n div 1048576 = 2753 \<or> n div 65536 = 49320"
    using digits [of 168 256 h 192] unfolding defs by simp
  show "IsLinkLocalUnicast (V4 w) \<longleftrightarrow> n div 65536 = 43518"
    using digits [of 254 256 h 169] unfolding defs by simp
  have "h div 256 div 16 = h div 4096" by (simp add: zdiv_zmult2_eq [symmetric])
  then show "IsMulticast (V4 w) \<longleftrightarrow> n div 268435456 = 14" unfolding defs by simp
  show "n div 268435456 = 14" if "IsLinkLocalMulticast (V4 w)"
    using that \<open>h div 256 div 16 = h div 4096\<close> unfolding defs by simp
qed

lemma metadata4: "V4 w \<in> set metadataAddrs \<longleftrightarrow> uint w = 0xA9FEA9FE"
  by (auto simp: metadataAddrs_def word_uint_eq_iff)

lemma ranges4:
  fixes n :: int
  shows "routable4 n \<longleftrightarrow> n \<noteq> 0 \<and> n div 65536 \<noteq> 43518 \<and> n div 268435456 \<noteq> 14"
    and "internal4 n \<longleftrightarrow> n div 16777216 = 10 \<or> n div 16777216 = 127 \<or> n div 1048576 = 2753
      \<or> n div 65536 = 49320"
  by (auto simp: routable4_def internal4_def div_eq_range)

lemma check_v4:
  "CheckAddr (V4 w) p = Inr () \<longleftrightarrow> routable4 (uint w) \<and> (p \<or> \<not> internal4 (uint w))"
proof -
  define n where "n = uint w"
  note classes = classes4 [of w, folded n_def] metadata4 [of w, folded n_def]
  have u: "IsUnspecified (V4 w) \<longleftrightarrow> n = 0" "\<not> IsInterfaceLocalMulticast (V4 w)" "Unmap (V4 w) = V4 w"
    by (simp_all add: IsUnspecified_def IsInterfaceLocalMulticast_def Unmap_def n_def word_uint_eq_iff)
  have m: "n div 65536 = 43518" if "n = 0xA9FEA9FE" using that by simp
  have "CheckAddr (V4 w) p = Inr () \<longleftrightarrow>
      \<not> (V4 w \<in> set metadataAddrs \<or> IsLinkLocalUnicast (V4 w) \<or> IsMulticast (V4 w) \<or> IsUnspecified (V4 w))
        \<and> (p \<or> \<not> (IsLoopback (V4 w) \<or> IsPrivate (V4 w)))"
    using classes(4,5) u(2,3) unfolding CheckAddr_def Let_def by auto
  also have "\<dots> \<longleftrightarrow> routable4 n \<and> (p \<or> \<not> internal4 n)"
    unfolding classes(1-4,6) u(1) ranges4 using m by blast
  finally show ?thesis unfolding n_def .
qed

section \<open>IPv6\<close>

lemma unmap6:
  "Unmap (V6 w z) = (if mapped (uint w) then V4 (word_of_int (uint w mod 2 ^ 32)) else V6 w z)"
proof -
  have d: "uint (drop_bit 32 w) = uint w div 2 ^ 32" 
    by (simp only: drop_bit_eq_div uint_div_distrib) simp
  have "drop_bit 32 w = 0xFFFF \<longleftrightarrow> mapped (uint w)"
    unfolding word_uint_eq_iff d by (simp add: mapped_def div_eq_range)
  moreover have "ucast w = (word_of_int (uint w mod 2 ^ 32) :: u32)"
    by (simp add: word_uint_eq_iff unsigned_ucast_eq take_bit_eq_mod uint_word_of_int)
  ultimately show ?thesis by (simp add: Unmap_def)
qed

lemma unmapped_unmap: "\<not> mapped (uint w) \<Longrightarrow> Unmap (V6 w z) = V6 w z"
  by (simp add: unmap6)

lemma classes6:
  fixes w :: "128 word"
  defines "n \<equiv> uint w"
  assumes "\<not> mapped (uint w)"
  shows "IsLoopback (V6 w z) \<longleftrightarrow> n = 1"
    "IsPrivate (V6 w z) \<longleftrightarrow> 0xFC * 2 ^ 120 \<le> n \<and> n < 0xFE * 2 ^ 120"
    "IsLinkLocalUnicast (V6 w z) \<longleftrightarrow> 0xFE80 * 2 ^ 112 \<le> n \<and> n < 0xFEC0 * 2 ^ 112"
    "IsMulticast (V6 w z) \<longleftrightarrow> 0xFF * 2 ^ 120 \<le> n"
    "IsUnspecified (V6 w z) \<longleftrightarrow> n = 0 \<and> z = []"
    "IsLinkLocalMulticast (V6 w z) \<Longrightarrow> 0xFF * 2 ^ 120 \<le> n"
    "IsInterfaceLocalMulticast (V6 w z) \<Longrightarrow> 0xFF * 2 ^ 120 \<le> n"
  using uint128_bounds [of w] unmapped_unmap [OF assms(2), of z]
  by (auto simp: IsLoopback_def IsPrivate_def IsLinkLocalUnicast_def IsMulticast_def IsUnspecified_def
      IsLinkLocalMulticast_def IsInterfaceLocalMulticast_def prefix6_def n_def div_eq_range
      word_uint_eq_iff)

lemma metadata6:
  "V6 w z \<in> set metadataAddrs \<longleftrightarrow> uint w = 0xFD000EC2000000000000000000000254 \<and> z = []"
  by (auto simp: metadataAddrs_def word_uint_eq_iff)

lemma check_v6:
  assumes "\<not> mapped (uint w)"
  shows "CheckAddr (V6 w z) p = Inr () \<longleftrightarrow> routable6 (uint w) z \<and> (p \<or> \<not> internal6 (uint w))"
proof -
  define n where "n = uint w"
  note classes = classes6 [OF assms, of z, folded n_def] metadata6 [of w z, folded n_def]
  have "CheckAddr (V6 w z) p = Inr () \<longleftrightarrow>
      \<not> (V6 w z \<in> set metadataAddrs \<or> IsLinkLocalUnicast (V6 w z) \<or> IsMulticast (V6 w z)
         \<or> IsUnspecified (V6 w z)) \<and> (p \<or> \<not> (IsLoopback (V6 w z) \<or> IsPrivate (V6 w z)))"
    using classes(4,6,7) unmapped_unmap [OF assms, of z] unfolding CheckAddr_def Let_def by auto
  also have "\<dots> \<longleftrightarrow> routable6 n z \<and> (p \<or> \<not> internal6 n)"
    unfolding classes(1-5,8) routable6_def internal6_def not_le [symmetric] by blast
  finally show ?thesis unfolding n_def .
qed

lemma unmap_idem: "Unmap (Unmap a) = Unmap a"
  by (cases a) (auto simp: unmap6 Unmap_def [of "V4 w" for w])

lemma check_unmapped: "CheckAddr (Unmap a) p = CheckAddr a p"
  by (simp add: CheckAddr_def unmap_idem)

lemma check_addr_iff: "CheckAddr a p = Inr () \<longleftrightarrow> reachable_addr a p"
proof (cases a)
  case (V6 w z)
  show ?thesis
  proof (cases "mapped (uint w)")
    case True
    define v where "v = (word_of_int (uint w mod 2 ^ 32) :: u32)"
    have "uint v = uint w mod 2 ^ 32" by (simp add: v_def uint_word_of_int)
    moreover have "CheckAddr (V6 w z) p = CheckAddr (V4 v) p"
      using check_unmapped [of "V6 w z" p] True by (simp add: unmap6 v_def)
    ultimately show ?thesis using True V6 by (simp add: check_v4 reachable_addr_def Let_def)
  qed (simp add: check_v6 reachable_addr_def V6)
qed (simp add: check_v4 reachable_addr_def)

section \<open>The policy\<close>


lemma check_addrs_iff: "check_addrs as p = Inr () \<longleftrightarrow> list_all (\<lambda>a. reachable_addr a p) as"
  by (induction as) (auto simp: check_addr_iff [symmetric] split: sum.splits)

text \<open>The addresses a host stands for when the target is checked: its literal, or the answer.\<close>

definition target_addrs :: "Resolver \<Rightarrow> nat \<Rightarrow> string \<Rightarrow> Addr list" where
  "target_addrs resolver n host =
     (case ParseAddr (Trim host ''[]'') of
        Some a \<Rightarrow> [a]
      | None \<Rightarrow> (case resolver n host of Inr addrs \<Rightarrow> addrs | Inl _ \<Rightarrow> []))"

text \<open>
  A discovery target passes \<open>CheckTarget\<close> exactly when its host is on the reviewed list, it is
  plain https unless the host is a development-only private one, the host has at least one address,
  and every one of its addresses is reachable under the rules of the preceding theorem.
\<close>
theorem checked_target:
  "fst (CheckTarget p resolver resource w) = Inr () \<longleftrightarrow>
     (\<exists>host priv. CheckResource resource True = Inr host \<and> CheckHost p host = Inr priv
        \<and> (priv \<or> (\<exists>h. CheckResource resource False = Inr h))
        \<and> target_addrs resolver (w_tick w) host \<noteq> []
        \<and> list_all (\<lambda>a. reachable_addr a priv) (target_addrs resolver (w_tick w) host))"
  by (auto simp: CheckTarget_def seq_def lift_def ok_def fail_def ask_def tick_def target_addrs_def
      check_addrs_iff [symmetric] split: sum.splits option.splits list.splits if_splits)

end
