(* ===== verification/App_Refresh.thy ===== *)
theory App_Refresh
  imports Catalog_Lifecycle Task_Refinement
begin

text \<open>
  The catalog refresh of \<open>internal/application/refresh.go\<close>: the schedule of refresh tasks, the live
  re-read a claimant asks for, and the binding of the refresh profile (the recorded observation is the
  only acceptable result; accepting a drift disables the revision).  The text of the error
  with which \<open>BuildDescriptor\<close> refuses a live server, which the model of errors drops, is a parameter
  (\<open>rf_message\<close>); a log line is not modelled.
\<close>

section \<open>The service\<close>

definition RefreshActor :: string where
  "RefreshActor = ''mcp-catalog-refresh''"

abbreviation RefreshUnavailable :: string where "RefreshUnavailable \<equiv> ''REFRESH_UNAVAILABLE''"
abbreviation RefreshNotApproved :: string where "RefreshNotApproved \<equiv> ''REFRESH_NOT_APPROVED''"

record RefreshOutcome =
  ro_Completed :: bool
  ro_ResultRef :: string
  ro_ResultDigest :: string
  ro_FailureCode :: string

definition failed_refresh :: "string \<Rightarrow> RefreshOutcome" where
  "failed_refresh code = \<lparr>ro_Completed = False, ro_ResultRef = [], ro_ResultDigest = [], ro_FailureCode = code\<rparr>"

definition recorded_refresh :: "CatalogRefresh \<Rightarrow> RefreshOutcome" where
  "recorded_refresh rec =
     \<lparr>ro_Completed = True, ro_ResultRef = cf_ResultRef rec, ro_ResultDigest = cf_ResultDigest rec, ro_FailureCode = []\<rparr>"

record Refresh =
  rf_catalog :: Catalog
  rf_tasks :: Tasks
  rf_message :: "Declaration \<Rightarrow> LiveServer \<Rightarrow> string"

definition Bind :: "string \<Rightarrow> ResultBinding \<Rightarrow> Tasks \<Rightarrow> Tasks" where
  "Bind profile b svc = svc\<lparr>tk_bindings := (tk_bindings svc)(profile := Some b)\<rparr>"

section \<open>The live comparison\<close>

definition DeclarationOf :: "Descriptor \<Rightarrow> Declaration" where
  "DeclarationOf d =
     \<lparr>dc_CanonicalResource = d_CanonicalResource d, dc_Transport = d_Transport d,
      dc_ProtocolVersion = d_ProtocolVersion d, dc_Provenance = d_Provenance d, dc_ExpectedDigest = [],
      dc_Tools = map (\<lambda>t. \<lparr>td_Method = tl_Method t, td_InputSchemaDigest = [], td_OutputSchemaDigest = [],
                           td_SideEffecting = tl_SideEffecting t, td_UnitPrice = tl_UnitPrice t,
                           td_Idempotent = tl_Idempotent t, td_QuerySupported = tl_QuerySupported t\<rparr>) (d_Tools d),
      dc_DataClass = d_DataClass d, dc_NetworkScope = d_NetworkScope d, dc_Licenses = d_Licenses d\<rparr>"

definition zero_tool :: Tool where
  "zero_tool = \<lparr>tl_Method = [], tl_InputSchemaDigest = [], tl_OutputSchemaDigest = [], tl_AnnotationsDigest = [],
     tl_SideEffecting = False, tl_UnitPrice = \<lparr>m_Currency = [], m_Amount = 0\<rparr>, tl_Idempotent = False,
     tl_QuerySupported = False\<rparr>"

text \<open>One method of the reviewed revision against the live one (the zero tool when it is absent).\<close>

definition tool_drift :: "Descriptor \<Rightarrow> Tool \<Rightarrow> string list" where
  "tool_drift live rt =
     (let lt = (case Method live (tl_Method rt) of None \<Rightarrow> zero_tool | Some t \<Rightarrow> t) in
      if tl_InputSchemaDigest rt \<noteq> tl_InputSchemaDigest lt then [tl_Method rt @ '': input schema'']
      else if tl_OutputSchemaDigest rt \<noteq> tl_OutputSchemaDigest lt then [tl_Method rt @ '': output schema'']
      else if tl_AnnotationsDigest rt \<noteq> tl_AnnotationsDigest lt then [tl_Method rt @ '': annotations'']
      else [])"

definition driftReason :: "Descriptor \<Rightarrow> Descriptor \<Rightarrow> string" where
  "driftReason reviewed live =
     (let parts =
        (if d_ServerName reviewed \<noteq> d_ServerName live \<or> d_ServerVersion reviewed \<noteq> d_ServerVersion live
         then [''server '' @ d_ServerName reviewed @ '' '' @ d_ServerVersion reviewed @ '' -> ''
               @ d_ServerName live @ '' '' @ d_ServerVersion live] else [])
        @ concat (map (tool_drift live) (d_Tools reviewed))
        @ (if d_ResourcesDigest reviewed \<noteq> d_ResourcesDigest live then [''resources''] else [])
        @ (if d_PromptsDigest reviewed \<noteq> d_PromptsDigest live then [''prompts''] else [])
        @ (if d_Issuer reviewed \<noteq> d_Issuer live then [''issuer''] else [])
      in if parts = [] then ''descriptor digest'' else Join parts ''; '')"

definition bounded :: "string \<Rightarrow> nat \<Rightarrow> string" where
  "bounded s n = (if n < length s then take n s else s)"

text \<open>The live digest, whether it drifted, and why.\<close>

definition live_comparison ::
  "(Declaration \<Rightarrow> LiveServer \<Rightarrow> string) \<Rightarrow> Descriptor \<Rightarrow> LiveServer \<Rightarrow> string \<times> bool \<times> string" where
  "live_comparison message desc live =
     (let (liveDigest, reason) =
        (case BuildDescriptor (DeclarationOf desc) live of
           Inl _ \<Rightarrow> ([], message (DeclarationOf desc) live)
         | Inr rebuilt \<Rightarrow> (d_Digest rebuilt, driftReason desc rebuilt));
        drift = (liveDigest \<noteq> d_Digest desc)
      in (liveDigest, drift, if drift then reason else []))"

section \<open>Operations\<close>

text \<open>
  \<open>Schedule\<close>: the period in whole seconds divides the Unix time; a positive period below one second
  would divide by zero, which panics (\<open>config.go\<close> admits no period below a minute).  Go's integer
  division truncates towards zero.
\<close>

definition go_quot :: "int \<Rightarrow> int \<Rightarrow> int" where
  "go_quot a b = (if 0 \<le> a then a div b else - ((- a) div b))"

definition refresh_input :: "RefreshTarget \<Rightarrow> bytes" where
  "refresh_input row = json_encode (JObj
     [(''schemaVersion'', JInt 1), (''serverId'', JStr (rt_ServerID row)),
      (''revision'', JU64 (uint64 (rt_Revision row))), (''descriptorDigest'', JStr (rt_DescriptorDigest row))])"

definition refresh_request :: "RefreshTarget \<Rightarrow> int \<Rightarrow> RequestInput" where
  "refresh_request row bucket =
     (let taskID = ''refresh-'' @ rt_ServerID row @ ''-r'' @ fmt_int (rt_Revision row) @ ''-'' @ fmt_int bucket in
      \<lparr>ri_TaskID = taskID, ri_TenantID = rt_TenantID row, ri_Kind = KindCatalogRefresh,
       ri_Profile = CatalogRefreshProfile, ri_Input = refresh_input row, ri_Effects = EffectsReconstructible,
       ri_DispatchID = [], ri_AuthorizationRef = ''grant:'' @ rt_GrantID row, ri_CorrelationID = taskID\<rparr>)"

fun schedule_all :: "env \<Rightarrow> Tasks \<Rightarrow> int \<Rightarrow> RefreshTarget list \<Rightarrow> nat \<Rightarrow> nat act" where
  "schedule_all E svc bucket [] created = ok created"
| "schedule_all E svc bucket (row # rows) created =
     recover (Request E svc (refresh_request row bucket)) (\<lambda>r.
     schedule_all E svc bucket rows
       (case r of Inr (_, False) \<Rightarrow> created + 1 | _ \<Rightarrow> created))"

definition Schedule :: "env \<Rightarrow> Refresh \<Rightarrow> duration \<Rightarrow> int \<Rightarrow> nat act" where
  "Schedule E r period maxTargets =
     (if period \<le> 0 then ok 0
      else
        seq (clock_now E) (\<lambda>now.
        seq (pool_query E (ListRefreshTargets now maxTargets)) (\<lambda>rows.
        if period div second = 0 then fail (Err ErrOther ''panic: integer divide by zero'')
        else schedule_all E (rf_tasks r) (go_quot (now div second) (period div second)) rows 0)))"

text \<open>The claimant of a refresh: the current one, under a valid lease and the frozen input.\<close>

definition refresh_claimant :: "env \<Rightarrow> Task \<Rightarrow> string \<Rightarrow> string \<Rightarrow> unit act" where
  "refresh_claimant E task workerID inputDigest =
     seq (guard (t_Kind task = KindCatalogRefresh \<and> t_ResultProfile task = CatalogRefreshProfile) (err ErrInvalid)) (\<lambda>_.
     seq (guard (t_State task = StateLeased \<and> t_WorkerID task = workerID) (err ErrStaleExecution)) (\<lambda>_.
     seq (clock_now E) (\<lambda>now.
     seq (guard (After (t_LeaseUntil task) now) (err ErrStaleExecution)) (\<lambda>_.
     guard (t_InputDigest task = inputDigest) (err ErrInvalid)))))"

text \<open>\<open>json.Unmarshal(task.Input, &in)\<close>\<close>
definition unmarshal_refresh_input :: "bytes \<Rightarrow> CatalogRefreshInput option" where
  "unmarshal_refresh_input input =
     Option.bind (json_parse input) (decode_struct False catalog_refresh_fields zero_refresh_input)"

definition refreshed_descriptor :: "env \<Rightarrow> Task \<Rightarrow> Descriptor act" where
  "refreshed_descriptor E task =
     (case unmarshal_refresh_input (t_Input task) of
        None \<Rightarrow> fail (err ErrInvalid)
      | Some i \<Rightarrow>
         seq (pool_query E (GetDescriptor (cri_ServerID i) (int64 (cri_Revision i)))) (\<lambda>dr.
         seq (pool_query E (GetServer (cri_ServerID i))) (\<lambda>srv.
         seq (lift (DescriptorFromRow dr srv)) (\<lambda>desc.
         seq (guard (d_TenantID desc = t_TenantID task \<and> d_Digest desc = cri_DescriptorDigest i) (err ErrInvalid)) (\<lambda>_.
         ok desc)))))"

definition refresh_row ::
  "Refresh \<Rightarrow> string \<Rightarrow> u64 \<Rightarrow> string \<Rightarrow> Descriptor \<Rightarrow> LiveServer \<Rightarrow> CatalogRefresh" where
  "refresh_row r taskID generation workerID desc live =
     (let (liveDigest, drift, reason) = live_comparison (rf_message r) desc live;
          (ref, digest) = RefreshResult taskID generation (d_ServerID desc) (d_Revision desc) (d_Digest desc) liveDigest drift
      in \<lparr>cf_TaskID = taskID, cf_Generation = int64 generation, cf_WorkerID = workerID,
          cf_ServerID = d_ServerID desc, cf_Revision = int64 (d_Revision desc), cf_ReviewedDigest = d_Digest desc,
          cf_LiveDigest = optional liveDigest, cf_Drift = drift, cf_DriftReason = optional (bounded reason 1024),
          cf_ResultRef = ref, cf_ResultDigest = digest, cf_RefreshedAt = None\<rparr>)"

text \<open>The live read of an approved revision, recorded once; the record that is there wins.\<close>

definition record_refresh :: "env \<Rightarrow> Refresh \<Rightarrow> string \<Rightarrow> u64 \<Rightarrow> string \<Rightarrow> Descriptor \<Rightarrow> RefreshOutcome act" where
  "record_refresh E r taskID generation workerID desc =
     recover (readLive (rf_catalog r) (d_CanonicalResource desc) (d_ProtocolVersion desc)) (\<lambda>live.
     case live of
       Inl _ \<Rightarrow> ok (failed_refresh RefreshUnavailable)
     | Inr l \<Rightarrow>
        seq (pool_query E (InsertRefresh (refresh_row r taskID generation workerID desc l))) (\<lambda>_.
        seq (pool_query E (GetRefresh taskID (int64 generation))) (\<lambda>rec.
        ok (recorded_refresh rec))))"

definition Advance_refresh :: "env \<Rightarrow> Refresh \<Rightarrow> string \<Rightarrow> u64 \<Rightarrow> string \<Rightarrow> string \<Rightarrow> RefreshOutcome act" where
  "Advance_refresh E r taskID generation workerID inputDigest =
     recover (pool_query E (GetRequest taskID (int64 generation))) (\<lambda>q.
     case q of
       Inl e \<Rightarrow> fail (if errors_Is e ErrNoRows then err ErrNotFound else e)
     | Inr row \<Rightarrow>
        (let task = TaskFromRow row in
         seq (refresh_claimant E task workerID inputDigest) (\<lambda>_.
         recover (pool_query E (GetRefresh taskID (int64 generation))) (\<lambda>rec.
         case rec of
           Inr rec \<Rightarrow> ok (recorded_refresh rec)
         | Inl e \<Rightarrow>
            if \<not> errors_Is e ErrNoRows then fail e
            else
              seq (refreshed_descriptor E task) (\<lambda>desc.
              if d_State desc \<noteq> CatalogApproved then ok (failed_refresh RefreshNotApproved)
              else record_refresh E r taskID generation workerID desc)))))"

section \<open>The binding of the refresh profile\<close>

definition Recorded :: "env \<Rightarrow> Task \<Rightarrow> RecordedResult option act" where
  "Recorded E t =
     recover (query E (GetRefresh (t_TaskID t) (int64 (t_Generation t)))) (\<lambda>r.
     case r of
       Inl e \<Rightarrow> if errors_Is e ErrNoRows then ok None else fail e
     | Inr rec \<Rightarrow> ok (Some \<lparr>rr_Ref = cf_ResultRef rec, rr_Digest = cf_ResultDigest rec\<rparr>))"

definition Accepted :: "env \<Rightarrow> Task \<Rightarrow> unit act" where
  "Accepted E t =
     seq (query E (GetRefresh (t_TaskID t) (int64 (t_Generation t)))) (\<lambda>rec.
     if \<not> cf_Drift rec then ok ()
     else
       seq (query E (GetServer (cf_ServerID rec))) (\<lambda>srv.
       seq (query E (GetDescriptorForUpdate (cf_ServerID rec) (cf_Revision rec))) (\<lambda>dr.
       seq (lift (DescriptorFromRow dr srv)) (\<lambda>d.
       if d_State d \<noteq> CatalogApproved then ok ()
       else
         seq (disableLocked E d RefreshActor (d_TenantID d)
                (''refresh:'' @ t_TaskID t @ '':'' @ fmt_u64 (t_Generation t)) (t_InputDigest t) ''REFRESH_DRIFT'') (\<lambda>_.
         ok ())))))"

definition refresh_binding :: "env \<Rightarrow> ResultBinding" where
  "refresh_binding E = \<lparr>rb_Recorded = Recorded E, rb_Accepted = Accepted E\<rparr>"

definition NewRefresh :: "env \<Rightarrow> Catalog \<Rightarrow> Tasks \<Rightarrow> (Declaration \<Rightarrow> LiveServer \<Rightarrow> string) \<Rightarrow> Refresh" where
  "NewRefresh E catalog tasks message =
     \<lparr>rf_catalog = catalog, rf_tasks = Bind CatalogRefreshProfile (refresh_binding E) tasks, rf_message = message\<rparr>"

end
