(* ===== verification/Refresh_Safety.thy ===== *)
theory Refresh_Safety
  imports App_Refresh
begin

text \<open>
  What the catalog refresh promises: an unchanged server is never reported as drifted (the reviewed
  declaration rebuilds the very descriptor), a recorded observation is written once and is the only
  result a submission can be accepted with, and accepting a drift disables the revision and fences
  its grants in the acceptance transaction.
\<close>

section \<open>Rebuilding a descriptor\<close>

text \<open>A declaration without the digests it expects.\<close>

definition undemanding :: "ToolDeclaration \<Rightarrow> ToolDeclaration" where
  "undemanding t = t\<lparr>td_InputSchemaDigest := [], td_OutputSchemaDigest := []\<rparr>"

definition declared_as :: "ToolDeclaration list \<Rightarrow> string \<Rightarrow> ToolDeclaration option" where
  "declared_as ds m = find (\<lambda>t. td_Method t = m) ds"

definition relaxes :: "ToolDeclaration list \<Rightarrow> ToolDeclaration list \<Rightarrow> bool" where
  "relaxes ds ds' \<longleftrightarrow> (\<forall>m. declared_as ds' m = map_option undemanding (declared_as ds m))"

lemma declared_as_filter:
  "declared_as (filter (\<lambda>t. td_Method t \<noteq> n) ds) m = (if m = n then None else declared_as ds m)"
  unfolding declared_as_def by (induction ds) auto

lemma relaxes_filter:
  "relaxes ds ds' \<Longrightarrow> relaxes (filter (\<lambda>t. td_Method t \<noteq> n) ds) (filter (\<lambda>t. td_Method t \<noteq> n) ds')"
  by (simp add: relaxes_def declared_as_filter)

lemma relaxes_Nil: "relaxes [] ds' \<Longrightarrow> ds' = []"
  by (cases ds') (auto simp: relaxes_def declared_as_def dest: spec [of _ "td_Method (hd ds')"])

lemma bind_live_relaxed:
  assumes "bind_live lts ds tools schemas = Inr (missing, tools', schemas')" "relaxes ds ds'"
  shows "\<exists>missing'. bind_live lts ds' tools schemas = Inr (missing', tools', schemas') \<and> relaxes missing missing'"
  using assms
proof (induction lts arbitrary: ds ds' tools schemas)
  case (Cons lt lts)
  obtain decl where f: "find (\<lambda>t. td_Method t = lt_Name lt) ds = Some decl"
    using Cons.prems(1) by (auto split: option.splits)
  have f': "find (\<lambda>t. td_Method t = lt_Name lt) ds' = Some (undemanding decl)"
    using Cons.prems(2) f by (auto simp: relaxes_def declared_as_def)
  obtain i out ann where dg: "CanonicalDigest (lt_InputSchema lt) = Inr i"
    "CanonicalDigest (lt_OutputSchema lt) = Inr out" "AnnotationsDigest (lt_Annotations lt) = Inr ann"
    using Cons.prems(1) f by (auto split: sum.splits)
  show ?case
    using Cons.prems(1) f f' dg Cons.IH [OF _ relaxes_filter [OF Cons.prems(2)]]
    by (auto simp: undemanding_def split: if_splits)
qed simp

lemma find_by_key: "distinct (map f xs) \<Longrightarrow> x \<in> set xs \<Longrightarrow> find (\<lambda>y. f y = f x) xs = Some x"
  by (induction xs) auto

lemma check_declared_InrI:
  assumes "distinct (map td_Method (acc @ decls))"
    "list_all (\<lambda>t. td_Method t \<noteq> [] \<and> 0 \<le> m_Amount (td_UnitPrice t) \<and> length (m_Currency (td_UnitPrice t)) = 3) decls"
  shows "check_declared decls acc = Inr (acc @ decls)"
  using assms
proof (induction decls arbitrary: acc)
  case (Cons t decls)
  then show ?case using Cons.IH [of "acc @ [t]"] by (auto simp: not_less)
qed simp

text \<open>The declaration of a bound tool.\<close>

definition declared_tool :: "Tool \<Rightarrow> ToolDeclaration" where
  "declared_tool t = \<lparr>td_Method = tl_Method t, td_InputSchemaDigest = [], td_OutputSchemaDigest = [],
     td_SideEffecting = tl_SideEffecting t, td_UnitPrice = tl_UnitPrice t,
     td_Idempotent = tl_Idempotent t, td_QuerySupported = tl_QuerySupported t\<rparr>"

lemma declared_tool_Method [simp]: "td_Method (declared_tool t) = tl_Method t"
  by (simp add: declared_tool_def)

lemma dc_Tools_DeclarationOf: "dc_Tools (DeclarationOf d) = map declared_tool (d_Tools d)"
  by (simp add: DeclarationOf_def declared_tool_def [abs_def])

lemma declared_tool_bound:
  assumes "tool_bound ds lts t" "distinct (map td_Method ds)"
  shows "\<exists>decl \<in> set ds. declared_tool t = undemanding decl \<and> declared_as ds (tl_Method t) = Some decl"
proof -
  obtain decl where d: "decl \<in> set ds" "tl_Method t = td_Method decl" "tl_SideEffecting t = td_SideEffecting decl"
    "tl_UnitPrice t = td_UnitPrice decl" "tl_Idempotent t = td_Idempotent decl"
    "tl_QuerySupported t = td_QuerySupported decl"
    using assms(1) unfolding tool_bound_def by blast
  have "declared_tool t = undemanding decl"
    by (rule ToolDeclaration.equality) (simp_all add: declared_tool_def undemanding_def d(2-))
  moreover have "declared_as ds (tl_Method t) = Some decl"
    using d(2) find_by_key [OF assms(2) d(1)] by (simp add: declared_as_def)
  ultimately show ?thesis using d(1) by blast
qed

lemma BuildDescriptor_bound:
  assumes "BuildDescriptor d live = Inr desc"
  obtains host tools schemas where
    "CheckResource (dc_CanonicalResource d) True = Inr host"
    "bind_live (lv_Tools live) (dc_Tools d) [] [] = Inr ([], tools, schemas)"
    "desc = (bound_descriptor d live host tools schemas)
       \<lparr>d_Digest := DescriptorDigest (bound_descriptor d live host tools schemas)\<rparr>"
    "distinct (map td_Method (dc_Tools d))"
    "list_all (\<lambda>t. td_Method t \<noteq> [] \<and> 0 \<le> m_Amount (td_UnitPrice t) \<and> length (m_Currency (td_UnitPrice t)) = 3)
       (dc_Tools d)"
    "dc_Transport d = ''streamable-http''" "0 \<le> DataClassRank (dc_DataClass d)"
    "lv_ProtocolVersion live = dc_ProtocolVersion d"
proof -
  obtain host declared where h: "CheckResource (dc_CanonicalResource d) True = Inr host"
    and c: "check_declared (dc_Tools d) [] = Inr declared"
    using assms by (auto simp: BuildDescriptor_def split: if_splits sum.splits)
  note declared = check_declared_Inr [OF c, simplified]
  obtain tools schemas where b: "bind_live (lv_Tools live) (dc_Tools d) [] [] = Inr ([], tools, schemas)"
    using assms h c declared(1)
    by (auto simp: BuildDescriptor_def Let_def split: if_splits sum.splits prod.splits)
  show ?thesis
    using assms h c declared b
    by (intro that [OF h b]) (auto simp: BuildDescriptor_def Let_def list_all_iff split: if_splits)
qed

lemma set_normalizeSet_append: "set (normalizeSet (a @ b)) = set (normalizeSet a) \<union> set (normalizeSet b)"
  unfolding set_normalizeSet by auto

lemma network_scope_idem: "network_scope (network_scope declared host) host = network_scope declared host"
proof -
  have "set (normalizeSet (normalizeSet (s @ [h]) @ [h])) =
      set (normalizeSet (normalizeSet (s @ [h]))) \<union> set (normalizeSet [h])" for s h
    by (rule set_normalizeSet_append)
  moreover have "set (normalizeSet [h]) \<subseteq> set (normalizeSet (s @ [h]))" for s h
    unfolding set_normalizeSet by auto
  ultimately have "set (normalizeSet (normalizeSet (s @ [h]) @ [h])) = set (normalizeSet (s @ [h]))" for s h
    unfolding normalizeSet_idem by blast
  then have "normalizeSet (normalizeSet (s @ [h]) @ [h]) = normalizeSet (s @ [h])" for s h
    by (simp only: normalizeSet_eq_iff)
  then show ?thesis by (simp add: network_scope_def Let_def normalizeSet_idem)
qed

text \<open>What discovery digests of a server: everything but the evidence and the connection handle.\<close>

definition surface :: "LiveServer \<Rightarrow> LiveServer" where
  "surface l = l\<lparr>lv_Evidence := [], lv_ConnectionRef := []\<rparr>"

lemma surface_sel:
  assumes "surface l = surface l'"
  shows "lv_Name l = lv_Name l'" "lv_Version l = lv_Version l'" "lv_ProtocolVersion l = lv_ProtocolVersion l'"
    "lv_Tools l = lv_Tools l'" "lv_Resources l = lv_Resources l'" "lv_Prompts l = lv_Prompts l'" "lv_Issuer l = lv_Issuer l'"
  using assms by (cases l; cases l'; simp add: surface_def)+

text \<open>The reviewed terms of a descriptor: what \<open>DeclarationOf\<close> reads.\<close>

lemma DeclarationOf_cong:
  assumes "d_CanonicalResource d = d_CanonicalResource d'" "d_Transport d = d_Transport d'"
    "d_ProtocolVersion d = d_ProtocolVersion d'" "d_Provenance d = d_Provenance d'" "d_Tools d = d_Tools d'"
    "d_DataClass d = d_DataClass d'" "d_NetworkScope d = d_NetworkScope d'" "d_Licenses d = d_Licenses d'"
  shows "DeclarationOf d = DeclarationOf d'"
  by (simp add: DeclarationOf_def assms)

text \<open>The tools of a built descriptor declare the same methods under the same terms.\<close>

lemma bound_tools_relax:
  assumes "bind_live lts ds [] [] = Inr ([], tools, schemas)" "distinct (map td_Method ds)"
  defines "ds' \<equiv> map declared_tool (sort_key tl_Method tools)"
  shows "distinct (map td_Method ds')" "\<forall>x \<in> set ds'. \<exists>d \<in> set ds. x = undemanding d" "relaxes ds ds'"
proof -
  from bind_live_Inr [OF assms(1,2)] have new: "distinct (map tl_Method tools)"
    "[] = filter (\<lambda>t. td_Method t \<notin> set (map tl_Method tools)) ds" "\<forall>t \<in> set tools. tool_bound ds lts t"
    unfolding append_Nil by metis+
  have "map td_Method ds' = map tl_Method (sort_key tl_Method tools)" by (simp add: ds'_def)
  then show dist: "distinct (map td_Method ds')"
    using new(1) by (metis map_sort_key_same distinct_sort)
  have bound: "\<exists>d \<in> set ds. declared_tool t = undemanding d \<and> declared_as ds (tl_Method t) = Some d"
    if "t \<in> set tools" for t
    using declared_tool_bound [OF _ assms(2)] new(3) that by blast
  then show "\<forall>x \<in> set ds'. \<exists>d \<in> set ds. x = undemanding d" by (force simp: ds'_def)
  have "declared_as ds' m = map_option undemanding (declared_as ds m)" for m
  proof (cases "m \<in> tl_Method ` set tools")
    case True
    then obtain t where t: "t \<in> set tools" "m = tl_Method t" by blast
    have "declared_tool t \<in> set ds'" using t(1) by (simp add: ds'_def)
    from find_by_key [OF dist this] have "declared_as ds' m = Some (declared_tool t)"
      by (simp add: declared_as_def t(2))
    then show ?thesis using bound [OF t(1)] t(2) by auto
  next
    case False
    have "declared_as ds' m = None" using False by (auto simp: declared_as_def find_None_iff ds'_def)
    moreover have "declared_as ds m = None"
      using False new(2) by (fastforce simp: declared_as_def find_None_iff filter_empty_conv dest: sym)
    ultimately show ?thesis by simp
  qed
  then show "relaxes ds ds'" by (simp add: relaxes_def)
qed

lemma rebuild:
  assumes "BuildDescriptor decl live = Inr desc" "surface live' = surface live"
  shows "BuildDescriptor (DeclarationOf desc) live' =
    Inr (desc\<lparr>d_RevisionEvidence := lv_Evidence live', d_ConnectionRef := lv_ConnectionRef live'\<rparr>)"
proof -
  obtain host tools schemas where B: "CheckResource (dc_CanonicalResource decl) True = Inr host"
    "bind_live (lv_Tools live) (dc_Tools decl) [] [] = Inr ([], tools, schemas)"
    "desc = (bound_descriptor decl live host tools schemas)
       \<lparr>d_Digest := DescriptorDigest (bound_descriptor decl live host tools schemas)\<rparr>"
    "distinct (map td_Method (dc_Tools decl))"
    "list_all (\<lambda>t. td_Method t \<noteq> [] \<and> 0 \<le> m_Amount (td_UnitPrice t) \<and> length (m_Currency (td_UnitPrice t)) = 3)
       (dc_Tools decl)"
    "dc_Transport decl = ''streamable-http''" "0 \<le> DataClassRank (dc_DataClass decl)"
    "lv_ProtocolVersion live = dc_ProtocolVersion decl"
    by (rule BuildDescriptor_bound [OF assms(1)]) blast
  note S = surface_sel [OF assms(2)]
  let ?ds = "map declared_tool (sort_key tl_Method tools)"
  note relax = bound_tools_relax [OF B(2,4)]
  have tools_of: "dc_Tools (DeclarationOf desc) = ?ds"
    by (simp add: dc_Tools_DeclarationOf B(3))
  from bind_live_relaxed [OF B(2) relax(3)] relaxes_Nil
  have bl: "bind_live (lv_Tools live') ?ds [] [] = Inr ([], tools, schemas)" using S by auto
  have "list_all (\<lambda>t. td_Method t \<noteq> [] \<and> 0 \<le> m_Amount (td_UnitPrice t) \<and> length (m_Currency (td_UnitPrice t)) = 3) ?ds"
    unfolding list_all_iff
  proof
    fix x assume "x \<in> set ?ds"
    with relax(2) obtain d where "d \<in> set (dc_Tools decl)" "x = undemanding d" by blast
    with B(5) show "td_Method x \<noteq> [] \<and> 0 \<le> m_Amount (td_UnitPrice x) \<and> length (m_Currency (td_UnitPrice x)) = 3"
      by (simp add: list_all_iff undemanding_def)
  qed
  then have cd: "check_declared ?ds [] = Inr ?ds"
    using check_declared_InrI [of "[]" ?ds] relax(1) by simp
  let ?b = "bound_descriptor (DeclarationOf desc) live' host tools schemas"
  have scope: "network_scope (d_NetworkScope desc) host = d_NetworkScope desc" "normalizeSet (d_Licenses desc) = d_Licenses desc"
    using B(3) by (simp_all add: network_scope_idem) (simp add: bound_descriptor_def Let_def normalizeSet_idem)
  have b: "?b = (bound_descriptor decl live host tools schemas)
     \<lparr>d_RevisionEvidence := lv_Evidence live', d_ConnectionRef := lv_ConnectionRef live'\<rparr>"
    using scope by (simp add: B(3) bound_descriptor_def Let_def DeclarationOf_def S)
  have decl_of: "dc_Transport (DeclarationOf desc) = ''streamable-http''"
    "dc_DataClass (DeclarationOf desc) = dc_DataClass decl" "dc_CanonicalResource (DeclarationOf desc) = dc_CanonicalResource decl"
    "dc_ProtocolVersion (DeclarationOf desc) = dc_ProtocolVersion decl" "dc_ExpectedDigest (DeclarationOf desc) = []"
    by (simp_all add: DeclarationOf_def B(3,6))
  have "BuildDescriptor (DeclarationOf desc) live' = Inr (?b\<lparr>d_Digest := DescriptorDigest ?b\<rparr>)"
    using B(1,7,8) S(3) by (simp add: BuildDescriptor_def decl_of tools_of cd bl Let_def)
  moreover have "DescriptorDigest ?b = DescriptorDigest (bound_descriptor decl live host tools schemas)"
    unfolding b by (simp add: DescriptorDigest_def)
  then have "?b\<lparr>d_Digest := DescriptorDigest ?b\<rparr> =
      desc\<lparr>d_RevisionEvidence := lv_Evidence live', d_ConnectionRef := lv_ConnectionRef live'\<rparr>"
    by (subst B(3)) (simp only: b, simp)
  ultimately show ?thesis by (simp only:)
qed

text \<open>A revision as it is stored, reviewed and read back.\<close>

lemma reloaded_declaration:
  assumes "descriptor_terms r = descriptor_terms ((descriptor_row E
      (desc\<lparr>d_ServerID := i, d_TenantID := ten, d_Revision := n, d_DiscoveredBy := who\<rparr>) cmd)\<lparr>dr_CreatedAt := at\<rparr>)"
    and "DescriptorFromRow r srv = Inr d" "sv_CanonicalResource srv = d_CanonicalResource desc"
      "sv_Transport srv = d_Transport desc"
  shows "DeclarationOf d = DeclarationOf desc" "d_Digest d = d_Digest desc"
proof -
  let ?r0 = "(descriptor_row E
      (desc\<lparr>d_ServerID := i, d_TenantID := ten, d_Revision := n, d_DiscoveredBy := who\<rparr>) cmd)\<lparr>dr_CreatedAt := at\<rparr>"
  have row: "dr_ProtocolVersion r = d_ProtocolVersion desc" "dr_Provenance r = d_Provenance desc"
    "dr_Tools r = Jsonb (d_Tools desc)" "dr_DataClass r = d_DataClass desc" "dr_NetworkScope r = d_NetworkScope desc"
    "dr_Licenses r = d_Licenses desc" "dr_DescriptorDigest r = d_Digest desc"
    using assms(1) [THEN arg_cong, of dr_ProtocolVersion] assms(1) [THEN arg_cong, of dr_Provenance]
      assms(1) [THEN arg_cong, of dr_Tools] assms(1) [THEN arg_cong, of dr_DataClass]
      assms(1) [THEN arg_cong, of dr_NetworkScope] assms(1) [THEN arg_cong, of dr_Licenses]
      assms(1) [THEN arg_cong, of dr_DescriptorDigest]
    by (simp_all add: descriptor_terms_def descriptor_row_def)
  show "d_Digest d = d_Digest desc" using assms(2) row by (auto simp: DescriptorFromRow_def split: jsonb.splits)
  show "DeclarationOf d = DeclarationOf desc"
    using assms(2-4) row by (intro DeclarationOf_cong) (auto simp: DescriptorFromRow_def split: jsonb.splits)
qed

section \<open>Records of observations\<close>

definition refresh_id :: "CatalogRefresh \<Rightarrow> string \<times> int" where
  "refresh_id r = (cf_TaskID r, cf_Generation r)"

abbreviation refresh_at :: "db \<Rightarrow> string \<Rightarrow> int \<Rightarrow> CatalogRefresh option" where
  "refresh_at d taskID gen \<equiv> row_of refresh_id (db_refreshes d) (taskID, gen)"

text \<open>A recorded observation never changes and is never deleted.\<close>

abbreviation refreshes_R :: "db \<Rightarrow> db \<Rightarrow> bool" where
  "refreshes_R \<equiv> rows_R db_refreshes refresh_id (=) (\<lambda>_. True)"

interpretation refreshes: evolution refreshes_R
  by (rule rows_R_evolution)

lemma refresh_stays:
  assumes "refreshes_R d d'" "refresh_at d taskID gen = Some rec"
  shows "refresh_at d' taskID gen = Some rec"
proof -
  obtain rec' where "refresh_at d' taskID gen = Some rec'" "(=)\<^sup>*\<^sup>* rec rec'"
    using rows_R_SomeD [OF assms] by blast
  moreover have "(=)\<^sup>*\<^sup>* x y \<Longrightarrow> x = y" for x y :: CatalogRefresh
    by (induction rule: rtranclp_induct) simp_all
  ultimately show ?thesis by metis
qed

lemma GetRefresh_Inr: "GetRefresh taskID gen = read (\<lambda>d. one_row (filter (\<lambda>r. refresh_id r = (taskID, gen)) (db_refreshes d)))"
  by (simp add: GetRefresh_def refresh_id_def)

lemma refresh_query_Inr:
  "query E (GetRefresh taskID gen) w = (Inr rec, w') \<longleftrightarrow>
     \<not> e_fault E (w_tick w) \<and> refresh_at (w_db w) taskID gen = Some rec \<and> w' = tick w"
  by (simp add: GetRefresh_Inr query_read_Inr one_row_row_of)

lemma keeps_refreshes_queries:
  "rely refreshes_R E \<Longrightarrow> keeps refreshes_R (pool_query E (InsertRefresh row))"
  "rely refreshes_R E \<Longrightarrow> keeps refreshes_R (pool_query E (GetRefresh taskID gen))"
  "rely refreshes_R E \<Longrightarrow> keeps refreshes_R (pool_query E (GetRequest taskID gen))"
  "rely refreshes_R E \<Longrightarrow> keeps refreshes_R (pool_query E (GetDescriptor serverID gen))"
  "rely refreshes_R E \<Longrightarrow> keeps refreshes_R (pool_query E (GetServer serverID))"
proof -
  have "refreshes_R d (snd (InsertRefresh row t d))" for t d
    by (auto simp: InsertRefresh_def refreshes.R_refl intro: rows_R_insert)
  then show "rely refreshes_R E \<Longrightarrow> keeps refreshes_R (pool_query E (InsertRefresh row))"
    using keeps_pool_query [OF refreshes.evolution_axioms] by blast
qed (auto simp: GetRefresh_def GetRequest_def GetDescriptor_def GetServer_def intro: refreshes.keeps_pool_read)

lemma keeps_refreshes_readLive: "keeps refreshes_R (readLive c resource v)"
  unfolding readLive_def CheckTarget_def
  by (auto intro!: refreshes.keeps_intros keeps_ask [OF refreshes.evolution_axioms] split: option.split sum.split list.split)

lemma keeps_Advance_refresh: "rely refreshes_R E \<Longrightarrow> keeps refreshes_R (Advance_refresh E r taskID gen worker dig)"
  unfolding Advance_refresh_def refresh_claimant_def refreshed_descriptor_def record_refresh_def Let_def
  by (auto intro!: refreshes.keeps_intros keeps_refreshes_queries keeps_refreshes_readLive split: sum.split option.split)

text \<open>A completed answer is the record.\<close>

lemma pool_refresh_Inr:
  assumes "pool_query E (GetRefresh taskID gen) w = (Inr rec, w')"
  shows "refresh_at (w_db w') taskID gen = Some rec"
  using assms by (auto simp: pool_query_def refresh_query_Inr)

lemma Advance_refresh_record:
  assumes "Advance_refresh E r taskID gen worker dig w = (Inr out, w')" "ro_Completed out"
  shows "\<exists>rec. refresh_at (w_db w') taskID (int64 gen) = Some rec \<and> out = recorded_refresh rec"
  using assms
  by (auto simp: Advance_refresh_def Let_def recover_Inr seq_Inr record_refresh_def failed_refresh_def
      dest: pool_refresh_Inr split: if_splits)

section \<open>Acceptance\<close>

lemma NewRefresh_binding [simp]:
  "tk_bindings (rf_tasks (NewRefresh E c tasks message)) CatalogRefreshProfile = Some (refresh_binding E)"
  by (simp add: NewRefresh_def Bind_def)

text \<open>The binding leaves the task tables alone, as the task handlers require.\<close>

lemma keeps_task_tables:
  "keeps same_tasks (decide E gr dec x reason c rd)"
  "keeps same_tasks (Publish E ev)"
  "keeps same_tasks (nextEventRevision E ty i)"
  "keeps same_tasks (query E (InsertReview (e_schema E) rv))"
  "keeps same_tasks (query E (UpdateDescriptorState serverID k s rw rid))"
  "keeps same_tasks (update_grant E g s2)"
  "keeps same_tasks (lock_grant E i)"
  unfolding decide_def InsertGrantDecision_def Publish_def nextEventRevision_def NextEventRevision_def
    InsertReview_def UpdateDescriptorState_def update_grant_def UpdateGrantBarrier_def lock_grant_def
    GetGrantForUpdate_def found_def
  by (auto intro!: task_tables.keeps_intros keeps_query simp: insert_row_table same_tasks_def Let_def
      split: option.splits sum.split)

lemma keeps_task_tables_revoke: "keeps same_tasks (revoke_each E c actor ids)"
proof -
  have "keeps same_tasks (revokeLocked E cur c rd x reason)" for cur c rd x reason
    unfolding revokeLocked_def by (intro task_tables.keeps_intros keeps_task_tables)
  then have "keeps same_tasks (revokeIn E i c l x reason)" for i c l x reason
    unfolding revokeIn_def by (auto intro!: task_tables.keeps_intros keeps_task_tables)
  then show ?thesis by (induction ids) (auto intro!: task_tables.keeps_intros)
qed

lemma refresh_binding_keeps_tasks: "keeps same_tasks (Recorded E t)" "keeps same_tasks (Accepted E t)"
proof -
  have "keeps same_tasks (disableLocked E d actor ten c rd reason)" for d actor ten c rd reason
    unfolding disableLocked_def Let_def publish_descriptor_def ListGrantsOfDescriptor_def
    by (intro task_tables.keeps_intros keeps_task_tables keeps_task_tables_revoke)
  then show "keeps same_tasks (Accepted E t)"
    unfolding Accepted_def GetRefresh_def GetServer_def GetDescriptorForUpdate_def
    by (auto intro!: task_tables.keeps_intros)
  show "keeps same_tasks (Recorded E t)"
    unfolding Recorded_def GetRefresh_def by (auto intro!: task_tables.keeps_intros split: sum.split)
qed

lemma NewRefresh_bindings_keep_tasks:
  "bindings_keep_tasks tasks \<Longrightarrow> bindings_keep_tasks (rf_tasks (NewRefresh E c tasks message))"
  using refresh_binding_keeps_tasks
  by (auto simp: bindings_keep_tasks_def NewRefresh_def Bind_def refresh_binding_def)

text \<open>The tables an accepted submission leaves to the binding.\<close>

definition owner_tables :: "db \<Rightarrow> CatalogRefresh list \<times> DescriptorRow list \<times> GrantRow list" where
  "owner_tables d = (db_refreshes d, db_descriptors d, db_grants d)"

interpretation owner_tables: evolution "same owner_tables"
  by (rule same_evolution)

lemma keeps_apply_decision: "keeps (same owner_tables) (apply_decision E t n at outc)"
  unfolding apply_decision_def UpdateRequest_def SetAttemptOutcome_def
  by (auto intro!: owner_tables.keeps_intros keeps_query simp: same_def owner_tables_def Let_def)

lemma Recorded_Inr:
  assumes "Recorded E t w = (Inr x, w')"
  shows "w_db w' = w_db w \<and> x = map_option (\<lambda>rec. \<lparr>rr_Ref = cf_ResultRef rec, rr_Digest = cf_ResultDigest rec\<rparr>)
    (refresh_at (w_db w) (t_TaskID t) (int64 (t_Generation t)))"
proof -
  have none: "row_of key rows k = None" if "one_row (filter (\<lambda>r. key r = k) rows) = Inl e"
    for key :: "CatalogRefresh \<Rightarrow> string \<times> int" and rows k e
    using that one_row_row_of [of key k rows] by (cases "row_of key rows k") auto
  show ?thesis
    using assms
    by (auto simp: Recorded_def recover_Inr refresh_query_Inr)
      (auto simp: GetRefresh_Inr query_def read_def none split: if_splits sum.splits)
qed

lemma refresh_decision_accepted:
  assumes "DecideSubmitRecorded t cur sub auth now b recorded = Inr d" "sd_Changed d" "sd_Accepted d"
    "t_ResultProfile t = CatalogRefreshProfile"
  shows "\<exists>r. recorded = Some r \<and> s_ResultRef sub = rr_Ref r \<and> s_ResultDigest sub = rr_Digest r
    \<and> t_TaskID (sd_Task d) = t_TaskID t \<and> t_Generation (sd_Task d) = t_Generation t"
proof -
  have f: "\<not> sd_Accepted (failAttempt t code now b)" for code by (simp add: failAttempt_def Let_def)
  show ?thesis
    using assms f unfolding DecideSubmitRecorded_def expectedResult_def
    by (cases recorded) (auto split: if_splits)
qed

text \<open>A newly accepted refresh: the submission carries the recorded result, and the binding ran after the
  decision was written.\<close>

lemma accepted_refreshE:
  assumes "submit_body E (rf_tasks (NewRefresh E c tasks message)) taskID gen sub w = (Inr dec, w')"
    and "sd_Changed dec" "sd_Accepted dec"
    and "find (request_key taskID (int64 gen)) (db_requests (w_db w)) = Some row" "br_ResultProfile row = CatalogRefreshProfile"
  obtains rec w1 where "refresh_at (w_db w) taskID (int64 gen) = Some rec"
    "s_ResultRef sub = cf_ResultRef rec" "s_ResultDigest sub = cf_ResultDigest rec"
    "same owner_tables (w_db w) (w_db w1)" "Accepted E (sd_Task dec) w1 = (Inr (), w')"
    "t_TaskID (sd_Task dec) = taskID" "t_Generation (sd_Task dec) = gen"
proof -
  let ?t = "TaskFromRow row"
  have prof: "t_ResultProfile ?t = CatalogRefreshProfile" and key: "t_TaskID ?t = taskID" "t_Generation ?t = gen"
    using assms(4,5) by (auto simp: TaskFromRow_def find_Some_iff request_key_def)
  obtain row' w1 as w2 auth w3 at recorded w4 u w5 where
    1: "locked_request E taskID gen w = (Inr row', w1)"
    and 2: "query E (ListAttempts taskID (int64 gen)) w1 = (Inr as, w2)"
    and 3: "GrantAuthorization E (t_AuthorizationRef (TaskFromRow row')) (t_TenantID (TaskFromRow row')) w2 = (Inr auth, w3)"
    and 4: "(case tk_bindings (rf_tasks (NewRefresh E c tasks message)) (t_ResultProfile (TaskFromRow row')) of None \<Rightarrow> ok None
             | Some b \<Rightarrow> rb_Recorded b (TaskFromRow row')) (tick w3) = (Inr recorded, w4)"
    and 5: "DecideSubmitRecorded (TaskFromRow row') (attemptOf (TaskFromRow row') as) sub auth at
              (tk_bounds (rf_tasks (NewRefresh E c tasks message))) recorded = Inr dec"
    and 6: "(if sd_Changed dec
          then seq (apply_decision E (sd_Task dec) (t_Revision (TaskFromRow row')) at (sd_AttemptOutcome dec)) (\<lambda>_.
               case tk_bindings (rf_tasks (NewRefresh E c tasks message)) (t_ResultProfile (TaskFromRow row')) of
                 Some b \<Rightarrow> if sd_Accepted dec then rb_Accepted b (sd_Task dec) else ok ()
               | None \<Rightarrow> ok ())
          else ok ()) w4 = (Inr u, w5)"
    and w5: "w' = w5"
    using assms(1) unfolding submit_body_def Let_def seq_Inr by auto
  have row': "row' = row" "w_db w1 = w_db w" using locked_request_Inr [OF 1] assms(4) by auto
  have w3: "w_db w3 = w_db w" using ListAttempts_Inr [OF 2] row'(2) GrantAuthorization_db [OF 3] by auto
  have R: "Recorded E ?t (tick w3) = (Inr recorded, w4)" using 4 prof by (simp add: row'(1) refresh_binding_def)
  have w4: "w_db w4 = w_db w" and recorded: "recorded = map_option
      (\<lambda>rec. \<lparr>rr_Ref = cf_ResultRef rec, rr_Digest = cf_ResultDigest rec\<rparr>) (refresh_at (w_db w) taskID (int64 gen))"
    using Recorded_Inr [OF R] w3 key by simp_all
  obtain w6 where a: "apply_decision E (sd_Task dec) (t_Revision ?t) at (sd_AttemptOutcome dec) w4 = (Inr (), w6)"
    "Accepted E (sd_Task dec) w6 = (Inr (), w')"
    using 6 w5 assms(2,3) prof by (auto simp: seq_Inr row'(1) refresh_binding_def)
  have "same owner_tables (w_db w) (w_db w6)"
    using keeps_sameD [OF keeps_apply_decision a(1)] w4 by (simp add: same_def)
  moreover obtain rec where "refresh_at (w_db w) taskID (int64 gen) = Some rec" "s_ResultRef sub = cf_ResultRef rec"
    "s_ResultDigest sub = cf_ResultDigest rec" "t_TaskID (sd_Task dec) = taskID" "t_Generation (sd_Task dec) = gen"
    using refresh_decision_accepted [OF 5 assms(2,3)] prof recorded key by (auto simp: row'(1))
  ultimately show thesis using that a(2) by blast
qed

text \<open>Disabling leaves the row disabled.\<close>

lemma disableLocked_disables:
  assumes "disableLocked E d actor ten c rd reason w = (Inr x, w')"
    "descriptor_at (w_db w) (d_ServerID d) (int64 (d_Revision d)) = Some r"
  shows "\<exists>r'. descriptor_at (w_db w') (d_ServerID d) (int64 (d_Revision d)) = Some r' \<and> dr_State r' = CatalogDisabled"
proof -
  obtain rv u0 w2 u1 w3 d' u2 w4 ids w5 u3 where
    2: "query E (InsertReview (e_schema E) rv) w = (Inr u0, w2)"
    and 3: "query E (UpdateDescriptorState (d_ServerID d) (int64 (d_Revision d)) CatalogDisabled None None) w2 = (Inr u1, w3)"
    and 4: "publish_descriptor E d' c w3 = (Inr u2, w4)"
    and 5: "query E (ListGrantsOfDescriptor (d_ServerID d) (int64 (d_Revision d))) w4 = (Inr ids, w5)"
    and 6: "revoke_each E c actor ids w5 = (Inr u3, w')"
    using assms(1) unfolding disableLocked_def Let_def seq_Inr by auto
  have "w_db w5 = w_db w4" using 5 by (auto simp: ListGrantsOfDescriptor_def query_read_Inr)
  then have "db_descriptors (w_db w') = db_descriptors (w_db w3)"
    using same_descriptorsD(8) [OF 4] same_descriptorsD(11) [OF 6] by simp
  moreover have "db_descriptors (w_db w2) = db_descriptors (w_db w)" using same_descriptorsD(5) [OF 2] .
  moreover have "descriptor_key i n = (\<lambda>r. descriptor_id r = (i, n))" for i n
    by (auto simp: descriptor_key_def descriptor_id_def)
  ultimately show ?thesis
    using 3 assms(2) row_of_key [OF assms(2)]
    by (auto simp: query_Inr UpdateDescriptorState_def row_of_update descriptor_id_def)
qed

lemma Accepted_drift:
  assumes "Accepted E t w = (Inr u, w')" "refresh_at (w_db w) (t_TaskID t) (int64 (t_Generation t)) = Some rec"
    and "cf_Drift rec" "cf_Revision rec = int64 n"
    and "descriptor_at (w_db w) (cf_ServerID rec) (cf_Revision rec) = Some r" "dr_State r = CatalogApproved"
  obtains d x w1 where "disableLocked E d RefreshActor (d_TenantID d)
      (''refresh:'' @ t_TaskID t @ '':'' @ fmt_u64 (t_Generation t)) (t_InputDigest t) ''REFRESH_DRIFT'' w1 = (Inr x, w')"
    "w_db w1 = w_db w" "d_ServerID d = cf_ServerID rec" "int64 (d_Revision d) = cf_Revision rec"
proof -
  obtain srv dr d w1 w2 where 1: "query E (GetServer (cf_ServerID rec)) (tick w) = (Inr srv, w1)"
    and 2: "query E (GetDescriptorForUpdate (cf_ServerID rec) (cf_Revision rec)) w1 = (Inr dr, w2)"
    and 3: "DescriptorFromRow dr srv = Inr d"
    and 4: "(if d_State d \<noteq> CatalogApproved then ok () else
         seq (disableLocked E d RefreshActor (d_TenantID d)
                (''refresh:'' @ t_TaskID t @ '':'' @ fmt_u64 (t_Generation t)) (t_InputDigest t) ''REFRESH_DRIFT'') (\<lambda>_.
         ok ())) w2 = (Inr (), w')"
    using assms(1-3) unfolding Accepted_def seq_Inr by (auto simp: refresh_query_Inr seq_Inr)
  have w1: "w_db w1 = w_db w" using 1 by (auto simp: GetServer_def query_read_Inr)
  have "descriptor_key i k = (\<lambda>r. descriptor_id r = (i, k))" for i k
    by (auto simp: descriptor_key_def descriptor_id_def)
  then have dr: "dr = r" "w_db w2 = w_db w"
    using 2 assms(5) w1 by (auto simp: GetDescriptorForUpdate_def query_read_Inr one_row_row_of)
  have "DescriptorFromRow r srv = Inr d" using 3 dr(1) by simp
  note d = DescriptorFromRow_sel [OF this]
  have "dr_ServerID r = cf_ServerID rec" "dr_Revision r = cf_Revision rec"
    using row_of_key [OF assms(5)] by (auto simp: descriptor_id_def)
  then show thesis
    using that dr(2) 4 d assms(4,6) by (auto simp: seq_Inr)
qed

section \<open>Properties\<close>

text \<open>
  C34. An unchanged server never drifts: the declaration reconstructed from a built descriptor builds
  that very descriptor again, and the comparison of a stored, reviewed and reloaded revision with any
  live read of the same surface (whatever evidence or connection handle the read carries) finds the
  reviewed digest and no drift.
\<close>
theorem unchanged_server_never_drifts:
  assumes "BuildDescriptor decl live = Inr desc"
    and "descriptor_terms r = descriptor_terms ((descriptor_row E
      (desc\<lparr>d_ServerID := i, d_TenantID := ten, d_Revision := n, d_DiscoveredBy := who\<rparr>) cmd)\<lparr>dr_CreatedAt := at\<rparr>)"
    and "DescriptorFromRow r srv = Inr d" "sv_CanonicalResource srv = d_CanonicalResource desc"
      "sv_Transport srv = d_Transport desc"
    and "surface live' = surface live"
  shows "BuildDescriptor (DeclarationOf desc) live = Inr desc
    \<and> live_comparison message d live' = (d_Digest desc, False, [])"
proof
  have "desc\<lparr>d_RevisionEvidence := lv_Evidence live, d_ConnectionRef := lv_ConnectionRef live\<rparr> = desc"
    by (rule BuildDescriptor_bound [OF assms(1)]) (simp add: bound_descriptor_def Let_def)
  then show "BuildDescriptor (DeclarationOf desc) live = Inr desc" using rebuild [OF assms(1) refl] by simp
  show "live_comparison message d live' = (d_Digest desc, False, [])"
    using rebuild [OF assms(1,6)] reloaded_declaration [OF assms(2-5)] by (simp add: live_comparison_def)
qed

theorem unchanged_server_never_drifts_witness:
  "\<exists>desc d. BuildDescriptor sample_decl sample_live = Inr desc
     \<and> live_comparison (\<lambda>_ _. ''refused'') d (sample_live\<lparr>lv_Evidence := ''later''\<rparr>) = (d_Digest desc, False, [])"
proof -
  obtain desc where b: "BuildDescriptor sample_decl sample_live = Inr desc" using sample_build by blast
  let ?srv = "sample_server\<lparr>sv_CanonicalResource := d_CanonicalResource desc, sv_Transport := d_Transport desc\<rparr>"
  let ?r = "(descriptor_row sample_env
      (desc\<lparr>d_ServerID := ''s1'', d_TenantID := ''ten'', d_Revision := 1, d_DiscoveredBy := ''carol''\<rparr>)
      (actor_command ''carol''))\<lparr>dr_CreatedAt := None\<rparr>"
  obtain d where d: "DescriptorFromRow ?r ?srv = Inr d"
    by (simp add: DescriptorFromRow_def descriptor_row_def)
  have "surface (sample_live\<lparr>lv_Evidence := ''later''\<rparr>) = surface sample_live" by (simp add: surface_def)
  from unchanged_server_never_drifts [OF b refl d _ _ this] b show ?thesis by auto
qed

text \<open>
  C8. A drift ends the revision's grants: when a submission of a catalog refresh is newly accepted and
  the recorded observation is a drift of an approved revision, that same transaction leaves the
  revision disabled, and every grant of it that was pending or active is revoking or revoked, then
  and after any later grant operations, failures and interference.
\<close>
theorem accepted_drift_disables:
  assumes "rely grants_R E"
    and "Submit E (rf_tasks (NewRefresh E c tasks message)) taskID gen sub w = (Inr dec, w')" "sd_Changed dec" "sd_Accepted dec"
    and "find (request_key taskID (int64 gen)) (db_requests (w_db (interfere E w))) = Some row"
      "br_ResultProfile row = CatalogRefreshProfile"
    and "refresh_at (w_db (interfere E w)) taskID (int64 gen) = Some rec" "cf_Drift rec" "cf_Revision rec = int64 n"
    and "descriptor_at (w_db (interfere E w)) (cf_ServerID rec) (cf_Revision rec) = Some r" "dr_State r = CatalogApproved"
  shows "(\<exists>r'. descriptor_at (w_db w') (cf_ServerID rec) (cf_Revision rec) = Some r' \<and> dr_State r' = CatalogDisabled)
    \<and> (\<forall>g \<in> set (db_grants (w_db (interfere E w))).
         gw_ServerID g = cf_ServerID rec \<and> gw_DescriptorRevision g = cf_Revision rec
         \<and> gw_State g \<in> {GrantPending, GrantActive}
         \<longrightarrow> fenced_grant (w_db (fold (run_grant E svc) calls w')) (gw_GrantID g))"
proof -
  obtain w1 where b: "submit_body E (rf_tasks (NewRefresh E c tasks message)) taskID gen sub (interfere E w) = (Inr dec, w1)"
    "w' = tick w1"
    using InTx_atomic(2) [OF assms(2) [unfolded Submit_def] refl] by blast
  obtain w2 where a: "same owner_tables (w_db (interfere E w)) (w_db w2)" "Accepted E (sd_Task dec) w2 = (Inr (), w1)"
    "t_TaskID (sd_Task dec) = taskID" "t_Generation (sd_Task dec) = gen"
    using accepted_refreshE [OF b(1) assms(3-6)] by blast
  have same: "db_grants (w_db w2) = db_grants (w_db (interfere E w))"
    "refresh_at (w_db w2) (t_TaskID (sd_Task dec)) (int64 (t_Generation (sd_Task dec))) = Some rec"
    "descriptor_at (w_db w2) (cf_ServerID rec) (cf_Revision rec) = Some r"
    using a assms(7,10) by (simp_all add: same_def owner_tables_def)
  obtain d x w3 where dis: "disableLocked E d RefreshActor (d_TenantID d)
      (''refresh:'' @ t_TaskID (sd_Task dec) @ '':'' @ fmt_u64 (t_Generation (sd_Task dec))) (t_InputDigest (sd_Task dec))
      ''REFRESH_DRIFT'' w3 = (Inr x, w1)"
    "w_db w3 = w_db w2" "d_ServerID d = cf_ServerID rec" "int64 (d_Revision d) = cf_Revision rec"
    using Accepted_drift [OF a(2) same(2) assms(8,9) same(3) assms(11)] by blast
  have "\<exists>r'. descriptor_at (w_db w') (cf_ServerID rec) (cf_Revision rec) = Some r' \<and> dr_State r' = CatalogDisabled"
    using disableLocked_disables [OF dis(1)] dis(2-4) same(3) b(2) by auto
  moreover have "fenced_grant (w_db (fold (run_grant E svc) calls w')) (gw_GrantID g)"
    if "g \<in> set (db_grants (w_db (interfere E w)))" "gw_ServerID g = cf_ServerID rec"
      "gw_DescriptorRevision g = cf_Revision rec" "gw_State g \<in> {GrantPending, GrantActive}" for g
  proof -
    have "fenced_grant (w_db w') (gw_GrantID g)"
      using disableLocked_fences [OF dis(1)] that dis(2-4) same(1) b(2) by simp
    then show ?thesis by (rule fenced_grant_stays [OF run_grants_R [OF assms(1)]])
  qed
  ultimately show ?thesis by blast
qed

text \<open>
  A refresh is accepted only with what MCP itself observed: once \<open>AdvanceRefresh\<close> answered a
  completed observation for a generation, then whatever happens in between (records are never
  changed), a newly accepted submission of that generation carries exactly that reference and digest,
  and any later completed answer is the same.
\<close>
theorem accepted_refresh_is_recorded:
  assumes "rely refreshes_R E"
    and "Advance_refresh E r taskID gen worker dig w = (Inr out, w1)" "ro_Completed out"
    and "refreshes_R (w_db w1) (w_db w2)"
    and "Submit E (rf_tasks (NewRefresh E c tasks message)) taskID gen sub w2 = (Inr dec, w3)" "sd_Changed dec" "sd_Accepted dec"
    and "find (request_key taskID (int64 gen)) (db_requests (w_db (interfere E w2))) = Some row"
      "br_ResultProfile row = CatalogRefreshProfile"
  shows "s_ResultRef sub = ro_ResultRef out \<and> s_ResultDigest sub = ro_ResultDigest out
    \<and> (case Advance_refresh E r' taskID gen worker' dig' w2 of
         (Inr out', _) \<Rightarrow> ro_Completed out' \<longrightarrow> out' = out | _ \<Rightarrow> True)"
proof -
  obtain rec where rec: "refresh_at (w_db w1) taskID (int64 gen) = Some rec" "out = recorded_refresh rec"
    using Advance_refresh_record [OF assms(2,3)] by blast
  have at2: "refresh_at (w_db w2) taskID (int64 gen) = Some rec" using refresh_stays [OF assms(4) rec(1)] .
  have at: "refresh_at (w_db (interfere E w2)) taskID (int64 gen) = Some rec"
    using refresh_stays [OF refreshes.R_interfere [OF assms(1)] at2] .
  obtain w4 where b: "submit_body E (rf_tasks (NewRefresh E c tasks message)) taskID gen sub (interfere E w2) = (Inr dec, w4)"
    using InTx_atomic(2) [OF assms(5) [unfolded Submit_def] refl] by blast
  have "s_ResultRef sub = cf_ResultRef rec" "s_ResultDigest sub = cf_ResultDigest rec"
    using accepted_refreshE [OF b assms(6-9)] at by (metis option.inject)+
  moreover have "out' = out" if adv: "Advance_refresh E r' taskID gen worker' dig' w2 = (Inr out', w')" "ro_Completed out'" for out' w'
  proof -
    obtain rec' where rec': "refresh_at (w_db w') taskID (int64 gen) = Some rec'" "out' = recorded_refresh rec'"
      using Advance_refresh_record [OF adv] by blast
    have "refreshes_R (w_db w2) (w_db w')"
      using keeps_Advance_refresh [OF assms(1), of r' taskID gen worker' dig'] adv(1) unfolding keeps_def by (metis snd_conv)
    from refresh_stays [OF this at2] show ?thesis using rec' rec(2) by simp
  qed
  ultimately show ?thesis using rec(2) by (auto simp: recorded_refresh_def split: prod.split sum.split)
qed

section \<open>A recorded drift\<close>

definition drift_task_row :: BackgroundRequest where
  "drift_task_row = (InsertParams (sample_new EffectsReconstructible))\<lparr>br_State := StateLeased, br_WorkerID := Some ''w1'',
     br_LeaseUntil := Some (1030 * second), br_AttemptCount := 1, br_Revision := 2\<rparr>"

definition drift_attempt :: TaskAttempt where
  "drift_attempt = \<lparr>ta_TaskID = ''t1'', ta_Generation = 1, ta_Ordinal = 1, ta_WorkerID = ''w1'',
     ta_LeasedAt = Some (1000 * second), ta_LeaseUntil = Some (1030 * second), ta_Outcome = None, ta_SubmittedAt = None\<rparr>"

definition drift_record :: CatalogRefresh where
  "drift_record = \<lparr>cf_TaskID = ''t1'', cf_Generation = 1, cf_WorkerID = ''w1'', cf_ServerID = ''s1'', cf_Revision = 1,
     cf_ReviewedDigest = ''sha256:d'', cf_LiveDigest = None, cf_Drift = True, cf_DriftReason = Some ''resources'',
     cf_ResultRef = ''r1'', cf_ResultDigest = InputDigest ''result'', cf_RefreshedAt = None\<rparr>"

definition drift_world :: world where
  "drift_world = \<lparr>w_db = empty_db\<lparr>db_requests := [drift_task_row], db_attempts := [drift_attempt],
     db_refreshes := [drift_record], db_grants := [sample_grant_row], db_servers := [sample_server],
     db_descriptors := [sample_descriptor_row CatalogApproved]\<rparr>, w_tick = 0, w_log = []\<rparr>"

definition drift_refresh :: Refresh where
  "drift_refresh = NewRefresh sample_env sample_catalog sample_tasks (\<lambda>_ _. ''refused'')"

lemma drift_advances:
  "Advance_refresh sample_env drift_refresh ''t1'' 1 ''w1'' (InputDigest sample_input) drift_world
     = (Inr (recorded_refresh drift_record), drift_world\<lparr>w_tick := 5\<rparr>)"
  by (simp add: Advance_refresh_def run_defs drift_world_def GetRequest_def request_key_def drift_task_row_def
      InsertParams_def sample_new_def int64_def refresh_claimant_def TaskFromRow_def str_def ts_def After_def
      GetRefresh_def drift_record_def tick_def)

lemma drift_task:
  "TaskFromRow drift_task_row = sample_leased EffectsReconstructible"
  "request_key ''t1'' 1 drift_task_row" "br_ResultProfile drift_task_row = CatalogRefreshProfile"
  by (simp_all add: drift_task_row_def InsertParams_def sample_leased_eq sample_new_def TaskFromRow_def request_key_def
      uint64_def int64_def uint32_def int32_def str_def ts_def optStr_def)

lemma drift_accepts:
  "at < 1030 * second \<Longrightarrow> DecideSubmitRecorded (sample_leased EffectsReconstructible) sample_attempt sample_submission
     AuthorizationCurrent at sample_bounds (Some \<lparr>rr_Ref = ''r1'', rr_Digest = InputDigest ''result''\<rparr>) = Inr sample_accepted"
  by (simp add: DecideSubmitRecorded_def sample_leased_eq sample_new_def sample_submission_def
      sample_attempt_def expectedResult_def go_time sample_accepted_def)

lemma drift_attempts: "attemptOf (sample_leased EffectsReconstructible) [drift_attempt] = sample_attempt"
  by (simp add: attemptOf_def currentAttempt_def AttemptFromRow_def drift_attempt_def sample_attempt_def sample_leased_eq
      uint32_def str_def ts_def)

lemma drift_service:
  "tk_bounds (rf_tasks drift_refresh) = sample_bounds"
  "tk_bindings (rf_tasks drift_refresh) CatalogRefreshProfile = Some (refresh_binding sample_env)"
  by (simp_all add: drift_refresh_def NewRefresh_def Bind_def sample_tasks_def)

lemma drift_accepted_sel:
  "t_ResultProfile (sample_leased EffectsReconstructible) = CatalogRefreshProfile"
  "t_AuthorizationRef (sample_leased EffectsReconstructible) = ''grant:g1''" "t_TenantID (sample_leased EffectsReconstructible) = ''ten''"
  "t_TaskID (sample_leased EffectsReconstructible) = ''t1''" "t_Generation (sample_leased EffectsReconstructible) = 1"
  "t_Revision (sample_leased EffectsReconstructible) = 2" "t_AttemptCount (sample_leased EffectsReconstructible) = 1"
  by (simp_all add: sample_leased_eq sample_new_def)

lemma drift_rows:
  "attempt_key ''t1'' 1 drift_attempt" "ta_Ordinal drift_attempt = 1" "br_Revision drift_task_row = 2"
  "cf_TaskID drift_record = ''t1''" "cf_Generation drift_record = 1" "cf_Drift drift_record" "cf_ServerID drift_record = ''s1''"
  "cf_Revision drift_record = 1" "cf_ResultRef drift_record = ''r1''" "cf_ResultDigest drift_record = InputDigest ''result''"
  by (simp_all add: drift_attempt_def drift_record_def drift_task_row_def attempt_key_def)

lemma accepted_task_sel:
  "sd_Changed sample_accepted" "t_TaskID (sd_Task sample_accepted) = ''t1''" "t_Generation (sd_Task sample_accepted) = 1"
  "t_AttemptCount (sd_Task sample_accepted) = 1" "sd_AttemptOutcome sample_accepted = AttemptAccepted"
  by (simp_all add: sample_accepted_def drift_accepted_sel)

lemma drift_submits:
  "k < 10 \<Longrightarrow> \<exists>dec w'. Submit sample_env (rf_tasks drift_refresh) ''t1'' 1 sample_submission (drift_world\<lparr>w_tick := k\<rparr>) = (Inr dec, w')
     \<and> sd_Changed dec \<and> sd_Accepted dec"
  using drift_task
  by (simp add: Submit_def submit_body_def run_defs drift_world_def locked_request_def GetRequestForUpdate_def int64_def
     drift_accepts drift_attempts drift_service drift_accepted_sel drift_rows accepted_task_sel
     ListAttempts_def GrantAuthorization_def GetGrantState_def sample_grant_row_def
     refresh_binding_def Recorded_def GetRefresh_def tick_def apply_decision_def UpdateRequest_def UpdateParams_def
     SetAttemptOutcome_def Accepted_def GetServer_def sample_server_def GetDescriptorForUpdate_def descriptor_key_def
     sample_descriptor_row_def DescriptorFromRow_def uint64_def disableLocked_def InsertReview_def
     review_row_def UpdateDescriptorState_def publish_descriptor_def nextEventRevision_def NextEventRevision_def
     Publish_def ListGrantsOfDescriptor_def sort_singleton revokeIn_def lock_grant_def found_def
     GetGrantForUpdate_def GrantFromRow_def revokeLocked_def update_grant_def UpdateGrantBarrier_def BarrierParams_def
     revoking_def decide_def InsertGrantDecision_def)

lemma drift_found:
  "find (request_key ''t1'' (int64 1)) (db_requests (w_db (interfere sample_env (drift_world\<lparr>w_tick := k\<rparr>)))) = Some drift_task_row"
  "refresh_at (w_db (interfere sample_env (drift_world\<lparr>w_tick := k\<rparr>))) ''t1'' (int64 1) = Some drift_record"
  "descriptor_at (w_db (interfere sample_env (drift_world\<lparr>w_tick := k\<rparr>))) ''s1'' 1 = Some (sample_descriptor_row CatalogApproved)"
  "db_grants (w_db (interfere sample_env (drift_world\<lparr>w_tick := k\<rparr>))) = [sample_grant_row]"
  using drift_task(2)
  by (simp_all add: interfere_def sample_env_def drift_world_def int64_def row_of_def refresh_id_def drift_rows
      descriptor_id_def sample_descriptor_row_def)

theorem accepted_drift_disables_witness:
  "\<exists>dec w'. Submit sample_env (rf_tasks drift_refresh) ''t1'' 1 sample_submission (drift_world\<lparr>w_tick := 0\<rparr>) = (Inr dec, w')
     \<and> sd_Accepted dec \<and> fenced_grant (w_db (fold (run_grant sample_env sample_grants) [] w')) ''g1''"
proof -
  obtain dec w' where run: "Submit sample_env (rf_tasks drift_refresh) ''t1'' 1 sample_submission (drift_world\<lparr>w_tick := 0\<rparr>) = (Inr dec, w')"
    "sd_Changed dec" "sd_Accepted dec" using drift_submits [of 0] by auto
  have "cf_Revision drift_record = int64 1" by (simp add: drift_rows int64_def)
  moreover have "dr_State (sample_descriptor_row CatalogApproved) = CatalogApproved" by (simp add: sample_descriptor_row_def)
  ultimately have "\<forall>g \<in> set [sample_grant_row]. gw_ServerID g = ''s1'' \<and> gw_DescriptorRevision g = 1
      \<and> gw_State g \<in> {GrantPending, GrantActive} \<longrightarrow> fenced_grant (w_db (fold (run_grant sample_env sample_grants) [] w')) (gw_GrantID g)"
    using accepted_drift_disables [OF sample_rely_grants run(1) [unfolded drift_refresh_def] run(2,3) drift_found(1) drift_task(3)
      drift_found(2) drift_rows(6) _ _ _, of 1 "sample_descriptor_row CatalogApproved" sample_grants "[]"]
    unfolding drift_rows drift_found by blast
  then show ?thesis using run by (auto simp: sample_grant_row_def)
qed

lemma sample_rely_refreshes: "rely refreshes_R sample_env"
  by (simp add: rely_def sample_env_def refreshes.R_refl)

theorem accepted_refresh_is_recorded_witness:
  "\<exists>out w1 dec w3. Advance_refresh sample_env drift_refresh ''t1'' 1 ''w1'' (InputDigest sample_input) drift_world = (Inr out, w1)
     \<and> Submit sample_env (rf_tasks drift_refresh) ''t1'' 1 sample_submission w1 = (Inr dec, w3)
     \<and> sd_Accepted dec \<and> ro_ResultRef out = s_ResultRef sample_submission"
proof -
  obtain dec w' where run: "Submit sample_env (rf_tasks drift_refresh) ''t1'' 1 sample_submission (drift_world\<lparr>w_tick := 5\<rparr>) = (Inr dec, w')"
    "sd_Changed dec" "sd_Accepted dec" using drift_submits [of 5] by auto
  have "ro_Completed (recorded_refresh drift_record)" by (simp add: recorded_refresh_def)
  from accepted_refresh_is_recorded [OF sample_rely_refreshes drift_advances this refreshes.R_refl
      run(1) [unfolded drift_refresh_def] run(2,3) drift_found(1) drift_task(3)]
  show ?thesis using drift_advances run by force
qed

end
