(* ===== verification/Upstream_Egress.thy ===== *)
theory Upstream_Egress
  imports Network_Policy
begin

text \<open>
  The guarded HTTP client of \<open>internal/adapters/upstream/egress.go\<close> and the per-session transports of
  \<open>session.go\<close> that stack on it: the dial that connects to checked addresses only, the transport that
  admits reviewed hosts, the bounded response body, the bearer that follows one origin, and the scope of
  a revision.  The network (dialer, resolver, the HTTP transport beneath) is a parameter: its answers by
  the number of the interaction; what leaves the process is logged.
\<close>

section \<open>Network state\<close>

record HttpRequest =
  rq_Method :: string
  rq_URL :: URL
  rq_Authorization :: "string option"

datatype net_event = NetDial Addr string | NetRequest HttpRequest

record net =
  n_tick :: nat
  n_log :: "net_event list"

text \<open>An unlogged question (a lookup, a local read) and a logged one.\<close>

definition net_ask :: "(nat \<Rightarrow> 'a) \<Rightarrow> (net, 'a) eff" where
  "net_ask answer s = (Inr (answer (n_tick s)), s\<lparr>n_tick := Suc (n_tick s)\<rparr>)"

definition net_do :: "net_event \<Rightarrow> (nat \<Rightarrow> 'a) \<Rightarrow> (net, 'a) eff" where
  "net_do ev answer s = (Inr (answer (n_tick s)), s\<lparr>n_tick := Suc (n_tick s), n_log := n_log s @ [ev]\<rparr>)"

section \<open>Dialing\<close>

text \<open>\<open>net.SplitHostPort\<close>\<close>

definition SplitHostPort :: "string \<Rightarrow> (string \<times> string) option" where
  "SplitHostPort hp =
     (case CutLast hp (CHR '':'') of
        None \<Rightarrow> None
      | Some (pre, port) \<Rightarrow>
         if HasPrefix hp ''['' then
           (let inner = takeWhile (\<lambda>c. c \<noteq> CHR '']'') (tl hp); after = drop (Suc (length inner)) (tl hp) in
            if CHR '']'' \<notin> set hp \<or> after \<noteq> CHR '':'' # port then None
            else if CHR ''['' \<in> set (tl hp) \<or> CHR '']'' \<in> set port then None
            else Some (inner, port))
         else if CHR '':'' \<in> set pre \<or> CHR ''['' \<in> set hp \<or> CHR '']'' \<in> set hp then None
         else Some (pre, port))"

text \<open>A connection by its remote address, \<open>None\<close> when that is not an address and a port.\<close>
type_synonym Conn = "Addr option"

record Guard =
  gd_Policy :: NetworkPolicy
  gd_Resolver :: Resolver
  gd_Dial :: "nat \<Rightarrow> Addr \<Rightarrow> string \<Rightarrow> err + Conn"

text \<open>The addresses of a host: itself when it is an address, else the resolver's answer; every one of
  them passes the policy.\<close>

definition resolve_checked :: "Guard \<Rightarrow> err \<Rightarrow> string \<Rightarrow> string \<Rightarrow> bool \<Rightarrow> (net, Addr list) eff" where
  "resolve_checked g refused literal host private =
     seq (case ParseAddr literal of
            Some a \<Rightarrow> ok (Inr [a])
          | None \<Rightarrow> net_ask (\<lambda>n. gd_Resolver g n host)) (\<lambda>answer.
     case answer of
       Inl _ \<Rightarrow> fail refused
     | Inr addrs \<Rightarrow>
        if addrs = [] then fail refused
        else (case check_addrs addrs private of Inl _ \<Rightarrow> fail refused | Inr _ \<Rightarrow> ok addrs))"

text \<open>The dial loop: the first address that connects decides; its peer must be that address.  With no
  address left the last dial error is returned.\<close>

fun dial_each :: "Guard \<Rightarrow> bool \<Rightarrow> string \<Rightarrow> err \<Rightarrow> Addr list \<Rightarrow> (net, Conn) eff" where
  "dial_each g private port prev [] = fail prev"
| "dial_each g private port prev (a # as) =
     seq (net_do (NetDial (Unmap a) port) (\<lambda>n. gd_Dial g n (Unmap a) port)) (\<lambda>answer.
     case answer of
       Inl e \<Rightarrow> dial_each g private port e as
     | Inr conn \<Rightarrow>
        (case conn of
           None \<Rightarrow> fail (err ErrEgress)
         | Some peer \<Rightarrow>
            if Unmap peer \<noteq> Unmap a \<or> CheckAddr peer private \<noteq> Inr () then fail (err ErrEgress)
            else ok conn))"

definition DialContext :: "Guard \<Rightarrow> string \<Rightarrow> (net, Conn) eff" where
  "DialContext g addr =
     (case SplitHostPort addr of
        None \<Rightarrow> fail (err ErrEgress)
      | Some (host, port) \<Rightarrow>
         (case CheckHost (gd_Policy g) host of
            Inl _ \<Rightarrow> fail (err ErrEgress)
          | Inr private \<Rightarrow>
             seq (resolve_checked g (err ErrEgress) (Trim host ''[]'') host private) (\<lambda>addrs.
             dial_each g private port (err ErrOther) addrs)))"

section \<open>Bodies\<close>

text \<open>
  A body as the transport delivers it: chunks, then the end or an error.  A read takes at most the
  given number of bytes of the next chunk.
\<close>

datatype read_status = More | EOF | Failed err

type_synonym body = "bytes list \<times> err option"

fun rc_read :: "nat \<Rightarrow> body \<Rightarrow> bytes \<times> read_status \<times> body" where
  "rc_read n ([], e) = ([], (case e of None \<Rightarrow> EOF | Some x \<Rightarrow> Failed x), ([], e))"
| "rc_read n (c # cs, e) = (take n c, More, (if length c \<le> n then cs else drop n c # cs, e))"

record boundedBody =
  bb_rc :: body
  bb_left :: int

definition bounded_read :: "nat \<Rightarrow> boundedBody \<Rightarrow> bytes \<times> read_status \<times> boundedBody" where
  "bounded_read p b =
     (if bb_left b \<le> 0 then
        (case rc_read 1 (bb_rc b) of (one, _, rc) \<Rightarrow>
           ([], if one \<noteq> [] then Failed (err ErrBodyTooLarge) else EOF, b\<lparr>bb_rc := rc\<rparr>))
      else
        (case rc_read (if bb_left b < int p then nat (bb_left b) else p) (bb_rc b) of (bs, st, rc) \<Rightarrow>
           (bs, st, b\<lparr>bb_rc := rc, bb_left := bb_left b - int (length bs)\<rparr>)))"

text \<open>\<open>io.ReadAll\<close> on a bounded body, with reads of one positive size: the bytes and the error, \<open>None\<close> at
  the end of the body.\<close>

definition body_size :: "body \<Rightarrow> nat" where
  "body_size b = length (concat (fst b)) + length (fst b)"

lemma rc_read_smaller:
  "rc_read (Suc p) b = (bs, More, b') \<Longrightarrow> body_size b' < body_size b"
  by (cases b; cases "fst b") (auto simp: body_size_def split: if_splits option.splits)

lemma bounded_read_smaller:
  assumes "bounded_read (Suc p) b = (bs, More, b')"
  shows "body_size (bb_rc b') < body_size (bb_rc b)"
proof -
  have pos: "0 < bb_left b" using assms by (auto simp: bounded_read_def split: prod.splits if_splits)
  then obtain m where m: "(if bb_left b < int (Suc p) then nat (bb_left b) else Suc p) = Suc m"
    by (metis Suc_pred' zero_less_nat_eq zero_less_Suc)
  from assms pos have "rc_read (Suc m) (bb_rc b) = (bs, More, bb_rc b')"
    unfolding bounded_read_def m by (auto split: prod.splits)
  then show ?thesis by (rule rc_read_smaller)
qed

function read_all :: "nat \<Rightarrow> boundedBody \<Rightarrow> bytes \<times> err option" where
  "read_all p b =
     (case bounded_read (Suc p) b of (bs, st, b') \<Rightarrow>
        (case st of
           EOF \<Rightarrow> (bs, None)
         | Failed e \<Rightarrow> (bs, Some e)
         | More \<Rightarrow> (case read_all p b' of (r, e) \<Rightarrow> (bs @ r, e))))"
  by pat_completeness auto
termination
  by (relation "measure (\<lambda>(p, b). body_size (bb_rc b))") (simp, metis bounded_read_smaller in_measure case_prod_conv)

declare read_all.simps [simp del]

section \<open>Transports\<close>

record HttpResponse =
  hr_Status :: int
  hr_Location :: string
  hr_Body :: boundedBody

type_synonym RoundTripper = "HttpRequest \<Rightarrow> (net, HttpResponse) eff"

text \<open>The transport beneath the guard, by interaction: a status, a \<open>Location\<close> (empty: none) and a body.\<close>

type_synonym Transport = "nat \<Rightarrow> HttpRequest \<Rightarrow> err + int \<times> string \<times> body"

definition base_trip :: "Transport \<Rightarrow> HttpRequest \<Rightarrow> (net, int \<times> string \<times> body) eff" where
  "base_trip http req = seq (net_do (NetRequest req) (\<lambda>n. http n req)) lift"

definition guarded_trip :: "Guard \<Rightarrow> Transport \<Rightarrow> int \<Rightarrow> RoundTripper" where
  "guarded_trip g http maxBody req =
     (case CheckHost (gd_Policy g) (Hostname (rq_URL req)) of
        Inl _ \<Rightarrow> fail (err ErrEgress)
      | Inr private \<Rightarrow>
         seq (guard (u_Scheme (rq_URL req) = ''https'' \<or> (private \<and> u_Scheme (rq_URL req) = ''http'')) (err ErrEgress)) (\<lambda>_.
         seq (guard (\<not> u_User (rq_URL req)) (err ErrEgress)) (\<lambda>_.
         seq (base_trip http req) (\<lambda>(status, location, b).
         ok \<lparr>hr_Status = status, hr_Location = location, hr_Body = \<lparr>bb_rc = b, bb_left = maxBody\<rparr>\<rparr>))))"

definition originOf :: "string \<Rightarrow> string \<Rightarrow> string" where
  "originOf scheme host = ToLower (scheme @ ''://'' @ host)"

definition bearer_trip :: "RoundTripper \<Rightarrow> string \<Rightarrow> string \<Rightarrow> RoundTripper" where
  "bearer_trip base origin token req =
     base (req\<lparr>rq_Authorization :=
       (if token \<noteq> [] \<and> originOf (u_Scheme (rq_URL req)) (u_Host (rq_URL req)) = origin
        then Some (''Bearer '' @ token) else None)\<rparr>)"

text \<open>\<open>WithBearer\<close>\<close>
definition WithBearer :: "RoundTripper \<Rightarrow> string \<Rightarrow> string \<Rightarrow> RoundTripper" where
  "WithBearer base origin token = bearer_trip base (ToLower origin) token"

definition scoped_trip :: "RoundTripper \<Rightarrow> string list \<Rightarrow> RoundTripper" where
  "scoped_trip base scope req =
     (if \<not> HostInScope (Hostname (rq_URL req)) scope then fail (err ErrEgress) else base req)"

text \<open>
  \<open>http.Client.Do\<close> for a request without a body, under the \<open>CheckRedirect\<close> that refuses every redirect: an
  answer with a redirect status and a \<open>Location\<close> is an error.
\<close>

definition client_do :: "RoundTripper \<Rightarrow> HttpRequest \<Rightarrow> (net, HttpResponse) eff" where
  "client_do trip req =
     seq (trip req) (\<lambda>resp.
     if hr_Status resp \<notin> {301, 302, 303, 307, 308} \<or> hr_Location resp = [] then ok resp
     else if url_Parse (hr_Location resp) = None then fail (err ErrOther)
     else fail (err ErrEgress))"

section \<open>Facts\<close>

text \<open>A bounded body reads as its content up to the bound, and as an error beyond it.\<close>

definition body_bytes :: "body \<Rightarrow> bytes" where
  "body_bytes b = concat (fst b)"

lemma rc_read_bytes:
  assumes "rc_read (Suc p) b = (bs, More, b')" "[] \<notin> set (fst b)"
  shows "body_bytes b = bs @ body_bytes b'" "snd b' = snd b" "[] \<notin> set (fst b')" "bs \<noteq> []" "length bs \<le> Suc p"
  using assms by (cases b; cases "fst b"; auto simp: body_bytes_def split: if_splits option.splits)+

lemma rc_read_end:
  "rc_read n b = (bs, st, b') \<Longrightarrow> st \<noteq> More \<Longrightarrow> bs = [] \<and> body_bytes b = [] \<and> (case snd b of None \<Rightarrow> st = EOF | Some e \<Rightarrow> st = Failed e)"
  by (cases b; cases "fst b") (auto simp: body_bytes_def split: option.splits)

lemma rc_read_one: "[] \<notin> set (fst b) \<Longrightarrow> fst (rc_read (Suc 0) b) \<noteq> [] \<longleftrightarrow> body_bytes b \<noteq> []"
  by (cases b; cases "fst b") (auto simp: body_bytes_def)

lemma read_all_bounded:
  assumes "[] \<notin> set (fst (bb_rc b))" "0 \<le> bb_left b"
  shows "read_all p b =
     (let content = body_bytes (bb_rc b) in
      if int (length content) < bb_left b then (content, snd (bb_rc b))
      else if int (length content) = bb_left b then (content, None)
      else (take (nat (bb_left b)) content, Some (err ErrBodyTooLarge)))"
  using assms
proof (induction p b rule: read_all.induct)
  case (1 p b)
  obtain bs st b' where r: "bounded_read (Suc p) b = (bs, st, b')" by (metis prod_cases3)
  let ?c = "body_bytes (bb_rc b)"
  show ?case
  proof (cases "bb_left b = 0")
    case True
    then show ?thesis
      using r rc_read_one [OF 1(2)] by (auto simp: read_all.simps [of p b] bounded_read_def Let_def split: prod.splits if_splits)
  next
    case False
    with 1(3) have pos: "0 < bb_left b" by simp
    then obtain m where m: "(if bb_left b < int (Suc p) then nat (bb_left b) else Suc p) = Suc m"
      by (metis Suc_pred' zero_less_nat_eq zero_less_Suc)
    have le: "int (Suc m) \<le> bb_left b" using m pos by (auto split: if_splits)
    have rc: "rc_read (Suc m) (bb_rc b) = (bs, st, bb_rc b')" and left: "bb_left b' = bb_left b - int (length bs)"
      using r pos unfolding bounded_read_def m by (auto split: prod.splits)
    show ?thesis
    proof (cases "st = More")
      case True
      note B = rc_read_bytes [OF rc [unfolded True] 1(2)]
      have IH: "read_all p b' = (let content = body_bytes (bb_rc b') in
          if int (length content) < bb_left b' then (content, snd (bb_rc b'))
          else if int (length content) = bb_left b' then (content, None)
          else (take (nat (bb_left b')) content, Some (err ErrBodyTooLarge)))"
        using B(3,5) left le True r by (intro 1(1)) auto
      have "nat (bb_left b) = length bs + nat (bb_left b')" using left le B(5) by simp
      then show ?thesis
        using IH r True B(1,2) left by (auto simp: read_all.simps [of p b] Let_def)
    next
      case False
      from rc_read_end [OF rc this] show ?thesis
        using r False pos by (auto simp: read_all.simps [of p b] Let_def split: option.splits read_status.splits)
    qed
  qed
qed

text \<open>What reached the wire, and what stays of the log.\<close>

lemma net_do_Inr [simp]:
  "net_do ev answer s = (r, s') \<longleftrightarrow>
     r = Inr (answer (n_tick s)) \<and> s' = s\<lparr>n_tick := Suc (n_tick s), n_log := n_log s @ [ev]\<rparr>"
  by (auto simp: net_do_def)

lemma net_ask_Inr [simp]:
  "net_ask answer s = (r, s') \<longleftrightarrow> r = Inr (answer (n_tick s)) \<and> s' = s\<lparr>n_tick := Suc (n_tick s)\<rparr>"
  by (auto simp: net_ask_def)

text \<open>A computation appends only events that satisfy a condition.\<close>

definition emits :: "(net_event \<Rightarrow> bool) \<Rightarrow> (net, 'a) eff \<Rightarrow> bool" where
  "emits P m \<longleftrightarrow> (\<forall>s. \<exists>new. n_log (snd (m s)) = n_log s @ new \<and> list_all P new)"

lemma emitsI: "(\<And>s. \<exists>new. n_log (snd (m s)) = n_log s @ new \<and> list_all P new) \<Longrightarrow> emits P m"
  by (simp add: emits_def)

lemma emits_basic:
  "emits P (ok x)" "emits P (fail e)" "emits P (lift r)" "emits P (guard b e)" "emits P (net_ask answer)"
  by (auto simp: emits_def act_defs net_ask_def)

lemma emits_do: "P ev \<Longrightarrow> emits P (net_do ev answer)"
  by (auto simp: emits_def net_do_def)

text \<open>A checked prefix of a computation that lets nothing out.\<close>

lemma emits_seq_Inr:
  assumes "emits P m" "\<And>s x s'. m s = (Inr x, s') \<Longrightarrow> emits P (f x)"
  shows "emits P (seq m f)"
proof (rule emitsI)
  fix s
  obtain r s1 where m: "m s = (r, s1)" by force
  obtain new where new: "n_log s1 = n_log s @ new" "list_all P new" using assms(1) m unfolding emits_def by (metis snd_conv)
  show "\<exists>new. n_log (snd (seq m f s)) = n_log s @ new \<and> list_all P new"
  proof (cases r)
    case (Inl e)
    then show ?thesis using m new by (auto simp: seq_def)
  next
    case (Inr x)
    obtain new' where "n_log (snd (f x s1)) = n_log s1 @ new'" "list_all P new'"
      using assms(2) m Inr unfolding emits_def by blast
    then show ?thesis using m new Inr by (intro exI [of _ "new @ new'"]) (simp add: seq_def)
  qed
qed

lemma emits_seq: "emits P m \<Longrightarrow> (\<And>x. emits P (f x)) \<Longrightarrow> emits P (seq m f)"
  by (rule emits_seq_Inr)

lemmas emits_intros = emits_basic emits_seq

text \<open>The dial loop only dials the given addresses, and connects to one of them.\<close>

lemma dial_each_emits:
  "\<forall>a \<in> set as. P (NetDial (Unmap a) port) \<Longrightarrow> emits P (dial_each g private port e as)"
  by (induction as arbitrary: e) (auto intro!: emits_intros emits_do split: sum.split option.split)

lemma dial_each_Inr:
  "dial_each g private port e as s = (Inr conn, s') \<Longrightarrow> \<exists>peer. conn = Some peer \<and> CheckAddr peer private = Inr ()"
proof (induction as arbitrary: e s)
  case (Cons a as)
  show ?case
  proof (cases "gd_Dial g (n_tick s) (Unmap a) port")
    case (Inl x)
    then show ?thesis using Cons.prems Cons.IH by (simp add: seq_Inr)
  next
    case (Inr c)
    then show ?thesis using Cons.prems by (auto simp: seq_Inr split: option.splits if_splits)
  qed
qed simp

lemma resolve_checked_Inr:
  assumes "resolve_checked g e lit host private s = (Inr as, s')"
  shows "\<forall>a \<in> set as. CheckAddr a private = Inr ()"
proof -
  obtain answer :: "err + Addr list" and s1 where "(case answer of Inl _ \<Rightarrow> fail e | Inr addrs \<Rightarrow>
        if addrs = [] then fail e
        else (case check_addrs addrs private of Inl _ \<Rightarrow> fail e | Inr _ \<Rightarrow> ok addrs)) s1 = (Inr as, s')"
    using assms unfolding resolve_checked_def seq_Inr by (elim exE conjE) (rule that)
  then have "check_addrs as private = Inr ()"
    by (cases answer; cases "check_addrs (projr answer) private") (auto split: if_splits)
  then show ?thesis by (simp add: check_addrs_iff check_addr_iff list_all_iff)
qed

lemma resolve_checked_log: "emits P (resolve_checked g e lit host private)"
  unfolding resolve_checked_def by (auto intro!: emits_intros split: option.split sum.split)

lemma dial_emits:
  "emits (\<lambda>ev. \<exists>host port private a. SplitHostPort addr = Some (host, port)
      \<and> CheckHost (gd_Policy g) host = Inr private \<and> ev = NetDial (Unmap a) port \<and> reachable_addr a private)
    (DialContext g addr)" (is "emits ?P _")
proof (cases "SplitHostPort addr")
  case (Some hp)
  obtain host port where hp: "hp = (host, port)" by force
  show ?thesis
  proof (cases "CheckHost (gd_Policy g) host")
    case (Inr p)
    have "emits ?P (dial_each g p port (err ErrOther) as)" if "\<forall>a \<in> set as. CheckAddr a p = Inr ()" for as
      using that Some hp Inr by (intro dial_each_emits) (auto simp: check_addr_iff)
    then have "emits ?P (seq (resolve_checked g (err ErrEgress) (Trim host ''[]'') host p)
        (\<lambda>addrs. dial_each g p port (err ErrOther) addrs))"
      using resolve_checked_Inr by (intro emits_seq_Inr [OF resolve_checked_log]) blast
    then show ?thesis by (simp add: DialContext_def Some hp Inr)
  qed (simp add: DialContext_def Some hp emits_basic)
qed (simp add: DialContext_def emits_basic)

lemma dial_checked:
  assumes "DialContext g addr s = (Inr conn, s')"
  shows "\<exists>host port private peer. SplitHostPort addr = Some (host, port)
    \<and> CheckHost (gd_Policy g) host = Inr private \<and> conn = Some peer \<and> reachable_addr peer private"
proof (cases "SplitHostPort addr")
  case (Some hp)
  obtain host port where hp: "hp = (host, port)" by force
  obtain p where "CheckHost (gd_Policy g) host = Inr p"
    using assms Some hp by (cases "CheckHost (gd_Policy g) host") (auto simp: DialContext_def)
  with assms Some hp dial_each_Inr show ?thesis
    by (force simp: DialContext_def seq_Inr check_addr_iff [symmetric])
qed (use assms in \<open>simp add: DialContext_def\<close>)

lemma guarded_emits:
  assumes "\<And>p. CheckHost (gd_Policy g) (Hostname (rq_URL req)) = Inr p \<Longrightarrow>
      u_Scheme (rq_URL req) = ''https'' \<or> (p \<and> u_Scheme (rq_URL req) = ''http'') \<Longrightarrow> \<not> u_User (rq_URL req) \<Longrightarrow> P (NetRequest req)"
  shows "emits P (guarded_trip g http maxBody req)"
proof (cases "CheckHost (gd_Policy g) (Hostname (rq_URL req))")
  case (Inr p)
  have base: "emits P (seq (base_trip http req) f)" if "P (NetRequest req)" "\<And>x. emits P (f x)" for f :: "_ \<Rightarrow> (net, HttpResponse) eff"
    unfolding base_trip_def by (intro emits_intros emits_do that)
  show ?thesis
    unfolding guarded_trip_def Inr sum.case
    by (intro emits_seq_Inr [OF emits_basic(4)] base) (auto simp: assms [OF Inr] split: prod.split intro: emits_basic)
qed (simp add: guarded_trip_def emits_basic)

section \<open>Properties\<close>

text \<open>The request that a policy, a scope and a token let out.\<close>

definition admitted_request :: "NetworkPolicy \<Rightarrow> string list \<Rightarrow> string \<Rightarrow> string \<Rightarrow> HttpRequest \<Rightarrow> bool" where
  "admitted_request policy scope origin token req \<longleftrightarrow>
     (let u = rq_URL req in
      HostInScope (Hostname u) scope
      \<and> (CheckHost policy (Hostname u) = Inr True \<and> u_Scheme u \<in> {''http'', ''https''}
         \<or> CheckHost policy (Hostname u) = Inr False \<and> u_Scheme u = ''https'')
      \<and> \<not> u_User u
      \<and> rq_Authorization req =
          (if token \<noteq> [] \<and> originOf (u_Scheme u) (u_Host u) = ToLower origin then Some (''Bearer '' @ token) else None))"

text \<open>
  C10. Egress is guarded.  Whatever request a session's transport is given and whatever the network
  answers, all that leaves is a request to a host in the revision's scope that the policy reviewed,
  by https (http only for a private host), without credentials in its URL, and with the token exactly
  when it goes to the token's origin; and a dial only ever tries, and a connection only ever has, an
  address that the policy allows for the host.
\<close>
theorem egress_is_guarded:
  "emits (\<lambda>ev. \<exists>req. ev = NetRequest req \<and> admitted_request (gd_Policy g) scope origin token req)
     (scoped_trip (WithBearer (guarded_trip g http maxBody) origin token) scope req0)
   \<and> emits (\<lambda>ev. \<exists>host port private a. SplitHostPort addr = Some (host, port)
          \<and> CheckHost (gd_Policy g) host = Inr private \<and> ev = NetDial (Unmap a) port \<and> reachable_addr a private)
       (DialContext g addr)
   \<and> (case DialContext g addr s of
        (Inl _, _) \<Rightarrow> True
      | (Inr conn, _) \<Rightarrow> (\<exists>host port private peer. SplitHostPort addr = Some (host, port)
          \<and> CheckHost (gd_Policy g) host = Inr private \<and> conn = Some peer \<and> reachable_addr peer private))"
proof (intro conjI)
  let ?req = "req0\<lparr>rq_Authorization :=
      (if token \<noteq> [] \<and> originOf (u_Scheme (rq_URL req0)) (u_Host (rq_URL req0)) = ToLower origin
       then Some (''Bearer '' @ token) else None)\<rparr>"
  have "admitted_request (gd_Policy g) scope origin token ?req"
    if "HostInScope (Hostname (rq_URL req0)) scope" "CheckHost (gd_Policy g) (Hostname (rq_URL ?req)) = Inr p"
      "u_Scheme (rq_URL ?req) = ''https'' \<or> (p \<and> u_Scheme (rq_URL ?req) = ''http'')" "\<not> u_User (rq_URL ?req)" for p
    using that by (cases p) (auto simp: admitted_request_def Let_def)
  then have "emits (\<lambda>ev. \<exists>req. ev = NetRequest req \<and> admitted_request (gd_Policy g) scope origin token req)
      (guarded_trip g http maxBody ?req)" if "HostInScope (Hostname (rq_URL req0)) scope"
    using that by (intro guarded_emits) blast
  then show "emits (\<lambda>ev. \<exists>req. ev = NetRequest req \<and> admitted_request (gd_Policy g) scope origin token req)
     (scoped_trip (WithBearer (guarded_trip g http maxBody) origin token) scope req0)"
    unfolding scoped_trip_def WithBearer_def bearer_trip_def by (simp add: emits_basic)
  show "emits (\<lambda>ev. \<exists>host port private a. SplitHostPort addr = Some (host, port)
          \<and> CheckHost (gd_Policy g) host = Inr private \<and> ev = NetDial (Unmap a) port \<and> reachable_addr a private)
       (DialContext g addr)"
    by (rule dial_emits)
  show "case DialContext g addr s of
        (Inl _, _) \<Rightarrow> True
      | (Inr conn, _) \<Rightarrow> (\<exists>host port private peer. SplitHostPort addr = Some (host, port)
          \<and> CheckHost (gd_Policy g) host = Inr private \<and> conn = Some peer \<and> reachable_addr peer private)"
    using dial_checked [of g addr s] by (auto split: prod.split sum.split)
qed

end
