(* ===== verification/Upstream_Auth.thy ===== *)
theory Upstream_Auth
  imports Upstream_Egress Grant "HOL-Library.AList"
begin

text \<open>
  The authority of \<open>internal/adapters/upstream/oauth.go\<close>: protected-resource metadata, the access tokens
  of grants and of discovery, and the cache that a committed revocation evicts from.  The authorization
  server's metadata and token endpoint (third-party clients), the secret files, the clock and the network
  are parameters: their answers by the number of the interaction.
\<close>

section \<open>Data\<close>

record Credential =
  cr_Resource :: string
  cr_Issuer :: string
  cr_ClientID :: string
  cr_ClientSecretFile :: string
  cr_Scopes :: "string list"

text \<open>\<open>Extra("scope")\<close> of a token response: absent, a text, or another JSON value.\<close>
datatype granted_scope = NoScope | ScopeText string | ScopeOther

record oauth2_Token =
  tk_AccessToken :: string
  tk_Expiry :: time
  tk_Scope :: granted_scope

record cachedToken =
  ct_token :: oauth2_Token
  ct_key :: string
  ct_resource :: string

text \<open>\<open>clientcredentials.Config\<close> as \<open>token\<close> fills it.\<close>
record TokenRequest =
  cc_ClientID :: string
  cc_ClientSecret :: string
  cc_TokenURL :: string
  cc_Scopes :: "string list"
  cc_Resource :: string

record Authority =
  au_guard :: Guard
  au_http :: Transport
  au_maxBody :: int
  au_credentials :: "Credential list"
  au_now :: "nat \<Rightarrow> time"
  au_metadata :: "nat \<Rightarrow> string \<Rightarrow> err + (string \<times> string) option"
  au_secret :: "nat \<Rightarrow> string \<Rightarrow> err + bytes"
  au_token :: "nat \<Rightarrow> TokenRequest \<Rightarrow> err + oauth2_Token"

text \<open>The state of a replica's authority: the network, the cache, and the token requests answered so far.\<close>
record authority =
  as_net :: net
  as_cache :: "(string \<times> cachedToken) list"
  as_issued :: "(TokenRequest \<times> oauth2_Token) list"

definition on_net :: "(net, 'a) eff \<Rightarrow> (authority, 'a) eff" where
  "on_net m s = (case m (as_net s) of (r, n) \<Rightarrow> (r, s\<lparr>as_net := n\<rparr>))"

section \<open>Metadata\<close>

definition metadataURLs :: "string \<Rightarrow> string list" where
  "metadataURLs resource =
     (case url_Parse resource of
        None \<Rightarrow> []
      | Some u \<Rightarrow>
         (let base = u_Scheme u @ ''://'' @ u_Host u @ ''/.well-known/oauth-protected-resource'';
              p = Trim (u_Path u) ''/''
          in if p \<noteq> [] then [base @ ''/'' @ p, base] else [base]))"

definition checkURL :: "Guard \<Rightarrow> string \<Rightarrow> (net, unit) eff" where
  "checkURL g raw =
     (case url_Parse raw of
        None \<Rightarrow> fail (err ErrAuthority)
      | Some u \<Rightarrow>
         if u_Host u = [] \<or> u_User u then fail (err ErrAuthority)
         else (case CheckHost (gd_Policy g) (Hostname u) of
           Inl _ \<Rightarrow> fail (err ErrAuthority)
         | Inr private \<Rightarrow>
            seq (guard (u_Scheme u = ''https'' \<or> (private \<and> u_Scheme u = ''http'')) (err ErrAuthority)) (\<lambda>_.
            seq (resolve_checked g (err ErrAuthority) (Hostname u) (Hostname u) private) (\<lambda>_.
            ok ()))))"

fun check_urls :: "Guard \<Rightarrow> string list \<Rightarrow> (net, unit) eff" where
  "check_urls g [] = ok ()"
| "check_urls g (u # us) = seq (checkURL g u) (\<lambda>_. check_urls g us)"

record resourceMetadata =
  rm_Resource :: string
  rm_AuthorizationServers :: "string list"

text \<open>A \<open>[]string\<close> field: \<open>null\<close> elements are empty strings.\<close>

fun rd_strings :: "json list \<Rightarrow> string list option" where
  "rd_strings [] = Some []"
| "rd_strings (v # vs) =
     (case v of
        JStr s \<Rightarrow> map_option ((#) s) (rd_strings vs)
      | JNull \<Rightarrow> map_option ((#) []) (rd_strings vs)
      | _ \<Rightarrow> None)"

definition fld_strs :: "(string list \<Rightarrow> 'a \<Rightarrow> 'a) \<Rightarrow> json \<Rightarrow> 'a \<Rightarrow> 'a option" where
  "fld_strs upd v x =
     (case v of
        JNull \<Rightarrow> Some (upd [] x)
      | JArr vs \<Rightarrow> map_option (\<lambda>ss. upd ss x) (rd_strings vs)
      | _ \<Rightarrow> None)"

definition decode_metadata :: "bytes \<Rightarrow> resourceMetadata option" where
  "decode_metadata raw =
     Option.bind (json_parse raw) (decode_struct False
       [(''resource'', fld_str (\<lambda>v. rm_Resource_update (\<lambda>_. v))),
        (''authorization_servers'', fld_strs (\<lambda>v. rm_AuthorizationServers_update (\<lambda>_. v)))]
       \<lparr>rm_Resource = [], rm_AuthorizationServers = []\<rparr>)"

text \<open>What a metadata answer means: not found goes on to the next URL (\<open>None\<close>).\<close>

definition metadata_answer :: "string \<Rightarrow> int \<Rightarrow> bytes \<times> err option \<Rightarrow> err + string list option" where
  "metadata_answer resource status raw =
     (if status = 404 then Inr None
      else (case snd raw of
        Some e \<Rightarrow> Inl e
      | None \<Rightarrow>
         if status \<noteq> 200 then Inl (err ErrOther)
         else (case decode_metadata (fst raw) of
           None \<Rightarrow> Inl (err ErrAuthority)
         | Some md \<Rightarrow>
            if rm_Resource md \<noteq> resource then Inl (err ErrAuthority)
            else Inr (Some (rm_AuthorizationServers md)))))"

fun try_metadata :: "Authority \<Rightarrow> string \<Rightarrow> string list \<Rightarrow> (net, string list) eff" where
  "try_metadata a resource [] = ok []"
| "try_metadata a resource (mu # mus) =
     (case url_Parse mu of
        None \<Rightarrow> fail (err ErrOther)
      | Some u \<Rightarrow>
         seq (client_do (guarded_trip (au_guard a) (au_http a) (au_maxBody a))
                \<lparr>rq_Method = ''GET'', rq_URL = u, rq_Authorization = None\<rparr>) (\<lambda>resp.
         seq (lift (metadata_answer resource (hr_Status resp) (read_all 511 (hr_Body resp)))) (\<lambda>answer.
         case answer of
           None \<Rightarrow> try_metadata a resource mus
         | Some servers \<Rightarrow> seq (check_urls (au_guard a) servers) (\<lambda>_. ok servers))))"

definition ProtectedResource :: "Authority \<Rightarrow> string \<Rightarrow> (net, string list) eff" where
  "ProtectedResource a resource = try_metadata a resource (metadataURLs resource)"

definition Issuer :: "Authority \<Rightarrow> string \<Rightarrow> (net, string) eff" where
  "Issuer a resource =
     seq (ProtectedResource a resource) (\<lambda>servers.
     ok (case servers of [] \<Rightarrow> [] | s # _ \<Rightarrow> s))"

section \<open>Tokens\<close>

definition HasCredential :: "Authority \<Rightarrow> string \<Rightarrow> bool" where
  "HasCredential a resource \<longleftrightarrow> list_ex (\<lambda>c. cr_Resource c = resource) (au_credentials a)"

text \<open>The last credential of the resource at the issuer.\<close>
definition credential_for :: "Authority \<Rightarrow> string \<Rightarrow> string \<Rightarrow> Credential option" where
  "credential_for a resource issuer =
     find (\<lambda>c. cr_Resource c = resource \<and> cr_Issuer c = issuer) (rev (au_credentials a))"

definition withinScopes :: "oauth2_Token \<Rightarrow> string list \<Rightarrow> err + unit" where
  "withinScopes tok requested =
     (case tk_Scope tok of
        NoScope \<Rightarrow> Inr ()
      | ScopeOther \<Rightarrow> Inl (err ErrAuthority)
      | ScopeText granted \<Rightarrow>
         if 0 < length (filter (\<lambda>s. s \<notin> set requested) (Fields granted)) then Inl (err ErrAuthority) else Inr ())"

text \<open>A token request: the issuer's metadata, its endpoints inside the policy, the secret, the token.\<close>

definition request_token :: "Authority \<Rightarrow> string \<Rightarrow> string \<Rightarrow> Credential \<Rightarrow> (authority, oauth2_Token) eff" where
  "request_token a resource issuer cred =
     seq (on_net (net_ask (\<lambda>n. au_metadata a n issuer))) (\<lambda>asm.
     case asm of
       Inl _ \<Rightarrow> fail (err ErrAuthority)
     | Inr None \<Rightarrow> fail (err ErrAuthority)
     | Inr (Some (tokenEndpoint, jwks)) \<Rightarrow>
        seq (on_net (check_urls (au_guard a) (filter (\<lambda>u. u \<noteq> []) [tokenEndpoint, jwks]))) (\<lambda>_.
        seq (on_net (net_ask (\<lambda>n. au_secret a n (cr_ClientSecretFile cred)))) (\<lambda>secret.
        case secret of
          Inl _ \<Rightarrow> fail (err ErrAuthority)
        | Inr raw \<Rightarrow>
           (let cc = \<lparr>cc_ClientID = cr_ClientID cred, cc_ClientSecret = TrimSpace raw, cc_TokenURL = tokenEndpoint,
                      cc_Scopes = cr_Scopes cred, cc_Resource = resource\<rparr> in
            seq (on_net (net_ask (\<lambda>n. au_token a n cc))) (\<lambda>answer.
            case answer of
              Inl _ \<Rightarrow> fail (err ErrAuthority)
            | Inr tok \<Rightarrow> (\<lambda>s. (Inr tok, s\<lparr>as_issued := as_issued s @ [(cc, tok)]\<rparr>)))))))"

definition put_token :: "string \<Rightarrow> cachedToken \<Rightarrow> (authority, unit) eff" where
  "put_token key c s = (Inr (), s\<lparr>as_cache := AList.update key c (as_cache s)\<rparr>)"

definition cached_token :: "Authority \<Rightarrow> string \<Rightarrow> (authority, oauth2_Token option) eff" where
  "cached_token a key s =
     (case map_of (as_cache s) key of
        None \<Rightarrow> (Inr None, s)
      | Some c \<Rightarrow>
         seq (on_net (net_ask (au_now a))) (\<lambda>now.
         ok (if After (tk_Expiry (ct_token c)) (Add now (30 * second)) then Some (ct_token c) else None)) s)"

text \<open>The second half of \<open>token\<close>, for the reviewed credential: the cached token, or a new one that grants no
  more than the credential requests.\<close>

definition credential_token :: "Authority \<Rightarrow> string \<Rightarrow> string \<Rightarrow> string \<Rightarrow> Credential \<Rightarrow> (authority, string) eff" where
  "credential_token a resource issuer cacheKey cred =
     (let key = cacheKey @ [CHR 0x00] @ cr_ClientID cred in
      seq (cached_token a key) (\<lambda>cached.
      case cached of
        Some tok \<Rightarrow> ok (tk_AccessToken tok)
      | None \<Rightarrow>
         seq (request_token a resource issuer cred) (\<lambda>tok.
         seq (lift (withinScopes tok (cr_Scopes cred))) (\<lambda>_.
         seq (put_token key \<lparr>ct_token = tok, ct_key = cacheKey, ct_resource = resource\<rparr>) (\<lambda>_.
         ok (tk_AccessToken tok))))))"

definition token_for :: "Authority \<Rightarrow> string \<Rightarrow> string \<Rightarrow> string \<Rightarrow> (authority, string) eff" where
  "token_for a resource issuer cacheKey =
     seq (on_net (ProtectedResource a resource)) (\<lambda>servers.
     seq (guard (issuer \<in> set servers) (err ErrAuthority)) (\<lambda>_.
     case credential_for a resource issuer of
       None \<Rightarrow> fail (err ErrAuthority)
     | Some cred \<Rightarrow> credential_token a resource issuer cacheKey cred))"

definition Token :: "Authority \<Rightarrow> Grant \<Rightarrow> (authority, string) eff" where
  "Token a g = (if g_Issuer g = [] then ok [] else token_for a (g_CanonicalResource g) (g_Issuer g) (CacheKey g))"

definition discovery_key :: "string \<Rightarrow> string \<Rightarrow> string" where
  "discovery_key resource issuer = ''discovery'' @ [CHR 0x00] @ resource @ [CHR 0x00] @ issuer"

definition DiscoveryToken :: "Authority \<Rightarrow> string \<Rightarrow> (authority, string \<times> string) eff" where
  "DiscoveryToken a resource =
     seq (on_net (Issuer a resource)) (\<lambda>issuer.
     if issuer = [] then ok ([], [])
     else seq (token_for a resource issuer (discovery_key resource issuer)) (\<lambda>token. ok (token, issuer)))"

section \<open>Eviction\<close>

definition evict :: "(cachedToken \<Rightarrow> bool) \<Rightarrow> authority \<Rightarrow> nat \<times> authority" where
  "evict match s =
     (length (filter (\<lambda>e. match (snd e)) (as_cache s)),
      s\<lparr>as_cache := filter (\<lambda>e. \<not> match (snd e)) (as_cache s)\<rparr>)"

definition EvictGrant :: "string \<Rightarrow> authority \<Rightarrow> nat \<times> authority" where
  "EvictGrant cacheKey = evict (\<lambda>c. ct_key c = cacheKey)"

definition EvictResource :: "string \<Rightarrow> authority \<Rightarrow> nat \<times> authority" where
  "EvictResource resource = evict (\<lambda>c. ct_resource c = resource)"

section \<open>The cache as an interface\<close>

text \<open>What a consumer of revocations relies on: evicting drops exactly the entries of a grant's cache key, or
  of a canonical resource, and answers how many.\<close>

locale token_cache =
  fixes entries :: "'s \<Rightarrow> (string \<times> cachedToken) list"
    and evict_grant evict_resource :: "string \<Rightarrow> 's \<Rightarrow> nat \<times> 's"
  assumes grant_entries: "entries (snd (evict_grant key s)) = filter (\<lambda>e. ct_key (snd e) \<noteq> key) (entries s)"
    and resource_entries: "entries (snd (evict_resource r s)) = filter (\<lambda>e. ct_resource (snd e) \<noteq> r) (entries s)"
    and grant_count: "fst (evict_grant key s) + length (entries (snd (evict_grant key s))) = length (entries s)"
    and resource_count: "fst (evict_resource r s) + length (entries (snd (evict_resource r s))) = length (entries s)"
begin

lemma grant_evicted: "e \<in> set (entries (snd (evict_grant key s))) \<longleftrightarrow> e \<in> set (entries s) \<and> ct_key (snd e) \<noteq> key"
  by (auto simp: grant_entries)

lemma resource_evicted:
  "e \<in> set (entries (snd (evict_resource r s))) \<longleftrightarrow> e \<in> set (entries s) \<and> ct_resource (snd e) \<noteq> r"
  by (auto simp: resource_entries)

text \<open>A repeated eviction finds nothing.\<close>

lemma grant_evicted_again: "fst (evict_grant key (snd (evict_grant key s))) = 0"
proof -
  let ?s = "snd (evict_grant key s)"
  have "entries (snd (evict_grant key ?s)) = entries ?s" by (simp add: grant_entries)
  then show ?thesis using grant_count [of key ?s] by simp
qed

end

interpretation authority_cache: token_cache as_cache EvictGrant EvictResource
proof unfold_locales
  have n: "length (filter P xs) + length (filter (\<lambda>x. \<not> P x) xs) = length xs" for P and xs :: "(string \<times> cachedToken) list"
    by (rule sum_length_filter_compl)
  show "as_cache (snd (EvictGrant key s)) = filter (\<lambda>e. ct_key (snd e) \<noteq> key) (as_cache s)" for key s
    by (simp add: EvictGrant_def evict_def)
  show "as_cache (snd (EvictResource r s)) = filter (\<lambda>e. ct_resource (snd e) \<noteq> r) (as_cache s)" for r s
    by (simp add: EvictResource_def evict_def)
  show "fst (EvictGrant key s) + length (as_cache (snd (EvictGrant key s))) = length (as_cache s)" for key s
    by (simp add: EvictGrant_def evict_def n)
  show "fst (EvictResource r s) + length (as_cache (snd (EvictResource r s))) = length (as_cache s)" for r s
    by (simp add: EvictResource_def evict_def n)
qed

section \<open>Tokens stay with their grant\<close>

text \<open>Operations that leave the cache alone; answered requests are only added.\<close>

definition grows :: "(authority, 'a) eff \<Rightarrow> bool" where
  "grows m \<longleftrightarrow> (\<forall>s. as_cache (snd (m s)) = as_cache s \<and> set (as_issued s) \<subseteq> set (as_issued (snd (m s))))"

lemma growsD: "grows m \<Longrightarrow> m s = (r, s') \<Longrightarrow> as_cache s' = as_cache s \<and> set (as_issued s) \<subseteq> set (as_issued s')"
  unfolding grows_def by (metis snd_conv)

lemma grows_basic:
  "grows (ok x)" "grows (fail e)" "grows (guard b e)" "grows (lift r)" "grows (on_net m)"
  by (auto simp: grows_def act_defs on_net_def split: prod.split)

lemma grows_seq: "grows m \<Longrightarrow> (\<And>x. grows (f x)) \<Longrightarrow> grows (seq m f)"
  unfolding grows_def seq_def
  by (auto split: prod.splits sum.splits) (metis snd_conv subset_iff)+

lemma grows_issue: "grows (\<lambda>s. (Inr tok, s\<lparr>as_issued := as_issued s @ [x]\<rparr>))"
  by (auto simp: grows_def)

lemma grows_request: "grows (request_token a r i cred)"
  unfolding request_token_def Let_def
  by (auto intro!: grows_seq grows_basic grows_issue split: sum.split option.split)

lemma grows_cached: "grows (cached_token a key)"
proof -
  have "grows (seq (on_net (net_ask (au_now a))) (\<lambda>now.
      ok (if After (tk_Expiry (ct_token c)) (Add now (30 * second)) then Some (ct_token c) else None)))" for c
    by (intro grows_seq grows_basic)
  then show ?thesis unfolding grows_def cached_token_def by (auto split: option.split)
qed

lemma cached_token_Inr:
  "cached_token a key s = (Inr (Some tok), s') \<Longrightarrow> \<exists>c. map_of (as_cache s) key = Some c \<and> tok = ct_token c"
  by (auto simp: cached_token_def seq_Inr split: option.splits if_splits)

text \<open>What every successful run of a computation establishes.\<close>

definition yields :: "('a \<Rightarrow> 's \<Rightarrow> bool) \<Rightarrow> ('s, 'a) eff \<Rightarrow> bool" where
  "yields Q m \<longleftrightarrow> (\<forall>s x s'. m s = (Inr x, s') \<longrightarrow> Q x s')"

lemma yields_seq: "(\<And>x. yields Q (f x)) \<Longrightarrow> yields Q (seq m f)"
  unfolding yields_def seq_Inr by blast

lemma yields_fail: "yields Q (fail e)"
  by (simp add: yields_def)

lemma yields_end: "(\<And>s. Q x (f s)) \<Longrightarrow> yields Q (\<lambda>s. (Inr x, f s))"
  by (simp add: yields_def)

lemma yields_cases:
  "(\<And>e. yields Q (f e)) \<Longrightarrow> (\<And>x. yields Q (g x)) \<Longrightarrow> yields Q (case_sum f g r)"
  "yields Q h \<Longrightarrow> (\<And>x. yields Q (f' x)) \<Longrightarrow> yields Q (case_option h f' v)"
  "(\<And>x y. yields Q (g' x y)) \<Longrightarrow> yields Q (case_prod g' p)"
  by (auto split: sum.split option.split prod.split)

lemma request_token_Inr:
  assumes "request_token a r i cred s = (Inr tok, s')"
  shows "\<exists>cc. (cc, tok) \<in> set (as_issued s') \<and> cc_ClientID cc = cr_ClientID cred \<and> cc_Scopes cc = cr_Scopes cred \<and> cc_Resource cc = r"
proof -
  have "yields (\<lambda>tok s'. \<exists>cc. (cc, tok) \<in> set (as_issued s') \<and> cc_ClientID cc = cr_ClientID cred
      \<and> cc_Scopes cc = cr_Scopes cred \<and> cc_Resource cc = r) (request_token a r i cred)"
    unfolding request_token_def Let_def
    by (intro yields_seq yields_fail yields_cases yields_end exI conjI) (rule in_set_conv_decomp [THEN iffD2], auto)
  then show ?thesis using assms by (simp add: yields_def)
qed

text \<open>
  A cached token and its provenance.  \<open>K\<close> gives the resource and issuer of a grant's cache key; a
  discovery entry is told apart by its key.
\<close>

definition provenance :: "Authority \<Rightarrow> (TokenRequest \<times> oauth2_Token) set \<Rightarrow> string \<Rightarrow> string \<Rightarrow> Credential \<Rightarrow> oauth2_Token \<Rightarrow> bool" where
  "provenance a issued resource issuer cred tok \<longleftrightarrow>
     credential_for a resource issuer = Some cred \<and> withinScopes tok (cr_Scopes cred) = Inr ()
     \<and> (\<exists>cc. (cc, tok) \<in> issued \<and> cc_ClientID cc = cr_ClientID cred \<and> cc_Scopes cc = cr_Scopes cred \<and> cc_Resource cc = resource)"

definition entry_sound ::
  "Authority \<Rightarrow> (string \<Rightarrow> string \<times> string) \<Rightarrow> (TokenRequest \<times> oauth2_Token) set \<Rightarrow> string \<times> cachedToken \<Rightarrow> bool" where
  "entry_sound a K issued e \<longleftrightarrow>
     (case e of (k, c) \<Rightarrow>
        (\<exists>rest. k = ''discovery'' @ [CHR 0x00] @ rest) \<or>
        (\<exists>cred. k = ct_key c @ [CHR 0x00] @ cr_ClientID cred \<and> CHR 0x00 \<notin> set (ct_key c)
           \<and> ct_resource c = fst (K (ct_key c))
           \<and> provenance a issued (fst (K (ct_key c))) (snd (K (ct_key c))) cred (ct_token c)))"

definition tokens_sound :: "Authority \<Rightarrow> (string \<Rightarrow> string \<times> string) \<Rightarrow> authority \<Rightarrow> bool" where
  "tokens_sound a K s \<longleftrightarrow> (\<forall>e \<in> set (as_cache s). entry_sound a K (set (as_issued s)) e)"

lemma provenance_mono: "provenance a I r i cred tok \<Longrightarrow> I \<subseteq> I' \<Longrightarrow> provenance a I' r i cred tok"
  unfolding provenance_def by blast

lemma entry_sound_mono: "entry_sound a K I e \<Longrightarrow> I \<subseteq> I' \<Longrightarrow> entry_sound a K I' e"
  unfolding entry_sound_def using provenance_mono by (fastforce split: prod.splits)

lemma tokens_sound_mono:
  "tokens_sound a K s \<Longrightarrow> set (as_cache s') \<subseteq> set (as_cache s) \<Longrightarrow> set (as_issued s) \<subseteq> set (as_issued s') \<Longrightarrow> tokens_sound a K s'"
  unfolding tokens_sound_def using entry_sound_mono by blast

lemma set_update_subset: "set (AList.update k v al) \<subseteq> insert (k, v) (set al)"
  by (induction al) auto

lemma seq_cases:
  assumes "seq m f s = (res, s')"
  obtains (failed) e where "m s = (Inl e, s')" "res = Inl e" | (went) x s1 where "m s = (Inr x, s1)" "f x s1 = (res, s')"
  using assms by (auto simp: seq_def split: prod.splits sum.splits)

text \<open>Every run of \<open>token\<close> either leaves the cache or adds one entry of known provenance; an answer is such
  an entry's token.\<close>

definition token_effect ::
  "Authority \<Rightarrow> string \<Rightarrow> string \<Rightarrow> string \<Rightarrow> authority \<Rightarrow> err + string \<Rightarrow> authority \<Rightarrow> bool" where
  "token_effect a r i key s res s' \<longleftrightarrow>
     set (as_issued s) \<subseteq> set (as_issued s')
     \<and> (as_cache s' = as_cache s
          \<and> (\<forall>t. res = Inr t \<longrightarrow> (\<exists>cred c. credential_for a r i = Some cred
                \<and> map_of (as_cache s) (key @ [CHR 0x00] @ cr_ClientID cred) = Some c \<and> t = tk_AccessToken (ct_token c)))
        \<or> (\<exists>cred tok. as_cache s' = AList.update (key @ [CHR 0x00] @ cr_ClientID cred)
                \<lparr>ct_token = tok, ct_key = key, ct_resource = r\<rparr> (as_cache s)
              \<and> provenance a (set (as_issued s')) r i cred tok \<and> res = Inr (tk_AccessToken tok)))"

lemma token_effect_failed:
  "as_cache s' = as_cache s \<Longrightarrow> set (as_issued s) \<subseteq> set (as_issued s') \<Longrightarrow> token_effect a r i key s (Inl e) s'"
  by (simp add: token_effect_def)

lemma token_effect_after:
  "as_cache s1 = as_cache s \<Longrightarrow> set (as_issued s) \<subseteq> set (as_issued s1) \<Longrightarrow> token_effect a r i key s1 res s'
     \<Longrightarrow> token_effect a r i key s res s'"
  by (auto simp: token_effect_def)

lemma credential_token_effect:
  assumes "credential_token a r i key cred s = (res, s')" "credential_for a r i = Some cred"
  shows "token_effect a r i key s res s'"
  using assms(1) unfolding credential_token_def Let_def
proof (cases rule: seq_cases)
  case (failed e)
  then show ?thesis using growsD [OF grows_cached] by (metis token_effect_failed)
next
  case (went cached s1)
  note g1 = growsD [OF grows_cached went(1)]
  show ?thesis
  proof (cases cached)
    case (Some tok)
    then obtain c where "map_of (as_cache s) (key @ [CHR 0x00] @ cr_ClientID cred) = Some c" "tok = ct_token c"
      using cached_token_Inr went(1) by blast
    moreover have "res = Inr (tk_AccessToken tok)" "s' = s1" using went(2) Some by (simp_all add: ok_def)
    ultimately show ?thesis using g1 assms(2) by (simp add: token_effect_def)
  next
    case None
    then have "seq (request_token a r i cred) (\<lambda>tok. seq (lift (withinScopes tok (cr_Scopes cred))) (\<lambda>_.
         seq (put_token (key @ [CHR 0x00] @ cr_ClientID cred) \<lparr>ct_token = tok, ct_key = key, ct_resource = r\<rparr>) (\<lambda>_.
         ok (tk_AccessToken tok)))) s1 = (res, s')" using went(2) by simp
    then have "token_effect a r i key s1 res s'"
    proof (cases rule: seq_cases)
      case (failed e)
      then show ?thesis using growsD [OF grows_request] by (metis token_effect_failed)
    next
      case (went tok s2)
      note g2 = growsD [OF grows_request went(1)]
      show ?thesis
      proof (cases "withinScopes tok (cr_Scopes cred)")
        case (Inl e)
        then show ?thesis using went(2) g2 by (auto simp: seq_def lift_def intro: token_effect_failed)
      next
        case (Inr u)
        then have "provenance a (set (as_issued s2)) r i cred tok"
          using request_token_Inr [OF went(1)] assms(2) by (simp add: provenance_def)
        moreover have "s' = s2\<lparr>as_cache := AList.update (key @ [CHR 0x00] @ cr_ClientID cred)
            \<lparr>ct_token = tok, ct_key = key, ct_resource = r\<rparr> (as_cache s2)\<rparr>" "res = Inr (tk_AccessToken tok)"
          using went(2) Inr by (auto simp: seq_def lift_def put_token_def ok_def)
        ultimately show ?thesis using g2
          unfolding token_effect_def by (intro conjI disjI2 exI [of _ cred] exI [of _ tok]) simp_all
      qed
    qed
    then show ?thesis using g1 by (blast intro: token_effect_after)
  qed
qed

lemma token_for_effect:
  assumes "token_for a r i key s = (res, s')"
  shows "token_effect a r i key s res s'"
  using assms unfolding token_for_def
proof (cases rule: seq_cases)
  case (failed e)
  then show ?thesis using growsD [OF grows_basic(5)] by (metis token_effect_failed)
next
  case (went servers s1)
  note g1 = growsD [OF grows_basic(5) went(1)]
  have "token_effect a r i key s1 res s'"
  proof (cases "i \<in> set servers")
    case True
    then show ?thesis
      using went(2) credential_token_effect [of a r i key _ s1 res s']
      by (cases "credential_for a r i") (auto simp: seq_def guard_def fail_def intro: token_effect_failed)
  next
    case False
    then show ?thesis using went(2) by (auto simp: seq_def guard_def intro: token_effect_failed)
  qed
  then show ?thesis using g1 by (blast intro: token_effect_after)
qed

text \<open>Grant keys hold no zero byte and do not start like a discovery key.\<close>

lemma CacheKey_no_zero: "CHR 0x00 \<notin> set (CacheKey g)"
proof -
  have "list_all is_lower_hex (sha256_hex x)" for x
    using digestPattern_sha256 [of x] by (simp only: digestPattern_def) simp
  moreover have "\<not> is_lower_hex (CHR 0x00)" by (simp add: is_lower_hex_def)
  ultimately have "CHR 0x00 \<notin> set (sha256_hex x)" for x unfolding list_all_iff by blast
  then show ?thesis unfolding CacheKey_def digestLines_def set_append Un_iff by simp
qed

lemma CacheKey_not_discovery: "CacheKey g @ x \<noteq> ''discovery'' @ y"
  by (simp add: CacheKey_def digestLines_def)

lemma split_at_zero:
  "a @ [CHR 0x00] @ b = a' @ [CHR 0x00] @ b' \<Longrightarrow> CHR 0x00 \<notin> set a \<Longrightarrow> CHR 0x00 \<notin> set a' \<Longrightarrow> a = a'"
  by (induction a arbitrary: a') (auto simp: Cons_eq_append_conv append_eq_Cons_conv)

text \<open>Histories of a replica's authority.\<close>

definition empty_authority :: "net \<Rightarrow> authority" where
  "empty_authority n = \<lparr>as_net = n, as_cache = [], as_issued = []\<rparr>"

datatype auth_op = DoToken Grant | DoDiscovery string | DoEvictGrant string | DoEvictResource string

fun run_auth :: "Authority \<Rightarrow> auth_op \<Rightarrow> authority \<Rightarrow> authority" where
  "run_auth a (DoToken g) s = snd (Token a g s)"
| "run_auth a (DoDiscovery r) s = snd (DiscoveryToken a r s)"
| "run_auth a (DoEvictGrant k) s = snd (EvictGrant k s)"
| "run_auth a (DoEvictResource r) s = snd (EvictResource r s)"

definition keys_known :: "(string \<Rightarrow> string \<times> string) \<Rightarrow> Grant set \<Rightarrow> bool" where
  "keys_known K G \<longleftrightarrow> (\<forall>g \<in> G. K (CacheKey g) = (g_CanonicalResource g, g_Issuer g))"

fun op_grants :: "auth_op \<Rightarrow> Grant set" where
  "op_grants (DoToken g) = {g}"
| "op_grants _ = {}"

lemma token_effect_sound:
  assumes "tokens_sound a K s" "token_effect a r i key s res s'"
    and "\<And>cred tok. provenance a (set (as_issued s')) r i cred tok \<Longrightarrow>
      entry_sound a K (set (as_issued s')) (key @ [CHR 0x00] @ cr_ClientID cred, \<lparr>ct_token = tok, ct_key = key, ct_resource = r\<rparr>)"
  shows "tokens_sound a K s'"
proof -
  have issued: "set (as_issued s) \<subseteq> set (as_issued s')" using assms(2) by (simp add: token_effect_def)
  have old: "entry_sound a K (set (as_issued s')) e" if "e \<in> set (as_cache s)" for e
    using assms(1) that issued entry_sound_mono unfolding tokens_sound_def by blast
  from assms(2) consider "as_cache s' = as_cache s"
    | cred tok where "as_cache s' = AList.update (key @ [CHR 0x00] @ cr_ClientID cred)
        \<lparr>ct_token = tok, ct_key = key, ct_resource = r\<rparr> (as_cache s)" "provenance a (set (as_issued s')) r i cred tok"
    unfolding token_effect_def by blast
  then show ?thesis
  proof cases
    case 1
    then show ?thesis using old by (simp add: tokens_sound_def)
  next
    case 2
    then have "set (as_cache s') \<subseteq> insert (key @ [CHR 0x00] @ cr_ClientID cred, \<lparr>ct_token = tok, ct_key = key, ct_resource = r\<rparr>)
        (set (as_cache s))" using set_update_subset by metis
    then show ?thesis using old assms(3) [OF 2(2)] unfolding tokens_sound_def by blast
  qed
qed

lemma grant_entry_sound:
  assumes "K (CacheKey g) = (g_CanonicalResource g, g_Issuer g)" "provenance a I (g_CanonicalResource g) (g_Issuer g) cred tok"
  shows "entry_sound a K I (CacheKey g @ [CHR 0x00] @ cr_ClientID cred, \<lparr>ct_token = tok, ct_key = CacheKey g, ct_resource = g_CanonicalResource g\<rparr>)"
  using assms CacheKey_no_zero by (auto simp: entry_sound_def)

lemma run_auth_sound:
  assumes "tokens_sound a K s" "keys_known K G" "op_grants op \<subseteq> G"
  shows "tokens_sound a K (run_auth a op s)"
proof (cases op)
  case (DoToken g)
  obtain res s' where t: "Token a g s = (res, s')" by force
  show ?thesis
  proof (cases "g_Issuer g = []")
    case False
    then have e: "token_effect a (g_CanonicalResource g) (g_Issuer g) (CacheKey g) s res s'"
      using t token_for_effect by (simp add: Token_def)
    have "K (CacheKey g) = (g_CanonicalResource g, g_Issuer g)" using assms(2,3) DoToken by (simp add: keys_known_def)
    then have "tokens_sound a K s'" using token_effect_sound [OF assms(1) e] grant_entry_sound by blast
    then show ?thesis using DoToken t by simp
  qed (use DoToken t assms(1) in \<open>simp add: Token_def ok_def\<close>)
next
  case (DoDiscovery r)
  obtain res s' where t: "DiscoveryToken a r s = (res, s')" by force
  then have "tokens_sound a K s'"
    unfolding DiscoveryToken_def
  proof (cases rule: seq_cases)
    case (failed e)
    then show ?thesis using growsD [OF grows_basic(5)] tokens_sound_mono [OF assms(1)] by (metis order_refl)
  next
    case (went issuer s1)
    have s1: "tokens_sound a K s1"
      using growsD [OF grows_basic(5) went(1)] tokens_sound_mono [OF assms(1)] by (metis order_refl)
    show ?thesis
    proof (cases "issuer = []")
      case False
      obtain res2 s2 where t2: "token_for a r issuer (discovery_key r issuer) s1 = (res2, s2)" by force
      have "s' = s2" using went(2) False t2 by (auto simp: seq_def ok_def split: sum.splits)
      then show ?thesis
        using token_effect_sound [OF s1 token_for_effect [OF t2]] by (simp add: entry_sound_def discovery_key_def)
    qed (use went(2) s1 in \<open>simp add: ok_def\<close>)
  qed
  then show ?thesis using DoDiscovery t by simp
next
  case (DoEvictGrant k)
  then show ?thesis using assms(1) by (auto simp: EvictGrant_def evict_def intro!: tokens_sound_mono [OF assms(1)])
next
  case (DoEvictResource r)
  then show ?thesis using assms(1) by (auto simp: EvictResource_def evict_def intro!: tokens_sound_mono [OF assms(1)])
qed

lemma run_auths_sound:
  assumes "tokens_sound a K s" "keys_known K G" "\<Union> (op_grants ` set ops) \<subseteq> G"
  shows "tokens_sound a K (fold (run_auth a) ops s)"
  using assms by (induction ops arbitrary: s) (auto intro: run_auth_sound)

lemma answered_token_provenance:
  assumes "tokens_sound a K s" "token_effect a r i (CacheKey g) s (Inr t) s'" "K (CacheKey g) = (r, i)"
  shows "\<exists>cred tok. t = tk_AccessToken tok \<and> provenance a (set (as_issued s')) r i cred tok"
proof -
  have issued: "set (as_issued s) \<subseteq> set (as_issued s')" using assms(2) by (simp add: token_effect_def)
  from assms(2) consider
      cred :: Credential and c where
        "map_of (as_cache s) (CacheKey g @ [CHR 0x00] @ cr_ClientID cred) = Some c" "t = tk_AccessToken (ct_token c)"
    | cred tok where "provenance a (set (as_issued s')) r i cred tok" "t = tk_AccessToken tok"
    by (auto simp: token_effect_def)
  then show ?thesis
  proof cases
    case 1
    then have "entry_sound a K (set (as_issued s)) (CacheKey g @ [CHR 0x00] @ cr_ClientID cred, c)"
      using assms(1) map_of_SomeD unfolding tokens_sound_def by metis
    then obtain cred' where e: "CacheKey g @ [CHR 0x00] @ cr_ClientID cred = ct_key c @ [CHR 0x00] @ cr_ClientID cred'"
      "CHR 0x00 \<notin> set (ct_key c)" "provenance a (set (as_issued s)) (fst (K (ct_key c))) (snd (K (ct_key c))) cred' (ct_token c)"
      using CacheKey_not_discovery [of g "[CHR 0x00] @ cr_ClientID cred"] unfolding entry_sound_def by blast
    have "ct_key c = CacheKey g" using split_at_zero [OF e(1) CacheKey_no_zero e(2)] by simp
    then have "provenance a (set (as_issued s)) r i cred' (ct_token c)" using e(3) assms(3) by simp
    then show ?thesis using 1(2) provenance_mono [OF _ issued] by blast
  next
    case 2
    then show ?thesis by blast
  qed
qed

section \<open>Properties\<close>

text \<open>
  C22. A token stays with its grant.  Along any history of token requests, discoveries and evictions of a
  replica that starts with an empty cache, whatever the authorization servers and the network answer,
  a token answered for a call under a grant comes from the credential reviewed for exactly the grant's
  resource and issuer, was issued to a request that names that resource, that client and its scopes,
  and grants no scope beyond them; it is answered only while the resource's metadata names the issuer.
  (The cache keys of the grants involved must not collide.)
\<close>
theorem token_stays_with_grant:
  assumes "keys_known K G" "\<Union> (op_grants ` set ops) \<subseteq> G" "g \<in> G" "g_Issuer g \<noteq> []"
    and "Token a g (fold (run_auth a) ops (empty_authority n)) = (Inr t, s')"
  shows "\<exists>cred tok servers s1. t = tk_AccessToken tok
    \<and> provenance a (set (as_issued s')) (g_CanonicalResource g) (g_Issuer g) cred tok
    \<and> on_net (ProtectedResource a (g_CanonicalResource g)) (fold (run_auth a) ops (empty_authority n)) = (Inr servers, s1)
    \<and> g_Issuer g \<in> set servers"
proof -
  let ?s = "fold (run_auth a) ops (empty_authority n)"
  let ?r = "g_CanonicalResource g" and ?i = "g_Issuer g"
  have "tokens_sound a K (empty_authority n)" by (simp add: tokens_sound_def empty_authority_def)
  then have sound: "tokens_sound a K ?s" by (rule run_auths_sound [OF _ assms(1,2)])
  have tf: "token_for a ?r ?i (CacheKey g) ?s = (Inr t, s')" using assms(4,5) by (simp add: Token_def)
  then obtain servers s1 where sv: "on_net (ProtectedResource a ?r) ?s = (Inr servers, s1)" "?i \<in> set servers"
    by (auto simp: token_for_def seq_Inr)
  have K: "K (CacheKey g) = (?r, ?i)" using assms(1,3) by (simp add: keys_known_def)
  have "\<exists>cred tok. t = tk_AccessToken tok \<and> provenance a (set (as_issued s')) ?r ?i cred tok"
    using answered_token_provenance [OF sound token_for_effect [OF tf]] K by blast
  then show ?thesis using sv by blast
qed

section \<open>A concrete authority\<close>

definition sample_credential :: Credential where
  "sample_credential = \<lparr>cr_Resource = ''https://mcp.example/x'', cr_Issuer = ''https://mcp.example'', cr_ClientID = ''mcp'',
     cr_ClientSecretFile = ''/secret'', cr_Scopes = [''tools'']\<rparr>"

definition sample_metadata :: bytes where
  "sample_metadata = concat [''{'', [CHR 0x22], ''resource'', [CHR 0x22], '':'', [CHR 0x22], ''https://mcp.example/x'', [CHR 0x22],
     '','', [CHR 0x22], ''authorization_servers'', [CHR 0x22], '':['', [CHR 0x22], ''https://mcp.example'', [CHR 0x22], '']}'']"

definition sample_access :: oauth2_Token where
  "sample_access = \<lparr>tk_AccessToken = ''t'', tk_Expiry = 3600 * second, tk_Scope = ScopeText ''tools''\<rparr>"

definition sample_authority :: Authority where
  "sample_authority =
     \<lparr>au_guard = \<lparr>gd_Policy = \<lparr>np_AllowedHosts = [''mcp.example''], np_PrivateHosts = []\<rparr>,
                  gd_Resolver = (\<lambda>_ _. Inr [V4 0x08080808]), gd_Dial = (\<lambda>_ _ _. Inl (err ErrOther))\<rparr>,
      au_http = (\<lambda>_ _. Inr (200, [], ([sample_metadata], None))), au_maxBody = 65536,
      au_credentials = [sample_credential], au_now = (\<lambda>_. 0), au_metadata = (\<lambda>_ _. Inr (Some (''https://mcp.example/token'', []))),
      au_secret = (\<lambda>_ _. Inr ''secret''), au_token = (\<lambda>_ _. Inr sample_access)\<rparr>"

lemma sample_metadata_decoded:
  "decode_metadata sample_metadata = Some \<lparr>rm_Resource = ''https://mcp.example/x'', rm_AuthorizationServers = [''https://mcp.example'']\<rparr>"
  by code_simp

lemma sample_urls:
  "metadataURLs ''https://mcp.example/x'' = [''https://mcp.example/.well-known/oauth-protected-resource/x'',
     ''https://mcp.example/.well-known/oauth-protected-resource'']"
  by code_simp

definition quiet_net :: net where
  "quiet_net = \<lparr>n_tick = 0, n_log = []\<rparr>"

lemma sample_protected: "fst (ProtectedResource sample_authority ''https://mcp.example/x'' quiet_net) = Inr [''https://mcp.example'']"
  by code_simp

lemma sample_endpoint: "fst (check_urls (au_guard sample_authority) [''https://mcp.example/token''] \<lparr>n_tick = k, n_log = log\<rparr>) = Inr ()"
proof -
  have "url_Parse ''https://mcp.example/token'' = Some (zero_url\<lparr>u_Scheme := ''https'', u_Host := ''mcp.example'', u_Path := ''/token''\<rparr>)"
    "CheckHost \<lparr>np_AllowedHosts = [''mcp.example''], np_PrivateHosts = []\<rparr> ''mcp.example'' = Inr False"
    "Hostname (zero_url\<lparr>u_Scheme := ''https'', u_Host := ''mcp.example'', u_Path := ''/token''\<rparr>) = ''mcp.example''"
    "ParseAddr ''mcp.example'' = None" "check_addrs [V4 0x08080808] False = Inr ()"
    by code_simp+
  then show ?thesis
    by (simp add: checkURL_def sample_authority_def resolve_checked_def seq_def act_defs net_ask_def zero_url_def)
qed

definition protected_grant :: Grant where
  "protected_grant = sample_grant\<lparr>g_CanonicalResource := ''https://mcp.example/x'', g_Issuer := ''https://mcp.example''\<rparr>"

lemma sample_scopes: "withinScopes sample_access [''tools''] = Inr ()"
  by code_simp

lemma sample_authority_sel:
  "au_credentials sample_authority = [sample_credential]"
  "au_metadata sample_authority k i = Inr (Some (''https://mcp.example/token'', []))"
  "au_secret sample_authority k f = Inr ''secret''" "au_token sample_authority k cc = Inr sample_access"
  by (simp_all add: sample_authority_def)

lemma sample_credential_for:
  "credential_for sample_authority ''https://mcp.example/x'' ''https://mcp.example'' = Some sample_credential"
  by (simp add: credential_for_def sample_authority_sel) (simp add: sample_credential_def)

lemma sample_token_answered:
  "\<exists>s'. Token sample_authority protected_grant (fold (run_auth sample_authority) [] (empty_authority quiet_net)) = (Inr ''t'', s')"
proof -
  obtain n1 where p: "ProtectedResource sample_authority ''https://mcp.example/x'' quiet_net = (Inr [''https://mcp.example''], n1)"
    using sample_protected by (metis prod.collapse)
  let ?n = "n1\<lparr>n_tick := Suc (n_tick n1)\<rparr>"
  obtain n2 where c: "check_urls (au_guard sample_authority) [''https://mcp.example/token''] ?n = (Inr (), n2)"
    using sample_endpoint [of "n_tick ?n" "n_log ?n"] by (cases ?n) (metis net.select_convs prod.collapse)
  show ?thesis
    using p c sample_scopes
    by (simp add: Token_def protected_grant_def token_for_def credential_token_def cached_token_def request_token_def
        put_token_def seq_def act_defs on_net_def net_ask_def sample_credential_for empty_authority_def Let_def
        sample_authority_sel del: check_urls.simps) (simp add: sample_credential_def sample_access_def seq_def put_token_def ok_def)
qed

theorem token_stays_with_grant_witness:
  "\<exists>cred tok. ''t'' = tk_AccessToken tok \<and> withinScopes tok (cr_Scopes cred) = Inr ()
     \<and> credential_for sample_authority ''https://mcp.example/x'' ''https://mcp.example'' = Some cred"
proof -
  obtain s' where t: "Token sample_authority protected_grant (fold (run_auth sample_authority) [] (empty_authority quiet_net)) = (Inr ''t'', s')"
    using sample_token_answered by blast
  let ?K = "\<lambda>_. (''https://mcp.example/x'', ''https://mcp.example'')"
  have "keys_known ?K {protected_grant}" "g_Issuer protected_grant \<noteq> []"
    by (simp_all add: keys_known_def protected_grant_def)
  from token_stays_with_grant [OF this(1) _ _ this(2) t] show ?thesis
    by (auto simp: provenance_def protected_grant_def)
qed

end
