(* ===== verification/App_Projection.thy ===== *)
theory App_Projection
  imports Upstream_Auth Grant_Barrier
begin

text \<open>
  The credential projection of \<open>internal/application/projection.go\<close>: a replica consumes the committed
  catalog and grant events and evicts the access tokens of what they withdraw.  The token cache is an
  argument (a \<open>TokenCache\<close> over some state), which the authority of \<open>Upstream_Auth\<close> provides.  The payload
  of a received envelope, a raw message, is represented by the value it holds, \<open>None\<close> when there is none.
\<close>

section \<open>The revision gate\<close>

record RevisionGate =
  rg_last :: "(string \<times> u64) list"
  rg_limit :: int

definition NewRevisionGate :: "int \<Rightarrow> RevisionGate" where
  "NewRevisionGate limit = \<lparr>rg_last = [], rg_limit = limit\<rparr>"

definition gate_key :: "string \<Rightarrow> string \<Rightarrow> string" where
  "gate_key aggregateType aggregateID = aggregateType @ [CHR 0x00] @ aggregateID"

definition Admit :: "RevisionGate \<Rightarrow> string \<Rightarrow> string \<Rightarrow> u64 \<Rightarrow> bool \<times> RevisionGate" where
  "Admit g aggregateType aggregateID revision =
     (let key = gate_key aggregateType aggregateID in
      if (case map_of (rg_last g) key of Some seen \<Rightarrow> revision \<le> seen | None \<Rightarrow> False) then (False, g)
      else
        (let kept = (if rg_limit g \<le> int (length (rg_last g)) then [] else rg_last g) in
         (True, g\<lparr>rg_last := AList.update key revision kept\<rparr>)))"

section \<open>The projection\<close>

record 's TokenCache =
  tc_EvictGrant :: "string \<Rightarrow> 's \<Rightarrow> nat \<times> 's"
  tc_EvictResource :: "string \<Rightarrow> 's \<Rightarrow> nat \<times> 's"

definition ProjectionSubjects :: "string list" where
  "ProjectionSubjects = [SubjectCatalogReviewed, SubjectGrantRevoked]"

definition maxProjectionEnvelope :: nat where
  "maxProjectionEnvelope = 65536"

record ReceivedEnvelope =
  re_EventID :: string
  re_EventType :: string
  re_SchemaVersion :: int
  re_Producer :: string
  re_Subject :: string
  re_TenantID :: string
  re_AggregateType :: string
  re_AggregateID :: string
  re_AggregateRevision :: string
  re_OccurredAt :: string
  re_CorrelationID :: string
  re_Payload :: "json option"

definition envelope_fields :: "ReceivedEnvelope json_field list" where
  "envelope_fields =
     [(''eventId'', fld_str (\<lambda>v. re_EventID_update (\<lambda>_. v))),
      (''eventType'', fld_str (\<lambda>v. re_EventType_update (\<lambda>_. v))),
      (''schemaVersion'', fld_int (\<lambda>v. re_SchemaVersion_update (\<lambda>_. v))),
      (''producer'', fld_str (\<lambda>v. re_Producer_update (\<lambda>_. v))),
      (''subject'', fld_str (\<lambda>v. re_Subject_update (\<lambda>_. v))),
      (''tenantId'', fld_str (\<lambda>v. re_TenantID_update (\<lambda>_. v))),
      (''aggregateType'', fld_str (\<lambda>v. re_AggregateType_update (\<lambda>_. v))),
      (''aggregateId'', fld_str (\<lambda>v. re_AggregateID_update (\<lambda>_. v))),
      (''aggregateRevision'', fld_str (\<lambda>v. re_AggregateRevision_update (\<lambda>_. v))),
      (''occurredAt'', fld_str (\<lambda>v. re_OccurredAt_update (\<lambda>_. v))),
      (''correlationId'', fld_str (\<lambda>v. re_CorrelationID_update (\<lambda>_. v))),
      (''payload'', (\<lambda>v x. Some (x\<lparr>re_Payload := Some v\<rparr>)))]"

definition zero_envelope :: ReceivedEnvelope where
  "zero_envelope =
     \<lparr>re_EventID = [], re_EventType = [], re_SchemaVersion = 0, re_Producer = [], re_Subject = [], re_TenantID = [],
      re_AggregateType = [], re_AggregateID = [], re_AggregateRevision = [], re_OccurredAt = [],
      re_CorrelationID = [], re_Payload = None\<rparr>"

definition decode_envelope :: "bytes \<Rightarrow> ReceivedEnvelope option" where
  "decode_envelope raw = Option.bind (json_parse raw) (decode_struct False envelope_fields zero_envelope)"

record projectedPayload =
  pp_Kind :: string
  pp_ServerID :: string
  pp_GrantID :: string
  pp_Revision :: string
  pp_State :: string

definition decode_payload :: "json option \<Rightarrow> projectedPayload option" where
  "decode_payload raw =
     Option.bind raw (decode_struct False
       [(''kind'', fld_str (\<lambda>v. pp_Kind_update (\<lambda>_. v))),
        (''serverId'', fld_str (\<lambda>v. pp_ServerID_update (\<lambda>_. v))),
        (''grantId'', fld_str (\<lambda>v. pp_GrantID_update (\<lambda>_. v))),
        (''revision'', fld_str (\<lambda>v. pp_Revision_update (\<lambda>_. v))),
        (''state'', fld_str (\<lambda>v. pp_State_update (\<lambda>_. v)))]
       \<lparr>pp_Kind = [], pp_ServerID = [], pp_GrantID = [], pp_Revision = [], pp_State = []\<rparr>)"

text \<open>The projection's own state: the gate and the cache.\<close>

type_synonym 's projection = "RevisionGate \<times> 's"

text \<open>What an admitted catalog event does: nothing unless the descriptor was disabled or rejected, else the
  tokens of the server's resource go, when the server is the event tenant's.\<close>

definition withdraw_server ::
  "env \<Rightarrow> 's TokenCache \<Rightarrow> ReceivedEnvelope \<Rightarrow> projectedPayload \<Rightarrow> 's projection \<Rightarrow> ((err + bool) \<times> 's projection) act" where
  "withdraw_server E tc ev pl p =
     (if pp_State pl \<noteq> ''disabled'' \<and> pp_State pl \<noteq> ''rejected'' then ok (Inr True, p)
      else
        recover (pool_query E (GetServer (pp_ServerID pl))) (\<lambda>r.
        ok (case r of
              Inl e \<Rightarrow> (if errors_Is e ErrNoRows then (Inr True, p) else (Inl e, p))
            | Inr s \<Rightarrow>
               if sv_TenantID s \<noteq> re_TenantID ev then (Inl (err ErrOther), p)
               else (Inr True, (fst p, snd (tc_EvictResource tc (sv_CanonicalResource s) (snd p)))))))"

definition withdraw_grant ::
  "env \<Rightarrow> 's TokenCache \<Rightarrow> ReceivedEnvelope \<Rightarrow> projectedPayload \<Rightarrow> 's projection \<Rightarrow> ((err + bool) \<times> 's projection) act" where
  "withdraw_grant E tc ev pl p =
     recover (pool_query E (GetGrant (pp_GrantID pl))) (\<lambda>r.
     ok (case r of
           Inl e \<Rightarrow> (if errors_Is e ErrNoRows then (Inr True, p) else (Inl e, p))
         | Inr row \<Rightarrow>
            (let g = GrantFromRow row in
             if g_TenantID g \<noteq> re_TenantID ev then (Inl (err ErrOther), p)
             else (Inr True, (fst p, snd (tc_EvictGrant tc (CacheKey g) (snd p)))))))"

text \<open>An event bound to its subject and aggregate goes through the gate; a stale one answers false.\<close>

definition gated ::
  "ReceivedEnvelope \<Rightarrow> u64 \<Rightarrow> 's projection \<Rightarrow> ('s projection \<Rightarrow> ((err + bool) \<times> 's projection) act)
     \<Rightarrow> ((err + bool) \<times> 's projection) act" where
  "gated ev n p go =
     (case Admit (fst p) (re_AggregateType ev) (re_AggregateID ev) n of (admitted, gate) \<Rightarrow>
        if \<not> admitted then ok (Inr False, (gate, snd p)) else go (gate, snd p))"

definition Apply :: "env \<Rightarrow> 's TokenCache \<Rightarrow> ReceivedEnvelope \<Rightarrow> 's projection \<Rightarrow> ((err + bool) \<times> 's projection) act" where
  "Apply E tc ev p =
     (if re_SchemaVersion ev \<noteq> 1 \<or> re_Producer ev \<noteq> Producer \<or> re_TenantID ev = [] then ok (Inl (err ErrOther), p)
      else (case decode_payload (re_Payload ev) of
        None \<Rightarrow> ok (Inl (err ErrOther), p)
      | Some pl \<Rightarrow>
         if pp_Kind pl \<noteq> re_EventType ev then ok (Inl (err ErrOther), p)
         else (case ParseUint64 (re_AggregateRevision ev) of
           None \<Rightarrow> ok (Inl (err ErrOther), p)
         | Some n \<Rightarrow>
            if re_EventType ev = ''mcp.catalog-reviewed'' then
              (if re_Subject ev \<noteq> SubjectCatalogReviewed \<or> re_AggregateType ev \<noteq> AggregateDescriptor
                  \<or> pp_ServerID pl \<noteq> re_AggregateID ev then ok (Inl (err ErrOther), p)
               else gated ev n p (withdraw_server E tc ev pl))
            else if re_EventType ev = ''mcp.grant-revoked'' then
              (if re_Subject ev \<noteq> SubjectGrantRevoked \<or> re_AggregateType ev \<noteq> AggregateGrant
                  \<or> pp_GrantID pl \<noteq> re_AggregateID ev then ok (Inl (err ErrOther), p)
               else gated ev n p (withdraw_grant E tc ev pl))
            else ok (Inl (err ErrOther), p))))"

text \<open>\<open>Handle\<close>: the outcome that is counted.\<close>

datatype projection_outcome = Rejected | Stale | Applied

definition Handle :: "env \<Rightarrow> 's TokenCache \<Rightarrow> bytes \<Rightarrow> 's projection \<Rightarrow> (projection_outcome \<times> 's projection) act" where
  "Handle E tc raw p =
     (if maxProjectionEnvelope < length raw then ok (Rejected, p)
      else (case decode_envelope raw of
        None \<Rightarrow> ok (Rejected, p)
      | Some ev \<Rightarrow>
         seq (Apply E tc ev p) (\<lambda>(r, p').
         ok (case r of Inl _ \<Rightarrow> Rejected | Inr False \<Rightarrow> Stale | Inr True \<Rightarrow> Applied, p'))))"

section \<open>The gate against its specification\<close>

record gate_event =
  ge_Type :: string
  ge_ID :: string
  ge_Revision :: u64

definition ge_Key :: "gate_event \<Rightarrow> string" where
  "ge_Key e = gate_key (ge_Type e) (ge_ID e)"

definition admit_event :: "RevisionGate \<Rightarrow> gate_event \<Rightarrow> bool \<times> RevisionGate" where
  "admit_event g e = Admit g (ge_Type e) (ge_ID e) (ge_Revision e)"

fun admissions :: "RevisionGate \<Rightarrow> gate_event list \<Rightarrow> bool list" where
  "admissions g [] = []"
| "admissions g (e # es) = (case admit_event g e of (b, g') \<Rightarrow> b # admissions g' es)"

text \<open>An event advances its aggregate when its revision exceeds every earlier one.\<close>

definition advances :: "gate_event list \<Rightarrow> gate_event \<Rightarrow> bool" where
  "advances earlier e \<longleftrightarrow> list_all (\<lambda>e'. ge_Key e' = ge_Key e \<longrightarrow> ge_Revision e' < ge_Revision e) earlier"

fun advancing :: "gate_event list \<Rightarrow> gate_event list \<Rightarrow> bool list" where
  "advancing earlier [] = []"
| "advancing earlier (e # es) = advances earlier e # advancing (earlier @ [e]) es"

text \<open>What the gate remembers of the events so far: the greatest revision of each aggregate.\<close>

definition highest :: "gate_event list \<Rightarrow> string \<Rightarrow> u64 option" where
  "highest earlier k =
     fold (\<lambda>e m. if ge_Key e = k \<and> (case m of None \<Rightarrow> True | Some n \<Rightarrow> n < ge_Revision e) then Some (ge_Revision e) else m) earlier None"

definition remembers :: "RevisionGate \<Rightarrow> gate_event list \<Rightarrow> bool" where
  "remembers g earlier \<longleftrightarrow> distinct (map fst (rg_last g)) \<and> map_of (rg_last g) = highest earlier"

lemma highest_Nil [simp]: "highest [] k = None"
  by (simp add: highest_def)

lemma highest_snoc:
  "highest (earlier @ [e]) k =
     (if ge_Key e = k \<and> (case highest earlier k of None \<Rightarrow> True | Some n \<Rightarrow> n < ge_Revision e) then Some (ge_Revision e)
      else highest earlier k)"
  by (simp add: highest_def)

lemma advances_snoc:
  "advances (earlier @ [e']) e \<longleftrightarrow> advances earlier e \<and> (ge_Key e' = ge_Key e \<longrightarrow> ge_Revision e' < ge_Revision e)"
  by (simp add: advances_def)

lemma advances_highest:
  "advances earlier e \<longleftrightarrow> (case highest earlier (ge_Key e) of None \<Rightarrow> True | Some n \<Rightarrow> n < ge_Revision e)"
proof (induction earlier rule: rev_induct)
  case (snoc e' earlier)
  show ?case
  proof (cases "ge_Key e' = ge_Key e")
    case True
    then show ?thesis
      using snoc by (cases "highest earlier (ge_Key e)") (auto simp: highest_snoc advances_snoc not_less dest: order.strict_trans)
  next
    case False
    then show ?thesis using snoc by (simp add: highest_snoc advances_snoc)
  qed
qed (simp add: advances_def)

lemma highest_keys: "{k. highest earlier k \<noteq> None} = ge_Key ` set earlier"
proof (induction earlier rule: rev_induct)
  case (snoc e earlier)
  have "{k. highest (earlier @ [e]) k \<noteq> None} = insert (ge_Key e) {k. highest earlier k \<noteq> None}"
    by (auto simp: highest_snoc split: if_splits option.splits)
  then show ?case using snoc by simp
qed simp

lemma admit_event_remembering:
  assumes "remembers g earlier" "int (length (rg_last g)) < rg_limit g"
  shows "admit_event g e =
    (if advances earlier e then (True, g\<lparr>rg_last := AList.update (ge_Key e) (ge_Revision e) (rg_last g)\<rparr>) else (False, g))"
proof -
  have "(case map_of (rg_last g) (ge_Key e) of Some n \<Rightarrow> ge_Revision e \<le> n | None \<Rightarrow> False) \<longleftrightarrow> \<not> advances earlier e"
    using assms(1) by (auto simp: remembers_def advances_highest not_less split: option.split)
  then show ?thesis using assms(2) by (simp add: admit_event_def Admit_def Let_def ge_Key_def [symmetric])
qed

lemma remembers_next:
  assumes "remembers g earlier" "int (length (rg_last g)) < rg_limit g"
  shows "remembers (snd (admit_event g e)) (earlier @ [e])"
proof (cases "advances earlier e")
  case True
  then have "highest (earlier @ [e]) = (highest earlier)(ge_Key e \<mapsto> ge_Revision e)"
    by (auto simp: fun_eq_iff highest_snoc advances_highest)
  then show ?thesis
    using assms True by (simp add: admit_event_remembering remembers_def AList.update_conv' AList.distinct_update)
next
  case False
  then have "highest (earlier @ [e]) = highest earlier"
    by (auto simp: fun_eq_iff highest_snoc advances_highest)
  then show ?thesis using assms False by (simp add: admit_event_remembering remembers_def)
qed

lemma remembers_size:
  assumes "remembers g earlier" "set earlier \<subseteq> set es" "int (card (ge_Key ` set es)) < rg_limit g"
  shows "int (length (rg_last g)) < rg_limit g"
proof -
  have "fst ` set (rg_last g) = ge_Key ` set earlier"
    using assms(1) highest_keys [of earlier] by (simp add: remembers_def dom_map_of_conv_image_fst [symmetric] dom_def)
  moreover have "length (rg_last g) = card (fst ` set (rg_last g))"
    using assms(1) distinct_card [of "map fst (rg_last g)"] by (simp add: remembers_def)
  moreover have "card (ge_Key ` set earlier) \<le> card (ge_Key ` set es)"
    using assms(2) by (intro card_mono image_mono) simp_all
  ultimately have "length (rg_last g) \<le> card (ge_Key ` set es)" by simp
  then show ?thesis using assms(3) by linarith
qed

lemma admit_event_limit: "rg_limit (snd (admit_event g e)) = rg_limit g"
  by (simp add: admit_event_def Admit_def Let_def)

lemma admissions_from:
  assumes "remembers g earlier" "int (card (ge_Key ` set (earlier @ es))) < rg_limit g"
  shows "admissions g es = advancing earlier es"
  using assms
proof (induction es arbitrary: g earlier)
  case (Cons e es)
  have lim: "int (length (rg_last g)) < rg_limit g"
    by (rule remembers_size [OF Cons.prems(1) _ Cons.prems(2)]) auto
  have b: "fst (admit_event g e) = advances earlier e"
    using admit_event_remembering [OF Cons.prems(1) lim] by simp
  have "admissions (snd (admit_event g e)) es = advancing (earlier @ [e]) es"
    using Cons.IH [OF remembers_next [OF Cons.prems(1) lim]] Cons.prems(2) by (simp add: admit_event_limit)
  then show ?case using b by (simp add: case_prod_unfold)
qed simp

section \<open>Evictions\<close>

text \<open>The tokens an event withdraws, by the owner's records: those of the grant or the server it names, when
  that is the event tenant's.\<close>

definition withdrawn_by :: "ReceivedEnvelope \<Rightarrow> db \<Rightarrow> cachedToken \<Rightarrow> bool" where
  "withdrawn_by ev d c \<longleftrightarrow>
     (if re_EventType ev = ''mcp.grant-revoked'' then
        (case row_of gw_GrantID (db_grants d) (re_AggregateID ev) of
           None \<Rightarrow> False
         | Some row \<Rightarrow> gw_TenantID row = re_TenantID ev \<and> ct_key c = CacheKey (GrantFromRow row))
      else
        (case (decode_payload (re_Payload ev), row_of sv_ServerID (db_servers d) (re_AggregateID ev)) of
           (Some pl, Some s) \<Rightarrow> pp_State pl \<in> {''disabled'', ''rejected''} \<and> sv_TenantID s = re_TenantID ev
              \<and> ct_resource c = sv_CanonicalResource s
         | _ \<Rightarrow> False))"

lemma pool_row:
  assumes "pool_query E (read (\<lambda>d. one_row (filter (\<lambda>x. key x = k) (rows d)))) w = (r, w')"
  shows "(\<exists>x. r = Inr x \<and> row_of key (rows (w_db w')) k = Some x)
    \<or> (\<exists>e. r = Inl e \<and> (errors_Is e ErrNoRows \<longrightarrow> row_of key (rows (w_db w')) k = None))"
proof -
  have none: "row_of key xs k = None" if "one_row (filter (\<lambda>x. key x = k) xs) = Inl e" for xs e
    using that one_row_row_of [of key k xs] by (cases "row_of key xs k") auto
  show ?thesis
  proof (cases "one_row (filter (\<lambda>x. key x = k) (rows (w_db (interfere E w))))")
    case (Inl e)
    show ?thesis using assms none [OF Inl] by (auto simp: pool_query_def query_def read_def Inl split: if_splits)
  next
    case (Inr x)
    moreover have "row_of key (rows (w_db (interfere E w))) k = Some x" using Inr by (simp add: one_row_row_of)
    ultimately show ?thesis using assms by (auto simp: pool_query_def query_def read_def split: if_splits)
  qed
qed

context token_cache
begin

text \<open>The projection over any cache that keeps the interface: what it drops is what the event withdraws.\<close>

lemma grant_withdrawn:
  assumes "withdraw_grant E \<lparr>tc_EvictGrant = evict_grant, tc_EvictResource = evict_resource\<rparr> ev pl p w = (Inr (r, p'), w')"
    and "re_EventType ev = ''mcp.grant-revoked''" "pp_GrantID pl = re_AggregateID ev"
  shows "entries (snd p') = (if r = Inr True then filter (\<lambda>e. \<not> withdrawn_by ev (w_db w') (snd e)) (entries (snd p)) else entries (snd p))"
proof -
  obtain q w1 where q: "pool_query E (GetGrant (pp_GrantID pl)) w = (q, w1)" by force
  have row: "(\<exists>x. q = Inr x \<and> row_of gw_GrantID (db_grants (w_db w1)) (re_AggregateID ev) = Some x)
    \<or> (\<exists>e. q = Inl e \<and> (errors_Is e ErrNoRows \<longrightarrow> row_of gw_GrantID (db_grants (w_db w1)) (re_AggregateID ev) = None))"
    using pool_row [OF q [unfolded GetGrant_def assms(3)]] .
  have "w' = w1" using assms(1) q by (auto simp: withdraw_grant_def recover_def ok_def)
  then show ?thesis
    using row assms q
    by (auto simp: withdraw_grant_def recover_def ok_def Let_def withdrawn_by_def grant_entries GrantFromRow_def split: if_splits)
qed

lemma server_withdrawn:
  assumes "withdraw_server E \<lparr>tc_EvictGrant = evict_grant, tc_EvictResource = evict_resource\<rparr> ev pl p w = (Inr (r, p'), w')"
    and "re_EventType ev = ''mcp.catalog-reviewed''" "pp_ServerID pl = re_AggregateID ev" "decode_payload (re_Payload ev) = Some pl"
  shows "entries (snd p') = (if r = Inr True then filter (\<lambda>e. \<not> withdrawn_by ev (w_db w') (snd e)) (entries (snd p)) else entries (snd p))"
proof (cases "pp_State pl \<noteq> ''disabled'' \<and> pp_State pl \<noteq> ''rejected''")
  case True
  then have "\<not> withdrawn_by ev d c" for d c using assms(2,4) by (auto simp: withdrawn_by_def split: option.split)
  then show ?thesis using assms(1) True by (auto simp: withdraw_server_def ok_def)
next
  case False
  obtain q w1 where q: "pool_query E (GetServer (pp_ServerID pl)) w = (q, w1)" by force
  have row: "(\<exists>x. q = Inr x \<and> row_of sv_ServerID (db_servers (w_db w1)) (re_AggregateID ev) = Some x)
    \<or> (\<exists>e. q = Inl e \<and> (errors_Is e ErrNoRows \<longrightarrow> row_of sv_ServerID (db_servers (w_db w1)) (re_AggregateID ev) = None))"
    using pool_row [OF q [unfolded GetServer_def assms(3)]] .
  have "w' = w1" using assms(1) q False by (auto simp: withdraw_server_def recover_def ok_def)
  then show ?thesis
    using row assms q False
    by (auto simp: withdraw_server_def recover_def ok_def withdrawn_by_def resource_entries split: if_splits)
qed

lemma gated_withdrawn:
  assumes "gated ev n p go w = (Inr (r, p'), w')"
    and "\<And>q. snd q = snd p \<Longrightarrow> go q w = (Inr (r, p'), w') \<Longrightarrow> entries (snd p') =
      (if r = Inr True then filter (\<lambda>e. \<not> withdrawn_by ev (w_db w') (snd e)) (entries (snd p)) else entries (snd p))"
  shows "entries (snd p') =
    (if r = Inr True then filter (\<lambda>e. \<not> withdrawn_by ev (w_db w') (snd e)) (entries (snd p)) else entries (snd p))"
proof -
  obtain admitted gate where a: "Admit (fst p) (re_AggregateType ev) (re_AggregateID ev) n = (admitted, gate)" by force
  show ?thesis
  proof (cases admitted)
    case True
    then show ?thesis using assms(2) [of "(gate, snd p)"] assms(1) a by (simp add: gated_def)
  next
    case False
    then show ?thesis using assms(1) a by (auto simp: gated_def ok_def)
  qed
qed

lemma apply_withdrawn:
  assumes "Apply E \<lparr>tc_EvictGrant = evict_grant, tc_EvictResource = evict_resource\<rparr> ev p w = (Inr (r, p'), w')"
  shows "entries (snd p') =
    (if r = Inr True then filter (\<lambda>e. \<not> withdrawn_by ev (w_db w') (snd e)) (entries (snd p)) else entries (snd p))"
proof -
  let ?tc = "\<lparr>tc_EvictGrant = evict_grant, tc_EvictResource = evict_resource\<rparr>"
  consider "(r, p') = (Inl (err ErrOther), p)"
    | pl n where "decode_payload (re_Payload ev) = Some pl" "re_EventType ev = ''mcp.catalog-reviewed''"
        "pp_ServerID pl = re_AggregateID ev" "gated ev n p (withdraw_server E ?tc ev pl) w = (Inr (r, p'), w')"
    | pl n where "re_EventType ev = ''mcp.grant-revoked''"
        "pp_GrantID pl = re_AggregateID ev" "gated ev n p (withdraw_grant E ?tc ev pl) w = (Inr (r, p'), w')"
    using assms unfolding Apply_def by (simp add: ok_def split: if_splits option.splits; blast)
  then show ?thesis
  proof cases
    case 1
    then show ?thesis by simp
  next
    case (2 pl n)
    show ?thesis
    proof (rule gated_withdrawn [OF 2(4)])
      fix q assume "snd q = snd p" "withdraw_server E ?tc ev pl q w = (Inr (r, p'), w')"
      with server_withdrawn [OF this(2) 2(2,3,1)] show "entries (snd p') =
        (if r = Inr True then filter (\<lambda>e. \<not> withdrawn_by ev (w_db w') (snd e)) (entries (snd p)) else entries (snd p))"
        by simp
    qed
  next
    case (3 pl n)
    show ?thesis
    proof (rule gated_withdrawn [OF 3(3)])
      fix q assume "snd q = snd p" "withdraw_grant E ?tc ev pl q w = (Inr (r, p'), w')"
      with grant_withdrawn [OF this(2) 3(1,2)] show "entries (snd p') =
        (if r = Inr True then filter (\<lambda>e. \<not> withdrawn_by ev (w_db w') (snd e)) (entries (snd p)) else entries (snd p))"
        by simp
    qed
  qed
qed

end

section \<open>Properties of the projection\<close>

definition sample_events :: "gate_event list" where
  "sample_events =
     [\<lparr>ge_Type = ''grant'', ge_ID = ''g'', ge_Revision = 2\<rparr>, \<lparr>ge_Type = ''grant'', ge_ID = ''g'', ge_Revision = 1\<rparr>,
      \<lparr>ge_Type = ''grant'', ge_ID = ''h'', ge_Revision = 1\<rparr>, \<lparr>ge_Type = ''grant'', ge_ID = ''g'', ge_Revision = 3\<rparr>]"

text \<open>C24. The revision gate admits exactly the advancing events: over any sequence of events on fewer aggregates
  than its limit, a fresh gate answers true for an event if and only if its revision exceeds every earlier
  revision of the same aggregate, whatever the order of arrival and however often an event is replayed.\<close>
theorem gate_admits_advancing:
  assumes "int (card (ge_Key ` set es)) < limit"
  shows "admissions (NewRevisionGate limit) es = advancing [] es"
  by (rule admissions_from) (use assms in \<open>simp_all add: NewRevisionGate_def remembers_def fun_eq_iff\<close>)

theorem gate_admits_advancing_witness:
  "int (card (ge_Key ` set sample_events)) < 3 \<and> advancing [] sample_events = [True, False, True, True]
    \<and> admissions (NewRevisionGate 3) sample_events = [True, False, True, True]"
proof -
  have card: "int (card (ge_Key ` set sample_events)) < 3"
    by code_simp
  have "advancing [] sample_events = [True, False, True, True]"
    by (simp add: sample_events_def ge_Key_def gate_key_def advances_def)
  then show ?thesis using card gate_admits_advancing [OF card] by simp
qed

text \<open>C23. A replica's token cache follows the committed revocations exactly: when the projection applies an
  event, the cached tokens that remain are the earlier ones, in order, less those of the grant it revokes or of
  the server it disables or rejects (read from the owner's records and only when they are the event
  tenant's); an event that is refused or stale leaves the cache as it was.\<close>
theorem projection_evicts_withdrawn:
  assumes "Apply E \<lparr>tc_EvictGrant = EvictGrant, tc_EvictResource = EvictResource\<rparr> ev (gate, s) w = (Inr (r, (gate', s')), w')"
  shows "as_cache s' = (if r = Inr True then filter (\<lambda>e. \<not> withdrawn_by ev (w_db w') (snd e)) (as_cache s) else as_cache s)"
  using authority_cache.apply_withdrawn [OF assms] by simp

definition revoked_event :: ReceivedEnvelope where
  "revoked_event = zero_envelope\<lparr>re_EventType := ''mcp.grant-revoked'', re_SchemaVersion := 1, re_Producer := Producer,
     re_Subject := SubjectGrantRevoked, re_TenantID := ''ten'', re_AggregateType := AggregateGrant, re_AggregateID := ''g1'',
     re_AggregateRevision := ''7'',
     re_Payload := Some (JObj [(''kind'', JStr ''mcp.grant-revoked''), (''grantId'', JStr ''g1''), (''state'', JStr ''revoked'')])\<rparr>"

definition cached_for :: "string \<Rightarrow> string \<times> cachedToken" where
  "cached_for key = (key, \<lparr>ct_token = sample_access, ct_key = key, ct_resource = []\<rparr>)"

definition two_tokens :: authority where
  "two_tokens = (empty_authority quiet_net)\<lparr>as_cache :=
     [cached_for (CacheKey (GrantFromRow sample_grant_row)), cached_for (CHR ''x'' # CacheKey (GrantFromRow sample_grant_row))]\<rparr>"

lemma revoked_payload:
  "decode_payload (re_Payload revoked_event) =
     Some \<lparr>pp_Kind = ''mcp.grant-revoked'', pp_ServerID = [], pp_GrantID = ''g1'', pp_Revision = [], pp_State = ''revoked''\<rparr>"
  by code_simp

lemma revoked_runs:
  "\<exists>p'. Apply sample_env \<lparr>tc_EvictGrant = EvictGrant, tc_EvictResource = EvictResource\<rparr> revoked_event
     (NewRevisionGate 10, two_tokens) grant_world = (Inr (Inr True, p'), tick (tick grant_world))"
proof -
  have rev: "ParseUint64 ''7'' = Some 7" by code_simp
  show ?thesis
    unfolding Apply_def revoked_payload
    by (simp add: revoked_event_def rev gated_def Admit_def NewRevisionGate_def Let_def withdraw_grant_def recover_def ok_def
        pool_query_def query_def interfere_def sample_env_def GetGrant_def read_def grant_world_def one_row_def
        sample_grant_row_def GrantFromRow_def empty_db_def tick_def)
qed

theorem projection_evicts_withdrawn_witness:
  "\<exists>gate' s'. Apply sample_env \<lparr>tc_EvictGrant = EvictGrant, tc_EvictResource = EvictResource\<rparr> revoked_event
      (NewRevisionGate 10, two_tokens) grant_world = (Inr (Inr True, (gate', s')), tick (tick grant_world))
    \<and> as_cache s' = [cached_for (CHR ''x'' # CacheKey (GrantFromRow sample_grant_row))]"
proof -
  obtain gate' s' where run: "Apply sample_env \<lparr>tc_EvictGrant = EvictGrant, tc_EvictResource = EvictResource\<rparr> revoked_event
      (NewRevisionGate 10, two_tokens) grant_world = (Inr (Inr True, (gate', s')), tick (tick grant_world))"
    using revoked_runs by (metis prod.collapse)
  have row: "row_of gw_GrantID (db_grants (w_db (tick (tick grant_world)))) ''g1'' = Some sample_grant_row" "gw_TenantID sample_grant_row = ''ten''"
    by (simp_all add: grant_world_def row_of_def sample_grant_row_def tick_def)
  show ?thesis
    using run projection_evicts_withdrawn [OF run] row
    by (auto simp: withdrawn_by_def two_tokens_def cached_for_def revoked_event_def)
qed

end
