(* ===== verification/Identity.thy ===== *)
theory Identity
  imports Go_Net Go_Digest "HOL-Library.AList"
begin

text \<open>
  The workload identity of the internal transport, \<open>internal/transport/identity\<close>: SPIFFE identities (\<open>spiffe.go\<close>),
  the method policy and its authorizer (\<open>authz.go\<close>), the identity material and its reloads (\<open>material.go\<close>,
  \<open>reloader.go\<close>) and the tracking of connections by the root that verified them (\<open>credentials.go\<close>).  Certificates
  and PEM are the library's: their parsers are arguments, the TLS handshake answers the chain it verified.  A
  32-byte fingerprint is its hexadecimal text.
\<close>

section \<open>SPIFFE identities\<close>

record Principal =
  pr_TrustDomain :: string
  pr_Namespace :: string
  pr_ServiceAccount :: string

definition Principal_String :: "Principal \<Rightarrow> string" where
  "Principal_String p = ''spiffe://'' @ pr_TrustDomain p @ ''/ns/'' @ pr_Namespace p @ ''/sa/'' @ pr_ServiceAccount p"

record Workload =
  wl_Namespace :: string
  wl_ServiceAccount :: string

text \<open>The patterns \<open>label\<close> and \<open>trustDomain\<close>.\<close>

definition label_char :: "char \<Rightarrow> bool" where
  "label_char c \<longleftrightarrow> c = CHR ''-'' \<or> (CHR ''a'' \<le> c \<and> c \<le> CHR ''z'') \<or> is_digit c"

definition label :: "string \<Rightarrow> bool" where
  "label s \<longleftrightarrow> s \<noteq> [] \<and> length s \<le> 63 \<and> list_all label_char s \<and> hd s \<noteq> CHR ''-'' \<and> last s \<noteq> CHR ''-''"

definition ValidTrustDomain :: "string \<Rightarrow> bool" where
  "ValidTrustDomain s \<longleftrightarrow> list_all label (Split s (CHR ''.''))"

definition ParseSPIFFE :: "URL option \<Rightarrow> err + Principal" where
  "ParseSPIFFE url =
     (case url of
        None \<Rightarrow> Inl (err ErrOther)
      | Some u \<Rightarrow>
         if u_Scheme u \<noteq> ''spiffe'' \<or> u_User u \<or> u_Opaque u \<noteq> [] \<or> u_RawQuery u \<noteq> [] \<or> u_Fragment u \<noteq> [] \<or> Port u \<noteq> []
         then Inl (err ErrOther)
         else if \<not> ValidTrustDomain (u_Host u) then Inl (err ErrOther)
         else (case Split (u_Path u) (CHR ''/'') of
                 [p0, p1, p2, p3, p4] \<Rightarrow>
                   if p0 \<noteq> [] \<or> p1 \<noteq> ''ns'' \<or> p3 \<noteq> ''sa'' \<or> \<not> label p2 \<or> \<not> label p4 then Inl (err ErrOther)
                   else Inr \<lparr>pr_TrustDomain = u_Host u, pr_Namespace = p2, pr_ServiceAccount = p4\<rparr>
               | _ \<Rightarrow> Inl (err ErrOther)))"

text \<open>What is used of a parsed certificate.\<close>

record Certificate =
  xc_Raw :: bytes
  xc_URIs :: "URL list"
  xc_NotBefore :: time
  xc_NotAfter :: time
  xc_IsCA :: bool

definition PeerPrincipal :: "Certificate option \<Rightarrow> err + Principal" where
  "PeerPrincipal leaf =
     (case leaf of
        None \<Rightarrow> Inl (err ErrOther)
      | Some c \<Rightarrow> if length (xc_URIs c) \<noteq> 1 then Inl (err ErrOther) else ParseSPIFFE (Some (hd (xc_URIs c))))"

section \<open>The method policy\<close>

definition AnyAuthenticated :: Workload where
  "AnyAuthenticated = \<lparr>wl_Namespace = ''*'', wl_ServiceAccount = ''*''\<rparr>"

type_synonym Policy = "(string \<times> Workload list) list"

record Authorizer_identity =
  ai_trustDomain :: string
  ai_policy :: Policy

definition valid_entry :: "string \<times> Workload list \<Rightarrow> bool" where
  "valid_entry e = (case e of (method, allowed) \<Rightarrow>
     HasPrefix method ''/'' \<and> length (filter (\<lambda>c. c = CHR ''/'') method) = 2 \<and> allowed \<noteq> []
     \<and> list_all (\<lambda>w. w = AnyAuthenticated \<or> (label (wl_Namespace w) \<and> label (wl_ServiceAccount w))) allowed)"

definition NewAuthorizer_identity :: "string \<Rightarrow> Policy \<Rightarrow> err + Authorizer_identity" where
  "NewAuthorizer_identity domain policy =
     (if \<not> ValidTrustDomain domain then Inl (err ErrOther)
      else if \<not> list_all valid_entry policy then Inl (err ErrOther)
      else Inr \<lparr>ai_trustDomain = domain, ai_policy = policy\<rparr>)"

text \<open>\<open>Check\<close>: the registered services with their methods, against the policy.\<close>

definition registered_methods :: "(string \<times> string list) list \<Rightarrow> string list" where
  "registered_methods services = concat (map (\<lambda>(name, ms). map (\<lambda>m. ''/'' @ name @ ''/'' @ m) ms) services)"

definition Check_policy :: "Authorizer_identity \<Rightarrow> (string \<times> string list) list \<Rightarrow> err + unit" where
  "Check_policy a services =
     (let missing = filter (\<lambda>m. map_of (ai_policy a) m = None) (registered_methods services);
          stale = filter (\<lambda>m. m \<notin> set (registered_methods services)) (map fst (ai_policy a))
      in if missing \<noteq> [] \<or> stale \<noteq> [] then Inl (err ErrOther) else Inr ())"

definition policy_entry :: "Policy \<Rightarrow> string \<Rightarrow> Workload list" where
  "policy_entry p method = (case map_of p method of None \<Rightarrow> [] | Some ws \<Rightarrow> ws)"

definition Allowed_method :: "Authorizer_identity \<Rightarrow> string \<Rightarrow> Principal \<Rightarrow> bool" where
  "Allowed_method a method p =
     (if pr_TrustDomain p \<noteq> ai_trustDomain a then False
      else list_ex (\<lambda>w. w = AnyAuthenticated \<or> (wl_Namespace w = pr_Namespace p \<and> wl_ServiceAccount w = pr_ServiceAccount p))
             (policy_entry (ai_policy a) method))"

text \<open>The identity of a connection (\<open>peer.FromContext\<close>): none, one that is not a \<open>PeerInfo\<close>, or a \<open>PeerInfo\<close>.\<close>

record PeerInfo =
  pi_Principal :: "err + Principal"
  pi_Root :: Certificate

datatype peer_auth = NoPeer | OtherAuth | WorkloadAuth PeerInfo

datatype code = Unauthenticated | PermissionDenied | ResourceExhausted | InvalidArgument | NotFound | FailedPrecondition
  | AlreadyExists | Unavailable | Canceled | DeadlineExceeded | Unknown

definition Authorize :: "Authorizer_identity \<Rightarrow> peer_auth \<Rightarrow> string \<Rightarrow> code + unit" where
  "Authorize a pr method =
     (case pr of
        NoPeer \<Rightarrow> Inl Unauthenticated
      | OtherAuth \<Rightarrow> Inl Unauthenticated
      | WorkloadAuth info \<Rightarrow>
         (case pi_Principal info of
            Inl _ \<Rightarrow> Inl Unauthenticated
          | Inr p \<Rightarrow> if \<not> Allowed_method a method p then Inl PermissionDenied else Inr ()))"

text \<open>The interceptors run a handler, a function of the state of the server.\<close>

type_synonym ('s, 'a) handler = "'s \<Rightarrow> (code + 'a) \<times> 's"

definition Unary :: "Authorizer_identity \<Rightarrow> peer_auth \<Rightarrow> string \<Rightarrow> ('s, 'a) handler \<Rightarrow> ('s, 'a) handler" where
  "Unary a pr method handler s = (case Authorize a pr method of Inl c \<Rightarrow> (Inl c, s) | Inr _ \<Rightarrow> handler s)"

definition Stream :: "Authorizer_identity \<Rightarrow> peer_auth \<Rightarrow> string \<Rightarrow> ('s, 'a) handler \<Rightarrow> ('s, 'a) handler" where
  "Stream a pr method handler s = (case Authorize a pr method of Inl c \<Rightarrow> (Inl c, s) | Inr _ \<Rightarrow> handler s)"

definition Caller :: "peer_auth \<Rightarrow> Principal option" where
  "Caller pr =
     (case pr of
        WorkloadAuth info \<Rightarrow> (case pi_Principal info of Inl _ \<Rightarrow> None | Inr p \<Rightarrow> Some p)
      | _ \<Rightarrow> None)"

section \<open>Identity material\<close>

record Files =
  fs_CertFile :: string
  fs_KeyFile :: string
  fs_CAFile :: string

record Material =
  ma_Chain :: "bytes list"
  ma_Leaf :: Certificate
  ma_Roots :: "(string \<times> Certificate) list"
  ma_Digest :: string

definition fingerprint :: "Certificate \<Rightarrow> string" where
  "fingerprint c = sha256_hex (xc_Raw c)"

definition TrustsRoot :: "Material option \<Rightarrow> Certificate option \<Rightarrow> bool" where
  "TrustsRoot m root =
     (case (m, root) of (Some mat, Some c) \<Rightarrow> map_of (ma_Roots mat) (fingerprint c) \<noteq> None | _ \<Rightarrow> False)"

text \<open>The library's parsers: \<open>tls.X509KeyPair\<close> (the certificate chain), \<open>x509.ParseCertificate\<close>, the blocks that
  repeated calls of \<open>pem.Decode\<close> find (type and bytes).\<close>

record x509 =
  xl_X509KeyPair :: "bytes \<Rightarrow> bytes \<Rightarrow> err + bytes list"
  xl_ParseCertificate :: "bytes \<Rightarrow> err + Certificate"
  xl_pem :: "bytes \<Rightarrow> (string \<times> bytes) list"

fun ca_roots :: "x509 \<Rightarrow> (string \<times> bytes) list \<Rightarrow> (string \<times> Certificate) list \<Rightarrow> err + (string \<times> Certificate) list" where
  "ca_roots X [] roots = Inr roots"
| "ca_roots X ((typ, raw) # blocks) roots =
     (if typ \<noteq> ''CERTIFICATE'' then ca_roots X blocks roots
      else (case xl_ParseCertificate X raw of
              Inl e \<Rightarrow> Inl e
            | Inr ca \<Rightarrow>
               if \<not> xc_IsCA ca then Inl (err ErrOther)
               else ca_roots X blocks (AList.update (fingerprint ca) ca roots)))"

definition files_digest :: "bytes list \<Rightarrow> string" where
  "files_digest contents = sha256_hex (concat (map (\<lambda>b. b @ [CHR 0x00]) contents))"

definition Parse_material :: "x509 \<Rightarrow> bytes \<Rightarrow> bytes \<Rightarrow> bytes \<Rightarrow> time \<Rightarrow> err + Material" where
  "Parse_material X certPEM keyPEM caPEM now =
     (case xl_X509KeyPair X certPEM keyPEM of
        Inl e \<Rightarrow> Inl e
      | Inr [] \<Rightarrow> Inl (err ErrOther)
      | Inr (der # ders) \<Rightarrow>
         (case xl_ParseCertificate X der of
            Inl e \<Rightarrow> Inl e
          | Inr leaf \<Rightarrow>
             if now < xc_NotBefore leaf \<or> xc_NotAfter leaf < now then Inl (err ErrOther)
             else (case ca_roots X (xl_pem X caPEM) [] of
                     Inl e \<Rightarrow> Inl e
                   | Inr roots \<Rightarrow>
                      if roots = [] then Inl (err ErrOther)
                      else Inr \<lparr>ma_Chain = der # ders, ma_Leaf = leaf, ma_Roots = roots,
                                ma_Digest = files_digest [certPEM, keyPEM, caPEM]\<rparr>)))"

text \<open>The mounted files, by path: \<open>os.ReadFile\<close>.\<close>

type_synonym filesystem = "string \<Rightarrow> bytes option"

definition Load_material :: "x509 \<Rightarrow> filesystem \<Rightarrow> Files \<Rightarrow> time \<Rightarrow> err + Material" where
  "Load_material X fsys f now =
     (case (fsys (fs_CertFile f), fsys (fs_KeyFile f), fsys (fs_CAFile f)) of
        (Some cert, Some key, Some ca) \<Rightarrow> Parse_material X cert key ca now
      | _ \<Rightarrow> Inl (err ErrOther))"

definition filesDigest :: "filesystem \<Rightarrow> Files \<Rightarrow> string option" where
  "filesDigest fsys f =
     (case (fsys (fs_CertFile f), fsys (fs_KeyFile f), fsys (fs_CAFile f)) of
        (Some cert, Some key, Some ca) \<Rightarrow> Some (files_digest [cert, key, ca])
      | _ \<Rightarrow> None)"

definition Equal_material :: "Material option \<Rightarrow> Material option \<Rightarrow> bool" where
  "Equal_material m n = (case (m, n) of (Some a, Some b) \<Rightarrow> ma_Digest a = ma_Digest b | _ \<Rightarrow> False)"

definition RetiredRoots :: "Material \<Rightarrow> Material \<Rightarrow> Certificate list" where
  "RetiredRoots previous current =
     map snd (filter (\<lambda>(fp, c). map_of (ma_Roots current) fp = None) (ma_Roots previous))"

definition retired :: "Material \<Rightarrow> Material \<Rightarrow> nat" where
  "retired previous current = length (filter (\<lambda>(fp, c). map_of (ma_Roots current) fp = None) (ma_Roots previous))"

section \<open>Connections and reloads\<close>

type_synonym conn = nat

text \<open>\<open>connTracker\<close>: the accepted connections by the fingerprint of their root.\<close>

type_synonym connTracker = "(string \<times> conn list) list"

definition track_add :: "Certificate \<Rightarrow> conn \<Rightarrow> connTracker \<Rightarrow> connTracker" where
  "track_add root c t =
     (let fp = fingerprint root; set = (case map_of t fp of None \<Rightarrow> [] | Some cs \<Rightarrow> cs) in
      AList.update fp (List.insert c set) t)"

definition track_remove :: "Certificate \<Rightarrow> conn \<Rightarrow> connTracker \<Rightarrow> connTracker" where
  "track_remove root c t =
     (let fp = fingerprint root in
      case map_of t fp of
        None \<Rightarrow> t
      | Some cs \<Rightarrow>
         (let cs' = removeAll c cs in
          if cs' = [] then AList.delete fp t else AList.update fp cs' t))"

text \<open>\<open>closeRetired\<close>: the closed connections and the tracker without them.\<close>

definition closeRetired :: "Material \<Rightarrow> connTracker \<Rightarrow> conn list \<times> connTracker" where
  "closeRetired current t =
     (concat (map snd (filter (\<lambda>(fp, cs). map_of (ma_Roots current) fp = None) t)),
      filter (\<lambda>(fp, cs). map_of (ma_Roots current) fp \<noteq> None) t)"

text \<open>The reloader and the server credentials that listen to it: the current material, the count of rejected
  candidates, the tracker, the open connections with the root that verified them, and the handshakes in
  flight with the material their configuration was built from.\<close>

record tls_server =
  tv_current :: Material
  tv_failures :: nat
  tv_tracker :: connTracker
  tv_open :: "(conn \<times> PeerInfo) list"
  tv_handshakes :: "(conn \<times> Material) list"

definition New_reloader :: "x509 \<Rightarrow> filesystem \<Rightarrow> Files \<Rightarrow> time \<Rightarrow> err + tls_server" where
  "New_reloader X fsys f now =
     (if fs_CertFile f = [] \<or> fs_KeyFile f = [] \<or> fs_CAFile f = [] then Inl (err ErrOther)
      else (case Load_material X fsys f now of
              Inl e \<Rightarrow> Inl e
            | Inr m \<Rightarrow> Inr \<lparr>tv_current = m, tv_failures = 0, tv_tracker = [], tv_open = [], tv_handshakes = []\<rparr>))"

text \<open>\<open>Reload\<close> with the callback of \<open>NewServerCredentials\<close>; the two reads of the files may see different contents.\<close>

definition publish :: "Material \<Rightarrow> tls_server \<Rightarrow> tls_server" where
  "publish m s =
     (case closeRetired m (tv_tracker s) of (closed, t) \<Rightarrow>
        s\<lparr>tv_current := m, tv_failures := 0, tv_tracker := t,
          tv_open := filter (\<lambda>(c, i). c \<notin> set closed) (tv_open s)\<rparr>)"

definition Reload :: "x509 \<Rightarrow> filesystem \<Rightarrow> filesystem \<Rightarrow> Files \<Rightarrow> time \<Rightarrow> tls_server \<Rightarrow> bool \<times> tls_server" where
  "Reload X before after f now s =
     (case filesDigest before f of
        None \<Rightarrow> (False, s\<lparr>tv_failures := tv_failures s + 1\<rparr>)
      | Some digest \<Rightarrow>
         if digest = ma_Digest (tv_current s) then (False, s)
         else (case Load_material X after f now of
                 Inl _ \<Rightarrow> (False, s\<lparr>tv_failures := tv_failures s + 1\<rparr>)
               | Inr m \<Rightarrow> (True, publish m s)))"

text \<open>\<open>ServerHandshake\<close> in its two steps: the configuration is built from the current material; later the
  handshake ends with a verified chain (or an error), the connection is tracked under the chain's root.\<close>

definition begin_handshake :: "conn \<Rightarrow> tls_server \<Rightarrow> tls_server" where
  "begin_handshake c s = s\<lparr>tv_handshakes := (c, tv_current s) # tv_handshakes s\<rparr>"

definition end_handshake :: "conn \<Rightarrow> (err + Certificate list) \<Rightarrow> tls_server \<Rightarrow> (err + PeerInfo) \<times> tls_server" where
  "end_handshake c result s =
     (let s' = s\<lparr>tv_handshakes := AList.delete c (tv_handshakes s)\<rparr> in
      case result of
        Inl e \<Rightarrow> (Inl e, s')
      | Inr [] \<Rightarrow> (Inl (err ErrOther), s')
      | Inr (leaf # chain) \<Rightarrow>
         (let root = last (leaf # chain); info = \<lparr>pi_Principal = PeerPrincipal (Some leaf), pi_Root = root\<rparr> in
          (Inr info, s'\<lparr>tv_tracker := track_add root c (tv_tracker s'), tv_open := (c, info) # tv_open s'\<rparr>)))"

definition close_conn :: "conn \<Rightarrow> tls_server \<Rightarrow> tls_server" where
  "close_conn c s =
     (case map_of (tv_open s) c of
        None \<Rightarrow> s
      | Some i \<Rightarrow> s\<lparr>tv_tracker := track_remove (pi_Root i) c (tv_tracker s), tv_open := AList.delete c (tv_open s)\<rparr>)"

section \<open>Identities and their texts\<close>

lemma Split_nonempty [simp]: "Split s c \<noteq> []"
  by (induction s) (auto split: list.splits)

lemma Split_plain: "c \<notin> set a \<Longrightarrow> Split a c = [a]"
  by (induction a) auto

lemma Split_append: "c \<notin> set a \<Longrightarrow> Split (a @ c # b) c = a # Split b c"
  by (induction a) auto

lemma Join_Split: "Join (Split s c) [c] = s"
proof (induction s)
  case (Cons x s)
  show ?case
  proof (cases "Split s c")
    case (Cons w ws)
    then show ?thesis using Cons.IH by (cases ws) auto
  qed simp
qed simp

lemma Split_no_sep: "w \<in> set (Split s c) \<Longrightarrow> c \<notin> set w"
proof (induction s arbitrary: w)
  case (Cons x s)
  show ?case
  proof (cases "Split s c")
    case (Cons v vs)
    then show ?thesis using Cons.IH [of v] Cons.IH [of w] Cons.prems by (auto split: if_splits)
  qed simp
qed simp

text \<open>The bytes of a trust domain and of a label are plain in every part of a URL.\<close>

definition plain :: "char \<Rightarrow> bool" where
  "plain c \<longleftrightarrow> label_char c \<or> c = CHR ''.''"

lemma plain_facts:
  assumes "plain c"
  shows "host_byte c" "\<not> ctl_byte c" "c \<noteq> CHR ''%''" "c \<noteq> CHR ''/''" "c \<noteq> CHR ''?''" "c \<noteq> CHR ''#''" "c \<noteq> CHR '':''"
    "c \<noteq> CHR ''@''" "c \<noteq> CHR ''[''"
proof -
  have "is_alpha c \<or> is_digit c \<or> c \<in> set ''-.''"
    using assms by (auto simp: plain_def label_char_def is_alpha_def)
  then show "host_byte c" by (auto simp: host_byte_def)
  have n: "45 \<le> (of_char c :: nat) \<and> (of_char c :: nat) < 127 \<and> (of_char c :: nat) \<notin> {47, 58, 63, 64, 91}"
    using assms by (auto simp: plain_def label_char_def is_digit_def less_eq_char_def)
  then show "\<not> ctl_byte c" by (simp add: ctl_byte_def)
  show "c \<noteq> CHR ''%''" "c \<noteq> CHR ''/''" "c \<noteq> CHR ''?''" "c \<noteq> CHR ''#''" "c \<noteq> CHR '':''" "c \<noteq> CHR ''@''" "c \<noteq> CHR ''[''"
    using n by auto
qed

lemma label_plain: "label s \<Longrightarrow> list_all plain s"
  by (auto simp: label_def plain_def list_all_iff)

lemma domain_plain:
  assumes "ValidTrustDomain s"
  shows "list_all plain s" "s \<noteq> []"
proof -
  have "list_all plain (Join ws ''.'')" if "list_all label ws" for ws
    using that
  proof (induction ws "''.''" rule: Join.induct)
    case (3 x y xs)
    then show ?case using label_plain by (auto simp: plain_def)
  qed (auto simp: label_plain)
  then show "list_all plain s" using assms Join_Split [of s "CHR ''.''"] unfolding ValidTrustDomain_def by metis
  show "s \<noteq> []" using assms by (auto simp: ValidTrustDomain_def label_def)
qed

definition valid_principal :: "Principal \<Rightarrow> bool" where
  "valid_principal p \<longleftrightarrow> ValidTrustDomain (pr_TrustDomain p) \<and> label (pr_Namespace p) \<and> label (pr_ServiceAccount p)"

definition spiffe_url :: "Principal \<Rightarrow> URL" where
  "spiffe_url p = zero_url\<lparr>u_Scheme := ''spiffe'', u_Host := pr_TrustDomain p,
     u_Path := ''/ns/'' @ pr_Namespace p @ ''/sa/'' @ pr_ServiceAccount p\<rparr>"

lemma CutLast_absent: "c \<notin> set s \<Longrightarrow> CutLast s c = None"
  by (simp add: CutLast_def)

lemma plain_absent:
  assumes "list_all plain s" "c \<in> {CHR ''%'', CHR ''/'', CHR ''?'', CHR ''#'', CHR '':'', CHR ''@'', CHR ''[''}"
  shows "c \<notin> set s"
proof -
  have "\<not> plain c" using assms(2) plain_facts(3-9) by blast
  then show ?thesis using assms(1) by (auto simp: list_all_iff)
qed

lemma unescape_path_plain: "CHR ''%'' \<notin> set s \<Longrightarrow> unescape_path s = Some s"
  by (induction s) auto

lemma unescape_host_plain: "list_all plain s \<Longrightarrow> unescape_host False s = Some s"
  by (induction s) (auto simp: plain_facts)

lemma parseAuthority_plain:
  assumes "list_all plain s"
  shows "parseAuthority ''spiffe'' s = Some (False, s)"
  using plain_absent [OF assms]
  by (simp add: parseAuthority_def parseHost_def CutLast_absent validOptionalPort_def unescape_host_plain [OF assms])

lemma Port_plain: "list_all plain s \<Longrightarrow> Port (u\<lparr>u_Host := s\<rparr>) = []"
  using plain_absent [of s] by (simp add: Port_def split_host_port_def CutLast_absent)

lemma Cut_absent: "c \<notin> set s \<Longrightarrow> Cut s c = (s, [], False)"
  by (auto simp: Cut_def Let_def takeWhile_eq_all_conv)

lemma takeWhile_until: "c \<notin> set a \<Longrightarrow> takeWhile (\<lambda>x. x \<noteq> c) (a @ c # b) = a"
  by (induction a) auto

lemma url_Parse_spiffe:
  assumes "valid_principal p"
  shows "url_Parse (Principal_String p) = Some (spiffe_url p)"
proof -
  let ?d = "pr_TrustDomain p" and ?path = "''/ns/'' @ pr_Namespace p @ ''/sa/'' @ pr_ServiceAccount p"
  have d: "list_all plain ?d" "?d \<noteq> []" and l: "list_all plain (pr_Namespace p)" "list_all plain (pr_ServiceAccount p)"
    using assms domain_plain label_plain by (auto simp: valid_principal_def)
  have absent: "c \<notin> set ?d \<union> set (pr_Namespace p) \<union> set (pr_ServiceAccount p)"
    if "c \<in> {CHR ''%'', CHR ''/'', CHR ''?'', CHR ''#'', CHR '':'', CHR ''@'', CHR ''[''}" for c
    using plain_absent [OF d(1) that] plain_absent [OF l(1) that] plain_absent [OF l(2) that] by blast
  have ctl: "\<not> list_ex ctl_byte (Principal_String p)"
    using d(1) l plain_facts(2) by (auto simp: Principal_String_def list_ex_iff list_all_iff ctl_byte_def)
  have shape: "Principal_String p = ''spiffe:'' @ ''//'' @ ?d @ ?path" by (simp add: Principal_String_def)
  have hash: "CHR ''#'' \<notin> set (Principal_String p)" and quest: "CHR ''?'' \<notin> set (''//'' @ ?d @ ?path)"
    using absent [of "CHR ''#''"] absent [of "CHR ''?''"] by (auto simp: Principal_String_def)
  have scheme: "getScheme (Principal_String p) = Some (''spiffe'', ''//'' @ ?d @ ?path)"
    unfolding shape by (simp add: getScheme_def is_alpha_def is_digit_def less_eq_char_def Let_def)
  have low: "ToLower ''spiffe'' = ''spiffe''" by code_simp
  have auth: "takeWhile (\<lambda>c. c \<noteq> CHR ''/'') (?d @ ?path) = ?d"
    using absent [of "CHR ''/''"] by (simp add: takeWhile_until)
  have path: "unescape_path ?path = Some ?path"
    using absent [of "CHR ''%''"] by (intro unescape_path_plain) auto
  have "url_parse (Principal_String p) = Some (spiffe_url p)"
    unfolding url_parse_def scheme using ctl auth path
    by (simp add: Cut_absent [OF quest, simplified] low HasPrefix_def parseAuthority_plain [OF d(1)] spiffe_url_def zero_url_def
        Principal_String_def)
  then show ?thesis by (simp add: url_Parse_def Cut_absent [OF hash])
qed

lemma path_parts:
  assumes "label ns" "label sa"
  shows "Split (''/ns/'' @ ns @ ''/sa/'' @ sa) (CHR ''/'') = [[], ''ns'', ns, ''sa'', sa]"
proof -
  have "CHR ''/'' \<notin> set ns" "CHR ''/'' \<notin> set sa"
    using plain_absent [OF label_plain [OF assms(1)]] plain_absent [OF label_plain [OF assms(2)]] by auto
  then show ?thesis
    using Split_append [of "CHR ''/''" ns "''sa/'' @ sa"] by (simp add: Split_plain)
qed

lemma ParseSPIFFE_Inr:
  "ParseSPIFFE (Some u) = Inr p \<longleftrightarrow> valid_principal p \<and> u = spiffe_url p"
proof
  assume L: "ParseSPIFFE (Some u) = Inr p"
  obtain p2 p4 where parts: "Split (u_Path u) (CHR ''/'') = [[], ''ns'', p2, ''sa'', p4]" "label p2" "label p4"
    and p: "p = \<lparr>pr_TrustDomain = u_Host u, pr_Namespace = p2, pr_ServiceAccount = p4\<rparr>"
    and u: "u_Scheme u = ''spiffe''" "\<not> u_User u" "u_Opaque u = []" "u_RawQuery u = []" "u_Fragment u = []" "ValidTrustDomain (u_Host u)"
    using L by (auto simp: ParseSPIFFE_def split: if_splits list.splits)
  have "u_Path u = ''/ns/'' @ p2 @ ''/sa/'' @ p4"
    using Join_Split [of "u_Path u" "CHR ''/''"] by (simp add: parts(1))
  then show "valid_principal p \<and> u = spiffe_url p"
    using u parts(2,3) p by (simp add: valid_principal_def spiffe_url_def zero_url_def)
next
  assume R: "valid_principal p \<and> u = spiffe_url p"
  have "Port (spiffe_url p) = []"
    using R domain_plain [of "pr_TrustDomain p"] plain_absent [of "pr_TrustDomain p" "CHR '':''"]
    by (simp add: valid_principal_def spiffe_url_def Port_def split_host_port_def CutLast_absent)
  then show "ParseSPIFFE (Some u) = Inr p"
    using R by (simp add: ParseSPIFFE_def spiffe_url_def zero_url_def valid_principal_def path_parts [simplified])
qed

text \<open>A percent-encoded path decodes to the same identity: another text than the identity's own is accepted.\<close>

lemma encoded_identity_accepted:
  "Option.bind (url_Parse ''spiffe://anvilkit.local/%6Es/apps/sa/api'') (\<lambda>u. Some (ParseSPIFFE (Some u)))
     = Some (Inr \<lparr>pr_TrustDomain = ''anvilkit.local'', pr_Namespace = ''apps'', pr_ServiceAccount = ''api''\<rparr>)"
  by code_simp

section \<open>Connections and the trust in force\<close>

text \<open>The steps of a server: handshakes overlap with reloads.  A handshake succeeds only with a chain up to a root
  of the material it was configured with (the verification of the TLS library).\<close>

inductive tls_step :: "x509 \<Rightarrow> Files \<Rightarrow> tls_server \<Rightarrow> tls_server \<Rightarrow> bool" for X f where
  begins: "c \<notin> fst ` set (tv_handshakes s) \<Longrightarrow> c \<notin> fst ` set (tv_open s) \<Longrightarrow> tls_step X f s (begin_handshake c s)"
| ends: "map_of (tv_handshakes s) c = Some m \<Longrightarrow>
    (\<And>leaf chain. result = Inr (leaf # chain) \<Longrightarrow> TrustsRoot (Some m) (Some (last (leaf # chain)))) \<Longrightarrow>
    tls_step X f s (snd (end_handshake c result s))"
| reloads: "tls_step X f s (snd (Reload X before after f now s))"
| closes: "tls_step X f s (close_conn c s)"

text \<open>Every open connection is tracked under its root, once.\<close>

definition tracks :: "tls_server \<Rightarrow> bool" where
  "tracks s \<longleftrightarrow> distinct (map fst (tv_tracker s)) \<and> distinct (map fst (tv_open s)) \<and> distinct (map fst (tv_handshakes s))
     \<and> fst ` set (tv_handshakes s) \<inter> fst ` set (tv_open s) = {}
     \<and> (\<forall>(c, i) \<in> set (tv_open s). \<exists>cs. map_of (tv_tracker s) (fingerprint (pi_Root i)) = Some cs \<and> c \<in> set cs)"

lemma tracks_lookup:
  assumes "tracks s" "(c, i) \<in> set (tv_open s)"
  obtains cs where "map_of (tv_tracker s) (fingerprint (pi_Root i)) = Some cs" "c \<in> set cs"
  using assms unfolding tracks_def by fast

lemma map_of_filter_keys: "map_of (filter (\<lambda>(k, v). P k) t) k = (if P k then map_of t k else None)"
  by (induction t) auto

lemma distinct_filter_keys: "distinct (map fst t) \<Longrightarrow> distinct (map fst (filter P t))"
  by (induction t) (auto simp: image_iff)

lemma tracks_begin: "tracks s \<Longrightarrow> c \<notin> fst ` set (tv_handshakes s) \<Longrightarrow> c \<notin> fst ` set (tv_open s) \<Longrightarrow> tracks (begin_handshake c s)"
  by (auto simp: tracks_def begin_handshake_def)

lemma track_add_keeps:
  "map_of t fp = Some cs \<Longrightarrow> \<exists>cs'. map_of (track_add root c t) fp = Some cs' \<and> set cs \<subseteq> set cs'"
  by (auto simp: track_add_def Let_def AList.update_conv')

lemma track_add_has: "\<exists>cs. map_of (track_add root c t) (fingerprint root) = Some cs \<and> c \<in> set cs"
  by (auto simp: track_add_def Let_def AList.update_conv')

lemma tracks_end:
  assumes "tracks s" "map_of (tv_handshakes s) c = Some m"
  shows "tracks (snd (end_handshake c result s))"
proof -
  have new: "c \<notin> fst ` set (tv_open s)"
    using assms(1) map_of_SomeD [OF assms(2)] unfolding tracks_def by force
  have hs: "distinct (map fst (AList.delete c (tv_handshakes s)))" "fst ` set (AList.delete c (tv_handshakes s)) = fst ` set (tv_handshakes s) - {c}"
    using assms(1) by (simp add: tracks_def AList.distinct_delete, auto simp: AList.delete_eq image_iff)
  have idle: "tracks (s\<lparr>tv_handshakes := AList.delete c (tv_handshakes s)\<rparr>)"
    using assms(1) hs by (auto simp: tracks_def)
  show ?thesis
  proof (cases "\<exists>leaf chain. result = Inr (leaf # chain)")
    case False
    then show ?thesis using idle by (auto simp: end_handshake_def Let_def split: sum.splits list.splits)
  next
    case True
    then obtain leaf chain where r: "result = Inr (leaf # chain)" by blast
    let ?root = "last (leaf # chain)"
    have "distinct (map fst (track_add ?root c (tv_tracker s)))"
      using assms(1) by (simp add: tracks_def track_add_def Let_def AList.distinct_update)
    moreover have "\<forall>(c', i) \<in> set (tv_open s). \<exists>cs. map_of (track_add ?root c (tv_tracker s)) (fingerprint (pi_Root i)) = Some cs \<and> c' \<in> set cs"
      using assms(1) track_add_keeps unfolding tracks_def by fast
    ultimately show ?thesis
      using idle new hs track_add_has [of ?root c "tv_tracker s"] unfolding r
      by (simp add: end_handshake_def Let_def tracks_def)
  qed
qed

lemma publish_tracks:
  assumes "tracks s"
  shows "tracks (publish m s)" "(c, i) \<in> set (tv_open (publish m s)) \<Longrightarrow> TrustsRoot (Some m) (Some (pi_Root i))"
proof -
  obtain closed t where ct: "closeRetired m (tv_tracker s) = (closed, t)" by force
  have keep: "\<exists>cs. map_of t (fingerprint (pi_Root i)) = Some cs \<and> c \<in> set cs \<and> map_of (ma_Roots m) (fingerprint (pi_Root i)) \<noteq> None"
    if o: "(c, i) \<in> set (tv_open s)" "c \<notin> set closed" for c i
  proof -
    obtain cs where cs: "map_of (tv_tracker s) (fingerprint (pi_Root i)) = Some cs" "c \<in> set cs"
      using tracks_lookup [OF assms o(1)] .
    have "map_of (ma_Roots m) (fingerprint (pi_Root i)) \<noteq> None"
    proof
      assume "map_of (ma_Roots m) (fingerprint (pi_Root i)) = None"
      then have "c \<in> set closed" using cs map_of_SomeD [OF cs(1)] ct by (force simp: closeRetired_def)
      then show False using o(2) by simp
    qed
    then show ?thesis using cs ct by (auto simp: closeRetired_def map_of_filter_keys [of "\<lambda>fp. map_of (ma_Roots m) fp \<noteq> None", simplified])
  qed
  have "distinct (map fst t)" using assms ct by (auto simp: tracks_def closeRetired_def intro: distinct_filter_keys)
  then show "tracks (publish m s)"
    using assms keep by (auto simp: tracks_def publish_def ct distinct_filter_keys) fastforce+
  show "TrustsRoot (Some m) (Some (pi_Root i))" if "(c, i) \<in> set (tv_open (publish m s))"
    using that keep [of c i] by (auto simp: publish_def ct TrustsRoot_def)
qed

lemma tracks_close:
  assumes "tracks s"
  shows "tracks (close_conn c s)"
proof (cases "map_of (tv_open s) c")
  case None
  then show ?thesis using assms by (simp add: close_conn_def)
next
  case (Some i)
  have other: "\<exists>cs. map_of (track_remove (pi_Root i) c (tv_tracker s)) (fingerprint (pi_Root i')) = Some cs \<and> c' \<in> set cs"
    if o: "(c', i') \<in> set (tv_open s)" "c' \<noteq> c" for c' i'
  proof -
    obtain cs where cs: "map_of (tv_tracker s) (fingerprint (pi_Root i')) = Some cs" "c' \<in> set cs"
      using tracks_lookup [OF assms o(1)] .
    then have "removeAll c cs \<noteq> []" using o(2) by (metis empty_iff empty_set insert_iff set_removeAll DiffI)
    then show ?thesis
      using cs o(2) by (auto simp: track_remove_def Let_def AList.update_conv' AList.delete_conv' split: option.splits)
  qed
  have "distinct (map fst (track_remove (pi_Root i) c (tv_tracker s)))"
    using assms by (auto simp: tracks_def track_remove_def Let_def AList.distinct_update AList.distinct_delete split: option.splits)
  moreover have "distinct (map fst (AList.delete c (tv_open s)))" using assms by (simp add: tracks_def AList.distinct_delete)
  moreover have "set (AList.delete c (tv_open s)) = {(c', i'). (c', i') \<in> set (tv_open s) \<and> c' \<noteq> c}"
    by (auto simp: AList.delete_eq)
  ultimately show ?thesis
    using assms other Some by (auto simp: close_conn_def tracks_def simp del: map_of_eq_Some_iff)
qed

lemma tracks_step: "tls_step X f s s' \<Longrightarrow> tracks s \<Longrightarrow> tracks s'"
proof (induction rule: tls_step.induct)
  case (reloads s before after now)
  have count: "tracks (s\<lparr>tv_failures := n\<rparr>)" for n using reloads by (simp add: tracks_def del: map_of_eq_Some_iff)
  show ?case
    using publish_tracks(1) [OF reloads] count reloads by (simp add: Reload_def split: option.split sum.split)
qed (simp_all add: tracks_begin tracks_end tracks_close)

section \<open>Properties of the identity layer\<close>


definition sample_material :: "string \<Rightarrow> Certificate \<Rightarrow> Material" where
  "sample_material digest root =
     \<lparr>ma_Chain = [], ma_Leaf = root, ma_Roots = [(fingerprint root, root)], ma_Digest = digest\<rparr>"

definition sample_root :: "bytes \<Rightarrow> Certificate" where
  "sample_root raw = \<lparr>xc_Raw = raw, xc_URIs = [], xc_NotBefore = 0, xc_NotAfter = 10, xc_IsCA = True\<rparr>"

definition fresh_server :: "Material \<Rightarrow> tls_server" where
  "fresh_server m = \<lparr>tv_current = m, tv_failures = 0, tv_tracker = [], tv_open = [], tv_handshakes = []\<rparr>"

lemma tracks_fresh: "tracks (fresh_server m)"
  by (simp add: tracks_def fresh_server_def)

text \<open>C26. Retiring a root closes its connections: in every state the server can reach, whatever handshakes, closes
  and reloads came before and overlap, a reload that publishes new material leaves open only
  connections whose root the new material trusts.\<close>
theorem reload_closes_retired:
  assumes "(tls_step X f)\<^sup>*\<^sup>* (fresh_server m0) s" "Reload X before after f now s = (True, s')" "(c, i) \<in> set (tv_open s')"
  shows "TrustsRoot (Some (tv_current s')) (Some (pi_Root i))"
proof -
  have "tracks s"
    using assms(1) by (induction rule: rtranclp_induct) (auto simp: tracks_fresh intro: tracks_step)
  moreover obtain m where "s' = publish m s" using assms(2) by (auto simp: Reload_def split: option.splits if_splits sum.splits)
  ultimately show ?thesis
    using publish_tracks(2) [of s c i m] assms(3) by (simp add: publish_def split: prod.split_asm)
qed

definition sample_x509 :: x509 where
  "sample_x509 = \<lparr>xl_X509KeyPair = (\<lambda>_ _. Inr [''leaf'']), xl_ParseCertificate = (\<lambda>raw. Inr (sample_root raw)),
     xl_pem = (\<lambda>raw. [(''CERTIFICATE'', raw)])\<rparr>"

definition sample_files :: Files where
  "sample_files = \<lparr>fs_CertFile = ''c'', fs_KeyFile = ''k'', fs_CAFile = ''a''\<rparr>"

lemma sample_reload:
  assumes "ma_Digest (tv_current s) = ''old''"
  shows "\<exists>m. Reload sample_x509 (\<lambda>_. Some ca) (\<lambda>_. Some ca) sample_files 5 s = (True, publish m s)
    \<and> ma_Roots m = [(fingerprint (sample_root ca), sample_root ca)]"
proof -
  have "files_digest xs \<noteq> ''old''" for xs
  proof -
    have "length (files_digest xs) \<noteq> length ''old''" by (simp add: files_digest_def)
    then show ?thesis by metis
  qed
  then show ?thesis
    using assms
    by (simp add: Reload_def filesDigest_def Load_material_def Parse_material_def sample_x509_def sample_root_def)
      (intro exI conjI, rule refl, simp)
qed

theorem reload_closes_retired_witness:
  "\<exists>s s' c i. (tls_step sample_x509 sample_files)\<^sup>*\<^sup>* (fresh_server (sample_material ''old'' (sample_root ''A''))) s
     \<and> (c, i) \<in> set (tv_open s') \<and> Reload sample_x509 (\<lambda>_. Some ''A'') (\<lambda>_. Some ''A'') sample_files 5 s = (True, s')
     \<and> TrustsRoot (Some (tv_current s')) (Some (pi_Root i))"
proof -
  let ?m = "sample_material ''old'' (sample_root ''A'')"
  let ?s1 = "begin_handshake 0 (fresh_server ?m)"
  let ?s2 = "snd (end_handshake 0 (Inr [sample_root ''A'']) ?s1)"
  let ?i = "\<lparr>pi_Principal = PeerPrincipal (Some (sample_root ''A'')), pi_Root = sample_root ''A''\<rparr>"
  have 1: "tls_step sample_x509 sample_files (fresh_server ?m) ?s1"
    by (rule tls_step.begins) (simp_all add: fresh_server_def)
  have 2: "tls_step sample_x509 sample_files ?s1 ?s2"
    by (rule tls_step.ends [where m = ?m]) (auto simp: begin_handshake_def fresh_server_def TrustsRoot_def sample_material_def)
  have s2: "ma_Digest (tv_current ?s2) = ''old''" "tv_open ?s2 = [(0, ?i)]"
    "tv_tracker ?s2 = [(fingerprint (sample_root ''A''), [0])]"
    by (simp_all add: begin_handshake_def end_handshake_def Let_def fresh_server_def sample_material_def track_add_def)
  obtain m where m: "Reload sample_x509 (\<lambda>_. Some ''A'') (\<lambda>_. Some ''A'') sample_files 5 ?s2 = (True, publish m ?s2)"
    "ma_Roots m = [(fingerprint (sample_root ''A''), sample_root ''A'')]" using sample_reload [OF s2(1)] by blast
  have o: "(0, ?i) \<in> set (tv_open (publish m ?s2))" using s2(2,3) m(2) by (simp add: publish_def closeRetired_def)
  have r: "(tls_step sample_x509 sample_files)\<^sup>*\<^sup>* (fresh_server ?m) ?s2"
    by (rule rtranclp_trans [OF r_into_rtranclp [where r = "tls_step sample_x509 sample_files", OF 1] r_into_rtranclp [where r = "tls_step sample_x509 sample_files", OF 2]])
  from reload_closes_retired [OF r m(1) o] r m(1) o show ?thesis by blast
qed

text \<open>A handshake that is in flight during the reload is tracked only afterwards: its connection stays open under a
  root that is no longer trusted.\<close>

lemma handshake_outlives_retirement:
  assumes "fingerprint (sample_root ''A'') \<noteq> fingerprint (sample_root ''B'')"
  shows "\<exists>s c i. (tls_step sample_x509 sample_files)\<^sup>*\<^sup>* (fresh_server (sample_material ''old'' (sample_root ''A''))) s
     \<and> (c, i) \<in> set (tv_open s) \<and> \<not> TrustsRoot (Some (tv_current s)) (Some (pi_Root i))"
proof -
  let ?m = "sample_material ''old'' (sample_root ''A'')"
  let ?s1 = "begin_handshake 0 (fresh_server ?m)"
  have 1: "tls_step sample_x509 sample_files (fresh_server ?m) ?s1"
    by (rule tls_step.begins) (simp_all add: fresh_server_def)
  have "ma_Digest (tv_current ?s1) = ''old''" by (simp add: begin_handshake_def fresh_server_def sample_material_def)
  then obtain m where m: "Reload sample_x509 (\<lambda>_. Some ''B'') (\<lambda>_. Some ''B'') sample_files 5 ?s1 = (True, publish m ?s1)"
    "ma_Roots m = [(fingerprint (sample_root ''B''), sample_root ''B'')]" using sample_reload by blast
  have 2: "tls_step sample_x509 sample_files ?s1 (publish m ?s1)"
    using tls_step.reloads [of sample_x509 sample_files ?s1 "\<lambda>_. Some ''B''" "\<lambda>_. Some ''B''" 5] m(1) by simp
  let ?s3 = "snd (end_handshake 0 (Inr [sample_root ''A'']) (publish m ?s1))"
  have 3: "tls_step sample_x509 sample_files (publish m ?s1) ?s3"
    by (rule tls_step.ends [where m = ?m])
      (auto simp: publish_def closeRetired_def begin_handshake_def fresh_server_def TrustsRoot_def sample_material_def)
  have "tv_current ?s3 = m" "(0, \<lparr>pi_Principal = PeerPrincipal (Some (sample_root ''A'')), pi_Root = sample_root ''A''\<rparr>) \<in> set (tv_open ?s3)"
    by (simp_all add: publish_def closeRetired_def begin_handshake_def fresh_server_def end_handshake_def Let_def)
  moreover have "(tls_step sample_x509 sample_files)\<^sup>*\<^sup>* (fresh_server ?m) ?s3"
    by (rule rtranclp_trans [OF r_into_rtranclp [where r = "tls_step sample_x509 sample_files", OF 1]
          rtranclp_trans [OF r_into_rtranclp [where r = "tls_step sample_x509 sample_files", OF 2] r_into_rtranclp [where r = "tls_step sample_x509 sample_files", OF 3]]])
  ultimately show ?thesis using assms m(2) by (force simp: TrustsRoot_def)
qed

end
