(* ===== verification/Grpc_Server.thy ===== *)
theory Grpc_Server
  imports Identity App_Refresh App_Calls
begin

text \<open>
  The gRPC transport of \<open>internal/transport/grpc\<close>: the access policy of every method (\<open>policy.go\<close>), the chain of
  interceptors and the mapping of errors to status codes (\<open>server.go\<close>), the conversions of messages and the
  handlers (\<open>server.go\<close>, \<open>catalog.go\<close>, \<open>calls.go\<close>).  Messages are records of what the code reads and writes; an
  absent message whose fields are read through getters is the record of zero values.  The request validator,
  the methods of a registered service (generated code) and \<open>status.FromError\<close> are arguments.
\<close>

section \<open>The policy\<close>

definition api :: Workload where
  "api = \<lparr>wl_Namespace = ''anvilkit-apps'', wl_ServiceAccount = ''anvilkit-agent-api''\<rparr>"

definition backgroundWorker :: Workload where
  "backgroundWorker = \<lparr>wl_Namespace = ''anvilkit-apps'', wl_ServiceAccount = ''anvilkit-agent-background-worker''\<rparr>"

definition mcp :: Workload where
  "mcp = \<lparr>wl_Namespace = ''anvilkit-apps'', wl_ServiceAccount = ''anvilkit-agent-mcp''\<rparr>"

definition sidecar :: Workload where
  "sidecar = \<lparr>wl_Namespace = ''anvilkit-components'', wl_ServiceAccount = ''anvilkit-job-access-sidecar''\<rparr>"

definition add_methods :: "string \<Rightarrow> string list \<Rightarrow> Workload list \<Rightarrow> Policy" where
  "add_methods service methods allowed = map (\<lambda>m. (''/anvilkit.mcp.v1.'' @ service @ ''/'' @ m, allowed)) methods"

definition Policy_mcp :: Policy where
  "Policy_mcp =
     add_methods ''CatalogService'' [''ListCatalog'', ''GetDescriptor'', ''DiscoverServer'', ''ReviewDescriptor'', ''DisableDescriptor''] [api]
   @ add_methods ''GrantService'' [''CreateGrant'', ''GetGrant'', ''ListGrants'', ''RevokeGrant'', ''GetRevocationProgress''] [api]
   @ add_methods ''CallService'' [''CreateCall'', ''GetCall''] [api, sidecar]
   @ add_methods ''CallService'' [''ReconcileCall''] [api]
   @ add_methods ''CatalogRefreshService'' [''AdvanceRefresh''] [backgroundWorker]
   @ add_methods ''BackgroundTaskService'' [''ClaimTask'', ''HeartbeatTask'', ''SubmitTaskResult'', ''GetTask''] [backgroundWorker, mcp]
   @ map (\<lambda>m. (''/grpc.health.v1.Health/'' @ m, [AnyAuthenticated])) [''Check'', ''Watch'', ''List'']"

definition registeredOnly :: "Policy \<Rightarrow> string list \<Rightarrow> Policy" where
  "registeredOnly p services =
     filter (\<lambda>(method, allowed). takeWhile (\<lambda>c. c \<noteq> CHR ''/'') (TrimPrefix method ''/'') \<in> set services) p"

section \<open>The server\<close>

text \<open>The services a build registers, with their methods.\<close>

definition services :: "(string \<Rightarrow> string list) \<Rightarrow> bool \<Rightarrow> bool \<Rightarrow> bool \<Rightarrow> (string \<times> string list) list" where
  "services methods catalog calls refresh =
     map (\<lambda>n. (n, methods n))
       ([''grpc.health.v1.Health'', ''anvilkit.mcp.v1.BackgroundTaskService'']
        @ (if catalog then [''anvilkit.mcp.v1.CatalogService'', ''anvilkit.mcp.v1.GrantService''] else [])
        @ (if calls then [''anvilkit.mcp.v1.CallService''] else [])
        @ (if refresh then [''anvilkit.mcp.v1.CatalogRefreshService''] else []))"

text \<open>\<open>NewServerWithIdentity\<close>: the authorizer of the interceptors, none on a development listener; the scoped
  policy must cover exactly the registered methods.\<close>

definition NewServerWithIdentity ::
  "(string \<Rightarrow> string list) \<Rightarrow> (string \<times> Policy) option \<Rightarrow> bool \<Rightarrow> bool \<Rightarrow> bool \<Rightarrow> err + Authorizer_identity option" where
  "NewServerWithIdentity methods identity catalog calls refresh =
     (case identity of
        None \<Rightarrow> Inr None
      | Some (domain, policy) \<Rightarrow>
         (case NewAuthorizer_identity domain policy of
            Inl e \<Rightarrow> Inl e
          | Inr authz \<Rightarrow>
             (let svcs = services methods catalog calls refresh in
              case NewAuthorizer_identity domain (registeredOnly policy (map fst svcs)) of
                Inl e \<Rightarrow> Inl e
              | Inr scoped \<Rightarrow>
                 (case Check_policy scoped svcs of Inl e \<Rightarrow> Inl e | Inr _ \<Rightarrow> Inr (Some authz)))))"

text \<open>\<open>bounded\<close>: a call beyond the capacity is refused.  \<open>validateUnary\<close>: a request the validator refuses never
  reaches its handler.\<close>

definition bounded_slots :: "nat \<Rightarrow> nat \<Rightarrow> ('s, 'a) handler \<Rightarrow> ('s, 'a) handler" where
  "bounded_slots capacity used handler s = (if used < capacity then handler s else (Inl ResourceExhausted, s))"

definition validateUnary :: "('r \<Rightarrow> bool) \<Rightarrow> 'r \<Rightarrow> ('s, 'a) handler \<Rightarrow> ('s, 'a) handler" where
  "validateUnary valid req handler s = (if valid req then handler s else (Inl InvalidArgument, s))"

definition serve ::
  "Authorizer_identity option \<Rightarrow> peer_auth \<Rightarrow> string \<Rightarrow> nat \<Rightarrow> nat \<Rightarrow> ('r \<Rightarrow> bool) \<Rightarrow> 'r \<Rightarrow> ('s, 'a) handler \<Rightarrow> ('s, 'a) handler" where
  "serve authz pr method capacity used valid req handler =
     (let inner = bounded_slots capacity used (validateUnary valid req handler) in
      case authz of None \<Rightarrow> inner | Some a \<Rightarrow> Unary a pr method inner)"

section \<open>Errors\<close>

definition toStatus :: "(err \<Rightarrow> code option) \<Rightarrow> err \<Rightarrow> code" where
  "toStatus status_of e =
     (if errors_Is e ErrNotFound then NotFound
      else if errors_Is e ErrInvalid \<or> errors_Is e ErrInputTooLarge then InvalidArgument
      else if errors_Is e ErrAlreadyClaimed \<or> errors_Is e ErrNotClaimable \<or> errors_Is e ErrDuplicateClaimID then FailedPrecondition
      else if errors_Is e ErrStaleExecution then FailedPrecondition
      else if errors_Is e ErrEffectUncertain then FailedPrecondition
      else if errors_Is e ErrProfileUnknown then FailedPrecondition
      else if errors_Is e AppErrForbidden \<or> errors_Is e DomainErrForbidden then PermissionDenied
      else if errors_Is e ErrCommandConflict then AlreadyExists
      else if errors_Is e ErrDescriptorMismatch \<or> errors_Is e ErrRevisionMismatch \<or> errors_Is e ErrInvalidTransition then FailedPrecondition
      else if errors_Is e ErrUpstream then FailedPrecondition
      else if errors_Is e ErrUnavailable then Unavailable
      else if errors_Is e ErrDuplicateKey then FailedPrecondition
      else if errors_Is e CtxCanceled then Canceled
      else if errors_Is e CtxDeadlineExceeded then DeadlineExceeded
      else (case status_of e of Some c \<Rightarrow> c | None \<Rightarrow> Unavailable))"

text \<open>A handler's answer: the use case's result converted, its error mapped.\<close>

type_synonym 'a rpc = "world \<Rightarrow> (code + 'a) \<times> world"

definition answer :: "(err \<Rightarrow> code option) \<Rightarrow> 'a act \<Rightarrow> ('a \<Rightarrow> 'b) \<Rightarrow> 'b rpc" where
  "answer st m conv w =
     (case m w of (Inl e, w') \<Rightarrow> (Inl (toStatus st e), w') | (Inr x, w') \<Rightarrow> (Inr (conv x), w'))"

definition parsed :: "(err \<Rightarrow> code option) \<Rightarrow> err + 'a \<Rightarrow> ('a \<Rightarrow> 'b rpc) \<Rightarrow> 'b rpc" where
  "parsed st r k w = (case r of Inl e \<Rightarrow> (Inl (toStatus st e), w) | Inr x \<Rightarrow> k x w)"

section \<open>Numbers\<close>

text \<open>\<open>fmt.Sscanf(s, "%d", &g)\<close>: leading white space is skipped (a newline is an error), the digits end at the first
  other byte, what follows is not looked at.\<close>

definition wide_spaces :: "string list" where
  "wide_spaces = map (map (\<lambda>n. char_of (n :: nat)))
     ([[0xC2, 0x85], [0xC2, 0xA0], [0xE1, 0x9A, 0x80], [0xE2, 0x80, 0xA8], [0xE2, 0x80, 0xA9], [0xE2, 0x80, 0xAF],
       [0xE2, 0x81, 0x9F], [0xE3, 0x80, 0x80]] @ map (\<lambda>n. [0xE2, 0x80, n]) [0x80 ..< 0x8B])"

fun skip_spaces :: "nat \<Rightarrow> string \<Rightarrow> string option" where
  "skip_spaces 0 s = Some s"
| "skip_spaces (Suc n) s =
     (if s = [] then Some []
      else if hd s = CHR 0x0A then None
      else if hd s \<in> {CHR 0x09, CHR 0x0B, CHR 0x0C, CHR 0x0D, CHR '' ''} then skip_spaces n (tl s)
      else (case find (HasPrefix s) wide_spaces of
              Some p \<Rightarrow> skip_spaces n (drop (length p) s)
            | None \<Rightarrow> Some s))"

definition parseGeneration :: "string \<Rightarrow> err + u64" where
  "parseGeneration s =
     (case skip_spaces (length s) s of
        None \<Rightarrow> Inl (err ErrInvalid)
      | Some t \<Rightarrow>
         (case ParseUint64 (takeWhile is_digit t) of
            None \<Rightarrow> Inl (err ErrInvalid)
          | Some g \<Rightarrow> if g = 0 then Inl (err ErrInvalid) else Inr g))"

record MoneyMsg =
  mm_Currency :: string
  mm_Amount :: string

definition money :: "Money \<Rightarrow> MoneyMsg" where
  "money m = \<lparr>mm_Currency = m_Currency m, mm_Amount = fmt_int (m_Amount m)\<rparr>"

definition moneyOf :: "MoneyMsg option \<Rightarrow> err + Money" where
  "moneyOf m =
     (case m of
        None \<Rightarrow> Inl (err ErrInvalid)
      | Some v \<Rightarrow>
         (case ParseInt64 (mm_Amount v) of
            None \<Rightarrow> Inl (err ErrInvalid)
          | Some n \<Rightarrow> Inr \<lparr>m_Currency = mm_Currency v, m_Amount = n\<rparr>))"

definition revisionOf :: "string \<Rightarrow> err + u64" where
  "revisionOf s =
     (if s = [] then Inr 0
      else (case ParseUint64 s of None \<Rightarrow> Inl (err ErrInvalid) | Some n \<Rightarrow> Inr n))"

section \<open>Commands and scopes\<close>

record ScopeMsg =
  sm_TenantId :: string
  sm_ProjectId :: string
  sm_ActorId :: string
  sm_Roles :: "string list"

text \<open>\<open>scopeOf\<close>: the roles of a request count only from the API's workload.  \<open>cmdOf\<close> copies the fields.\<close>

definition scopeOf :: "peer_auth \<Rightarrow> ScopeMsg \<Rightarrow> Scope" where
  "scopeOf pr s =
     \<lparr>sc_TenantID = sm_TenantId s, sc_ProjectID = sm_ProjectId s, sc_ActorID = sm_ActorId s,
      sc_Roles = (case Caller pr of
         Some p \<Rightarrow> if pr_Namespace p = wl_Namespace api \<and> pr_ServiceAccount p = wl_ServiceAccount api then sm_Roles s else []
       | None \<Rightarrow> [])\<rparr>"

record CommandMsg =
  cm_TenantId :: string
  cm_CommandId :: string
  cm_ActorId :: string
  cm_RequestDigest :: string

definition cmdOf :: "CommandMsg \<Rightarrow> Command" where
  "cmdOf c = \<lparr>cmd_TenantID = cm_TenantId c, cmd_CommandID = cm_CommandId c, cmd_ActorID = cm_ActorId c,
     cmd_RequestDigest = cm_RequestDigest c\<rparr>"

end
