(* ===== verification/Grpc_Handlers.thy ===== *)
theory Grpc_Handlers
  imports Grpc_Server
begin

text \<open>
  The handlers of the gRPC services: \<open>backgroundServer\<close> (\<open>server.go\<close>), \<open>catalogServer\<close> and \<open>grantServer\<close>
  (\<open>catalog.go\<close>), \<open>callServer\<close> and \<open>refreshServer\<close> (\<open>calls.go\<close>), each with the messages it reads and writes.  A
  message is the record of the fields the code reads through its getters; \<open>UNSPECIFIED\<close> stands for every number
  of an enum without a name.  A timestamp is the instant it denotes, \<open>None\<close> an absent one.
\<close>

section \<open>Background tasks\<close>

datatype TaskStateMsg = TASK_STATE_UNSPECIFIED | TASK_STATE_PENDING | TASK_STATE_LEASED | TASK_STATE_RESULT_SUBMITTED
  | TASK_STATE_ACCEPTED | TASK_STATE_RETRY_SCHEDULED | TASK_STATE_DEAD | TASK_STATE_STALE | TASK_STATE_CANCELED

fun stateOf :: "TaskState \<Rightarrow> TaskStateMsg" where
  "stateOf StatePending = TASK_STATE_PENDING"
| "stateOf StateLeased = TASK_STATE_LEASED"
| "stateOf StateResultSubmitted = TASK_STATE_RESULT_SUBMITTED"
| "stateOf StateAccepted = TASK_STATE_ACCEPTED"
| "stateOf StateRetryScheduled = TASK_STATE_RETRY_SCHEDULED"
| "stateOf StateDead = TASK_STATE_DEAD"
| "stateOf StateStale = TASK_STATE_STALE"
| "stateOf StateCanceled = TASK_STATE_CANCELED"

record TaskMsg =
  tm_TaskId :: string
  tm_Generation :: string
  tm_TaskKind :: string
  tm_InputDigest :: string
  tm_State :: TaskStateMsg
  tm_AttemptCount :: string
  tm_WorkerId :: "string option"
  tm_LeaseUntil :: "time option"

definition toProto :: "Task \<Rightarrow> TaskMsg" where
  "toProto t =
     \<lparr>tm_TaskId = t_TaskID t, tm_Generation = fmt_u64 (t_Generation t), tm_TaskKind = t_Kind t,
      tm_InputDigest = t_InputDigest t, tm_State = stateOf (t_State t), tm_AttemptCount = fmt_int (uint (t_AttemptCount t)),
      tm_WorkerId = (if t_WorkerID t \<noteq> [] then Some (t_WorkerID t) else None),
      tm_LeaseUntil = (if t_State t = StateLeased \<and> \<not> IsZero (t_LeaseUntil t) then Some (t_LeaseUntil t) else None)\<rparr>"

record ClaimTaskRequest =
  ctr_TaskId :: string
  ctr_Generation :: string
  ctr_WorkerId :: string
  ctr_LeaseSeconds :: int

text \<open>The lease is a product of 64-bit durations.\<close>

definition ClaimTask :: "(err \<Rightarrow> code option) \<Rightarrow> env \<Rightarrow> Tasks \<Rightarrow> ClaimTaskRequest \<Rightarrow> (TaskMsg \<times> bytes) rpc" where
  "ClaimTask st E svc req =
     parsed st (parseGeneration (ctr_Generation req)) (\<lambda>gen.
     answer st (Claim E svc (ctr_TaskId req) gen (ctr_WorkerId req) (sint (word_of_int (ctr_LeaseSeconds req * second) :: u64)))
       (\<lambda>(task, input). (toProto task, input)))"

record HeartbeatTaskRequest =
  hbr_TaskId :: string
  hbr_Generation :: string
  hbr_WorkerId :: string

definition HeartbeatTask :: "(err \<Rightarrow> code option) \<Rightarrow> env \<Rightarrow> HeartbeatTaskRequest \<Rightarrow> TaskMsg rpc" where
  "HeartbeatTask st E req =
     parsed st (parseGeneration (hbr_Generation req)) (\<lambda>gen.
     answer st (Heartbeat E (hbr_TaskId req) gen (hbr_WorkerId req)) toProto)"

record SubmitTaskResultRequest =
  str_TaskId :: string
  str_Generation :: string
  str_WorkerId :: string
  str_InputDigest :: string
  str_Succeeded :: bool
  str_ResultRef :: string
  str_ResultDigest :: string
  str_FailureCode :: string

definition submission_of :: "SubmitTaskResultRequest \<Rightarrow> Submission" where
  "submission_of req =
     \<lparr>s_WorkerID = str_WorkerId req, s_InputDigest = str_InputDigest req, s_Succeeded = str_Succeeded req,
      s_ResultRef = str_ResultRef req, s_ResultDigest = str_ResultDigest req, s_FailureCode = str_FailureCode req\<rparr>"

definition SubmitTaskResult ::
  "(err \<Rightarrow> code option) \<Rightarrow> env \<Rightarrow> Tasks \<Rightarrow> SubmitTaskResultRequest \<Rightarrow> (TaskMsg \<times> bool \<times> bool) rpc" where
  "SubmitTaskResult st E svc req =
     parsed st (parseGeneration (str_Generation req)) (\<lambda>gen.
     answer st (Submit E svc (str_TaskId req) gen (submission_of req))
       (\<lambda>d. (toProto (sd_Task d), sd_Accepted d, sd_Existing d)))"

definition GetTask :: "(err \<Rightarrow> code option) \<Rightarrow> env \<Rightarrow> string \<Rightarrow> TaskMsg rpc" where
  "GetTask st E taskId = answer st (Get E taskId) toProto"

section \<open>The catalog\<close>

datatype CatalogStateMsg = CATALOG_STATE_UNSPECIFIED | CATALOG_STATE_DISCOVERED | CATALOG_STATE_REVIEW_PENDING
  | CATALOG_STATE_APPROVED | CATALOG_STATE_REJECTED | CATALOG_STATE_DISABLED

fun catalogStateTo :: "CatalogState \<Rightarrow> CatalogStateMsg" where
  "catalogStateTo CatalogDiscovered = CATALOG_STATE_DISCOVERED"
| "catalogStateTo CatalogReviewPending = CATALOG_STATE_REVIEW_PENDING"
| "catalogStateTo CatalogApproved = CATALOG_STATE_APPROVED"
| "catalogStateTo CatalogRejected = CATALOG_STATE_REJECTED"
| "catalogStateTo CatalogDisabled = CATALOG_STATE_DISABLED"

fun catalogStateOf :: "CatalogStateMsg \<Rightarrow> string" where
  "catalogStateOf CATALOG_STATE_UNSPECIFIED = []"
| "catalogStateOf CATALOG_STATE_DISCOVERED = ''discovered''"
| "catalogStateOf CATALOG_STATE_REVIEW_PENDING = ''review_pending''"
| "catalogStateOf CATALOG_STATE_APPROVED = ''approved''"
| "catalogStateOf CATALOG_STATE_REJECTED = ''rejected''"
| "catalogStateOf CATALOG_STATE_DISABLED = ''disabled''"

record ToolSchemaMsg =
  tsm_Method :: string
  tsm_InputSchemaDigest :: string
  tsm_OutputSchemaDigest :: string
  tsm_SideEffecting :: bool
  tsm_UnitPrice :: "MoneyMsg option"
  tsm_Idempotent :: bool
  tsm_QuerySupported :: bool
  tsm_AnnotationsDigest :: string

record DescriptorMsg =
  dm_ServerId :: string
  dm_Revision :: string
  dm_CanonicalResource :: string
  dm_Transport :: string
  dm_ProtocolVersion :: string
  dm_Provenance :: string
  dm_DescriptorDigest :: string
  dm_State :: CatalogStateMsg
  dm_CreatedAt :: time
  dm_UpdatedAt :: time
  dm_ServerName :: string
  dm_ServerVersion :: string
  dm_ResourcesDigest :: string
  dm_PromptsDigest :: string
  dm_DataClass :: string
  dm_NetworkScope :: "string list"
  dm_Licenses :: "string list"
  dm_RevisionEvidence :: string
  dm_DiscoveredBy :: string
  dm_ReviewId :: "string option"
  dm_Reviewer :: "string option"
  dm_Tools :: "ToolSchemaMsg list"

definition proto_string :: "string \<Rightarrow> string option" where
  "proto_string s = (if s \<noteq> [] then Some s else None)"

definition toTool :: "Tool \<Rightarrow> ToolSchemaMsg" where
  "toTool t =
     \<lparr>tsm_Method = tl_Method t, tsm_InputSchemaDigest = tl_InputSchemaDigest t, tsm_OutputSchemaDigest = tl_OutputSchemaDigest t,
      tsm_SideEffecting = tl_SideEffecting t, tsm_UnitPrice = Some (money (tl_UnitPrice t)), tsm_Idempotent = tl_Idempotent t,
      tsm_QuerySupported = tl_QuerySupported t, tsm_AnnotationsDigest = tl_AnnotationsDigest t\<rparr>"

text \<open>A use case that answers without a descriptor answers Go's zero value.\<close>

definition toDescriptor :: "Descriptor option \<Rightarrow> DescriptorMsg" where
  "toDescriptor v =
     (case v of
        None \<Rightarrow> \<lparr>dm_ServerId = [], dm_Revision = ''0'', dm_CanonicalResource = [], dm_Transport = [], dm_ProtocolVersion = [],
           dm_Provenance = [], dm_DescriptorDigest = [], dm_State = CATALOG_STATE_UNSPECIFIED, dm_CreatedAt = zero_time,
           dm_UpdatedAt = zero_time, dm_ServerName = [], dm_ServerVersion = [], dm_ResourcesDigest = [], dm_PromptsDigest = [],
           dm_DataClass = [], dm_NetworkScope = [], dm_Licenses = [], dm_RevisionEvidence = [], dm_DiscoveredBy = [],
           dm_ReviewId = None, dm_Reviewer = None, dm_Tools = []\<rparr>
      | Some d \<Rightarrow> \<lparr>dm_ServerId = d_ServerID d, dm_Revision = fmt_u64 (d_Revision d), dm_CanonicalResource = d_CanonicalResource d,
           dm_Transport = d_Transport d, dm_ProtocolVersion = d_ProtocolVersion d, dm_Provenance = d_Provenance d,
           dm_DescriptorDigest = d_Digest d, dm_State = catalogStateTo (d_State d), dm_CreatedAt = d_CreatedAt d,
           dm_UpdatedAt = d_UpdatedAt d, dm_ServerName = d_ServerName d, dm_ServerVersion = d_ServerVersion d,
           dm_ResourcesDigest = d_ResourcesDigest d, dm_PromptsDigest = d_PromptsDigest d, dm_DataClass = d_DataClass d,
           dm_NetworkScope = d_NetworkScope d, dm_Licenses = d_Licenses d, dm_RevisionEvidence = d_RevisionEvidence d,
           dm_DiscoveredBy = d_DiscoveredBy d, dm_ReviewId = proto_string (d_ReviewID d), dm_Reviewer = proto_string (d_Reviewer d),
           dm_Tools = map toTool (d_Tools d)\<rparr>)"

record ListRequest =
  lr_Scope :: ScopeMsg
  lr_Cursor :: string
  lr_Limit :: int

record ListCatalogRequest = ListRequest +
  lcr_State :: CatalogStateMsg

definition ListCatalog ::
  "(err \<Rightarrow> code option) \<Rightarrow> env \<Rightarrow> Catalog \<Rightarrow> peer_auth \<Rightarrow> ListCatalogRequest \<Rightarrow> (DescriptorMsg list \<times> string) rpc" where
  "ListCatalog st E c pr req =
     answer st (List_descriptors E c (scopeOf pr (lr_Scope req)) (catalogStateOf (lcr_State req)) (lr_Cursor req) (lr_Limit req))
       (\<lambda>(ds, cursor). (map (\<lambda>d. toDescriptor (Some d)) ds, cursor))"

record GetDescriptorRequest =
  gdr_Scope :: ScopeMsg
  gdr_ServerId :: string
  gdr_Revision :: string

definition GetDescriptor_rpc ::
  "(err \<Rightarrow> code option) \<Rightarrow> env \<Rightarrow> Catalog \<Rightarrow> peer_auth \<Rightarrow> GetDescriptorRequest \<Rightarrow> DescriptorMsg rpc" where
  "GetDescriptor_rpc st E c pr req =
     parsed st (revisionOf (gdr_Revision req)) (\<lambda>rev.
     answer st (Get_descriptor E c (scopeOf pr (gdr_Scope req)) (gdr_ServerId req) rev) (\<lambda>d. toDescriptor (Some d)))"

record DiscoverServerRequest =
  dsr_Command :: CommandMsg
  dsr_Scope :: ScopeMsg
  dsr_CanonicalResource :: string
  dsr_Transport :: string
  dsr_ProtocolVersion :: string
  dsr_Provenance :: string
  dsr_DescriptorDigest :: string
  dsr_DataClass :: string
  dsr_NetworkScope :: "string list"
  dsr_Licenses :: "string list"
  dsr_Tools :: "ToolSchemaMsg list"

fun declared_tools :: "ToolSchemaMsg list \<Rightarrow> err + ToolDeclaration list" where
  "declared_tools [] = Inr []"
| "declared_tools (t # us) =
     (case moneyOf (tsm_UnitPrice t) of
        Inl e \<Rightarrow> Inl e
      | Inr price \<Rightarrow>
         (case declared_tools us of
            Inl e \<Rightarrow> Inl e
          | Inr rest \<Rightarrow> Inr (\<lparr>td_Method = tsm_Method t, td_InputSchemaDigest = tsm_InputSchemaDigest t,
                td_OutputSchemaDigest = tsm_OutputSchemaDigest t, td_SideEffecting = tsm_SideEffecting t, td_UnitPrice = price,
                td_Idempotent = tsm_Idempotent t, td_QuerySupported = tsm_QuerySupported t\<rparr> # rest)))"

definition DiscoverServer ::
  "(err \<Rightarrow> code option) \<Rightarrow> env \<Rightarrow> Catalog \<Rightarrow> peer_auth \<Rightarrow> DiscoverServerRequest \<Rightarrow> (DescriptorMsg \<times> bool) rpc" where
  "DiscoverServer st E c pr req =
     parsed st (declared_tools (dsr_Tools req)) (\<lambda>tools.
     answer st (Discover E c (cmdOf (dsr_Command req)) (scopeOf pr (dsr_Scope req))
         \<lparr>dc_CanonicalResource = dsr_CanonicalResource req, dc_Transport = dsr_Transport req,
          dc_ProtocolVersion = dsr_ProtocolVersion req, dc_Provenance = dsr_Provenance req,
          dc_ExpectedDigest = dsr_DescriptorDigest req, dc_Tools = tools, dc_DataClass = dsr_DataClass req,
          dc_NetworkScope = dsr_NetworkScope req, dc_Licenses = dsr_Licenses req\<rparr>)
       (\<lambda>(d, existing). (toDescriptor d, existing)))"

datatype ReviewDecisionMsg = REVIEW_DECISION_UNSPECIFIED | REVIEW_DECISION_APPROVE | REVIEW_DECISION_REJECT

record ReviewDescriptorRequest =
  rdr_Command :: CommandMsg
  rdr_Scope :: ScopeMsg
  rdr_ServerId :: string
  rdr_Revision :: string
  rdr_DescriptorDigest :: string
  rdr_Decision :: ReviewDecisionMsg
  rdr_ReasonCode :: string

definition decisionOf :: "ReviewDecisionMsg \<Rightarrow> ReviewDecision" where
  "decisionOf d = (if d = REVIEW_DECISION_REJECT then ReviewReject else ReviewApprove)"

definition ReviewDescriptor ::
  "(err \<Rightarrow> code option) \<Rightarrow> env \<Rightarrow> Catalog \<Rightarrow> peer_auth \<Rightarrow> ReviewDescriptorRequest \<Rightarrow> (DescriptorMsg \<times> bool) rpc" where
  "ReviewDescriptor st E c pr req =
     parsed st (revisionOf (rdr_Revision req)) (\<lambda>rev.
     answer st (Review_descriptor E c (cmdOf (rdr_Command req)) (scopeOf pr (rdr_Scope req)) (rdr_ServerId req) rev
         (rdr_DescriptorDigest req) (decisionOf (rdr_Decision req)) (rdr_ReasonCode req))
       (\<lambda>(d, existing). (toDescriptor d, existing)))"

record DisableDescriptorRequest =
  ddr_Command :: CommandMsg
  ddr_Scope :: ScopeMsg
  ddr_ServerId :: string
  ddr_Revision :: string
  ddr_ReasonCode :: string

definition DisableDescriptor ::
  "(err \<Rightarrow> code option) \<Rightarrow> env \<Rightarrow> Catalog \<Rightarrow> peer_auth \<Rightarrow> DisableDescriptorRequest \<Rightarrow> (DescriptorMsg \<times> bool) rpc" where
  "DisableDescriptor st E c pr req =
     parsed st (revisionOf (ddr_Revision req)) (\<lambda>rev.
     answer st (Disable E c (cmdOf (ddr_Command req)) (scopeOf pr (ddr_Scope req)) (ddr_ServerId req) rev (ddr_ReasonCode req))
       (\<lambda>(d, existing). (toDescriptor d, existing)))"

section \<open>Grants\<close>

datatype GrantStateMsg = GRANT_STATE_UNSPECIFIED | GRANT_STATE_PENDING | GRANT_STATE_ACTIVE | GRANT_STATE_REVOKING
  | GRANT_STATE_REVOKED | GRANT_STATE_EXPIRED | GRANT_STATE_REGISTRATION_FAILED

fun grantStateTo :: "GrantState \<Rightarrow> GrantStateMsg" where
  "grantStateTo GrantPending = GRANT_STATE_PENDING"
| "grantStateTo GrantActive = GRANT_STATE_ACTIVE"
| "grantStateTo GrantRevoking = GRANT_STATE_REVOKING"
| "grantStateTo GrantRevoked = GRANT_STATE_REVOKED"
| "grantStateTo GrantExpired = GRANT_STATE_EXPIRED"
| "grantStateTo GrantRegistrationFailed = GRANT_STATE_REGISTRATION_FAILED"

fun grantStateOf :: "GrantStateMsg \<Rightarrow> string" where
  "grantStateOf GRANT_STATE_UNSPECIFIED = []"
| "grantStateOf GRANT_STATE_PENDING = ''pending''"
| "grantStateOf GRANT_STATE_ACTIVE = ''active''"
| "grantStateOf GRANT_STATE_REVOKING = ''revoking''"
| "grantStateOf GRANT_STATE_REVOKED = ''revoked''"
| "grantStateOf GRANT_STATE_EXPIRED = ''expired''"
| "grantStateOf GRANT_STATE_REGISTRATION_FAILED = ''registration_failed''"

record GrantMsg =
  gm_GrantId :: string
  gm_Revision :: string
  gm_TenantId :: string
  gm_SubjectType :: string
  gm_SubjectId :: string
  gm_ServerId :: string
  gm_DescriptorRevision :: string
  gm_DescriptorDigest :: string
  gm_Methods :: "string list"
  gm_Purpose :: string
  gm_CostCap :: MoneyMsg
  gm_State :: GrantStateMsg
  gm_CreatedAt :: time
  gm_UpdatedAt :: time
  gm_CanonicalResource :: string
  gm_Transport :: string
  gm_ProtocolVersion :: string
  gm_Issuer :: string
  gm_Audience :: string
  gm_ResourceSelectors :: "string list"
  gm_PromptSelectors :: "string list"
  gm_DataClass :: string
  gm_PolicyDigest :: string
  gm_PolicyEpoch :: string
  gm_ControlReceiptId :: "string option"
  gm_ExpiresAt :: "time option"
  gm_FailureCode :: "string option"

definition toGrant :: "Grant \<Rightarrow> GrantMsg" where
  "toGrant g =
     \<lparr>gm_GrantId = g_GrantID g, gm_Revision = fmt_u64 (g_Revision g), gm_TenantId = g_TenantID g,
      gm_SubjectType = g_SubjectType g, gm_SubjectId = g_SubjectID g, gm_ServerId = g_ServerID g,
      gm_DescriptorRevision = fmt_u64 (g_DescriptorRevision g), gm_DescriptorDigest = g_DescriptorDigest g,
      gm_Methods = g_Methods g, gm_Purpose = g_Purpose g, gm_CostCap = money (g_CostCap g), gm_State = grantStateTo (g_State g),
      gm_CreatedAt = g_CreatedAt g, gm_UpdatedAt = g_UpdatedAt g, gm_CanonicalResource = g_CanonicalResource g,
      gm_Transport = g_Transport g, gm_ProtocolVersion = g_ProtocolVersion g, gm_Issuer = g_Issuer g, gm_Audience = g_Audience g,
      gm_ResourceSelectors = g_ResourceSelectors g, gm_PromptSelectors = g_PromptSelectors g, gm_DataClass = g_DataClass g,
      gm_PolicyDigest = g_PolicyDigest g, gm_PolicyEpoch = (if g_PolicyEpoch g \<noteq> 0 then fmt_u64 (g_PolicyEpoch g) else []),
      gm_ControlReceiptId = proto_string (g_ControlReceiptID g), gm_ExpiresAt = g_ExpiresAt g,
      gm_FailureCode = proto_string (g_FailureCode g)\<rparr>"

record CreateGrantRequest =
  cgr_Command :: CommandMsg
  cgr_Scope :: ScopeMsg
  cgr_SubjectType :: string
  cgr_SubjectId :: string
  cgr_ServerId :: string
  cgr_DescriptorRevision :: string
  cgr_DescriptorDigest :: string
  cgr_Methods :: "string list"
  cgr_ResourceSelectors :: "string list"
  cgr_PromptSelectors :: "string list"
  cgr_Purpose :: string
  cgr_DataClass :: string
  cgr_CostCap :: "MoneyMsg option"
  cgr_ExpiresAt :: "time option"

definition CreateGrant ::
  "(err \<Rightarrow> code option) \<Rightarrow> env \<Rightarrow> Grants \<Rightarrow> peer_auth \<Rightarrow> CreateGrantRequest \<Rightarrow> (GrantMsg \<times> bool) rpc" where
  "CreateGrant st E svc pr req =
     parsed st (revisionOf (cgr_DescriptorRevision req)) (\<lambda>rev.
     parsed st (moneyOf (cgr_CostCap req)) (\<lambda>capMoney.
     answer st (Create E svc (cmdOf (cgr_Command req)) (scopeOf pr (cgr_Scope req))
         \<lparr>gr_SubjectType = cgr_SubjectType req, gr_SubjectID = cgr_SubjectId req, gr_ServerID = cgr_ServerId req,
          gr_DescriptorRev = rev, gr_DescriptorDigest = cgr_DescriptorDigest req, gr_Methods = cgr_Methods req,
          gr_ResourceSelectors = cgr_ResourceSelectors req, gr_PromptSelectors = cgr_PromptSelectors req,
          gr_Purpose = cgr_Purpose req, gr_DataClass = cgr_DataClass req, gr_CostCap = capMoney,
          gr_ExpiresAt = cgr_ExpiresAt req\<rparr>)
       (\<lambda>(g, existing). (toGrant g, existing))))"

definition GetGrant_rpc :: "(err \<Rightarrow> code option) \<Rightarrow> env \<Rightarrow> Grants \<Rightarrow> peer_auth \<Rightarrow> ScopeMsg \<Rightarrow> string \<Rightarrow> GrantMsg rpc" where
  "GetGrant_rpc st E svc pr scope grantId = answer st (Get_grant E svc (scopeOf pr scope) grantId) toGrant"

record ListGrantsRequest = ListRequest +
  lgr_State :: GrantStateMsg

definition ListGrants_rpc ::
  "(err \<Rightarrow> code option) \<Rightarrow> env \<Rightarrow> Grants \<Rightarrow> peer_auth \<Rightarrow> ListGrantsRequest \<Rightarrow> (GrantMsg list \<times> string) rpc" where
  "ListGrants_rpc st E svc pr req =
     answer st (List_grants E svc (scopeOf pr (lr_Scope req)) (grantStateOf (lgr_State req)) (lr_Cursor req) (lr_Limit req))
       (\<lambda>(gs, cursor). (map toGrant gs, cursor))"

record RevokeGrantRequest =
  rgr_Command :: CommandMsg
  rgr_Scope :: ScopeMsg
  rgr_GrantId :: string
  rgr_ExpectedRevision :: string
  rgr_ReasonCode :: string

definition RevokeGrant ::
  "(err \<Rightarrow> code option) \<Rightarrow> env \<Rightarrow> Grants \<Rightarrow> peer_auth \<Rightarrow> RevokeGrantRequest \<Rightarrow> (GrantMsg \<times> bool) rpc" where
  "RevokeGrant st E svc pr req =
     parsed st (revisionOf (rgr_ExpectedRevision req)) (\<lambda>rev.
     answer st (Revoke E svc (cmdOf (rgr_Command req)) (scopeOf pr (rgr_Scope req)) (rgr_GrantId req) rev (rgr_ReasonCode req))
       (\<lambda>(g, existing). (toGrant g, existing)))"

record ProgressMsg =
  pm_Grant :: GrantMsg
  pm_NewAdmissionBlocked :: bool
  pm_SendersConverged :: bool
  pm_InFlightCalls :: string
  pm_UnknownCalls :: string
  pm_ControlState :: string
  pm_OpenCalls :: string

definition GetRevocationProgress ::
  "(err \<Rightarrow> code option) \<Rightarrow> env \<Rightarrow> Grants \<Rightarrow> peer_auth \<Rightarrow> ScopeMsg \<Rightarrow> string \<Rightarrow> ProgressMsg rpc" where
  "GetRevocationProgress st E svc pr scope grantId =
     answer st (Progress_grant E svc (scopeOf pr scope) grantId)
       (\<lambda>p. \<lparr>pm_Grant = toGrant (p_Grant p), pm_NewAdmissionBlocked = p_NewAdmissionBlocked p,
             pm_SendersConverged = p_SendersConverged p, pm_InFlightCalls = fmt_u64 (g_InFlightCalls (p_Grant p)),
             pm_UnknownCalls = fmt_u64 (g_UnknownCalls (p_Grant p)), pm_ControlState = g_ControlState (p_Grant p),
             pm_OpenCalls = fmt_u64 (p_OpenCalls p)\<rparr>)"

section \<open>Calls\<close>

datatype CallStateMsg = CALL_STATE_UNSPECIFIED | CALL_STATE_ACCEPTED | CALL_STATE_ADMITTED | CALL_STATE_SENT
  | CALL_STATE_SUCCEEDED | CALL_STATE_FAILED | CALL_STATE_DENIED | CALL_STATE_UNKNOWN | CALL_STATE_CANCELED

fun callStateTo :: "CallState \<Rightarrow> CallStateMsg" where
  "callStateTo CallAccepted = CALL_STATE_ACCEPTED"
| "callStateTo CallAdmitted = CALL_STATE_ADMITTED"
| "callStateTo CallSent = CALL_STATE_SENT"
| "callStateTo CallSucceeded = CALL_STATE_SUCCEEDED"
| "callStateTo CallFailed = CALL_STATE_FAILED"
| "callStateTo CallDenied = CALL_STATE_DENIED"
| "callStateTo CallUnknown = CALL_STATE_UNKNOWN"
| "callStateTo CallCanceled = CALL_STATE_CANCELED"

record ToolCallMsg =
  tc_CallId :: string
  tc_TenantId :: string
  tc_GrantId :: string
  tc_GrantRevision :: string
  tc_ServerId :: string
  tc_Method :: string
  tc_ArgumentDigest :: string
  tc_State :: CallStateMsg
  tc_CreatedAt :: time
  tc_UpdatedAt :: time
  tc_Result :: bytes
  tc_DescriptorRevision :: string
  tc_DescriptorDigest :: string
  tc_ProtocolVersion :: string
  tc_ControlDispatchId :: "string option"
  tc_ResultRef :: "string option"
  tc_ResultDigest :: "string option"
  tc_FailureCode :: "string option"

definition toCall :: "Call \<Rightarrow> ToolCallMsg" where
  "toCall c =
     \<lparr>tc_CallId = c_CallID c, tc_TenantId = c_TenantID c, tc_GrantId = c_GrantID c, tc_GrantRevision = fmt_u64 (c_GrantRevision c),
      tc_ServerId = c_ServerID c, tc_Method = c_Method c, tc_ArgumentDigest = c_ArgumentDigest c, tc_State = callStateTo (c_State c),
      tc_CreatedAt = c_CreatedAt c, tc_UpdatedAt = c_UpdatedAt c, tc_Result = c_Result c,
      tc_DescriptorRevision = fmt_u64 (c_DescriptorRevision c), tc_DescriptorDigest = c_DescriptorDigest c,
      tc_ProtocolVersion = c_ProtocolVersion c, tc_ControlDispatchId = proto_string (c_DispatchID c),
      tc_ResultRef = proto_string (c_ResultRef c),
      tc_ResultDigest = (if c_ResultRef c \<noteq> [] then Some (c_ResultDigest c) else None),
      tc_FailureCode = proto_string (c_FailureCode c)\<rparr>"

record CreateCallRequest =
  ccr_Command :: CommandMsg
  ccr_Scope :: ScopeMsg
  ccr_GrantId :: string
  ccr_GrantRevision :: string
  ccr_Method :: string
  ccr_ArgumentRef :: string
  ccr_ArgumentDigest :: string
  ccr_Arguments :: bytes
  ccr_OperationId :: string
  ccr_AttemptId :: string
  ccr_InstanceId :: string
  ccr_ExecutionEpoch :: string
  ccr_Deadline :: "time option"

text \<open>An absent deadline is the Unix epoch.  \<open>None\<close> as a result: the given rounds of \<open>Create_call\<close> did not suffice.\<close>

definition CreateCall ::
  "nat \<Rightarrow> (err \<Rightarrow> code option) \<Rightarrow> env \<Rightarrow> Calls \<Rightarrow> peer_auth \<Rightarrow> CreateCallRequest \<Rightarrow> (ToolCallMsg \<times> bool) option rpc" where
  "CreateCall n st E c pr req =
     parsed st (revisionOf (ccr_GrantRevision req)) (\<lambda>rev.
     parsed st (revisionOf (ccr_ExecutionEpoch req)) (\<lambda>epoch.
     answer st (Create_call n E c (cmdOf (ccr_Command req)) (scopeOf pr (ccr_Scope req))
         \<lparr>cr_GrantID = ccr_GrantId req, cr_GrantRevision = rev, cr_Method = ccr_Method req, cr_ArgumentRef = ccr_ArgumentRef req,
          cr_ArgumentDigest = ccr_ArgumentDigest req, cr_Arguments = ccr_Arguments req, cr_OperationID = ccr_OperationId req,
          cr_AttemptID = ccr_AttemptId req, cr_InstanceID = ccr_InstanceId req, cr_ExecutionEpoch = epoch,
          cr_Deadline = (case ccr_Deadline req of None \<Rightarrow> 0 | Some t \<Rightarrow> t)\<rparr>)
       (map_option (\<lambda>(call, existing). (toCall call, existing)))))"

definition GetCall_rpc :: "(err \<Rightarrow> code option) \<Rightarrow> env \<Rightarrow> peer_auth \<Rightarrow> ScopeMsg \<Rightarrow> string \<Rightarrow> ToolCallMsg rpc" where
  "GetCall_rpc st E pr scope callId = answer st (Get_call E (scopeOf pr scope) callId) toCall"

definition ReconcileCall_rpc :: "(err \<Rightarrow> code option) \<Rightarrow> env \<Rightarrow> Calls \<Rightarrow> peer_auth \<Rightarrow> ScopeMsg \<Rightarrow> string \<Rightarrow> ToolCallMsg rpc" where
  "ReconcileCall_rpc st E c pr scope callId = answer st (ReconcileCallAs E c (scopeOf pr scope) callId) toCall"

section \<open>Refreshes\<close>

datatype RefreshStateMsg = REFRESH_STATE_FAILED | REFRESH_STATE_COMPLETED

record AdvanceRefreshRequest =
  arr_TaskId :: string
  arr_Generation :: string
  arr_WorkerId :: string
  arr_InputDigest :: string

record AdvanceRefreshResponse =
  arp_State :: RefreshStateMsg
  arp_FailureCode :: "string option"
  arp_ResultRef :: string
  arp_ResultDigest :: string

text \<open>A generation that does not parse is returned as the plain error, without \<open>toStatus\<close>: gRPC answers \<open>Unknown\<close>.\<close>

definition AdvanceRefresh ::
  "(err \<Rightarrow> code option) \<Rightarrow> env \<Rightarrow> Refresh \<Rightarrow> AdvanceRefreshRequest \<Rightarrow> AdvanceRefreshResponse rpc" where
  "AdvanceRefresh st E r req w =
     (case parseGeneration (arr_Generation req) of
        Inl e \<Rightarrow> (Inl Unknown, w)
      | Inr gen \<Rightarrow>
         answer st (Advance_refresh E r (arr_TaskId req) gen (arr_WorkerId req) (arr_InputDigest req))
           (\<lambda>out. if \<not> ro_Completed out
                  then \<lparr>arp_State = REFRESH_STATE_FAILED, arp_FailureCode = Some (ro_FailureCode out), arp_ResultRef = [],
                        arp_ResultDigest = []\<rparr>
                  else \<lparr>arp_State = REFRESH_STATE_COMPLETED, arp_FailureCode = None, arp_ResultRef = ro_ResultRef out,
                        arp_ResultDigest = ro_ResultDigest out\<rparr>) w)"

section \<open>Who reaches a handler\<close>

text \<open>The access matrix by service: the health service for every verified workload, the catalog, the grants and the
  operator's reconciliation for the API, the calls for the API and a job's sidecar, the refresh for the worker, the
  task lane for the worker and this service itself.\<close>

definition service_of :: "string \<Rightarrow> string" where
  "service_of method = takeWhile (\<lambda>c. c \<noteq> CHR ''/'') (TrimPrefix method ''/'')"

definition permitted :: "string \<Rightarrow> Workload \<Rightarrow> bool" where
  "permitted method w =
     (let svc = service_of method in
      if svc = ''grpc.health.v1.Health'' then True
      else if svc = ''anvilkit.mcp.v1.CatalogService'' \<or> svc = ''anvilkit.mcp.v1.GrantService''
              \<or> method = ''/anvilkit.mcp.v1.CallService/ReconcileCall'' then w = api
      else if svc = ''anvilkit.mcp.v1.CallService'' then w \<in> {api, sidecar}
      else if svc = ''anvilkit.mcp.v1.CatalogRefreshService'' then w = backgroundWorker
      else if svc = ''anvilkit.mcp.v1.BackgroundTaskService'' then w \<in> {backgroundWorker, mcp}
      else False)"

definition workload_of :: "Principal \<Rightarrow> Workload" where
  "workload_of p = \<lparr>wl_Namespace = pr_Namespace p, wl_ServiceAccount = pr_ServiceAccount p\<rparr>"

lemma policy_is_matrix:
  "list_all (\<lambda>(m, ws). list_all (\<lambda>w. if w = AnyAuthenticated then service_of m = ''grpc.health.v1.Health'' else permitted m w) ws) Policy_mcp"
  by code_simp

lemma workload_eqI: "wl_Namespace w = pr_Namespace p \<Longrightarrow> wl_ServiceAccount w = pr_ServiceAccount p \<Longrightarrow> w = workload_of p"
  by (cases w) (simp add: workload_of_def)

lemma allowed_is_permitted:
  assumes "list_ex (\<lambda>w. w = AnyAuthenticated \<or> (wl_Namespace w = pr_Namespace p \<and> wl_ServiceAccount w = pr_ServiceAccount p))
    (policy_entry Policy_mcp method)"
  shows "permitted method (workload_of p)"
proof -
  from assms obtain w where entry: "w \<in> set (policy_entry Policy_mcp method)"
    and here: "w = AnyAuthenticated \<or> w = workload_of p"
    using workload_eqI by (auto simp: list_ex_iff)
  from entry obtain ws where ws: "map_of Policy_mcp method = Some ws" and w: "w \<in> set ws"
    by (cases "map_of Policy_mcp method") (auto simp: policy_entry_def)
  from map_of_SomeD [OF ws] policy_is_matrix w
  have "if w = AnyAuthenticated then service_of method = ''grpc.health.v1.Health'' else permitted method w"
    by (auto simp: list_all_iff)
  with here show ?thesis by (auto simp: permitted_def Let_def split: if_splits)
qed

lemma server_authorizer:
  assumes "NewServerWithIdentity methods (Some (domain, policy)) catalog calls refresh = Inr authz"
  shows "authz = Some \<lparr>ai_trustDomain = domain, ai_policy = policy\<rparr>"
  using assms by (auto simp: NewServerWithIdentity_def NewAuthorizer_identity_def Let_def split: if_splits sum.splits)

lemma Authorize_Inr:
  assumes "Authorize a pr method = Inr u"
  obtains p where "Caller pr = Some p" "Allowed_method a method p"
  using assms by (auto simp: Authorize_def Caller_def split: peer_auth.splits sum.splits if_splits)

text \<open>C12. A request reaches a handler only from a verified workload the access matrix permits: on a server with an
  identity, a request that is answered or that changes the state came over a connection whose caller belongs to
  the trust domain and is permitted for the method, within the capacity and after the request validator; the
  outcome is the handler's.  The roles a request carries count only when that caller is the API's workload.\<close>

theorem served_call_is_permitted:
  assumes server: "NewServerWithIdentity methods (Some (domain, Policy_mcp)) catalog calls refresh = Inr authz"
    and run: "serve authz pr method capacity used valid req handler s = (out, s')"
    and effect: "s' \<noteq> s \<or> (\<exists>x. out = Inr x)"
  shows "\<exists>p. Caller pr = Some p \<and> pr_TrustDomain p = domain \<and> permitted method (workload_of p)
    \<and> used < capacity \<and> valid req \<and> handler s = (out, s')
    \<and> (workload_of p \<noteq> api \<longrightarrow> sc_Roles (scopeOf pr sm) = [])"
proof -
  let ?a = "\<lparr>ai_trustDomain = domain, ai_policy = Policy_mcp\<rparr>"
  from run effect have auth: "Authorize ?a pr method = Inr ()"
    and inner: "used < capacity" "valid req" "handler s = (out, s')"
    by (auto simp: server_authorizer [OF server] serve_def Unary_def bounded_slots_def validateUnary_def Let_def
        split: sum.splits if_splits)
  from auth obtain p where p: "Caller pr = Some p" and allowed: "Allowed_method ?a method p" by (rule Authorize_Inr)
  from allowed have "pr_TrustDomain p = domain" "permitted method (workload_of p)"
    by (auto simp: Allowed_method_def intro: allowed_is_permitted split: if_splits)
  moreover have "workload_of p \<noteq> api \<longrightarrow> sc_Roles (scopeOf pr sm) = []"
    by (auto simp: scopeOf_def p workload_of_def api_def)
  ultimately show ?thesis using p inner by blast
qed

text \<open>The services as this build registers them, and a request of the API.\<close>

definition sample_methods :: "string \<Rightarrow> string list" where
  "sample_methods svc = map (\<lambda>m. drop (length svc + 2) m) (filter (\<lambda>m. service_of m = svc) (map fst Policy_mcp))"

definition api_peer :: peer_auth where
  "api_peer = WorkloadAuth \<lparr>pi_Principal = Inr \<lparr>pr_TrustDomain = ''prod.example'', pr_Namespace = ''anvilkit-apps'',
     pr_ServiceAccount = ''anvilkit-agent-api''\<rparr>,
     pi_Root = \<lparr>xc_Raw = [], xc_URIs = [], xc_NotBefore = 0, xc_NotAfter = 0, xc_IsCA = True\<rparr>\<rparr>"

lemma server_builds:
  "NewServerWithIdentity sample_methods (Some (''prod.example'', Policy_mcp)) True True True
     = Inr (Some \<lparr>ai_trustDomain = ''prod.example'', ai_policy = Policy_mcp\<rparr>)"
  by code_simp

lemma sample_served:
  "serve (Some \<lparr>ai_trustDomain = ''prod.example'', ai_policy = Policy_mcp\<rparr>) api_peer ''/anvilkit.mcp.v1.GrantService/RevokeGrant''
     4 1 (\<lambda>r. r = (7 :: nat)) 7 (\<lambda>s. (Inr (), s + 1)) (0 :: nat) = (Inr (), 1)"
  by code_simp

text \<open>The API revokes a grant.\<close>

theorem served_call_is_permitted_witness:
  "\<exists>p. Caller api_peer = Some p \<and> pr_TrustDomain p = ''prod.example''
     \<and> permitted ''/anvilkit.mcp.v1.GrantService/RevokeGrant'' (workload_of p)"
  using served_call_is_permitted [OF server_builds sample_served] by fastforce

section \<open>Numbers on the wire\<close>

lemma digits_int_nonempty: "digits_int n \<noteq> []"
  by (simp add: digits_int.simps [of n])

lemma fmt_u64_digits: "list_all is_digit (fmt_u64 w)" "fmt_u64 w \<noteq> []"
  by (simp_all add: fmt_u64_def digits_int_digits digits_int_nonempty)

lemma ParseUint64_fmt [simp]: "ParseUint64 (fmt_u64 w) = Some w"
  using fmt_u64_digits [of w] uint_lt2p [of w] by (simp add: ParseUint64_def) (simp add: fmt_u64_def parse_digits_int)

lemma takeWhile_fmt: "takeWhile is_digit (fmt_u64 w) = fmt_u64 w"
  using fmt_u64_digits(1) [of w] by (simp only: takeWhile_eq_all_conv list_all_iff)

lemma digit_not_space:
  assumes "is_digit c"
  shows "c \<noteq> CHR 0x0A" "c \<notin> {CHR 0x09, CHR 0x0B, CHR 0x0C, CHR 0x0D, CHR '' ''}" "c \<noteq> CHR ''-''" "c \<noteq> CHR ''+''"
  using assms by (auto simp: is_digit_def less_eq_char_def)

lemma wide_spaces_no_digit: "list_all (\<lambda>p. p \<noteq> [] \<and> \<not> is_digit (hd p)) wide_spaces"
  by (simp add: wide_spaces_def is_digit_def less_eq_char_def)

lemma skip_spaces_digit:
  assumes "is_digit c"
  shows "skip_spaces n (c # s) = Some (c # s)"
proof (cases n)
  case (Suc m)
  have "\<not> HasPrefix (c # s) p" if "p \<in> set wide_spaces" for p
  proof -
    from that wide_spaces_no_digit have "p \<noteq> []" "\<not> is_digit (hd p)" by (auto simp: list_all_iff)
    with assms show ?thesis by (cases p) (auto simp: HasPrefix_def)
  qed
  then have "find (HasPrefix (c # s)) wide_spaces = None" by (simp add: find_None_iff)
  then show ?thesis using digit_not_space [OF assms] Suc by simp
qed simp

lemma skip_spaces_digits:
  assumes "s \<noteq> []" and "list_all is_digit s"
  shows "skip_spaces n s = Some s"
  using assms by (cases s) (simp_all add: skip_spaces_digit del: skip_spaces.simps)

lemma ParseInt64_fmt:
  assumes "- (2 ^ 63) \<le> i" and "i < 2 ^ 63"
  shows "ParseInt64 (fmt_int i) = Some i"
proof -
  have d: "list_all is_digit (digits_int n)" "digits_int n \<noteq> []" "parse_digits (digits_int n) = n"
    "\<not> HasPrefix (digits_int n) ''-''" "\<not> HasPrefix (digits_int n) ''+''" if "0 \<le> n" for n
  proof -
    show all: "list_all is_digit (digits_int n)" and some: "digits_int n \<noteq> []" and "parse_digits (digits_int n) = n"
      by (simp_all add: that digits_int_digits digits_int_nonempty parse_digits_int)
    show "\<not> HasPrefix (digits_int n) ''-''" "\<not> HasPrefix (digits_int n) ''+''"
      using all some digit_not_space(3,4) by (cases "digits_int n"; auto simp: HasPrefix_def)+
  qed
  show ?thesis
  proof (cases "i < 0")
    case True
    then show ?thesis using assms d [of "- i"] by (simp add: fmt_int_def ParseInt64_def HasPrefix_def Let_def)
  next
    case False
    then show ?thesis using assms d [of i] by (simp add: fmt_int_def ParseInt64_def Let_def)
  qed
qed

text \<open>What the server writes as a number it reads back: a revision, a generation other than zero, and an amount of
  money of 64 bits; zero is no generation.\<close>

theorem wire_numbers_roundtrip:
  assumes "- (2 ^ 63) \<le> m_Amount m" and "m_Amount m < 2 ^ 63"
  shows "revisionOf (fmt_u64 r) = Inr r
    \<and> parseGeneration (fmt_u64 g) = (if g = 0 then Inl (err ErrInvalid) else Inr g)
    \<and> moneyOf (Some (money m)) = Inr m"
proof (intro conjI)
  show "revisionOf (fmt_u64 r) = Inr r" by (simp add: revisionOf_def fmt_u64_digits)
  show "parseGeneration (fmt_u64 g) = (if g = 0 then Inl (err ErrInvalid) else Inr g)"
    by (simp add: parseGeneration_def skip_spaces_digits fmt_u64_digits takeWhile_fmt)
  show "moneyOf (Some (money m)) = Inr m"
    using ParseInt64_fmt [OF assms] by (simp add: moneyOf_def money_def)
qed

text \<open>A debt of the smallest amount.\<close>

theorem wire_numbers_roundtrip_witness:
  "moneyOf (Some (money \<lparr>m_Currency = ''EUR'', m_Amount = - (2 ^ 63)\<rparr>)) = Inr \<lparr>m_Currency = ''EUR'', m_Amount = - (2 ^ 63)\<rparr>"
  using wire_numbers_roundtrip [of "\<lparr>m_Currency = ''EUR'', m_Amount = - (2 ^ 63)\<rparr>"] by simp

text \<open>What follows the digits of a generation is not looked at, and a decision without a name approves.\<close>

lemma generation_with_trailing_text: "parseGeneration ''7 apples'' = Inr 7"
proof -
  have d: "is_digit CHR ''7''" "\<not> is_digit CHR '' ''" by (simp_all add: is_digit_def less_eq_char_def)
  then show ?thesis by (simp add: parseGeneration_def skip_spaces_digit ParseUint64_def parse_digits_def del: skip_spaces.simps)
qed

lemma unspecified_decision_approves: "decisionOf REVIEW_DECISION_UNSPECIFIED = ReviewApprove"
  by (simp add: decisionOf_def)

end
