(* ===== verification/Go_Time.thy ===== *)
theory Go_Time
  imports Go_Net
begin

text \<open>
  The parts of Go's \<open>time\<close> and \<open>net/url\<close> the configuration reads with: \<open>time.Parse(time.RFC3339, s)\<close> and
  \<open>URL.Query\<close>.  Both scan their input from the left; the parser of instants is the chain of the layout's chunks
  with the leniency of Go's own (an hour of one digit, a fraction after a comma, offsets up to 24:60).
\<close>

section \<open>Instants\<close>

text \<open>\<open>getnum\<close> and \<open>atoi\<close> on what the layout reads; the rest of the input follows.\<close>

definition getnum :: "string \<Rightarrow> bool \<Rightarrow> (int \<times> string) option" where
  "getnum s fixed =
     (case s of
        c # d # r \<Rightarrow> if \<not> is_digit c then None
                     else if is_digit d then Some (parse_digits [c, d], r)
                     else if fixed then None else Some (parse_digits [c], d # r)
      | [c] \<Rightarrow> if is_digit c \<and> \<not> fixed then Some (parse_digits [c], []) else None
      | [] \<Rightarrow> None)"

definition lit :: "char \<Rightarrow> string \<Rightarrow> string option" where
  "lit c s = (case s of d # r \<Rightarrow> if d = c then Some r else None | [] \<Rightarrow> None)"

definition long_year :: "string \<Rightarrow> (int \<times> string) option" where
  "long_year s = (if 4 \<le> length s \<and> list_all is_digit (take 4 s) then Some (parse_digits (take 4 s), drop 4 s) else None)"

definition num_in :: "int \<Rightarrow> int \<Rightarrow> (int \<times> string) option \<Rightarrow> (int \<times> string) option" where
  "num_in lo hi r = (case r of Some (n, s) \<Rightarrow> if lo \<le> n \<and> n \<le> hi then Some (n, s) else None | None \<Rightarrow> None)"

text \<open>A fraction of a second the layout does not name: nine digits count, more are dropped.\<close>

definition frac_second :: "string \<Rightarrow> int \<times> string" where
  "frac_second s =
     (case s of
        c # r \<Rightarrow>
          let d = takeWhile is_digit r; e = take 9 d in
          if c \<in> {CHR ''.'', CHR '',''} \<and> d \<noteq> []
          then (parse_digits e * 10 ^ (9 - length e), drop (length d) r) else (0, s)
      | [] \<Rightarrow> (0, s))"

definition zone_offset :: "string \<Rightarrow> (int \<times> string) option" where
  "zone_offset s =
     (if HasPrefix s ''Z'' then Some (0, tl s)
      else if length s < 6 \<or> s ! 3 \<noteq> CHR '':'' then None
      else (case (getnum (take 2 (drop 1 s)) True, getnum (take 2 (drop 4 s)) True) of
              (Some (hr, _), Some (mm, _)) \<Rightarrow>
                if 24 < hr \<or> 60 < mm then None
                else if hd s = CHR ''+'' then Some ((hr * 60 + mm) * 60, drop 6 s)
                else if hd s = CHR ''-'' then Some (- ((hr * 60 + mm) * 60), drop 6 s)
                else None
            | _ \<Rightarrow> None))"

definition leap_year :: "int \<Rightarrow> bool" where
  "leap_year y \<longleftrightarrow> y mod 4 = 0 \<and> (y mod 100 \<noteq> 0 \<or> y mod 400 = 0)"

definition days_in :: "int \<Rightarrow> int \<Rightarrow> int" where
  "days_in m y = (if m = 2 then (if leap_year y then 29 else 28) else if m \<in> {4, 6, 9, 11} then 30 else 31)"

text \<open>Days since the Unix epoch of a date of the proleptic Gregorian calendar.\<close>

definition days_from_civil :: "int \<Rightarrow> int \<Rightarrow> int \<Rightarrow> int" where
  "days_from_civil y0 m d =
     (let y = (if m \<le> 2 then y0 - 1 else y0); era = y div 400; yoe = y - era * 400;
          doy = (153 * (if 2 < m then m - 3 else m + 9) + 2) div 5 + d - 1;
          doe = yoe * 365 + yoe div 4 - yoe div 100 + doy
      in era * 146097 + doe - 719468)"

definition parse_date :: "string \<Rightarrow> ((int \<times> int \<times> int) \<times> string) option" where
  "parse_date s =
     Option.bind (long_year s) (\<lambda>(y, s). Option.bind (lit (CHR ''-'') s) (\<lambda>s.
     Option.bind (num_in 1 12 (getnum s True)) (\<lambda>(m, s). Option.bind (lit (CHR ''-'') s) (\<lambda>s.
     Option.bind (getnum s True) (\<lambda>(d, s). Some ((y, m, d), s))))))"

definition parse_clock :: "string \<Rightarrow> ((int \<times> int \<times> int) \<times> string) option" where
  "parse_clock s =
     Option.bind (num_in 0 23 (getnum s False)) (\<lambda>(h, s). Option.bind (lit (CHR '':'') s) (\<lambda>s.
     Option.bind (num_in 0 59 (getnum s True)) (\<lambda>(m, s). Option.bind (lit (CHR '':'') s) (\<lambda>s.
     Option.bind (num_in 0 59 (getnum s True)) (\<lambda>(sec, s). Some ((h, m, sec), s))))))"

definition parse_rfc3339 :: "string \<Rightarrow> time option" where
  "parse_rfc3339 v =
     Option.bind (parse_date v) (\<lambda>((y, mo, d), s).
     Option.bind (lit (CHR ''T'') s) (\<lambda>s.
     Option.bind (parse_clock s) (\<lambda>((h, mi, sec), s).
     let (ns, s) = frac_second s in
     Option.bind (zone_offset s) (\<lambda>(off, s).
       if s \<noteq> [] \<or> d < 1 \<or> days_in mo y < d then None
       else Some ((days_from_civil y mo d * 86400 + h * 3600 + mi * 60 + sec - off) * second + ns)))))"

section \<open>Query strings\<close>

text \<open>\<open>QueryUnescape\<close>, and \<open>Query\<close>: the pairs in order, without those that do not parse.\<close>

fun unescape_query :: "string \<Rightarrow> string option" where
  "unescape_query [] = Some []"
| "unescape_query (c # r) =
     (if c = CHR ''%'' then
        (case r of
           a # b # r' \<Rightarrow> if is_hex a \<and> is_hex b
                         then map_option (\<lambda>t. char_of (nat (hex_num [a, b])) # t) (unescape_query r') else None
         | _ \<Rightarrow> None)
      else map_option (\<lambda>t. (if c = CHR ''+'' then CHR '' '' else c) # t) (unescape_query r))"

definition query_pair :: "string \<Rightarrow> (string \<times> string) option" where
  "query_pair part =
     (if CHR '';'' \<in> set part \<or> part = [] then None
      else (let (k, v, _) = Cut part (CHR ''='') in
            case unescape_query k of
              None \<Rightarrow> None
            | Some k' \<Rightarrow> map_option (\<lambda>v'. (k', v')) (unescape_query v)))"

definition Query :: "URL \<Rightarrow> (string \<times> string) list" where
  "Query u = List.map_filter query_pair (Split (u_RawQuery u) (CHR ''&''))"

end
