(* ===== verification/Connection_Layer.thy ===== *)
theory Connection_Layer
  imports Go_Time App_Catalog
begin

text \<open>
  The client of the connection layer, \<open>internal/adapters/contextforge/client.go\<close>: a discovery registers or refreshes the
  resource's gateway, probes it and reads its tools, resources and prompts.  ContextForge is an argument: its
  answer to the n-th request, a status with a body or the error of reading it; the requests are logged.  Which runes
  print (the tables of \<open>unicode\<close>) is an argument of the quoting.
\<close>

section \<open>Requests\<close>

record ForgeRequest =
  fr_Method :: string
  fr_URL :: string
  fr_Bearer :: string
  fr_Body :: "bytes option"

record forge =
  fo_server :: "nat \<Rightarrow> ForgeRequest \<Rightarrow> err + int \<times> (err + bytes)"
  fo_log :: "ForgeRequest list"

record ForgeClient =
  fl_base :: string
  fl_tokenFile :: string
  fl_files :: "string \<Rightarrow> bytes option"

text \<open>\<open>NewWithTLS\<close>: the bundle must be readable and hold a certificate.\<close>

definition NewWithTLS :: "(bytes \<Rightarrow> bool) \<Rightarrow> (string \<Rightarrow> bytes option) \<Rightarrow> string \<Rightarrow> string \<Rightarrow> string \<Rightarrow> err + ForgeClient" where
  "NewWithTLS certs files baseURL tokenFile caFile =
     (let c = \<lparr>fl_base = TrimRight (\<lambda>x. x = CHR ''/'') baseURL, fl_tokenFile = tokenFile, fl_files = files\<rparr> in
      if caFile = [] then Inr c
      else (case files caFile of
              None \<Rightarrow> Inl (err ErrOther)
            | Some pem \<Rightarrow> if certs pem then Inr c else Inl (err ErrOther)))"

text \<open>\<open>do\<close>: the status with the error, or the decoded answer.\<close>

definition do_forge ::
  "ForgeClient \<Rightarrow> string \<Rightarrow> string \<Rightarrow> json option \<Rightarrow> (bytes \<Rightarrow> 'a option) \<Rightarrow> forge \<Rightarrow> (int \<times> err + 'a) \<times> forge" where
  "do_forge c method path body decode s =
     (case fl_files c (fl_tokenFile c) of
        None \<Rightarrow> (Inl (0, err ErrUnavailable), s)
      | Some token \<Rightarrow>
         if url_Parse (fl_base c @ path) = None then (Inl (0, err ErrOther), s)
         else (let req = \<lparr>fr_Method = method, fr_URL = fl_base c @ path, fr_Bearer = TrimSpace token,
                          fr_Body = map_option json_encode body\<rparr>;
                   s' = s\<lparr>fo_log := fo_log s @ [req]\<rparr>
               in (case fo_server s (length (fo_log s)) req of
                     Inl _ \<Rightarrow> (Inl (0, err ErrUnavailable), s')
                   | Inr (status, Inl _) \<Rightarrow> (Inl (status, err ErrUnavailable), s')
                   | Inr (status, Inr raw) \<Rightarrow>
                      if 300 \<le> status then (Inl (status, err ErrOther), s')
                      else (case decode (take 16777216 raw) of
                              None \<Rightarrow> (Inl (status, err ErrUnavailable), s')
                            | Some x \<Rightarrow> (Inr x, s')))))"

text \<open>What a caller makes of an error, by its status.\<close>

definition on_status :: "(int \<Rightarrow> err \<Rightarrow> err) \<Rightarrow> (forge \<Rightarrow> (int \<times> err + 'a) \<times> forge) \<Rightarrow> (forge, 'a) eff" where
  "on_status f m s = (case m s of (Inl (c, e), s') \<Rightarrow> (Inl (f c e), s') | (Inr x, s') \<Rightarrow> (Inr x, s'))"

section \<open>Answers\<close>

record handshake =
  hs_Error :: string
  hs_Success :: bool
  hs_NegotiationPath :: string
  hs_ProtocolVersion :: string
  hs_ServerName :: string
  hs_ServerVersion :: string
  hs_ErrorMessage :: string

record gateway =
  gw_ID :: string
  gw_Name :: string
  gw_URL :: string

record forge_tool =
  ft_OriginalName :: string
  ft_InputSchema :: bytes
  ft_OutputSchema :: bytes
  ft_Annotations :: bytes
  ft_GatewayID :: string
  ft_Enabled :: bool

record forge_named =
  fn_Name :: string
  fn_OriginalName :: string
  fn_URI :: string
  fn_GatewayID :: string

definition handshake_fields :: "handshake json_field list" where
  "handshake_fields =
    [(''error'', fld_str (\<lambda>v h. h\<lparr>hs_Error := v\<rparr>)), (''success'', fld_bool (\<lambda>v h. h\<lparr>hs_Success := v\<rparr>)),
     (''negotiationPath'', fld_str (\<lambda>v h. h\<lparr>hs_NegotiationPath := v\<rparr>)),
     (''protocolVersion'', fld_str (\<lambda>v h. h\<lparr>hs_ProtocolVersion := v\<rparr>)),
     (''serverName'', fld_str (\<lambda>v h. h\<lparr>hs_ServerName := v\<rparr>)), (''serverVersion'', fld_str (\<lambda>v h. h\<lparr>hs_ServerVersion := v\<rparr>)),
     (''errorMessage'', fld_str (\<lambda>v h. h\<lparr>hs_ErrorMessage := v\<rparr>))]"

definition gateway_fields :: "gateway json_field list" where
  "gateway_fields =
    [(''id'', fld_str (\<lambda>v g. g\<lparr>gw_ID := v\<rparr>)), (''name'', fld_str (\<lambda>v g. g\<lparr>gw_Name := v\<rparr>)), (''url'', fld_str (\<lambda>v g. g\<lparr>gw_URL := v\<rparr>))]"

definition named_fields :: "forge_named json_field list" where
  "named_fields =
    [(''name'', fld_str (\<lambda>v n. n\<lparr>fn_Name := v\<rparr>)), (''originalName'', fld_str (\<lambda>v n. n\<lparr>fn_OriginalName := v\<rparr>)),
     (''uri'', fld_str (\<lambda>v n. n\<lparr>fn_URI := v\<rparr>)), (''gatewayId'', fld_str (\<lambda>v n. n\<lparr>fn_GatewayID := v\<rparr>))]"

text \<open>\<open>json.Unmarshal\<close> into a struct and into a list of structs.\<close>

definition unmarshal_struct :: "'a json_field list \<Rightarrow> 'a \<Rightarrow> bytes \<Rightarrow> 'a option" where
  "unmarshal_struct fs z raw = Option.bind (json_parse raw) (decode_struct False fs z)"

fun decode_all :: "('b \<Rightarrow> 'a option) \<Rightarrow> 'b list \<Rightarrow> 'a list option" where
  "decode_all d [] = Some []"
| "decode_all d (v # vs) = (case d v of None \<Rightarrow> None | Some x \<Rightarrow> map_option (\<lambda>xs. x # xs) (decode_all d vs))"

definition unmarshal_list :: "'a json_field list \<Rightarrow> 'a \<Rightarrow> bytes \<Rightarrow> 'a list option" where
  "unmarshal_list fs z raw =
     (case json_parse raw of
        Some JNull \<Rightarrow> Some []
      | Some (JArr vs) \<Rightarrow> decode_all (decode_struct False fs z) vs
      | _ \<Rightarrow> None)"

text \<open>The elements of an array and the members of an object of a valid text, with the raw text of each value:
  what a \<open>json.RawMessage\<close> keeps.  Every step consumes input, the fuel is its length.\<close>

fun raw_values :: "nat \<Rightarrow> bytes \<Rightarrow> bytes list" where
  "raw_values 0 s = []"
| "raw_values (Suc n) s =
     (let t = skip_ws s in
      case parse_value (2 * length t + 2) 1 t of
        None \<Rightarrow> []
      | Some (_, r) \<Rightarrow>
         take (length t - length r) t #
         (case skip_ws r of c # r' \<Rightarrow> if c = CHR '','' then raw_values n r' else [] | [] \<Rightarrow> []))"

definition raw_elements :: "bytes \<Rightarrow> bytes list" where
  "raw_elements s = (case skip_ws s of c # r \<Rightarrow> if c = CHR ''['' then raw_values (length s) r else [] | [] \<Rightarrow> [])"

fun raw_pairs :: "nat \<Rightarrow> bytes \<Rightarrow> (string \<times> bytes) list" where
  "raw_pairs 0 s = []"
| "raw_pairs (Suc n) s =
     (case skip_ws s of
        [] \<Rightarrow> []
      | _ # s1 \<Rightarrow>
         (case scan_string s1 of
            None \<Rightarrow> []
          | Some (key, s2) \<Rightarrow>
             (let t = skip_ws (tl (skip_ws s2)) in
              case parse_value (2 * length t + 2) 1 t of
                None \<Rightarrow> []
              | Some (_, r) \<Rightarrow>
                 (unquote key, take (length t - length r) t) #
                 (case skip_ws r of c # r' \<Rightarrow> if c = CHR '','' then raw_pairs n r' else [] | [] \<Rightarrow> []))))"

definition raw_object :: "bytes \<Rightarrow> (string \<times> bytes) list" where
  "raw_object s = (case skip_ws s of c # r \<Rightarrow> if c = CHR ''{'' then raw_pairs (length s) r else [] | [] \<Rightarrow> [])"

definition tool_fields :: "(string \<times> (bytes \<Rightarrow> forge_tool \<Rightarrow> forge_tool option)) list" where
  "tool_fields =
    [(''originalName'', \<lambda>raw t. Option.bind (json_parse raw) (\<lambda>v. fld_str (\<lambda>x t. t\<lparr>ft_OriginalName := x\<rparr>) v t)),
     (''inputSchema'', \<lambda>raw t. Some (t\<lparr>ft_InputSchema := raw\<rparr>)),
     (''outputSchema'', \<lambda>raw t. Some (t\<lparr>ft_OutputSchema := raw\<rparr>)),
     (''annotations'', \<lambda>raw t. Some (t\<lparr>ft_Annotations := raw\<rparr>)),
     (''gatewayId'', \<lambda>raw t. Option.bind (json_parse raw) (\<lambda>v. fld_str (\<lambda>x t. t\<lparr>ft_GatewayID := x\<rparr>) v t)),
     (''enabled'', \<lambda>raw t. Option.bind (json_parse raw) (\<lambda>v. fld_bool (\<lambda>x t. t\<lparr>ft_Enabled := x\<rparr>) v t))]"

fun decode_tool_members :: "(string \<times> bytes) list \<Rightarrow> forge_tool \<Rightarrow> forge_tool option" where
  "decode_tool_members [] t = Some t"
| "decode_tool_members ((k, raw) # ms) t =
     (let f = (case find (\<lambda>f. fst f = k) tool_fields of
                 Some f \<Rightarrow> Some f
               | None \<Rightarrow> find (\<lambda>f. ToLower (fst f) = ToLower k) tool_fields) in
      case f of
        None \<Rightarrow> decode_tool_members ms t
      | Some f \<Rightarrow> (case snd f raw t of None \<Rightarrow> None | Some t' \<Rightarrow> decode_tool_members ms t'))"

definition decode_tool :: "bytes \<Rightarrow> forge_tool option" where
  "decode_tool raw =
     (let z = \<lparr>ft_OriginalName = [], ft_InputSchema = [], ft_OutputSchema = [], ft_Annotations = [], ft_GatewayID = [], ft_Enabled = False\<rparr> in
      case json_parse raw of
        Some (JObj _) \<Rightarrow> decode_tool_members (raw_object raw) z
      | Some JNull \<Rightarrow> Some z
      | _ \<Rightarrow> None)"

definition unmarshal_tools :: "bytes \<Rightarrow> forge_tool list option" where
  "unmarshal_tools raw =
     (case json_parse raw of
        Some JNull \<Rightarrow> Some []
      | Some (JArr _) \<Rightarrow> decode_all decode_tool (raw_elements raw)
      | _ \<Rightarrow> None)"

section \<open>Names\<close>

text \<open>\<open>%q\<close>, that is \<open>strconv.Quote\<close>: the runes that do not print are escaped in Go's syntax.\<close>

definition rune_of :: "bytes \<Rightarrow> int" where
  "rune_of s =
     (let b = map (\<lambda>c. of_char c :: int) s in
      if length b = 1 then b ! 0
      else if length b = 2 then (b ! 0 - 0xC0) * 64 + (b ! 1 - 0x80)
      else if length b = 3 then ((b ! 0 - 0xE0) * 64 + (b ! 1 - 0x80)) * 64 + (b ! 2 - 0x80)
      else (((b ! 0 - 0xF0) * 64 + (b ! 1 - 0x80)) * 64 + (b ! 2 - 0x80)) * 64 + (b ! 3 - 0x80))"

definition hex_width :: "nat \<Rightarrow> int \<Rightarrow> string" where
  "hex_width w n = map (\<lambda>i. hex_low (nat (n div 16 ^ i mod 16))) (rev [0 ..< w])"

definition quote_rune :: "(int \<Rightarrow> bool) \<Rightarrow> bytes \<Rightarrow> string" where
  "quote_rune prints s =
     (let r = rune_of s in
      if s = [CHR 0x22] \<or> s = [CHR 0x5C] then CHR 0x5C # s
      else if (r < 128 \<and> 32 \<le> r \<and> r \<noteq> 127) \<or> (128 \<le> r \<and> prints r) then s
      else if r = 7 then CHR 0x5C # ''a''
      else if r = 8 then CHR 0x5C # ''b''
      else if r = 12 then CHR 0x5C # ''f''
      else if r = 10 then CHR 0x5C # ''n''
      else if r = 13 then CHR 0x5C # ''r''
      else if r = 9 then CHR 0x5C # ''t''
      else if r = 11 then CHR 0x5C # ''v''
      else if r < 32 \<or> r = 127 then CHR 0x5C # ''x'' @ hex_width 2 r
      else if r < 65536 then CHR 0x5C # ''u'' @ hex_width 4 r
      else CHR 0x5C # ''U'' @ hex_width 8 r)"

function quote_go :: "(int \<Rightarrow> bool) \<Rightarrow> bytes \<Rightarrow> string" where
  "quote_go prints s =
     (case s of
        [] \<Rightarrow> []
      | c # r \<Rightarrow>
         let n = utf8_len s in
         if n = 0 then CHR 0x5C # ''x'' @ hex_width 2 (of_char c) @ quote_go prints r
         else quote_rune prints (take n s) @ quote_go prints (drop n s))"
  by pat_completeness auto
termination by (relation "measure (\<lambda>(p, s). length s)") auto

declare quote_go.simps [simp del]

text \<open>\<open>shortHash\<close>: a text that is not JSON has no digest, and taking twelve bytes of nothing panics.\<close>

definition slice_panic :: err where
  "slice_panic = Err ErrOther ''panic: slice bounds out of range''"

definition shortHash :: "(int \<Rightarrow> bool) \<Rightarrow> string \<Rightarrow> err + string" where
  "shortHash prints s =
     (case CanonicalDigest (CHR 0x22 # quote_go prints s @ [CHR 0x22]) of
        Inl _ \<Rightarrow> Inl slice_panic
      | Inr d \<Rightarrow> Inr (take 12 (TrimPrefix d ''sha256:'')))"

definition gatewayName :: "(int \<Rightarrow> bool) \<Rightarrow> string \<Rightarrow> err + string" where
  "gatewayName prints resource =
     (case url_Parse resource of
        None \<Rightarrow> Inl (err ErrInvalid)
      | Some u \<Rightarrow>
         if u_Host u = [] then Inl (err ErrInvalid)
         else (case shortHash prints resource of
                 Inl e \<Rightarrow> Inl e
               | Inr h \<Rightarrow> Inr (''anvilkit-'' @ map (\<lambda>c. if c = CHR ''.'' \<or> c = CHR '':'' then CHR ''-'' else c) (u_Host u) @ ''-'' @ h)))"

text \<open>\<open>url.QueryEscape\<close> and \<open>url.PathEscape\<close>.\<close>

definition unreserved :: "char \<Rightarrow> bool" where
  "unreserved c \<longleftrightarrow> is_alpha c \<or> is_digit c \<or> c \<in> {CHR ''-'', CHR ''_'', CHR ''.'', CHR ''~''}"

definition percent :: "char \<Rightarrow> string" where
  "percent c = (let n = of_char c :: nat; h = (\<lambda>i. ''0123456789ABCDEF'' ! i) in [CHR ''%'', h (n div 16), h (n mod 16)])"

definition QueryEscape :: "string \<Rightarrow> string" where
  "QueryEscape s = concat (map (\<lambda>c. if unreserved c then [c] else if c = CHR '' '' then ''+'' else percent c) s)"

definition PathEscape :: "string \<Rightarrow> string" where
  "PathEscape s = concat (map (\<lambda>c. if unreserved c \<or> c \<in> {CHR ''$'', CHR ''&'', CHR ''+'', CHR '':'', CHR ''='', CHR ''@''}
     then [c] else percent c) s)"

section \<open>Discovery\<close>

definition zero_gateway :: gateway where
  "zero_gateway = \<lparr>gw_ID = [], gw_Name = [], gw_URL = []\<rparr>"

definition refresh_gateway :: "ForgeClient \<Rightarrow> gateway \<Rightarrow> (forge, gateway) eff" where
  "refresh_gateway c g =
     seq (on_status (\<lambda>status e. if status = 409 then err ErrUnavailable else if status = 502 then err ErrUpstream else e)
            (do_forge c ''POST'' (''/v1/gateways/'' @ PathEscape (gw_ID g) @ ''/tools/refresh?include_resources=true&include_prompts=true'')
              None (\<lambda>_. Some ()))) (\<lambda>_. ok g)"

definition list_gateways :: "ForgeClient \<Rightarrow> (forge, gateway list) eff" where
  "list_gateways c =
     on_status (\<lambda>_ e. e)
       (do_forge c ''GET'' ''/v1/gateways?limit=0&include_inactive=false'' None (unmarshal_list gateway_fields zero_gateway))"

text \<open>\<open>gatewayFor\<close> without the right to register: the second look after a conflict.\<close>

definition gatewayFor_listed :: "(int \<Rightarrow> bool) \<Rightarrow> ForgeClient \<Rightarrow> string \<Rightarrow> (forge, gateway) eff" where
  "gatewayFor_listed prints c resource =
     seq (list_gateways c) (\<lambda>every.
     seq (lift (gatewayName prints resource)) (\<lambda>name.
     case find (\<lambda>g. gw_Name g = name) every of
       Some g \<Rightarrow> refresh_gateway c g
     | None \<Rightarrow> fail (err ErrUnavailable)))"

definition gateway_body :: "string \<Rightarrow> string \<Rightarrow> json" where
  "gateway_body name resource =
     jmap [(''name'', JStr name), (''url'', JStr resource), (''transport'', JStr ''STREAMABLEHTTP''), (''visibility'', JStr ''private''),
       (''description'', JStr ''AnvilKit catalog connection; AnvilKit grants decide every use''), (''tags'', JStrs [''anvilkit''])]"

definition gatewayFor :: "(int \<Rightarrow> bool) \<Rightarrow> ForgeClient \<Rightarrow> string \<Rightarrow> (forge, gateway) eff" where
  "gatewayFor prints c resource =
     seq (list_gateways c) (\<lambda>every.
     seq (lift (gatewayName prints resource)) (\<lambda>name.
     case find (\<lambda>g. gw_Name g = name) every of
       Some g \<Rightarrow> refresh_gateway c g
     | None \<Rightarrow> (\<lambda>s.
         case do_forge c ''POST'' ''/v1/gateways'' (Some (gateway_body name resource)) (unmarshal_struct gateway_fields zero_gateway) s of
           (Inr created, s') \<Rightarrow> (Inr created, s')
         | (Inl (status, e), s') \<Rightarrow>
             if status = 502 then (Inl (err ErrUpstream), s')
             else if status = 409 then gatewayFor_listed prints c resource s'
             else (Inl e, s'))))"

definition Discover_forge :: "(int \<Rightarrow> bool) \<Rightarrow> ForgeClient \<Rightarrow> time \<Rightarrow> string \<Rightarrow> (forge, LiveServer) eff" where
  "Discover_forge prints c now resource =
     seq (gatewayFor prints c resource) (\<lambda>gw.
     seq (on_status (\<lambda>status e. if status = 502 \<or> status = 422 then err ErrUpstream else e)
            (do_forge c ''POST'' ''/v1/mcp-servers/test-handshake'' (Some (jmap [(''baseUrl'', JStr (gw_URL gw))]))
              (unmarshal_struct handshake_fields \<lparr>hs_Error = [], hs_Success = False, hs_NegotiationPath = [], hs_ProtocolVersion = [],
                 hs_ServerName = [], hs_ServerVersion = [], hs_ErrorMessage = []\<rparr>))) (\<lambda>hs.
     if \<not> hs_Success hs then fail (err ErrUpstream)
     else (let q = ''?gateway_id='' @ QueryEscape (gw_ID gw) @ ''&limit=0'';
               z = \<lparr>fn_Name = [], fn_OriginalName = [], fn_URI = [], fn_GatewayID = []\<rparr> in
       seq (on_status (\<lambda>_ e. e) (do_forge c ''GET'' (''/v1/tools'' @ q) None unmarshal_tools)) (\<lambda>tools.
       seq (on_status (\<lambda>_ e. e) (do_forge c ''GET'' (''/v1/resources'' @ q) None (unmarshal_list named_fields z))) (\<lambda>resources.
       seq (on_status (\<lambda>_ e. e) (do_forge c ''GET'' (''/v1/prompts'' @ q) None (unmarshal_list named_fields z))) (\<lambda>prompts.
       ok \<lparr>lv_Name = hs_ServerName hs, lv_Version = hs_ServerVersion hs, lv_ProtocolVersion = hs_ProtocolVersion hs,
           lv_Tools = map (\<lambda>t. \<lparr>lt_Name = ft_OriginalName t, lt_InputSchema = ft_InputSchema t, lt_OutputSchema = ft_OutputSchema t,
               lt_Annotations = ft_Annotations t\<rparr>) (filter (\<lambda>t. ft_GatewayID t = gw_ID gw \<and> ft_Enabled t) tools),
           lv_Resources = map (\<lambda>r. \<lparr>ln_Name = fn_Name r, ln_URI = fn_URI r\<rparr>) (filter (\<lambda>r. fn_GatewayID r = gw_ID gw) resources),
           lv_Prompts = map (\<lambda>p. \<lparr>ln_Name = (if fn_OriginalName p = [] then fn_Name p else fn_OriginalName p), ln_URI = []\<rparr>)
               (filter (\<lambda>p. fn_GatewayID p = gw_ID gw) prompts),
           lv_Evidence = ''contextforge gateway '' @ gw_ID gw @ '' via '' @ hs_NegotiationPath hs @ '' at '' @ take 19 (fmt_instant now) @ ''Z'',
           lv_ConnectionRef = ''contextforge:'' @ gw_ID gw, lv_Issuer = []\<rparr>))))))"

section \<open>Where requests go\<close>

text \<open>An action that sends at most \<open>n\<close> requests, each to the placement with the mounted token.\<close>

definition home_request :: "ForgeClient \<Rightarrow> ForgeRequest \<Rightarrow> bool" where
  "home_request c q \<longleftrightarrow> HasPrefix (fr_URL q) (fl_base c)
     \<and> (\<exists>token. fl_files c (fl_tokenFile c) = Some token \<and> fr_Bearer q = TrimSpace token)"

definition stays :: "ForgeClient \<Rightarrow> nat \<Rightarrow> (forge \<Rightarrow> 'r \<times> forge) \<Rightarrow> bool" where
  "stays c n m \<longleftrightarrow> (\<forall>s r s'. m s = (r, s') \<longrightarrow>
     fo_server s' = fo_server s
     \<and> (\<exists>sent. fo_log s' = fo_log s @ sent \<and> length sent \<le> n \<and> (\<forall>q\<in>set sent. home_request c q)))"

lemma staysI:
  assumes "\<And>s r s'. m s = (r, s') \<Longrightarrow> fo_server s' = fo_server s
    \<and> (\<exists>sent. fo_log s' = fo_log s @ sent \<and> length sent \<le> n \<and> (\<forall>q\<in>set sent. home_request c q))"
  shows "stays c n m"
  using assms by (auto simp: stays_def)

lemma stays_none: "(\<And>s. snd (m s) = s) \<Longrightarrow> stays c n m"
  by (rule staysI) (metis append_Nil2 le0 list.size(3) length_pos_if_in_set less_irrefl snd_conv)

lemma stays_mono: "stays c n m \<Longrightarrow> n \<le> n' \<Longrightarrow> stays c n' m"
  unfolding stays_def by (meson le_trans)

lemma stays_do: "stays c 1 (do_forge c verb path body decode)"
proof (rule staysI)
  fix s r s'
  assume "do_forge c verb path body decode s = (r, s')"
  moreover have "HasPrefix (fl_base c @ path) (fl_base c)" by (simp add: HasPrefix_def)
  ultimately show "fo_server s' = fo_server s
      \<and> (\<exists>sent. fo_log s' = fo_log s @ sent \<and> length sent \<le> 1 \<and> (\<forall>q\<in>set sent. home_request c q))"
    by (auto simp: do_forge_def Let_def home_request_def split: option.splits if_splits sum.splits prod.splits)
qed

lemma stays_then:
  assumes "stays c n m" "\<And>x. stays c k (f x)" "\<And>s r s'. M s = (r, s') \<Longrightarrow> \<exists>x t. m s = (x, t) \<and> (t = s' \<or> (\<exists>y. f y t = (r, s')))"
  shows "stays c (n + k) M"
proof (rule staysI)
  fix s r s'
  assume "M s = (r, s')"
  then obtain x t where m: "m s = (x, t)" and t: "t = s' \<or> (\<exists>y. f y t = (r, s'))" using assms(3) by meson
  from assms(1) m obtain one where one: "fo_server t = fo_server s" "fo_log t = fo_log s @ one" "length one \<le> n"
    "\<forall>q\<in>set one. home_request c q" unfolding stays_def by meson
  from t show "fo_server s' = fo_server s
      \<and> (\<exists>sent. fo_log s' = fo_log s @ sent \<and> length sent \<le> n + k \<and> (\<forall>q\<in>set sent. home_request c q))"
  proof
    assume "t = s'" with one show ?thesis by auto
  next
    assume "\<exists>y. f y t = (r, s')"
    then obtain two where "fo_server s' = fo_server t" "fo_log s' = fo_log t @ two" "length two \<le> k" "\<forall>q\<in>set two. home_request c q"
      using assms(2) unfolding stays_def by meson
    with one show ?thesis by (intro conjI exI [of _ "one @ two"]) auto
  qed
qed

lemma stays_seq:
  assumes "stays c n m" "\<And>x. stays c k (f x)"
  shows "stays c (n + k) (seq m f)"
  by (rule stays_then [OF assms]) (auto simp: seq_def recover_def split: prod.splits sum.splits)

lemma stays_on_status:
  assumes "stays c n m"
  shows "stays c n (on_status g m)"
proof (rule staysI)
  fix s r s'
  assume "on_status g m s = (r, s')"
  then obtain x where "m s = (x, s')" by (auto simp: on_status_def split: prod.splits sum.splits)
  then show "fo_server s' = fo_server s
      \<and> (\<exists>sent. fo_log s' = fo_log s @ sent \<and> length sent \<le> n \<and> (\<forall>q\<in>set sent. home_request c q))"
    using assms unfolding stays_def by meson
qed

lemma stays_still: "stays c 0 (ok x)" "stays c 0 (fail e)" "stays c 0 (lift v)"
  by (rule stays_none; simp add: ok_def fail_def lift_def split: sum.splits)+

lemma stays_option: "stays c n a \<Longrightarrow> (\<And>x. stays c n (b x)) \<Longrightarrow> stays c n (case v of None \<Rightarrow> a | Some x \<Rightarrow> b x)"
  by (cases v) auto

lemma stays_if: "stays c n a \<Longrightarrow> stays c n b \<Longrightarrow> stays c n (if p then a else b)"
  by auto

lemma stays_fail: "stays c n (fail e)"
  by (rule stays_mono [OF stays_still(2)]) simp

lemmas stays_parts = stays_seq stays_on_status stays_do stays_still(1,3) stays_option stays_if stays_fail

lemma stays_refresh: "stays c 1 (refresh_gateway c g)"
proof -
  have "stays c (1 + 0) (refresh_gateway c g)" unfolding refresh_gateway_def by (intro stays_parts)
  then show ?thesis by simp
qed

lemma stays_listed: "stays c 2 (gatewayFor_listed prints c resource)"
proof -
  have "stays c (1 + (0 + 1)) (gatewayFor_listed prints c resource)"
    unfolding gatewayFor_listed_def list_gateways_def by (intro stays_parts stays_refresh)
  then show ?thesis by (rule stays_mono) simp
qed

lemma stays_register:
  "stays c 3 (\<lambda>s. case do_forge c ''POST'' ''/v1/gateways'' b d s of
       (Inr created, s') \<Rightarrow> (Inr created, s')
     | (Inl (status, e), s') \<Rightarrow>
         if status = 502 then (Inl (err ErrUpstream), s')
         else if status = 409 then gatewayFor_listed prints c resource s'
         else (Inl e, s'))" (is "stays c 3 ?m")
proof -
  have "stays c (1 + 2) ?m"
    by (rule stays_then [OF stays_do [where verb = "''POST''" and path = "''/v1/gateways''" and body = b and decode = d] stays_listed])
       (auto split: prod.splits sum.splits if_splits)
  then show ?thesis by (rule stays_mono) simp
qed

lemma stays_gatewayFor: "stays c 4 (gatewayFor prints c resource)"
proof -
  have "stays c (1 + (0 + 3)) (gatewayFor prints c resource)"
    unfolding gatewayFor_def list_gateways_def
    by (intro stays_parts stays_register) (rule stays_mono [OF stays_refresh], simp)
  then show ?thesis by (rule stays_mono) simp
qed

lemma stays_Discover: "stays c 8 (Discover_forge prints c now resource)"
proof -
  have "stays c (4 + (1 + (1 + (1 + (1 + 0))))) (Discover_forge prints c now resource)"
    unfolding Discover_forge_def Let_def by (intro stays_parts stays_gatewayFor)
  then show ?thesis by (rule stays_mono) simp
qed

text \<open>C17. A discovery through the connection layer speaks to ContextForge only: whatever ContextForge answers, it sends at
  most eight requests, each to the placed base URL with the token of the mounted file.\<close>

theorem discovery_stays_at_placement:
  "\<exists>sent. fo_log (snd (Discover_forge prints c now resource s)) = fo_log s @ sent \<and> length sent \<le> 8
     \<and> (list_all (home_request c) sent)"
  using stays_Discover [of c prints now resource] unfolding stays_def list_all_iff by (metis prod.collapse)

text \<open>The quoting keeps printable ASCII other than the quote and the backslash.\<close>

lemma quote_plain:
  assumes "list_all (\<lambda>c. byte_in 32 126 c \<and> c \<noteq> CHR 0x22 \<and> c \<noteq> CHR 0x5C) s"
  shows "quote_go prints (s @ t) = s @ quote_go prints t"
  using assms
proof (induction s)
  case (Cons c s)
  then have n: "32 \<le> (of_char c :: nat)" "(of_char c :: nat) \<le> 126" by (simp_all add: byte_in_def)
  then have len: "utf8_len (c # s @ t) = 1" by (simp add: utf8_len_def byte_in_def)
  have "int (of_char c :: nat) = of_char c" by (cases c) (simp add: of_char_def)
  with n have "32 \<le> (of_char c :: int)" "(of_char c :: int) \<le> 126" by linarith+
  then have "quote_rune prints [c] = [c]" using Cons(2) by (simp add: quote_rune_def rune_of_def)
  with len show ?case using Cons by (simp add: quote_go.simps [of prints "c # s @ t"])
qed simp



end
