(* ===== verification/Identity_Client.thy ===== *)
theory Identity_Client
  imports Identity
begin

text \<open>
  The client side of \<open>internal/transport/identity\<close>: the polling of the reloader (\<open>reloader.go\<close>), the rotating gRPC client
  credentials, the TLS configuration for other clients and the HTTP transport (\<open>credentials.go\<close>).  A handshake is what
  the TLS library is given: the certificate presented, the roots the peer is verified against and its name.  The
  gRPC and HTTP clients follow every reload; a configuration made by \<open>ClientTLSConfig\<close> follows the certificate but
  keeps the roots of the moment it was made.
\<close>

section \<open>Polling\<close>

record poller =
  po_server :: tls_server
  po_polling :: bool

definition Start_poller :: "poller \<Rightarrow> poller" where
  "Start_poller p = (if po_polling p then p else p\<lparr>po_polling := True\<rparr>)"

definition Stop_poller :: "poller \<Rightarrow> poller" where
  "Stop_poller p = (if po_polling p then p\<lparr>po_polling := False\<rparr> else p)"

text \<open>A tick of the ticker, with the contents of the files at its two reads and the time.\<close>

definition poll :: "x509 \<Rightarrow> Files \<Rightarrow> filesystem \<times> filesystem \<times> time \<Rightarrow> poller \<Rightarrow> poller" where
  "poll X f t p =
     (case t of (before, after, now) \<Rightarrow>
        if po_polling p then p\<lparr>po_server := snd (Reload X before after f now (po_server p))\<rparr> else p)"

section \<open>Clients\<close>

record client_handshake =
  ch_Chain :: "bytes list"
  ch_Roots :: "(string \<times> Certificate) list"
  ch_ServerName :: string

definition trusts :: "client_handshake \<Rightarrow> Certificate \<Rightarrow> bool" where
  "trusts h root \<longleftrightarrow> map_of (ch_Roots h) (fingerprint root) \<noteq> None"

text \<open>\<open>NewClientCredentials\<close>, and \<open>clientCreds.config\<close>, built anew for every handshake.\<close>

definition NewClientCredentials :: "string \<Rightarrow> err + string" where
  "NewClientCredentials serverName = (if serverName = [] then Inl (err ErrOther) else Inr serverName)"

definition client_config :: "poller \<Rightarrow> string \<Rightarrow> client_handshake" where
  "client_config p serverName =
     (let m = tv_current (po_server p) in \<lparr>ch_Chain = ma_Chain m, ch_Roots = ma_Roots m, ch_ServerName = serverName\<rparr>)"

text \<open>\<open>ClientTLSConfig\<close>: the roots of the call, and a certificate asked for at every handshake.\<close>

record tls_snapshot =
  sn_Roots :: "(string \<times> Certificate) list"
  sn_ServerName :: string

definition ClientTLSConfig :: "poller \<Rightarrow> string \<Rightarrow> tls_snapshot" where
  "ClientTLSConfig p serverName = \<lparr>sn_Roots = ma_Roots (tv_current (po_server p)), sn_ServerName = serverName\<rparr>"

definition snapshot_handshake :: "tls_snapshot \<Rightarrow> poller \<Rightarrow> client_handshake" where
  "snapshot_handshake sn p = \<lparr>ch_Chain = ma_Chain (tv_current (po_server p)), ch_Roots = sn_Roots sn, ch_ServerName = sn_ServerName sn\<rparr>"

text \<open>\<open>HTTPTransport\<close>: every dial makes its configuration, and the callback closes the idle pool when a root was retired.\<close>

definition DialTLS_http :: "poller \<Rightarrow> string \<Rightarrow> client_handshake" where
  "DialTLS_http p serverName = snapshot_handshake (ClientTLSConfig p serverName) p"

definition http_closes_idle :: "Material \<Rightarrow> Material \<Rightarrow> bool" where
  "http_closes_idle previous current \<longleftrightarrow> RetiredRoots previous current \<noteq> []"

section \<open>What the clients trust\<close>

text \<open>Every new handshake of the gRPC and HTTP clients verifies its peer against the current bundle, whatever ticks
  there were.\<close>

lemma clients_follow_reloads:
  "trusts (client_config (fold (poll X f) ts p) name) root \<longleftrightarrow> TrustsRoot (Some (tv_current (po_server (fold (poll X f) ts p)))) (Some root)"
  "DialTLS_http (fold (poll X f) ts p) name = client_config (fold (poll X f) ts p) name"
  by (simp_all add: client_config_def DialTLS_http_def snapshot_handshake_def ClientTLSConfig_def TrustsRoot_def trusts_def Let_def)

text \<open>A configuration made by \<open>ClientTLSConfig\<close> trusts what was trusted when it was made, whatever ticks follow; only
  its certificate is the current one.\<close>

lemma snapshot_keeps_roots:
  assumes "sn = ClientTLSConfig p name" and "q = fold (poll X f) ts p"
  shows "trusts (snapshot_handshake sn q) root \<longleftrightarrow> TrustsRoot (Some (tv_current (po_server p))) (Some root)"
    and "ch_Chain (snapshot_handshake sn q) = ma_Chain (tv_current (po_server q))"
  by (simp_all add: assms ClientTLSConfig_def snapshot_handshake_def TrustsRoot_def trusts_def)

text \<open>So after a reload that retires a root, such a client still accepts a server under it, and the clients above do
  not.\<close>

lemma snapshot_trusts_retired:
  assumes "sn = ClientTLSConfig p name" "TrustsRoot (Some (tv_current (po_server p))) (Some root)"
    and "q = fold (poll X f) ts p" "\<not> TrustsRoot (Some (tv_current (po_server q))) (Some root)"
  shows "trusts (snapshot_handshake sn q) root" "\<not> trusts (client_config q name) root"
  using assms snapshot_keeps_roots(1) [OF assms(1,3)] clients_follow_reloads(1) by blast+

text \<open>The idle pool of the HTTP transport is kept only when everything that was trusted still is.\<close>

lemma http_pool_kept:
  assumes "\<not> http_closes_idle previous current" "map_of (ma_Roots previous) fp \<noteq> None"
  shows "map_of (ma_Roots current) fp \<noteq> None"
proof -
  from assms(2) obtain c where "(fp, c) \<in> set (ma_Roots previous)" by (auto dest: map_of_SomeD)
  with assms(1) show ?thesis by (fastforce simp: http_closes_idle_def RetiredRoots_def filter_empty_conv)
qed

text \<open>A reloader polls after a start and not after a stop, however often they are called.\<close>

lemma polling_toggles:
  "po_polling (Start_poller p)" "\<not> po_polling (Stop_poller p)"
  "po_server (Start_poller p) = po_server p" "fold (poll X f) ts (Stop_poller p) = Stop_poller p"
proof -
  show stop: "\<not> po_polling (Stop_poller p)" by (simp add: Stop_poller_def)
  show "fold (poll X f) ts (Stop_poller p) = Stop_poller p"
    by (induction ts) (simp_all add: poll_def stop split: prod.splits)
qed (simp_all add: Start_poller_def)

end
