(* ===== verification/Config.thy ===== *)
theory Config
  imports Complex_Main Grpc_Server Go_Time
begin

text \<open>
  The configuration generations of \<open>internal/config\<close>: the typed structs, the defaults, the allowlisted environment,
  the Apollo snapshot (\<open>apollo.go\<close>), the loader and the validation (\<open>config.go\<close>).  koanf and the decoder of its
  values are a library: its operations are the record \<open>koanf\<close>, an argument of the loader.  A failed rule of the
  validation is named by its configuration key.
\<close>

section \<open>The structs\<close>

record ServerIdentity =
  si_Mode :: string
  si_TrustDomain :: string
  si_CertFile :: string
  si_KeyFile :: string
  si_CAFile :: string
  si_MaxConnectionAge :: duration
  si_ReloadInterval :: duration

record GRPCConfig =
  gc_Listen :: string
  gc_Capacity :: int
  gc_ShutdownTimeout :: duration
  gc_Identity :: ServerIdentity

record ClientTLS =
  ctl_Mode :: string
  ctl_CAFile :: string
  ctl_CertFile :: string
  ctl_KeyFile :: string
  ctl_ServerName :: string

record ClientIdentity =
  ci_Mode :: string
  ci_MTLS :: ClientTLS

record Development =
  dev_Enabled :: bool

record HealthConfig =
  hc_Listen :: string

record Database =
  db_URL :: string
  db_URLFile :: string
  db_MaxConn :: int

record TasksConfig =
  tcf_MaxInputBytes :: int
  tcf_MaxLease :: duration
  tcf_RetryDelay :: duration
  tcf_MaxAttempts :: u32
  tcf_SweepInterval :: duration

record RetentionConfig =
  rc_Outbox :: duration
  rc_Inbox :: duration
  rc_Attempts :: duration
  rc_Interval :: duration
  rc_Batch :: int

record NATS =
  nats_URL :: string
  nats_PublishTimeout :: duration
  nats_Name :: string
  nats_TLS :: ClientTLS
  nats_CredsFile :: string
  nats_CredsKind :: string

record OutboxConfig =
  oc_ForwarderEnabled :: bool
  oc_ConsumerGroup :: string
  oc_PollInterval :: duration
  oc_AckDeadline :: duration
  oc_ResendInterval :: duration
  oc_BatchSize :: int
  oc_NATS :: NATS

record ControlConfig =
  cc_Address :: string
  cc_Timeout :: duration
  cc_Identity :: ClientIdentity

record Apollo =
  ap_Mode :: string
  ap_SnapshotFile :: string
  ap_AppID :: string

record ReloadConfig =
  rl_Interval :: duration
  rl_DrainLimit :: duration

record ContextForgeConfig =
  cf_URL :: string
  cf_TokenFile :: string
  cf_Timeout :: duration
  cf_CAFile :: string
  cf_ServerName :: string

record CatalogConfig =
  kc_ContextForge :: ContextForgeConfig
  kc_AllowedHosts :: "string list"
  kc_PrivateHosts :: "string list"
  kc_RolesFile :: string
  kc_RefreshInterval :: duration

record BarrierConfig =
  bc_ReconcileInterval :: duration
  bc_ReconcileAge :: duration

record QualifiedRouteConfig =
  qrc_Resource :: string
  qrc_ProtocolVersion :: string
  qrc_Transport :: string
  qrc_Route :: string

record CallsConfig =
  clc_QualifiedRoutes :: "QualifiedRouteConfig list"
  clc_SendTimeout :: duration
  clc_Wait :: duration
  clc_MaxResponseBytes :: int
  clc_ReconcileInterval :: duration
  clc_ReconcileAge :: duration
  clc_CredentialsFile :: string

text \<open>A \<open>float64\<close>: not a number, an infinity, or a finite value.\<close>

datatype float64 = NaN | PosInf | NegInf | Fin rat

fun float_less :: "float64 \<Rightarrow> float64 \<Rightarrow> bool" where
  "float_less NaN y = False"
| "float_less x NaN = False"
| "float_less PosInf y = False"
| "float_less x NegInf = False"
| "float_less NegInf y = True"
| "float_less x PosInf = True"
| "float_less (Fin a) (Fin b) = (a < b)"

record Telemetry =
  te_OTLPEndpoint :: string
  te_SampleRatio :: float64
  te_OTLPTLS :: ClientTLS

record Config =
  co_Development :: Development
  co_Telemetry :: Telemetry
  co_GRPC :: GRPCConfig
  co_Health :: HealthConfig
  co_Database :: Database
  co_Tasks :: TasksConfig
  co_Outbox :: OutboxConfig
  co_Retention :: RetentionConfig
  co_Control :: ControlConfig
  co_Apollo :: Apollo
  co_Reload :: ReloadConfig
  co_Catalog :: CatalogConfig
  co_Barrier :: BarrierConfig
  co_Calls :: CallsConfig

abbreviation development :: "Config \<Rightarrow> bool" where
  "development c \<equiv> dev_Enabled (co_Development c)"

section \<open>Inputs\<close>

datatype cval = CStr string | CInt int | CBool bool | CFloat float64 | CStrs "string list" | CMaps "(string \<times> string) list list"

definition config_defaults :: "(string \<times> cval) list" where
  "config_defaults =
    [(''grpc.listen'', CStr ''127.0.0.1:9106''), (''telemetry.sample_ratio'', CFloat (Fin 1)), (''grpc.capacity'', CInt 64),
     (''grpc.shutdown_timeout'', CStr ''20s''), (''grpc.identity.mode'', CStr ''mtls''),
     (''grpc.identity.max_connection_age'', CStr ''1h''), (''grpc.identity.reload_interval'', CStr ''5s''),
     (''development.enabled'', CBool False), (''control.identity.mode'', CStr ''mtls''),
     (''control.identity.mtls.server_name'', CStr ''anvilkit-agent-control''), (''outbox.nats.tls.mode'', CStr ''tls''),
     (''telemetry.otlp_tls.mode'', CStr ''tls''), (''health.listen'', CStr ''127.0.0.1:9116''), (''database.max_conn'', CInt 8),
     (''tasks.max_input_bytes'', CInt 65536), (''tasks.max_lease'', CStr ''10m''), (''tasks.retry_delay'', CStr ''5s''),
     (''tasks.max_attempts'', CInt 3), (''tasks.sweep_interval'', CStr ''2s''), (''retention.outbox'', CStr ''168h''),
     (''retention.inbox'', CStr ''168h''), (''retention.attempts'', CStr ''720h''), (''retention.interval'', CStr ''10m''),
     (''retention.batch'', CInt 1000), (''outbox.forwarder_enabled'', CBool True),
     (''outbox.consumer_group'', CStr ''anvilkit-agent-mcp-forwarder''), (''outbox.poll_interval'', CStr ''500ms''),
     (''outbox.ack_deadline'', CStr ''30s''), (''outbox.resend_interval'', CStr ''1s''), (''outbox.batch_size'', CInt 100),
     (''outbox.nats.publish_timeout'', CStr ''5s''), (''outbox.nats.name'', CStr ''anvilkit-agent-mcp''),
     (''control.timeout'', CStr ''5s''), (''apollo.mode'', CStr ''disabled''), (''apollo.app_id'', CStr ''anvilkit-agent-mcp''),
     (''reload.interval'', CStr ''2s''), (''reload.drain_limit'', CStr ''30s''), (''catalog.contextforge.timeout'', CStr ''60s''),
     (''catalog.allowed_hosts'', CStrs []), (''catalog.private_hosts'', CStrs []), (''catalog.refresh_interval'', CStr ''0s''),
     (''barrier.reconcile_interval'', CStr ''2s''), (''barrier.reconcile_age'', CStr ''5s''), (''calls.qualified_routes'', CMaps []),
     (''calls.send_timeout'', CStr ''60s''), (''calls.wait'', CStr ''30s''), (''calls.max_response_bytes'', CInt 1048576),
     (''calls.reconcile_interval'', CStr ''2s''), (''calls.reconcile_age'', CStr ''2m'')]"

definition envOverrides :: "(string \<times> string) list" where
  "envOverrides = map (\<lambda>(n, k). (''ANVILKIT_MCP_'' @ n, k))
    [(''LISTEN'', ''grpc.listen''), (''HEALTH_LISTEN'', ''health.listen''),
     (''IDENTITY_CERT_FILE'', ''grpc.identity.cert_file''), (''IDENTITY_KEY_FILE'', ''grpc.identity.key_file''),
     (''IDENTITY_CA_FILE'', ''grpc.identity.ca_file''), (''IDENTITY_TRUST_DOMAIN'', ''grpc.identity.trust_domain''),
     (''TELEMETRY_OTLP_ENDPOINT'', ''telemetry.otlp_endpoint''), (''DATABASE_URL'', ''database.url''),
     (''DATABASE_URL_FILE'', ''database.url_file''), (''NATS_URL'', ''outbox.nats.url''),
     (''NATS_CREDS_FILE'', ''outbox.nats.creds_file''), (''NATS_TLS_MODE'', ''outbox.nats.tls.mode''),
     (''NATS_TLS_CA_FILE'', ''outbox.nats.tls.ca_file''), (''NATS_TLS_CERT_FILE'', ''outbox.nats.tls.cert_file''),
     (''NATS_TLS_KEY_FILE'', ''outbox.nats.tls.key_file''), (''NATS_TLS_SERVER_NAME'', ''outbox.nats.tls.server_name''),
     (''CONTROL_ADDRESS'', ''control.address''), (''APOLLO_SNAPSHOT_FILE'', ''apollo.snapshot_file''),
     (''CONTEXTFORGE_URL'', ''catalog.contextforge.url''), (''CONTEXTFORGE_TOKEN_FILE'', ''catalog.contextforge.token_file''),
     (''CONTEXTFORGE_CA_FILE'', ''catalog.contextforge.ca_file''), (''ROLES_FILE'', ''catalog.roles_file''),
     (''UPSTREAM_CREDENTIALS_FILE'', ''calls.credentials_file'')]"

definition secretKeys :: "string list" where
  "secretKeys = [''database.url'']"

definition placementKeys :: "string list" where
  "placementKeys = [''database.url_file'', ''outbox.nats.url'', ''outbox.nats.creds_file'', ''control.address'',
     ''apollo.snapshot_file'', ''catalog.contextforge.url'', ''catalog.contextforge.token_file'', ''catalog.contextforge.ca_file'',
     ''catalog.roles_file'', ''calls.credentials_file'']"

text \<open>What the loader uses of koanf, on its trees \<open>'k\<close>.  \<open>All\<close> gives every leaf; a value JSON cannot encode is \<open>None\<close>.\<close>

record 'k koanf =
  k_New :: 'k
  k_LoadMap :: "'k \<Rightarrow> (string \<times> cval) list \<Rightarrow> err + 'k"
  k_LoadYaml :: "'k \<Rightarrow> bytes \<Rightarrow> err + 'k"
  k_Exists :: "'k \<Rightarrow> string \<Rightarrow> bool"
  k_String :: "'k \<Rightarrow> string \<Rightarrow> string"
  k_Set :: "'k \<Rightarrow> string \<Rightarrow> string \<Rightarrow> err + 'k"
  k_Merge :: "'k \<Rightarrow> 'k \<Rightarrow> err + 'k"
  k_Unmarshal :: "'k \<Rightarrow> err + Config"
  k_All :: "'k \<Rightarrow> (string \<times> json option) list"

definition envPrefix :: string where
  "envPrefix = ''ANVILKIT_MCP_''"

definition EnvConfigFile :: string where
  "EnvConfigFile = ''ANVILKIT_MCP_CONFIG''"

text \<open>The loop over the environment: the tree and the names that are not overrides.\<close>

fun apply_vars :: "'k koanf \<Rightarrow> string list \<Rightarrow> 'k \<Rightarrow> string list \<Rightarrow> err + 'k \<times> string list" where
  "apply_vars lib [] k unknown = Inr (k, unknown)"
| "apply_vars lib (kv # rest) k unknown =
     (let (name, value, _) = Cut kv (CHR ''='') in
      if \<not> HasPrefix name envPrefix \<or> name = EnvConfigFile then apply_vars lib rest k unknown
      else (case map_of envOverrides name of
              None \<Rightarrow> apply_vars lib rest k (unknown @ [name])
            | Some key \<Rightarrow>
               (case k_Set lib k key value of Inl e \<Rightarrow> Inl e | Inr k' \<Rightarrow> apply_vars lib rest k' unknown)))"

definition applyEnv :: "'k koanf \<Rightarrow> 'k \<Rightarrow> string list \<Rightarrow> err + 'k" where
  "applyEnv lib k environ =
     (case apply_vars lib environ k [] of
        Inl e \<Rightarrow> Inl e
      | Inr (k', unknown) \<Rightarrow> if unknown \<noteq> [] then Inl (err ErrOther) else Inr k')"

section \<open>The Apollo snapshot\<close>

record ApolloSnapshot =
  as_SchemaVersion :: int
  as_AppID :: string
  as_Cluster :: string
  as_Namespace :: string
  as_ReleaseKey :: string
  as_FetchedAt :: string
  as_ExpiresAt :: string
  as_Configurations :: "(string \<times> string) list option"

definition releaseKeyPattern :: "string \<Rightarrow> bool" where
  "releaseKeyPattern s \<longleftrightarrow> length s = 27 \<and> list_all is_digit (take 14 s) \<and> s ! 14 = CHR ''-'' \<and> list_all is_lower_hex (drop 15 s)"

definition config_key_part :: "string \<Rightarrow> bool" where
  "config_key_part p \<longleftrightarrow> p \<noteq> [] \<and> CHR ''a'' \<le> hd p \<and> hd p \<le> CHR ''z''
     \<and> list_all (\<lambda>c. (CHR ''a'' \<le> c \<and> c \<le> CHR ''z'') \<or> is_digit c \<or> c = CHR ''_'') p"

definition configKeyPattern :: "string \<Rightarrow> bool" where
  "configKeyPattern s \<longleftrightarrow> list_all config_key_part (Split s (CHR ''.''))"

definition secretKeyPattern :: "string \<Rightarrow> bool" where
  "secretKeyPattern s \<longleftrightarrow> last (Split s (CHR ''.'')) \<in>
     {''url'', ''url_file'', ''address'', ''token'', ''secret'', ''password'', ''access_key_id'', ''secret_access_key'', ''snapshot_file''}"

text \<open>A \<open>map[string]string\<close>: \<open>null\<close> makes it nil, a member replaces an earlier one, a \<open>null\<close> member is empty.\<close>

fun put_strings :: "(string \<times> json) list \<Rightarrow> (string \<times> string) list \<Rightarrow> (string \<times> string) list option" where
  "put_strings [] m = Some m"
| "put_strings ((k, v) # ms) m =
     (case v of
        JStr s \<Rightarrow> put_strings ms (AList.update k s m)
      | JNull \<Rightarrow> put_strings ms (AList.update k [] m)
      | _ \<Rightarrow> None)"

definition fld_strings ::
  "('a \<Rightarrow> (string \<times> string) list option) \<Rightarrow> ((string \<times> string) list option \<Rightarrow> 'a \<Rightarrow> 'a) \<Rightarrow> json \<Rightarrow> 'a \<Rightarrow> 'a option" where
  "fld_strings get upd v x =
     (case v of
        JNull \<Rightarrow> Some (upd None x)
      | JObj ms \<Rightarrow> map_option (\<lambda>m. upd (Some m) x) (put_strings ms (case get x of None \<Rightarrow> [] | Some m \<Rightarrow> m))
      | _ \<Rightarrow> None)"

definition snapshot_fields :: "ApolloSnapshot json_field list" where
  "snapshot_fields =
    [(''schemaVersion'', fld_int (\<lambda>v s. s\<lparr>as_SchemaVersion := v\<rparr>)),
     (''appId'', fld_str (\<lambda>v s. s\<lparr>as_AppID := v\<rparr>)),
     (''cluster'', fld_str (\<lambda>v s. s\<lparr>as_Cluster := v\<rparr>)),
     (''namespace'', fld_str (\<lambda>v s. s\<lparr>as_Namespace := v\<rparr>)),
     (''releaseKey'', fld_str (\<lambda>v s. s\<lparr>as_ReleaseKey := v\<rparr>)),
     (''fetchedAt'', fld_str (\<lambda>v s. s\<lparr>as_FetchedAt := v\<rparr>)),
     (''expiresAt'', fld_str (\<lambda>v s. s\<lparr>as_ExpiresAt := v\<rparr>)),
     (''configurations'', fld_strings as_Configurations (\<lambda>v s. s\<lparr>as_Configurations := v\<rparr>))]"

definition zero_snapshot :: ApolloSnapshot where
  "zero_snapshot = \<lparr>as_SchemaVersion = 0, as_AppID = [], as_Cluster = [], as_Namespace = [], as_ReleaseKey = [],
     as_FetchedAt = [], as_ExpiresAt = [], as_Configurations = None\<rparr>"

text \<open>\<open>Decoder.More\<close> after the value: something follows that is not a closing bracket.\<close>

definition more_follows :: "bytes \<Rightarrow> bool" where
  "more_follows rest = (case skip_ws rest of [] \<Rightarrow> False | c # _ \<Rightarrow> c \<noteq> CHR '']'' \<and> c \<noteq> CHR ''}'')"

definition decode_snapshot :: "bytes \<Rightarrow> ApolloSnapshot option" where
  "decode_snapshot raw =
     (case parse_value (2 * length raw + 2) 0 raw of
        None \<Rightarrow> None
      | Some (v, rest) \<Rightarrow>
         (case decode_struct True snapshot_fields zero_snapshot v of
            None \<Rightarrow> None
          | Some s \<Rightarrow> if more_follows rest then None else Some s))"

definition ParseApolloSnapshot :: "bytes \<Rightarrow> string \<Rightarrow> time \<Rightarrow> err + ApolloSnapshot" where
  "ParseApolloSnapshot raw appID now =
     (case decode_snapshot raw of
        None \<Rightarrow> Inl (err ErrOther)
      | Some s \<Rightarrow>
         if as_SchemaVersion s \<noteq> 1 \<or> as_AppID s \<noteq> appID \<or> as_Cluster s = [] \<or> as_Namespace s = []
            \<or> \<not> releaseKeyPattern (as_ReleaseKey s) then Inl (err ErrOther)
         else (case as_Configurations s of
            None \<Rightarrow> Inl (err ErrOther)
          | Some cs \<Rightarrow>
             (case (parse_rfc3339 (as_FetchedAt s), parse_rfc3339 (as_ExpiresAt s)) of
                (Some fetched, Some expires) \<Rightarrow>
                  if \<not> After expires fetched then Inl (err ErrOther)
                  else if \<not> After expires now then Inl (err ErrOther)
                  else if list_ex (\<lambda>(key, _). \<not> configKeyPattern key \<or> secretKeyPattern key) cs then Inl (err ErrOther)
                  else Inr s
              | _ \<Rightarrow> Inl (err ErrOther))))"

definition LoadApolloSnapshot :: "filesystem \<Rightarrow> string \<Rightarrow> string \<Rightarrow> time \<Rightarrow> err + ApolloSnapshot" where
  "LoadApolloSnapshot fs path appID now =
     (case fs path of None \<Rightarrow> Inl (err ErrOther) | Some raw \<Rightarrow> ParseApolloSnapshot raw appID now)"

section \<open>Digests and credentials\<close>

definition digestOf :: "string \<Rightarrow> string" where
  "digestOf s = ''sha256:'' @ sha256_hex s"

definition nonSecretDigest :: "'k koanf \<Rightarrow> 'k \<Rightarrow> err + string" where
  "nonSecretDigest lib k =
     (let every = filter (\<lambda>(key, _). key \<notin> set secretKeys) (k_All lib k) in
      if list_ex (\<lambda>(_, v). v = None) every then Inl (err ErrOther)
      else Inr (digestOf (json_encode (jmap (map (\<lambda>(key, v). (key, the v)) every)))))"

definition secretRevision :: "Config \<Rightarrow> string \<Rightarrow> string" where
  "secretRevision c natsCreds =
     digestOf (''database.url='' @ db_URL (co_Database c)
       @ (if natsCreds \<noteq> [] then CHR 0x0A # ''outbox.nats.creds_file='' @ natsCreds else []))"

definition firstNonEmptyLine :: "bytes \<Rightarrow> bytes" where
  "firstNonEmptyLine raw =
     (case find (\<lambda>l. l \<noteq> []) (map TrimSpace (Split raw (CHR 0x0A))) of None \<Rightarrow> [] | Some l \<Rightarrow> l)"

definition natsUserJWTMarker :: bytes where
  "natsUserJWTMarker = ''-----BEGIN NATS USER JWT-----''"

definition Contains :: "bytes \<Rightarrow> bytes \<Rightarrow> bool" where
  "Contains s sub \<longleftrightarrow> list_ex (\<lambda>i. HasPrefix (drop i s) sub) [0 ..< Suc (length s)]"

definition readNATSCredentials :: "filesystem \<Rightarrow> string \<Rightarrow> err + string \<times> string" where
  "readNATSCredentials fs path =
     (case fs path of
        None \<Rightarrow> Inl (err ErrOther)
      | Some raw \<Rightarrow>
         if Contains raw natsUserJWTMarker then Inr (''user'', ''sha256:'' @ sha256_hex raw)
         else if HasPrefix (firstNonEmptyLine raw) ''SU'' then Inr (''nkey'', ''sha256:'' @ sha256_hex raw)
         else Inl (err ErrOther))"

section \<open>Validation\<close>

definition rule :: "bool \<Rightarrow> string \<Rightarrow> string list" where
  "rule good name = (if good then [] else [name])"

definition TrustDomain :: "Config \<Rightarrow> string" where
  "TrustDomain c = (if si_TrustDomain (gc_Identity (co_GRPC c)) = [] then ''anvilkit.local'' else si_TrustDomain (gc_Identity (co_GRPC c)))"

definition ControlMTLS :: "Config \<Rightarrow> ClientTLS" where
  "ControlMTLS c =
     (let m = ci_MTLS (cc_Identity (co_Control c)); id = gc_Identity (co_GRPC c) in
      if ctl_CertFile m = [] \<and> ctl_KeyFile m = [] \<and> ctl_CAFile m = []
      then m\<lparr>ctl_CertFile := si_CertFile id, ctl_KeyFile := si_KeyFile id, ctl_CAFile := si_CAFile id\<rparr> else m)"

definition validate_tls :: "ClientTLS \<Rightarrow> string \<Rightarrow> bool \<Rightarrow> string list" where
  "validate_tls t name dev =
     (if ctl_Mode t = ''development'' then rule dev (name @ ''.mode'')
      else if ctl_Mode t = ''tls'' then rule (ctl_CAFile t \<noteq> []) (name @ ''.ca_file'')
      else if ctl_Mode t = ''mtls'' then rule (ctl_CAFile t \<noteq> [] \<and> ctl_CertFile t \<noteq> [] \<and> ctl_KeyFile t \<noteq> []) (name @ ''.files'')
      else [name @ ''.mode''])"

definition validate_listener :: "Config \<Rightarrow> string list" where
  "validate_listener c =
     (let id = gc_Identity (co_GRPC c) in
      (if si_Mode id = ''mtls'' then rule (si_CertFile id \<noteq> [] \<and> si_KeyFile id \<noteq> [] \<and> si_CAFile id \<noteq> []) ''grpc.identity.files''
       else if si_Mode id = ''development'' then rule (development c) ''grpc.identity.mode''
       else [''grpc.identity.mode''])
      @ (if si_TrustDomain id = [] \<and> development c then []
         else if si_TrustDomain id = [] then [''grpc.identity.trust_domain'']
         else rule (ValidTrustDomain (si_TrustDomain id)) ''grpc.identity.trust_domain'')
      @ rule (60 * second \<le> si_MaxConnectionAge id \<and> si_MaxConnectionAge id \<le> 86400 * second) ''grpc.identity.max_connection_age''
      @ rule (100000000 \<le> si_ReloadInterval id \<and> si_ReloadInterval id \<le> 3600 * second) ''grpc.identity.reload_interval'')"

definition validateIdentity :: "Config \<Rightarrow> string list" where
  "validateIdentity c =
     validate_listener c
     @ (let mode = ci_Mode (cc_Identity (co_Control c)); m = ControlMTLS c; placed = (cc_Address (co_Control c) \<noteq> []) in
        if mode = ''mtls''
        then rule (\<not> (placed \<and> (ctl_CertFile m = [] \<or> ctl_KeyFile m = [] \<or> ctl_CAFile m = []))) ''control.identity.mtls.files''
             @ rule (ctl_ServerName m \<noteq> []) ''control.identity.mtls.server_name''
        else if mode = ''development'' then rule (\<not> (placed \<and> \<not> development c)) ''control.identity.mode''
        else [''control.identity.mode''])
     @ (if oc_ForwarderEnabled (co_Outbox c)
        then validate_tls (nats_TLS (oc_NATS (co_Outbox c))) ''outbox.nats.tls'' (development c)
             @ rule (\<not> (nats_CredsFile (oc_NATS (co_Outbox c)) = [] \<and> \<not> development c)) ''outbox.nats.creds_file''
        else [])
     @ (if te_OTLPEndpoint (co_Telemetry c) \<noteq> []
        then validate_tls (te_OTLPTLS (co_Telemetry c)) ''telemetry.otlp_tls'' (development c) else [])"

text \<open>The database URL: its scheme and, outside development, the last \<open>sslmode\<close> and the absence of \<open>ssl\<close>.\<close>

definition validate_database :: "Config \<Rightarrow> string list" where
  "validate_database c =
     rule (db_URL (co_Database c) \<noteq> []) ''database.url''
     @ (if db_URL (co_Database c) = [] then []
        else (case url_Parse (db_URL (co_Database c)) of
                None \<Rightarrow> [''database.url'']
              | Some u \<Rightarrow>
                 if u_Scheme u \<noteq> ''postgres'' \<and> u_Scheme u \<noteq> ''postgresql'' then [''database.url'']
                 else if development c then []
                 else (let modes = map snd (filter (\<lambda>(k, _). k = ''sslmode'') (Query u)) in
                       rule ((if modes \<noteq> [] then last modes else []) = ''verify-full'') ''database.url: sslmode''
                       @ rule (\<not> list_ex (\<lambda>(k, _). k = ''ssl'') (Query u)) ''database.url: ssl'')))
     @ rule (1 \<le> db_MaxConn (co_Database c) \<and> db_MaxConn (co_Database c) \<le> 256) ''database.max_conn''"

abbreviation in_range :: "int \<Rightarrow> int \<Rightarrow> int \<Rightarrow> bool" where
  "in_range lo hi d \<equiv> lo \<le> d \<and> d \<le> hi"

definition validate_lanes :: "Config \<Rightarrow> string list" where
  "validate_lanes c =
     (let t = co_Tasks c; r = co_Retention c; ob = co_Outbox c; minute = 60 * second; hour = 3600 * second in
      rule (0 < tcf_MaxInputBytes t \<and> tcf_MaxInputBytes t \<le> 65536) ''tasks.max_input_bytes''
      @ rule (0 < tcf_MaxLease t \<and> tcf_MaxLease t \<le> hour) ''tasks.max_lease''
      @ rule (in_range 0 hour (tcf_RetryDelay t)) ''tasks.retry_delay''
      @ rule (1 \<le> tcf_MaxAttempts t \<and> tcf_MaxAttempts t \<le> 100) ''tasks.max_attempts''
      @ rule (0 < tcf_SweepInterval t \<and> tcf_SweepInterval t \<le> minute) ''tasks.sweep_interval''
      @ rule (tcf_SweepInterval t < tcf_MaxLease t) ''tasks.sweep_interval''
      @ rule (in_range hour (2160 * hour) (rc_Outbox r)) ''retention.outbox''
      @ rule (in_range hour (2160 * hour) (rc_Inbox r)) ''retention.inbox''
      @ rule (in_range hour (2160 * hour) (rc_Attempts r)) ''retention.attempts''
      @ rule (in_range minute (24 * hour) (rc_Interval r)) ''retention.interval''
      @ rule (in_range 1 10000 (rc_Batch r)) ''retention.batch''
      @ rule (oc_ConsumerGroup ob \<noteq> []) ''outbox.consumer_group''
      @ rule (0 < oc_PollInterval ob \<and> oc_PollInterval ob \<le> minute) ''outbox.poll_interval''
      @ rule (0 < oc_AckDeadline ob \<and> oc_AckDeadline ob \<le> 5 * minute) ''outbox.ack_deadline''
      @ rule (0 < oc_ResendInterval ob \<and> oc_ResendInterval ob \<le> minute) ''outbox.resend_interval''
      @ rule (in_range 1 1000 (oc_BatchSize ob)) ''outbox.batch_size''
      @ rule (oc_ForwarderEnabled ob \<longrightarrow> nats_URL (oc_NATS ob) \<noteq> []) ''outbox.nats.url''
      @ (if nats_URL (oc_NATS ob) = [] then []
         else rule (case url_Parse (nats_URL (oc_NATS ob)) of None \<Rightarrow> False
                    | Some u \<Rightarrow> u_Scheme u = ''nats'' \<or> u_Scheme u = ''tls'') ''outbox.nats.url'')
      @ rule (0 < nats_PublishTimeout (oc_NATS ob) \<and> nats_PublishTimeout (oc_NATS ob) \<le> minute) ''outbox.nats.publish_timeout'')"

definition validate_catalog :: "Config \<Rightarrow> string list" where
  "validate_catalog c =
     (let cf = kc_ContextForge (co_Catalog c); u = url_Parse (cf_URL cf); minute = 60 * second in
      (if cf_URL cf = [] then []
       else rule (case u of None \<Rightarrow> False | Some v \<Rightarrow> (u_Scheme v = ''http'' \<or> u_Scheme v = ''https'') \<and> u_Host v \<noteq> []) ''catalog.contextforge.url''
            @ rule (cf_TokenFile cf \<noteq> []) ''catalog.contextforge.token_file''
            @ rule (case u of None \<Rightarrow> True | Some v \<Rightarrow> u_Scheme v = ''https'' \<or> development c) ''catalog.contextforge.url'')
      @ rule (0 < cf_Timeout cf \<and> cf_Timeout cf \<le> 5 * minute) ''catalog.contextforge.timeout''
      @ rule (kc_PrivateHosts (co_Catalog c) = [] \<or> development c) ''catalog.private_hosts''
      @ rule (kc_RefreshInterval (co_Catalog c) = 0 \<or> in_range minute (7 * 24 * 3600 * second) (kc_RefreshInterval (co_Catalog c)))
          ''catalog.refresh_interval'')"

definition validate_route :: "QualifiedRouteConfig \<Rightarrow> string list" where
  "validate_route r =
     rule (case url_Parse (qrc_Resource r) of None \<Rightarrow> False
           | Some u \<Rightarrow> u_Host u \<noteq> [] \<and> (u_Scheme u = ''https'' \<or> u_Scheme u = ''http'')) ''calls.qualified_routes.resource''
     @ rule (qrc_ProtocolVersion r \<noteq> []) ''calls.qualified_routes.protocol_version''
     @ rule (qrc_Transport r = ''streamable-http'') ''calls.qualified_routes.transport''
     @ rule (qrc_Route r = ''go-sdk'') ''calls.qualified_routes.route''"

definition validate_calls :: "Config \<Rightarrow> string list" where
  "validate_calls c =
     (let b = co_Barrier c; k = co_Calls c; minute = 60 * second; hour = 3600 * second in
      rule (0 < bc_ReconcileInterval b \<and> bc_ReconcileInterval b \<le> minute) ''barrier.reconcile_interval''
      @ rule (in_range 0 hour (bc_ReconcileAge b)) ''barrier.reconcile_age''
      @ rule (0 < clc_SendTimeout k \<and> clc_SendTimeout k \<le> 10 * minute) ''calls.send_timeout''
      @ rule (in_range 0 (10 * minute) (clc_Wait k)) ''calls.wait''
      @ rule (in_range 1024 (2 ^ 20) (clc_MaxResponseBytes k)) ''calls.max_response_bytes''
      @ rule (0 < clc_ReconcileInterval k \<and> clc_ReconcileInterval k \<le> minute) ''calls.reconcile_interval''
      @ rule (clc_SendTimeout k < clc_ReconcileAge k \<and> clc_ReconcileAge k \<le> hour) ''calls.reconcile_age''
      @ concat (map validate_route (clc_QualifiedRoutes k)))"

definition validate :: "Config \<Rightarrow> string list" where
  "validate c =
     (let ratio = te_SampleRatio (co_Telemetry c); minute = 60 * second in
      rule (\<not> (float_less ratio (Fin 0) \<or> float_less (Fin 1) ratio)) ''telemetry.sample_ratio''
      @ rule (gc_Listen (co_GRPC c) \<noteq> []) ''grpc.listen''
      @ rule (0 < gc_Capacity (co_GRPC c) \<and> gc_Capacity (co_GRPC c) \<le> 4096) ''grpc.capacity''
      @ rule (0 < gc_ShutdownTimeout (co_GRPC c) \<and> gc_ShutdownTimeout (co_GRPC c) \<le> 5 * minute) ''grpc.shutdown_timeout''
      @ rule (hc_Listen (co_Health c) \<noteq> []) ''health.listen''
      @ rule (hc_Listen (co_Health c) \<noteq> gc_Listen (co_GRPC c)) ''health.listen''
      @ validateIdentity c
      @ validate_database c
      @ validate_lanes c
      @ rule (0 < cc_Timeout (co_Control c) \<and> cc_Timeout (co_Control c) \<le> minute) ''control.timeout''
      @ rule (ap_Mode (co_Apollo c) = ''disabled'' \<or> ap_Mode (co_Apollo c) = ''snapshot'') ''apollo.mode''
      @ rule (ap_Mode (co_Apollo c) = ''snapshot'' \<longrightarrow> ap_SnapshotFile (co_Apollo c) \<noteq> []) ''apollo.snapshot_file''
      @ rule (ap_AppID (co_Apollo c) \<noteq> []) ''apollo.app_id''
      @ rule (0 < rl_Interval (co_Reload c) \<and> rl_Interval (co_Reload c) \<le> minute) ''reload.interval''
      @ rule (0 < rl_DrainLimit (co_Reload c) \<and> rl_DrainLimit (co_Reload c) \<le> 10 * minute) ''reload.drain_limit''
      @ validate_catalog c
      @ validate_calls c)"

section \<open>Loading\<close>

record Generation =
  gn_Number :: u64
  gn_Config :: Config
  gn_Digest :: string
  gn_SecretRevision :: string
  gn_Profiles :: "(string \<times> string) list"
  gn_ApolloRelease :: string
  gn_BuiltAt :: time
  gn_ExpiresAt :: time

definition Inputs :: "Generation \<Rightarrow> string" where
  "Inputs g = gn_Digest g @ ''/'' @ gn_SecretRevision g @ ''/'' @ gn_ApolloRelease g @ ''/'' @ fmt_rfc3339nano (gn_ExpiresAt g)"

definition andThen :: "'e + 'a \<Rightarrow> ('a \<Rightarrow> 'e + 'b) \<Rightarrow> 'e + 'b" where
  "andThen r k = (case r of Inl e \<Rightarrow> Inl e | Inr x \<Rightarrow> k x)"

text \<open>The reviewed file above the defaults; none of the secrets and placements may be in it.\<close>

definition load_reviewed :: "'k koanf \<Rightarrow> filesystem \<Rightarrow> string \<Rightarrow> err + 'k" where
  "load_reviewed lib fs path =
     andThen (k_LoadMap lib (k_New lib) config_defaults) (\<lambda>k.
     andThen (case fs path of None \<Rightarrow> Inl (err ErrOther) | Some raw \<Rightarrow> k_LoadYaml lib (k_New lib) raw) (\<lambda>reviewed.
     if list_ex (k_Exists lib reviewed) (secretKeys @ placementKeys) then Inl (err ErrOther)
     else k_Merge lib k reviewed))"

text \<open>The snapshot, in snapshot mode: the tree, the release and the expiry.\<close>

definition load_snapshot :: "'k koanf \<Rightarrow> filesystem \<Rightarrow> time \<Rightarrow> 'k \<Rightarrow> 'k \<Rightarrow> err + 'k \<times> string \<times> time" where
  "load_snapshot lib fs now k env =
     (let mode = (if k_Exists lib env ''apollo.mode'' then k_String lib env ''apollo.mode'' else k_String lib k ''apollo.mode'') in
      if mode \<noteq> ''snapshot'' then Inr (k, [], zero_time)
      else andThen (LoadApolloSnapshot fs (k_String lib env ''apollo.snapshot_file'') (k_String lib k ''apollo.app_id'') now) (\<lambda>snap.
           let cs = (case as_Configurations snap of None \<Rightarrow> [] | Some m \<Rightarrow> m) in
           if list_ex (\<lambda>(key, _). key \<in> set (secretKeys @ placementKeys)) cs then Inl (err ErrOther)
           else andThen (k_LoadMap lib k (map (\<lambda>(key, v). (key, CStr v)) cs)) (\<lambda>k'.
                Inr (k', as_ReleaseKey snap,
                     (case parse_rfc3339 (as_ExpiresAt snap) of None \<Rightarrow> zero_time | Some t \<Rightarrow> t)))))"

text \<open>The secrets read from mounted files: the database URL, and the NATS credential with its digest.\<close>

definition read_secrets :: "filesystem \<Rightarrow> Config \<Rightarrow> err + Config \<times> string" where
  "read_secrets fs c0 =
     andThen (if db_URL (co_Database c0) = [] \<and> db_URLFile (co_Database c0) \<noteq> []
          then (case fs (db_URLFile (co_Database c0)) of
                  None \<Rightarrow> Inl (err ErrOther)
                | Some raw \<Rightarrow> Inr (c0\<lparr>co_Database := (co_Database c0)\<lparr>db_URL := TrimSpace raw\<rparr>\<rparr>))
          else Inr c0) (\<lambda>c.
     let ob = co_Outbox c in
     if oc_ForwarderEnabled ob \<and> nats_CredsFile (oc_NATS ob) \<noteq> []
     then andThen (readNATSCredentials fs (nats_CredsFile (oc_NATS ob))) (\<lambda>(kind, revision).
          Inr (c\<lparr>co_Outbox := ob\<lparr>oc_NATS := (oc_NATS ob)\<lparr>nats_CredsKind := kind\<rparr>\<rparr>\<rparr>, revision))
     else Inr (c, []))"

definition LoadFrom :: "'k koanf \<Rightarrow> filesystem \<Rightarrow> time \<Rightarrow> string \<Rightarrow> string list \<Rightarrow> u64 \<Rightarrow> err + Generation" where
  "LoadFrom lib fs now path environ number =
     andThen (load_reviewed lib fs path) (\<lambda>k0.
     andThen (applyEnv lib (k_New lib) environ) (\<lambda>env.
     andThen (load_snapshot lib fs now k0 env) (\<lambda>(k1, release, expiresAt).
     andThen (k_Merge lib k1 env) (\<lambda>k.
     andThen (k_Unmarshal lib k) (\<lambda>c0.
     andThen (read_secrets fs c0) (\<lambda>(c, natsCreds).
     if validate c \<noteq> [] then Inl (err ErrOther)
     else andThen (nonSecretDigest lib k) (\<lambda>digest.
       Inr \<lparr>gn_Number = number, gn_Config = c, gn_Digest = digest, gn_SecretRevision = secretRevision c natsCreds,
            gn_Profiles = [(''local-check-v1'', digestOf ''local-check-v1'')], gn_ApolloRelease = release,
            gn_BuiltAt = now, gn_ExpiresAt = expiresAt\<rparr>)))))))"

text \<open>\<open>Load\<close>: the first generation from the process environment (\<open>os.Getenv\<close>: the first setting of a name).\<close>

definition Load_config :: "'k koanf \<Rightarrow> filesystem \<Rightarrow> time \<Rightarrow> string list \<Rightarrow> err + Generation" where
  "Load_config lib fs now environ =
     (let path = (case map_of (map (\<lambda>kv. let (n, v, _) = Cut kv (CHR ''='') in (n, v)) environ) EnvConfigFile of
                    None \<Rightarrow> [] | Some v \<Rightarrow> v)
      in LoadFrom lib fs now (if path = [] then ''config.yaml'' else path) environ 1)"

section \<open>What a loaded generation is\<close>

lemma rule_Nil [simp]: "rule good name = [] \<longleftrightarrow> good"
  by (simp add: rule_def)

lemma andThen_Inr: "andThen r k = Inr y \<longleftrightarrow> (\<exists>x. r = Inr x \<and> k x = Inr y)"
  by (cases r) (simp_all add: andThen_def)

text \<open>The loader's steps, and that its result passed the validation.\<close>

lemma LoadFrom_Inr:
  assumes "LoadFrom lib fs now path environ n = Inr g"
  obtains k0 env k1 c0 natsCreds where
    "load_reviewed lib fs path = Inr k0" "applyEnv lib (k_New lib) environ = Inr env"
    "load_snapshot lib fs now k0 env = Inr (k1, gn_ApolloRelease g, gn_ExpiresAt g)"
    "read_secrets fs c0 = Inr (gn_Config g, natsCreds)" "validate (gn_Config g) = []"
  using assms unfolding LoadFrom_def andThen_Inr by (auto split: if_splits simp: andThen_Inr)

text \<open>The parts of a validated configuration, one lemma per group of rules.\<close>

lemma validate_Nil:
  assumes "validate c = []"
  shows "validate_listener c = []" "validateIdentity c = []" "validate_database c = []" "validate_lanes c = []"
    "validate_catalog c = []" "validate_calls c = []"
  using assms by (simp_all add: validate_def Let_def validateIdentity_def)

lemma validated_listener:
  assumes "validate_listener c = []" and "\<not> development c"
  shows "si_Mode (gc_Identity (co_GRPC c)) = ''mtls''" "si_CertFile (gc_Identity (co_GRPC c)) \<noteq> []"
    "si_KeyFile (gc_Identity (co_GRPC c)) \<noteq> []" "si_CAFile (gc_Identity (co_GRPC c)) \<noteq> []" "ValidTrustDomain (TrustDomain c)"
  using assms by (auto simp: validate_listener_def Let_def TrustDomain_def split: if_splits)

lemma validated_tls:
  assumes "validate_tls t name False = []"
  shows "ctl_Mode t \<in> {''tls'', ''mtls''} \<and> ctl_CAFile t \<noteq> []"
  using assms by (auto simp: validate_tls_def split: if_splits)

lemma validated_clients:
  assumes "validateIdentity c = []" and "\<not> development c"
  shows "cc_Address (co_Control c) \<noteq> [] \<longrightarrow> ci_Mode (cc_Identity (co_Control c)) = ''mtls'' \<and> ctl_CertFile (ControlMTLS c) \<noteq> []
      \<and> ctl_KeyFile (ControlMTLS c) \<noteq> [] \<and> ctl_CAFile (ControlMTLS c) \<noteq> []"
    and "oc_ForwarderEnabled (co_Outbox c) \<longrightarrow> validate_tls (nats_TLS (oc_NATS (co_Outbox c))) ''outbox.nats.tls'' False = []
      \<and> nats_CredsFile (oc_NATS (co_Outbox c)) \<noteq> []"
    and "te_OTLPEndpoint (co_Telemetry c) \<noteq> [] \<longrightarrow> validate_tls (te_OTLPTLS (co_Telemetry c)) ''telemetry.otlp_tls'' False = []"
  using assms by (auto simp: validateIdentity_def Let_def split: if_splits)

definition sslmodes :: "URL \<Rightarrow> string list" where
  "sslmodes u = map snd (filter (\<lambda>(k, _). k = ''sslmode'') (Query u))"

lemma validated_database:
  assumes "validate_database c = []" and "\<not> development c"
  shows "\<exists>u. url_Parse (db_URL (co_Database c)) = Some u \<and> sslmodes u \<noteq> [] \<and> last (sslmodes u) = ''verify-full''
    \<and> ''ssl'' \<notin> fst ` set (Query u)"
  using assms
  by (auto simp: validate_database_def sslmodes_def Let_def list_ex_iff split: if_splits option.splits)

lemma validated_catalog:
  assumes "validate_catalog c = []" and "\<not> development c"
  shows "kc_PrivateHosts (co_Catalog c) = []"
    and "cf_URL (kc_ContextForge (co_Catalog c)) \<noteq> [] \<longrightarrow>
      (\<exists>u. url_Parse (cf_URL (kc_ContextForge (co_Catalog c))) = Some u \<and> u_Scheme u = ''https'' \<and> u_Host u \<noteq> [])"
  using assms by (auto simp: validate_catalog_def Let_def split: if_splits option.splits)

text \<open>The policy of this server is well formed: its authorizer exists for every valid trust domain.\<close>

lemma Policy_mcp_valid: "list_all valid_entry Policy_mcp"
  by code_simp

lemma read_secrets_creds:
  assumes "read_secrets fs c0 = Inr (c, natsCreds)" and "oc_ForwarderEnabled (co_Outbox c)"
    and "nats_CredsFile (oc_NATS (co_Outbox c)) \<noteq> []"
  shows "nats_CredsKind (oc_NATS (co_Outbox c)) \<in> {''user'', ''nkey''}"
  using assms
  by (auto simp: read_secrets_def andThen_Inr Let_def readNATSCredentials_def split: if_splits option.splits)

lemma NewAuthorizer_mcp:
  assumes "ValidTrustDomain d"
  shows "NewAuthorizer_identity d Policy_mcp = Inr \<lparr>ai_trustDomain = d, ai_policy = Policy_mcp\<rparr>"
  using assms Policy_mcp_valid by (simp add: NewAuthorizer_identity_def)

lemma load_snapshot_Inr:
  assumes "load_snapshot lib fs now k env = Inr (k', release, expiresAt)"
  obtains "k' = k" "release = []" "expiresAt = zero_time"
  | snap cs where "LoadApolloSnapshot fs (k_String lib env ''apollo.snapshot_file'') (k_String lib k ''apollo.app_id'') now = Inr snap"
      "as_Configurations snap = Some cs" "fst ` set cs \<inter> set (secretKeys @ placementKeys) = {}"
      "k_LoadMap lib k (map (\<lambda>(key, v). (key, CStr v)) cs) = Inr k'" "release = as_ReleaseKey snap"
      "parse_rfc3339 (as_ExpiresAt snap) = Some expiresAt"
proof (cases "k' = k \<and> release = [] \<and> expiresAt = zero_time")
  case True then show ?thesis using that(1) by blast
next
  case False
  with assms obtain snap where snap: "LoadApolloSnapshot fs (k_String lib env ''apollo.snapshot_file'') (k_String lib k ''apollo.app_id'') now = Inr snap"
    and rest: "\<not> list_ex (\<lambda>(key, _). key \<in> set (secretKeys @ placementKeys)) (case as_Configurations snap of None \<Rightarrow> [] | Some m \<Rightarrow> m)"
      "k_LoadMap lib k (map (\<lambda>(key, v). (key, CStr v)) (case as_Configurations snap of None \<Rightarrow> [] | Some m \<Rightarrow> m)) = Inr k'"
      "release = as_ReleaseKey snap" "expiresAt = (case parse_rfc3339 (as_ExpiresAt snap) of None \<Rightarrow> zero_time | Some t \<Rightarrow> t)"
    by (auto simp: load_snapshot_def andThen_Inr Let_def split: if_splits)
  from snap obtain cs t where "as_Configurations snap = Some cs" "parse_rfc3339 (as_ExpiresAt snap) = Some t"
    by (auto simp: LoadApolloSnapshot_def ParseApolloSnapshot_def split: option.splits if_splits)
  with snap rest show ?thesis by (intro that(2) [of snap cs]) (auto simp: list_ex_iff)
qed

lemma LoadApolloSnapshot_Inr:
  assumes "LoadApolloSnapshot fs path appID now = Inr snap"
  shows "as_AppID snap = appID" "releaseKeyPattern (as_ReleaseKey snap)"
    "parse_rfc3339 (as_ExpiresAt snap) = Some t \<Longrightarrow> now < t"
    "as_Configurations snap = Some cs \<Longrightarrow> key \<in> fst ` set cs \<Longrightarrow> configKeyPattern key \<and> \<not> secretKeyPattern key"
  using assms
  by (auto simp: LoadApolloSnapshot_def ParseApolloSnapshot_def After_def list_ex_iff split: option.splits if_splits)

text \<open>What an environment promises of its connections.\<close>

definition protected_config :: "Config \<Rightarrow> bool" where
  "protected_config c \<longleftrightarrow>
     (let id = gc_Identity (co_GRPC c); ob = co_Outbox c; forge = cf_URL (kc_ContextForge (co_Catalog c)) in
      si_Mode id = ''mtls'' \<and> si_CertFile id \<noteq> [] \<and> si_KeyFile id \<noteq> [] \<and> si_CAFile id \<noteq> []
      \<and> (\<exists>a. NewAuthorizer_identity (TrustDomain c) Policy_mcp = Inr a)
      \<and> (\<exists>u. url_Parse (db_URL (co_Database c)) = Some u \<and> sslmodes u \<noteq> [] \<and> last (sslmodes u) = ''verify-full''
           \<and> ''ssl'' \<notin> fst ` set (Query u))
      \<and> (cc_Address (co_Control c) \<noteq> [] \<longrightarrow> ci_Mode (cc_Identity (co_Control c)) = ''mtls'' \<and> ctl_CertFile (ControlMTLS c) \<noteq> []
           \<and> ctl_KeyFile (ControlMTLS c) \<noteq> [] \<and> ctl_CAFile (ControlMTLS c) \<noteq> [])
      \<and> (oc_ForwarderEnabled ob \<longrightarrow> (ctl_Mode (nats_TLS (oc_NATS ob)) \<in> {''tls'', ''mtls''} \<and> ctl_CAFile (nats_TLS (oc_NATS ob)) \<noteq> [])
           \<and> nats_CredsFile (oc_NATS ob) \<noteq> [] \<and> nats_CredsKind (oc_NATS ob) \<in> {''user'', ''nkey''})
      \<and> (te_OTLPEndpoint (co_Telemetry c) \<noteq> [] \<longrightarrow>
           ctl_Mode (te_OTLPTLS (co_Telemetry c)) \<in> {''tls'', ''mtls''} \<and> ctl_CAFile (te_OTLPTLS (co_Telemetry c)) \<noteq> [])
      \<and> kc_PrivateHosts (co_Catalog c) = []
      \<and> (forge \<noteq> [] \<longrightarrow> (\<exists>u. url_Parse forge = Some u \<and> u_Scheme u = ''https'' \<and> u_Host u \<noteq> [])))"

text \<open>C13. Outside development nothing of the process is plaintext or unauthenticated: a generation that loads serves
  mutual TLS with a certificate, a key and a CA under a trust domain for which the server's policy has an
  authorizer; its database URL asks for \<open>verify-full\<close> in the last \<open>sslmode\<close> and carries no \<open>ssl\<close>; a placed Control is
  reached by mutual TLS; the forwarder's NATS connection and the exporter use TLS with a CA, the former with a
  credential of a known kind; a placed ContextForge is https; and no private host is allowed.\<close>

theorem production_generation_is_protected:
  assumes load: "LoadFrom lib fs now path environ n = Inr g" and prod: "\<not> development (gn_Config g)"
  shows "protected_config (gn_Config g)"
proof -
  from load obtain c0 natsCreds where sec: "read_secrets fs c0 = Inr (gn_Config g, natsCreds)" and v: "validate (gn_Config g) = []"
    by (rule LoadFrom_Inr)
  note parts = validate_Nil [OF v]
  note clients = validated_clients [OF parts(2) prod]
  show ?thesis
    unfolding protected_config_def Let_def
  proof (intro conjI)
    show "\<exists>a. NewAuthorizer_identity (TrustDomain (gn_Config g)) Policy_mcp = Inr a"
      using NewAuthorizer_mcp [OF validated_listener(5) [OF parts(1) prod]] by blast
    show "oc_ForwarderEnabled (co_Outbox (gn_Config g)) \<longrightarrow>
        (ctl_Mode (nats_TLS (oc_NATS (co_Outbox (gn_Config g)))) \<in> {''tls'', ''mtls''}
          \<and> ctl_CAFile (nats_TLS (oc_NATS (co_Outbox (gn_Config g)))) \<noteq> [])
        \<and> nats_CredsFile (oc_NATS (co_Outbox (gn_Config g))) \<noteq> []
        \<and> nats_CredsKind (oc_NATS (co_Outbox (gn_Config g))) \<in> {''user'', ''nkey''}"
      using clients(2) validated_tls read_secrets_creds [OF sec] by meson
    show "te_OTLPEndpoint (co_Telemetry (gn_Config g)) \<noteq> [] \<longrightarrow>
        ctl_Mode (te_OTLPTLS (co_Telemetry (gn_Config g))) \<in> {''tls'', ''mtls''}
        \<and> ctl_CAFile (te_OTLPTLS (co_Telemetry (gn_Config g))) \<noteq> []"
      using clients(3) validated_tls by meson
  qed (rule validated_listener [OF parts(1) prod] validated_database [OF parts(3) prod] clients(1)
       validated_catalog [OF parts(5) prod])+
qed


section \<open>An example\<close>

text \<open>A configuration of an environment, a snapshot file and a library that answers it.\<close>

text \<open>Only the ratio itself is looked at.\<close>

lemma validate_ratio:
  assumes "validate c = []" "\<not> float_less x (Fin 0)" "\<not> float_less (Fin 1) x"
  shows "validate (c\<lparr>co_Telemetry := (co_Telemetry c)\<lparr>te_SampleRatio := x\<rparr>\<rparr>) = []"
proof -
  let ?c = "c\<lparr>co_Telemetry := (co_Telemetry c)\<lparr>te_SampleRatio := x\<rparr>\<rparr>"
  have "validateIdentity ?c = validateIdentity c" "validate_database ?c = validate_database c" "validate_lanes ?c = validate_lanes c"
    "validate_catalog ?c = validate_catalog c" "validate_calls ?c = validate_calls c"
    by (simp_all add: validateIdentity_def validate_listener_def validate_database_def validate_lanes_def validate_catalog_def validate_calls_def ControlMTLS_def Let_def cong: if_cong option.case_cong)
  then show ?thesis using assms by (simp add: validate_def rule_def Let_def)
qed

definition sample_tls :: ClientTLS where
  "sample_tls = \<lparr>ctl_Mode = ''tls'', ctl_CAFile = ''/ca'', ctl_CertFile = [], ctl_KeyFile = [], ctl_ServerName = ''nats''\<rparr>"

definition sample_config :: Config where
  "sample_config =
    \<lparr>co_Development = \<lparr>dev_Enabled = False\<rparr>,
     co_Telemetry = \<lparr>te_OTLPEndpoint = ''otel:4317'', te_SampleRatio = Fin 1, te_OTLPTLS = sample_tls\<rparr>,
     co_GRPC = \<lparr>gc_Listen = ''0.0.0.0:9106'', gc_Capacity = 64, gc_ShutdownTimeout = 20 * second,
       gc_Identity = \<lparr>si_Mode = ''mtls'', si_TrustDomain = ''prod.example'', si_CertFile = ''/crt'', si_KeyFile = ''/key'',
         si_CAFile = ''/ca'', si_MaxConnectionAge = 3600 * second, si_ReloadInterval = 5 * second\<rparr>\<rparr>,
     co_Health = \<lparr>hc_Listen = ''127.0.0.1:9116''\<rparr>,
     co_Database = \<lparr>db_URL = ''postgres://db/mcp?sslmode=verify-full'', db_URLFile = [], db_MaxConn = 8\<rparr>,
     co_Tasks = \<lparr>tcf_MaxInputBytes = 65536, tcf_MaxLease = 600 * second, tcf_RetryDelay = 5 * second, tcf_MaxAttempts = 5,
       tcf_SweepInterval = 2 * second\<rparr>,
     co_Outbox = \<lparr>oc_ForwarderEnabled = True, oc_ConsumerGroup = ''g'', oc_PollInterval = second, oc_AckDeadline = 30 * second,
       oc_ResendInterval = second, oc_BatchSize = 100,
       oc_NATS = \<lparr>nats_URL = ''nats://n'', nats_PublishTimeout = 5 * second, nats_Name = ''mcp'', nats_TLS = sample_tls,
         nats_CredsFile = ''/creds'', nats_CredsKind = ''nkey''\<rparr>\<rparr>,
     co_Retention = \<lparr>rc_Outbox = 604800 * second, rc_Inbox = 604800 * second, rc_Attempts = 2592000 * second,
       rc_Interval = 600 * second, rc_Batch = 1000\<rparr>,
     co_Control = \<lparr>cc_Address = ''control:1'', cc_Timeout = 5 * second, cc_Identity = \<lparr>ci_Mode = ''mtls'',
       ci_MTLS = \<lparr>ctl_Mode = [], ctl_CAFile = [], ctl_CertFile = [], ctl_KeyFile = [], ctl_ServerName = ''control''\<rparr>\<rparr>\<rparr>,
     co_Apollo = \<lparr>ap_Mode = ''snapshot'', ap_SnapshotFile = ''/snapshot'', ap_AppID = ''anvilkit-agent-mcp''\<rparr>,
     co_Reload = \<lparr>rl_Interval = 2 * second, rl_DrainLimit = 30 * second\<rparr>,
     co_Catalog = \<lparr>kc_ContextForge = \<lparr>cf_URL = ''https://forge'', cf_TokenFile = ''/token'', cf_Timeout = 60 * second,
         cf_CAFile = ''/ca'', cf_ServerName = ''forge''\<rparr>,
       kc_AllowedHosts = [''a.example''], kc_PrivateHosts = [], kc_RolesFile = ''/roles'', kc_RefreshInterval = 3600 * second\<rparr>,
     co_Barrier = \<lparr>bc_ReconcileInterval = 2 * second, bc_ReconcileAge = 5 * second\<rparr>,
     co_Calls = \<lparr>clc_QualifiedRoutes = [\<lparr>qrc_Resource = ''https://a.example/mcp'', qrc_ProtocolVersion = ''2025-06-18'',
         qrc_Transport = ''streamable-http'', qrc_Route = ''go-sdk''\<rparr>],
       clc_SendTimeout = 60 * second, clc_Wait = 30 * second, clc_MaxResponseBytes = 1048576,
       clc_ReconcileInterval = 2 * second, clc_ReconcileAge = 120 * second, clc_CredentialsFile = ''/upstream''\<rparr>\<rparr>"

definition quoted :: "string \<Rightarrow> string" where
  "quoted s = CHR 0x22 # s @ [CHR 0x22]"

definition sample_snapshot :: bytes where
  "sample_snapshot = concat [
    ''{'', quoted ''schemaVersion'', '':'', ''1'', '','', quoted ''appId'', '':'', quoted ''anvilkit-agent-mcp'', '','',
    quoted ''cluster'', '':'', quoted ''default'', '','', quoted ''namespace'', '':'', quoted ''application'', '','',
    quoted ''releaseKey'', '':'', quoted ''20250101000000-0123456789ab'', '','', quoted ''fetchedAt'', '':'',
    quoted ''2025-01-01T00:00:00Z'', '','', quoted ''expiresAt'', '':'', quoted ''2025-01-02T00:00:00Z'', '','',
    quoted ''configurations'', '':{'', quoted ''tasks.max_attempts'', '':'', quoted ''5'', ''}}'']"

definition config_files :: filesystem where
  "config_files = (\<lambda>p. if p = ''config.yaml'' then Some [] else if p = ''/snapshot'' then Some sample_snapshot
     else if p = ''/creds'' then Some ''SUABC'' else None)"

definition sample_koanf :: "unit koanf" where
  "sample_koanf = \<lparr>k_New = (), k_LoadMap = (\<lambda>_ _. Inr ()), k_LoadYaml = (\<lambda>_ _. Inr ()), k_Exists = (\<lambda>_ _. False),
     k_String = (\<lambda>_ key. if key = ''apollo.mode'' then ''snapshot'' else if key = ''apollo.snapshot_file'' then ''/snapshot''
        else if key = ''apollo.app_id'' then ''anvilkit-agent-mcp'' else []),
     k_Set = (\<lambda>_ _ _. Inr ()), k_Merge = (\<lambda>_ _. Inr ()), k_Unmarshal = (\<lambda>_. Inr sample_config), k_All = (\<lambda>_. [])\<rparr>"

text \<open>1 January 2025, noon.\<close>

definition sample_noon :: time where
  "sample_noon = 1735732800 * second"

definition sample_read_snapshot :: ApolloSnapshot where
  "sample_read_snapshot = \<lparr>as_SchemaVersion = 1, as_AppID = ''anvilkit-agent-mcp'', as_Cluster = ''default'',
     as_Namespace = ''application'', as_ReleaseKey = ''20250101000000-0123456789ab'', as_FetchedAt = ''2025-01-01T00:00:00Z'',
     as_ExpiresAt = ''2025-01-02T00:00:00Z'', as_Configurations = Some [(''tasks.max_attempts'', ''5'')]\<rparr>"

lemma snapshot_decoded: "decode_snapshot sample_snapshot = Some sample_read_snapshot"
  by code_simp

lemma sample_instants:
  "parse_rfc3339 ''2025-01-01T00:00:00Z'' = Some (1735689600 * second)"
  "parse_rfc3339 ''2025-01-02T00:00:00Z'' = Some (1735776000 * second)"
  by code_simp+

lemma sample_snapshot_loads:
  "LoadApolloSnapshot config_files ''/snapshot'' ''anvilkit-agent-mcp'' sample_noon = Inr sample_read_snapshot"
proof -
  have "releaseKeyPattern ''20250101000000-0123456789ab''" "configKeyPattern ''tasks.max_attempts''"
    "\<not> secretKeyPattern ''tasks.max_attempts''"
    by code_simp+
  then show ?thesis
    by (simp add: LoadApolloSnapshot_def ParseApolloSnapshot_def config_files_def snapshot_decoded)
       (simp add: sample_read_snapshot_def sample_instants sample_noon_def After_def)
qed

lemma config_validates: "validate sample_config = []"
  by code_simp

lemma secrets_read: "\<exists>r. read_secrets config_files sample_config = Inr (sample_config, r)"
proof -
  have "\<not> Contains ''SUABC'' natsUserJWTMarker" "HasPrefix (firstNonEmptyLine ''SUABC'') ''SU''" by code_simp+
  then show ?thesis
    by (simp add: read_secrets_def andThen_def readNATSCredentials_def config_files_def sample_config_def)
qed

lemma sample_generation:
  "\<exists>g. LoadFrom sample_koanf config_files sample_noon ''config.yaml'' [] 1 = Inr g \<and> gn_Config g = sample_config
     \<and> gn_ApolloRelease g = ''20250101000000-0123456789ab''"
proof -
  obtain r where r: "read_secrets config_files sample_config = Inr (sample_config, r)" using secrets_read by blast
  have "load_reviewed sample_koanf config_files ''config.yaml'' = Inr ()"
    by (simp add: load_reviewed_def andThen_def sample_koanf_def config_files_def list_ex_iff)
  moreover have "applyEnv sample_koanf (k_New sample_koanf) [] = Inr ()"
    by (simp add: applyEnv_def sample_koanf_def)
  moreover have "load_snapshot sample_koanf config_files sample_noon () () =
      Inr ((), ''20250101000000-0123456789ab'', 1735776000 * second)"
    using sample_snapshot_loads
    by (simp add: load_snapshot_def andThen_def sample_koanf_def sample_read_snapshot_def sample_instants secretKeys_def placementKeys_def)
  moreover have "nonSecretDigest sample_koanf () = Inr (digestOf (json_encode (jmap [])))"
    by (simp add: nonSecretDigest_def sample_koanf_def)
  moreover have "k_Merge sample_koanf () () = Inr ()" "k_Unmarshal sample_koanf () = Inr sample_config"
    by (simp_all add: sample_koanf_def)
  ultimately show ?thesis
    by (simp add: LoadFrom_def andThen_def r config_validates)
qed

text \<open>The sample generation is protected.\<close>

theorem production_generation_is_protected_witness:
  "\<exists>g. LoadFrom sample_koanf config_files sample_noon ''config.yaml'' [] 1 = Inr g \<and> \<not> development (gn_Config g)
     \<and> protected_config (gn_Config g)"
proof -
  obtain g where g: "LoadFrom sample_koanf config_files sample_noon ''config.yaml'' [] 1 = Inr g" "gn_Config g = sample_config"
    using sample_generation by blast
  have "\<not> development (gn_Config g)" by (simp add: g(2) sample_config_def)
  with production_generation_is_protected [OF g(1)] g(1) show ?thesis by blast
qed


end
