(* ===== verification/Upstream_Session.thy ===== *)
theory Upstream_Session
  imports Upstream_Auth Call_Dispatch
begin

text \<open>
  The send route and the discovery of \<open>internal/adapters/upstream/session.go\<close> and \<open>discover.go\<close>.  The MCP SDK is
  an argument: a client is given the HTTP client of a session and answers a session, whose listings are the
  yields of its iterators in order (an error ends the reader's loop) and whose \<open>CallTool\<close> answers a decoded
  result or an error, described by what \<open>errors.As\<close> and \<open>errors.Is\<close> find in its chain.  A value of type \<open>any\<close>
  that the SDK decoded is represented by what \<open>json.Marshal\<close> answers for it.
\<close>

section \<open>The session's HTTP client\<close>

text \<open>The network and the flag of the session's \<open>overflowRecorder\<close>.\<close>

record wire =
  wr_net :: net
  wr_overflow :: bool

definition on_wire :: "(net, 'a) eff \<Rightarrow> (wire, 'a) eff" where
  "on_wire m s = (case m (wr_net s) of (r, n) \<Rightarrow> (r, s\<lparr>wr_net := n\<rparr>))"

text \<open>What the SDK uses of an \<open>http.Client\<close>: its transport, and reads of a response body.\<close>

record HttpClient =
  hc_Trip :: "HttpRequest \<Rightarrow> (wire, HttpResponse) eff"
  hc_Read :: "nat \<Rightarrow> boundedBody \<Rightarrow> (wire, bytes \<times> read_status \<times> boundedBody) eff"

definition plain_client :: "RoundTripper \<Rightarrow> HttpClient" where
  "plain_client trip =
     \<lparr>hc_Trip = (\<lambda>req. on_wire (client_do trip req)), hc_Read = (\<lambda>p b. ok (bounded_read p b))\<rparr>"

text \<open>\<open>overflowBody.Read\<close>: the recorder notes a body beyond the bound.\<close>

definition overflow_read :: "nat \<Rightarrow> boundedBody \<Rightarrow> (wire, bytes \<times> read_status \<times> boundedBody) eff" where
  "overflow_read p b s =
     (case bounded_read p b of (bs, st, b') \<Rightarrow>
        (Inr (bs, st, b'),
         if (case st of Failed e \<Rightarrow> errors_Is e ErrBodyTooLarge | _ \<Rightarrow> False) then s\<lparr>wr_overflow := True\<rparr> else s))"

definition overflowRecorder :: "RoundTripper \<Rightarrow> HttpClient" where
  "overflowRecorder trip = \<lparr>hc_Trip = (\<lambda>req. on_wire (client_do trip req)), hc_Read = overflow_read\<rparr>"

section \<open>The SDK\<close>

text \<open>\<open>json.Marshal\<close> of a decoded value, \<open>None\<close> for nil.\<close>

type_synonym any_value = "(err + bytes) option"

definition marshal_any :: "any_value \<Rightarrow> err + bytes" where
  "marshal_any v = (case v of None \<Rightarrow> Inr ''null'' | Some m \<Rightarrow> m)"

record McpTool =
  mt_Name :: string
  mt_InputSchema :: any_value
  mt_OutputSchema :: any_value
  mt_Annotations :: any_value

record InitializeResult =
  ir_ProtocolVersion :: string
  ir_ServerInfo :: "(string \<times> string) option"
  ir_Resources :: bool
  ir_Prompts :: bool

record ResourceContents =
  rc_URI :: string
  rc_MIMEType :: string
  rc_Text :: string
  rc_Blob :: bytes

datatype content =
    TextContent string
  | ImageContent string bytes
  | AudioContent string bytes
  | ResourceLink string string string
  | EmbeddedResource "ResourceContents option"
  | OtherContent "err + bytes"

text \<open>\<open>ct_StructuredContent\<close>: the value \<open>json.Marshal\<close> writes, or its error.  \<open>ct_native\<close>: the encoding of the
  whole result.\<close>

record CallToolResult =
  cw_Content :: "content list"
  cw_StructuredContent :: "(err + json) option"
  cw_IsError :: bool
  cw_native :: "err + bytes"

text \<open>An error of \<open>CallTool\<close>: the code and message of a \<open>jsonrpc.Error\<close> in its chain, and what else is there.\<close>

record CallError =
  ce_jsonrpc :: "(int \<times> string) option"
  ce_url :: bool
  ce_net :: bool
  ce_EOF :: bool
  ce_UnexpectedEOF :: bool
  ce_DeadlineExceeded :: bool
  ce_Canceled :: bool
  ce_BodyTooLarge :: bool

record ClientSession =
  cs_InitializeResult :: InitializeResult
  cs_Tools :: "wire \<Rightarrow> (err + McpTool) list \<times> wire"
  cs_Resources :: "wire \<Rightarrow> (err + LiveNamed) list \<times> wire"
  cs_Prompts :: "wire \<Rightarrow> (err + string) list \<times> wire"
  cs_CallTool :: "string \<Rightarrow> bytes \<Rightarrow> wire \<Rightarrow> (CallError + CallToolResult) \<times> wire"

text \<open>\<open>mcp.Client.Connect\<close>: the endpoint, the HTTP client, the pinned protocol version.\<close>

type_synonym SDK = "string \<Rightarrow> HttpClient \<Rightarrow> string \<Rightarrow> (wire, ClientSession) eff"

definition listing :: "(wire \<Rightarrow> 'a list \<times> wire) \<Rightarrow> (wire, 'a list) eff" where
  "listing m s = (case m s of (xs, s') \<Rightarrow> (Inr xs, s'))"

section \<open>The route\<close>

record Route =
  ro_client :: RoundTripper
  ro_maxBytes :: int
  ro_sdk :: SDK

definition SDKRoute :: string where
  "SDKRoute = ''go-sdk''"

definition NewRoute :: "RoundTripper \<Rightarrow> int \<Rightarrow> SDK \<Rightarrow> Route" where
  "NewRoute client maxBytes sdk =
     \<lparr>ro_client = client, ro_maxBytes = (if maxBytes \<le> 0 then 1048576 else maxBytes), ro_sdk = sdk\<rparr>"

text \<open>\<open>qualify\<close>: a \<open>NotSentError\<close> with its code; an egress refusal keeps its own.\<close>

definition qualify :: "string \<Rightarrow> err \<Rightarrow> err" where
  "qualify code e = Err (sentinel_of e) (if errors_Is e ErrEgress then CallEgressRefused else code)"

definition qualifying :: "string \<Rightarrow> ('s, 'a) eff \<Rightarrow> ('s, 'a) eff" where
  "qualifying code m = recover m (\<lambda>r. case r of Inl e \<Rightarrow> fail (qualify code e) | Inr x \<Rightarrow> ok x)"

text \<open>The loop over the listed tools: the first one of the name.\<close>

fun find_tool :: "string \<Rightarrow> (err + McpTool) list \<Rightarrow> err + McpTool option" where
  "find_tool name [] = Inr None"
| "find_tool name (Inl e # ys) = Inl e"
| "find_tool name (Inr t # ys) = (if mt_Name t = name then Inr (Some t) else find_tool name ys)"

text \<open>One live schema against the reviewed digest, and the annotations against theirs.\<close>

definition check_schema :: "any_value \<Rightarrow> string \<Rightarrow> err + unit" where
  "check_schema value reviewed =
     (case marshal_any value of
        Inl e \<Rightarrow> Inl (qualify CallSchemaDrift e)
      | Inr raw \<Rightarrow>
         (case CanonicalDigest raw of
            Inl _ \<Rightarrow> Inl (qualify CallSchemaDrift (err ErrOther))
          | Inr digest \<Rightarrow> if digest \<noteq> reviewed then Inl (qualify CallSchemaDrift (err ErrOther)) else Inr ()))"

definition check_annotations :: "any_value \<Rightarrow> string \<Rightarrow> err + unit" where
  "check_annotations value reviewed =
     (case (case value of None \<Rightarrow> Inr [] | Some m \<Rightarrow> m) of
        Inl e \<Rightarrow> Inl (qualify CallDescriptorDrift e)
      | Inr ann \<Rightarrow>
         (case AnnotationsDigest ann of
            Inl _ \<Rightarrow> Inl (qualify CallDescriptorDrift (err ErrOther))
          | Inr digest \<Rightarrow> if digest \<noteq> reviewed then Inl (qualify CallDescriptorDrift (err ErrOther)) else Inr ()))"

text \<open>The connected session against the reviewed revision's lock.\<close>

definition check_session :: "UpstreamTarget \<Rightarrow> ClientSession \<Rightarrow> (wire, unit) eff" where
  "check_session t cs =
     (let initRes = cs_InitializeResult cs;
          (name, ver) = (case ir_ServerInfo initRes of None \<Rightarrow> ([], []) | Some i \<Rightarrow> i) in
      seq (guard (ir_ProtocolVersion initRes = ut_ProtocolVersion t) (qualify CallProtocolMismatch (err ErrOther))) (\<lambda>_.
      seq (guard (name = ut_ServerName t \<and> ver = ut_ServerVersion t) (qualify CallDescriptorDrift (err ErrOther))) (\<lambda>_.
      seq (listing (cs_Tools cs)) (\<lambda>tools.
      case find_tool (ut_Method t) tools of
        Inl e \<Rightarrow> fail (qualify CallUpstreamUnavailable e)
      | Inr None \<Rightarrow> fail (qualify CallSchemaDrift (err ErrOther))
      | Inr (Some tool) \<Rightarrow>
         seq (lift (check_schema (mt_InputSchema tool) (ut_InputSchemaDigest t))) (\<lambda>_.
         seq (lift (check_schema (mt_OutputSchema tool) (ut_OutputSchemaDigest t))) (\<lambda>_.
         lift (check_annotations (mt_Annotations tool) (ut_AnnotationsDigest t))))))))"

record session =
  ss_cs :: ClientSession
  ss_maxBytes :: int

text \<open>The transport of a session: the token at the resource's origin, every hop within the scope, and the
  recorder of oversized bodies.\<close>

definition session_client :: "Route \<Rightarrow> UpstreamTarget \<Rightarrow> URL \<Rightarrow> string list \<Rightarrow> HttpClient" where
  "session_client r t u scope =
     overflowRecorder (scoped_trip (WithBearer (ro_client r) (u_Scheme u @ ''://'' @ u_Host u) (ut_Token t)) scope)"

definition clear_overflow :: "(wire, unit) eff" where
  "clear_overflow s = (Inr (), s\<lparr>wr_overflow := False\<rparr>)"

definition Open_route :: "Route \<Rightarrow> UpstreamTarget \<Rightarrow> (wire, session) eff" where
  "Open_route r t =
     (case url_Parse (ut_Resource t) of
        None \<Rightarrow> fail (qualify CallEgressRefused (err ErrOther))
      | Some u \<Rightarrow>
         (let scope = (if ut_NetworkScope t = [] then [ToLower (Hostname u)] else ut_NetworkScope t) in
          if \<not> HostInScope (Hostname u) scope then fail (qualify CallEgressRefused (err ErrEgress))
          else
            seq (qualifying CallUpstreamUnavailable
                   (ro_sdk r (ut_Resource t) (session_client r t u scope) (ut_ProtocolVersion t))) (\<lambda>cs.
            seq (check_session t cs) (\<lambda>_.
            seq clear_overflow (\<lambda>_.
            ok \<lparr>ss_cs = cs, ss_maxBytes = ro_maxBytes r\<rparr>)))))"

section \<open>The send\<close>

definition localCodes :: "int list" where
  "localCodes = [- 32001, - 32003, - 32004, - 32005]"

definition answered :: "CallError \<Rightarrow> int \<Rightarrow> bool" where
  "answered e code \<longleftrightarrow> code \<notin> set localCodes \<and> \<not> ce_url e \<and> \<not> ce_net e \<and> \<not> ce_EOF e \<and> \<not> ce_UnexpectedEOF e
     \<and> \<not> ce_DeadlineExceeded e \<and> \<not> ce_Canceled e \<and> \<not> ce_BodyTooLarge e"

definition summarize :: "bytes \<Rightarrow> int \<Rightarrow> bytes" where
  "summarize native bound =
     (if int (length native) \<le> bound then native
      else json_encode (jmap [(''truncated'', JBool True), (''nativeBytes'', JInt (int (length native))),
             (''nativeDigest'', JStr (DigestBytes native))]))"

text \<open>A block of the normalized result: its members in order, an empty or zero one omitted.\<close>

definition omit_str :: "string \<Rightarrow> string \<Rightarrow> (string \<times> json) list" where
  "omit_str k v = (if v = [] then [] else [(k, JStr v)])"

definition block_json :: "string \<Rightarrow> string \<Rightarrow> string \<Rightarrow> int \<Rightarrow> string \<Rightarrow> string \<Rightarrow> string \<Rightarrow> json" where
  "block_json typ text mime bytes digest uri name =
     JObj ([(''type'', JStr typ)] @ omit_str ''text'' text @ omit_str ''mimeType'' mime
           @ (if bytes = 0 then [] else [(''size'', JInt bytes)])
           @ omit_str ''digest'' digest @ omit_str ''uri'' uri @ omit_str ''name'' name)"

fun normal_block :: "content \<Rightarrow> json" where
  "normal_block (TextContent text) = block_json ''text'' text [] 0 [] [] []"
| "normal_block (ImageContent mime b) = block_json ''image'' [] mime (int (length b)) (DigestBytes b) [] []"
| "normal_block (AudioContent mime b) = block_json ''audio'' [] mime (int (length b)) (DigestBytes b) [] []"
| "normal_block (ResourceLink uri name mime) = block_json ''resource_link'' [] mime 0 [] uri name"
| "normal_block (EmbeddedResource None) = block_json ''resource'' [] [] 0 [] [] []"
| "normal_block (EmbeddedResource (Some r)) =
     block_json ''resource'' (rc_Text r) (rc_MIMEType r) (int (length (rc_Blob r)))
       (if rc_Blob r = [] then [] else DigestBytes (rc_Blob r)) (rc_URI r) []"
| "normal_block (OtherContent m) =
     (let raw = (case m of Inl _ \<Rightarrow> [] | Inr b \<Rightarrow> b) in
      block_json ''unsupported'' [] [] (int (length raw)) (DigestBytes raw) [] [])"

definition Normalize :: "CallToolResult \<Rightarrow> err + bytes" where
  "Normalize res =
     (let fields = [(''untrusted'', JBool True), (''isError'', JBool (cw_IsError res)),
                    (''content'', JArr (map normal_block (cw_Content res)))] in
      case cw_StructuredContent res of
        None \<Rightarrow> Inr (json_encode (jmap fields))
      | Some (Inl e) \<Rightarrow> Inl e
      | Some (Inr v) \<Rightarrow> Inr (json_encode (jmap (fields @ [(''structuredContent'', v)]))))"

definition bounded_text :: "string \<Rightarrow> nat \<Rightarrow> string" where
  "bounded_text s n = (if n < length s then take n s else s)"

definition answered_reply :: "bytes \<Rightarrow> string \<Rightarrow> UpstreamReply \<times> SendError option" where
  "answered_reply native code =
     (\<lparr>ur_Result = None, ur_Native = native, ur_IsError = False\<rparr>, Some \<lparr>se_answered = Some code, se_unknown = None\<rparr>)"

text \<open>A failed \<open>CallTool\<close>: the server's refusal, an answer beyond the bound, or an unknown outcome.\<close>

definition failed_reply :: "int \<Rightarrow> CallError \<Rightarrow> bool \<Rightarrow> UpstreamReply \<times> SendError option" where
  "failed_reply maxBytes e overflow =
     (case ce_jsonrpc e of
        Some (code, message) \<Rightarrow>
          if answered e code then
            answered_reply (json_encode (jmap [(''error'', jmap [(''code'', JInt code), (''message'', JStr (bounded_text message 1024))])]))
              CallProtocolError
          else if ce_BodyTooLarge e \<or> overflow then
            answered_reply (json_encode (jmap [(''truncated'', JBool True), (''reason'', JStr ''response body beyond the bound''),
              (''boundBytes'', JInt maxBytes)])) CallResultTooLarge
          else (\<lparr>ur_Result = None, ur_Native = [], ur_IsError = False\<rparr>,
                Some \<lparr>se_answered = None, se_unknown = Some CallOutcomeUnknown\<rparr>)
      | None \<Rightarrow>
          if ce_BodyTooLarge e \<or> overflow then
            answered_reply (json_encode (jmap [(''truncated'', JBool True), (''reason'', JStr ''response body beyond the bound''),
              (''boundBytes'', JInt maxBytes)])) CallResultTooLarge
          else (\<lparr>ur_Result = None, ur_Native = [], ur_IsError = False\<rparr>,
                Some \<lparr>se_answered = None, se_unknown = Some CallOutcomeUnknown\<rparr>))"

definition result_reply :: "int \<Rightarrow> CallToolResult \<Rightarrow> UpstreamReply \<times> SendError option" where
  "result_reply maxBytes res =
     (case cw_native res of
        Inl _ \<Rightarrow> answered_reply
          (''{'' @ enc_string ''truncated'' @ '':true,'' @ enc_string ''reason'' @ '':'' @ enc_string ''native result not encodable'' @ ''}'')
          CallProtocolError
      | Inr native \<Rightarrow>
         (case Normalize res of
            Inl _ \<Rightarrow> answered_reply (summarize native maxBytes) CallProtocolError
          | Inr result \<Rightarrow>
             if maxBytes < int (length result) \<or> maxBytes < int (length native) then
               answered_reply (json_encode (jmap [(''truncated'', JBool True),
                 (''reason'', JStr ''result beyond the bound after re-encoding''), (''boundBytes'', JInt maxBytes),
                 (''nativeBytes'', JInt (int (length native))), (''resultBytes'', JInt (int (length result))),
                 (''nativeDigest'', JStr (DigestBytes native))])) CallResultTooLarge
             else (\<lparr>ur_Result = Some result, ur_Native = native, ur_IsError = cw_IsError res\<rparr>, None)))"

definition Send_session :: "session \<Rightarrow> string \<Rightarrow> bytes \<Rightarrow> wire \<Rightarrow> (UpstreamReply \<times> SendError option) \<times> wire" where
  "Send_session s method args w =
     (case cs_CallTool (ss_cs s) method args w of
        (Inl e, w') \<Rightarrow> (failed_reply (ss_maxBytes s) e (wr_overflow w'), w')
      | (Inr res, w') \<Rightarrow> (result_reply (ss_maxBytes s) res, w'))"

text \<open>The route as the call use cases hold it (\<open>UpstreamSession\<close> and \<open>Upstream\<close>): the wire at an interaction is
  the environment's.\<close>

definition route_session :: "(nat \<Rightarrow> wire) \<Rightarrow> session \<Rightarrow> UpstreamSession" where
  "route_session wires s = \<lparr>us_Send = (\<lambda>n method args. fst (Send_session s method args (wires n)))\<rparr>"

definition route_upstream :: "(nat \<Rightarrow> wire) \<Rightarrow> Route \<Rightarrow> Upstream" where
  "route_upstream wires r =
     \<lparr>up_Open = (\<lambda>n t. case fst (Open_route r t (wires n)) of
        Inl e \<Rightarrow> Inl (Some (code_of e))
      | Inr s \<Rightarrow> Inr (route_session wires s))\<rparr>"

section \<open>Discovery\<close>

definition maxListed :: nat where
  "maxListed = 4096"

text \<open>The loops over the listings.\<close>

definition live_tool :: "McpTool \<Rightarrow> err + LiveTool" where
  "live_tool t =
     (case (marshal_any (mt_InputSchema t),
            case mt_OutputSchema t of None \<Rightarrow> Inr [] | Some m \<Rightarrow> m,
            case mt_Annotations t of None \<Rightarrow> Inr [] | Some m \<Rightarrow> m) of
        (Inr i, Inr out, Inr ann) \<Rightarrow>
          Inr \<lparr>lt_Name = mt_Name t, lt_InputSchema = i, lt_OutputSchema = out, lt_Annotations = ann\<rparr>
      | _ \<Rightarrow> Inl (err ErrInvalid))"

fun collect :: "('y \<Rightarrow> err + 'x) \<Rightarrow> (err + 'y) list \<Rightarrow> 'x list \<Rightarrow> err + 'x list" where
  "collect f [] acc = Inr acc"
| "collect f (Inl e # ys) acc = Inl (err ErrUpstream)"
| "collect f (Inr y # ys) acc =
     (if length acc = maxListed then Inl (err ErrInvalid)
      else (case f y of Inl e \<Rightarrow> Inl e | Inr x \<Rightarrow> collect f ys (acc @ [x])))"

definition read_server :: "string \<Rightarrow> string \<Rightarrow> time \<Rightarrow> ClientSession \<Rightarrow> (wire, LiveServer) eff" where
  "read_server resource issuer now cs =
     (let ini = cs_InitializeResult cs;
          (name, ver) = (case ir_ServerInfo ini of None \<Rightarrow> ([], []) | Some i \<Rightarrow> i) in
      seq (listing (cs_Tools cs)) (\<lambda>ts.
      seq (lift (collect live_tool ts [])) (\<lambda>tools.
      seq (if ir_Resources ini then seq (listing (cs_Resources cs)) (\<lambda>rs. lift (collect Inr rs [])) else ok []) (\<lambda>resources.
      seq (if ir_Prompts ini then seq (listing (cs_Prompts cs)) (\<lambda>ps. lift (collect (\<lambda>n. Inr \<lparr>ln_Name = n, ln_URI = []\<rparr>) ps [])) else ok []) (\<lambda>prompts.
      ok \<lparr>lv_Name = name, lv_Version = ver, lv_ProtocolVersion = ir_ProtocolVersion ini, lv_Tools = tools,
          lv_Resources = resources, lv_Prompts = prompts,
          lv_Evidence = ''egress:'' @ resource @ ''@'' @ take 19 (fmt_instant now) @ ''Z'',
          lv_ConnectionRef = ''egress:'' @ resource, lv_Issuer = issuer\<rparr>)))))"

record Discoverer =
  ds_client :: RoundTripper
  ds_authority :: Authority
  ds_now :: "nat \<Rightarrow> time"
  ds_sdk :: SDK

definition over_wire :: "(wire, 'a) eff \<Rightarrow> (authority, 'a) eff" where
  "over_wire m s = (case m \<lparr>wr_net = as_net s, wr_overflow = False\<rparr> of (r, w) \<Rightarrow> (r, s\<lparr>as_net := wr_net w\<rparr>))"

definition Discover_egress :: "Discoverer \<Rightarrow> string \<Rightarrow> string \<Rightarrow> (authority, LiveServer) eff" where
  "Discover_egress d resource protocolVersion =
     (case url_Parse resource of
        None \<Rightarrow> fail (err ErrInvalid)
      | Some u \<Rightarrow>
         if u_Host u = [] then fail (err ErrInvalid)
         else
           recover (DiscoveryToken (ds_authority d) resource) (\<lambda>tr.
           case tr of
             Inl _ \<Rightarrow> fail (err AppErrForbidden)
           | Inr (token, issuer) \<Rightarrow>
              recover (over_wire (ds_sdk d resource
                 (plain_client (WithBearer (ds_client d) (u_Scheme u @ ''://'' @ u_Host u) token)) protocolVersion)) (\<lambda>cr.
              case cr of
                Inl _ \<Rightarrow> fail (err ErrUpstream)
              | Inr cs \<Rightarrow>
                 seq (on_net (net_ask (ds_now d))) (\<lambda>now.
                 over_wire (read_server resource issuer now cs)))))"

section \<open>What a session is held to\<close>

text \<open>The reviewed lock of a method, as a relation on the live tool.\<close>

definition locks :: "UpstreamTarget \<Rightarrow> McpTool \<Rightarrow> bool" where
  "locks t tool \<longleftrightarrow>
     (\<exists>raw. marshal_any (mt_InputSchema tool) = Inr raw \<and> CanonicalDigest raw = Inr (ut_InputSchemaDigest t))
   \<and> (\<exists>raw. marshal_any (mt_OutputSchema tool) = Inr raw \<and> CanonicalDigest raw = Inr (ut_OutputSchemaDigest t))
   \<and> (\<exists>raw. (case mt_Annotations tool of None \<Rightarrow> Inr [] | Some m \<Rightarrow> m) = Inr raw
        \<and> AnnotationsDigest raw = Inr (ut_AnnotationsDigest t))"

definition reviewed_session :: "UpstreamTarget \<Rightarrow> ClientSession \<Rightarrow> wire \<Rightarrow> bool" where
  "reviewed_session t cs w \<longleftrightarrow>
     ir_ProtocolVersion (cs_InitializeResult cs) = ut_ProtocolVersion t
   \<and> (case ir_ServerInfo (cs_InitializeResult cs) of None \<Rightarrow> ([], []) | Some i \<Rightarrow> i) = (ut_ServerName t, ut_ServerVersion t)
   \<and> (\<exists>tool. find_tool (ut_Method t) (fst (cs_Tools cs w)) = Inr (Some tool) \<and> locks t tool)"

lemma check_schema_Inr:
  "check_schema v d = Inr u \<longleftrightarrow> (\<exists>raw. marshal_any v = Inr raw \<and> CanonicalDigest raw = Inr d)"
  by (auto simp: check_schema_def split: sum.splits)

lemma check_annotations_Inr:
  "check_annotations v d = Inr u \<longleftrightarrow>
     (\<exists>raw. (case v of None \<Rightarrow> Inr [] | Some m \<Rightarrow> m) = Inr raw \<and> AnnotationsDigest raw = Inr d)"
  by (auto simp: check_annotations_def split: sum.splits)

lemma listing_Inr: "listing m w = (Inr xs, w') \<longleftrightarrow> m w = (xs, w')"
  by (auto simp: listing_def split: prod.splits)

lemma check_session_Inr:
  "check_session t cs w = (Inr u, w') \<longleftrightarrow> reviewed_session t cs w \<and> w' = snd (cs_Tools cs w)"
proof -
  obtain tools w1 where ts: "cs_Tools cs w = (tools, w1)" by force
  obtain name ver where i: "(case ir_ServerInfo (cs_InitializeResult cs) of None \<Rightarrow> ([], []) | Some i \<Rightarrow> i) = (name, ver)" by force
  show ?thesis
    unfolding check_session_def reviewed_session_def i ts Let_def
    by (cases "find_tool (ut_Method t) tools"; cases "projr (find_tool (ut_Method t) tools)")
      (auto simp: seq_Inr act_defs listing_def ts locks_def check_schema_Inr check_annotations_Inr split: if_splits sum.splits)
qed

lemma Open_route_Inr:
  assumes "Open_route r t w = (Inr s, w')"
  obtains u scope cs w1 where "url_Parse (ut_Resource t) = Some u"
    "scope = (if ut_NetworkScope t = [] then [ToLower (Hostname u)] else ut_NetworkScope t)" "HostInScope (Hostname u) scope"
    "ro_sdk r (ut_Resource t) (session_client r t u scope) (ut_ProtocolVersion t) w = (Inr cs, w1)"
    "reviewed_session t cs w1" "s = \<lparr>ss_cs = cs, ss_maxBytes = ro_maxBytes r\<rparr>" "w' = (snd (cs_Tools cs w1))\<lparr>wr_overflow := False\<rparr>"
proof -
  obtain u where u: "url_Parse (ut_Resource t) = Some u" using assms by (auto simp: Open_route_def fail_def split: option.splits)
  let ?scope = "if ut_NetworkScope t = [] then [ToLower (Hostname u)] else ut_NetworkScope t"
  have h: "HostInScope (Hostname u) ?scope" using assms u by (auto simp: Open_route_def Let_def fail_def split: if_splits)
  obtain cs w1 where cs: "ro_sdk r (ut_Resource t) (session_client r t u ?scope) (ut_ProtocolVersion t) w = (Inr cs, w1)"
    and ch: "\<exists>w2. check_session t cs w1 = (Inr (), w2) \<and> w' = w2\<lparr>wr_overflow := False\<rparr>"
    and s: "s = \<lparr>ss_cs = cs, ss_maxBytes = ro_maxBytes r\<rparr>"
    using assms u h
    by (auto simp: Open_route_def Let_def qualifying_def seq_Inr recover_Inr clear_overflow_def act_defs split: sum.splits)
  show ?thesis using ch by (intro that [OF u refl h cs _ s]) (auto simp: check_session_Inr)
qed

lemma collect_Inr:
  assumes "collect f ys acc = Inr xs"
  shows "\<exists>vs new. ys = map Inr vs \<and> map f vs = map Inr new \<and> xs = acc @ new"
  using assms
proof (induction f ys acc rule: collect.induct)
  case (3 f y ys acc)
  then obtain x where x: "f y = Inr x" "collect f ys (acc @ [x]) = Inr xs" "length acc \<noteq> maxListed"
    by (auto split: if_splits sum.splits)
  with 3(1) obtain vs new where "ys = map Inr vs" "map f vs = map Inr new" "xs = (acc @ [x]) @ new" by blast
  then show ?case using x(1) by (intro exI [of _ "y # vs"] exI [of _ "x # new"]) simp
qed simp_all

lemma find_tool_listed: "find_tool name (map Inr vs) = Inr (find (\<lambda>t. mt_Name t = name) vs)"
  by (induction vs) simp_all

lemma CanonicalDigest_null: "CanonicalDigest ''null'' = CanonicalDigest []"
  by (simp add: CanonicalDigest_def json_null)

lemma live_tool_Inr:
  assumes "live_tool t = Inr lt"
  shows "lt_Name lt = mt_Name t" "marshal_any (mt_InputSchema t) = Inr (lt_InputSchema lt)"
    "\<exists>raw. marshal_any (mt_OutputSchema t) = Inr raw \<and> CanonicalDigest raw = CanonicalDigest (lt_OutputSchema lt)"
    "(case mt_Annotations t of None \<Rightarrow> Inr [] | Some m \<Rightarrow> m) = Inr (lt_Annotations lt)"
proof -
  show "lt_Name lt = mt_Name t" "marshal_any (mt_InputSchema t) = Inr (lt_InputSchema lt)"
    "(case mt_Annotations t of None \<Rightarrow> Inr [] | Some m \<Rightarrow> m) = Inr (lt_Annotations lt)"
    using assms by (auto simp: live_tool_def split: sum.splits)
  show "\<exists>raw. marshal_any (mt_OutputSchema t) = Inr raw \<and> CanonicalDigest raw = CanonicalDigest (lt_OutputSchema lt)"
    using assms CanonicalDigest_null by (cases "mt_OutputSchema t") (auto simp: live_tool_def marshal_any_def split: sum.splits)
qed

lemma read_server_Inr:
  assumes "read_server resource issuer now cs w = (Inr live, w')"
  shows "\<exists>vs. fst (cs_Tools cs w) = map Inr vs \<and> map live_tool vs = map Inr (lv_Tools live)"
    "(case ir_ServerInfo (cs_InitializeResult cs) of None \<Rightarrow> ([], []) | Some i \<Rightarrow> i) = (lv_Name live, lv_Version live)"
    "lv_ProtocolVersion live = ir_ProtocolVersion (cs_InitializeResult cs)"
proof -
  obtain name ver where i: "(case ir_ServerInfo (cs_InitializeResult cs) of None \<Rightarrow> ([], []) | Some i \<Rightarrow> i) = (name, ver)" by force
  obtain ts w1 tools where ts: "cs_Tools cs w = (ts, w1)" "collect live_tool ts [] = Inr tools" "lv_Tools live = tools"
    and sel: "lv_Name live = name" "lv_Version live = ver" "lv_ProtocolVersion live = ir_ProtocolVersion (cs_InitializeResult cs)"
    using assms unfolding read_server_def i Let_def by (auto simp: seq_Inr listing_Inr act_defs)
  show "\<exists>vs. fst (cs_Tools cs w) = map Inr vs \<and> map live_tool vs = map Inr (lv_Tools live)"
    using collect_Inr [OF ts(2)] ts by auto
  show "(case ir_ServerInfo (cs_InitializeResult cs) of None \<Rightarrow> ([], []) | Some i \<Rightarrow> i) = (lv_Name live, lv_Version live)"
    "lv_ProtocolVersion live = ir_ProtocolVersion (cs_InitializeResult cs)" using i sel by simp_all
qed

lemma BuildDescriptor_server:
  "BuildDescriptor d live = Inr desc \<Longrightarrow> d_ServerName desc = lv_Name live \<and> d_ServerVersion desc = lv_Version live"
  by (auto simp: BuildDescriptor_def bound_descriptor_def Let_def split: if_splits sum.splits)

text \<open>The tool a reviewed method names is the one live tool of that name, with its digests.\<close>

lemma reviewed_method_live:
  assumes "BuildDescriptor decl live = Inr d" "Method d m = Some tool" "lt \<in> set (lv_Tools live)" "lt_Name lt = m"
  shows "CanonicalDigest (lt_InputSchema lt) = Inr (tl_InputSchemaDigest tool)"
    "CanonicalDigest (lt_OutputSchema lt) = Inr (tl_OutputSchemaDigest tool)"
    "AnnotationsDigest (lt_Annotations lt) = Inr (tl_AnnotationsDigest tool)"
proof -
  obtain tools schemas where b: "bind_live (lv_Tools live) (dc_Tools decl) [] [] = Inr ([], tools, schemas)"
    "distinct (map td_Method (dc_Tools decl))" "d_Tools d = sort_key tl_Method tools"
    using BuildDescriptor_InrD [OF assms(1)] by metis
  from bind_live_Inr [OF b(1,2)] have names: "distinct (map lt_Name (lv_Tools live))"
    and bound: "\<forall>t \<in> set tools. tool_bound (dc_Tools decl) (lv_Tools live) t" by auto
  have "tool \<in> set tools" "tl_Method tool = m"
    using assms(2) b(3) by (auto simp: Method_def find_Some_iff) (metis nth_mem set_sort length_sort)
  with bound obtain lt' where lt': "lt' \<in> set (lv_Tools live)" "lt_Name lt' = m"
    "CanonicalDigest (lt_InputSchema lt') = Inr (tl_InputSchemaDigest tool)"
    "CanonicalDigest (lt_OutputSchema lt') = Inr (tl_OutputSchemaDigest tool)"
    "AnnotationsDigest (lt_Annotations lt') = Inr (tl_AnnotationsDigest tool)"
    unfolding tool_bound_def by auto
  moreover have "lt' = lt" using names lt'(1,2) assms(3,4) by (auto simp: distinct_map inj_on_def)
  ultimately show "CanonicalDigest (lt_InputSchema lt) = Inr (tl_InputSchemaDigest tool)"
    "CanonicalDigest (lt_OutputSchema lt) = Inr (tl_OutputSchemaDigest tool)"
    "AnnotationsDigest (lt_Annotations lt) = Inr (tl_AnnotationsDigest tool)" by auto
qed

lemma reviewed_method_listed:
  assumes "BuildDescriptor decl live = Inr d" "Method d m = Some tool"
  shows "m \<in> set (map lt_Name (lv_Tools live))"
proof -
  obtain tools schemas where b: "bind_live (lv_Tools live) (dc_Tools decl) [] [] = Inr ([], tools, schemas)"
    "distinct (map td_Method (dc_Tools decl))" "d_Tools d = sort_key tl_Method tools"
    using BuildDescriptor_InrD [OF assms(1)] by metis
  from bind_live_Inr [OF b(1,2)] have names: "map tl_Method tools = map lt_Name (lv_Tools live)" by auto
  have "tool \<in> set (d_Tools d)" "tl_Method tool = m"
    using assms(2) by (auto simp: Method_def find_Some_iff)
  then have "m \<in> set (map tl_Method tools)" using b(3) by auto
  then show ?thesis by (simp only: names)
qed

lemma reviewed_session_same:
  assumes live: "read_server resource issuer now cs w = (Inr live, w1)" and d: "BuildDescriptor decl live = Inr d"
    and m: "Method d (c_Method call) = Some tool" and ver: "c_ProtocolVersion call = d_ProtocolVersion d"
    and same: "cs_InitializeResult cs' = cs_InitializeResult cs" "fst (cs_Tools cs' w') = fst (cs_Tools cs w)"
  shows "reviewed_session (upstream_target call g d token) cs' w'"
proof -
  note rs = read_server_Inr [OF live]
  obtain vs where vs: "fst (cs_Tools cs w) = map Inr vs" "map live_tool vs = map Inr (lv_Tools live)" using rs(1) by blast
  have "c_Method call \<in> lt_Name ` set (lv_Tools live)" using reviewed_method_listed [OF d m] by simp
  moreover have names: "lt_Name (projr (live_tool t)) = mt_Name t" "live_tool t = Inr (projr (live_tool t))"
    "projr (live_tool t) \<in> set (lv_Tools live)" if "t \<in> set vs" for t
  proof -
    have "live_tool t \<in> Inr ` set (lv_Tools live)" using that vs(2) by (metis image_eqI list.set_map)
    then obtain lt where "live_tool t = Inr lt" "lt \<in> set (lv_Tools live)" by blast
    then show "lt_Name (projr (live_tool t)) = mt_Name t" "live_tool t = Inr (projr (live_tool t))"
      "projr (live_tool t) \<in> set (lv_Tools live)" using live_tool_Inr(1) by auto
  qed
  moreover have "lv_Tools live = map (\<lambda>t. projr (live_tool t)) vs"
    using vs(2) by (metis (no_types, lifting) comp_apply list.map_comp list.map_ident_strong map_eq_conv sum.sel(2))
  ultimately have "\<exists>t \<in> set vs. mt_Name t = c_Method call" by auto
  then obtain t where t1: "find (\<lambda>t. mt_Name t = c_Method call) vs = Some t"
    by (cases "find (\<lambda>t. mt_Name t = c_Method call) vs") (auto simp: find_None_iff)
  then have t: "t \<in> set vs" "mt_Name t = c_Method call" by (auto simp: find_Some_iff)
  note dig = reviewed_method_live [OF d m names(3) [OF t(1)]]
  note lt = live_tool_Inr [OF names(2) [OF t(1)]]
  have "locks (upstream_target call g d token) t"
    using lt(2-4) dig names(1) [OF t(1)] t(2) unfolding locks_def by (auto simp: upstream_target_def Let_def m)
  moreover have "d_ProtocolVersion d = lv_ProtocolVersion live" using BuildDescriptor_InrD [OF d] by metis
  ultimately show ?thesis
    using rs(2,3) ver same vs(1) t1 BuildDescriptor_server [OF d]
    by (simp add: reviewed_session_def upstream_target_def Let_def find_tool_listed)
qed

section \<open>Properties of the route\<close>

text \<open>C11. A session that the send route opens is held to the reviewed revision: the resource's host is within the
  revision's scope, the session runs over the scoped, guarded client with the token at the resource's origin
  only, the negotiated protocol version, the server's name and version are the reviewed ones, and the
  first listed tool of the method has the reviewed input, output and annotation digests.\<close>
theorem opened_session_is_reviewed:
  assumes "up_Open (route_upstream wires r) n t = Inr sess"
  shows "\<exists>u scope cs w1. url_Parse (ut_Resource t) = Some u \<and> HostInScope (Hostname u) scope
     \<and> scope = (if ut_NetworkScope t = [] then [ToLower (Hostname u)] else ut_NetworkScope t)
     \<and> ro_sdk r (ut_Resource t) (session_client r t u scope) (ut_ProtocolVersion t) (wires n) = (Inr cs, w1)
     \<and> reviewed_session t cs w1 \<and> sess = route_session wires \<lparr>ss_cs = cs, ss_maxBytes = ro_maxBytes r\<rparr>"
proof -
  obtain s w' where s: "Open_route r t (wires n) = (Inr s, w')" "sess = route_session wires s"
    using assms by (cases "Open_route r t (wires n)") (auto simp: route_upstream_def split: sum.splits)
  from s(1) show ?thesis
  proof (rule Open_route_Inr)
    fix u scope cs w1
    assume "url_Parse (ut_Resource t) = Some u"
      "scope = (if ut_NetworkScope t = [] then [ToLower (Hostname u)] else ut_NetworkScope t)" "HostInScope (Hostname u) scope"
      "ro_sdk r (ut_Resource t) (session_client r t u scope) (ut_ProtocolVersion t) (wires n) = (Inr cs, w1)"
      "reviewed_session t cs w1" "s = \<lparr>ss_cs = cs, ss_maxBytes = ro_maxBytes r\<rparr>"
    then show ?thesis using s(2) by blast
  qed
qed

text \<open>C20. A discovered server can be called: when a descriptor was built from what discovery read of a session, a
  call of one of its methods opens a session with the same resource as long as the server answers its
  initialisation and its tool listing as it did then, so no drift is ever reported for an unchanged server.\<close>
theorem discovered_server_opens:
  assumes "read_server resource issuer now cs w = (Inr live, w1)" "BuildDescriptor decl live = Inr d"
    and "Method d (c_Method call) = Some tool" "c_ProtocolVersion call = d_ProtocolVersion d"
    and "g_CanonicalResource g = d_CanonicalResource d"
    and "url_Parse (d_CanonicalResource d) = Some u" "HostInScope (Hostname u) (d_NetworkScope d)"
    and "\<And>client. ro_sdk r (d_CanonicalResource d) client (d_ProtocolVersion d) (wires n) = (Inr cs', w2)"
    and "cs_InitializeResult cs' = cs_InitializeResult cs" "fst (cs_Tools cs' w2) = fst (cs_Tools cs w)"
  shows "\<exists>sess. up_Open (route_upstream wires r) n (upstream_target call g d token) = Inr sess"
proof -
  let ?t = "upstream_target call g d token"
  have t: "ut_Resource ?t = d_CanonicalResource d" "ut_NetworkScope ?t = d_NetworkScope d" "ut_ProtocolVersion ?t = d_ProtocolVersion d"
    using assms(4,5) by (simp_all add: upstream_target_def Let_def)
  have "d_NetworkScope d \<noteq> []" using assms(7) by (auto simp: HostInScope_def hostAllowed_def)
  then have "Open_route r ?t (wires n) = seq (check_session ?t cs') (\<lambda>_. seq clear_overflow (\<lambda>_.
      ok \<lparr>ss_cs = cs', ss_maxBytes = ro_maxBytes r\<rparr>)) w2"
    by (simp add: Open_route_def t assms(6,7,8) qualifying_def seq_def recover_def ok_def)
  also have "\<dots> = (Inr \<lparr>ss_cs = cs', ss_maxBytes = ro_maxBytes r\<rparr>, (snd (cs_Tools cs' w2))\<lparr>wr_overflow := False\<rparr>)"
  proof -
    have "check_session ?t cs' w2 = (Inr (), snd (cs_Tools cs' w2))"
      using reviewed_session_same [OF assms(1-4,9,10)] by (simp add: check_session_Inr)
    then show ?thesis by (simp add: seq_def clear_overflow_def ok_def)
  qed
  finally show ?thesis by (simp add: route_upstream_def)
qed

text \<open>C21. What a send reports is bounded and classified: a result is kept only when it and the native evidence fit the
  route's bound and no error is reported; the call becomes unknown exactly when the tool call failed and the
  server is not known to have answered (no JSON-RPC error of its own, no body beyond the bound); in every
  other case it becomes succeeded or failed.\<close>
theorem send_outcome_is_classified:
  "case us_Send (route_session wires s) n m args of (reply, e) \<Rightarrow>
     ((\<exists>b. ur_Result reply = Some b \<and> e = None \<and> int (length b) \<le> ss_maxBytes s
          \<and> int (length (ur_Native reply)) \<le> ss_maxBytes s)
      \<or> (\<exists>se. ur_Result reply = None \<and> e = Some se))
   \<and> (fst (classify_reply reply e) = CallUnknown \<longleftrightarrow>
        (\<exists>ce w. cs_CallTool (ss_cs s) m args (wires n) = (Inl ce, w) \<and> \<not> ce_BodyTooLarge ce \<and> \<not> wr_overflow w
           \<and> \<not> (\<exists>code msg. ce_jsonrpc ce = Some (code, msg) \<and> answered ce code)))
   \<and> fst (classify_reply reply e) \<in> {CallSucceeded, CallFailed, CallUnknown}"
proof (cases "cs_CallTool (ss_cs s) m args (wires n)")
  case (Pair q w)
  show ?thesis
  proof (cases q)
    case (Inl ce)
    then show ?thesis
      by (cases "ce_jsonrpc ce")
        (auto simp: route_session_def Send_session_def Pair failed_reply_def answered_reply_def classify_reply_def
          split: if_splits)
  next
    case (Inr res)
    then show ?thesis
      by (auto simp: route_session_def Send_session_def Pair result_reply_def answered_reply_def classify_reply_def
          split: sum.splits if_splits)
  qed
qed

section \<open>Witnesses of the route\<close>

definition sample_mcp_session :: ClientSession where
  "sample_mcp_session =
     \<lparr>cs_InitializeResult = \<lparr>ir_ProtocolVersion = ''2025-06-18'', ir_ServerInfo = Some (''demo'', ''1''), ir_Resources = False, ir_Prompts = False\<rparr>,
      cs_Tools = (\<lambda>w. (map (\<lambda>m. Inr \<lparr>mt_Name = m, mt_InputSchema = None, mt_OutputSchema = None, mt_Annotations = None\<rparr>)
         [''read'', ''echo''], w)),
      cs_Resources = (\<lambda>w. ([], w)), cs_Prompts = (\<lambda>w. ([], w)), cs_CallTool = (\<lambda>_ _ w. (Inr \<lparr>cw_Content = [], cw_StructuredContent = None, cw_IsError = False, cw_native = Inr ''{}''\<rparr>, w))\<rparr>"

definition quiet_wire :: wire where
  "quiet_wire = \<lparr>wr_net = quiet_net, wr_overflow = False\<rparr>"

definition sample_route :: Route where
  "sample_route = NewRoute (guarded_trip (au_guard sample_authority) (\<lambda>_ _. Inl (err ErrOther)) 65536) 0
     (\<lambda>_ _ _ w. (Inr sample_mcp_session, w))"

definition listed_call :: Call where
  "listed_call = (CallFromRow (sample_call_row CallAdmitted))\<lparr>c_Method := ''echo'', c_ProtocolVersion := ''2025-06-18''\<rparr>"

lemma sample_read: "\<exists>live. read_server resource issuer now sample_mcp_session w = (Inr live, w)
    \<and> (\<exists>desc tool. BuildDescriptor sample_decl live = Inr desc \<and> Method desc ''echo'' = Some tool
         \<and> d_CanonicalResource desc = ''https://Mcp.example/x'' \<and> d_ProtocolVersion desc = ''2025-06-18''
         \<and> d_NetworkScope desc = network_scope [] ''mcp.example'')"
  by (simp add: read_server_def sample_mcp_session_def seq_def listing_def act_defs live_tool_def marshal_any_def maxListed_def
      BuildDescriptor_def sample_decl_def sample_resource sample_class sample_tool_decl_def CanonicalDigest_null
      CanonicalDigest_def [of "[]"] AnnotationsDigest_def Let_def Method_def bound_descriptor_def)

theorem discovered_server_opens_witness:
  "\<exists>d token sess. up_Open (route_upstream (\<lambda>_. quiet_wire) sample_route) 0
      (upstream_target listed_call (sample_grant\<lparr>g_CanonicalResource := ''https://Mcp.example/x''\<rparr>) d token) = Inr sess"
proof -
  obtain live d tool where r: "read_server ''r'' [] 0 sample_mcp_session quiet_wire = (Inr live, quiet_wire)"
    and d: "BuildDescriptor sample_decl live = Inr d" "Method d ''echo'' = Some tool"
    "d_CanonicalResource d = ''https://Mcp.example/x''" "d_ProtocolVersion d = ''2025-06-18''"
    "d_NetworkScope d = network_scope [] ''mcp.example''" using sample_read by blast
  obtain u where u: "url_Parse ''https://Mcp.example/x'' = Some u" "HostInScope (Hostname u) (network_scope [] ''mcp.example'')"
  proof -
    have "(case url_Parse ''https://Mcp.example/x'' of None \<Rightarrow> False | Some u \<Rightarrow> HostInScope (Hostname u) (network_scope [] ''mcp.example''))"
      by code_simp
    then show thesis using that by (auto split: option.splits)
  qed
  show ?thesis
    using discovered_server_opens [OF r d(1), of listed_call tool "sample_grant\<lparr>g_CanonicalResource := ''https://Mcp.example/x''\<rparr>"
        u sample_route "\<lambda>_. quiet_wire" 0 sample_mcp_session quiet_wire "''t''"] d u
    by (auto simp: listed_call_def sample_route_def NewRoute_def)
qed

theorem opened_session_is_reviewed_witness:
  "\<exists>t sess u scope cs w1. up_Open (route_upstream (\<lambda>_. quiet_wire) sample_route) 0 t = Inr sess
     \<and> url_Parse (ut_Resource t) = Some u \<and> HostInScope (Hostname u) scope \<and> reviewed_session t cs w1"
proof -
  let ?t = "\<lparr>ut_Resource = ''https://Mcp.example/x'', ut_ProtocolVersion = ''2025-06-18'', ut_Transport = ''streamable-http'',
     ut_Method = ''echo'', ut_InputSchemaDigest = digestJSON JNull, ut_OutputSchemaDigest = digestJSON JNull,
     ut_AnnotationsDigest = digestJSON (annotations_json no_annotations), ut_ServerName = ''demo'', ut_ServerVersion = ''1'',
     ut_NetworkScope = [], ut_Token = ''t''\<rparr>"
  have url: "(case url_Parse ''https://Mcp.example/x'' of None \<Rightarrow> False | Some u \<Rightarrow> HostInScope (Hostname u) [ToLower (Hostname u)])"
    by code_simp
  then have "\<exists>sess. up_Open (route_upstream (\<lambda>_. quiet_wire) sample_route) 0 ?t = Inr sess"
    by (auto simp: route_upstream_def Open_route_def sample_route_def NewRoute_def sample_mcp_session_def qualifying_def
        check_session_def listing_def check_schema_def check_annotations_def marshal_any_def CanonicalDigest_null
        CanonicalDigest_def [of "[]"] AnnotationsDigest_def seq_def recover_def act_defs clear_overflow_def split: option.splits)
  then obtain sess where s: "up_Open (route_upstream (\<lambda>_. quiet_wire) sample_route) 0 ?t = Inr sess" by blast
  from opened_session_is_reviewed [OF s] s show ?thesis by blast
qed

end
