(* ===== verification/Bootstrap.thy ===== *)
theory Bootstrap
  imports Config Upstream_Session
begin

text \<open>
  The assembly of the process, \<open>internal/bootstrap\<close>: the transports of the process by configuration
  (\<open>identity.go\<close>), the forwarder's construction (\<open>internal/adapters/outbox/forwarder.go\<close>), the configuration
  generations with the clients they own (\<open>generations.go\<close>), the readiness (\<open>health.go\<close>, \<open>schema.go\<close>) and the start
  of the process (\<open>module.go\<close>).  The database driver, NATS, watermill and the listeners are libraries: whether one of
  their steps succeeds is the record \<open>drivers\<close>.  What the process opens is counted in \<open>resources\<close>: pools, NATS
  connections and the identity reloaders that poll.
\<close>

section \<open>Libraries and resources\<close>

record resources =
  rs_next :: nat
  rs_pools :: "nat list"
  rs_conns :: "nat list"
  rs_polls :: "nat list"

datatype tls_config = ServerTLS bytes string | MutualTLS nat string

record ForwarderConfig =
  fc_ConsumerGroup :: string
  fc_PollInterval :: duration
  fc_AckDeadline :: duration
  fc_ResendInterval :: duration
  fc_BatchSize :: int
  fc_NATSURL :: string
  fc_NATSName :: string
  fc_PublishTimeout :: duration
  fc_CloseTimeout :: duration
  fc_NATSTLS :: "tls_config option"
  fc_NATSCredsFile :: string
  fc_NATSCredsNKey :: bool

text \<open>The answers of the libraries, by the number of the pool or connection they are about.\<close>

record drivers =
  dl_ParseConfig :: "string \<Rightarrow> bool"
  dl_NewPool :: "nat \<Rightarrow> bool"
  dl_Ping :: "nat \<Rightarrow> bool"
  dl_CertsFromPEM :: "bytes \<Rightarrow> bool"
  dl_NkeyOptionFromSeed :: "string \<Rightarrow> bool"
  dl_Connect :: "nat \<Rightarrow> ForwarderConfig \<Rightarrow> bool"
  dl_JetStream :: "nat \<Rightarrow> bool"
  dl_NewSubscriber :: "nat \<Rightarrow> bool"
  dl_NewPublisher :: "nat \<Rightarrow> bool"
  dl_NewForwarder :: "nat \<Rightarrow> bool"
  dl_Stopped :: "nat \<Rightarrow> bool"
  dl_Drained :: "nat \<Rightarrow> bool"

type_synonym 'a built = "resources \<Rightarrow> (err + 'a) \<times> resources"

definition open_pool :: "nat \<Rightarrow> resources \<Rightarrow> resources" where
  "open_pool p r = r\<lparr>rs_pools := rs_pools r @ [p]\<rparr>"

definition close_pool :: "nat \<Rightarrow> resources \<Rightarrow> resources" where
  "close_pool p r = r\<lparr>rs_pools := removeAll p (rs_pools r)\<rparr>"

definition close_nats :: "nat \<Rightarrow> resources \<Rightarrow> resources" where
  "close_nats c r = r\<lparr>rs_conns := removeAll c (rs_conns r)\<rparr>"

section \<open>Transports\<close>

definition caPool :: "drivers \<Rightarrow> filesystem \<Rightarrow> string \<Rightarrow> err + bytes" where
  "caPool D fs path =
     (case fs path of
        None \<Rightarrow> Inl (err ErrOther)
      | Some pem \<Rightarrow> if dl_CertsFromPEM D pem then Inr pem else Inl (err ErrOther))"

text \<open>\<open>clientTLSConfig\<close>: under \<open>mtls\<close> a reloader is started for the client certificate.\<close>

definition clientTLSConfig :: "x509 \<Rightarrow> drivers \<Rightarrow> filesystem \<Rightarrow> time \<Rightarrow> ClientTLS \<Rightarrow> tls_config built" where
  "clientTLSConfig X D fs now t r =
     (if ctl_Mode t = ''tls'' then
        (case caPool D fs (ctl_CAFile t) of Inl e \<Rightarrow> (Inl e, r) | Inr pem \<Rightarrow> (Inr (ServerTLS pem (ctl_ServerName t)), r))
      else if ctl_Mode t = ''mtls'' then
        (case New_reloader X fs \<lparr>fs_CertFile = ctl_CertFile t, fs_KeyFile = ctl_KeyFile t, fs_CAFile = ctl_CAFile t\<rparr> now of
           Inl e \<Rightarrow> (Inl e, r)
         | Inr _ \<Rightarrow> (Inr (MutualTLS (rs_next r) (ctl_ServerName t)),
                     r\<lparr>rs_next := Suc (rs_next r), rs_polls := rs_polls r @ [rs_next r]\<rparr>))
      else (Inl (err ErrOther), r))"

text \<open>The dial options: plaintext is \<open>None\<close>.\<close>

definition clientTransport :: "x509 \<Rightarrow> drivers \<Rightarrow> filesystem \<Rightarrow> time \<Rightarrow> ClientTLS \<Rightarrow> bool \<Rightarrow> tls_config option built" where
  "clientTransport X D fs now t dev r =
     (if ctl_Mode t = ''development'' then (if \<not> dev then (Inl (err ErrOther), r) else (Inr None, r))
      else if ctl_Mode t = ''tls'' \<or> ctl_Mode t = ''mtls'' then
        (case clientTLSConfig X D fs now t r of (Inl e, r') \<Rightarrow> (Inl e, r') | (Inr c, r') \<Rightarrow> (Inr (Some c), r'))
      else (Inl (err ErrOther), r))"

definition newWorkloadIdentity :: "x509 \<Rightarrow> filesystem \<Rightarrow> time \<Rightarrow> Config \<Rightarrow> err + tls_server option" where
  "newWorkloadIdentity X fs now cfg =
     (let id = gc_Identity (co_GRPC cfg) in
      if si_Mode id = ''development'' then Inr None
      else (case New_reloader X fs \<lparr>fs_CertFile = si_CertFile id, fs_KeyFile = si_KeyFile id, fs_CAFile = si_CAFile id\<rparr> now of
              Inl e \<Rightarrow> Inl e
            | Inr s \<Rightarrow> Inr (Some s)))"

text \<open>The listener's identity as \<open>NewServerWithIdentity\<close> takes it: the trust domain and the policy.\<close>

definition server_identity :: "tls_server option \<Rightarrow> Config \<Rightarrow> (string \<times> Policy) option" where
  "server_identity w cfg = (case w of None \<Rightarrow> None | Some _ \<Rightarrow> Some (TrustDomain cfg, Policy_mcp))"

text \<open>\<open>controlTransport\<close>: the shared reloader when Control's files are the listener's, its own started one
  otherwise; \<open>NewClientCredentials\<close> wants a server name.\<close>

definition controlTransport :: "x509 \<Rightarrow> filesystem \<Rightarrow> time \<Rightarrow> tls_server option \<Rightarrow> Config \<Rightarrow> (tls_server \<times> string) option built" where
  "controlTransport X fs now w cfg r =
     (let mode = ci_Mode (cc_Identity (co_Control cfg)); m = ControlMTLS cfg; id = gc_Identity (co_GRPC cfg) in
      if mode = ''development'' then (if \<not> development cfg then (Inl (err ErrOther), r) else (Inr None, r))
      else if mode = ''mtls'' then
        (let named = (\<lambda>s r'. if ctl_ServerName m = [] then (Inl (err ErrOther), r') else (Inr (Some (s, ctl_ServerName m)), r')) in
         case w of
           Some s \<Rightarrow>
             if ctl_CertFile m = si_CertFile id \<and> ctl_KeyFile m = si_KeyFile id \<and> ctl_CAFile m = si_CAFile id then named s r
             else (case New_reloader X fs \<lparr>fs_CertFile = ctl_CertFile m, fs_KeyFile = ctl_KeyFile m, fs_CAFile = ctl_CAFile m\<rparr> now of
                     Inl e \<Rightarrow> (Inl e, r)
                   | Inr s' \<Rightarrow> named s' (r\<lparr>rs_next := Suc (rs_next r), rs_polls := rs_polls r @ [rs_next r]\<rparr>))
         | None \<Rightarrow>
             (case New_reloader X fs \<lparr>fs_CertFile = ctl_CertFile m, fs_KeyFile = ctl_KeyFile m, fs_CAFile = ctl_CAFile m\<rparr> now of
                Inl e \<Rightarrow> (Inl e, r)
              | Inr s' \<Rightarrow> named s' (r\<lparr>rs_next := Suc (rs_next r), rs_polls := rs_polls r @ [rs_next r]\<rparr>)))
      else (Inl (err ErrOther), r))"

section \<open>The forwarder\<close>

definition natsCredentials :: "drivers \<Rightarrow> ForwarderConfig \<Rightarrow> err + bool" where
  "natsCredentials D cfg =
     (if fc_NATSCredsFile cfg = [] then Inr False
      else if fc_NATSCredsNKey cfg then (if dl_NkeyOptionFromSeed D (fc_NATSCredsFile cfg) then Inr True else Inl (err ErrOther))
      else Inr True)"

text \<open>\<open>NewForwarder\<close>: the NATS connection, closed again when a later piece cannot be built.\<close>

definition NewForwarder :: "drivers \<Rightarrow> ForwarderConfig \<Rightarrow> nat built" where
  "NewForwarder D cfg r =
     (case natsCredentials D cfg of
        Inl e \<Rightarrow> (Inl e, r)
      | Inr _ \<Rightarrow>
         (let nc = rs_next r; r0 = r\<lparr>rs_next := Suc nc\<rparr>; r1 = r0\<lparr>rs_conns := rs_conns r @ [nc]\<rparr> in
          if \<not> dl_Connect D nc cfg then (Inl (err ErrOther), r0)
          else if \<not> dl_JetStream D nc then (Inl (err ErrOther), close_nats nc r1)
          else if \<not> dl_NewSubscriber D nc then (Inl (err ErrOther), close_nats nc r1)
          else if \<not> dl_NewPublisher D nc then (Inl (err ErrOther), close_nats nc r1)
          else if \<not> dl_NewForwarder D nc then (Inl (err ErrOther), close_nats nc r1)
          else (Inr nc, r1)))"

section \<open>Runtimes\<close>

text \<open>\<open>rt_running\<close>: the forwarder was started, so that its cancel function is set.\<close>

record runtime =
  rt_gen :: Generation
  rt_pool :: nat
  rt_forwarder :: "nat option"
  rt_running :: bool

definition forwarder_config :: "Config \<Rightarrow> tls_config option \<Rightarrow> ForwarderConfig" where
  "forwarder_config cfg tls =
     (let ob = co_Outbox cfg; nats = oc_NATS ob in
      \<lparr>fc_ConsumerGroup = oc_ConsumerGroup ob, fc_PollInterval = oc_PollInterval ob, fc_AckDeadline = oc_AckDeadline ob,
       fc_ResendInterval = oc_ResendInterval ob, fc_BatchSize = oc_BatchSize ob, fc_NATSURL = nats_URL nats,
       fc_NATSName = nats_Name nats, fc_PublishTimeout = nats_PublishTimeout nats, fc_CloseTimeout = rl_DrainLimit (co_Reload cfg),
       fc_NATSTLS = tls, fc_NATSCredsFile = nats_CredsFile nats, fc_NATSCredsNKey = (nats_CredsKind nats = ''nkey'')\<rparr>)"

text \<open>The transport of the forwarder's connection.\<close>

definition nats_transport :: "x509 \<Rightarrow> drivers \<Rightarrow> filesystem \<Rightarrow> time \<Rightarrow> Config \<Rightarrow> tls_config option built" where
  "nats_transport X D fs now cfg r =
     (let t = nats_TLS (oc_NATS (co_Outbox cfg)) in
      if ctl_Mode t = ''development'' then (if \<not> development cfg then (Inl (err ErrOther), r) else (Inr None, r))
      else (case clientTLSConfig X D fs now t r of (Inl e, r') \<Rightarrow> (Inl e, r') | (Inr c, r') \<Rightarrow> (Inr (Some c), r')))"

definition buildRuntime :: "x509 \<Rightarrow> drivers \<Rightarrow> filesystem \<Rightarrow> time \<Rightarrow> Generation \<Rightarrow> runtime built" where
  "buildRuntime X D fs now gen r =
     (let cfg = gn_Config gen; p = rs_next r; r0 = r\<lparr>rs_next := Suc p\<rparr>; r1 = open_pool p r0 in
      if \<not> dl_ParseConfig D (db_URL (co_Database cfg)) then (Inl (err ErrOther), r)
      else if \<not> dl_NewPool D p then (Inl (err ErrOther), r0)
      else if \<not> dl_Ping D p then (Inl (err ErrOther), close_pool p r1)
      else if \<not> oc_ForwarderEnabled (co_Outbox cfg)
      then (Inr \<lparr>rt_gen = gen, rt_pool = p, rt_forwarder = None, rt_running = False\<rparr>, r1)
      else (case nats_transport X D fs now cfg r1 of
              (Inl e, r2) \<Rightarrow> (Inl e, close_pool p r2)
            | (Inr tls, r2) \<Rightarrow>
               (case NewForwarder D (forwarder_config cfg tls) r2 of
                  (Inl e, r3) \<Rightarrow> (Inl e, close_pool p r3)
                | (Inr nc, r3) \<Rightarrow> (Inr \<lparr>rt_gen = gen, rt_pool = p, rt_forwarder = Some nc, rt_running = False\<rparr>, r3))))"

definition startForwarder :: "runtime \<Rightarrow> runtime" where
  "startForwarder rt = (if rt_forwarder rt = None then rt else rt\<lparr>rt_running := True\<rparr>)"

text \<open>\<open>retire\<close>: whether it was forced.  The cancel function of a forwarder that never started is nil, and calling
  it panics.\<close>

definition nil_call :: err where
  "nil_call = Err ErrOther ''panic: nil function call''"

definition retire :: "drivers \<Rightarrow> runtime \<Rightarrow> bool built" where
  "retire D rt r =
     (case rt_forwarder rt of
        None \<Rightarrow> (Inr (\<not> dl_Drained D (rt_pool rt)), close_pool (rt_pool rt) r)
      | Some nc \<Rightarrow>
         if \<not> rt_running rt then (Inl nil_call, r)
         else (Inr (\<not> dl_Stopped D nc \<or> \<not> dl_Drained D (rt_pool rt)), close_pool (rt_pool rt) (close_nats nc r)))"

section \<open>Generations\<close>

record generations =
  ge_path :: string
  ge_environ :: "string list"
  ge_active :: "runtime option"
  ge_number :: u64
  ge_store :: nat
  ge_bounds :: Bounds
  ge_expiry :: time
  ge_res :: resources

definition bounds :: "Config \<Rightarrow> Bounds" where
  "bounds c = \<lparr>b_MaxInputBytes = tcf_MaxInputBytes (co_Tasks c), b_MaxLease = tcf_MaxLease (co_Tasks c),
     b_RetryDelay = tcf_RetryDelay (co_Tasks c), b_MaxAttempts = tcf_MaxAttempts (co_Tasks c)\<rparr>"

text \<open>The store holds the first pool from its construction, the tasks the first bounds.\<close>

definition newGenerations :: "string \<Rightarrow> string list \<Rightarrow> runtime \<Rightarrow> resources \<Rightarrow> generations" where
  "newGenerations path environ rt r =
     \<lparr>ge_path = path, ge_environ = environ, ge_active = None, ge_number = gn_Number (rt_gen rt), ge_store = rt_pool rt,
      ge_bounds = bounds (gn_Config (rt_gen rt)), ge_expiry = zero_time, ge_res = r\<rparr>"

definition activate :: "drivers \<Rightarrow> runtime \<Rightarrow> generations \<Rightarrow> err + generations" where
  "activate D rt g =
     (let g1 = g\<lparr>ge_active := Some (startForwarder rt), ge_store := rt_pool rt, ge_bounds := bounds (gn_Config (rt_gen rt)),
                 ge_expiry := gn_ExpiresAt (rt_gen rt)\<rparr> in
      case ge_active g of
        None \<Rightarrow> Inr g1
      | Some previous \<Rightarrow>
         (case retire D previous (ge_res g1) of
            (Inl e, r) \<Rightarrow> Inl e
          | (Inr _, r) \<Rightarrow> Inr (g1\<lparr>ge_res := r\<rparr>)))"

text \<open>\<open>reflect.DeepEqual\<close> on the sections: equality, except that a float that is not a number equals nothing.\<close>

definition same_telemetry :: "Telemetry \<Rightarrow> Telemetry \<Rightarrow> bool" where
  "same_telemetry a b \<longleftrightarrow> te_SampleRatio a \<noteq> NaN \<and> a = b"

definition section_changes :: "Config \<Rightarrow> Config \<Rightarrow> (string \<times> bool) list" where
  "section_changes a c =
    [(''development'', co_Development a \<noteq> co_Development c), (''telemetry'', \<not> same_telemetry (co_Telemetry a) (co_Telemetry c)),
     (''grpc'', co_GRPC a \<noteq> co_GRPC c), (''health'', co_Health a \<noteq> co_Health c), (''retention'', co_Retention a \<noteq> co_Retention c),
     (''control'', co_Control a \<noteq> co_Control c), (''apollo'', co_Apollo a \<noteq> co_Apollo c), (''catalog'', co_Catalog a \<noteq> co_Catalog c),
     (''barrier'', co_Barrier a \<noteq> co_Barrier c), (''calls'', co_Calls a \<noteq> co_Calls c)]"

definition nonReloadableChanges :: "Config \<Rightarrow> Config \<Rightarrow> string list" where
  "nonReloadableChanges active candidate = sort_strings (map fst (filter snd (section_changes active candidate)))"

text \<open>\<open>Reload\<close> of a process whose generation is active.  The files may change between the load and the build.\<close>

definition Reload_generation ::
  "'k koanf \<Rightarrow> x509 \<Rightarrow> drivers \<Rightarrow> filesystem \<Rightarrow> filesystem \<Rightarrow> time \<Rightarrow> runtime \<Rightarrow> generations \<Rightarrow> (err + bool) \<times> generations" where
  "Reload_generation lib X D fs fs' now active g =
     (case LoadFrom lib fs now (ge_path g) (ge_environ g) (ge_number g + 1) of
        Inl e \<Rightarrow> (Inl e, g)
      | Inr candidate \<Rightarrow>
         if Inputs candidate = Inputs (rt_gen active) then (Inr False, g)
         else if nonReloadableChanges (gn_Config (rt_gen active)) (gn_Config candidate) \<noteq> [] then (Inl (err ErrOther), g)
         else (case buildRuntime X D fs' now candidate (ge_res g) of
                 (Inl e, r) \<Rightarrow> (Inl e, g\<lparr>ge_res := r\<rparr>)
               | (Inr rt, r) \<Rightarrow>
                  (case activate D rt (g\<lparr>ge_res := r, ge_number := gn_Number candidate\<rparr>) of
                     Inl e \<Rightarrow> (Inl e, g)
                   | Inr g' \<Rightarrow> (Inr True, g'))))"

definition Shutdown_generations :: "drivers \<Rightarrow> generations \<Rightarrow> (err + bool) \<times> generations" where
  "Shutdown_generations D g =
     (case ge_active g of
        None \<Rightarrow> (Inr False, g)
      | Some rt \<Rightarrow> (case retire D rt (ge_res g) of (x, r) \<Rightarrow> (x, g\<lparr>ge_active := None, ge_res := r\<rparr>)))"

text \<open>\<open>Watch\<close>: one reload at every tick, on what the files and the libraries are then.\<close>

fun Watch :: "'k koanf \<Rightarrow> x509 \<Rightarrow> (drivers \<times> filesystem \<times> filesystem \<times> time) list \<Rightarrow> generations \<Rightarrow> generations" where
  "Watch lib X [] g = g"
| "Watch lib X ((D, fs, fs', now) # ticks) g =
     (case ge_active g of
        None \<Rightarrow> g
      | Some rt \<Rightarrow> Watch lib X ticks (snd (Reload_generation lib X D fs fs' now rt g)))"

section \<open>Readiness and start\<close>

definition MinimumSchemaVersion :: int where
  "MinimumSchemaVersion = 9"

definition schemaVerdict :: "int \<Rightarrow> int \<Rightarrow> err + unit" where
  "schemaVerdict applied minimum = (if applied < minimum then Inl (err ErrOther) else Inr ())"

text \<open>\<open>checkSchema\<close>: the applied version the query answers, or its error.\<close>

definition checkSchema :: "err + int \<Rightarrow> int \<Rightarrow> err + unit" where
  "checkSchema applied minimum = (case applied of Inl e \<Rightarrow> Inl e | Inr v \<Rightarrow> schemaVerdict v minimum)"

record Health =
  he_ready :: bool
  he_schema :: bool

text \<open>\<open>/readyz\<close>: 200 while the schema holds, the server serves and the configuration is valid.\<close>

definition readyz :: "Health \<Rightarrow> bool \<Rightarrow> int" where
  "readyz h valid = (if \<not> he_schema h then 503 else if he_ready h \<and> valid then 200 else 503)"

definition Health_Stop :: "Health \<Rightarrow> Health" where
  "Health_Stop h = h\<lparr>he_ready := False\<rparr>"

text \<open>\<open>OnStart\<close> of \<open>run\<close> up to serving: the health listener, the gRPC listener, the activation, the first schema
  check.  A failure unwinds by \<open>retire\<close>.\<close>

definition unwind :: "drivers \<Rightarrow> runtime \<Rightarrow> err \<Rightarrow> generations \<Rightarrow> Health \<Rightarrow> (err + unit) \<times> generations \<times> Health" where
  "unwind D rt e g h =
     (case retire D rt (ge_res g) of
        (Inl p, r) \<Rightarrow> (Inl p, g\<lparr>ge_res := r\<rparr>, Health_Stop h)
      | (Inr _, r) \<Rightarrow> (Inl e, g\<lparr>ge_res := r\<rparr>, Health_Stop h))"

definition OnStart ::
  "drivers \<Rightarrow> err + unit \<Rightarrow> err + unit \<Rightarrow> err + int \<Rightarrow> runtime \<Rightarrow> generations \<Rightarrow> Health \<Rightarrow> (err + unit) \<times> generations \<times> Health" where
  "OnStart D health listen applied rt g h =
     (case health of
        Inl e \<Rightarrow> unwind D rt e g h
      | Inr _ \<Rightarrow>
         (case listen of
            Inl e \<Rightarrow> unwind D rt e g h
          | Inr _ \<Rightarrow>
             (case activate D rt g of
                Inl e \<Rightarrow> (Inl e, g, h)
              | Inr g' \<Rightarrow> (Inr (), g', h\<lparr>he_schema := (checkSchema applied MinimumSchemaVersion = Inr ()), he_ready := True\<rparr>))))"

text \<open>What the loops take from the first generation and keep: the sweep and reload intervals, the consumer group of
  the gauges and of the retention.\<close>

record loops =
  lp_SweepInterval :: duration
  lp_WatchInterval :: duration
  lp_ConsumerGroup :: string

definition start_loops :: "Config \<Rightarrow> loops" where
  "start_loops cfg = \<lparr>lp_SweepInterval = tcf_SweepInterval (co_Tasks cfg), lp_WatchInterval = rl_Interval (co_Reload cfg),
     lp_ConsumerGroup = oc_ConsumerGroup (co_Outbox cfg)\<rparr>"

text \<open>\<open>watchSchema\<close>: the answers of its checks, until the schema holds.\<close>

fun watchSchema :: "(err + int) list \<Rightarrow> Health \<Rightarrow> Health" where
  "watchSchema [] h = h"
| "watchSchema (applied # rest) h =
     (case checkSchema applied MinimumSchemaVersion of
        Inr _ \<Rightarrow> h\<lparr>he_schema := True\<rparr>
      | Inl _ \<Rightarrow> watchSchema rest (h\<lparr>he_schema := False\<rparr>))"

text \<open>\<open>OnStop\<close>: whether the stop was forced, from the server's stop, the sends that did not finish, the loops that did
  not end and the last generation.\<close>

definition OnStop :: "drivers \<Rightarrow> bool \<Rightarrow> nat \<Rightarrow> bool list \<Rightarrow> generations \<Rightarrow> Health \<Rightarrow> (err + bool) \<times> generations \<times> Health" where
  "OnStop D srvForced unfinished ended g h =
     (case Shutdown_generations D g of
        (Inl e, g') \<Rightarrow> (Inl e, g', h\<lparr>he_ready := False\<rparr>)
      | (Inr forced, g') \<Rightarrow>
         (Inr (forced \<or> srvForced \<or> 0 < unfinished \<or> \<not> list_all id ended), g', Health_Stop (h\<lparr>he_ready := False\<rparr>)))"

text \<open>What the calls take from the configuration.\<close>

definition call_options :: "Config \<Rightarrow> CallOptions" where
  "call_options cfg =
     (let c = co_Calls cfg in
      \<lparr>co_SendTimeout = clc_SendTimeout c, co_ReconcileAge = clc_ReconcileAge c, co_ReconcileBatch = 50,
       co_ResolveInterval = clc_ReconcileAge c\<rparr>)"

definition call_routes :: "Config \<Rightarrow> QualifiedRoute list" where
  "call_routes cfg = map (\<lambda>r. \<lparr>qr_Resource = qrc_Resource r, qr_ProtocolVersion = qrc_ProtocolVersion r, qr_Transport = qrc_Transport r,
     qr_Route = qrc_Route r\<rparr>) (clc_QualifiedRoutes (co_Calls cfg))"

section \<open>Placements\<close>

definition errNoControl :: err where
  "errNoControl = Err ErrOther ''no Control placement''"

definition noRegistry :: PolicyRegistry where
  "noRegistry = \<lparr>pr_Register = (\<lambda>_ _ _. Inl errNoControl), pr_BeginRevocation = (\<lambda>_ _ _ _. Inl errNoControl),
     pr_Revocation = (\<lambda>_ _ _. Inl errNoControl)\<rparr>"

definition noToolDispatch :: ToolDispatcher where
  "noToolDispatch = \<lparr>td_CheckExecution = (\<lambda>_ _ _ _ _. Inl errNoControl), td_AdmitTool = (\<lambda>_ _. Inl errNoControl),
     td_ObserveTool = (\<lambda>_ _ _ _ _ _. Inl errNoControl), td_GetTool = (\<lambda>_ _ _. Inl errNoControl)\<rparr>"

text \<open>Each Control client: the placement-less one without an address, else the dialed one.\<close>

definition newDispatchQuery :: "Config \<Rightarrow> err + DispatchQuery \<Rightarrow> err + DispatchQuery" where
  "newDispatchQuery cfg dialed = (if cc_Address (co_Control cfg) = [] then Inr NoDispatchQuery else dialed)"

definition newPolicyRegistry :: "Config \<Rightarrow> err + PolicyRegistry \<Rightarrow> err + PolicyRegistry" where
  "newPolicyRegistry cfg dialed = (if cc_Address (co_Control cfg) = [] then Inr noRegistry else dialed)"

definition newToolDispatcher :: "Config \<Rightarrow> err + ToolDispatcher \<Rightarrow> err + ToolDispatcher" where
  "newToolDispatcher cfg dialed = (if cc_Address (co_Control cfg) = [] then Inr noToolDispatch else dialed)"

type_synonym ConnectionLayer = "nat \<Rightarrow> string \<Rightarrow> string \<Rightarrow> err + LiveServer"

definition noConnectionLayer :: ConnectionLayer where
  "noConnectionLayer n resource protocolVersion = Inl (err ErrUnavailable)"

definition routedConnection :: "Authority \<Rightarrow> ConnectionLayer \<Rightarrow> ConnectionLayer \<Rightarrow> ConnectionLayer" where
  "routedConnection authority egress contextforge n resource protocolVersion =
     (if HasCredential authority resource then egress n resource protocolVersion else contextforge n resource protocolVersion)"

definition newConnectionLayer :: "Config \<Rightarrow> err + ConnectionLayer \<Rightarrow> Authority \<Rightarrow> ConnectionLayer \<Rightarrow> err + ConnectionLayer" where
  "newConnectionLayer cfg client authority egress =
     (if cf_URL (kc_ContextForge (co_Catalog cfg)) = [] then Inr (routedConnection authority egress noConnectionLayer)
      else (case client of Inl e \<Rightarrow> Inl e | Inr layer \<Rightarrow> Inr (routedConnection authority egress layer)))"

definition egress_policy :: "Config \<Rightarrow> NetworkPolicy" where
  "egress_policy cfg = \<lparr>np_AllowedHosts = kc_AllowedHosts (co_Catalog cfg), np_PrivateHosts = kc_PrivateHosts (co_Catalog cfg)\<rparr>"

text \<open>\<open>loadCredentials\<close>: what follows the list is not read.\<close>

definition credential_fields :: "Credential json_field list" where
  "credential_fields =
    [(''resource'', fld_str (\<lambda>v c. c\<lparr>cr_Resource := v\<rparr>)),
     (''issuer'', fld_str (\<lambda>v c. c\<lparr>cr_Issuer := v\<rparr>)),
     (''clientId'', fld_str (\<lambda>v c. c\<lparr>cr_ClientID := v\<rparr>)),
     (''clientSecretFile'', fld_str (\<lambda>v c. c\<lparr>cr_ClientSecretFile := v\<rparr>)),
     (''scopes'', fld_strs (\<lambda>v c. c\<lparr>cr_Scopes := v\<rparr>))]"

fun decode_credentials :: "json list \<Rightarrow> Credential list option" where
  "decode_credentials [] = Some []"
| "decode_credentials (v # vs) =
     (case decode_struct True credential_fields
             \<lparr>cr_Resource = [], cr_Issuer = [], cr_ClientID = [], cr_ClientSecretFile = [], cr_Scopes = []\<rparr> v of
        None \<Rightarrow> None
      | Some c \<Rightarrow> map_option (\<lambda>cs. c # cs) (decode_credentials vs))"

definition loadCredentials :: "filesystem \<Rightarrow> string \<Rightarrow> err + Credential list" where
  "loadCredentials fs path =
     (if path = [] then Inr []
      else (case fs path of
              None \<Rightarrow> Inl (err ErrOther)
            | Some raw \<Rightarrow>
               (case json_decode_first raw of
                  Some (JArr vs) \<Rightarrow>
                    (case decode_credentials vs of
                       None \<Rightarrow> Inl (err ErrOther)
                     | Some cs \<Rightarrow>
                        if list_ex (\<lambda>c. cr_Resource c = [] \<or> cr_Issuer c = [] \<or> cr_ClientID c = [] \<or> cr_ClientSecretFile c = []) cs
                        then Inl (err ErrOther) else Inr cs)
                | Some JNull \<Rightarrow> Inr []
                | _ \<Rightarrow> Inl (err ErrOther))))"

section \<open>One generation at a time\<close>

text \<open>What the process owns between two reloads: exactly the active generation's pool and connection; the store and
  the tasks read that generation.\<close>

definition owned_conns :: "runtime \<Rightarrow> nat list" where
  "owned_conns rt = (case rt_forwarder rt of None \<Rightarrow> [] | Some nc \<Rightarrow> [nc])"

definition fresh_ids :: "resources \<Rightarrow> bool" where
  "fresh_ids r \<longleftrightarrow> (\<forall>i\<in>set (rs_pools r) \<union> set (rs_conns r) \<union> set (rs_polls r). i < rs_next r)"

definition one_generation :: "runtime \<Rightarrow> generations \<Rightarrow> bool" where
  "one_generation rt g \<longleftrightarrow>
     ge_active g = Some rt \<and> (rt_forwarder rt \<noteq> None \<longrightarrow> rt_running rt)
     \<and> rs_pools (ge_res g) = [rt_pool rt] \<and> rs_conns (ge_res g) = owned_conns rt \<and> fresh_ids (ge_res g)
     \<and> ge_store g = rt_pool rt \<and> ge_number g = gn_Number (rt_gen rt)
     \<and> ge_bounds g = bounds (gn_Config (rt_gen rt)) \<and> ge_expiry g = gn_ExpiresAt (rt_gen rt)"

text \<open>The sections only a restart applies.\<close>

definition start_sections where
  "start_sections c = (co_Development c, co_Telemetry c, co_GRPC c, co_Health c, co_Retention c, co_Control c, co_Apollo c,
     co_Catalog c, co_Barrier c, co_Calls c)"

lemma reloadable_sections:
  "nonReloadableChanges a c = [] \<Longrightarrow> start_sections c = start_sections a"
  by (auto simp: nonReloadableChanges_def sort_strings_def section_changes_def start_sections_def same_telemetry_def split: if_splits)

text \<open>A built runtime adds one pool and its connection; a failed build adds neither.\<close>

lemma clientTLSConfig_res:
  assumes "clientTLSConfig X D fs now t r = (x, r')" and "fresh_ids r"
  shows "rs_pools r' = rs_pools r" "rs_conns r' = rs_conns r" "rs_next r \<le> rs_next r'" "fresh_ids r'"
  using assms by (auto simp: clientTLSConfig_def fresh_ids_def less_Suc_eq split: if_splits sum.splits)

lemma nats_transport_res:
  assumes "nats_transport X D fs now cfg r = (x, r')" and "fresh_ids r"
  shows "rs_pools r' = rs_pools r" "rs_conns r' = rs_conns r" "rs_next r \<le> rs_next r'" "fresh_ids r'"
  using assms clientTLSConfig_res [of X D fs now "nats_TLS (oc_NATS (co_Outbox cfg))" r]
  by (auto simp: nats_transport_def Let_def split: if_splits sum.splits prod.splits)

lemma removeAll_fresh: "\<forall>i\<in>set xs. i < n \<Longrightarrow> removeAll n xs = (xs :: nat list)"
  by (induction xs) auto

lemma NewForwarder_res:
  assumes "NewForwarder D cfg r = (x, r')" and "fresh_ids r"
  shows "rs_pools r' = rs_pools r" "fresh_ids r'" "rs_next r \<le> rs_next r'"
    "rs_conns r' = rs_conns r @ (case x of Inl _ \<Rightarrow> [] | Inr nc \<Rightarrow> [nc])"
  using assms removeAll_fresh [of "rs_conns r" "rs_next r"]
  by (auto simp: NewForwarder_def fresh_ids_def close_nats_def Let_def less_Suc_eq split: if_splits sum.splits)

lemma close_pool_sel:
  "rs_pools (close_pool p r) = removeAll p (rs_pools r)" "rs_conns (close_pool p r) = rs_conns r"
  "rs_polls (close_pool p r) = rs_polls r"
  by (simp_all add: close_pool_def)

lemma buildRuntime_res:
  assumes b: "buildRuntime X D fs now gen r = (x, r')" and f: "fresh_ids r"
  shows "fresh_ids r' \<and> (case x of
      Inl _ \<Rightarrow> rs_pools r' = rs_pools r \<and> rs_conns r' = rs_conns r
    | Inr rt \<Rightarrow> rt_gen rt = gen \<and> \<not> rt_running rt \<and> rs_pools r' = rs_pools r @ [rt_pool rt] \<and> rs_conns r' = rs_conns r @ owned_conns rt
        \<and> rt_pool rt \<notin> set (rs_pools r) \<and> set (owned_conns rt) \<inter> set (rs_conns r) = {}
        \<and> (rt_forwarder rt = None \<longleftrightarrow> \<not> oc_ForwarderEnabled (co_Outbox (gn_Config gen))))"
proof -
  let ?p = "rs_next r" and ?cfg = "gn_Config gen"
  let ?r1 = "open_pool ?p (r\<lparr>rs_next := Suc ?p\<rparr>)"
  have p: "?p \<notin> set (rs_pools r)" and rm: "removeAll ?p (rs_pools r) = rs_pools r"
    using f removeAll_fresh [of "rs_pools r" ?p] by (auto simp: fresh_ids_def)
  have f1: "fresh_ids ?r1" and r1: "rs_pools ?r1 = rs_pools r @ [?p]" "rs_conns ?r1 = rs_conns r" "rs_next ?r1 = Suc ?p"
    using f by (auto simp: fresh_ids_def open_pool_def less_Suc_eq)
  obtain t r2 where t: "nats_transport X D fs now ?cfg ?r1 = (t, r2)" by (cases "nats_transport X D fs now ?cfg ?r1")
  note tr = nats_transport_res [OF t f1]
  obtain y r3 where y: "NewForwarder D (forwarder_config ?cfg (projr t)) r2 = (y, r3)"
    by (cases "NewForwarder D (forwarder_config ?cfg (projr t)) r2")
  note fr = NewForwarder_res [OF y tr(4)]
  have close: "fresh_ids q \<Longrightarrow> fresh_ids (close_pool ?p q)" for q by (auto simp: fresh_ids_def close_pool_def)
  have nc: "set (case y of Inl _ \<Rightarrow> [] | Inr nc \<Rightarrow> [nc]) \<inter> set (rs_conns r) = {}"
  proof -
    have "rs_next r < rs_next r2" using tr(3) r1(3) by simp
    with f have "\<forall>i\<in>set (rs_conns r). i < rs_next r2" unfolding fresh_ids_def by (meson UnI1 UnI2 less_trans)
    then show ?thesis using y by (auto simp: NewForwarder_def Let_def split: sum.splits if_splits)
  qed
  show ?thesis
  proof (cases "dl_ParseConfig D (db_URL (co_Database ?cfg)) \<and> dl_NewPool D ?p \<and> dl_Ping D ?p \<and> oc_ForwarderEnabled (co_Outbox ?cfg)")
    case False
    then show ?thesis using b f p rm r1 f1 close [OF f1]
      by (auto simp: buildRuntime_def owned_conns_def close_pool_def Let_def fresh_ids_def less_Suc_eq split: if_splits)
  next
    case True
    show ?thesis
    proof (cases t)
      case (Inl e)
      then have "x = Inl e" "r' = close_pool ?p r2" using b True t by (simp_all add: buildRuntime_def Let_def)
      then show ?thesis using tr r1 rm close [OF tr(4)] by (simp add: close_pool_sel)
    next
      case t': (Inr tls)
      show ?thesis
      proof (cases y)
        case (Inl e)
        then have "x = Inl e" "r' = close_pool ?p r3" using b True t t' y by (simp_all add: buildRuntime_def Let_def)
        then show ?thesis using fr tr r1 rm close [OF fr(2)] Inl by (simp add: close_pool_sel)
      next
        case (Inr c)
        then have "x = Inr \<lparr>rt_gen = gen, rt_pool = ?p, rt_forwarder = Some c, rt_running = False\<rparr>" "r' = r3"
          using b True t t' y by (simp_all add: buildRuntime_def Let_def)
        then show ?thesis using fr tr r1 p nc Inr True by (simp add: owned_conns_def)
      qed
    qed
  qed
qed

lemma activate_first:
  assumes "fresh_ids r" "rs_pools r = [rt_pool rt]" "rs_conns r = owned_conns rt" "ge_active g = None" "ge_res g = r"
    "ge_number g = gn_Number (rt_gen rt)"
  shows "\<exists>g'. activate D rt g = Inr g' \<and> one_generation (startForwarder rt) g' \<and> ge_path g' = ge_path g \<and> ge_environ g' = ge_environ g"
  using assms by (auto simp: activate_def one_generation_def startForwarder_def owned_conns_def Let_def)

lemma activate_over:
  assumes inv: "one_generation old g0" and f: "fresh_ids r" and pools: "rs_pools r = rs_pools (ge_res g0) @ [rt_pool rt]"
    and conns: "rs_conns r = rs_conns (ge_res g0) @ owned_conns rt" and p: "rt_pool rt \<notin> set (rs_pools (ge_res g0))"
    and c: "set (owned_conns rt) \<inter> set (rs_conns (ge_res g0)) = {}"
    and act: "activate D rt (g0\<lparr>ge_res := r, ge_number := gn_Number (rt_gen rt)\<rparr>) = x"
  shows "\<exists>g'. x = Inr g' \<and> one_generation (startForwarder rt) g' \<and> ge_path g' = ge_path g0 \<and> ge_environ g' = ge_environ g0"
  using assms
  by (cases "rt_forwarder old"; cases "rt_forwarder rt")
     (auto simp: activate_def one_generation_def startForwarder_def owned_conns_def retire_def close_pool_def close_nats_def
       Let_def fresh_ids_def)

lemma Reload_keeps:
  assumes inv: "one_generation rt g" and re: "Reload_generation lib X D fs fs' now rt g = (x, g')"
  shows "\<exists>rt'. one_generation rt' g' \<and> start_sections (gn_Config (rt_gen rt')) = start_sections (gn_Config (rt_gen rt))
    \<and> ge_path g' = ge_path g \<and> ge_environ g' = ge_environ g \<and> (x \<noteq> Inr True \<longrightarrow> rt' = rt \<and> ge_number g' = ge_number g)"
proof (cases "LoadFrom lib fs now (ge_path g) (ge_environ g) (ge_number g + 1)")
  case (Inl e)
  then show ?thesis using inv re by (auto simp: Reload_generation_def)
next
  case (Inr cand)
  obtain b r where b: "buildRuntime X D fs' now cand (ge_res g) = (b, r)" by (cases "buildRuntime X D fs' now cand (ge_res g)")
  from inv have f: "fresh_ids (ge_res g)" by (simp add: one_generation_def)
  note res = buildRuntime_res [OF b f]
  show ?thesis
  proof (cases "Inputs cand = Inputs (rt_gen rt) \<or> nonReloadableChanges (gn_Config (rt_gen rt)) (gn_Config cand) \<noteq> []")
    case True
    then show ?thesis using inv re Inr by (auto simp: Reload_generation_def split: if_splits)
  next
    case False
    then have sections: "start_sections (gn_Config cand) = start_sections (gn_Config (rt_gen rt))"
      using reloadable_sections by blast
    show ?thesis
    proof (cases b)
      case (Inl e)
      then have "x = Inl e" "g' = g\<lparr>ge_res := r\<rparr>" using re Inr b False by (auto simp: Reload_generation_def)
      moreover have "one_generation rt (g\<lparr>ge_res := r\<rparr>)" using res inv Inl by (simp add: one_generation_def)
      ultimately show ?thesis by (intro exI [of _ rt]) simp
    next
      case (Inr new)
      then have new: "rt_gen new = cand" using res by simp
      have "\<exists>g''. activate D new (g\<lparr>ge_res := r, ge_number := gn_Number (rt_gen new)\<rparr>) = Inr g'' \<and> one_generation (startForwarder new) g''
          \<and> ge_path g'' = ge_path g \<and> ge_environ g'' = ge_environ g"
        by (rule activate_over [OF inv _ _ _ _ _ refl]) (use res Inr in auto)
      then have "x = Inr True" "one_generation (startForwarder new) g'" "ge_path g' = ge_path g" "ge_environ g' = ge_environ g"
        using re \<open>LoadFrom _ _ _ _ _ _ = Inr cand\<close> b False Inr new by (auto simp: Reload_generation_def)
      moreover have "rt_gen (startForwarder new) = cand" by (simp add: startForwarder_def new)
      ultimately show ?thesis using sections by (intro exI [of _ "startForwarder new"]) simp
    qed
  qed
qed

lemma Watch_keeps:
  "one_generation rt g \<Longrightarrow>
     \<exists>rt'. one_generation rt' (Watch lib X ticks g) \<and> start_sections (gn_Config (rt_gen rt')) = start_sections (gn_Config (rt_gen rt))"
proof (induction lib X ticks g arbitrary: rt rule: Watch.induct)
  case (2 lib X D fs fs' now ticks g)
  then have active: "ge_active g = Some rt" by (simp add: one_generation_def)
  obtain x g' where re: "Reload_generation lib X D fs fs' now rt g = (x, g')" by fastforce
  from Reload_keeps [OF 2(2) re] obtain rt1 where "one_generation rt1 g'"
    and sec: "start_sections (gn_Config (rt_gen rt1)) = start_sections (gn_Config (rt_gen rt))" by blast
  with 2(1) [OF active, of rt1] re sec show ?case by (auto simp: active)
qed auto

lemma Shutdown_closes:
  assumes "one_generation rt g"
  shows "rs_pools (ge_res (snd (Shutdown_generations D g))) = [] \<and> rs_conns (ge_res (snd (Shutdown_generations D g))) = []"
  using assms
  by (cases "rt_forwarder rt") (auto simp: Shutdown_generations_def one_generation_def retire_def owned_conns_def close_pool_def close_nats_def)

lemma started_one_generation:
  assumes "buildRuntime X D fs now gen r0 = (Inr rt, r)" "fresh_ids r0" "rs_pools r0 = []" "rs_conns r0 = []"
    "OnStart D (Inr ()) (Inr ()) applied rt (newGenerations path environ rt r) h = (Inr (), g, h')"
  shows "one_generation (startForwarder rt) g \<and> rt_gen (startForwarder rt) = gen"
proof -
  note res = buildRuntime_res [OF assms(1,2)]
  have "\<exists>g'. activate D rt (newGenerations path environ rt r) = Inr g' \<and> one_generation (startForwarder rt) g'
      \<and> ge_path g' = ge_path (newGenerations path environ rt r) \<and> ge_environ g' = ge_environ (newGenerations path environ rt r)"
    by (rule activate_first) (use res assms(3,4) in \<open>auto simp: newGenerations_def\<close>)
  then show ?thesis using assms(5) res by (auto simp: OnStart_def startForwarder_def)
qed

text \<open>C14. The process owns one generation at a time: from a start, through any ticks of the watcher (whatever the
  files hold and whichever steps of the libraries fail), the only open pool and NATS connection are the active
  generation's, its forwarder runs, the store and the task bounds and expiry are that generation's, the sections
  that only a restart applies are the first generation's, and the shutdown closes what is open.\<close>

theorem reloads_keep_one_generation:
  assumes "buildRuntime X D fs now gen r0 = (Inr rt, r)" "fresh_ids r0" "rs_pools r0 = []" "rs_conns r0 = []"
    "OnStart D (Inr ()) (Inr ()) applied rt (newGenerations path environ rt r) h = (Inr (), g, h')"
  shows "\<exists>rt'. one_generation rt' (Watch lib X ticks g)
    \<and> start_sections (gn_Config (rt_gen rt')) = start_sections (gn_Config gen)
    \<and> rs_pools (ge_res (snd (Shutdown_generations D' (Watch lib X ticks g)))) = []
    \<and> rs_conns (ge_res (snd (Shutdown_generations D' (Watch lib X ticks g)))) = []"
proof -
  from started_one_generation [OF assms] Watch_keeps [of "startForwarder rt" g lib X ticks]
  obtain rt' where "one_generation rt' (Watch lib X ticks g)"
    "start_sections (gn_Config (rt_gen rt')) = start_sections (gn_Config gen)" by auto
  then show ?thesis using Shutdown_closes by blast
qed

text \<open>A stop offers no readiness, and ends the generation.\<close>

lemma stop_closes:
  assumes "one_generation rt g" "OnStop D srvForced unfinished ended g h = (x, g', h')"
  shows "rs_pools (ge_res g') = []" "rs_conns (ge_res g') = []" "readyz h' valid = 503"
  using Shutdown_closes [OF assms(1), of D] assms(2)
  by (auto simp: OnStop_def readyz_def Health_Stop_def split: prod.splits sum.splits)

text \<open>A call is given more than its send bound before the reconciler treats its sender as gone.\<close>

lemma validated_call_options:
  "validate c = [] \<Longrightarrow> 0 < co_SendTimeout (call_options c) \<and> co_SendTimeout (call_options c) < co_ReconcileAge (call_options c)"
  by (drule validate_Nil(6)) (simp add: validate_calls_def call_options_def Let_def)

text \<open>C37. A start that fails before the activation does not unwind when the forwarder is enabled: the forwarder that
  \<open>buildRuntime\<close> made has never been started, its cancel function is nil, and \<open>retire\<close> panics calling it, with the
  pool and the NATS connection still open; the listener's error is lost.\<close>

theorem failed_start_panics:
  assumes "buildRuntime X D fs now gen r0 = (Inr rt, r)" "fresh_ids r0" "oc_ForwarderEnabled (co_Outbox (gn_Config gen))"
    "health = Inl e \<or> listen = Inl e"
  shows "\<exists>g' h'. OnStart D health listen applied rt (newGenerations path environ rt r) h = (Inl nil_call, g', h')
    \<and> rt_pool rt \<in> set (rs_pools (ge_res g')) \<and> owned_conns rt \<noteq> [] \<and> set (owned_conns rt) \<subseteq> set (rs_conns (ge_res g'))"
proof -
  from buildRuntime_res [OF assms(1,2)] assms(3) obtain nc where nc: "rt_forwarder rt = Some nc" "\<not> rt_running rt"
    and r: "rt_pool rt \<in> set (rs_pools r)" "set (owned_conns rt) \<subseteq> set (rs_conns r)"
    by auto
  then have "retire D rt r = (Inl nil_call, r)" by (simp add: retire_def)
  moreover have "ge_res (newGenerations path environ rt r) = r" by (simp add: newGenerations_def)
  ultimately have "OnStart D health listen applied rt (newGenerations path environ rt r) h
      = (Inl nil_call, (newGenerations path environ rt r)\<lparr>ge_res := r\<rparr>, Health_Stop h)"
    using assms(4) by (auto simp: OnStart_def unwind_def split: sum.splits)
  with r nc show ?thesis by (simp add: owned_conns_def)
qed

text \<open>C38. A rejected candidate leaves something behind: with \<open>outbox.nats.tls\<close> in mode \<open>mtls\<close> and NATS unreachable, the build
  closes the pool it opened but the reloader it started for the client certificate polls on; every further
  candidate adds one.\<close>

theorem rejected_candidate_keeps_polling:
  assumes "dl_ParseConfig D (db_URL (co_Database (gn_Config gen)))" "dl_NewPool D (rs_next r)" "dl_Ping D (rs_next r)"
    "oc_ForwarderEnabled (co_Outbox (gn_Config gen))" "\<And>n c. \<not> dl_Connect D n c" "fresh_ids r"
    and t: "nats_TLS (oc_NATS (co_Outbox (gn_Config gen))) = t" "ctl_Mode t = ''mtls''"
    and "New_reloader X fs \<lparr>fs_CertFile = ctl_CertFile t, fs_KeyFile = ctl_KeyFile t, fs_CAFile = ctl_CAFile t\<rparr> now = Inr s"
  shows "\<exists>e r'. buildRuntime X D fs now gen r = (Inl e, r') \<and> rs_pools r' = rs_pools r \<and> rs_conns r' = rs_conns r
    \<and> rs_polls r' = rs_polls r @ [Suc (rs_next r)]"
proof -
  obtain x r' where b: "buildRuntime X D fs now gen r = (x, r')" by fastforce
  have "\<exists>e. x = Inl e \<and> rs_polls r' = rs_polls r @ [Suc (rs_next r)]"
    using b assms
    by (auto simp: buildRuntime_def nats_transport_def clientTLSConfig_def NewForwarder_def open_pool_def close_pool_def Let_def
        split: sum.splits if_splits)
  with buildRuntime_res [OF b assms(6)] b show ?thesis by auto
qed

text \<open>A sampling ratio that is not a number passes the validation, and then no changed candidate is ever accepted: the
  telemetry section differs from itself.\<close>

lemma nan_ratio_blocks_reloads:
  assumes "validate c = []" and c': "c' = c\<lparr>co_Telemetry := (co_Telemetry c)\<lparr>te_SampleRatio := NaN\<rparr>\<rparr>"
  shows "validate c' = []" and "''telemetry'' \<in> set (nonReloadableChanges c' candidate)"
proof -
  show "validate c' = []" using validate_ratio [OF assms(1), of NaN] by (simp add: c')
  show "''telemetry'' \<in> set (nonReloadableChanges c' candidate)"
    by (simp add: c' nonReloadableChanges_def sort_strings_def section_changes_def same_telemetry_def)
qed

section \<open>Examples\<close>

definition simple_x509 :: x509 where
  "simple_x509 = \<lparr>xl_X509KeyPair = (\<lambda>_ _. Inr [[]]),
     xl_ParseCertificate = (\<lambda>_. Inr \<lparr>xc_Raw = [], xc_URIs = [], xc_NotBefore = 0, xc_NotAfter = 10, xc_IsCA = True\<rparr>),
     xl_pem = (\<lambda>_. [(''CERTIFICATE'', [])])\<rparr>"

definition good_drivers :: drivers where
  "good_drivers = \<lparr>dl_ParseConfig = (\<lambda>_. True), dl_NewPool = (\<lambda>_. True), dl_Ping = (\<lambda>_. True), dl_CertsFromPEM = (\<lambda>_. True),
     dl_NkeyOptionFromSeed = (\<lambda>_. True), dl_Connect = (\<lambda>_ _. True), dl_JetStream = (\<lambda>_. True), dl_NewSubscriber = (\<lambda>_. True),
     dl_NewPublisher = (\<lambda>_. True), dl_NewForwarder = (\<lambda>_. True), dl_Stopped = (\<lambda>_. True), dl_Drained = (\<lambda>_. True)\<rparr>"

definition no_resources :: resources where
  "no_resources = \<lparr>rs_next = 0, rs_pools = [], rs_conns = [], rs_polls = []\<rparr>"

definition generation_of :: "Config \<Rightarrow> Generation" where
  "generation_of c = \<lparr>gn_Number = 1, gn_Config = c, gn_Digest = [], gn_SecretRevision = [], gn_Profiles = [], gn_ApolloRelease = [],
     gn_BuiltAt = 0, gn_ExpiresAt = zero_time\<rparr>"

definition sample_runtime :: runtime where
  "sample_runtime = \<lparr>rt_gen = generation_of sample_config, rt_pool = 0, rt_forwarder = Some 1, rt_running = False\<rparr>"

definition sample_resources :: resources where
  "sample_resources = \<lparr>rs_next = 2, rs_pools = [0], rs_conns = [1], rs_polls = []\<rparr>"

lemma sample_built:
  "buildRuntime X good_drivers (\<lambda>_. Some []) 0 (generation_of sample_config) no_resources = (Inr sample_runtime, sample_resources)"
  by (simp add: buildRuntime_def generation_of_def sample_config_def sample_tls_def good_drivers_def no_resources_def open_pool_def
      nats_transport_def clientTLSConfig_def caPool_def NewForwarder_def natsCredentials_def forwarder_config_def sample_runtime_def
      sample_resources_def)

lemma no_resources_sel: "fresh_ids no_resources" "rs_pools no_resources = []" "rs_conns no_resources = []"
  by (simp_all add: no_resources_def fresh_ids_def)

text \<open>A start and a tick at which nothing can be read.\<close>

theorem reloads_keep_one_generation_witness:
  "\<exists>g h' rt'. OnStart good_drivers (Inr ()) (Inr ()) (Inr 9) sample_runtime (newGenerations [] [] sample_runtime sample_resources)
       \<lparr>he_ready = False, he_schema = True\<rparr> = (Inr (), g, h')
     \<and> one_generation rt' (Watch sample_koanf simple_x509 [(good_drivers, \<lambda>_. None, \<lambda>_. None, 5)] g)"
proof -
  let ?g = "newGenerations [] [] sample_runtime sample_resources"
  obtain g h' where s: "OnStart good_drivers (Inr ()) (Inr ()) (Inr 9) sample_runtime ?g \<lparr>he_ready = False, he_schema = True\<rparr> = (Inr (), g, h')"
    by (simp add: OnStart_def activate_def newGenerations_def Let_def)
  with reloads_keep_one_generation [OF sample_built no_resources_sel s] show ?thesis by blast
qed

text \<open>The health listener's port is taken.\<close>

theorem failed_start_panics_witness:
  "\<exists>g' h'. OnStart good_drivers (Inl (err ErrOther)) (Inr ()) (Inr 9) sample_runtime (newGenerations [] [] sample_runtime sample_resources)
       \<lparr>he_ready = False, he_schema = True\<rparr> = (Inl nil_call, g', h')"
proof -
  have "oc_ForwarderEnabled (co_Outbox (gn_Config (generation_of sample_config)))" by (simp add: generation_of_def sample_config_def)
  from failed_start_panics [OF sample_built no_resources_sel(1) this, of "Inl (err ErrOther)" "err ErrOther"] show ?thesis by blast
qed

definition mutual_tls :: ClientTLS where
  "mutual_tls = sample_tls\<lparr>ctl_Mode := ''mtls'', ctl_CertFile := ''/crt'', ctl_KeyFile := ''/key''\<rparr>"

definition mutual_config :: Config where
  "mutual_config = sample_config\<lparr>co_Outbox := (co_Outbox sample_config)\<lparr>oc_NATS := (oc_NATS (co_Outbox sample_config))\<lparr>nats_TLS := mutual_tls\<rparr>\<rparr>\<rparr>"

text \<open>One candidate while NATS is down.\<close>

theorem rejected_candidate_keeps_polling_witness:
  "\<exists>e r'. buildRuntime simple_x509 (good_drivers\<lparr>dl_Connect := \<lambda>_ _. False\<rparr>) (\<lambda>_. Some []) 5 (generation_of mutual_config) no_resources
     = (Inl e, r') \<and> rs_pools r' = [] \<and> rs_polls r' = [1]"
proof -
  let ?D = "good_drivers\<lparr>dl_Connect := \<lambda>_ _. False\<rparr>" and ?gen = "generation_of mutual_config"
  have t: "nats_TLS (oc_NATS (co_Outbox (gn_Config ?gen))) = mutual_tls" "ctl_Mode mutual_tls = ''mtls''"
    "oc_ForwarderEnabled (co_Outbox (gn_Config ?gen))"
    by (simp_all add: generation_of_def mutual_config_def mutual_tls_def sample_config_def)
  obtain s where "New_reloader simple_x509 (\<lambda>_. Some [])
      \<lparr>fs_CertFile = ctl_CertFile mutual_tls, fs_KeyFile = ctl_KeyFile mutual_tls, fs_CAFile = ctl_CAFile mutual_tls\<rparr> 5 = Inr s"
    by (simp add: New_reloader_def Load_material_def Parse_material_def simple_x509_def mutual_tls_def sample_tls_def)
  from rejected_candidate_keeps_polling [of ?D ?gen no_resources, OF _ _ _ t(3) _ no_resources_sel(1) t(1,2) this]
  show ?thesis by (auto simp: good_drivers_def no_resources_def)
qed

end
