(* ===== verification/Control_Client.thy ===== *)
theory Control_Client
  imports Grpc_Server
begin

text \<open>
  The clients of Control, \<open>internal/adapters/control\<close>: the dispatch queries, the admission and observation of tool
  calls and the execution check (\<open>dispatch.go\<close>), the registration and revocation of grants (\<open>grants.go\<close>).  The generated
  stubs are the record \<open>ControlStub\<close>: a failed RPC answers the name of its status code.  An enum value is its name, as
  its \<open>String\<close> method gives it (the decimal number for a value without a name).
\<close>

section \<open>Messages\<close>

record DispatchMsg =
  dpm_DispatchId :: string
  dpm_State :: string
  dpm_Outcome :: string

record AdmissionMsg =
  am_Dispatch :: DispatchMsg
  am_DispatchAllowed :: bool
  am_DenialCode :: string

record DecisionMsg =
  dcm_Decision :: string
  dcm_Revision :: string
  dcm_ReasonCode :: string

record AuthorizationQuery =
  aq_Scope :: ScopeMsg
  aq_ResourceType :: string
  aq_ResourceId :: string
  aq_Action :: string

record ExecutionBinding =
  eb_OperationId :: string
  eb_AttemptId :: string
  eb_InstanceId :: string
  eb_ExecutionEpoch :: string

record AdmitToolRequest =
  atr_Command :: CommandMsg
  atr_Binding :: ExecutionBinding
  atr_CallId :: string
  atr_Owner :: string
  atr_GrantId :: string
  atr_GrantRevision :: string
  atr_ServerId :: string
  atr_Method :: string
  atr_ArgumentDigest :: string
  atr_SideEffecting :: bool
  atr_MaxExposure :: MoneyMsg
  atr_Deadline :: time

record UsageMsg =
  us_InputUnits :: string
  us_OutputUnits :: string
  us_ReasoningUnits :: string
  us_CachedInputUnits :: string

record ObserveDispatchRequest =
  odr_DispatchId :: string
  odr_Source :: string
  odr_Sequence :: string
  odr_Outcome :: string
  odr_ObservedAt :: time
  odr_CumulativeUsage :: "UsageMsg option"

record RegisterPolicyRequest =
  rpr_Command :: CommandMsg
  rpr_GrantId :: string
  rpr_GrantRevision :: string
  rpr_PolicyDigest :: string
  rpr_ServerId :: string
  rpr_Methods :: "string list"
  rpr_CostCap :: MoneyMsg
  rpr_ExpiresAt :: "time option"

record RevocationStatusMsg =
  rsm_State :: string
  rsm_InFlightCalls :: string
  rsm_UnknownCalls :: string
  rsm_FencedAt :: "time option"

type_synonym status_code = string

record ControlStub =
  st_CheckExecution :: "nat \<Rightarrow> AuthorizationQuery \<Rightarrow> status_code + DecisionMsg"
  st_GetDispatch :: "nat \<Rightarrow> string \<Rightarrow> string \<Rightarrow> string \<Rightarrow> status_code + DispatchMsg"
  st_AdmitTool :: "nat \<Rightarrow> AdmitToolRequest \<Rightarrow> status_code + AdmissionMsg"
  st_ObserveDispatch :: "nat \<Rightarrow> ObserveDispatchRequest \<Rightarrow> status_code + unit"
  st_RegisterPolicy :: "nat \<Rightarrow> RegisterPolicyRequest \<Rightarrow> status_code + (string \<times> string)"
  st_BeginRevocation :: "nat \<Rightarrow> CommandMsg \<Rightarrow> string \<Rightarrow> string \<Rightarrow> status_code + RevocationStatusMsg"
  st_GetRevocation :: "nat \<Rightarrow> string \<Rightarrow> string \<Rightarrow> status_code + RevocationStatusMsg"

text \<open>An RPC's error passes through as an error no sentinel matches.\<close>

definition rpc_failed :: "status_code \<Rightarrow> err" where
  "rpc_failed c = Err ErrOther c"

definition command_msg :: "ControlCommand \<Rightarrow> CommandMsg" where
  "command_msg c = \<lparr>cm_TenantId = cn_TenantID c, cm_CommandId = cn_CommandID c, cm_ActorId = cn_ActorID c,
     cm_RequestDigest = cn_RequestDigest c\<rparr>"

section \<open>Dispatches\<close>

definition CheckExecution_control :: "ControlStub \<Rightarrow> nat \<Rightarrow> Scope \<Rightarrow> string \<Rightarrow> string \<Rightarrow> string \<Rightarrow> err + ExecutionDecision" where
  "CheckExecution_control st n scope resourceType resourceID action =
     (case st_CheckExecution st n
             \<lparr>aq_Scope = \<lparr>sm_TenantId = sc_TenantID scope, sm_ProjectId = sc_ProjectID scope, sm_ActorId = sc_ActorID scope, sm_Roles = []\<rparr>,
              aq_ResourceType = resourceType, aq_ResourceId = resourceID, aq_Action = action\<rparr> of
        Inl c \<Rightarrow> Inl (rpc_failed c)
      | Inr d \<Rightarrow> Inr \<lparr>ed_Allowed = (dcm_Decision d = ''DECISION_ALLOW''), ed_Revision = dcm_Revision d, ed_Reason = dcm_ReasonCode d\<rparr>)"

definition Outcome_control :: "ControlStub \<Rightarrow> DispatchQuery" where
  "Outcome_control st n tenantID dispatchID =
     (case st_GetDispatch st n dispatchID Owner tenantID of
        Inl c \<Rightarrow> Inl (rpc_failed c)
      | Inr d \<Rightarrow>
         if dpm_State d = ''DISPATCH_STATE_CONFIRMED_NOT_SENT'' \<or> dpm_State d = ''DISPATCH_STATE_DENIED'' then Inr DispatchNotSent
         else if dpm_State d = ''DISPATCH_STATE_OBSERVED'' then Inr DispatchSent
         else Inr DispatchUnknown)"

definition stateName :: "string \<Rightarrow> string" where
  "stateName s = ToLower (TrimPrefix s ''DISPATCH_STATE_'')"

definition AdmitTool_control :: "ControlStub \<Rightarrow> nat \<Rightarrow> ToolAdmit \<Rightarrow> err + ToolAdmission" where
  "AdmitTool_control st n r =
     (case st_AdmitTool st n
             \<lparr>atr_Command = command_msg (ta_Command r),
              atr_Binding = \<lparr>eb_OperationId = ta_OperationID r, eb_AttemptId = ta_AttemptID r, eb_InstanceId = ta_InstanceID r,
                eb_ExecutionEpoch = fmt_u64 (ta_ExecutionEpoch r)\<rparr>,
              atr_CallId = ta_CallID r, atr_Owner = Owner, atr_GrantId = ta_GrantID r, atr_GrantRevision = fmt_u64 (ta_GrantRevision r),
              atr_ServerId = ta_ServerID r, atr_Method = ta_Method r, atr_ArgumentDigest = ta_ArgumentDigest r,
              atr_SideEffecting = ta_SideEffecting r, atr_MaxExposure = money (ta_MaxExposure r), atr_Deadline = ta_Deadline r\<rparr> of
        Inl c \<Rightarrow> Inl (rpc_failed c)
      | Inr a \<Rightarrow> Inr \<lparr>ad_DispatchID = dpm_DispatchId (am_Dispatch a), ad_Allowed = am_DispatchAllowed a,
                      ad_DenialCode = am_DenialCode a, ad_State = stateName (dpm_State (am_Dispatch a))\<rparr>)"

definition outcomes_control :: "string \<Rightarrow> string" where
  "outcomes_control o' =
     (if o' = OutcomeSucceeded then ''DISPATCH_OUTCOME_SUCCEEDED''
      else if o' = OutcomeFailed then ''DISPATCH_OUTCOME_FAILED''
      else if o' = OutcomeCanceled then ''DISPATCH_OUTCOME_CANCELED''
      else if o' = OutcomeUnknown then ''DISPATCH_OUTCOME_UNKNOWN''
      else ''DISPATCH_OUTCOME_UNSPECIFIED'')"

definition ObserveTool_control :: "ControlStub \<Rightarrow> nat \<Rightarrow> string \<Rightarrow> u64 \<Rightarrow> string \<Rightarrow> u64 option \<Rightarrow> time \<Rightarrow> err + unit" where
  "ObserveTool_control st n dispatchID sequence o' units at =
     (case st_ObserveDispatch st n
             \<lparr>odr_DispatchId = dispatchID, odr_Source = Owner, odr_Sequence = fmt_u64 sequence, odr_Outcome = outcomes_control o',
              odr_ObservedAt = at,
              odr_CumulativeUsage = map_option (\<lambda>u. \<lparr>us_InputUnits = fmt_u64 u, us_OutputUnits = ''0'', us_ReasoningUnits = ''0'',
                us_CachedInputUnits = ''0''\<rparr>) units\<rparr> of
        Inl c \<Rightarrow> Inl (rpc_failed c)
      | Inr _ \<Rightarrow> Inr ())"

definition GetTool_control :: "ControlStub \<Rightarrow> nat \<Rightarrow> string \<Rightarrow> string \<Rightarrow> err + DispatchView" where
  "GetTool_control st n tenantID dispatchID =
     (case st_GetDispatch st n dispatchID Owner tenantID of
        Inl c \<Rightarrow> Inl (rpc_failed c)
      | Inr d \<Rightarrow> Inr \<lparr>dv_State = stateName (dpm_State d),
                      dv_Outcome = (if dpm_Outcome d \<noteq> ''DISPATCH_OUTCOME_UNSPECIFIED''
                                    then ToLower (TrimPrefix (dpm_Outcome d) ''DISPATCH_OUTCOME_'') else [])\<rparr>)"

definition control_dispatcher :: "ControlStub \<Rightarrow> ToolDispatcher" where
  "control_dispatcher st = \<lparr>td_CheckExecution = CheckExecution_control st, td_AdmitTool = AdmitTool_control st,
     td_ObserveTool = ObserveTool_control st, td_GetTool = GetTool_control st\<rparr>"

section \<open>Grants\<close>

definition classify_control :: "status_code \<Rightarrow> err" where
  "classify_control c =
     (if c \<in> {''PermissionDenied'', ''Aborted'', ''InvalidArgument'', ''NotFound'', ''FailedPrecondition'', ''AlreadyExists''}
      then err ErrRefused else rpc_failed c)"

definition Register_control :: "ControlStub \<Rightarrow> nat \<Rightarrow> ControlCommand \<Rightarrow> Grant \<Rightarrow> err + string \<times> u64" where
  "Register_control st n cmd g =
     (case st_RegisterPolicy st n
             \<lparr>rpr_Command = command_msg cmd, rpr_GrantId = g_GrantID g, rpr_GrantRevision = fmt_u64 (g_Revision g),
              rpr_PolicyDigest = g_PolicyDigest g, rpr_ServerId = g_ServerID g, rpr_Methods = g_Methods g,
              rpr_CostCap = money (g_CostCap g), rpr_ExpiresAt = g_ExpiresAt g\<rparr> of
        Inl c \<Rightarrow> Inl (classify_control c)
      | Inr (receipt, epoch) \<Rightarrow>
         (case ParseUint64 epoch of
            None \<Rightarrow> Inl (err ErrOther)
          | Some e \<Rightarrow> if receipt = [] then Inl (err ErrOther) else Inr (receipt, e)))"

definition barrier_of :: "RevocationStatusMsg \<Rightarrow> err + Barrier" where
  "barrier_of s =
     (let state = (if rsm_State s = ''REVOCATION_STATE_FENCED'' then Some ''fenced''
                   else if rsm_State s = ''REVOCATION_STATE_CONVERGING'' then Some ''converging''
                   else if rsm_State s = ''REVOCATION_STATE_CONVERGED'' then Some ''converged'' else None) in
      case (state, ParseUint64 (rsm_InFlightCalls s), ParseUint64 (rsm_UnknownCalls s)) of
        (Some v, Some i, Some u) \<Rightarrow> Inr \<lparr>ba_State = v, ba_InFlight = i, ba_Unknown = u, ba_FencedAt = rsm_FencedAt s\<rparr>
      | _ \<Rightarrow> Inl (err ErrOther))"

definition BeginRevocation_control :: "ControlStub \<Rightarrow> nat \<Rightarrow> ControlCommand \<Rightarrow> string \<Rightarrow> u64 \<Rightarrow> err + Barrier" where
  "BeginRevocation_control st n cmd grantID revision =
     (case st_BeginRevocation st n (command_msg cmd) grantID (fmt_u64 revision) of
        Inl c \<Rightarrow> Inl (classify_control c) | Inr s \<Rightarrow> barrier_of s)"

definition Revocation_control :: "ControlStub \<Rightarrow> nat \<Rightarrow> string \<Rightarrow> u64 \<Rightarrow> err + Barrier" where
  "Revocation_control st n grantID revision =
     (case st_GetRevocation st n grantID (fmt_u64 revision) of Inl c \<Rightarrow> Inl (classify_control c) | Inr s \<Rightarrow> barrier_of s)"

definition policy_client :: "ControlStub \<Rightarrow> PolicyRegistry" where
  "policy_client st = \<lparr>pr_Register = Register_control st, pr_BeginRevocation = BeginRevocation_control st,
     pr_Revocation = Revocation_control st\<rparr>"

section \<open>What Control's answers mean\<close>

text \<open>A registration is refused only by a decision of Control; a receipt is never empty.\<close>

lemma register_outcomes:
  "(\<exists>e. Register_control st n cmd g = Inl e \<and> errors_Is e ErrRefused) \<longleftrightarrow>
     (\<exists>c\<in>{''PermissionDenied'', ''Aborted'', ''InvalidArgument'', ''NotFound'', ''FailedPrecondition'', ''AlreadyExists''}.
        st_RegisterPolicy st n
          \<lparr>rpr_Command = command_msg cmd, rpr_GrantId = g_GrantID g, rpr_GrantRevision = fmt_u64 (g_Revision g),
           rpr_PolicyDigest = g_PolicyDigest g, rpr_ServerId = g_ServerID g, rpr_Methods = g_Methods g,
           rpr_CostCap = money (g_CostCap g), rpr_ExpiresAt = g_ExpiresAt g\<rparr> = Inl c)"
  by (auto simp: Register_control_def classify_control_def rpc_failed_def split: sum.splits option.splits if_splits)

lemma register_receipt: "Register_control st n cmd g = Inr (receipt, epoch) \<Longrightarrow> receipt \<noteq> []"
  by (auto simp: Register_control_def split: sum.splits option.splits if_splits)

text \<open>The outcome names the service uses are the ones it reads back.\<close>

lemma outcome_names:
  "o' \<in> {OutcomeSucceeded, OutcomeFailed, OutcomeCanceled, OutcomeUnknown} \<Longrightarrow>
     ToLower (TrimPrefix (outcomes_control o') ''DISPATCH_OUTCOME_'') = o'"
proof -
  have "ToLower (TrimPrefix ''DISPATCH_OUTCOME_SUCCEEDED'' ''DISPATCH_OUTCOME_'') = OutcomeSucceeded"
    "ToLower (TrimPrefix ''DISPATCH_OUTCOME_FAILED'' ''DISPATCH_OUTCOME_'') = OutcomeFailed"
    "ToLower (TrimPrefix ''DISPATCH_OUTCOME_CANCELED'' ''DISPATCH_OUTCOME_'') = OutcomeCanceled"
    "ToLower (TrimPrefix ''DISPATCH_OUTCOME_UNKNOWN'' ''DISPATCH_OUTCOME_'') = OutcomeUnknown"
    by (simp_all add: ToLower_def TrimPrefix_def HasPrefix_def lower_char_def less_eq_char_def char_of_def bit_0)
  then show "o' \<in> {OutcomeSucceeded, OutcomeFailed, OutcomeCanceled, OutcomeUnknown} \<Longrightarrow>
     ToLower (TrimPrefix (outcomes_control o') ''DISPATCH_OUTCOME_'') = o'"
    by (auto simp: outcomes_control_def)
qed


definition denying_stub :: ControlStub where
  "denying_stub = \<lparr>st_CheckExecution = (\<lambda>_ _. Inl ''Unavailable''),
     st_GetDispatch = (\<lambda>_ d _ _. Inr \<lparr>dpm_DispatchId = d, dpm_State = ''DISPATCH_STATE_DENIED'', dpm_Outcome = ''DISPATCH_OUTCOME_UNSPECIFIED''\<rparr>),
     st_AdmitTool = (\<lambda>_ _. Inl ''Unavailable''), st_ObserveDispatch = (\<lambda>_ _. Inr ()), st_RegisterPolicy = (\<lambda>_ _. Inl ''Aborted''),
     st_BeginRevocation = (\<lambda>_ _ _ _. Inl ''Unavailable''), st_GetRevocation = (\<lambda>_ _ _. Inl ''Unavailable'')\<rparr>"


end
