(* ===== verification/Delivery.thy ===== *)
theory Delivery
  imports Task_Refinement
begin

text \<open>
  The delivery of events, \<open>internal/adapters/outbox\<close>: the retention of the delivery tables (\<open>retention.go\<close>), the age of
  the oldest message the forwarder has not acknowledged (\<open>background.sql.go\<close>), the consumer loop of a replica
  (\<open>consumer.go\<close>) and the publisher that counts (\<open>forwarder.go\<close>).  The tables \<open>outbox\<close>, \<open>outbox_offsets\<close> and \<open>inbox\<close>
  belong to the message broker's adapter, which appends to them and acknowledges: what it does between the
  statements of this process is a parameter.  An applied retention keeps every message that the consumer group
  has not acknowledged.
\<close>

section \<open>Tables\<close>

record OutboxRow =
  ob_TransactionID :: int
  ob_Offset :: int
  ob_CreatedAt :: time

record OffsetsRow =
  of_ConsumerGroup :: string
  of_LastProcessed :: "int option"
  of_Acked :: "int option"

record delivery_tables =
  dv_outbox :: "OutboxRow list"
  dv_offsets :: "OffsetsRow list"
  dv_inbox :: "time list"

record delivery =
  dw_world :: world
  dw_tables :: delivery_tables

text \<open>The condition of the delete statement: an offsets row of the group at or beyond the message.  A comparison
  with NULL selects nothing.\<close>

definition acknowledged :: "string \<Rightarrow> delivery_tables \<Rightarrow> OutboxRow \<Rightarrow> bool" where
  "acknowledged grp d o' \<longleftrightarrow>
     list_ex (\<lambda>f. of_ConsumerGroup f = grp
        \<and> (case of_LastProcessed f of
             None \<Rightarrow> False
           | Some t \<Rightarrow> ob_TransactionID o' < t
               \<or> ob_TransactionID o' = t \<and> ob_Offset o' \<le> (case of_Acked f of None \<Rightarrow> 0 | Some a \<Rightarrow> a)))
       (dv_offsets d)"

section \<open>Retention\<close>

record RetentionBounds =
  rb_ConsumerGroup :: string
  rb_OutboxBefore :: time
  rb_InboxBefore :: time
  rb_AttemptsBefore :: time
  rb_Batch :: nat

definition prune_outbox :: "RetentionBounds \<Rightarrow> delivery_tables \<Rightarrow> delivery_tables" where
  "prune_outbox b d =
     d\<lparr>dv_outbox := delete_first (rb_Batch b)
         (\<lambda>o'. acknowledged (rb_ConsumerGroup b) d o' \<and> ob_CreatedAt o' < trunc_us (rb_OutboxBefore b)) (dv_outbox d)\<rparr>"

definition prune_inbox :: "RetentionBounds \<Rightarrow> delivery_tables \<Rightarrow> delivery_tables" where
  "prune_inbox b d = d\<lparr>dv_inbox := delete_first (rb_Batch b) (\<lambda>at. at < trunc_us (rb_InboxBefore b)) (dv_inbox d)\<rparr>"

text \<open>\<open>pool.Exec\<close> of a statement on the delivery tables: \<open>others\<close> acts first; the answer is the number of rows that
  went.\<close>

definition exec_delete ::
  "env \<Rightarrow> (nat \<Rightarrow> delivery_tables \<Rightarrow> delivery_tables) \<Rightarrow> (delivery_tables \<Rightarrow> delivery_tables) \<Rightarrow> (delivery, int) eff" where
  "exec_delete E others q s =
     (let w = interfere E (dw_world s); d = others (w_tick (dw_world s)) (dw_tables s); d' = q d in
      if e_fault E (w_tick w) then (Inl (err ErrOther), \<lparr>dw_world = tick w, dw_tables = d\<rparr>)
      else (Inr (int (length (dv_outbox d)) - int (length (dv_outbox d')) + (int (length (dv_inbox d)) - int (length (dv_inbox d')))),
            \<lparr>dw_world = tick w, dw_tables = d'\<rparr>))"

definition exec_attempts :: "env \<Rightarrow> (nat \<Rightarrow> delivery_tables \<Rightarrow> delivery_tables) \<Rightarrow> RetentionBounds \<Rightarrow> (delivery, int) eff" where
  "exec_attempts E others b s =
     (case Retain E (rb_AttemptsBefore b) (rb_Batch b) (dw_world s) of
        (r, w') \<Rightarrow> (r, \<lparr>dw_world = w', dw_tables = others (w_tick (dw_world s)) (dw_tables s)\<rparr>))"

text \<open>The loop over the three statements: it stops at the first error and answers the counts so far.\<close>

fun retain_steps ::
  "(string \<times> (delivery, int) eff) list \<Rightarrow> (string \<times> int) list \<Rightarrow> delivery \<Rightarrow> ((string \<times> int) list \<times> err option) \<times> delivery" where
  "retain_steps [] out s = ((out, None), s)"
| "retain_steps ((table, step) # steps) out s =
     (case step s of
        (Inl e, s') \<Rightarrow> ((out, Some e), s')
      | (Inr n, s') \<Rightarrow> retain_steps steps (out @ [(table, n)]) s')"

definition Retain_delivery ::
  "env \<Rightarrow> (nat \<Rightarrow> delivery_tables \<Rightarrow> delivery_tables) \<Rightarrow> RetentionBounds \<Rightarrow> delivery
     \<Rightarrow> ((string \<times> int) list \<times> err option) \<times> delivery" where
  "Retain_delivery E others b =
     retain_steps [(''outbox'', exec_delete E others (prune_outbox b)), (''inbox'', exec_delete E others (prune_inbox b)),
       (''attempts'', exec_attempts E others b)] []"

section \<open>Age of the oldest message\<close>

definition max_or_zero :: "int option list \<Rightarrow> int" where
  "max_or_zero xs = (case List.map_filter id xs of [] \<Rightarrow> 0 | y # ys \<Rightarrow> fold max ys y)"

definition unforwarded :: "string \<Rightarrow> delivery_tables \<Rightarrow> OutboxRow \<Rightarrow> bool" where
  "unforwarded grp d o' \<longleftrightarrow>
     (let fs = filter (\<lambda>f. of_ConsumerGroup f = grp) (dv_offsets d);
          t = max_or_zero (map of_LastProcessed fs); a = max_or_zero (map of_Acked fs) in
      t < ob_TransactionID o' \<or> t = ob_TransactionID o' \<and> a < ob_Offset o')"

definition OldestUnforwarded :: "string \<Rightarrow> time \<Rightarrow> delivery_tables \<Rightarrow> duration" where
  "OldestUnforwarded grp now d =
     (case filter (unforwarded grp d) (dv_outbox d) of
        [] \<Rightarrow> 0
      | o' # os \<Rightarrow> now - fold min (map ob_CreatedAt os) (ob_CreatedAt o'))"

section \<open>Consumer and publisher\<close>

text \<open>One turn of the consumer's loop: the consumer cannot be created or does not consume, or it delivers messages
  until it closes.  The list of turns ends when the context does.\<close>

datatype consumer_turn = Unavailable | Delivered "bytes list"

definition consumer_first :: duration where
  "consumer_first = second"

fun consume_turns :: "('s \<Rightarrow> bytes \<Rightarrow> 's) \<Rightarrow> duration \<Rightarrow> consumer_turn list \<Rightarrow> 's \<Rightarrow> 's \<times> duration list" where
  "consume_turns handle backoff [] s = (s, [])"
| "consume_turns handle backoff (Delivered ms # turns) s = consume_turns handle consumer_first turns (foldl handle s ms)"
| "consume_turns handle backoff (Unavailable # turns) s =
     (let (s', waits) = consume_turns handle (if backoff < 30 * second then backoff * 2 else backoff) turns s
      in (s', backoff # waits))"

definition Consume :: "bool \<Rightarrow> ('s \<Rightarrow> bytes \<Rightarrow> 's) \<Rightarrow> consumer_turn list \<Rightarrow> 's \<Rightarrow> 's \<times> duration list" where
  "Consume jetstream handle turns s = (if jetstream then consume_turns handle consumer_first turns s else (s, []))"

record publish_counters =
  pc_forwarded :: int
  pc_failures :: int

definition Publish_counted :: "('m list \<Rightarrow> err option) \<Rightarrow> 'm list \<Rightarrow> publish_counters \<Rightarrow> err option \<times> publish_counters" where
  "Publish_counted publish msgs c =
     (case publish msgs of
        Some e \<Rightarrow> (Some e, c\<lparr>pc_failures := pc_failures c + 1\<rparr>)
      | None \<Rightarrow> (None, c\<lparr>pc_forwarded := pc_forwarded c + int (length msgs)\<rparr>))"

section \<open>Lemmas\<close>

lemma delete_first_keeps: "x \<in> set xs \<Longrightarrow> \<not> P x \<Longrightarrow> x \<in> set (delete_first n P xs)"
  by (induction n P xs rule: delete_first.induct) auto

lemma length_delete_first: "length (delete_first n P xs) \<le> length xs" "length xs \<le> length (delete_first n P xs) + n"
  by (induction n P xs rule: delete_first.induct) auto

text \<open>The messages of the group along any run: an acknowledgement stays, and a message that is not acknowledged
  stays.\<close>

definition delivery_R :: "string \<Rightarrow> delivery_tables \<Rightarrow> delivery_tables \<Rightarrow> bool" where
  "delivery_R grp d d' \<longleftrightarrow>
     (\<forall>o'. acknowledged grp d o' \<longrightarrow> acknowledged grp d' o')
     \<and> (\<forall>o'\<in>set (dv_outbox d). acknowledged grp d' o' \<or> o' \<in> set (dv_outbox d'))"

lemma delivery_refl: "delivery_R g d d"
  by (simp add: delivery_R_def)

lemma delivery_trans: "delivery_R g d d' \<Longrightarrow> delivery_R g d' d'' \<Longrightarrow> delivery_R g d d''"
  by (auto simp: delivery_R_def)

lemma acknowledged_update [simp]:
  "acknowledged g (d\<lparr>dv_outbox := os\<rparr>) = acknowledged g d" "acknowledged g (d\<lparr>dv_inbox := is\<rparr>) = acknowledged g d"
  by (simp_all add: acknowledged_def fun_eq_iff)

lemma prunes_keep: "delivery_R (rb_ConsumerGroup b) d (prune_outbox b d)" "delivery_R g d (prune_inbox b d)"
  by (auto simp: delivery_R_def prune_outbox_def prune_inbox_def intro: delete_first_keeps)

lemma exec_delete_keeps:
  assumes "\<And>n d. delivery_R g d (others n d)" "\<And>d. delivery_R g d (q d)" "rely tasks_R E"
    "exec_delete E others q s = (r, s')"
  shows "delivery_R g (dw_tables s) (dw_tables s')" "tasks_R (w_db (dw_world s)) (w_db (dw_world s'))"
proof -
  let ?d = "others (w_tick (dw_world s)) (dw_tables s)"
  have "delivery_R g (dw_tables s) ?d" "delivery_R g (dw_tables s) (q ?d)"
    using assms(1,2) delivery_trans by blast+
  then show "delivery_R g (dw_tables s) (dw_tables s')" using assms(4) by (auto simp: exec_delete_def Let_def split: if_splits)
  show "tasks_R (w_db (dw_world s)) (w_db (dw_world s'))"
    using tasks.R_interfere [OF assms(3)] assms(4) by (auto simp: exec_delete_def Let_def tick_def split: if_splits)
qed

lemma exec_attempts_keeps:
  assumes "\<And>n d. delivery_R g d (others n d)" "rely tasks_R E" "exec_attempts E others b s = (r, s')"
  shows "delivery_R g (dw_tables s) (dw_tables s')" "tasks_R (w_db (dw_world s)) (w_db (dw_world s'))"
  using assms(1,3) keeps_Retain [OF assms(2), of "rb_AttemptsBefore b" "rb_Batch b"]
  by (auto simp: exec_attempts_def keeps_def split: prod.splits) (metis snd_conv)

lemma retain_steps_keeps:
  assumes "\<And>d d' d''. R d d' \<Longrightarrow> R d' d'' \<Longrightarrow> R d d''" "\<And>d. R d d"
    "\<And>table step s r s'. (table, step) \<in> set steps \<Longrightarrow> step s = (r, s') \<Longrightarrow> R s s'"
    "retain_steps steps out s = (x, s')"
  shows "R s s'"
  using assms(3,4)
proof (induction steps out s rule: retain_steps.induct)
  case (2 table step steps out s)
  obtain r t where st: "step s = (r, t)" by fastforce
  then have "R s t" using "2.prems"(1) [of table step s r t] by simp
  moreover have "R t s'" if "r = Inr n" for n
  proof (rule "2.IH" [OF st [symmetric] that])
    show "R u u'" if "(tb, f) \<in> set steps" "f u = (y, u')" for tb f u y u'
      using "2.prems"(1) [of tb f u y u'] that by simp
    show "retain_steps steps (out @ [(table, n)]) t = (x, s')" using "2.prems"(2) st that by simp
  qed
  ultimately show ?case using assms(1) "2.prems"(2) st by (auto split: sum.splits)
qed (use assms(2) in auto)

lemma retain_counts:
  assumes "retain_steps steps out s = ((out', e), s')" "\<forall>(t, n)\<in>set out. P n"
    "\<And>table step s n s'. (table, step) \<in> set steps \<Longrightarrow> step s = (Inr n, s') \<Longrightarrow> P n"
  shows "\<forall>(t, n)\<in>set out'. P n"
  using assms
proof (induction steps out s rule: retain_steps.induct)
  case (2 table step steps out s)
  obtain r t where st: "step s = (r, t)" by fastforce
  show ?case
  proof (cases r)
    case (Inr n)
    have "P n" using "2.prems"(3) [of table step s n t] st Inr by simp
    moreover have "retain_steps steps (out @ [(table, n)]) t = ((out', e), s')" using "2.prems"(1) st Inr by simp
    ultimately show ?thesis
      using "2.IH" [OF st [symmetric] Inr] "2.prems"(2,3) by (simp add: ball_Un) (metis (no_types, lifting))
  qed (use 2 st in simp)
qed simp

lemma step_counts:
  "exec_delete E others (prune_outbox b) s = (Inr n, s') \<Longrightarrow> 0 \<le> n \<and> n \<le> int (rb_Batch b)"
  "exec_delete E others (prune_inbox b) s = (Inr n, s') \<Longrightarrow> 0 \<le> n \<and> n \<le> int (rb_Batch b)"
  "exec_attempts E others b s = (Inr n, s') \<Longrightarrow> 0 \<le> n \<and> n \<le> int (rb_Batch b)"
proof -
  have len: "0 \<le> int (length xs) - int (length (delete_first (rb_Batch b) P xs))"
    "int (length xs) - int (length (delete_first (rb_Batch b) P xs)) \<le> int (rb_Batch b)" for P and xs :: "'x list"
    using length_delete_first [where n = "rb_Batch b" and P = P and xs = xs] by linarith+
  show "exec_delete E others (prune_outbox b) s = (Inr n, s') \<Longrightarrow> 0 \<le> n \<and> n \<le> int (rb_Batch b)"
    using len by (auto simp: exec_delete_def prune_outbox_def Let_def split: if_splits)
  show "exec_delete E others (prune_inbox b) s = (Inr n, s') \<Longrightarrow> 0 \<le> n \<and> n \<le> int (rb_Batch b)"
    using len by (auto simp: exec_delete_def prune_inbox_def Let_def split: if_splits)
  show "exec_attempts E others b s = (Inr n, s') \<Longrightarrow> 0 \<le> n \<and> n \<le> int (rb_Batch b)"
    using len by (auto simp: exec_attempts_def Retain_def pool_query_def query_def Let_def split: if_splits prod.splits)
qed

section \<open>Properties\<close>

text \<open>
  C18. The retention of the delivery tables loses nothing: whatever fails, and whatever the forwarder and other
  replicas do in between as long as acknowledgements stay and unacknowledged messages stay, a message of the
  outbox that the consumer group has not acknowledged by the end is still there; background requests move only
  along their machine; and no table loses more than the batch.
\<close>
theorem retention_keeps_undelivered:
  assumes others: "\<And>n d. delivery_R (rb_ConsumerGroup b) d (others n d)" and rely: "rely tasks_R E"
    and run: "Retain_delivery E others b s = ((out, e), s')"
  shows "(\<forall>o'\<in>set (dv_outbox (dw_tables s)). acknowledged (rb_ConsumerGroup b) (dw_tables s') o' \<or> o' \<in> set (dv_outbox (dw_tables s')))
    \<and> tasks_R (w_db (dw_world s)) (w_db (dw_world s'))
    \<and> (\<forall>(table, n)\<in>set out. 0 \<le> n \<and> n \<le> int (rb_Batch b))"
proof -
  let ?R = "\<lambda>s s'. delivery_R (rb_ConsumerGroup b) (dw_tables s) (dw_tables s') \<and> tasks_R (w_db (dw_world s)) (w_db (dw_world s'))"
  have "?R s s'"
  proof (rule retain_steps_keeps [of ?R])
    show "?R s s''" if "?R s s'" "?R s' s''" for s s' s'' using that delivery_trans tasks.R_trans by blast
    show "?R s s" for s using delivery_refl tasks.R_refl by blast
    show "?R s s'" if "(table, step) \<in> set [(''outbox'', exec_delete E others (prune_outbox b)),
        (''inbox'', exec_delete E others (prune_inbox b)), (''attempts'', exec_attempts E others b)]"
      "step s = (r, s')" for table step s r s'
      using that exec_delete_keeps [OF others prunes_keep(1) rely] exec_delete_keeps [OF others prunes_keep(2) rely]
        exec_attempts_keeps [OF others rely] by auto
  qed (rule run [unfolded Retain_delivery_def])
  moreover have "\<forall>(table, n)\<in>set out. 0 \<le> n \<and> n \<le> int (rb_Batch b)"
    by (rule retain_counts [OF run [unfolded Retain_delivery_def]]) (use step_counts in auto)
  ultimately show ?thesis by (auto simp: delivery_R_def)
qed

text \<open>The gauge and the retention agree: with the one offsets row a group has, a message counts as unforwarded
  exactly when it is not acknowledged.\<close>

lemma unforwarded_iff:
  assumes "filter (\<lambda>f. of_ConsumerGroup f = g) (dv_offsets d) = [f]" "of_LastProcessed f = Some t"
  shows "unforwarded g d o' \<longleftrightarrow> \<not> acknowledged g d o'"
proof -
  have "acknowledged g d o' \<longleftrightarrow> list_ex (\<lambda>f. case of_LastProcessed f of
             None \<Rightarrow> False
           | Some t \<Rightarrow> ob_TransactionID o' < t
               \<or> ob_TransactionID o' = t \<and> ob_Offset o' \<le> (case of_Acked f of None \<Rightarrow> 0 | Some a \<Rightarrow> a))
       (filter (\<lambda>f. of_ConsumerGroup f = g) (dv_offsets d))"
    by (auto simp: acknowledged_def list_ex_iff)
  then show ?thesis using assms by (auto simp: unforwarded_def max_or_zero_def map_filter_simps split: option.splits)
qed

text \<open>Every message that is delivered is handled, in order; and the consumer waits between one and 32 seconds.\<close>

lemma consume_handles:
  "fst (consume_turns handle b turns s) = foldl handle s (concat (map (\<lambda>t. case t of Unavailable \<Rightarrow> [] | Delivered ms \<Rightarrow> ms) turns))"
  by (induction handle b turns s rule: consume_turns.induct) (simp_all add: split_beta Let_def)

lemma consume_waits:
  assumes "b \<in> (\<lambda>k. second * 2 ^ k) ` {..5}"
  shows "set (snd (consume_turns handle b turns s)) \<subseteq> (\<lambda>k. second * 2 ^ k) ` {..5}"
  using assms
proof (induction handle b turns s rule: consume_turns.induct)
  case (2 handle backoff ms turns s)
  have "second \<in> (\<lambda>k. second * 2 ^ k) ` {..5 :: nat}" by (rule image_eqI [of _ _ 0]) simp_all
  with 2(1) show ?case by (simp add: consumer_first_def)
next
  case (3 handle backoff turns s)
  then obtain k where k: "backoff = second * 2 ^ k" "k \<le> 5" by auto
  have "(if backoff < 30 * second then backoff * 2 else backoff) \<in> (\<lambda>k. second * 2 ^ k) ` {..5 :: nat}"
  proof (cases "k = 5")
    case True
    then show ?thesis using k by (auto intro!: image_eqI [of _ _ 5])
  next
    case False
    then have "backoff * 2 = second * 2 ^ Suc k" "Suc k \<le> 5" using k by auto
    then show ?thesis using 3(2) by (metis atMost_iff image_eqI)
  qed
  with 3 show ?case by (auto simp: split_beta Let_def)
qed simp

section \<open>Examples\<close>

definition old_messages :: delivery_tables where
  "old_messages = \<lparr>dv_outbox = [\<lparr>ob_TransactionID = 7, ob_Offset = 1, ob_CreatedAt = 0\<rparr>, \<lparr>ob_TransactionID = 7, ob_Offset = 2, ob_CreatedAt = 0\<rparr>],
     dv_offsets = [\<lparr>of_ConsumerGroup = ''g'', of_LastProcessed = Some 7, of_Acked = Some 1\<rparr>], dv_inbox = [0, 9 * second]\<rparr>"

definition sample_retention :: RetentionBounds where
  "sample_retention = \<lparr>rb_ConsumerGroup = ''g'', rb_OutboxBefore = second, rb_InboxBefore = second, rb_AttemptsBefore = second, rb_Batch = 10\<rparr>"

text \<open>The acknowledged message goes, the other one stays.\<close>

theorem retention_keeps_undelivered_witness:
  "\<exists>out e s'. Retain_delivery sample_env (\<lambda>_ d. d) sample_retention \<lparr>dw_world = \<lparr>w_db = empty_db, w_tick = 0, w_log = []\<rparr>, dw_tables = old_messages\<rparr>
      = ((out, e), s')
    \<and> \<lparr>ob_TransactionID = 7, ob_Offset = 2, ob_CreatedAt = 0\<rparr> \<in> set (dv_outbox (dw_tables s'))
    \<and> \<lparr>ob_TransactionID = 7, ob_Offset = 1, ob_CreatedAt = 0\<rparr> \<notin> set (dv_outbox (dw_tables s'))"
proof -
  let ?s = "\<lparr>dw_world = \<lparr>w_db = empty_db, w_tick = 0, w_log = []\<rparr>, dw_tables = old_messages\<rparr>"
  obtain out e s' where run: "Retain_delivery sample_env (\<lambda>_ d. d) sample_retention ?s = ((out, e), s')"
    by (metis surj_pair)
  then have gone: "\<lparr>ob_TransactionID = 7, ob_Offset = 1, ob_CreatedAt = 0\<rparr> \<notin> set (dv_outbox (dw_tables s'))"
    "\<not> acknowledged ''g'' (dw_tables s') \<lparr>ob_TransactionID = 7, ob_Offset = 2, ob_CreatedAt = 0\<rparr>"
    by (auto simp: Retain_delivery_def exec_delete_def exec_attempts_def old_messages_def sample_retention_def prune_outbox_def
        prune_inbox_def acknowledged_def sample_env_def interfere_def tick_def trunc_us_def split: prod.splits sum.splits)
  moreover have "delivery_R (rb_ConsumerGroup sample_retention) d d" "rely tasks_R sample_env" for d
    using sample_tasks_env by (simp_all add: delivery_refl tasks_env_def)
  ultimately show ?thesis
    using retention_keeps_undelivered [of sample_retention "\<lambda>_ d. d" sample_env, OF _ _ run] run
    by (fastforce simp: sample_retention_def old_messages_def)
qed

end
