(* ===== verification/Operator.thy ===== *)
theory Operator
  imports Bootstrap Control_Client Call_Dispatch Delivery
begin

text \<open>
  The entry points beside the service: the role bindings of the process (\<open>internal/application/authz.go\<close>), the
  operator's reconciliation of one call (\<open>internal/bootstrap/reconcile.go\<close>) and the command line
  (\<open>cmd/anvilkit-agent-mcp/main.go\<close>), and the bounds of a retention pass (\<open>internal/bootstrap/module.go\<close>).  The operator's
  reconciliation composes the configuration, the transports, the client of Control and the call use cases; it is
  shown to send nothing upstream, to move calls only along their machine, and to close the pool it opened.
\<close>

section \<open>Role bindings\<close>

definition binding_fields :: "RoleBinding json_field list" where
  "binding_fields =
    [(''tenantId'', fld_str (\<lambda>v b. b\<lparr>b_TenantID := v\<rparr>)), (''actorId'', fld_str (\<lambda>v b. b\<lparr>b_ActorID := v\<rparr>)),
     (''role'', fld_str (\<lambda>v b. b\<lparr>b_Role := v\<rparr>))]"

fun decode_bindings :: "json list \<Rightarrow> RoleBinding list option" where
  "decode_bindings [] = Some []"
| "decode_bindings (v # vs) =
     (case decode_struct False binding_fields \<lparr>b_TenantID = [], b_ActorID = [], b_Role = []\<rparr> v of
        None \<Rightarrow> None
      | Some b \<Rightarrow> map_option (\<lambda>bs. b # bs) (decode_bindings vs))"

definition LoadRoleBindings :: "filesystem \<Rightarrow> string \<Rightarrow> err + RoleBinding list" where
  "LoadRoleBindings fs path =
     (if path = [] then Inr []
      else (case fs path of
              None \<Rightarrow> Inl (err ErrOther)
            | Some raw \<Rightarrow>
               (case json_parse raw of
                  Some (JArr vs) \<Rightarrow> (case decode_bindings vs of None \<Rightarrow> Inl (err ErrOther) | Some bs \<Rightarrow> Inr bs)
                | Some JNull \<Rightarrow> Inr []
                | _ \<Rightarrow> Inl (err ErrOther))))"

section \<open>Retention pass\<close>

definition retention_bounds :: "Config \<Rightarrow> time \<Rightarrow> RetentionBounds" where
  "retention_bounds cfg now =
     (let r = co_Retention cfg in
      \<lparr>rb_ConsumerGroup = oc_ConsumerGroup (co_Outbox cfg), rb_OutboxBefore = Add now (- rc_Outbox r),
       rb_InboxBefore = Add now (- rc_Inbox r), rb_AttemptsBefore = Add now (- rc_Attempts r), rb_Batch = nat (rc_Batch r)\<rparr>)"

section \<open>Operator reconciliation\<close>

record operator_state =
  os_world :: world
  os_res :: resources

text \<open>The service of the operator: no upstream, no tokens, no routes, no authorizer.\<close>

definition operator_calls :: "Config \<Rightarrow> ControlStub \<Rightarrow> jsonschema \<Rightarrow> Calls" where
  "operator_calls cfg st schemas =
     NewCalls \<lparr>cl_dispatch = control_dispatcher st, cl_upstream = [], cl_tokens = (\<lambda>_ _. Inl nil_call), cl_routes = [],
       cl_opts = \<lparr>co_SendTimeout = clc_SendTimeout (co_Calls cfg), co_ReconcileAge = clc_ReconcileAge (co_Calls cfg),
         co_ReconcileBatch = 0, co_ResolveInterval = 0\<rparr>,
       cl_authz = None, cl_schemas = schemas, cl_closing = (\<lambda>_. False), cl_elapsed = (\<lambda>_. False)\<rparr>"

text \<open>\<open>ReconcileCall\<close>; \<open>dial\<close> is the answer of \<open>control.Dial\<close>.  The deferred \<open>pool.Close\<close> runs on every return after the pool
  is made.\<close>

definition operator_run ::
  "x509 \<Rightarrow> filesystem \<Rightarrow> time \<Rightarrow> (string \<Rightarrow> err + ControlStub) \<Rightarrow> jsonschema \<Rightarrow> env \<Rightarrow> Config \<Rightarrow> string
     \<Rightarrow> (operator_state, Call) eff" where
  "operator_run X fs now dial schemas E cfg callID s =
     (case newWorkloadIdentity X fs now cfg of
        Inl e \<Rightarrow> (Inl e, s)
      | Inr wi \<Rightarrow>
         (case controlTransport X fs now wi cfg (os_res s) of
            (Inl e, r) \<Rightarrow> (Inl e, s\<lparr>os_res := r\<rparr>)
          | (Inr _, r) \<Rightarrow>
             (case dial (cc_Address (co_Control cfg)) of
                Inl e \<Rightarrow> (Inl e, s\<lparr>os_res := r\<rparr>)
              | Inr st \<Rightarrow>
                 (case ReconcileCall E (operator_calls cfg st schemas) callID (os_world s) of
                    (x, w) \<Rightarrow> (x, \<lparr>os_world = w, os_res = r\<rparr>)))))"

definition ReconcileCall_operator ::
  "'k koanf \<Rightarrow> x509 \<Rightarrow> drivers \<Rightarrow> filesystem \<Rightarrow> time \<Rightarrow> string list \<Rightarrow> (string \<Rightarrow> err + ControlStub) \<Rightarrow> jsonschema
     \<Rightarrow> env \<Rightarrow> string \<Rightarrow> (operator_state, Call) eff" where
  "ReconcileCall_operator lib X D fs now environ dial schemas E callID s =
     (case Load_config lib fs now environ of
        Inl e \<Rightarrow> (Inl e, s)
      | Inr gen \<Rightarrow>
         (let cfg = gn_Config gen; r = os_res s; p = rs_next r; r0 = r\<lparr>rs_next := Suc p\<rparr> in
          if cc_Address (co_Control cfg) = [] then (Inl (err ErrOther), s)
          else if \<not> dl_ParseConfig D (db_URL (co_Database cfg)) then (Inl (err ErrOther), s)
          else if \<not> dl_NewPool D p then (Inl (err ErrOther), s\<lparr>os_res := r0\<rparr>)
          else (case operator_run X fs now dial schemas E cfg callID (s\<lparr>os_res := open_pool p r0\<rparr>) of
                  (x, s') \<Rightarrow> (x, s'\<lparr>os_res := close_pool p (os_res s')\<rparr>))))"

section \<open>Command line\<close>

record reconcile_report =
  rr_CallID :: string
  rr_State :: CallState
  rr_FailureCode :: string
  rr_DispatchID :: string
  rr_ServerID :: string
  rr_Observed :: bool
  rr_Note :: bool

definition report_of :: "Call \<Rightarrow> reconcile_report" where
  "report_of call = \<lparr>rr_CallID = c_CallID call, rr_State = c_State call, rr_FailureCode = c_FailureCode call,
     rr_DispatchID = c_DispatchID call, rr_ServerID = c_ServerID call, rr_Observed = (c_ObservedAt call \<noteq> None),
     rr_Note = (c_State call = CallUnknown)\<rparr>"

definition reconcile :: "(string \<Rightarrow> (operator_state, Call) eff) \<Rightarrow> string list \<Rightarrow> (operator_state, reconcile_report) eff" where
  "reconcile rec args s =
     (case args of
        [callID] \<Rightarrow>
          if callID = [] then (Inl (err ErrOther), s)
          else (case rec callID s of
                  (Inl e, s') \<Rightarrow> (Inl e, s')
                | (Inr call, s') \<Rightarrow> (Inr (report_of call), s'))
      | _ \<Rightarrow> (Inl (err ErrOther), s))"

text \<open>What the process does: it serves, or a command prints its report, or it exits with a code.\<close>

datatype process_outcome = Serves | Prints reconcile_report | Exits int

definition main :: "(string \<Rightarrow> (operator_state, Call) eff) \<Rightarrow> string list \<Rightarrow> operator_state \<Rightarrow> process_outcome \<times> operator_state" where
  "main rec args s =
     (case args of
        [] \<Rightarrow> (Serves, s)
      | command # rest \<Rightarrow>
         if command \<noteq> ''reconcile'' then (Exits 2, s)
         else (case reconcile rec rest s of
                 (Inl _, s') \<Rightarrow> (Exits 1, s')
               | (Inr report, s') \<Rightarrow> (Prints report, s')))"

section \<open>Lemmas\<close>

lemma controlTransport_pools:
  "controlTransport X fs now wi cfg r = (x, r') \<Longrightarrow> rs_pools r' = rs_pools r"
  by (auto simp: controlTransport_def Let_def split: if_splits option.splits sum.splits)

definition harmless :: "operator_state \<Rightarrow> operator_state \<Rightarrow> bool" where
  "harmless s s' \<longleftrightarrow>
     calls_R (w_db (os_world s)) (w_db (os_world s')) \<and> rs_pools (os_res s') = rs_pools (os_res s)
     \<and> (\<exists>new. w_log (os_world s') = w_log (os_world s) @ new \<and> (\<forall>i. EvSend i \<notin> set new))"

lemma harmless_same: "os_world s' = os_world s \<Longrightarrow> rs_pools (os_res s') = rs_pools (os_res s) \<Longrightarrow> harmless s s'"
  by (simp add: harmless_def calls.R_refl)

lemma operator_run_harmless:
  assumes "rely calls_R E" "operator_run X fs now dial schemas E cfg callID s = (x, s')"
  shows "harmless s s'"
proof -
  have rec: "calls_R (w_db w) (w_db w')" "\<exists>new. w_log w' = w_log w @ new \<and> (\<forall>i. EvSend i \<notin> set new)"
    if "ReconcileCall E c callID w = (y, w')" for c w y w'
    using keeps_ReconcileCall [OF assms(1), of c callID] quiet_ReconcileCall [of E c callID] that
    unfolding keeps_def quiet_def by (metis snd_conv)+
  show ?thesis
    using assms(2)
    by (auto simp: operator_run_def harmless_def calls.R_refl dest: controlTransport_pools rec split: sum.splits prod.splits)
qed

lemma reconcile_operator_harmless:
  assumes "rely calls_R E" "fresh_ids (os_res s)"
    "ReconcileCall_operator lib X D fs now environ dial schemas E callID s = (x, s')"
  shows "harmless s s'"
proof (cases "\<exists>cfg t y. operator_run X fs now dial schemas E cfg callID (s\<lparr>os_res := open_pool (rs_next (os_res s)) ((os_res s)\<lparr>rs_next := Suc (rs_next (os_res s))\<rparr>)\<rparr>) = (y, t)
    \<and> s' = t\<lparr>os_res := close_pool (rs_next (os_res s)) (os_res t)\<rparr>")
  case True
  then obtain t where "harmless (s\<lparr>os_res := open_pool (rs_next (os_res s)) ((os_res s)\<lparr>rs_next := Suc (rs_next (os_res s))\<rparr>)\<rparr>) t"
    and "s' = t\<lparr>os_res := close_pool (rs_next (os_res s)) (os_res t)\<rparr>" using operator_run_harmless [OF assms(1)] by blast
  moreover have "rs_next (os_res s) \<notin> set (rs_pools (os_res s))" using assms(2) by (auto simp: fresh_ids_def)
  ultimately show ?thesis by (simp add: harmless_def open_pool_def close_pool_def)
next
  case False
  then have "os_world s' = os_world s" "rs_pools (os_res s') = rs_pools (os_res s)"
    using assms(3) by (auto simp: ReconcileCall_operator_def Let_def split: sum.splits if_splits prod.splits)
  then show ?thesis by (rule harmless_same)
qed

section \<open>Properties\<close>

text \<open>
  C19. The command line never sends: whatever the arguments, the configuration and the answers of Control, a run of
  the process other than serving sends no call upstream, moves calls only along their machine, and leaves no pool
  open; a report is printed only for \<open>reconcile\<close> with one call identifier.
\<close>
theorem command_line_never_sends:
  assumes "rely calls_R E" "fresh_ids (os_res s)"
    "main (ReconcileCall_operator lib X D fs now environ dial schemas E) args s = (out, s')"
  shows "harmless s s' \<and> (\<forall>report. out = Prints report \<longrightarrow> (\<exists>callID. callID \<noteq> [] \<and> args = [''reconcile'', callID]))"
proof -
  have "harmless s t" if "reconcile (ReconcileCall_operator lib X D fs now environ dial schemas E) rest s = (y, t)" for rest y t
    using that reconcile_operator_harmless [OF assms(1,2)]
    by (auto simp: reconcile_def intro: harmless_same split: list.splits if_splits sum.splits prod.splits)
  then have "harmless s s'"
    using assms(3) by (auto simp: main_def intro: harmless_same split: list.splits if_splits sum.splits prod.splits)
  moreover have "\<exists>callID. callID \<noteq> [] \<and> args = [''reconcile'', callID]" if "out = Prints report" for report
    using that assms(3) by (auto simp: main_def reconcile_def split: list.splits if_splits sum.splits prod.splits)
  ultimately show ?thesis by blast
qed

text \<open>The reconciliation of an unknown call.\<close>

theorem command_line_never_sends_witness:
  "\<exists>out s'. main (ReconcileCall_operator sample_koanf simple_x509 good_drivers config_files sample_noon [] (\<lambda>_. Inr denying_stub)
        (cl_schemas sample_calls) sample_env) [''reconcile'', ''k1''] \<lparr>os_world = call_world CallUnknown, os_res = no_resources\<rparr> = (out, s')
     \<and> harmless \<lparr>os_world = call_world CallUnknown, os_res = no_resources\<rparr> s'"
proof -
  let ?s = "\<lparr>os_world = call_world CallUnknown, os_res = no_resources\<rparr>"
  let ?rec = "ReconcileCall_operator sample_koanf simple_x509 good_drivers config_files sample_noon [] (\<lambda>_. Inr denying_stub)
        (cl_schemas sample_calls) sample_env"
  obtain out s' where run: "main ?rec [''reconcile'', ''k1''] ?s = (out, s')" by fastforce
  have "fresh_ids (os_res ?s)" by (simp add: no_resources_sel)
  from command_line_never_sends [OF sample_rely_calls this run] run show ?thesis by blast
qed

end
