(* ===== verification/Spec2Isabelle.thy ===== *)
theory Spec2Isabelle
  imports Task_Refinement Call_Dispatch Network_Policy Refresh_Safety App_Projection
    Grpc_Handlers Connection_Layer Identity_Client Operator
begin

text \<open>
  Verification of the MCP owner service (\<open>anvilkit-agent-mcp\<close>): the service that owns an
  organisation's catalog of MCP servers, the grants to use them, the guarded calls to their tools and
  the background tasks around them.

  \<^bold>\<open>The program.\<close>  The domain rules (\<open>src/internal/domain\<close>) are pure decisions.  The use cases
  (\<open>src/internal/application\<close>) run them inside transactions of the owner store
  (\<open>src/internal/adapters/postgres\<close>), talk to Control, to the connection layer and to the MCP servers
  outside every lock, and publish events through the outbox.  Adapters and transports translate.

  \<^bold>\<open>The library.\<close>  One theory per component, in the order the code composes them:

  \<^item> \<open>Go_Prelude\<close>, \<open>Go_Digest\<close>, \<open>Go_Json\<close>, \<open>Go_Base64\<close>, \<open>Go_Net\<close>, \<open>Go_Time\<close>: what the source uses of Go
    and its standard library: strings and slices, time, errors by their sentinel, 64-bit integers as
    words, SHA-256, the JSON decoder, base64url, IP addresses, URLs and their queries, RFC 3339.  The one lemma that needs
    digests not to collide says so.
  \<^item> \<open>Task\<close>, \<open>Catalog\<close>, \<open>Grant\<close>, \<open>Call\<close>: the domain (\<open>task.go\<close>, \<open>catalog.go\<close>, \<open>grant.go\<close>, \<open>call.go\<close>,
    \<open>event.go\<close>), a record per struct and a function per rule.
  \<^item> \<open>Store\<close>: rows, the database as a record of tables (lists of rows), operations as functions from a
    \<open>world\<close> (database, number of interactions, log of calls to other systems) to a result or an error
    and a new world, \<open>InTx\<close> and the queries on the pool (\<open>store.go\<close>, \<open>sqlc/models.go\<close>).
  \<^item> \<open>Queries\<close>: the statements of \<open>sqlc/*.sql.go\<close> on those tables and the conversions of rows.
  \<^item> \<open>App_Tasks\<close>, \<open>App_Authz\<close>, \<open>App_Grants\<close>, \<open>App_Catalog\<close>, \<open>App_Calls\<close>: the use cases \<open>tasks.go\<close>,
    \<open>authz.go\<close>, \<open>grants.go\<close>, \<open>catalog.go\<close> and \<open>calls.go\<close>, every handler with its guards, queries and
    calls in the order of the code.
  \<^item> \<open>App_Refresh\<close>, \<open>App_Projection\<close>: the catalog refresh (\<open>refresh.go\<close>) and the credential projection of the
    committed events (\<open>projection.go\<close>).
  \<^item> \<open>Upstream_Egress\<close>, \<open>Upstream_Auth\<close>, \<open>Upstream_Session\<close>: the guarded HTTP client, the authority with its
    token cache, the send route and the discovery (\<open>src/internal/adapters/upstream\<close>).
  \<^item> \<open>Control_Client\<close>, \<open>Connection_Layer\<close>: the clients of Control (\<open>adapters/control\<close>) and of ContextForge
    (\<open>adapters/contextforge\<close>), instances of the ports the use cases take as parameters.
  \<^item> \<open>Identity\<close>, \<open>Identity_Client\<close>, \<open>Grpc_Server\<close>, \<open>Grpc_Handlers\<close>: workload identities, the method policy, the
    material and its reloads, and what its clients trust (\<open>transport/identity\<close>); the access matrix, the interceptors, the mapping of errors and every
    handler with its messages (\<open>transport/grpc\<close>).
  \<^item> \<open>Config\<close>, \<open>Bootstrap\<close>: the configuration with its sources and rules (\<open>config.go\<close>, \<open>apollo.go\<close>), and the
    assembly of the process: transports, generations and their reloads, schema, health, start and stop
    (\<open>src/internal/bootstrap\<close>).
  \<^item> \<open>Delivery\<close>, \<open>Operator\<close>: the retention of the delivery tables, the consumer's loop and the counting publisher
    (\<open>adapters/outbox\<close>); the role bindings' file, the operator's reconciliation (\<open>bootstrap/reconcile.go\<close>) and
    the command line (\<open>src/cmd\<close>).
  \<^item> \<open>Rows\<close>, \<open>Task_Refinement\<close>, \<open>Grant_Barrier\<close>, \<open>Catalog_Lifecycle\<close>, \<open>Call_Lifecycle\<close>, \<open>Call_Sends\<close>,
    \<open>Call_Dispatch\<close>, \<open>Network_Policy\<close>, \<open>Refresh_Safety\<close>: what the use cases keep and achieve.

  \<^bold>\<open>Failures and interference.\<close>  The environment \<open>env\<close> decides, by the number of the interaction,
  which query fails, whether a commit is applied, refused or applied with its answer lost, what other
  replicas do to the database between interactions, the clocks and fresh identifiers.  Transactions
  are atomic and serialised: the row locks the source takes make its transactions so on the rows they
  touch.  A property that speaks of other replicas assumes (\<open>rely\<close>) that they change the database only
  along the relation the operations here are proved to keep, the guarantee of the same program.  The
  locale \<open>evolution\<close> holds the rely-guarantee rules once; every table's machine interprets it through
  \<open>Rows\<close>.  The locale \<open>claims\<close> holds the argument that an effect claimed by a committed change happens
  at most once; the marker of a call interprets it.  The locale \<open>token_cache\<close> holds what the eviction of
  tokens promises; the authority interprets it and the projection rests on it.

  \<^bold>\<open>What the lemmas show.\<close>  \<open>Task\<close>: the state machine of a task generation with its invariant, bounds
  and idempotence; \<open>Task_Refinement\<close>: any sequence of handlers refines it.  \<open>Grant\<close>, \<open>Catalog\<close>: grants
  and descriptors stay within what was reviewed and live.  \<open>Grant_Barrier\<close>: the barrier of a grant and
  that a revocation denies from its return.  \<open>Catalog_Lifecycle\<close>: the review states, four eyes, and
  that disabling ends the grants.  \<open>App_Authz\<close>: separation of roles.  \<open>Network_Policy\<close>: the address and
  host rules as ranges.  \<open>Call_Lifecycle\<close> and \<open>Call_Sends\<close>: the machine of a call and that it is sent at
  most once, only under an executable grant.  \<open>Call_Dispatch\<close>: one undisturbed dispatch completes a
  call, \<open>Create\<close> answers, and what a recorded call implies.  \<open>Store\<close>: transactions are all or nothing.
  \<open>Refresh_Safety\<close>: an unchanged server never drifts, and an accepted drift disables its revision.
  \<open>App_Projection\<close>: an event evicts exactly the tokens of what it withdraws.  \<open>Upstream_Egress\<close>: dials and
  requests stay at reviewed hosts and addresses.  \<open>Upstream_Auth\<close>: a token is only used for the grant it
  was issued for.  \<open>Upstream_Session\<close>: an opened session is the reviewed server's, what discovery reads
  is a lock that the same server passes, and outcomes are classified.  \<open>Identity\<close>: identities round trip,
  and a reload closes connections of a retired root; \<open>Identity_Client\<close>: which clients follow a reload.  \<open>Grpc_Handlers\<close>: a handler runs only for a permitted
  workload, and numbers round trip on the wire.  \<open>Config\<close>: a loaded production configuration is protected,
  and a release is current and names no secret.  \<open>Bootstrap\<close>: reloads keep one generation, and what a failed
  start and a rejected candidate leave behind.  \<open>Control_Client\<close>: an external lease is released on Control's
  word only.  \<open>Connection_Layer\<close>: a discovery stays at the placement and sends at most eight requests.
  \<open>Delivery\<close>: retention keeps what is not acknowledged, and the gauge of the oldest message agrees with it.
  \<open>Operator\<close>: the command line never sends.

  \<^bold>\<open>Bounds and fuel.\<close>  \<open>parse_ipv6_groups\<close> reads at most eight groups.  The token walk of \<open>Call\<close> has
  the length of its input as fuel, one token per unit.  \<open>Create_call n\<close> allows \<open>n\<close> recursive calls of
  \<open>Create\<close>; \<open>create_call_answers\<close> shows that one is enough.  \<open>reconcile_pages n\<close> is a pass whose context
  ends after \<open>n\<close> pages; the code tests the context at the same place.  The decoders of JSON text and
  the skipping of spaces have the length of their input as fuel and consume a character per unit.
  \<open>Watch\<close>, \<open>watchSchema\<close> and \<open>Consume\<close> run over the list of ticks or turns that occur before the context ends.

  \<^bold>\<open>Parameters.\<close>  Control (\<open>PolicyRegistry\<close>, \<open>ToolDispatcher\<close>, below them the stub \<open>ControlStub\<close>), the
  connection layer (below it \<open>ForgeServer\<close>), the resolver, the access tokens, the upstream connections,
  the casbin enforcer, the JSON Schema compiler and the unique constraints of the schema are arguments;
  what is relied on is a named hypothesis (\<open>casbin_rbac\<close>, \<open>request_pk\<close>, \<open>call_pk\<close>, \<open>call_unique\<close>).  So are
  the MCP SDK's session, the parser of certificates (\<open>x509\<close>), the request validator, koanf, the drivers of
  PostgreSQL and NATS (\<open>drivers\<close>) and the Unicode table of printable runes.

  \<^bold>\<open>Not modelled.\<close>  Metrics, logging and the exporter of traces have no effect on the results.  The
  forwarder's run loop is that of the message broker's library; the tickers of the background loops only
  decide when the modelled operations run.  The cryptography of TLS and the serving of gRPC are their
  libraries'.  The flags of the development command \<open>local-check\<close>, a front end of the task use cases, and the
  support code of the tests are left out.
\<close>

end
